(* ===== verification/Prelude.thy ===== *)
theory Prelude
  imports Main "HOL-Library.List_Lexorder" "HOL-Library.Char_ord" "HOL-Library.Sublist"
begin

text \<open>
  Shared vocabulary of the development: Go errors and panics as values, the
  state-and-error programs the controllers are written in, the parts of Go's
  \<open>strings\<close>, \<open>strconv\<close> and \<open>fmt\<close> packages the sources use, fixed-width integers
  with the wrap-around written out, and the generic list lemmas.

  Conventions. A Go \<open>error\<close> is \<open>Errorf\<close> with its message; a run-time panic
  (nil dereference, division by zero) is \<open>Panic\<close> and is never caught by an
  \<open>if err != nil\<close>. A message keeps the literal words of the source and the
  message of the error it wraps, and leaves out the printed values.  Strings are
  lists of bytes; case folding is the ASCII one, which is what the keywords,
  flags, protocols and identifiers that reach it consist of.
\<close>

named_theorems prog_simps \<open>evaluation of state-and-error programs\<close>
named_theorems go_string_simps \<open>evaluation of Go string operations\<close>

subsection \<open>Errors and results\<close>

datatype go_error = Errorf string | Panic string

type_synonym 'a res = "go_error + 'a"

fun wrap_err :: "string \<Rightarrow> go_error \<Rightarrow> go_error" where
  "wrap_err p (Errorf e) = Errorf (p @ e)"
| "wrap_err p (Panic e) = Panic e"

definition wrap_res :: "string \<Rightarrow> 'a res \<Rightarrow> 'a res" where
  "wrap_res p r = (case r of Inl e \<Rightarrow> Inl (wrap_err p e) | Inr x \<Rightarrow> Inr x)"

fun is_panic :: "go_error \<Rightarrow> bool" where
  "is_panic (Errorf _) = False"
| "is_panic (Panic _) = True"

definition bind_res :: "'a res \<Rightarrow> ('a \<Rightarrow> 'b res) \<Rightarrow> 'b res" where
  "bind_res r f = (case r of Inl e \<Rightarrow> Inl e | Inr x \<Rightarrow> f x)"

text \<open>A Go loop that collects results and returns at the first error.\<close>

fun map_res :: "('a \<Rightarrow> 'b res) \<Rightarrow> 'a list \<Rightarrow> 'b list res" where
  "map_res f [] = Inr []"
| "map_res f (x # xs) =
     (case f x of Inl e \<Rightarrow> Inl e
      | Inr y \<Rightarrow> (case map_res f xs of Inl e \<Rightarrow> Inl e | Inr ys \<Rightarrow> Inr (y # ys)))"

text \<open>A Go loop whose body may skip the element (\<open>continue\<close>).\<close>

fun mapopt_res :: "('a \<Rightarrow> 'b option res) \<Rightarrow> 'a list \<Rightarrow> 'b list res" where
  "mapopt_res f [] = Inr []"
| "mapopt_res f (x # xs) =
     (case f x of Inl e \<Rightarrow> Inl e
      | Inr None \<Rightarrow> mapopt_res f xs
      | Inr (Some y) \<Rightarrow>
          (case mapopt_res f xs of Inl e \<Rightarrow> Inl e | Inr ys \<Rightarrow> Inr (y # ys)))"

lemma bind_res_simps [simp]:
  "bind_res (Inl e) f = Inl e" "bind_res (Inr x) f = f x"
  by (simp_all add: bind_res_def)

lemma wrap_res_simps [simp]:
  "wrap_res p (Inl e) = Inl (wrap_err p e)" "wrap_res p (Inr x) = Inr x"
  by (simp_all add: wrap_res_def)

lemma bind_res_Inr_iff:
  "bind_res r f = Inr y \<longleftrightarrow> (\<exists>x. r = Inr x \<and> f x = Inr y)"
  by (cases r) auto

lemma wrap_res_Inr_iff [simp]: "wrap_res p r = Inr x \<longleftrightarrow> r = Inr x"
  by (cases r) auto

lemma map_res_Inr_length: "map_res f xs = Inr ys \<Longrightarrow> length ys = length xs"
  by (induction xs arbitrary: ys) (auto split: sum.splits)

lemma map_res_Inr_nth:
  "map_res f xs = Inr ys \<Longrightarrow> i < length xs \<Longrightarrow> f (xs ! i) = Inr (ys ! i)"
proof (induction xs arbitrary: ys i)
  case Nil
  then show ?case by simp
next
  case (Cons x xs)
  then show ?case by (cases i) (auto split: sum.splits)
qed

lemma map_res_Inr_iff:
  "map_res f xs = Inr ys \<longleftrightarrow> list_all2 (\<lambda>x y. f x = Inr y) xs ys"
proof (induction xs arbitrary: ys)
  case Nil
  then show ?case by auto
next
  case (Cons x xs)
  then show ?case
    by (cases "f x"; cases "map_res f xs") (auto simp: list_all2_Cons1 simp flip: Cons.IH)
qed

lemma map_res_pure: "map_res (\<lambda>x. Inr (f x)) xs = Inr (map f xs)"
  by (induction xs) auto

lemma map_res_set:
  "map_res f xs = Inr ys \<Longrightarrow> y \<in> set ys \<Longrightarrow> \<exists>x \<in> set xs. f x = Inr y"
  by (induction xs arbitrary: ys) (auto split: sum.splits)

lemma mapopt_res_set:
  "mapopt_res f xs = Inr ys \<Longrightarrow> y \<in> set ys \<Longrightarrow> \<exists>x \<in> set xs. f x = Inr (Some y)"
  by (induction xs arbitrary: ys) (auto split: sum.splits option.splits)

lemma mapopt_res_complete:
  "mapopt_res f xs = Inr ys \<Longrightarrow> x \<in> set xs \<Longrightarrow> \<exists>r. f x = Inr r \<and> (\<forall>y. r = Some y \<longrightarrow> y \<in> set ys)"
  by (induction xs arbitrary: ys) (auto split: sum.splits option.splits)

subsection \<open>Lists without duplicates\<close>

text \<open>The loops that keep the first element of each key.\<close>

fun keep_first :: "('a \<Rightarrow> 'k) \<Rightarrow> 'k list \<Rightarrow> 'a list \<Rightarrow> 'a list" where
  "keep_first key seen [] = []"
| "keep_first key seen (x # xs) =
     (if key x \<in> set seen then keep_first key seen xs else x # keep_first key (key x # seen) xs)"

lemma keep_first_subset: "set (keep_first key seen xs) \<subseteq> set xs"
  by (induction key seen xs rule: keep_first.induct) auto

lemma keep_first_distinct:
  "distinct (map key (keep_first key seen xs)) \<and> key ` set (keep_first key seen xs) \<inter> set seen = {}"
  by (induction key seen xs rule: keep_first.induct) auto

lemma distinct_keep_first: "distinct (keep_first key seen xs)"
proof -
  have "distinct (map key (keep_first key seen xs))" using keep_first_distinct by blast
  then show ?thesis by (simp only: distinct_map)
qed

lemma keep_first_keys: "key ` set (keep_first key seen xs) = key ` set xs - set seen"
  by (induction key seen xs rule: keep_first.induct) auto


subsection \<open>State-and-error programs\<close>

text \<open>
  A method that calls the cloud or the API server is a function of the state it
  runs in.  It returns its result together with the state it leaves behind, also
  when it fails: what was already sent stays sent.
\<close>

type_synonym ('s, 'a) prog = "'s \<Rightarrow> 'a res \<times> 's"

definition returnP :: "'a \<Rightarrow> ('s, 'a) prog" where
  "returnP x = (\<lambda>s. (Inr x, s))"

definition throwP :: "go_error \<Rightarrow> ('s, 'a) prog" where
  "throwP e = (\<lambda>s. (Inl e, s))"

definition liftP :: "'a res \<Rightarrow> ('s, 'a) prog" where
  "liftP r = (\<lambda>s. (r, s))"

definition bindP :: "('s, 'a) prog \<Rightarrow> ('a \<Rightarrow> ('s, 'b) prog) \<Rightarrow> ('s, 'b) prog" where
  "bindP m f = (\<lambda>s. case m s of (Inl e, t) \<Rightarrow> (Inl e, t) | (Inr x, t) \<Rightarrow> f x t)"

definition wrapP :: "string \<Rightarrow> ('s, 'a) prog \<Rightarrow> ('s, 'a) prog" where
  "wrapP p m = (\<lambda>s. case m s of (r, t) \<Rightarrow> (wrap_res p r, t))"

text \<open>The error as a value (\<open>x, err := f()\<close>); a panic still unwinds.\<close>

definition tryP :: "('s, 'a) prog \<Rightarrow> ('s, 'a res) prog" where
  "tryP m = (\<lambda>s. case m s of
      (Inl (Panic e), t) \<Rightarrow> (Inl (Panic e), t)
    | (Inl (Errorf e), t) \<Rightarrow> (Inr (Inl (Errorf e)), t)
    | (Inr x, t) \<Rightarrow> (Inr (Inr x), t))"

fun forP :: "('a \<Rightarrow> ('s, unit) prog) \<Rightarrow> 'a list \<Rightarrow> ('s, unit) prog" where
  "forP f [] = returnP ()"
| "forP f (x # xs) = bindP (f x) (\<lambda>_. forP f xs)"

fun foldP :: "('a \<Rightarrow> 'b \<Rightarrow> ('s, 'b) prog) \<Rightarrow> 'a list \<Rightarrow> 'b \<Rightarrow> ('s, 'b) prog" where
  "foldP f [] b = returnP b"
| "foldP f (x # xs) b = bindP (f x b) (\<lambda>b'. foldP f xs b')"

text \<open>A loop that collects its results and returns at the first error.\<close>

fun mapP :: "('a \<Rightarrow> ('s, 'b) prog) \<Rightarrow> 'a list \<Rightarrow> ('s, 'b list) prog" where
  "mapP f [] = returnP []"
| "mapP f (x # xs) = bindP (f x) (\<lambda>y. bindP (mapP f xs) (\<lambda>ys. returnP (y # ys)))"

lemma prog_run [prog_simps]:
  "returnP x s = (Inr x, s)"
  "throwP e s = (Inl e, s)"
  "liftP r s = (r, s)"
  "bindP m f s = (case m s of (Inl e, t) \<Rightarrow> (Inl e, t) | (Inr x, t) \<Rightarrow> f x t)"
  "wrapP p m s = (case m s of (r, t) \<Rightarrow> (wrap_res p r, t))"
  "tryP m s = (case m s of
      (Inl (Panic e), t) \<Rightarrow> (Inl (Panic e), t)
    | (Inl (Errorf e), t) \<Rightarrow> (Inr (Inl (Errorf e)), t)
    | (Inr x, t) \<Rightarrow> (Inr (Inr x), t))"
  by (simp_all add: returnP_def throwP_def liftP_def bindP_def wrapP_def tryP_def)

lemma bindP_liftP_Inr [simp]: "bindP (liftP (Inr x)) f = f x"
  by (rule ext) (simp add: prog_simps)

lemma bindP_liftP_Inl [simp]: "bindP (liftP (Inl e)) f = throwP e"
  by (rule ext) (simp add: prog_simps)

lemma bindP_Inr_iff: "bindP m f s = (Inr x, t) \<longleftrightarrow> (\<exists>y u. m s = (Inr y, u) \<and> f y u = (Inr x, t))"
  by (auto simp: bindP_def split: prod.splits sum.splits)

lemmas prog_Inr = bindP_Inr_iff returnP_def liftP_def throwP_def

lemma mapP_Inr: "mapP f xs s = (Inr ys, t) \<Longrightarrow> list_all2 (\<lambda>x y. \<exists>u v. f x u = (Inr y, v)) xs ys"
proof (induction xs arbitrary: s ys t)
  case (Cons x xs)
  then obtain y u zs v where "f x s = (Inr y, u)" and rest: "mapP f xs u = (Inr zs, v)" and "ys = y # zs"
    by (auto simp: prog_Inr)
  with Cons.IH [OF rest] show ?case by auto
qed (simp add: returnP_def)

lemma forP_succeeds:
  assumes "\<And>x t. x \<in> A \<Longrightarrow> fst (f x t) = Inr ()" and "set xs \<subseteq> A"
  shows "fst (forP f xs t) = Inr ()"
  using assms(2)
proof (induction xs arbitrary: t)
  case Nil
  then show ?case by (simp add: returnP_def)
next
  case (Cons x xs)
  then have "fst (f x t) = Inr ()" using assms(1) by simp
  then obtain t' where "f x t = (Inr (), t')" by (metis prod.collapse)
  with Cons show ?case by (simp add: bindP_def)
qed

subsection \<open>Calls and their log\<close>

text \<open>
  The world outside the controller is a parameter: its state has any type, and
  each of its operations is a function that answers and moves that state.  A
  program's state extends \<open>effects\<close> with what the component keeps itself; the log
  records every call in order, so that a theorem can say what was sent.
\<close>

record ('w, 'c) effects =
  fx_world :: 'w
  fx_calls :: "'c list"

definition invoke :: "'c \<Rightarrow> ('w \<Rightarrow> 'a res \<times> 'w) \<Rightarrow> (('w, 'c, 'z) effects_scheme, 'a) prog" where
  "invoke c f = (\<lambda>s. case f (fx_world s) of
     (r, w) \<Rightarrow> (r, s\<lparr>fx_world := w, fx_calls := fx_calls s @ [c]\<rparr>))"

text \<open>
  \<open>emits P Q m\<close>: from every state \<open>m\<close> only appends calls that satisfy \<open>P\<close> to the
  log, and a value it returns satisfies \<open>Q\<close>.
\<close>

definition emits ::
  "('c \<Rightarrow> bool) \<Rightarrow> ('a \<Rightarrow> bool) \<Rightarrow> (('w, 'c, 'z) effects_scheme, 'a) prog \<Rightarrow> bool" where
  "emits P Q m \<longleftrightarrow> (\<forall>s. \<exists>cs. fx_calls (snd (m s)) = fx_calls s @ cs \<and> (\<forall>c \<in> set cs. P c) \<and>
     (\<forall>x. fst (m s) = Inr x \<longrightarrow> Q x))"

named_theorems emits_intros \<open>rules of the call-log logic\<close>

lemma emitsI:
  "(\<And>s. \<exists>cs. fx_calls (snd (m s)) = fx_calls s @ cs \<and> (\<forall>c \<in> set cs. P c) \<and>
     (\<forall>x. fst (m s) = Inr x \<longrightarrow> Q x)) \<Longrightarrow> emits P Q m"
  by (simp add: emits_def)

lemma emitsD:
  assumes "emits P Q m" and "m s = (r, t)"
  obtains cs where "fx_calls t = fx_calls s @ cs" and "\<forall>c \<in> set cs. P c"
    and "\<And>x. r = Inr x \<Longrightarrow> Q x"
  using assms unfolding emits_def by (metis fst_conv snd_conv)

lemma emits_return [emits_intros]: "Q x \<Longrightarrow> emits P Q (returnP x)"
  by (simp add: emits_def returnP_def)

lemma emits_throw [emits_intros]: "emits P Q (throwP e)"
  by (simp add: emits_def throwP_def)

lemma emits_lift [emits_intros]: "(\<And>x. r = Inr x \<Longrightarrow> Q x) \<Longrightarrow> emits P Q (liftP r)"
  by (simp add: emits_def liftP_def)

lemma emits_invoke [emits_intros]:
  fixes f :: "'a \<Rightarrow> 'c res \<times> 'a" and c :: 'b
  assumes "P c" and "\<And>w x w'. f w = (Inr x, w') \<Longrightarrow> Q x"
  shows "emits P Q (invoke c f :: (('a, 'b, 'd) effects_scheme, 'c) prog)"
proof (rule emitsI)
  fix s :: "('a, 'b, 'd) effects_scheme"
  obtain r w where "f (fx_world s) = (r, w)" by (cases "f (fx_world s)")
  with assms show "\<exists>cs. fx_calls (snd (invoke c f s)) = fx_calls s @ cs \<and> (\<forall>c \<in> set cs. P c) \<and>
     (\<forall>x. fst (invoke c f s) = Inr x \<longrightarrow> Q x)"
    by (auto simp: invoke_def)
qed

lemma emits_bind:
  assumes m: "emits P R m" and f: "\<And>x. R x \<Longrightarrow> emits P Q (f x)"
  shows "emits P Q (bindP m f)"
proof (rule emitsI)
  fix s
  obtain r t where rt: "m s = (r, t)" by (cases "m s")
  obtain cs where cs: "fx_calls t = fx_calls s @ cs" "\<forall>c \<in> set cs. P c"
    and R: "\<And>x. r = Inr x \<Longrightarrow> R x"
    using emitsD [OF m rt] by blast
  show "\<exists>cs. fx_calls (snd (bindP m f s)) = fx_calls s @ cs \<and> (\<forall>c \<in> set cs. P c) \<and>
     (\<forall>x. fst (bindP m f s) = Inr x \<longrightarrow> Q x)"
  proof (cases r)
    case (Inl e)
    with rt cs show ?thesis by (auto simp: bindP_def)
  next
    case (Inr x)
    from f [OF R [OF Inr]] obtain ds where
      "fx_calls (snd (f x t)) = fx_calls t @ ds" "\<forall>c \<in> set ds. P c"
      "\<forall>y. fst (f x t) = Inr y \<longrightarrow> Q y"
      unfolding emits_def by blast
    with rt Inr cs show ?thesis by (intro exI [of _ "cs @ ds"]) (auto simp: bindP_def)
  qed
qed

lemma emits_mono:
  "emits P Q m \<Longrightarrow> (\<And>c. P c \<Longrightarrow> P' c) \<Longrightarrow> (\<And>x. Q x \<Longrightarrow> Q' x) \<Longrightarrow> emits P' Q' m"
  unfolding emits_def by meson

lemma emits_wrap [emits_intros]: "emits P Q m \<Longrightarrow> emits P Q (wrapP p m)"
  by (auto simp: emits_def wrapP_def split: prod.splits) (metis fst_conv snd_conv)

lemma emits_try [emits_intros]:
  assumes "emits P Q m"
  shows "emits P (\<lambda>r. \<forall>x. r = Inr x \<longrightarrow> Q x) (tryP m)"
proof (rule emitsI)
  fix s
  obtain r t where rt: "m s = (r, t)" by (cases "m s")
  obtain cs where "fx_calls t = fx_calls s @ cs" "\<forall>c \<in> set cs. P c"
    and "\<And>x. r = Inr x \<Longrightarrow> Q x"
    using emitsD [OF assms rt] by blast
  with rt show "\<exists>cs. fx_calls (snd (tryP m s)) = fx_calls s @ cs \<and> (\<forall>c \<in> set cs. P c) \<and>
     (\<forall>x. fst (tryP m s) = Inr x \<longrightarrow> (\<forall>y. x = Inr y \<longrightarrow> Q y))"
    by (auto simp: tryP_def split: sum.splits go_error.splits)
qed

lemma emits_if [emits_intros]:
  "(b \<Longrightarrow> emits P Q m) \<Longrightarrow> (\<not> b \<Longrightarrow> emits P Q n) \<Longrightarrow> emits P Q (if b then m else n)"
  by simp

lemma emits_case_option [emits_intros]:
  "(x = None \<Longrightarrow> emits P Q m) \<Longrightarrow> (\<And>y. x = Some y \<Longrightarrow> emits P Q (f y)) \<Longrightarrow>
   emits P Q (case x of None \<Rightarrow> m | Some y \<Rightarrow> f y)"
  by (cases x) auto

lemma emits_case_sum [emits_intros]:
  "(\<And>e. x = Inl e \<Longrightarrow> emits P Q (g e)) \<Longrightarrow> (\<And>y. x = Inr y \<Longrightarrow> emits P Q (f y)) \<Longrightarrow>
   emits P Q (case x of Inl e \<Rightarrow> g e | Inr y \<Rightarrow> f y)"
  by (cases x) auto

lemma emits_case_prod [emits_intros]:
  "(\<And>a b. x = (a, b) \<Longrightarrow> emits P Q (f a b)) \<Longrightarrow> emits P Q (case x of (a, b) \<Rightarrow> f a b)"
  by (cases x) auto

lemma emits_for:
  assumes "\<And>x. x \<in> set xs \<Longrightarrow> emits P (\<lambda>_. True) (f x)"
  shows "emits P (\<lambda>_. True) (forP f xs)"
  using assms
proof (induction xs)
  case Nil
  then show ?case by (simp add: emits_return)
next
  case (Cons x xs)
  then show ?case by (auto intro!: emits_bind [where R = "\<lambda>_. True"])
qed

lemma emits_fold:
  assumes "\<And>x b. x \<in> set xs \<Longrightarrow> Q b \<Longrightarrow> emits P Q (f x b)" and "Q b"
  shows "emits P Q (foldP f xs b)"
  using assms
proof (induction xs arbitrary: b)
  case Nil
  then show ?case by (simp add: emits_return)
next
  case (Cons x xs)
  then show ?case by (auto intro!: emits_bind [where R = Q])
qed

text \<open>The same without a claim about the result; its rules suit backward chaining.\<close>

abbreviation only_calls :: "('c \<Rightarrow> bool) \<Rightarrow> (('w, 'c, 'z) effects_scheme, 'a) prog \<Rightarrow> bool" where
  "only_calls P m \<equiv> emits P (\<lambda>_. True) m"

lemma only_bind [emits_intros]:
  "only_calls P m \<Longrightarrow> (\<And>x. only_calls P (f x)) \<Longrightarrow> only_calls P (bindP m f)"
  by (rule emits_bind [where R = "\<lambda>_. True"]) auto

lemma only_try [emits_intros]: "only_calls P m \<Longrightarrow> only_calls P (tryP m)"
  by (rule emits_mono [OF emits_try]) auto

lemma only_fold [emits_intros]: "(\<And>x b. only_calls P (f x b)) \<Longrightarrow> only_calls P (foldP f xs b)"
  by (rule emits_fold) auto

lemma only_for [emits_intros]: "(\<And>x. x \<in> set xs \<Longrightarrow> only_calls P (f x)) \<Longrightarrow> only_calls P (forP f xs)"
  by (rule emits_for) auto

lemma only_weaken: "only_calls P m \<Longrightarrow> (\<And>c. P c \<Longrightarrow> P' c) \<Longrightarrow> only_calls P' m"
  by (erule emits_mono) auto

lemma emits_run:
  assumes "emits P Q m" and "m s = (r, t)" and "fx_calls s = []" and "c \<in> set (fx_calls t)"
  shows "P c"
  using emitsD [OF assms(1,2)] assms(3,4) by (metis append_Nil)

subsection \<open>Planned calls\<close>

text \<open>
  \<open>follows m cs\<close>: the calls of \<open>m\<close> do not depend on the answers.  A run that succeeds
  makes exactly the calls \<open>cs\<close>, in this order, and a run that fails makes an initial
  part of them.
\<close>

definition follows :: "(('w, 'c, 'z) effects_scheme, 'a) prog \<Rightarrow> 'c list \<Rightarrow> bool" where
  "follows m cs \<longleftrightarrow> (\<forall>s. \<exists>ds. fx_calls (snd (m s)) = fx_calls s @ ds \<and> prefix ds cs \<and>
     (\<forall>x. fst (m s) = Inr x \<longrightarrow> ds = cs))"

named_theorems follows_intros \<open>rules for planned calls\<close>

lemma followsD:
  assumes "follows m cs" and "m s = (r, t)"
  obtains ds where "fx_calls t = fx_calls s @ ds" and "prefix ds cs" and "\<And>x. r = Inr x \<Longrightarrow> ds = cs"
  using assms unfolding follows_def by (metis fst_conv snd_conv)

lemma follows_return [follows_intros]: "follows (returnP x) []"
  by (simp add: follows_def returnP_def)

lemma follows_lift [follows_intros]: "follows (liftP r) []"
  by (simp add: follows_def liftP_def)

lemma follows_throw [follows_intros]: "follows (throwP e) cs"
  by (simp add: follows_def throwP_def)

lemma follows_invoke [follows_intros]: "follows (invoke c f) [c]"
  by (auto simp: follows_def invoke_def split: prod.splits)

lemma follows_wrap [follows_intros]: "follows m cs \<Longrightarrow> follows (wrapP p m) cs"
  by (auto simp: follows_def wrapP_def split: prod.splits) (metis fst_conv snd_conv)

lemma follows_bind:
  assumes m: "follows m cs" and f: "\<And>s x t. m s = (Inr x, t) \<Longrightarrow> follows (f x) ds"
  shows "follows (bindP m f) (cs @ ds)"
  unfolding follows_def
proof
  fix s
  obtain r t where rt: "m s = (r, t)" by (cases "m s")
  obtain es where es: "fx_calls t = fx_calls s @ es" "prefix es cs" "\<And>x. r = Inr x \<Longrightarrow> es = cs"
    using followsD [OF m rt] by blast
  show "\<exists>es. fx_calls (snd (bindP m f s)) = fx_calls s @ es \<and> prefix es (cs @ ds) \<and>
     (\<forall>x. fst (bindP m f s) = Inr x \<longrightarrow> es = cs @ ds)"
  proof (cases r)
    case (Inl e)
    with rt es show ?thesis by (auto simp: bindP_def)
  next
    case (Inr x)
    obtain gs where "fx_calls (snd (f x t)) = fx_calls t @ gs" "prefix gs ds"
      "\<forall>y. fst (f x t) = Inr y \<longrightarrow> gs = ds"
      using f [OF rt [unfolded Inr]] unfolding follows_def by blast
    with rt Inr es show ?thesis by (intro exI [of _ "cs @ gs"]) (auto simp: bindP_def)
  qed
qed

lemma follows_bind_lift:
  "(\<And>x. r = Inr x \<Longrightarrow> follows (f x) cs) \<Longrightarrow> follows (bindP (liftP r) f) cs"
  by (cases r) (auto simp: follows_def bindP_def liftP_def)

lemma follows_if:
  "follows m cs \<Longrightarrow> follows n ds \<Longrightarrow> follows (if b then m else n) (if b then cs else ds)"
  by simp

lemma follows_for:
  "(\<And>x. x \<in> set xs \<Longrightarrow> follows (f x) (g x)) \<Longrightarrow> follows (forP f xs) (concat (map g xs))"
  by (induction xs) (auto intro: follows_return follows_bind)

lemma follows_fold:
  assumes "\<And>x b. I b \<Longrightarrow> follows (f x b) (g x)"
    and "\<And>x b s b' t. I b \<Longrightarrow> f x b s = (Inr b', t) \<Longrightarrow> I b'" and "I b"
  shows "follows (foldP f xs b) (concat (map g xs))"
  using assms(3)
proof (induction xs arbitrary: b)
  case Nil
  then show ?case by (simp add: follows_return)
next
  case (Cons x xs)
  show ?case
    unfolding follows_def
  proof
    fix s
    obtain r t where rt: "f x b s = (r, t)" by (cases "f x b s")
    obtain es where es: "fx_calls t = fx_calls s @ es" "prefix es (g x)" "\<And>y. r = Inr y \<Longrightarrow> es = g x"
      using followsD [OF assms(1) [OF Cons.prems] rt] by blast
    show "\<exists>ds. fx_calls (snd (foldP f (x # xs) b s)) = fx_calls s @ ds \<and>
       prefix ds (concat (map g (x # xs))) \<and>
       (\<forall>y. fst (foldP f (x # xs) b s) = Inr y \<longrightarrow> ds = concat (map g (x # xs)))"
    proof (cases r)
      case (Inl e)
      with rt es show ?thesis by (auto simp: bindP_def)
    next
      case (Inr b')
      from Cons.IH [OF assms(2) [OF Cons.prems rt [unfolded Inr]]] obtain gs where
        "fx_calls (snd (foldP f xs b' t)) = fx_calls t @ gs" "prefix gs (concat (map g xs))"
        "\<forall>y. fst (foldP f xs b' t) = Inr y \<longrightarrow> gs = concat (map g xs)"
        unfolding follows_def by blast
      with rt Inr es show ?thesis by (intro exI [of _ "g x @ gs"]) (auto simp: bindP_def)
    qed
  qed
qed

text \<open>
  The same for the calls that satisfy \<open>P\<close> only; the others may depend on the answers.
\<close>

definition follows_on :: "('c \<Rightarrow> bool) \<Rightarrow> (('w, 'c, 'z) effects_scheme, 'a) prog \<Rightarrow> 'c list \<Rightarrow> bool" where
  "follows_on P m cs \<longleftrightarrow> (\<forall>s. \<exists>ds. fx_calls (snd (m s)) = fx_calls s @ ds \<and> prefix (filter P ds) cs \<and>
     (\<forall>x. fst (m s) = Inr x \<longrightarrow> filter P ds = cs))"

lemma follows_onD:
  assumes "follows_on P m cs" and "m s = (r, t)"
  obtains ds where "fx_calls t = fx_calls s @ ds" and "prefix (filter P ds) cs" and "\<And>x. r = Inr x \<Longrightarrow> filter P ds = cs"
  using assms unfolding follows_on_def by (metis fst_conv snd_conv)

lemma follows_on_only: "only_calls (\<lambda>c. \<not> P c) m \<Longrightarrow> follows_on P m []"
  unfolding emits_def follows_on_def by (metis filter_False prefix_order.refl)

lemma follows_on_invoke: "P c \<Longrightarrow> follows_on P (invoke c f) [c]"
  by (auto simp: follows_on_def invoke_def split: prod.splits)

lemma follows_on_return: "follows_on P (returnP x) []"
  by (simp add: follows_on_def returnP_def)

lemma follows_on_throw: "follows_on P (throwP e) cs"
  by (simp add: follows_on_def throwP_def)

lemma follows_on_bind:
  assumes m: "follows_on P m cs" and f: "\<And>s x t. m s = (Inr x, t) \<Longrightarrow> follows_on P (f x) ds"
  shows "follows_on P (bindP m f) (cs @ ds)"
  unfolding follows_on_def
proof
  fix s
  obtain r t where rt: "m s = (r, t)" by (cases "m s")
  obtain es where es: "fx_calls t = fx_calls s @ es" "prefix (filter P es) cs" "\<And>x. r = Inr x \<Longrightarrow> filter P es = cs"
    using follows_onD [OF m rt] by blast
  show "\<exists>es. fx_calls (snd (bindP m f s)) = fx_calls s @ es \<and> prefix (filter P es) (cs @ ds) \<and>
     (\<forall>x. fst (bindP m f s) = Inr x \<longrightarrow> filter P es = cs @ ds)"
  proof (cases r)
    case (Inl e)
    with rt es show ?thesis by (auto simp: bindP_def)
  next
    case (Inr x)
    obtain gs where "fx_calls (snd (f x t)) = fx_calls t @ gs" "prefix (filter P gs) ds"
      "\<forall>y. fst (f x t) = Inr y \<longrightarrow> filter P gs = ds"
      using f [OF rt [unfolded Inr]] unfolding follows_on_def by blast
    with rt Inr es show ?thesis by (intro exI [of _ "es @ gs"]) (auto simp: bindP_def)
  qed
qed

end
