(* ===== verification/Go_Base.thy ===== *)
theory Go_Base
  imports Prelude
begin

text \<open>
  The parts of Go's \<open>strings\<close>, \<open>strconv\<close>, \<open>fmt\<close> and of \<open>k8s.io/apimachinery\<close> sets
  that the controllers use, on byte strings, and Go's fixed-width integer
  conversions and truncating division.  The lemmas are the laws the component
  proofs rest on: splitting inverts joining, parsing inverts printing, the
  conversions are the identity in range.
\<close>

subsection \<open>Integers\<close>

definition to_int32 :: "int \<Rightarrow> int" where
  "to_int32 x = (x + 2147483648) mod 4294967296 - 2147483648"

definition is_int32 :: "int \<Rightarrow> bool" where
  "is_int32 x \<longleftrightarrow> - 2147483648 \<le> x \<and> x < 2147483648"

definition is_int64 :: "int \<Rightarrow> bool" where
  "is_int64 x \<longleftrightarrow> - 9223372036854775808 \<le> x \<and> x < 9223372036854775808"

definition to_int64 :: "int \<Rightarrow> int" where
  "to_int64 x = (x + 9223372036854775808) mod 18446744073709551616 - 9223372036854775808"

definition go_div :: "int \<Rightarrow> int \<Rightarrow> int" where
  "go_div a b = sgn a * sgn b * (\<bar>a\<bar> div \<bar>b\<bar>)"

lemma to_int32_id [simp]: "is_int32 x \<Longrightarrow> to_int32 x = x"
  by (simp add: to_int32_def is_int32_def)

lemma is_int32_to_int32 [simp]: "is_int32 (to_int32 x)"
proof -
  have "0 \<le> (x + 2147483648) mod 4294967296" and "(x + 2147483648) mod 4294967296 < 4294967296"
    by simp_all
  then show ?thesis unfolding to_int32_def is_int32_def by linarith
qed

lemma to_int64_id [simp]: "is_int64 x \<Longrightarrow> to_int64 x = x"
  by (simp add: to_int64_def is_int64_def)

lemma to_int64_add: "to_int64 (to_int64 x + y) = to_int64 (x + y)"
  by (simp add: to_int64_def mod_simps algebra_simps)

lemma is_int32_is_int64: "is_int32 x \<Longrightarrow> is_int64 x"
  by (simp add: is_int32_def is_int64_def)

lemma go_div_nonneg: "0 \<le> a \<Longrightarrow> 0 < b \<Longrightarrow> go_div a b = a div b"
  by (auto simp: go_div_def sgn_if)

subsection \<open>Strings\<close>

definition lower_char :: "char \<Rightarrow> char" where
  "lower_char c = (if 65 \<le> (of_char c :: nat) \<and> (of_char c :: nat) \<le> 90 then char_of ((of_char c :: nat) + 32) else c)"

definition upper_char :: "char \<Rightarrow> char" where
  "upper_char c = (if 97 \<le> (of_char c :: nat) \<and> (of_char c :: nat) \<le> 122 then char_of ((of_char c :: nat) - 32) else c)"

definition EqualFold :: "string \<Rightarrow> string \<Rightarrow> bool" where
  "EqualFold a b \<longleftrightarrow> map lower_char a = map lower_char b"

definition ToUpper :: "string \<Rightarrow> string" where
  "ToUpper s = map upper_char s"

definition ToLower :: "string \<Rightarrow> string" where
  "ToLower s = map lower_char s"

definition HasPrefix :: "string \<Rightarrow> string \<Rightarrow> bool" where
  "HasPrefix s p \<longleftrightarrow> prefix p s"

definition Contains :: "string \<Rightarrow> string \<Rightarrow> bool" where
  "Contains s sub \<longleftrightarrow> sublist sub s"

definition is_space :: "char \<Rightarrow> bool" where
  "is_space c \<longleftrightarrow> (of_char c :: nat) \<in> {9, 10, 11, 12, 13, 32}"

definition TrimSpace :: "string \<Rightarrow> string" where
  "TrimSpace s = rev (dropWhile is_space (rev (dropWhile is_space s)))"

text \<open>\<open>strings.Split\<close> for a separator that is not empty (every use in the sources).\<close>

fun Split :: "string \<Rightarrow> string \<Rightarrow> string list" where
  "Split [] sep = [[]]"
| "Split (c # cs) sep =
     (if prefix sep (c # cs) then [] # Split (drop (length sep - 1) cs) sep
      else (case Split cs sep of [] \<Rightarrow> [[c]] | p # ps \<Rightarrow> (c # p) # ps))"

fun Join :: "string list \<Rightarrow> string \<Rightarrow> string" where
  "Join [] sep = []"
| "Join [x] sep = x"
| "Join (x # y # ys) sep = x @ sep @ Join (y # ys) sep"

lemma EqualFold_refl [simp]: "EqualFold a a"
  by (simp add: EqualFold_def)

lemma EqualFold_sym: "EqualFold a b \<Longrightarrow> EqualFold b a"
  by (simp add: EqualFold_def)

lemma EqualFold_trans: "EqualFold a b \<Longrightarrow> EqualFold b c \<Longrightarrow> EqualFold a c"
  by (simp add: EqualFold_def)

lemma Split_not_Nil [simp]: "Split s sep \<noteq> []"
  by (cases "(s, sep)" rule: Split.cases) (auto split: list.splits)

lemma Split_no_sep: "c \<notin> set s \<Longrightarrow> Split s [c] = [s]"
  by (induction s) auto

lemma Split_append1:
  "c \<notin> set s \<Longrightarrow> Split (s @ c # t) [c] = s # Split t [c]"
  by (induction s) auto

lemma Split_Join1:
  "xs \<noteq> [] \<Longrightarrow> (\<forall>x \<in> set xs. c \<notin> set x) \<Longrightarrow> Split (Join xs [c]) [c] = xs"
  by (induction xs "[c]" rule: Join.induct) (auto simp: Split_no_sep Split_append1)

lemma Split_no_sep_parts: "p \<in> set (Split s [c]) \<Longrightarrow> c \<notin> set p"
proof (induction s arbitrary: p)
  case Nil
  then show ?case by simp
next
  case (Cons d s)
  then show ?case by (cases "Split s [c]") (auto split: if_splits)
qed

lemma Join_Split1: "Join (Split s [c]) [c] = s"
proof (induction s)
  case Nil
  then show ?case by simp
next
  case (Cons d s)
  then show ?case by (cases "Split s [c]" rule: list.exhaust; cases "tl (Split s [c])") auto
qed

subsection \<open>Decimal numbers\<close>

definition digit_char :: "nat \<Rightarrow> char" where
  "digit_char d = char_of (48 + d)"

fun show_nat :: "nat \<Rightarrow> string" where
  "show_nat n = (if n < 10 then [digit_char n] else show_nat (n div 10) @ [digit_char (n mod 10)])"

declare show_nat.simps [simp del]

definition Itoa :: "int \<Rightarrow> string" where
  "Itoa i = (if i < 0 then CHR ''-'' # show_nat (nat (- i)) else show_nat (nat i))"

fun read_digits :: "nat \<Rightarrow> string \<Rightarrow> nat option" where
  "read_digits acc [] = Some acc"
| "read_digits acc (c # cs) =
     (if 48 \<le> (of_char c :: nat) \<and> (of_char c :: nat) \<le> 57
      then read_digits (acc * 10 + (of_char c - 48)) cs else None)"

definition read_unsigned :: "string \<Rightarrow> nat option" where
  "read_unsigned s = (if s = [] then None else read_digits 0 s)"

definition Atoi :: "string \<Rightarrow> int res" where
  "Atoi s =
     (let neg = (s \<noteq> [] \<and> hd s = CHR ''-'');
          body = (if s \<noteq> [] \<and> (hd s = CHR ''-'' \<or> hd s = CHR ''+'') then tl s else s)
      in case read_unsigned body of
           None \<Rightarrow> Inl (Errorf ''strconv.Atoi: invalid syntax'')
         | Some n \<Rightarrow>
             (let v = (if neg then - int n else int n)
              in if is_int64 v then Inr v else Inl (Errorf ''strconv.Atoi: value out of range'')))"

text \<open>The value \<open>Atoi\<close> gives beside its error: 0, or the nearest number in range.\<close>

definition Atoi_value :: "string \<Rightarrow> int" where
  "Atoi_value s =
     (let neg = (s \<noteq> [] \<and> hd s = CHR ''-'');
          body = (if s \<noteq> [] \<and> (hd s = CHR ''-'' \<or> hd s = CHR ''+'') then tl s else s)
      in case read_unsigned body of
           None \<Rightarrow> 0
         | Some n \<Rightarrow>
             if neg then max (- 9223372036854775808) (- int n) else min 9223372036854775807 (int n))"

lemma of_digit_char: "d < 10 \<Longrightarrow> (of_char (digit_char d) :: nat) = 48 + d"
  by (simp add: digit_char_def)

lemma read_digits_append:
  "read_digits acc (xs @ ys) =
     (case read_digits acc xs of None \<Rightarrow> None | Some a \<Rightarrow> read_digits a ys)"
  by (induction acc xs rule: read_digits.induct) auto

lemma read_digits_show_nat: "read_digits 0 (show_nat n) = Some n"
proof (induction n rule: show_nat.induct)
  case (1 n)
  show ?case
  proof (cases "n < 10")
    case True
    then show ?thesis by (simp add: show_nat.simps [of n] of_digit_char)
  next
    case False
    with "1" have "read_digits 0 (show_nat (n div 10)) = Some (n div 10)" by simp
    with False show ?thesis
      by (simp add: show_nat.simps [of n] read_digits_append of_digit_char)
  qed
qed

lemma show_nat_not_Nil [simp]: "show_nat n \<noteq> []"
  by (subst show_nat.simps) simp

lemma set_show_nat: "c \<in> set (show_nat n) \<Longrightarrow> 48 \<le> (of_char c :: nat) \<and> (of_char c :: nat) \<le> 57"
proof (induction n rule: show_nat.induct)
  case (1 n)
  have "n mod 10 < 10" by simp
  with "1" show ?case
    by (cases "n < 10")
      (auto simp: show_nat.simps [of n] of_digit_char simp del: mod_less_divisor)
qed

lemma show_nat_char_notin: "\<not> (48 \<le> (of_char c :: nat) \<and> (of_char c :: nat) \<le> 57) \<Longrightarrow> c \<notin> set (show_nat n)"
  using set_show_nat by blast

lemma hd_show_nat: "48 \<le> (of_char (hd (show_nat n)) :: nat) \<and> (of_char (hd (show_nat n)) :: nat) \<le> 57"
  by (rule set_show_nat [of _ n]) simp

lemma hd_show_nat_sign: "hd (show_nat n) \<noteq> CHR ''-''" "hd (show_nat n) \<noteq> CHR ''+''"
  using hd_show_nat [of n] by auto

lemma Atoi_Itoa: "is_int64 i \<Longrightarrow> Atoi (Itoa i) = Inr i"
  by (auto simp: Atoi_def Itoa_def read_unsigned_def read_digits_show_nat hd_show_nat_sign Let_def)

lemma Itoa_dot: "CHR ''.'' \<notin> set (Itoa i)"
  by (auto simp: Itoa_def dest!: set_show_nat)

lemma Itoa_inject: "Itoa i = Itoa j \<longleftrightarrow> i = j"
proof
  assume eq: "Itoa i = Itoa j"
  have sign: "(i < 0) = (j < 0)"
    using eq hd_show_nat_sign by (auto simp: Itoa_def split: if_splits) (metis list.sel(1))+
  have "show_nat (nat \<bar>i\<bar>) = show_nat (nat \<bar>j\<bar>)"
    using eq sign by (auto simp: Itoa_def split: if_splits)
  then have "Some (nat \<bar>i\<bar>) = Some (nat \<bar>j\<bar>)"
    by (metis read_digits_show_nat)
  with sign show "i = j" by auto
qed simp

subsection \<open>Pointers to values\<close>

definition BoolValue :: "bool option \<Rightarrow> bool" where
  "BoolValue b = (case b of None \<Rightarrow> False | Some v \<Rightarrow> v)"

definition Int32Value :: "int option \<Rightarrow> int" where
  "Int32Value b = (case b of None \<Rightarrow> 0 | Some v \<Rightarrow> v)"

definition deref :: "'a option \<Rightarrow> 'a res" where
  "deref p = (case p of None \<Rightarrow> Inl (Panic ''nil pointer dereference'') | Some v \<Rightarrow> Inr v)"

lemma BoolValue_simps [simp]: "BoolValue None = False" "BoolValue (Some v) = v"
  by (simp_all add: BoolValue_def)

lemma Int32Value_simps [simp]: "Int32Value None = 0" "Int32Value (Some v) = v"
  by (simp_all add: Int32Value_def)

lemma deref_simps [simp]:
  "deref None = Inl (Panic ''nil pointer dereference'')" "deref (Some v) = Inr v"
  by (simp_all add: deref_def)

subsection \<open>Maps with string keys\<close>

text \<open>
  A Go \<open>map[string]string\<close> is an association list with one entry per key; reading
  an absent key gives the empty string.
\<close>

type_synonym smap = "(string \<times> string) list"

definition smap_wf :: "('k \<times> 'v) list \<Rightarrow> bool" where
  "smap_wf m \<longleftrightarrow> distinct (map fst m)"

definition has_key :: "('k \<times> 'v) list \<Rightarrow> 'k \<Rightarrow> bool" where
  "has_key m k \<longleftrightarrow> k \<in> set (map fst m)"

definition index_str :: "smap \<Rightarrow> string \<Rightarrow> string" where
  "index_str m k = (case map_of m k of None \<Rightarrow> [] | Some v \<Rightarrow> v)"

fun map_set :: "'k \<Rightarrow> 'v \<Rightarrow> ('k \<times> 'v) list \<Rightarrow> ('k \<times> 'v) list" where
  "map_set k v [] = [(k, v)]"
| "map_set k v ((k', v') # m) = (if k' = k then (k, v) # m else (k', v') # map_set k v m)"

definition map_delete :: "'k \<Rightarrow> ('k \<times> 'v) list \<Rightarrow> ('k \<times> 'v) list" where
  "map_delete k m = filter (\<lambda>e. fst e \<noteq> k) m"

lemma has_key_map_of: "has_key m k \<longleftrightarrow> map_of m k \<noteq> None"
  by (auto simp: has_key_def map_of_eq_None_iff)

lemma map_of_map_set: "map_of (map_set k v m) = (map_of m)(k \<mapsto> v)"
  by (induction k v m rule: map_set.induct) auto

lemma keys_map_set: "fst ` set (map_set k v m) = insert k (fst ` set m)"
  by (induction k v m rule: map_set.induct) auto

lemma smap_wf_map_set: "smap_wf m \<Longrightarrow> smap_wf (map_set k v m)"
  unfolding smap_wf_def by (induction k v m rule: map_set.induct) (auto simp: keys_map_set)

lemma map_of_map_delete: "map_of (map_delete k m) = (map_of m)(k := None)"
  unfolding map_delete_def by (induction m) auto

lemma smap_wf_map_delete: "smap_wf m \<Longrightarrow> smap_wf (map_delete k m)"
  unfolding smap_wf_def map_delete_def by (induction m) auto

text \<open>\<open>reflect.DeepEqual\<close> on maps is equality of the maps.\<close>

definition same_map :: "smap \<Rightarrow> smap \<Rightarrow> bool" where
  "same_map a b \<longleftrightarrow>
     list_all (\<lambda>(k, _). map_of a k = map_of b k) a \<and> list_all (\<lambda>(k, _). map_of a k = map_of b k) b"

lemma same_map_iff: "same_map a b \<longleftrightarrow> map_of a = map_of b"
proof
  assume s: "same_map a b"
  show "map_of a = map_of b"
  proof
    fix k
    show "map_of a k = map_of b k"
    proof (cases "k \<in> fst ` set a \<union> fst ` set b")
      case True
      with s show ?thesis by (auto simp: same_map_def list_all_iff)
    next
      case False
      then have "map_of a k = None" "map_of b k = None" by (simp_all add: map_of_eq_None_iff)
      then show ?thesis by simp
    qed
  qed
qed (simp add: same_map_def list_all_iff case_prod_beta)

end
