(* ===== verification/K8s_Helper.thy ===== *)
theory K8s_Helper
  imports Go_Base
begin

text \<open>
  The Kubernetes objects the controllers read, with the fields they read, and the
  predicates of \<open>pkg/controller/helper\<close> (\<open>service_utils.go\<close>, \<open>node_utils.go\<close>,
  \<open>finalizer.go\<close>) and \<open>pkg/util/utils.go\<close> over them.  Process-wide configuration
  (environment variables, the cloud configuration, feature gates) is the record
  \<open>config\<close>; the object hash, which runs through JSON, YAML and SHA-224, is a
  parameter.
\<close>

subsection \<open>Objects\<close>

datatype int_or_string = IntPort int | StrPort string

record service_port =
  sp_Name :: string
  sp_Protocol :: string
  sp_Port :: int
  sp_TargetPort :: int_or_string
  sp_NodePort :: int

text \<open>\<open>spec_Other\<close> stands for the fields of the specification no code reads one by one.\<close>

record service_spec =
  spec_Type :: string
  spec_LoadBalancerClass :: "string option"
  spec_ExternalTrafficPolicy :: string
  spec_Ports :: "service_port list"
  spec_Other :: string

record lb_ingress =
  ing_IP :: string
  ing_Hostname :: string

record service =
  svc_Namespace :: string
  svc_Name :: string
  svc_UID :: string
  svc_Annotations :: smap
  svc_Labels :: smap
  svc_Finalizers :: "string list"
  svc_DeletionTimestamp :: "int option"
  svc_Spec :: service_spec
  svc_Ingress :: "lb_ingress list"

record node_condition =
  cond_Type :: string
  cond_Status :: string
  cond_LastHeartbeatTime :: int

record node =
  node_Name :: string
  node_Labels :: smap
  node_ProviderID :: string
  node_Unschedulable :: bool
  node_Taints :: "string list"
  node_Conditions :: "node_condition list"
  node_Addresses :: "(string \<times> string) list"

record config =
  cfg_ForceBackendENI :: string
  cfg_ServiceBackendType :: string
  cfg_ClusterID :: string
  cfg_EndpointSlice :: bool
  cfg_IPv6DualStack :: bool
  cfg_DryRun :: bool

datatype traffic_policy =
    LocalTrafficPolicy
  | ClusterTrafficPolicy
  | ENITrafficPolicy
  | OtherTrafficPolicy string

subsection \<open>Services (\<open>service_utils.go\<close>)\<close>

definition NLBFinalizer :: string where "NLBFinalizer = ''service.k8s.alibaba/nlb''"
definition BackendType :: string where "BackendType = ''service.beta.kubernetes.io/backend-type''"
definition LoadBalancerClass :: string where "LoadBalancerClass = ''service.beta.kubernetes.io/class''"
definition NLBClass :: string where "NLBClass = ''alibabacloud.com/nlb''"
definition LabelServiceHash :: string where "LabelServiceHash = ''service.beta.kubernetes.io/hash''"
definition LabelLoadBalancerId :: string where "LabelLoadBalancerId = ''service.k8s.alibaba/loadbalancer-id''"
definition TAGKEY :: string where "TAGKEY = ''kubernetes.do.not.delete''"
definition ClusterTagKey :: string where "ClusterTagKey = ''ack.aliyun.com''"
definition ENIBackendType :: string where "ENIBackendType = ''eni''"
definition OnFlag :: string where "OnFlag = ''on''"

definition IsLocalModeService :: "service \<Rightarrow> bool" where
  "IsLocalModeService svc \<longleftrightarrow> spec_ExternalTrafficPolicy (svc_Spec svc) = ''Local''"

definition IsENIBackendType :: "config \<Rightarrow> service \<Rightarrow> bool" where
  "IsENIBackendType cfg svc =
     (if index_str (svc_Annotations svc) BackendType \<noteq> [] then
        index_str (svc_Annotations svc) BackendType = ENIBackendType
      else if cfg_ForceBackendENI cfg \<noteq> [] then cfg_ForceBackendENI cfg = ''true''
      else cfg_ServiceBackendType cfg = ENIBackendType)"

definition IsClusterIPService :: "service \<Rightarrow> bool" where
  "IsClusterIPService svc \<longleftrightarrow> spec_Type (svc_Spec svc) = ''ClusterIP''"

definition GetServiceTrafficPolicy :: "config \<Rightarrow> service \<Rightarrow> traffic_policy res" where
  "GetServiceTrafficPolicy cfg svc =
     (if IsENIBackendType cfg svc then Inr ENITrafficPolicy
      else if IsClusterIPService svc then
        Inl (Errorf ''cluster service type just support eni mode for alb ingress'')
      else if IsLocalModeService svc then Inr LocalTrafficPolicy
      else Inr ClusterTrafficPolicy)"

definition NeedDeleteLoadBalancer :: "service \<Rightarrow> bool" where
  "NeedDeleteLoadBalancer svc \<longleftrightarrow>
     svc_DeletionTimestamp svc \<noteq> None \<or> spec_Type (svc_Spec svc) \<noteq> ''LoadBalancer''"

definition NeedCLB :: "service \<Rightarrow> bool" where
  "NeedCLB svc =
     (if spec_Type (svc_Spec svc) \<noteq> ''LoadBalancer'' then False
      else if spec_LoadBalancerClass (svc_Spec svc) \<noteq> None then False
      else index_str (svc_Annotations svc) LoadBalancerClass = [])"

definition NeedNLB :: "service \<Rightarrow> bool" where
  "NeedNLB svc \<longleftrightarrow> spec_Type (svc_Spec svc) = ''LoadBalancer'' \<and>
     spec_LoadBalancerClass (svc_Spec svc) = Some NLBClass"

type_synonym hash_fun = "service_spec \<Rightarrow> smap \<Rightarrow> int option \<Rightarrow> string"

definition GetServiceHash :: "hash_fun \<Rightarrow> service \<Rightarrow> string" where
  "GetServiceHash HashObject svc =
     HashObject (svc_Spec svc) (svc_Annotations svc) (svc_DeletionTimestamp svc)"

definition IsServiceHashChanged :: "hash_fun \<Rightarrow> service \<Rightarrow> bool" where
  "IsServiceHashChanged HashObject svc =
     (case map_of (svc_Labels svc) LabelServiceHash of
        Some oldHash \<Rightarrow> \<not> EqualFold oldHash (GetServiceHash HashObject svc)
      | None \<Rightarrow> True)"

definition IsServiceOwnIngress :: "service \<Rightarrow> bool" where
  "IsServiceOwnIngress svc \<longleftrightarrow> svc_Ingress svc \<noteq> []"

definition Is7LayerProtocol :: "string \<Rightarrow> bool" where
  "Is7LayerProtocol p \<longleftrightarrow> p = ''http'' \<or> p = ''https''"

definition Is4LayerProtocol :: "string \<Rightarrow> bool" where
  "Is4LayerProtocol p \<longleftrightarrow> p = ''tcp'' \<or> p = ''udp''"

definition HasFinalizer :: "service \<Rightarrow> string \<Rightarrow> bool" where
  "HasFinalizer svc f \<longleftrightarrow> f \<in> set (svc_Finalizers svc)"

text \<open>
  \<open>Retry\<close> over \<open>wait.ExponentialBackoff\<close>: \<open>steps\<close> attempts, the next one only after
  an error whose text contains \<open>try again\<close>; any other error ends the loop with
  success, running out of attempts is the back-off's time-out error.
\<close>

definition TRY_AGAIN :: string where "TRY_AGAIN = ''try again''"

fun Retry :: "nat \<Rightarrow> ('s, unit) prog \<Rightarrow> ('s, unit) prog" where
  "Retry 0 f = throwP (Errorf ''timed out waiting for the condition'')"
| "Retry (Suc n) f =
     bindP (tryP f) (\<lambda>r. case r of
        Inl (Errorf e) \<Rightarrow> if Contains e TRY_AGAIN then Retry n f else returnP ()
      | Inl (Panic e) \<Rightarrow> throwP (Panic e)
      | Inr _ \<Rightarrow> returnP ())"

text \<open>\<open>RetryOnConflict\<close>: a conflict is retried, after the last attempt the last conflict is returned.\<close>

fun RetryOnConflict :: "(go_error \<Rightarrow> bool) \<Rightarrow> nat \<Rightarrow> go_error \<Rightarrow> ('s, 'a) prog \<Rightarrow> ('s, 'a) prog" where
  "RetryOnConflict conflict 0 lastErr f = throwP lastErr"
| "RetryOnConflict conflict (Suc n) lastErr f =
     bindP (tryP f) (\<lambda>r. case r of
        Inr x \<Rightarrow> returnP x
      | Inl e \<Rightarrow> if conflict e then RetryOnConflict conflict n e f else throwP e)"

definition DefaultBackoff_Steps :: nat where "DefaultBackoff_Steps = 4"

subsection \<open>Nodes (\<open>node_utils.go\<close>)\<close>

definition LabelNodeRoleMaster :: string where "LabelNodeRoleMaster = ''node-role.kubernetes.io/master''"
definition LabelNodeTypeVK :: string where "LabelNodeTypeVK = ''virtual-kubelet''"
definition LabelNodeExcludeBalancer :: string where
  "LabelNodeExcludeBalancer = ''alpha.service-controller.kubernetes.io/exclude-balancer''"
definition ToBeDeletedTaint :: string where "ToBeDeletedTaint = ''ToBeDeletedByClusterAutoscaler''"
definition LabelNodeExcludeNodeDeprecated :: string where
  "LabelNodeExcludeNodeDeprecated = ''service.beta.kubernetes.io/exclude-node''"
definition LabelNodeExcludeNode :: string where "LabelNodeExcludeNode = ''service.alibabacloud.com/exclude-node''"

text \<open>The last condition of the wanted type that is strictly newer than the ones before it.\<close>

fun FindCondition_loop :: "node_condition option \<Rightarrow> node_condition list \<Rightarrow> string \<Rightarrow> node_condition option" where
  "FindCondition_loop r [] t = r"
| "FindCondition_loop r (c # cs) t =
     (if cond_Type c = t \<and>
         (case r of None \<Rightarrow> True | Some d \<Rightarrow> cond_LastHeartbeatTime d < cond_LastHeartbeatTime c)
      then FindCondition_loop (Some c) cs t
      else FindCondition_loop r cs t)"

definition FindCondition :: "node_condition list \<Rightarrow> string \<Rightarrow> node_condition option" where
  "FindCondition conds t = FindCondition_loop None conds t"

definition HasExcludeLabel :: "node \<Rightarrow> bool" where
  "HasExcludeLabel n =
     (if has_key (node_Labels n) LabelNodeExcludeNodeDeprecated then True
      else if has_key (node_Labels n) LabelNodeExcludeNode then True else False)"

definition FindNodeByNodeName :: "node list \<Rightarrow> string \<Rightarrow> node option" where
  "FindNodeByNodeName nodes name = find (\<lambda>n. node_Name n = name) nodes"

definition NodeFromProviderID :: "string \<Rightarrow> (string \<times> string) res" where
  "NodeFromProviderID providerID =
     bind_res
       (if HasPrefix providerID ''alicloud://'' then
          (let k8sName = Split providerID ''://''
           in if length k8sName < 2 then
                Inl (Errorf ''alicloud: unable to split instanceid and region from providerID'')
              else Inr (k8sName ! 1))
        else Inr providerID)
       (\<lambda>pid. let name = Split pid ''.''
              in if length name < 2 then
                   Inl (Errorf ''alicloud: unable to split instanceid and region from providerID'')
                 else Inr (name ! 0, name ! 1))"

definition IsMasterNode :: "node \<Rightarrow> bool" where
  "IsMasterNode n \<longleftrightarrow> has_key (node_Labels n) LabelNodeRoleMaster"

definition IsNodeExcludeFromLoadBalancer :: "node \<Rightarrow> bool" where
  "IsNodeExcludeFromLoadBalancer n =
     (if has_key (node_Labels n) LabelNodeExcludeBalancer then True
      else if HasExcludeLabel n then True else False)"

subsection \<open>General utilities (\<open>util/utils.go\<close>)\<close>

definition IsStringSliceEqual :: "string list \<Rightarrow> string list \<Rightarrow> bool" where
  "IsStringSliceEqual s1 s2 =
     (if length s1 \<noteq> length s2 then False
      else list_all (\<lambda>i. list_ex (\<lambda>j. EqualFold i j) s2) s1)"

text \<open>The variadic \<open>maps\<close> argument as a list; the key-value pairs of each in iteration order.\<close>

fun MergeStringMap_one :: "smap \<Rightarrow> smap \<Rightarrow> smap" where
  "MergeStringMap_one r [] = r"
| "MergeStringMap_one r ((k, v) # m) =
     MergeStringMap_one (if has_key r k then r else r @ [(k, v)]) m"

fun MergeStringMap_loop :: "smap \<Rightarrow> smap list \<Rightarrow> smap" where
  "MergeStringMap_loop r [] = r"
| "MergeStringMap_loop r (m # ms) = MergeStringMap_loop (MergeStringMap_one r m) ms"

definition MergeStringMap :: "smap list \<Rightarrow> smap" where
  "MergeStringMap maps = MergeStringMap_loop [] maps"

definition AvoidTagValueKeyword :: "string \<Rightarrow> string" where
  "AvoidTagValueKeyword v =
     (if HasPrefix v ''aliyun'' \<or> HasPrefix v ''acs:'' then CHR ''_'' # v else v)"

definition Key :: "string \<Rightarrow> string \<Rightarrow> string" where
  "Key ns name = ns @ ''/'' @ name"

subsection \<open>Lemmas\<close>

lemma NeedNLB_NeedCLB: "\<not> (NeedNLB svc \<and> NeedCLB svc)"
  by (simp add: NeedNLB_def NeedCLB_def)

lemma FindNodeByNodeName_Some:
  "FindNodeByNodeName nodes name = Some n \<Longrightarrow> n \<in> set nodes \<and> node_Name n = name"
  by (auto simp: FindNodeByNodeName_def find_Some_iff)

lemma FindNodeByNodeName_None:
  "FindNodeByNodeName nodes name = None \<longleftrightarrow> name \<notin> node_Name ` set nodes"
  by (auto simp: FindNodeByNodeName_def find_None_iff)

lemma FindCondition_loop_newest:
  assumes "FindCondition_loop r cs t = Some c"
    and "\<And>d. r = Some d \<Longrightarrow> cond_Type d = t"
  shows "cond_Type c = t \<and> (r = Some c \<or> c \<in> set cs) \<and>
    (\<forall>d \<in> set cs. cond_Type d = t \<longrightarrow> cond_LastHeartbeatTime d \<le> cond_LastHeartbeatTime c) \<and>
    (\<forall>d. r = Some d \<longrightarrow> cond_LastHeartbeatTime d \<le> cond_LastHeartbeatTime c)"
  using assms
proof (induction r cs t rule: FindCondition_loop.induct)
  case (1 r t)
  then show ?case by auto
next
  case (2 r c' cs t)
  show ?case
  proof (cases "cond_Type c' = t \<and>
      (case r of None \<Rightarrow> True | Some d \<Rightarrow> cond_LastHeartbeatTime d < cond_LastHeartbeatTime c')")
    case True
    then have run: "FindCondition_loop (Some c') cs t = Some c" using "2.prems"(1) by simp
    note IH = "2.IH"(1) [OF True run]
    have newer: "cond_LastHeartbeatTime d \<le> cond_LastHeartbeatTime c'" if "r = Some d" for d
      using True that by simp
    have "cond_LastHeartbeatTime c' \<le> cond_LastHeartbeatTime c" using IH True by simp
    with IH True newer show ?thesis by (auto intro: order_trans)
  next
    case False
    have run: "FindCondition_loop r cs t = Some c"
      using "2.prems"(1) by (simp only: FindCondition_loop.simps False if_False)
    note IH = "2.IH"(2) [OF False run "2.prems"(2)]
    have "cond_LastHeartbeatTime c' \<le> cond_LastHeartbeatTime c" if "cond_Type c' = t"
      using IH False that by (cases r) (auto intro: order_trans)
    with IH show ?thesis by auto
  qed
qed

lemma map_of_MergeStringMap_one:
  "map_of (MergeStringMap_one r m) k = (case map_of r k of Some v \<Rightarrow> Some v | None \<Rightarrow> map_of m k)"
proof (induction r m rule: MergeStringMap_one.induct)
  case (1 r)
  then show ?case by (simp split: option.splits)
next
  case (2 r k' v m)
  then show ?case
    by (auto simp: has_key_map_of map_add_def map_of_append split: option.splits)
qed

lemma map_of_MergeStringMap_loop:
  "map_of (MergeStringMap_loop r ms) k =
     (case map_of r k of Some v \<Rightarrow> Some v | None \<Rightarrow> map_of (concat ms) k)"
proof (induction r ms rule: MergeStringMap_loop.induct)
  case (1 r)
  then show ?case by (simp split: option.splits)
next
  case (2 r m ms)
  then show ?case
    by (auto simp: map_of_MergeStringMap_one map_add_def map_of_append split: option.splits)
qed

lemma IsStringSliceEqual_refl [simp]: "IsStringSliceEqual xs xs"
  by (auto simp: IsStringSliceEqual_def list_all_iff list_ex_iff intro: EqualFold_refl)

subsection \<open>Example objects\<close>

definition demo_config :: config where
  "demo_config = \<lparr>cfg_ForceBackendENI = [], cfg_ServiceBackendType = [], cfg_ClusterID = ''c1'',
     cfg_EndpointSlice = False, cfg_IPv6DualStack = False, cfg_DryRun = False\<rparr>"

definition demo_service :: service where
  "demo_service = \<lparr>svc_Namespace = ''ns'', svc_Name = ''web'', svc_UID = ''u-1'', svc_Annotations = [],
     svc_Labels = [], svc_Finalizers = [], svc_DeletionTimestamp = None,
     svc_Spec = \<lparr>spec_Type = ''LoadBalancer'', spec_LoadBalancerClass = Some NLBClass,
       spec_ExternalTrafficPolicy = ''Local'',
       spec_Ports = [\<lparr>sp_Name = ''http'', sp_Protocol = ''TCP'', sp_Port = 80, sp_TargetPort = IntPort 8080,
         sp_NodePort = 30080\<rparr>],
       spec_Other = []\<rparr>,
     svc_Ingress = []\<rparr>"

end
