(* ===== verification/Annotations.thy ===== *)
theory Annotations
  imports K8s_Helper "HOL-Library.Multiset"
begin

text \<open>
  Service annotations (\<open>service/reconcile/annotation/annotations.go\<close>): lookup with the
  current prefix first and the legacy prefix second, the default load balancer name
  and tags derived from the service, and the parser of the additional tags.  Go's map
  iteration order is the parameter \<open>iter\<close>, a rearrangement of the entries.
\<close>

type_synonym tag = "string \<times> string"

definition AnnotationLegacyPrefix :: string where
  "AnnotationLegacyPrefix = ''service.beta.kubernetes.io/alicloud''"
definition AnnotationPrefix :: string where
  "AnnotationPrefix = ''service.beta.kubernetes.io/alibaba-cloud''"
definition AnnotationLoadBalancerPrefix :: string where
  "AnnotationLoadBalancerPrefix = ''loadbalancer-''"

datatype anno_key =
    AddressType | LoadBalancerId | LoadBalancerName | ResourceGroupId | AdditionalTags
  | CertID | ProtocolPort | IdleTimeout | TLSCipherPolicy
  | Scheduler | ConnectionDrain | ConnectionDrainTimeout
  | OverrideListener | IPVersion | Spec | DeleteProtection | ModificationProtection
  | HealthCheckFlag | HealthCheckType | HealthCheckURI | HealthCheckConnectPort
  | HealthyThreshold | UnhealthyThreshold | HealthCheckInterval | HealthCheckConnectTimeout
  | HealthCheckDomain | HealthCheckHTTPCode | HealthCheckMethod
  | BackendLabel | BackendIPVersion | RemoveUnscheduled
  | ZoneMaps | ProxyProtocol | CaCertID | CaCert | Cps | PreserveClientIp

text \<open>The constant behind each name, without the common \<open>loadbalancer-\<close>.\<close>

fun anno_suffix :: "anno_key \<Rightarrow> string" where
  "anno_suffix AddressType = ''address-type''"
| "anno_suffix LoadBalancerId = ''id''"
| "anno_suffix LoadBalancerName = ''name''"
| "anno_suffix ResourceGroupId = ''resource-group-id''"
| "anno_suffix AdditionalTags = ''additional-resource-tags''"
| "anno_suffix CertID = ''cert-id''"
| "anno_suffix ProtocolPort = ''protocol-port''"
| "anno_suffix IdleTimeout = ''idle-timeout''"
| "anno_suffix TLSCipherPolicy = ''tls-cipher-policy''"
| "anno_suffix Scheduler = ''scheduler''"
| "anno_suffix ConnectionDrain = ''connection-drain''"
| "anno_suffix ConnectionDrainTimeout = ''connection-drain-timeout''"
| "anno_suffix OverrideListener = ''force-override-listeners''"
| "anno_suffix IPVersion = ''ip-version''"
| "anno_suffix Spec = ''spec''"
| "anno_suffix DeleteProtection = ''delete-protection''"
| "anno_suffix ModificationProtection = ''modification-protection''"
| "anno_suffix HealthCheckFlag = ''health-check-flag''"
| "anno_suffix HealthCheckType = ''health-check-type''"
| "anno_suffix HealthCheckURI = ''health-check-uri''"
| "anno_suffix HealthCheckConnectPort = ''health-check-connect-port''"
| "anno_suffix HealthyThreshold = ''healthy-threshold''"
| "anno_suffix UnhealthyThreshold = ''unhealthy-threshold''"
| "anno_suffix HealthCheckInterval = ''health-check-interval''"
| "anno_suffix HealthCheckConnectTimeout = ''health-check-connect-timeout''"
| "anno_suffix HealthCheckDomain = ''health-check-domain''"
| "anno_suffix HealthCheckHTTPCode = ''health-check-httpcode''"
| "anno_suffix HealthCheckMethod = ''health-check-method''"
| "anno_suffix BackendLabel = ''backend-label''"
| "anno_suffix BackendIPVersion = ''backend-ip-version''"
| "anno_suffix RemoveUnscheduled = ''remove-unscheduled-backend''"
| "anno_suffix ZoneMaps = ''zone-maps''"
| "anno_suffix ProxyProtocol = ''proxy-protocol''"
| "anno_suffix CaCertID = ''cacert-id''"
| "anno_suffix CaCert = ''cacert''"
| "anno_suffix Cps = ''cps''"
| "anno_suffix PreserveClientIp = ''preserve-client-ip''"

definition anno_name :: "anno_key \<Rightarrow> string" where
  "anno_name k = AnnotationLoadBalancerPrefix @ anno_suffix k"

definition composite :: "string \<Rightarrow> string \<Rightarrow> string" where
  "composite p k = p @ ''-'' @ k"

definition Get :: "service \<Rightarrow> anno_key \<Rightarrow> string" where
  "Get svc k =
     (case map_of (svc_Annotations svc) (composite AnnotationPrefix (anno_name k)) of
        Some v \<Rightarrow> v
      | None \<Rightarrow>
          (case map_of (svc_Annotations svc) (composite AnnotationLegacyPrefix (anno_name k)) of
             Some v \<Rightarrow> v
           | None \<Rightarrow> []))"

definition GetDefaultLoadBalancerName :: "service \<Rightarrow> string" where
  "GetDefaultLoadBalancerName svc =
     (let ret = filter (\<lambda>c. c \<noteq> CHR ''-'') (CHR ''a'' # svc_UID svc)
      in if length ret > 32 then take 32 ret else ret)"

definition DefaultValue :: "anno_key \<Rightarrow> string" where
  "DefaultValue k =
     (case k of
        AddressType \<Rightarrow> ''internet''
      | Spec \<Rightarrow> ''slb.s1.small''
      | IPVersion \<Rightarrow> ''ipv4''
      | DeleteProtection \<Rightarrow> ''on''
      | ModificationProtection \<Rightarrow> ''ConsoleProtection''
      | _ \<Rightarrow> [])"

definition GetDefaultValue :: "service \<Rightarrow> anno_key \<Rightarrow> string" where
  "GetDefaultValue svc k =
     (if k = LoadBalancerName then GetDefaultLoadBalancerName svc else DefaultValue k)"

definition GetDefaultTags :: "config \<Rightarrow> service \<Rightarrow> tag list" where
  "GetDefaultTags cfg svc =
     [(TAGKEY, GetDefaultLoadBalancerName svc), (ClusterTagKey, cfg_ClusterID cfg)]"

text \<open>One \<open>Key=Val\<close>, \<open>Key=\<close> or \<open>Key\<close> of the additional tags.\<close>

definition add_tag_set :: "string \<Rightarrow> smap \<Rightarrow> smap" where
  "add_tag_set tagSet m =
     (let t = Split (TrimSpace tagSet) ''=''
      in if length t \<ge> 2 \<and> length (t ! 0) \<noteq> 0 then map_set (t ! 0) (t ! 1) m
         else if length t = 1 \<and> length (t ! 0) \<noteq> 0 then map_set (t ! 0) [] m
         else m)"

definition additional_tags :: "string \<Rightarrow> smap" where
  "additional_tags l =
     (if l \<noteq> [] then fold add_tag_set (Split (TrimSpace l) '','') [] else [])"

definition GetLoadBalancerAdditionalTags :: "(smap \<Rightarrow> smap) \<Rightarrow> service \<Rightarrow> tag list" where
  "GetLoadBalancerAdditionalTags iter svc = iter (additional_tags (Get svc AdditionalTags))"

definition IsForceOverride :: "service \<Rightarrow> bool" where
  "IsForceOverride svc \<longleftrightarrow> Get svc OverrideListener = ''true''"

subsection \<open>Lemmas\<close>

lemma GetDefaultLoadBalancerName_props:
  "length (GetDefaultLoadBalancerName svc) \<le> 32"
  "hd (GetDefaultLoadBalancerName svc) = CHR ''a''"
  "CHR ''-'' \<notin> set (GetDefaultLoadBalancerName svc)"
  by (auto simp: GetDefaultLoadBalancerName_def Let_def dest: in_set_takeD)

lemma smap_wf_add_tag_set: "smap_wf m \<Longrightarrow> smap_wf (add_tag_set t m)"
  by (simp add: add_tag_set_def Let_def smap_wf_map_set)

lemma smap_wf_fold_add_tag_set: "smap_wf m \<Longrightarrow> smap_wf (fold add_tag_set ts m)"
  by (induction ts arbitrary: m) (auto simp: smap_wf_add_tag_set)

lemma keys_add_tag_set: "[] \<notin> fst ` set m \<Longrightarrow> [] \<notin> fst ` set (add_tag_set t m)"
  by (auto simp: add_tag_set_def Let_def keys_map_set)

lemma keys_fold_add_tag_set: "[] \<notin> fst ` set m \<Longrightarrow> [] \<notin> fst ` set (fold add_tag_set ts m)"
  by (induction ts arbitrary: m) (auto simp: keys_add_tag_set)

lemma additional_tags_wf: "smap_wf (additional_tags l)" "[] \<notin> fst ` set (additional_tags l)"
proof -
  have "smap_wf ([] :: smap)" by (simp add: smap_wf_def)
  then show "smap_wf (additional_tags l)"
    by (simp add: additional_tags_def smap_wf_fold_add_tag_set)
  show "[] \<notin> fst ` set (additional_tags l)"
    using keys_fold_add_tag_set [of "[]"] by (cases "l = []") (simp_all add: additional_tags_def)
qed

end
