(* ===== verification/Nlb_Model.thy ===== *)
theory Nlb_Model
  imports Annotations
begin

text \<open>
  The model of a network load balancer (\<open>pkg/model/nlb/nlb.go\<close>): load balancer,
  listeners, server groups and servers as records with the fields of the structs,
  the normalisation of protocol and address strings, and the named keys under which
  the controller recognises the listeners and server groups it owns.  Embedded
  structs are record extension.  The codec of the named keys is an interface
  (\<open>named_key_codec\<close>) with one interpretation per kind of key; the two keys of
  \<open>pkg/model/load_balancer.go\<close> have the same codec with five parts.
\<close>

subsection \<open>Normalised strings\<close>

definition GetAddressType :: "string \<Rightarrow> string" where
  "GetAddressType t =
     (if EqualFold t ''Internet'' then ''Internet''
      else if EqualFold t ''Intranet'' then ''Intranet'' else t)"

definition GetAddressIpVersion :: "string \<Rightarrow> string" where
  "GetAddressIpVersion v =
     (if EqualFold v ''ipv4'' then ''ipv4''
      else if EqualFold v ''DualStack'' then ''DualStack'' else v)"

definition TCP :: string where "TCP = ''TCP''"
definition UDP :: string where "UDP = ''UDP''"
definition TCPSSL :: string where "TCPSSL = ''TCPSSL''"

definition GetListenerProtocolType :: "string \<Rightarrow> string" where
  "GetListenerProtocolType p =
     (if EqualFold p TCP then TCP
      else if EqualFold p UDP then UDP
      else if EqualFold p TCPSSL then TCPSSL else p)"

subsection \<open>Data\<close>

datatype server_type = EcsServerType | EniServerType | IpServerType | OtherServerType string

datatype tag_resource_type = LoadBalancerTagType | ServerGroupTagType

definition DEFAULT_PREFIX :: string where "DEFAULT_PREFIX = ''k8s''"

record named_key =
  nk_Prefix :: string
  nk_CID :: string
  nk_Namespace :: string
  nk_ServiceName :: string

record listener_named_key = named_key +
  lk_Port :: int
  lk_Protocol :: string

record sg_named_key = named_key +
  sk_Protocol :: string
  sk_SGGroupPort :: string

record zone_mapping =
  zm_VSwitchId :: string
  zm_ZoneId :: string
  zm_IPv4Addr :: string
  zm_AllocationId :: string

record health_check_config =
  hc_HealthCheckEnabled :: "bool option"
  hc_HealthCheckType :: string
  hc_HealthCheckConnectPort :: int
  hc_HealthyThreshold :: int
  hc_UnhealthyThreshold :: int
  hc_HealthCheckConnectTimeout :: int
  hc_HealthCheckInterval :: int
  hc_HealthCheckDomain :: string
  hc_HealthCheckUrl :: string
  hc_HealthCheckHttpCode :: "string list"
  hc_HttpCheckMethod :: string

record sg_server =
  srv_IsUserManaged :: bool
  srv_NodeName :: "string option"
  srv_ServerGroupId :: string
  srv_Description :: string
  srv_ServerId :: string
  srv_ServerIp :: string
  srv_ServerType :: server_type
  srv_Port :: int
  srv_Weight :: int
  srv_ZoneId :: string
  srv_Status :: string

record server_group =
  sg_IsUserManaged :: bool
  sg_NamedKey :: "sg_named_key option"
  sg_ServicePort :: "service_port option"
  sg_Weight :: "int option"
  sg_VPCId :: string
  sg_ServerGroupName :: string
  sg_ServerGroupType :: string
  sg_ResourceGroupId :: string
  sg_AddressIPVersion :: string
  sg_Protocol :: string
  sg_ConnectionDrainEnabled :: "bool option"
  sg_ConnectionDrainTimeout :: int
  sg_Scheduler :: string
  sg_PreserveClientIpEnabled :: "bool option"
  sg_HealthCheckConfig :: "health_check_config option"
  sg_Servers :: "sg_server list"
  sg_Tags :: "tag list"
  sg_ServerGroupId :: string

record listener_attr =
  ls_IsUserManaged :: bool
  ls_NamedKey :: "listener_named_key option"
  ls_ServerGroupName :: string
  ls_ServicePort :: "service_port option"
  ls_ListenerProtocol :: string
  ls_ListenerPort :: int
  ls_ListenerDescription :: string
  ls_ServerGroupId :: string
  ls_LoadBalancerId :: string
  ls_IdleTimeout :: int
  ls_SecurityPolicyId :: string
  ls_CertificateIds :: "string list"
  ls_CaCertificateIds :: "string list"
  ls_CaEnabled :: "bool option"
  ls_ProxyProtocolEnabled :: "bool option"
  ls_SecSensorEnabled :: "bool option"
  ls_AlpnEnabled :: "bool option"
  ls_AlpnPolicy :: string
  ls_StartPort :: "int option"
  ls_EndPort :: "int option"
  ls_Cps :: "int option"
  ls_ListenerId :: string
  ls_ListenerStatus :: string

record lb_attr =
  lb_IsUserManaged :: bool
  lb_Name :: string
  lb_AddressType :: string
  lb_AddressIpVersion :: string
  lb_VpcId :: string
  lb_ZoneMappings :: "zone_mapping list"
  lb_ResourceGroupId :: string
  lb_Tags :: "tag list"
  lb_LoadBalancerId :: string
  lb_LoadBalancerStatus :: string
  lb_LoadBalancerBusinessStatus :: string
  lb_DNSName :: string

record nlb =
  nlb_NamespacedName :: "string \<times> string"
  nlb_LoadBalancerAttribute :: lb_attr
  nlb_Listeners :: "listener_attr list"
  nlb_ServerGroups :: "server_group list"

text \<open>The zero values of the structs.\<close>

definition zero_server :: sg_server where
  "zero_server = \<lparr>srv_IsUserManaged = False, srv_NodeName = None, srv_ServerGroupId = [],
     srv_Description = [], srv_ServerId = [], srv_ServerIp = [], srv_ServerType = OtherServerType [],
     srv_Port = 0, srv_Weight = 0, srv_ZoneId = [], srv_Status = []\<rparr>"

definition zero_health_check :: health_check_config where
  "zero_health_check = \<lparr>hc_HealthCheckEnabled = None, hc_HealthCheckType = [],
     hc_HealthCheckConnectPort = 0, hc_HealthyThreshold = 0, hc_UnhealthyThreshold = 0,
     hc_HealthCheckConnectTimeout = 0, hc_HealthCheckInterval = 0, hc_HealthCheckDomain = [],
     hc_HealthCheckUrl = [], hc_HealthCheckHttpCode = [], hc_HttpCheckMethod = []\<rparr>"

definition zero_server_group :: server_group where
  "zero_server_group = \<lparr>sg_IsUserManaged = False, sg_NamedKey = None, sg_ServicePort = None,
     sg_Weight = None, sg_VPCId = [], sg_ServerGroupName = [], sg_ServerGroupType = [],
     sg_ResourceGroupId = [], sg_AddressIPVersion = [], sg_Protocol = [],
     sg_ConnectionDrainEnabled = None, sg_ConnectionDrainTimeout = 0, sg_Scheduler = [],
     sg_PreserveClientIpEnabled = None, sg_HealthCheckConfig = None, sg_Servers = [],
     sg_Tags = [], sg_ServerGroupId = []\<rparr>"

definition zero_listener :: listener_attr where
  "zero_listener = \<lparr>ls_IsUserManaged = False, ls_NamedKey = None, ls_ServerGroupName = [],
     ls_ServicePort = None, ls_ListenerProtocol = [], ls_ListenerPort = 0,
     ls_ListenerDescription = [], ls_ServerGroupId = [], ls_LoadBalancerId = [], ls_IdleTimeout = 0,
     ls_SecurityPolicyId = [], ls_CertificateIds = [], ls_CaCertificateIds = [], ls_CaEnabled = None,
     ls_ProxyProtocolEnabled = None, ls_SecSensorEnabled = None, ls_AlpnEnabled = None,
     ls_AlpnPolicy = [], ls_StartPort = None, ls_EndPort = None, ls_Cps = None,
     ls_ListenerId = [], ls_ListenerStatus = []\<rparr>"

definition zero_lb_attr :: lb_attr where
  "zero_lb_attr = \<lparr>lb_IsUserManaged = False, lb_Name = [], lb_AddressType = [],
     lb_AddressIpVersion = [], lb_VpcId = [], lb_ZoneMappings = [], lb_ResourceGroupId = [],
     lb_Tags = [], lb_LoadBalancerId = [], lb_LoadBalancerStatus = [],
     lb_LoadBalancerBusinessStatus = [], lb_DNSName = []\<rparr>"

text \<open>\<open>GetLoadBalancerId\<close> accepts a nil receiver.\<close>

definition GetLoadBalancerId :: "nlb option \<Rightarrow> string" where
  "GetLoadBalancerId l = (case l of None \<Rightarrow> [] | Some m \<Rightarrow> lb_LoadBalancerId (nlb_LoadBalancerAttribute m))"

subsection \<open>Named keys\<close>

definition IsManagedByService :: "'z named_key_scheme option \<Rightarrow> service \<Rightarrow> string \<Rightarrow> bool" where
  "IsManagedByService n svc clusterId =
     (case n of None \<Rightarrow> False
      | Some k \<Rightarrow> nk_ServiceName k = svc_Name svc \<and> nk_Namespace k = svc_Namespace svc \<and>
          nk_CID k = clusterId)"

text \<open>\<open>Key\<close> first writes the default prefix into a key without one.\<close>

definition with_prefix :: "'z named_key_scheme \<Rightarrow> 'z named_key_scheme" where
  "with_prefix n = (if nk_Prefix n = [] then n\<lparr>nk_Prefix := DEFAULT_PREFIX\<rparr> else n)"

definition ListenerNamedKey_Key :: "listener_named_key \<Rightarrow> string" where
  "ListenerNamedKey_Key n =
     (let n = with_prefix n
      in Join [nk_Prefix n, Itoa (lk_Port n), lk_Protocol n, nk_ServiceName n, nk_Namespace n, nk_CID n] ''.'')"

definition LoadNLBListenerNamedKey :: "string \<Rightarrow> listener_named_key res" where
  "LoadNLBListenerNamedKey key =
     (let metas = Split key ''.''
      in if length metas \<noteq> 6 \<or> metas ! 0 \<noteq> DEFAULT_PREFIX then
           Inl (Errorf ''ListenerName Format Error'')
         else bind_res (Atoi (metas ! 1)) (\<lambda>port.
           Inr \<lparr>nk_Prefix = DEFAULT_PREFIX, nk_CID = metas ! 5, nk_Namespace = metas ! 4,
                nk_ServiceName = metas ! 3, lk_Port = to_int32 port, lk_Protocol = metas ! 2\<rparr>))"

definition SGNamedKey_Key :: "sg_named_key \<Rightarrow> string" where
  "SGNamedKey_Key n =
     (let n = with_prefix n
      in Join [nk_Prefix n, sk_SGGroupPort n, sk_Protocol n, nk_ServiceName n, nk_Namespace n, nk_CID n] ''.'')"

definition LoadNLBSGNamedKey :: "string \<Rightarrow> sg_named_key res" where
  "LoadNLBSGNamedKey key =
     (let metas = Split key ''.''
      in if length metas \<noteq> 6 \<or> metas ! 0 \<noteq> DEFAULT_PREFIX then
           Inl (Errorf ''ServerGroupName Format Error'')
         else Inr \<lparr>nk_Prefix = DEFAULT_PREFIX, nk_CID = metas ! 5, nk_Namespace = metas ! 4,
                   nk_ServiceName = metas ! 3, sk_Protocol = metas ! 2, sk_SGGroupPort = metas ! 1\<rparr>)"

text \<open>Keys whose parts contain no dot: what Kubernetes allows as names of services and namespaces.\<close>

definition no_dot :: "string \<Rightarrow> bool" where
  "no_dot s \<longleftrightarrow> CHR ''.'' \<notin> set s"

definition named_key_wf :: "'z named_key_scheme \<Rightarrow> bool" where
  "named_key_wf n \<longleftrightarrow> nk_Prefix n = DEFAULT_PREFIX \<and> no_dot (nk_CID n) \<and>
     no_dot (nk_Namespace n) \<and> no_dot (nk_ServiceName n)"

definition listener_key_wf :: "listener_named_key \<Rightarrow> bool" where
  "listener_key_wf n \<longleftrightarrow> named_key_wf n \<and> is_int32 (lk_Port n) \<and> no_dot (lk_Protocol n)"

definition sg_key_wf :: "sg_named_key \<Rightarrow> bool" where
  "sg_key_wf n \<longleftrightarrow> named_key_wf n \<and> no_dot (sk_SGGroupPort n) \<and> no_dot (sk_Protocol n)"

subsection \<open>The codec interface\<close>

locale named_key_codec =
  fixes key :: "'k \<Rightarrow> string"
    and load :: "string \<Rightarrow> 'k res"
    and wf :: "'k \<Rightarrow> bool"
  assumes load_key: "wf k \<Longrightarrow> load (key k) = Inr k"
    and load_wf: "load s = Inr k \<Longrightarrow> wf k"
begin

lemma key_inject: "wf k \<Longrightarrow> wf k' \<Longrightarrow> key k = key k' \<longleftrightarrow> k = k'"
  using load_key by (metis sum.inject(2))

lemma load_key_load: "load s = Inr k \<Longrightarrow> load (key k) = load s"
  using load_key load_wf by simp

lemma load_range: "(\<exists>s. load s = Inr k) \<longleftrightarrow> wf k"
  using load_key load_wf by blast

end

locale exact_named_key_codec = named_key_codec +
  assumes key_load: "load s = Inr k \<Longrightarrow> key k = s"
begin

lemma load_inject: "load s = Inr k \<Longrightarrow> load t = Inr k \<Longrightarrow> s = t"
  using key_load by blast

lemma load_iff: "load s = Inr k \<longleftrightarrow> wf k \<and> key k = s"
  using key_load load_key load_wf by blast

end

subsection \<open>Both codecs satisfy it\<close>

lemma Split_Join6:
  assumes "no_dot a" "no_dot b" "no_dot c" "no_dot d" "no_dot e" "no_dot f"
  shows "Split (Join [a, b, c, d, e, f] ''.'') ''.'' = [a, b, c, d, e, f]"
  using assms by (intro Split_Join1) (auto simp: no_dot_def)

lemma no_dot_consts [simp]: "no_dot DEFAULT_PREFIX" "no_dot (Itoa i)"
  by (simp_all add: no_dot_def DEFAULT_PREFIX_def Itoa_dot)

lemma Split_nth_no_dot: "i < length (Split s ''.'') \<Longrightarrow> no_dot (Split s ''.'' ! i)"
  by (auto simp: no_dot_def dest!: nth_mem Split_no_sep_parts)

lemma list6_eq:
  "length xs = 6 \<Longrightarrow> xs = [xs ! 0, xs ! 1, xs ! 2, xs ! 3, xs ! 4, xs ! 5]"
  by (auto simp: numeral_eq_Suc length_Suc_conv)

lemma Join_Split6:
  "length (Split s ''.'') = 6 \<Longrightarrow>
   Join [Split s ''.'' ! 0, Split s ''.'' ! 1, Split s ''.'' ! 2, Split s ''.'' ! 3,
         Split s ''.'' ! 4, Split s ''.'' ! 5] ''.'' = s"
  using list6_eq [of "Split s ''.''"] Join_Split1 [of s "CHR ''.''"] by metis

interpretation listener_key: named_key_codec ListenerNamedKey_Key LoadNLBListenerNamedKey listener_key_wf
proof unfold_locales
  fix k :: listener_named_key
  assume wf: "listener_key_wf k"
  then have pre: "with_prefix k = k"
    by (auto simp: with_prefix_def listener_key_wf_def named_key_wf_def DEFAULT_PREFIX_def)
  have split: "Split (ListenerNamedKey_Key k) ''.'' =
      [DEFAULT_PREFIX, Itoa (lk_Port k), lk_Protocol k, nk_ServiceName k, nk_Namespace k, nk_CID k]"
    using wf by (simp add: ListenerNamedKey_Key_def pre Split_Join6 listener_key_wf_def named_key_wf_def
        del: Join.simps)
  have "Atoi (Itoa (lk_Port k)) = Inr (lk_Port k)" and "to_int32 (lk_Port k) = lk_Port k"
    using wf by (simp_all add: listener_key_wf_def Atoi_Itoa is_int32_is_int64)
  with wf show "LoadNLBListenerNamedKey (ListenerNamedKey_Key k) = Inr k"
    by (simp add: LoadNLBListenerNamedKey_def split listener_key_wf_def named_key_wf_def)
next
  fix s k
  assume "LoadNLBListenerNamedKey s = Inr k"
  then show "listener_key_wf k"
    by (auto simp: LoadNLBListenerNamedKey_def listener_key_wf_def named_key_wf_def Let_def
        bind_res_Inr_iff Split_nth_no_dot split: if_splits)
qed

interpretation sg_key: exact_named_key_codec SGNamedKey_Key LoadNLBSGNamedKey sg_key_wf
proof unfold_locales
  fix k :: sg_named_key
  assume wf: "sg_key_wf k"
  then have pre: "with_prefix k = k"
    by (auto simp: with_prefix_def sg_key_wf_def named_key_wf_def DEFAULT_PREFIX_def)
  have split: "Split (SGNamedKey_Key k) ''.'' =
      [DEFAULT_PREFIX, sk_SGGroupPort k, sk_Protocol k, nk_ServiceName k, nk_Namespace k, nk_CID k]"
    using wf by (simp add: SGNamedKey_Key_def pre Split_Join6 sg_key_wf_def named_key_wf_def
        del: Join.simps)
  with wf show "LoadNLBSGNamedKey (SGNamedKey_Key k) = Inr k"
    by (simp add: LoadNLBSGNamedKey_def sg_key_wf_def named_key_wf_def)
next
  fix s k
  assume "LoadNLBSGNamedKey s = Inr k"
  then show "sg_key_wf k"
    by (auto simp: LoadNLBSGNamedKey_def sg_key_wf_def named_key_wf_def Let_def
        Split_nth_no_dot split: if_splits)
next
  fix s k
  assume load: "LoadNLBSGNamedKey s = Inr k"
  then have len: "length (Split s ''.'') = 6" and pre: "Split s ''.'' ! 0 = DEFAULT_PREFIX"
    by (auto simp: LoadNLBSGNamedKey_def Let_def split: if_splits)
  have "with_prefix k = k"
    using load by (auto simp: LoadNLBSGNamedKey_def with_prefix_def DEFAULT_PREFIX_def Let_def split: if_splits)
  with load len pre Join_Split6 [OF len] show "SGNamedKey_Key k = s"
    by (auto simp: LoadNLBSGNamedKey_def SGNamedKey_Key_def Let_def simp del: Join.simps)
qed

subsection \<open>Properties\<close>

text \<open>
  (C35) A listener description written by the controller is read back as the same key, so
  the controller recognises its own listeners.
\<close>

theorem listener_key_round_trip:
  assumes "listener_key_wf k"
  shows "LoadNLBListenerNamedKey (ListenerNamedKey_Key k) = Inr k"
  by (rule listener_key.load_key [OF assms])

theorem listener_key_round_trip_witness:
  "LoadNLBListenerNamedKey (ListenerNamedKey_Key
     \<lparr>nk_Prefix = ''k8s'', nk_CID = ''c1'', nk_Namespace = ''ns'', nk_ServiceName = ''web'',
      lk_Port = 443, lk_Protocol = ''TCPSSL''\<rparr>) =
   Inr \<lparr>nk_Prefix = ''k8s'', nk_CID = ''c1'', nk_Namespace = ''ns'', nk_ServiceName = ''web'',
      lk_Port = 443, lk_Protocol = ''TCPSSL''\<rparr>"
  by (rule listener_key_round_trip)
    (simp add: listener_key_wf_def named_key_wf_def no_dot_def DEFAULT_PREFIX_def is_int32_def)

text \<open>
  The names of server groups and their keys correspond one to one: a name loads as a
  key exactly when the key is well formed and prints as that name.
\<close>

theorem server_group_key_exact:
  "LoadNLBSGNamedKey s = Inr k \<longleftrightarrow> sg_key_wf k \<and> SGNamedKey_Key k = s"
  by (rule sg_key.load_iff)

end
