(* ===== verification/Nlb_Cloud.thy ===== *)
theory Nlb_Cloud
  imports Nlb_Model
begin

text \<open>
  The boundary of the service controller: the provider interface
  (\<open>prvd.Provider\<close>: \<open>INLB\<close>, \<open>IVPC\<close>, \<open>IECS\<close>, metadata) and the Kubernetes client, as
  one record of operations over an arbitrary world.  The operations are parameters;
  nothing is assumed about them unless a theorem says so.  Every use is logged, so
  the log of a run is the sequence of requests the controller sent.

  An operation that fills in the object it is given (\<open>FindNLB\<close>, \<open>CreateNLB\<close>,
  \<open>CreateNLBServerGroup\<close>, \<open>Get\<close> and \<open>Patch\<close> of a service) returns the object.
\<close>

record ep_subset =
  ss_Ports :: "(string \<times> int) list"
  ss_Addresses :: "(string \<times> string option) list"

record slice_endpoint =
  se_Ready :: "bool option"
  se_Addresses :: "string list"
  se_Topology :: smap

record endpoint_slice =
  es_Namespace :: string
  es_Labels :: smap
  es_AddressType :: string
  es_Ports :: "(string option \<times> int option) list"
  es_Endpoints :: "slice_endpoint list"

datatype event_reason =
    UnAvailableBackends | FailedCleanLB | FailedRemoveHash | FailedUpdateStatus
  | FailedRemoveFinalizer | SucceedCleanLB | FailedAddFinalizer | FailedSyncLB
  | FailedAddHash | SucceedSyncLB
  | TypeChanged | AnnoChanged | SpecChanged | DeleteTimestampChanged

datatype nlb_call =
    CTagNLBResource string tag_resource_type "tag list"
  | CListNLBTagResources string
  | CFindNLB nlb
  | CCreateNLB nlb
  | CDeleteNLB nlb
  | CUpdateNLB nlb
  | CUpdateNLBAddressType nlb
  | CUpdateNLBZones nlb
  | CListNLBServerGroups "tag list"
  | CCreateNLBServerGroup server_group
  | CDeleteNLBServerGroup string
  | CUpdateNLBServerGroup server_group
  | CAddNLBServers string "sg_server list"
  | CRemoveNLBServers string "sg_server list"
  | CUpdateNLBServers string "sg_server list"
  | CListNLBListeners string
  | CCreateNLBListener string listener_attr
  | CUpdateNLBListener listener_attr
  | CDeleteNLBListener string
  | CStartNLBListener string
  | CVpcID
  | CRegion
  | CDescribeNetworkInterfaces string "string list" string
  | CGetInstanceByIp string string string
  | CListNodes
  | CGetEndpoints "string \<times> string"
  | CListEndpointSlices "string \<times> string"
  | CGetService "string \<times> string"
  | CPatchServiceStatus service service
  | CPatchService service service
  | CListServices
  | CEvent event_reason

record 'w cloud =
  c_TagNLBResource :: "string \<Rightarrow> tag_resource_type \<Rightarrow> tag list \<Rightarrow> 'w \<Rightarrow> unit res \<times> 'w"
  c_ListNLBTagResources :: "string \<Rightarrow> 'w \<Rightarrow> tag list res \<times> 'w"
  c_FindNLB :: "nlb \<Rightarrow> 'w \<Rightarrow> nlb res \<times> 'w"
  c_CreateNLB :: "nlb \<Rightarrow> 'w \<Rightarrow> nlb res \<times> 'w"
  c_DeleteNLB :: "nlb \<Rightarrow> 'w \<Rightarrow> unit res \<times> 'w"
  c_UpdateNLB :: "nlb \<Rightarrow> 'w \<Rightarrow> unit res \<times> 'w"
  c_UpdateNLBAddressType :: "nlb \<Rightarrow> 'w \<Rightarrow> unit res \<times> 'w"
  c_UpdateNLBZones :: "nlb \<Rightarrow> 'w \<Rightarrow> unit res \<times> 'w"
  c_ListNLBServerGroups :: "tag list \<Rightarrow> 'w \<Rightarrow> server_group list res \<times> 'w"
  c_CreateNLBServerGroup :: "server_group \<Rightarrow> 'w \<Rightarrow> server_group res \<times> 'w"
  c_DeleteNLBServerGroup :: "string \<Rightarrow> 'w \<Rightarrow> unit res \<times> 'w"
  c_UpdateNLBServerGroup :: "server_group \<Rightarrow> 'w \<Rightarrow> unit res \<times> 'w"
  c_AddNLBServers :: "string \<Rightarrow> sg_server list \<Rightarrow> 'w \<Rightarrow> unit res \<times> 'w"
  c_RemoveNLBServers :: "string \<Rightarrow> sg_server list \<Rightarrow> 'w \<Rightarrow> unit res \<times> 'w"
  c_UpdateNLBServers :: "string \<Rightarrow> sg_server list \<Rightarrow> 'w \<Rightarrow> unit res \<times> 'w"
  c_ListNLBListeners :: "string \<Rightarrow> 'w \<Rightarrow> listener_attr list res \<times> 'w"
  c_CreateNLBListener :: "string \<Rightarrow> listener_attr \<Rightarrow> 'w \<Rightarrow> unit res \<times> 'w"
  c_UpdateNLBListener :: "listener_attr \<Rightarrow> 'w \<Rightarrow> unit res \<times> 'w"
  c_DeleteNLBListener :: "string \<Rightarrow> 'w \<Rightarrow> unit res \<times> 'w"
  c_StartNLBListener :: "string \<Rightarrow> 'w \<Rightarrow> unit res \<times> 'w"
  c_VpcID :: "'w \<Rightarrow> string res \<times> 'w"
  c_Region :: "'w \<Rightarrow> string res \<times> 'w"
  c_DescribeNetworkInterfaces :: "string \<Rightarrow> string list \<Rightarrow> string \<Rightarrow> 'w \<Rightarrow> smap res \<times> 'w"
  c_GetInstanceByIp :: "string \<Rightarrow> string \<Rightarrow> string \<Rightarrow> 'w \<Rightarrow> string list res \<times> 'w"
  c_ListNodes :: "'w \<Rightarrow> node list res \<times> 'w"
  c_GetEndpoints :: "string \<times> string \<Rightarrow> 'w \<Rightarrow> ep_subset list res \<times> 'w"
  c_ListEndpointSlices :: "string \<times> string \<Rightarrow> 'w \<Rightarrow> endpoint_slice list res \<times> 'w"
  c_GetService :: "string \<times> string \<Rightarrow> 'w \<Rightarrow> service res \<times> 'w"
  c_PatchServiceStatus :: "service \<Rightarrow> service \<Rightarrow> 'w \<Rightarrow> unit res \<times> 'w"
  c_PatchService :: "service \<Rightarrow> service \<Rightarrow> 'w \<Rightarrow> service res \<times> 'w"
  c_ListServices :: "'w \<Rightarrow> service list res \<times> 'w"
  c_IsNotFound :: "go_error \<Rightarrow> bool"
  c_IsConflict :: "go_error \<Rightarrow> bool"
  c_Now :: "'w \<Rightarrow> int"

text \<open>The node cache of the server group manager: instance id and expiry time by key.\<close>

record 'w nlb_state = "('w, nlb_call) effects" +
  ns_nodeCache :: "(string \<times> string \<times> int) list"

type_synonym ('w, 'a) nlb_prog = "('w nlb_state, 'a) prog"

definition TagNLBResource :: "'w cloud \<Rightarrow> string \<Rightarrow> tag_resource_type \<Rightarrow> tag list \<Rightarrow> ('w, unit) nlb_prog" where
  "TagNLBResource C i t ts = invoke (CTagNLBResource i t ts) (c_TagNLBResource C i t ts)"
definition ListNLBTagResources :: "'w cloud \<Rightarrow> string \<Rightarrow> ('w, tag list) nlb_prog" where
  "ListNLBTagResources C i = invoke (CListNLBTagResources i) (c_ListNLBTagResources C i)"
definition FindNLB :: "'w cloud \<Rightarrow> nlb \<Rightarrow> ('w, nlb) nlb_prog" where
  "FindNLB C m = invoke (CFindNLB m) (c_FindNLB C m)"
definition CreateNLB :: "'w cloud \<Rightarrow> nlb \<Rightarrow> ('w, nlb) nlb_prog" where
  "CreateNLB C m = invoke (CCreateNLB m) (c_CreateNLB C m)"
definition DeleteNLB :: "'w cloud \<Rightarrow> nlb \<Rightarrow> ('w, unit) nlb_prog" where
  "DeleteNLB C m = invoke (CDeleteNLB m) (c_DeleteNLB C m)"
definition UpdateNLB :: "'w cloud \<Rightarrow> nlb \<Rightarrow> ('w, unit) nlb_prog" where
  "UpdateNLB C m = invoke (CUpdateNLB m) (c_UpdateNLB C m)"
definition UpdateNLBAddressType :: "'w cloud \<Rightarrow> nlb \<Rightarrow> ('w, unit) nlb_prog" where
  "UpdateNLBAddressType C m = invoke (CUpdateNLBAddressType m) (c_UpdateNLBAddressType C m)"
definition UpdateNLBZones :: "'w cloud \<Rightarrow> nlb \<Rightarrow> ('w, unit) nlb_prog" where
  "UpdateNLBZones C m = invoke (CUpdateNLBZones m) (c_UpdateNLBZones C m)"
definition ListNLBServerGroups :: "'w cloud \<Rightarrow> tag list \<Rightarrow> ('w, server_group list) nlb_prog" where
  "ListNLBServerGroups C ts = invoke (CListNLBServerGroups ts) (c_ListNLBServerGroups C ts)"
definition CreateNLBServerGroup :: "'w cloud \<Rightarrow> server_group \<Rightarrow> ('w, server_group) nlb_prog" where
  "CreateNLBServerGroup C g = invoke (CCreateNLBServerGroup g) (c_CreateNLBServerGroup C g)"
definition DeleteNLBServerGroup :: "'w cloud \<Rightarrow> string \<Rightarrow> ('w, unit) nlb_prog" where
  "DeleteNLBServerGroup C i = invoke (CDeleteNLBServerGroup i) (c_DeleteNLBServerGroup C i)"
definition UpdateNLBServerGroup :: "'w cloud \<Rightarrow> server_group \<Rightarrow> ('w, unit) nlb_prog" where
  "UpdateNLBServerGroup C g = invoke (CUpdateNLBServerGroup g) (c_UpdateNLBServerGroup C g)"
definition AddNLBServers :: "'w cloud \<Rightarrow> string \<Rightarrow> sg_server list \<Rightarrow> ('w, unit) nlb_prog" where
  "AddNLBServers C i bs = invoke (CAddNLBServers i bs) (c_AddNLBServers C i bs)"
definition RemoveNLBServers :: "'w cloud \<Rightarrow> string \<Rightarrow> sg_server list \<Rightarrow> ('w, unit) nlb_prog" where
  "RemoveNLBServers C i bs = invoke (CRemoveNLBServers i bs) (c_RemoveNLBServers C i bs)"
definition UpdateNLBServers :: "'w cloud \<Rightarrow> string \<Rightarrow> sg_server list \<Rightarrow> ('w, unit) nlb_prog" where
  "UpdateNLBServers C i bs = invoke (CUpdateNLBServers i bs) (c_UpdateNLBServers C i bs)"
definition ListNLBListeners :: "'w cloud \<Rightarrow> string \<Rightarrow> ('w, listener_attr list) nlb_prog" where
  "ListNLBListeners C i = invoke (CListNLBListeners i) (c_ListNLBListeners C i)"
definition CreateNLBListener :: "'w cloud \<Rightarrow> string \<Rightarrow> listener_attr \<Rightarrow> ('w, unit) nlb_prog" where
  "CreateNLBListener C i l = invoke (CCreateNLBListener i l) (c_CreateNLBListener C i l)"
definition PutNLBListener :: "'w cloud \<Rightarrow> listener_attr \<Rightarrow> ('w, unit) nlb_prog" where
  "PutNLBListener C l = invoke (CUpdateNLBListener l) (c_UpdateNLBListener C l)"
definition DeleteNLBListener :: "'w cloud \<Rightarrow> string \<Rightarrow> ('w, unit) nlb_prog" where
  "DeleteNLBListener C i = invoke (CDeleteNLBListener i) (c_DeleteNLBListener C i)"
definition StartNLBListener :: "'w cloud \<Rightarrow> string \<Rightarrow> ('w, unit) nlb_prog" where
  "StartNLBListener C i = invoke (CStartNLBListener i) (c_StartNLBListener C i)"
definition VpcID :: "'w cloud \<Rightarrow> ('w, string) nlb_prog" where
  "VpcID C = invoke CVpcID (c_VpcID C)"
definition Region :: "'w cloud \<Rightarrow> ('w, string) nlb_prog" where
  "Region C = invoke CRegion (c_Region C)"
definition DescribeNetworkInterfaces :: "'w cloud \<Rightarrow> string \<Rightarrow> string list \<Rightarrow> string \<Rightarrow> ('w, smap) nlb_prog" where
  "DescribeNetworkInterfaces C v ips ver =
     invoke (CDescribeNetworkInterfaces v ips ver) (c_DescribeNetworkInterfaces C v ips ver)"
definition GetInstanceByIp :: "'w cloud \<Rightarrow> string \<Rightarrow> string \<Rightarrow> string \<Rightarrow> ('w, string list) nlb_prog" where
  "GetInstanceByIp C ip r v = invoke (CGetInstanceByIp ip r v) (c_GetInstanceByIp C ip r v)"
definition ListNodes :: "'w cloud \<Rightarrow> ('w, node list) nlb_prog" where
  "ListNodes C = invoke CListNodes (c_ListNodes C)"
definition GetEndpoints :: "'w cloud \<Rightarrow> string \<times> string \<Rightarrow> ('w, ep_subset list) nlb_prog" where
  "GetEndpoints C n = invoke (CGetEndpoints n) (c_GetEndpoints C n)"
definition ListEndpointSlices :: "'w cloud \<Rightarrow> string \<times> string \<Rightarrow> ('w, endpoint_slice list) nlb_prog" where
  "ListEndpointSlices C n = invoke (CListEndpointSlices n) (c_ListEndpointSlices C n)"
definition GetService :: "'w cloud \<Rightarrow> string \<times> string \<Rightarrow> ('w, service) nlb_prog" where
  "GetService C n = invoke (CGetService n) (c_GetService C n)"
definition PatchServiceStatus :: "'w cloud \<Rightarrow> service \<Rightarrow> service \<Rightarrow> ('w, unit) nlb_prog" where
  "PatchServiceStatus C old new = invoke (CPatchServiceStatus old new) (c_PatchServiceStatus C old new)"
definition PatchService :: "'w cloud \<Rightarrow> service \<Rightarrow> service \<Rightarrow> ('w, service) nlb_prog" where
  "PatchService C old new = invoke (CPatchService old new) (c_PatchService C old new)"
definition ListServices :: "'w cloud \<Rightarrow> ('w, service list) nlb_prog" where
  "ListServices C = invoke CListServices (c_ListServices C)"
definition Event :: "event_reason \<Rightarrow> ('w, unit) nlb_prog" where
  "Event r = invoke (CEvent r) (\<lambda>w. (Inr (), w))"

lemmas nlb_calls =
  TagNLBResource_def ListNLBTagResources_def FindNLB_def CreateNLB_def DeleteNLB_def UpdateNLB_def
  UpdateNLBAddressType_def UpdateNLBZones_def ListNLBServerGroups_def CreateNLBServerGroup_def
  DeleteNLBServerGroup_def UpdateNLBServerGroup_def AddNLBServers_def RemoveNLBServers_def
  UpdateNLBServers_def ListNLBListeners_def CreateNLBListener_def PutNLBListener_def
  DeleteNLBListener_def StartNLBListener_def VpcID_def Region_def DescribeNetworkInterfaces_def
  GetInstanceByIp_def ListNodes_def GetEndpoints_def ListEndpointSlices_def GetService_def
  PatchServiceStatus_def PatchService_def ListServices_def Event_def

text \<open>A call that changes a load balancer, listener, server group or server in the cloud.\<close>

fun is_cloud_write :: "nlb_call \<Rightarrow> bool" where
  "is_cloud_write (CTagNLBResource _ _ _) = True"
| "is_cloud_write (CCreateNLB _) = True"
| "is_cloud_write (CDeleteNLB _) = True"
| "is_cloud_write (CUpdateNLB _) = True"
| "is_cloud_write (CUpdateNLBAddressType _) = True"
| "is_cloud_write (CUpdateNLBZones _) = True"
| "is_cloud_write (CCreateNLBServerGroup _) = True"
| "is_cloud_write (CDeleteNLBServerGroup _) = True"
| "is_cloud_write (CUpdateNLBServerGroup _) = True"
| "is_cloud_write (CAddNLBServers _ _) = True"
| "is_cloud_write (CRemoveNLBServers _ _) = True"
| "is_cloud_write (CUpdateNLBServers _ _) = True"
| "is_cloud_write (CCreateNLBListener _ _) = True"
| "is_cloud_write (CUpdateNLBListener _) = True"
| "is_cloud_write (CDeleteNLBListener _) = True"
| "is_cloud_write (CStartNLBListener _) = True"
| "is_cloud_write _ = False"

text \<open>A world without state for the examples: empty lists, and one service that every \<open>Get\<close> returns.\<close>

definition demo_cloud :: "service \<Rightarrow> unit cloud" where
  "demo_cloud svc = \<lparr>c_TagNLBResource = \<lambda>_ _ _ w. (Inr (), w), c_ListNLBTagResources = \<lambda>_ w. (Inr [], w),
     c_FindNLB = \<lambda>m w. (Inr m, w), c_CreateNLB = \<lambda>m w. (Inr m, w), c_DeleteNLB = \<lambda>_ w. (Inr (), w),
     c_UpdateNLB = \<lambda>_ w. (Inr (), w), c_UpdateNLBAddressType = \<lambda>_ w. (Inr (), w),
     c_UpdateNLBZones = \<lambda>_ w. (Inr (), w), c_ListNLBServerGroups = \<lambda>_ w. (Inr [], w),
     c_CreateNLBServerGroup = \<lambda>g w. (Inr g, w), c_DeleteNLBServerGroup = \<lambda>_ w. (Inr (), w),
     c_UpdateNLBServerGroup = \<lambda>_ w. (Inr (), w), c_AddNLBServers = \<lambda>_ _ w. (Inr (), w),
     c_RemoveNLBServers = \<lambda>_ _ w. (Inr (), w), c_UpdateNLBServers = \<lambda>_ _ w. (Inr (), w),
     c_ListNLBListeners = \<lambda>_ w. (Inr [], w), c_CreateNLBListener = \<lambda>_ _ w. (Inr (), w),
     c_UpdateNLBListener = \<lambda>_ w. (Inr (), w), c_DeleteNLBListener = \<lambda>_ w. (Inr (), w),
     c_StartNLBListener = \<lambda>_ w. (Inr (), w), c_VpcID = \<lambda>w. (Inr ''vpc'', w), c_Region = \<lambda>w. (Inr ''r'', w),
     c_DescribeNetworkInterfaces = \<lambda>_ _ _ w. (Inr [], w), c_GetInstanceByIp = \<lambda>_ _ _ w. (Inr [], w),
     c_ListNodes = \<lambda>w. (Inr [], w), c_GetEndpoints = \<lambda>_ w. (Inr [], w),
     c_ListEndpointSlices = \<lambda>_ w. (Inr [], w), c_GetService = \<lambda>_ w. (Inr svc, w),
     c_PatchServiceStatus = \<lambda>_ _ w. (Inr (), w), c_PatchService = \<lambda>_ new w. (Inr new, w),
     c_ListServices = \<lambda>w. (Inr [svc], w), c_IsNotFound = \<lambda>_. False, c_IsConflict = \<lambda>_. False,
     c_Now = \<lambda>_. 0\<rparr>"

definition demo_state :: "unit nlb_state" where
  "demo_state = \<lparr>fx_world = (), fx_calls = [], ns_nodeCache = []\<rparr>"

end
