(* ===== verification/Backends.thy ===== *)
theory Backends
  imports Nlb_Cloud
begin

text \<open>
  Candidate backends of a service (\<open>service/reconcile/backend/backend.go\<close>): traffic
  policy and address family, the nodes the load balancer may use, endpoints and
  endpoint slices, and \<open>Batch\<close>, which sends a long list in bounded pieces.
\<close>

subsection \<open>Candidates\<close>

record endpoint_with_eni =
  ew_TrafficPolicy :: traffic_policy
  ew_AddressIPVersion :: string
  ew_Nodes :: "node list"
  ew_Endpoints :: "ep_subset list"
  ew_EndpointSlices :: "endpoint_slice list"

definition setTrafficPolicy :: "config \<Rightarrow> service \<Rightarrow> traffic_policy" where
  "setTrafficPolicy cfg svc =
     (if IsENIBackendType cfg svc then ENITrafficPolicy
      else if IsLocalModeService svc then LocalTrafficPolicy
      else ClusterTrafficPolicy)"

definition setAddressIpVersion :: "config \<Rightarrow> service \<Rightarrow> string" where
  "setAddressIpVersion cfg svc =
     (if cfg_IPv6DualStack cfg \<and> cfg_EndpointSlice cfg \<and> Get svc IPVersion = ''ipv6'' \<and>
         Get svc BackendIPVersion = ''ipv6''
      then ''ipv6'' else ''ipv4'')"

text \<open>\<open>needExcludeFromLB\<close>: master, tainted for deletion, cordoned or not ready.\<close>

definition needExcludeFromLB :: "service \<Rightarrow> node \<Rightarrow> bool" where
  "needExcludeFromLB svc n =
     (if IsMasterNode n then True
      else if ToBeDeletedTaint \<in> set (node_Taints n) then True
      else if node_Unschedulable n \<and> Get svc RemoveUnscheduled \<noteq> [] \<and>
              Get svc RemoveUnscheduled = OnFlag then True
      else if map_of (node_Labels n) ''type'' = Some LabelNodeTypeVK then False
      else if node_Conditions n = [] then True
      else list_ex (\<lambda>c. cond_Type c = ''Ready'' \<and> cond_Status c \<noteq> ''True'') (node_Conditions n))"

text \<open>
  The inner loop over the \<open>k=v\<close> parts of the label: it stops at the first part that
  does not match, and fails on a malformed part it reaches.
\<close>

fun node_matches :: "node \<Rightarrow> string list \<Rightarrow> bool res" where
  "node_matches n [] = Inr True"
| "node_matches n (v # vs) =
     (let l = Split v ''=''
      in if length l < 2 then Inl (Errorf ''parse backend label: [k1=v1,k2=v2]'')
         else if map_of (node_Labels n) (l ! 0) \<noteq> Some (l ! 1) then Inr False
         else node_matches n vs)"

definition filterOutByLabel :: "node list \<Rightarrow> string \<Rightarrow> node list res" where
  "filterOutByLabel nodes labels =
     (if labels = [] then Inr nodes
      else mapopt_res (\<lambda>n. bind_res (node_matches n (Split labels '',''))
             (\<lambda>found. Inr (if found then Some n else None))) nodes)"

definition GetNodes :: "'w cloud \<Rightarrow> service \<Rightarrow> ('w, node list) nlb_prog" where
  "GetNodes C svc =
     bindP (wrapP ''get nodes error: '' (ListNodes C)) (\<lambda>all.
     bindP (if Get svc BackendLabel \<noteq> []
            then liftP (wrap_res ''filter nodes by label error: '' (filterOutByLabel all (Get svc BackendLabel)))
            else returnP all) (\<lambda>items.
     returnP (filter (\<lambda>n. \<not> needExcludeFromLB svc n) items)))"

text \<open>A missing Endpoints object counts as one without subsets.\<close>

definition getEndpoints :: "'w cloud \<Rightarrow> service \<Rightarrow> ('w, ep_subset list) nlb_prog" where
  "getEndpoints C svc =
     bindP (tryP (GetEndpoints C (svc_Namespace svc, svc_Name svc))) (\<lambda>r. case r of
       Inl e \<Rightarrow> if c_IsNotFound C e then returnP [] else throwP e
     | Inr eps \<Rightarrow> returnP eps)"

definition getEndpointByEndpointSlice :: "'w cloud \<Rightarrow> service \<Rightarrow> string \<Rightarrow> ('w, endpoint_slice list) nlb_prog" where
  "getEndpointByEndpointSlice C svc ipVersion =
     bindP (ListEndpointSlices C (svc_Namespace svc, svc_Name svc)) (\<lambda>items.
     let addressType = (if ipVersion = ''ipv6'' then ''IPv6'' else ''IPv4'')
     in returnP (filter (\<lambda>es. es_AddressType es = addressType) items))"

definition NewEndpointWithENI :: "config \<Rightarrow> 'w cloud \<Rightarrow> service \<Rightarrow> ('w, endpoint_with_eni) nlb_prog" where
  "NewEndpointWithENI cfg C svc =
     (let policy = setTrafficPolicy cfg svc; ver = setAddressIpVersion cfg svc
      in bindP (wrapP ''get nodes error: '' (GetNodes C svc)) (\<lambda>nodes.
         if cfg_EndpointSlice cfg then
           bindP (wrapP ''get endpointslice error: '' (getEndpointByEndpointSlice C svc ver)) (\<lambda>esList.
           returnP \<lparr>ew_TrafficPolicy = policy, ew_AddressIPVersion = ver, ew_Nodes = nodes,
                    ew_Endpoints = [], ew_EndpointSlices = esList\<rparr>)
         else
           bindP (wrapP ''get endpoints error: '' (getEndpoints C svc)) (\<lambda>eps.
           returnP \<lparr>ew_TrafficPolicy = policy, ew_AddressIPVersion = ver, ew_Nodes = nodes,
                    ew_Endpoints = eps, ew_EndpointSlices = []\<rparr>)))"

subsection \<open>Batching\<close>

definition MaxBackendNum :: int where "MaxBackendNum = 39"

function Batch_loop :: "nat \<Rightarrow> ('a list \<Rightarrow> ('s, unit) prog) \<Rightarrow> 'a list \<Rightarrow> ('s, unit) prog" where
  "Batch_loop cnt batch target =
     (if 0 < cnt \<and> cnt < length target
      then bindP (batch (take cnt target)) (\<lambda>_. Batch_loop cnt batch (drop cnt target))
      else if length target \<le> 0 then returnP ()
      else batch target)"
  by pat_completeness auto
termination
  by (relation "measure (\<lambda>(cnt, batch, target). length target)") auto

declare Batch_loop.simps [simp del]

definition Batch :: "'a list \<Rightarrow> int \<Rightarrow> ('a list \<Rightarrow> ('s, unit) prog) \<Rightarrow> ('s, unit) prog" where
  "Batch m cnt batch =
     (let cnt = (if cnt \<le> 0 then MaxBackendNum else cnt) in Batch_loop (nat cnt) batch m)"

subsection \<open>Lemmas\<close>

text \<open>The reference: cut the list into pieces, then visit the pieces in order.\<close>

function chunks :: "nat \<Rightarrow> 'a list \<Rightarrow> 'a list list" where
  "chunks n xs = (if xs = [] then [] else if n = 0 then [xs] else take n xs # chunks n (drop n xs))"
  by pat_completeness auto
termination
  by (relation "measure (\<lambda>(n, xs). length xs)") auto

declare chunks.simps [simp del]

lemma concat_chunks [simp]: "concat (chunks n xs) = xs"
  by (induction n xs rule: chunks.induct) (auto simp: chunks.simps)

lemma chunks_bounds:
  "0 < n \<Longrightarrow> c \<in> set (chunks n xs) \<Longrightarrow> 0 < length c \<and> length c \<le> n"
proof (induction n xs rule: chunks.induct)
  case (1 n xs)
  then show ?case by (subst (asm) (2) chunks.simps) (auto split: if_splits)
qed

lemma bindP_returnP: "bindP m returnP = m"
  by (rule ext) (simp add: bindP_def returnP_def split: prod.splits sum.splits)

lemma Batch_loop_chunks:
  "0 < cnt \<Longrightarrow> Batch_loop cnt batch target = forP batch (chunks cnt target)"
proof (induction cnt batch target rule: Batch_loop.induct)
  case (1 cnt batch target)
  show ?case
  proof (cases "cnt < length target")
    case True
    with "1" show ?thesis by (subst Batch_loop.simps, subst chunks.simps) auto
  next
    case False
    then have "chunks cnt target = (if target = [] then [] else [target])"
      by (auto simp: chunks.simps [of cnt target] chunks.simps [of cnt "[]"] \<open>0 < cnt\<close>)
    with False show ?thesis
      by (subst Batch_loop.simps) (auto simp: bindP_returnP)
  qed
qed

lemma Batch_chunks:
  "Batch m cnt batch = forP batch (chunks (nat (if cnt \<le> 0 then 39 else cnt)) m)"
  by (simp add: Batch_def Batch_loop_chunks MaxBackendNum_def)

lemma Batch_MaxBackendNum: "Batch m MaxBackendNum batch = forP batch (chunks 39 m)"
  by (simp add: Batch_chunks MaxBackendNum_def)

lemma emits_Batch:
  assumes "\<And>c. set c \<subseteq> set m \<Longrightarrow> c \<noteq> [] \<Longrightarrow> emits P (\<lambda>_. True) (batch c)"
  shows "emits P (\<lambda>_. True) (Batch m MaxBackendNum batch)"
  unfolding Batch_MaxBackendNum
proof (rule emits_for)
  fix c
  assume c: "c \<in> set (chunks 39 m)"
  then have "set c \<subseteq> set m" by (metis UN_upper concat_chunks set_concat)
  moreover have "c \<noteq> []" using chunks_bounds [OF _ c] by auto
  ultimately show "emits P (\<lambda>_. True) (batch c)" using assms by simp
qed

lemma node_matches_True:
  "node_matches n vs = Inr True \<Longrightarrow> v \<in> set vs \<Longrightarrow>
   2 \<le> length (Split v ''='') \<and> map_of (node_Labels n) (Split v ''='' ! 0) = Some (Split v ''='' ! 1)"
  by (induction n vs rule: node_matches.induct) (auto simp: Let_def split: if_splits)

lemma filterOutByLabel_sound:
  assumes "filterOutByLabel nodes labels = Inr ns" and "n \<in> set ns" and "labels \<noteq> []"
    and "v \<in> set (Split labels '','')"
  shows "n \<in> set nodes \<and> 2 \<le> length (Split v ''='') \<and>
    map_of (node_Labels n) (Split v ''='' ! 0) = Some (Split v ''='' ! 1)"
proof -
  from assms(1,3) have run: "mapopt_res (\<lambda>n. bind_res (node_matches n (Split labels '',''))
      (\<lambda>found. Inr (if found then Some n else None))) nodes = Inr ns"
    by (simp add: filterOutByLabel_def)
  from mapopt_res_set [OF run assms(2)] have "n \<in> set nodes" and
    "node_matches n (Split labels '','') = Inr True"
    by (auto simp: bind_res_Inr_iff split: if_splits)
  with node_matches_True [OF _ assms(4)] show ?thesis by blast
qed

subsection \<open>Properties\<close>

text \<open>
  \<open>Batch\<close> visits the pieces of its list in order: the pieces put together are the
  list, and with the limit of the sources none is empty or longer than 39.
\<close>

theorem batch_in_bounded_pieces:
  "Batch m MaxBackendNum batch = forP batch (chunks 39 m) \<and> concat (chunks 39 m) = m \<and>
   list_all (\<lambda>c. 0 < length c \<and> length c \<le> 39) (chunks 39 m)"
  using chunks_bounds [of 39 _ m] by (simp add: Batch_MaxBackendNum list_all_iff)

end
