(* ===== verification/Server_Weights.thy ===== *)
theory Server_Weights
  imports Backends
begin

text \<open>
  Weights of the servers of a server group (\<open>service/server_groups.go\<close>:
  \<open>setWeightBackends\<close>, \<open>podNumberAlgorithm\<close>, \<open>podPercentAlgorithm\<close>) and the removal of
  repeated servers that follows in local mode (\<open>remoteDuplicatedECS\<close>).  Weights are
  32-bit in the model of the load balancer and the requested total is a Go \<open>int\<close>; the
  conversions are written out.
\<close>

definition DefaultServerWeight :: int where "DefaultServerWeight = 100"

definition index_int :: "(string \<times> int) list \<Rightarrow> string \<Rightarrow> int" where
  "index_int m k = (case map_of m k of None \<Rightarrow> 0 | Some v \<Rightarrow> v)"

text \<open>\<open>ecsPods[b.ServerId] += 1\<close> over all backends; \<open>conv\<close> is the width of the counter.\<close>

fun count_pods :: "(int \<Rightarrow> int) \<Rightarrow> sg_server list \<Rightarrow> (string \<times> int) list \<Rightarrow> (string \<times> int) list" where
  "count_pods conv [] m = m"
| "count_pods conv (b # bs) m =
     count_pods conv bs (map_set (srv_ServerId b) (conv (index_int m (srv_ServerId b) + 1)) m)"

definition podNumberAlgorithm :: "traffic_policy \<Rightarrow> sg_server list \<Rightarrow> sg_server list" where
  "podNumberAlgorithm mode backends =
     (if mode = ENITrafficPolicy \<or> mode = ClusterTrafficPolicy then
        map (\<lambda>b. b\<lparr>srv_Weight := DefaultServerWeight\<rparr>) backends
      else
        (let ecsPods = count_pods to_int32 backends []
         in map (\<lambda>b. b\<lparr>srv_Weight := index_int ecsPods (srv_ServerId b)\<rparr>) backends))"

definition podPercentAlgorithm :: "traffic_policy \<Rightarrow> sg_server list \<Rightarrow> int \<Rightarrow> sg_server list res" where
  "podPercentAlgorithm mode backends weight =
     (if weight = 0 then Inr (map (\<lambda>b. b\<lparr>srv_Weight := 0\<rparr>) backends)
      else if mode = ENITrafficPolicy \<or> mode = ClusterTrafficPolicy then
        (if length backends = 0 then Inl (Panic ''integer divide by zero'')
         else
           (let per = go_div weight (int (length backends));
                per = (if per < 1 then 1 else per)
            in Inr (map (\<lambda>b. b\<lparr>srv_Weight := to_int32 per\<rparr>) backends)))
      else
        (let ecsPods = count_pods to_int64 backends []
         in Inr (map (\<lambda>b.
              let w = to_int32 (go_div (to_int64 (weight * index_int ecsPods (srv_ServerId b)))
                                       (int (length backends)))
              in b\<lparr>srv_Weight := (if w < 1 then 1 else w)\<rparr>) backends)))"

definition setWeightBackends :: "traffic_policy \<Rightarrow> sg_server list \<Rightarrow> int option \<Rightarrow> sg_server list res" where
  "setWeightBackends mode backends weight =
     (case weight of None \<Rightarrow> Inr (podNumberAlgorithm mode backends)
      | Some w \<Rightarrow> podPercentAlgorithm mode backends w)"

fun remoteDuplicatedECS_loop :: "string list \<Rightarrow> sg_server list \<Rightarrow> sg_server list" where
  "remoteDuplicatedECS_loop nodeMap [] = []"
| "remoteDuplicatedECS_loop nodeMap (b # bs) =
     (if srv_ServerId b \<in> set nodeMap then remoteDuplicatedECS_loop nodeMap bs
      else b # remoteDuplicatedECS_loop (srv_ServerId b # nodeMap) bs)"

definition remoteDuplicatedECS :: "sg_server list \<Rightarrow> sg_server list" where
  "remoteDuplicatedECS backends = remoteDuplicatedECS_loop [] backends"

subsection \<open>Counting\<close>

text \<open>The reference for the counters: how often an id occurs.\<close>

abbreviation pods_of :: "sg_server list \<Rightarrow> string \<Rightarrow> nat" where
  "pods_of bs i \<equiv> count_list (map srv_ServerId bs) i"

lemma index_int_map_set: "index_int (map_set k v m) i = (if i = k then v else index_int m i)"
  by (simp add: index_int_def map_of_map_set)

lemma count_pods_gen:
  assumes "\<And>x. 0 \<le> x \<Longrightarrow> x < bound \<Longrightarrow> conv x = x"
    and "\<And>i. 0 \<le> index_int m i" and "\<And>i. index_int m i + int (length bs) < bound"
  shows "index_int (count_pods conv bs m) i = index_int m i + int (pods_of bs i)"
  using assms(2,3)
proof (induction bs arbitrary: m)
  case Nil
  then show ?case by simp
next
  case (Cons b bs)
  let ?m = "map_set (srv_ServerId b) (conv (index_int m (srv_ServerId b) + 1)) m"
  have conv: "conv (index_int m (srv_ServerId b) + 1) = index_int m (srv_ServerId b) + 1"
    using Cons.prems(1) [of "srv_ServerId b"] Cons.prems(2) [of "srv_ServerId b"]
    by (intro assms(1)) auto
  have nonneg: "\<And>j. 0 \<le> index_int ?m j"
    using Cons.prems(1) by (simp add: index_int_map_set conv add_nonneg_nonneg)
  have room: "index_int ?m j + int (length bs) < bound" for j
    using Cons.prems(2) [of j] by (auto simp: index_int_map_set conv)
  show ?case using Cons.IH [OF nonneg room] by (simp add: index_int_map_set conv)
qed

lemma index_int_Nil [simp]: "index_int [] i = 0"
  by (simp add: index_int_def)

lemma count_pods32:
  "length bs < 2147483648 \<Longrightarrow> index_int (count_pods to_int32 bs []) i = int (pods_of bs i)"
  by (subst count_pods_gen [where bound = 2147483648]) (auto simp: is_int32_def)

lemma count_pods64:
  "length bs < 2147483648 \<Longrightarrow> index_int (count_pods to_int64 bs []) i = int (pods_of bs i)"
  by (subst count_pods_gen [where bound = 2147483648]) (auto simp: to_int64_id is_int64_def)

subsection \<open>Removing duplicates\<close>

lemma dedup_ids_loop:
  "distinct (map srv_ServerId (remoteDuplicatedECS_loop seen bs)) \<and>
   srv_ServerId ` set (remoteDuplicatedECS_loop seen bs) = srv_ServerId ` set bs - set seen"
  by (induction seen bs rule: remoteDuplicatedECS_loop.induct) auto

lemma dedup_subseq_loop: "subseq (remoteDuplicatedECS_loop seen bs) bs"
  by (induction seen bs rule: remoteDuplicatedECS_loop.induct) (auto intro: list_emb_Cons)

lemma dedup_subset_loop: "set (remoteDuplicatedECS_loop seen bs) \<subseteq> set bs"
  by (induction seen bs rule: remoteDuplicatedECS_loop.induct) auto

lemma dedup_first_loop:
  "b \<in> set (remoteDuplicatedECS_loop seen bs) \<Longrightarrow>
   find (\<lambda>x. srv_ServerId x = srv_ServerId b) bs = Some b"
proof (induction seen bs rule: remoteDuplicatedECS_loop.induct)
  case (1 seen)
  then show ?case by simp
next
  case (2 seen a bs)
  show ?case
  proof (cases "srv_ServerId a \<in> set seen")
    case True
    with 2 have "b \<in> set (remoteDuplicatedECS_loop seen bs)" by simp
    moreover from this have "srv_ServerId b \<notin> set seen" using dedup_ids_loop by blast
    ultimately show ?thesis using True 2 by auto
  next
    case False
    then consider "b = a" | "b \<in> set (remoteDuplicatedECS_loop (srv_ServerId a # seen) bs)"
      using 2 by auto
    then show ?thesis
    proof cases
      case 2
      then have "srv_ServerId b \<noteq> srv_ServerId a"
        using dedup_ids_loop [of "srv_ServerId a # seen" bs] by auto
      with 2 False "2.IH" show ?thesis by auto
    qed simp
  qed
qed

lemma dedup_distinct: "distinct (map srv_ServerId (remoteDuplicatedECS bs))"
  by (simp add: remoteDuplicatedECS_def dedup_ids_loop)

lemma dedup_ids: "srv_ServerId ` set (remoteDuplicatedECS bs) = srv_ServerId ` set bs"
  by (simp add: remoteDuplicatedECS_def dedup_ids_loop)

lemma dedup_subset: "set (remoteDuplicatedECS bs) \<subseteq> set bs"
  unfolding remoteDuplicatedECS_def by (rule dedup_subset_loop)

subsection \<open>Totals\<close>

lemma sum_over_dedup:
  "(\<Sum>b \<leftarrow> remoteDuplicatedECS bs. f (srv_ServerId b)) = (\<Sum>i \<in> srv_ServerId ` set bs. f i)"
  for f :: "string \<Rightarrow> int"
proof -
  have "(\<Sum>b \<leftarrow> remoteDuplicatedECS bs. f (srv_ServerId b)) =
      (\<Sum>i \<leftarrow> map srv_ServerId (remoteDuplicatedECS bs). f i)"
    by (simp add: comp_def)
  also have "\<dots> = (\<Sum>i \<in> set (map srv_ServerId (remoteDuplicatedECS bs)). f i)"
    using dedup_distinct by (rule sum_list_distinct_conv_sum_set)
  finally show ?thesis using dedup_ids [of bs] by simp
qed

lemma sum_pods: "(\<Sum>i \<in> srv_ServerId ` set bs. int (pods_of bs i)) = int (length bs)"
proof -
  have "(\<Sum>i \<in> set (map srv_ServerId bs). pods_of bs i) = length (map srv_ServerId bs)"
    by (rule sum_count_set) simp_all
  then show ?thesis by (simp flip: of_nat_sum)
qed

lemma remoteDuplicatedECS_map:
  assumes "\<And>b. srv_ServerId (g b) = srv_ServerId b"
  shows "remoteDuplicatedECS_loop seen (map g bs) = map g (remoteDuplicatedECS_loop seen bs)"
  by (induction seen bs rule: remoteDuplicatedECS_loop.induct) (simp_all add: assms)

lemma local_number_weights:
  assumes "length bs < 2147483648"
  shows "podNumberAlgorithm LocalTrafficPolicy bs =
    map (\<lambda>b. b\<lparr>srv_Weight := int (pods_of bs (srv_ServerId b))\<rparr>) bs"
  using assms by (simp add: podNumberAlgorithm_def count_pods32)

lemma local_number_total:
  assumes "length bs < 2147483648"
  shows "(\<Sum>b \<leftarrow> remoteDuplicatedECS (podNumberAlgorithm LocalTrafficPolicy bs). srv_Weight b) =
    int (length bs)"
proof -
  have "(\<Sum>b \<leftarrow> remoteDuplicatedECS (podNumberAlgorithm LocalTrafficPolicy bs). srv_Weight b) =
      (\<Sum>b \<leftarrow> remoteDuplicatedECS bs. int (pods_of bs (srv_ServerId b)))"
    by (simp add: local_number_weights [OF assms] remoteDuplicatedECS_def remoteDuplicatedECS_map comp_def)
  then show ?thesis using sum_over_dedup [of "\<lambda>i. int (pods_of bs i)" bs] sum_pods [of bs] by simp
qed

text \<open>The share of the requested total that a server with \<open>k\<close> of \<open>n\<close> pods gets.\<close>

definition percent_share :: "int \<Rightarrow> nat \<Rightarrow> nat \<Rightarrow> int" where
  "percent_share weight k n = max 1 (weight * int k div int n)"

lemma percent_share_int32:
  assumes "0 < w" "is_int32 w" "k \<le> n" "0 < n"
  shows "0 \<le> w * int k div int n \<and> w * int k div int n \<le> w"
proof -
  have "w * int k \<le> w * int n" using assms by simp
  then have "w * int k div int n \<le> w * int n div int n" using assms by (intro zdiv_mono1) auto
  then show ?thesis using assms by (simp add: pos_imp_zdiv_nonneg_iff)
qed

lemma local_percent_weights:
  assumes len: "length bs < 2147483648" and w: "0 < w" "is_int32 w"
  shows "podPercentAlgorithm LocalTrafficPolicy bs w =
    Inr (map (\<lambda>b. b\<lparr>srv_Weight := percent_share w (pods_of bs (srv_ServerId b)) (length bs)\<rparr>) bs)"
proof -
  have share: "to_int32 (go_div (to_int64 (w * int (pods_of bs (srv_ServerId b)))) (int (length bs))) =
      w * int (pods_of bs (srv_ServerId b)) div int (length bs)" if "b \<in> set bs" for b
  proof -
    let ?k = "pods_of bs (srv_ServerId b)"
    have kn: "?k \<le> length bs" using count_le_length [of "map srv_ServerId bs"] by simp
    have n0: "0 < length bs" using that by (cases bs) auto
    have "w * int ?k < 2147483648 * 2147483648"
      using w len kn by (intro mult_strict_mono) (auto simp: is_int32_def)
    moreover have "0 \<le> w * int ?k" using w by simp
    ultimately have "is_int64 (w * int ?k)" by (simp add: is_int64_def)
    moreover have "is_int32 (w * int ?k div int (length bs))"
      using percent_share_int32 [OF w kn n0] w by (auto simp: is_int32_def)
    ultimately show ?thesis using w n0 by (simp add: to_int64_id go_div_nonneg)
  qed
  show ?thesis
    using w by (auto simp: podPercentAlgorithm_def Let_def count_pods64 [OF len] share percent_share_def max_def)
qed

lemma percent_share_total:
  fixes k :: "'i \<Rightarrow> nat"
  assumes fin: "finite I" and n: "0 < n" and sum: "(\<Sum>i \<in> I. int (k i)) = int n" and w: "0 < w"
  shows "(\<Sum>i \<in> I. percent_share w (k i) n) \<le> w + int (card I)"
    and "w \<le> (\<Sum>i \<in> I. percent_share w (k i) n) + int (card I)"
proof -
  let ?q = "\<lambda>i. w * int (k i) div int n"
  have low: "int n * ?q i \<le> w * int (k i)" and high: "w * int (k i) \<le> int n * (?q i + 1)" for i
  proof -
    have "w * int (k i) = int n * ?q i + w * int (k i) mod int n" by simp
    moreover have "0 \<le> w * int (k i) mod int n" "w * int (k i) mod int n < int n" using n by simp_all
    ultimately show "int n * ?q i \<le> w * int (k i)" "w * int (k i) \<le> int n * (?q i + 1)"
      by (simp_all only: distrib_left)
  qed
  have "int n * (\<Sum>i \<in> I. ?q i) \<le> int n * w"
    using sum_mono [of I "\<lambda>i. int n * ?q i" "\<lambda>i. w * int (k i)"] low
    by (simp add: sum mult.commute flip: sum_distrib_left)
  then have le: "(\<Sum>i \<in> I. ?q i) \<le> w" using n by simp
  have "int n * w \<le> int n * ((\<Sum>i \<in> I. ?q i) + int (card I))"
    using sum_mono [of I "\<lambda>i. w * int (k i)" "\<lambda>i. int n * (?q i + 1)"] high
    by (simp add: sum mult.commute sum.distrib flip: sum_distrib_left)
  then have ge: "w \<le> (\<Sum>i \<in> I. ?q i) + int (card I)" using n by simp
  have q0: "0 \<le> ?q i" for i using w n by (simp add: pos_imp_zdiv_nonneg_iff)
  have "(\<Sum>i \<in> I. percent_share w (k i) n) \<le> (\<Sum>i \<in> I. ?q i + 1)"
    using q0 by (intro sum_mono) (simp add: percent_share_def)
  with le show "(\<Sum>i \<in> I. percent_share w (k i) n) \<le> w + int (card I)"
    by (simp add: sum.distrib)
  have "(\<Sum>i \<in> I. ?q i) \<le> (\<Sum>i \<in> I. percent_share w (k i) n)"
    by (intro sum_mono) (simp add: percent_share_def)
  with ge show "w \<le> (\<Sum>i \<in> I. percent_share w (k i) n) + int (card I)" by simp
qed

subsection \<open>Properties\<close>

text \<open>
  In local mode without a weight annotation the weight of an instance is the number
  of pods on it: after the duplicates are removed the weights add up to the number of
  pods.
\<close>

theorem local_weights_count_pods:
  assumes "length bs < 2147483648"
  shows "(\<Sum>b \<leftarrow> remoteDuplicatedECS (podNumberAlgorithm LocalTrafficPolicy bs). srv_Weight b) = int (length bs)"
  by (rule local_number_total [OF assms])

theorem local_weights_count_pods_witness:
  "(\<Sum>b \<leftarrow> remoteDuplicatedECS (podNumberAlgorithm LocalTrafficPolicy
      [zero_server\<lparr>srv_ServerId := ''i-1''\<rparr>, zero_server\<lparr>srv_ServerId := ''i-2''\<rparr>,
       zero_server\<lparr>srv_ServerId := ''i-1''\<rparr>]). srv_Weight b) = 3"
  using local_weights_count_pods [of "[zero_server\<lparr>srv_ServerId := ''i-1''\<rparr>, zero_server\<lparr>srv_ServerId := ''i-2''\<rparr>,
       zero_server\<lparr>srv_ServerId := ''i-1''\<rparr>]"] by simp

text \<open>
  With a weight annotation in local mode the weights of the instances add up to the
  weight of the group, up to one for every instance (rounding down, and at least one).
\<close>

theorem local_percent_total:
  assumes "length bs < 2147483648" and "bs \<noteq> []" and "0 < w" and "is_int32 w"
    and "podPercentAlgorithm LocalTrafficPolicy bs w = Inr ws"
  shows "\<bar>(\<Sum>b \<leftarrow> remoteDuplicatedECS ws. srv_Weight b) - w\<bar> \<le> int (card (srv_ServerId ` set bs))"
proof -
  let ?share = "\<lambda>i. percent_share w (pods_of bs i) (length bs)"
  have "ws = map (\<lambda>b. b\<lparr>srv_Weight := ?share (srv_ServerId b)\<rparr>) bs"
    using assms(5) local_percent_weights [OF assms(1,3,4)] by simp
  then have "(\<Sum>b \<leftarrow> remoteDuplicatedECS ws. srv_Weight b) = (\<Sum>b \<leftarrow> remoteDuplicatedECS bs. ?share (srv_ServerId b))"
    by (simp add: remoteDuplicatedECS_def remoteDuplicatedECS_map comp_def)
  also have "\<dots> = (\<Sum>i \<in> srv_ServerId ` set bs. ?share i)" by (rule sum_over_dedup)
  finally show ?thesis
    using percent_share_total [of "srv_ServerId ` set bs" "length bs" "pods_of bs" w] sum_pods [of bs] assms(2,3)
    by simp
qed

theorem local_percent_total_witness:
  "\<exists>ws. podPercentAlgorithm LocalTrafficPolicy [zero_server\<lparr>srv_ServerId := ''i-1''\<rparr>, zero_server\<lparr>srv_ServerId := ''i-2''\<rparr>] 60 = Inr ws \<and>
     \<bar>(\<Sum>b \<leftarrow> remoteDuplicatedECS ws. srv_Weight b) - 60\<bar> \<le> int (card (srv_ServerId ` set [zero_server\<lparr>srv_ServerId := ''i-1''\<rparr>, zero_server\<lparr>srv_ServerId := ''i-2''\<rparr>]))"
proof -
  let ?bs = "[zero_server\<lparr>srv_ServerId := ''i-1''\<rparr>, zero_server\<lparr>srv_ServerId := ''i-2''\<rparr>]"
  have run: "podPercentAlgorithm LocalTrafficPolicy ?bs 60 =
      Inr (map (\<lambda>b. b\<lparr>srv_Weight := percent_share 60 (pods_of ?bs (srv_ServerId b)) (length ?bs)\<rparr>) ?bs)"
    by (rule local_percent_weights) (simp_all add: is_int32_def)
  show ?thesis
    by (intro exI conjI, rule run, rule local_percent_total [OF _ _ _ _ run]) (simp_all add: is_int32_def)
qed

end
