(* ===== verification/Server_Groups.thy ===== *)
theory Server_Groups
  imports Server_Weights
begin

text \<open>
  The server group manager (\<open>service/server_groups.go\<close>): building the server groups a
  service asks for from its annotations, endpoints and nodes in the three traffic
  modes, comparing them with the groups in the cloud, and sending the difference.
\<close>

subsection \<open>Names and attributes\<close>

definition target_port_string :: "int_or_string \<Rightarrow> string" where
  "target_port_string p = (case p of IntPort i \<Rightarrow> Itoa i | StrPort s \<Rightarrow> s)"

definition getServerGroupNamedKey :: "config \<Rightarrow> service \<Rightarrow> string \<Rightarrow> service_port \<Rightarrow> sg_named_key" where
  "getServerGroupNamedKey cfg svc protocol port =
     (let sgPort = (if IsENIBackendType cfg svc then target_port_string (sp_TargetPort port)
                    else Itoa (sp_NodePort port))
      in \<lparr>nk_Prefix = DEFAULT_PREFIX, nk_CID = cfg_ClusterID cfg, nk_Namespace = svc_Namespace svc,
          nk_ServiceName = svc_Name svc, sk_Protocol = protocol, sk_SGGroupPort = sgPort\<rparr>)"

definition getServerGroupTag :: "config \<Rightarrow> service \<Rightarrow> tag list" where
  "getServerGroupTag cfg svc =
     [(TAGKEY, GetDefaultLoadBalancerName svc), (ClusterTagKey, cfg_ClusterID cfg)]"

text \<open>An optional number: absent annotation keeps the old value.\<close>

definition anno_int32 :: "service \<Rightarrow> anno_key \<Rightarrow> string \<Rightarrow> int \<Rightarrow> int res" where
  "anno_int32 svc k msg old =
     (if Get svc k \<noteq> [] then bind_res (wrap_res msg (Atoi (Get svc k))) (\<lambda>v. Inr (to_int32 v))
      else Inr old)"

definition health_check_from_anno :: "service \<Rightarrow> health_check_config res" where
  "health_check_from_anno svc =
     (let hc = zero_health_check\<lparr>hc_HealthCheckEnabled := Some (EqualFold (Get svc HealthCheckFlag) OnFlag)\<rparr>
      in if \<not> EqualFold (Get svc HealthCheckFlag) OnFlag then Inr hc
         else
           (let hc = (if Get svc HealthCheckType \<noteq> [] then hc\<lparr>hc_HealthCheckType := Get svc HealthCheckType\<rparr> else hc)
            in bind_res (anno_int32 svc HealthCheckConnectPort ''HealthCheckConnectPort parse error: '' 0) (\<lambda>cp.
               bind_res (anno_int32 svc HealthyThreshold ''HealthyThreshold parse error: '' 0) (\<lambda>ht.
               bind_res (anno_int32 svc UnhealthyThreshold ''UnhealthyThreshold parse error: '' 0) (\<lambda>ut.
               bind_res (anno_int32 svc HealthCheckConnectTimeout ''HealthCheckConnectTimeout parse error: '' 0) (\<lambda>ct.
               bind_res (anno_int32 svc HealthCheckInterval ''HealthCheckInterval parse error: '' 0) (\<lambda>iv.
               Inr (hc\<lparr>hc_HealthCheckConnectPort := cp, hc_HealthyThreshold := ht,
                       hc_UnhealthyThreshold := ut, hc_HealthCheckConnectTimeout := ct,
                       hc_HealthCheckInterval := iv,
                       hc_HealthCheckDomain := Get svc HealthCheckDomain,
                       hc_HealthCheckUrl := Get svc HealthCheckURI,
                       hc_HttpCheckMethod := Get svc HealthCheckMethod,
                       hc_HealthCheckHttpCode :=
                         (if Get svc HealthCheckHTTPCode \<noteq> [] then Split (Get svc HealthCheckHTTPCode) '',''
                          else [])\<rparr>))))))))"

definition anno_flag :: "service \<Rightarrow> anno_key \<Rightarrow> bool option \<Rightarrow> bool option" where
  "anno_flag svc k old = (if Get svc k \<noteq> [] then Some (EqualFold (Get svc k) OnFlag) else old)"

definition setServerGroupAttributeFromAnno :: "server_group \<Rightarrow> service \<Rightarrow> server_group res" where
  "setServerGroupAttributeFromAnno sg svc =
     (let sg = sg\<lparr>sg_ConnectionDrainEnabled := anno_flag svc ConnectionDrain (sg_ConnectionDrainEnabled sg)\<rparr>
      in bind_res (anno_int32 svc ConnectionDrainTimeout ''ConnectionDrainTimeout parse error: ''
                     (sg_ConnectionDrainTimeout sg)) (\<lambda>timeout.
         let sg = sg\<lparr>sg_ConnectionDrainTimeout := timeout, sg_Scheduler := Get svc Scheduler,
                     sg_PreserveClientIpEnabled := anno_flag svc PreserveClientIp (sg_PreserveClientIpEnabled sg)\<rparr>
         in if Get svc HealthCheckFlag \<noteq> [] then
              bind_res (health_check_from_anno svc) (\<lambda>hc. Inr (sg\<lparr>sg_HealthCheckConfig := Some hc\<rparr>))
            else Inr sg))"

subsection \<open>Servers from endpoints\<close>

definition port_by_name :: "(string \<times> int) list \<Rightarrow> string \<Rightarrow> int" where
  "port_by_name ps n = (case find (\<lambda>p. fst p = n) ps of None \<Rightarrow> 0 | Some p \<Rightarrow> snd p)"

definition slice_port_by_name :: "(string option \<times> int option) list \<Rightarrow> string \<Rightarrow> int" where
  "slice_port_by_name ps n =
     (case find (\<lambda>p. fst p = Some n) ps of None \<Rightarrow> 0
      | Some p \<Rightarrow> (case snd p of None \<Rightarrow> 0 | Some v \<Rightarrow> v))"

definition setBackendsFromEndpoints :: "endpoint_with_eni \<Rightarrow> server_group \<Rightarrow> service_port \<Rightarrow> sg_server list" where
  "setBackendsFromEndpoints candidates sg sp =
     concat (map (\<lambda>ep.
       let backendPort = (case sp_TargetPort sp of IntPort i \<Rightarrow> to_int32 i
                          | StrPort _ \<Rightarrow> port_by_name (ss_Ports ep) (sp_Name sp))
       in map (\<lambda>addr. zero_server\<lparr>srv_NodeName := snd addr, srv_ServerIp := fst addr,
                 srv_Port := backendPort, srv_Description := sg_ServerGroupName sg\<rparr>)
              (ss_Addresses ep)) (ew_Endpoints candidates))"

text \<open>State of the loops over slices: the addresses seen and the backends so far.\<close>

type_synonym slice_acc = "string list \<times> sg_server list"

definition add_slice_address :: "int \<Rightarrow> string \<Rightarrow> string \<Rightarrow> string \<Rightarrow> slice_acc \<Rightarrow> slice_acc" where
  "add_slice_address backendPort hostName desc addr acc =
     (if addr \<in> set (fst acc) then acc
      else (addr # fst acc,
            snd acc @ [zero_server\<lparr>srv_NodeName := Some hostName, srv_ServerIp := addr,
                        srv_Port := backendPort, srv_Description := desc\<rparr>]))"

definition add_slice_endpoint :: "int \<Rightarrow> string \<Rightarrow> slice_endpoint \<Rightarrow> slice_acc \<Rightarrow> slice_acc" where
  "add_slice_endpoint backendPort desc ep acc =
     (case se_Ready ep of
        Some True \<Rightarrow>
          fold (add_slice_address backendPort (index_str (se_Topology ep) ''kubernetes.io/hostname'') desc)
               (se_Addresses ep) acc
      | _ \<Rightarrow> acc)"

definition add_slice :: "server_group \<Rightarrow> service_port \<Rightarrow> endpoint_slice \<Rightarrow> slice_acc \<Rightarrow> slice_acc" where
  "add_slice sg sp es acc =
     (let backendPort = (case sp_TargetPort sp of IntPort i \<Rightarrow> to_int32 i
                         | StrPort _ \<Rightarrow> slice_port_by_name (es_Ports es) (sp_Name sp))
      in fold (add_slice_endpoint backendPort (sg_ServerGroupName sg)) (es_Endpoints es) acc)"

definition setBackendsFromEndpointSlices :: "endpoint_with_eni \<Rightarrow> server_group \<Rightarrow> service_port \<Rightarrow> sg_server list" where
  "setBackendsFromEndpointSlices candidates sg sp =
     snd (fold (add_slice sg sp) (ew_EndpointSlices candidates) ([], []))"

definition setGenericBackendAttribute ::
  "config \<Rightarrow> endpoint_with_eni \<Rightarrow> server_group \<Rightarrow> service_port \<Rightarrow> sg_server list" where
  "setGenericBackendAttribute cfg candidates sg sp =
     (if cfg_EndpointSlice cfg then setBackendsFromEndpointSlices candidates sg sp
      else setBackendsFromEndpoints candidates sg sp)"

subsection \<open>Instance ids of nodes\<close>

text \<open>\<open>cache.Expiring\<close>: an entry is returned strictly before its expiry.\<close>

definition cacheGet :: "'w cloud \<Rightarrow> string \<Rightarrow> ('w, string option) nlb_prog" where
  "cacheGet C k = (\<lambda>s. (Inr (case map_of (ns_nodeCache s) k of
       None \<Rightarrow> None
     | Some (v, expiry) \<Rightarrow> if c_Now C (fx_world s) < expiry then Some v else None), s))"

definition nodeCacheTTL :: int where "nodeCacheTTL = 365 * 24 * 3600"

definition cacheSet :: "'w cloud \<Rightarrow> string \<Rightarrow> string \<Rightarrow> ('w, unit) nlb_prog" where
  "cacheSet C k v = (\<lambda>s. (Inr (),
     s\<lparr>ns_nodeCache := map_set k (v, c_Now C (fx_world s) + nodeCacheTTL) (ns_nodeCache s)\<rparr>))"

definition internal_ip :: "node \<Rightarrow> string" where
  "internal_ip n = (case find (\<lambda>a. fst a = ''InternalIP'') (node_Addresses n) of
     None \<Rightarrow> [] | Some a \<Rightarrow> snd a)"

definition getInstanceIdByNode :: "'w cloud \<Rightarrow> node \<Rightarrow> ('w, string) nlb_prog" where
  "getInstanceIdByNode C node =
     bindP (wrapP ''get vpc id from metadata error:'' (VpcID C)) (\<lambda>vpcId.
     let ip = internal_ip node
     in if ip = [] then
          throwP (Errorf ''get privateIp from node error: node.statu.addresses.type = internalIP not exist'')
        else
     bindP (wrapP ''get region id from metadata error:'' (Region C)) (\<lambda>regionId.
     let cacheKey = regionId @ ''.'' @ vpcId @ ''.'' @ ip
     in bindP (cacheGet C cacheKey) (\<lambda>hit. case hit of
          Some i \<Rightarrow> returnP i
        | None \<Rightarrow>
     bindP (tryP (GetInstanceByIp C ip regionId vpcId)) (\<lambda>r. case r of
          Inr (i # _) \<Rightarrow> bindP (cacheSet C cacheKey i) (\<lambda>_. returnP i)
        | _ \<Rightarrow> throwP (Errorf ''the corresponding instance cannot be found'')))))"

definition node_instance_id :: "'w cloud \<Rightarrow> string \<Rightarrow> node \<Rightarrow> ('w, string) nlb_prog" where
  "node_instance_id C msg node =
     (case NodeFromProviderID (node_ProviderID node) of
        Inr (_, i) \<Rightarrow> returnP i
      | Inl _ \<Rightarrow> wrapP msg (getInstanceIdByNode C node))"

subsection \<open>Backends in the three traffic modes\<close>

definition updateENIBackends ::
  "'w cloud \<Rightarrow> string \<Rightarrow> sg_server list \<Rightarrow> string \<Rightarrow> ('w, sg_server list) nlb_prog" where
  "updateENIBackends C vpcId backends ipVersion =
     bindP (wrapP ''call DescribeNetworkInterfaces: ''
              (DescribeNetworkInterfaces C vpcId (map srv_ServerIp backends) ipVersion)) (\<lambda>result.
     liftP (map_res (\<lambda>b. case map_of result (srv_ServerIp b) of
         None \<Rightarrow> Inl (Errorf ''can not find eniid for ip in vpc'')
       | Some eniid \<Rightarrow> Inr (b\<lparr>srv_ServerId := eniid, srv_ServerType := EniServerType\<rparr>)) backends))"

definition buildENIBackends ::
  "config \<Rightarrow> 'w cloud \<Rightarrow> string \<Rightarrow> endpoint_with_eni \<Rightarrow> server_group \<Rightarrow> service_port \<Rightarrow>
   ('w, sg_server list) nlb_prog" where
  "buildENIBackends cfg C vpcId candidates sg sp =
     (let backends = setGenericBackendAttribute cfg candidates sg sp
      in if length backends = 0 then returnP []
         else bindP (updateENIBackends C vpcId backends (ew_AddressIPVersion candidates)) (\<lambda>bs.
              liftP (setWeightBackends ENITrafficPolicy bs (sg_Weight sg))))"

text \<open>One turn of the loop of \<open>buildLocalBackends\<close> over the endpoints.\<close>

definition local_backend_step ::
  "'w cloud \<Rightarrow> endpoint_with_eni \<Rightarrow> service_port \<Rightarrow> sg_server \<Rightarrow>
   sg_server list \<times> sg_server list \<Rightarrow> ('w, sg_server list \<times> sg_server list) nlb_prog" where
  "local_backend_step C candidates sp backend acc =
     (case srv_NodeName backend of
        None \<Rightarrow> throwP (Errorf ''add ecs backends for service error, NodeName is nil'')
      | Some name \<Rightarrow>
          (case FindNodeByNodeName (ew_Nodes candidates) name of
             None \<Rightarrow> returnP acc
           | Some node \<Rightarrow>
               if index_str (node_Labels node) ''type'' = LabelNodeTypeVK then
                 returnP (fst acc, snd acc @ [backend])
               else if IsNodeExcludeFromLoadBalancer node then returnP acc
               else bindP (node_instance_id C ''parse providerid. expected: ${regionid}.${nodeid}, '' node)
                 (\<lambda>i. returnP (fst acc @ [backend\<lparr>srv_ServerId := i, srv_ServerType := EcsServerType,
                                             srv_Port := sp_NodePort sp\<rparr>], snd acc))))"

definition eci_backends ::
  "'w cloud \<Rightarrow> string \<Rightarrow> sg_server list \<Rightarrow> string \<Rightarrow> ('w, sg_server list) nlb_prog" where
  "eci_backends C vpcId eci ipVersion =
     (if length eci \<noteq> 0 then wrapP ''update eci backends error: '' (updateENIBackends C vpcId eci ipVersion)
      else returnP eci)"

definition buildLocalBackends ::
  "config \<Rightarrow> 'w cloud \<Rightarrow> string \<Rightarrow> endpoint_with_eni \<Rightarrow> server_group \<Rightarrow> service_port \<Rightarrow>
   ('w, sg_server list) nlb_prog" where
  "buildLocalBackends cfg C vpcId candidates sg sp =
     (let initBackends = setGenericBackendAttribute cfg candidates sg sp
      in if length initBackends = 0 then returnP []
         else
           bindP (foldP (local_backend_step C candidates sp) initBackends ([], [])) (\<lambda>(ecs, eci).
           bindP (eci_backends C vpcId eci (ew_AddressIPVersion candidates)) (\<lambda>eci.
           bindP (liftP (setWeightBackends LocalTrafficPolicy (ecs @ eci) (sg_Weight sg))) (\<lambda>backends.
           returnP (remoteDuplicatedECS backends)))))"

definition cluster_node_step ::
  "'w cloud \<Rightarrow> server_group \<Rightarrow> service_port \<Rightarrow> node \<Rightarrow> sg_server list \<Rightarrow> ('w, sg_server list) nlb_prog" where
  "cluster_node_step C sg sp node ecs =
     (if IsNodeExcludeFromLoadBalancer node then returnP ecs
      else bindP (node_instance_id C ''normal parse providerid. expected: ${regionid}.${nodeid}, '' node)
        (\<lambda>i. returnP (ecs @ [zero_server\<lparr>srv_ServerId := i, srv_Weight := DefaultServerWeight,
               srv_Port := sp_NodePort sp, srv_ServerType := EcsServerType,
               srv_Description := sg_ServerGroupName sg\<rparr>])))"

definition cluster_eci_step :: "endpoint_with_eni \<Rightarrow> sg_server \<Rightarrow> sg_server option res" where
  "cluster_eci_step candidates b =
     (case srv_NodeName b of
        None \<Rightarrow> Inl (Errorf ''add ecs backends for service error, NodeName is nil'')
      | Some name \<Rightarrow>
          (case FindNodeByNodeName (ew_Nodes candidates) name of
             None \<Rightarrow> Inr None
           | Some node \<Rightarrow>
               Inr (if index_str (node_Labels node) ''type'' = LabelNodeTypeVK then Some b else None)))"

definition buildClusterBackends ::
  "config \<Rightarrow> 'w cloud \<Rightarrow> string \<Rightarrow> endpoint_with_eni \<Rightarrow> server_group \<Rightarrow> service_port \<Rightarrow>
   ('w, sg_server list) nlb_prog" where
  "buildClusterBackends cfg C vpcId candidates sg sp =
     (let initBackends = setGenericBackendAttribute cfg candidates sg sp
      in bindP (foldP (cluster_node_step C sg sp) (ew_Nodes candidates) []) (\<lambda>ecs.
         bindP (liftP (mapopt_res (cluster_eci_step candidates) initBackends)) (\<lambda>eci.
         bindP (eci_backends C vpcId eci (ew_AddressIPVersion candidates)) (\<lambda>eci.
         liftP (setWeightBackends ClusterTrafficPolicy (ecs @ eci) (sg_Weight sg))))))"

definition setServerGroupServers ::
  "config \<Rightarrow> 'w cloud \<Rightarrow> string \<Rightarrow> endpoint_with_eni \<Rightarrow> server_group \<Rightarrow> service_port \<Rightarrow>
   ('w, server_group) nlb_prog" where
  "setServerGroupServers cfg C vpcId candidates sg sp =
     bindP (case ew_TrafficPolicy candidates of
         ENITrafficPolicy \<Rightarrow>
           wrapP ''build eni backends error: '' (buildENIBackends cfg C vpcId candidates sg sp)
       | LocalTrafficPolicy \<Rightarrow>
           wrapP ''build local backends error: '' (buildLocalBackends cfg C vpcId candidates sg sp)
       | ClusterTrafficPolicy \<Rightarrow>
           wrapP ''build cluster backends error: '' (buildClusterBackends cfg C vpcId candidates sg sp)
       | OtherTrafficPolicy _ \<Rightarrow> throwP (Errorf ''not supported traffic policy'')) (\<lambda>backends.
     bindP (if length backends = 0 then Event UnAvailableBackends else returnP ()) (\<lambda>_.
     returnP (sg\<lparr>sg_Servers := backends\<rparr>)))"

text \<open>The server group of one listener, and the loop of \<open>BuildLocalModel\<close> over the listeners.\<close>

definition build_server_group ::
  "config \<Rightarrow> 'w cloud \<Rightarrow> string \<Rightarrow> service \<Rightarrow> endpoint_with_eni \<Rightarrow> listener_attr \<Rightarrow>
   ('w, server_group) nlb_prog" where
  "build_server_group cfg C vpcId svc candidates lis =
     bindP (liftP (deref (ls_ServicePort lis))) (\<lambda>sp.
     let proto = GetListenerProtocolType (ls_ListenerProtocol lis);
         key = getServerGroupNamedKey cfg svc proto sp;
         sg = zero_server_group\<lparr>sg_VPCId := vpcId, sg_ServicePort := ls_ServicePort lis,
                sg_Tags := getServerGroupTag cfg svc, sg_Protocol := proto,
                sg_NamedKey := Some key, sg_ServerGroupName := SGNamedKey_Key key\<rparr>
     in bindP (liftP (setServerGroupAttributeFromAnno sg svc)) (\<lambda>sg.
        wrapP ''set ServerGroup for port error: '' (setServerGroupServers cfg C vpcId candidates sg sp)))"

definition SG_BuildLocalModel ::
  "config \<Rightarrow> 'w cloud \<Rightarrow> string \<Rightarrow> service \<Rightarrow> nlb \<Rightarrow> ('w, nlb) nlb_prog" where
  "SG_BuildLocalModel cfg C vpcId svc mdl =
     bindP (NewEndpointWithENI cfg C svc) (\<lambda>candidates.
     bindP (foldP (\<lambda>lis sgs. bindP (build_server_group cfg C vpcId svc candidates lis) (\<lambda>sg.
              returnP (sgs @ [sg]))) (nlb_Listeners mdl) []) (\<lambda>sgs.
     returnP (mdl\<lparr>nlb_ServerGroups := sgs\<rparr>)))"

definition SG_BuildRemoteModel :: "config \<Rightarrow> 'w cloud \<Rightarrow> service \<Rightarrow> nlb \<Rightarrow> ('w, nlb) nlb_prog" where
  "SG_BuildRemoteModel cfg C svc mdl =
     bindP (wrapP ''DescribeVServerGroups error: '' (ListNLBServerGroups C (getServerGroupTag cfg svc))) (\<lambda>sgs.
     returnP (mdl\<lparr>nlb_ServerGroups := sgs\<rparr>))"

subsection \<open>Lemmas on endpoint slices\<close>

text \<open>Invariant of the loops: the seen addresses are those of the backends, each once.\<close>

definition slice_acc_inv :: "slice_acc \<Rightarrow> bool" where
  "slice_acc_inv acc \<longleftrightarrow> set (fst acc) = srv_ServerIp ` set (snd acc) \<and>
     distinct (map srv_ServerIp (snd acc))"

lemma fold_invariant_acc:
  "I acc \<Longrightarrow> (\<And>x a. x \<in> set xs \<Longrightarrow> I a \<Longrightarrow> I (f x a)) \<Longrightarrow> I (fold f xs acc)"
  by (induction xs arbitrary: acc) auto

lemma slice_inv_address: "slice_acc_inv acc \<Longrightarrow> slice_acc_inv (add_slice_address p h d a acc)"
  by (auto simp: slice_acc_inv_def add_slice_address_def)

lemma slice_inv_endpoint: "slice_acc_inv acc \<Longrightarrow> slice_acc_inv (add_slice_endpoint p d ep acc)"
  unfolding add_slice_endpoint_def
  by (auto intro!: fold_invariant_acc slice_inv_address split: option.splits bool.splits)

lemma slice_inv_slice: "slice_acc_inv acc \<Longrightarrow> slice_acc_inv (add_slice sg sp es acc)"
  unfolding add_slice_def Let_def by (erule fold_invariant_acc) (rule slice_inv_endpoint)

lemma slice_inv_init: "slice_acc_inv ([], [])"
  by (simp add: slice_acc_inv_def)

lemma slices_distinct: "distinct (map srv_ServerIp (setBackendsFromEndpointSlices c sg sp))"
proof -
  have "slice_acc_inv (fold (add_slice sg sp) (ew_EndpointSlices c) ([], []))"
    by (rule fold_invariant_acc [of slice_acc_inv, OF slice_inv_init]) (rule slice_inv_slice)
  then show ?thesis by (simp add: slice_acc_inv_def setBackendsFromEndpointSlices_def)
qed

text \<open>The addresses of the ready endpoints, which is what the backends are.\<close>

definition ready_addresses :: "slice_endpoint \<Rightarrow> string set" where
  "ready_addresses ep = (if se_Ready ep = Some True then set (se_Addresses ep) else {})"

definition slice_ready_addresses :: "endpoint_slice \<Rightarrow> string set" where
  "slice_ready_addresses es = (\<Union>ep \<in> set (es_Endpoints es). ready_addresses ep)"

lemma fold_image_acc:
  assumes "\<And>x a. I a \<Longrightarrow> I (f x a) \<and> g (f x a) = g a \<union> h x" and "I acc"
  shows "g (fold f xs acc) = g acc \<union> (\<Union>x \<in> set xs. h x)"
  using assms(2) by (induction xs arbitrary: acc) (auto simp: assms(1))

abbreviation acc_ips :: "slice_acc \<Rightarrow> string set" where
  "acc_ips acc \<equiv> srv_ServerIp ` set (snd acc)"

lemma ips_address:
  "slice_acc_inv acc \<Longrightarrow> acc_ips (add_slice_address p h d a acc) = acc_ips acc \<union> {a}"
  by (auto simp: slice_acc_inv_def add_slice_address_def)

lemma ips_endpoint:
  "slice_acc_inv acc \<Longrightarrow> acc_ips (add_slice_endpoint p d ep acc) = acc_ips acc \<union> ready_addresses ep"
  using fold_image_acc [where I = slice_acc_inv and g = acc_ips and h = "\<lambda>a. {a}" and xs = "se_Addresses ep"]
    slice_inv_address ips_address
  by (auto simp: add_slice_endpoint_def ready_addresses_def split: option.splits bool.splits)

lemma ips_slice:
  "slice_acc_inv acc \<Longrightarrow> acc_ips (add_slice sg sp es acc) = acc_ips acc \<union> slice_ready_addresses es"
  unfolding add_slice_def Let_def slice_ready_addresses_def
  by (rule fold_image_acc [where I = slice_acc_inv]) (auto simp: slice_inv_endpoint ips_endpoint)

lemma slices_ips:
  "srv_ServerIp ` set (setBackendsFromEndpointSlices c sg sp) =
     (\<Union>es \<in> set (ew_EndpointSlices c). slice_ready_addresses es)"
proof -
  have "acc_ips (fold (add_slice sg sp) (ew_EndpointSlices c) ([], [])) =
      acc_ips ([], []) \<union> (\<Union>es \<in> set (ew_EndpointSlices c). slice_ready_addresses es)"
    by (rule fold_image_acc [where I = slice_acc_inv])
      (auto simp: slice_inv_slice ips_slice slice_inv_init)
  then show ?thesis by (simp add: setBackendsFromEndpointSlices_def)
qed

subsection \<open>Calls made while building\<close>

text \<open>Building the local model only reads, apart from the event for a group without servers.\<close>

lemma emits_cacheGet [emits_intros]: "emits P (\<lambda>_. True) (cacheGet C k)"
  by (simp add: emits_def cacheGet_def)

lemma emits_cacheSet [emits_intros]: "emits P (\<lambda>_. True) (cacheSet C k v)"
  by (simp add: emits_def cacheSet_def)

abbreviation reads_only :: "('w, 'a) nlb_prog \<Rightarrow> bool" where
  "reads_only m \<equiv> only_calls (\<lambda>c. \<not> is_cloud_write c) m"

lemma reads_calls [emits_intros]:
  "reads_only (VpcID C)" "reads_only (Region C)" "reads_only (GetInstanceByIp C i r v)"
  "reads_only (DescribeNetworkInterfaces C v ips ver)" "reads_only (ListNodes C)"
  "reads_only (GetEndpoints C n)" "reads_only (ListEndpointSlices C n)" "reads_only (GetService C n)"
  "reads_only (Event e)" "reads_only (ListNLBServerGroups C ts)" "reads_only (ListNLBListeners C i)"
  "reads_only (FindNLB C m)" "reads_only (ListNLBTagResources C i)"
  "reads_only (PatchServiceStatus C old new)" "reads_only (PatchService C old new)"
  "reads_only (ListServices C)"
  by (auto simp: nlb_calls intro!: emits_invoke)

lemma reads_getInstanceIdByNode [emits_intros]: "reads_only (getInstanceIdByNode C node)"
  unfolding getInstanceIdByNode_def Let_def
  by (auto intro!: emits_intros split: option.split sum.split list.split)

lemma reads_node_instance_id [emits_intros]: "reads_only (node_instance_id C msg node)"
  unfolding node_instance_id_def by (auto intro!: emits_intros split: sum.split)

lemma reads_updateENIBackends [emits_intros]: "reads_only (updateENIBackends C v bs ver)"
  unfolding updateENIBackends_def by (auto intro!: emits_intros)

lemma reads_eci_backends [emits_intros]: "reads_only (eci_backends C v bs ver)"
  unfolding eci_backends_def by (auto intro!: emits_intros)

lemma reads_buildENIBackends [emits_intros]: "reads_only (buildENIBackends cfg C v cand sg sp)"
  unfolding buildENIBackends_def Let_def by (auto intro!: emits_intros)

lemma reads_local_backend_step [emits_intros]: "reads_only (local_backend_step C cand sp b acc)"
  unfolding local_backend_step_def by (auto intro!: emits_intros)

lemma reads_buildLocalBackends [emits_intros]: "reads_only (buildLocalBackends cfg C v cand sg sp)"
  unfolding buildLocalBackends_def Let_def by (auto intro!: emits_intros)

lemma reads_cluster_node_step [emits_intros]: "reads_only (cluster_node_step C sg sp node ecs)"
  unfolding cluster_node_step_def by (auto intro!: emits_intros)

lemma reads_buildClusterBackends [emits_intros]: "reads_only (buildClusterBackends cfg C v cand sg sp)"
  unfolding buildClusterBackends_def Let_def by (auto intro!: emits_intros)

lemma reads_setServerGroupServers [emits_intros]: "reads_only (setServerGroupServers cfg C v cand sg sp)"
  unfolding setServerGroupServers_def by (auto intro!: emits_intros split: traffic_policy.split)

lemma reads_NewEndpointWithENI [emits_intros]: "reads_only (NewEndpointWithENI cfg C svc)"
  unfolding NewEndpointWithENI_def GetNodes_def getEndpoints_def getEndpointByEndpointSlice_def Let_def
  by (auto intro!: emits_intros)

lemma reads_build_server_group [emits_intros]: "reads_only (build_server_group cfg C v svc cand lis)"
  unfolding build_server_group_def Let_def by (auto intro!: emits_intros)

lemma reads_SG_BuildLocalModel: "reads_only (SG_BuildLocalModel cfg C v svc mdl)"
  unfolding SG_BuildLocalModel_def by (auto intro!: emits_intros)

subsection \<open>Properties\<close>

text \<open>
  (C37) The backends taken from endpoint slices: one per address, and the addresses are
  exactly those of the ready endpoints of the slices.
\<close>

theorem slice_backends_exact:
  "distinct (map srv_ServerIp (setBackendsFromEndpointSlices c sg sp)) \<and>
   srv_ServerIp ` set (setBackendsFromEndpointSlices c sg sp) =
     (\<Union>es \<in> set (ew_EndpointSlices c). slice_ready_addresses es)"
  by (simp add: slices_distinct slices_ips)

end
