(* ===== verification/Attribute_Merge.thy ===== *)
theory Attribute_Merge
  imports Nlb_Cloud
begin

text \<open>
  The update pattern of the managers: copy the remote object, overwrite each
  attribute that the service sets and that differs, remember whether anything was
  overwritten, and send the copy if so.  The comparisons are one definition per kind
  of attribute; \<open>attribute_merge\<close> is the contract of a whole comparison, interpreted
  for health checks, server groups and listeners.
\<close>

definition need_any :: "'a \<Rightarrow> 'a \<Rightarrow> bool" where
  "need_any l r \<longleftrightarrow> l \<noteq> r"

definition need_str :: "string \<Rightarrow> string \<Rightarrow> bool" where
  "need_str l r \<longleftrightarrow> l \<noteq> [] \<and> l \<noteq> r"

definition need_fold :: "string \<Rightarrow> string \<Rightarrow> bool" where
  "need_fold l r \<longleftrightarrow> l \<noteq> [] \<and> \<not> EqualFold l r"

definition need_num :: "int \<Rightarrow> int \<Rightarrow> bool" where
  "need_num l r \<longleftrightarrow> l \<noteq> 0 \<and> l \<noteq> r"

definition need_flag :: "bool option \<Rightarrow> bool option \<Rightarrow> bool" where
  "need_flag l r \<longleftrightarrow> l \<noteq> None \<and> BoolValue l \<noteq> BoolValue r"

definition need_int :: "int option \<Rightarrow> int option \<Rightarrow> bool" where
  "need_int l r \<longleftrightarrow> l \<noteq> None \<and> Int32Value l \<noteq> Int32Value r"

definition need_list :: "string list \<Rightarrow> string list \<Rightarrow> bool" where
  "need_list l r \<longleftrightarrow> length l \<noteq> 0 \<and> \<not> IsStringSliceEqual l r"

lemmas need_defs =
  need_any_def need_str_def need_fold_def need_num_def need_flag_def need_int_def need_list_def

text \<open>After the overwrite nothing is left to do, and an overwrite is a change.\<close>

lemma need_settled [simp]:
  "\<not> need_any l l" "\<not> need_str s s" "\<not> need_fold s s" "\<not> need_num i i" "\<not> need_flag b b"
  "\<not> need_int p p" "\<not> need_list xs xs"
  by (simp_all add: need_defs)

lemma need_neq:
  "need_any l r \<Longrightarrow> l \<noteq> r" "need_str s s' \<Longrightarrow> s \<noteq> s'" "need_fold s s' \<Longrightarrow> s \<noteq> s'"
  "need_num i i' \<Longrightarrow> i \<noteq> i'" "need_flag b b' \<Longrightarrow> b \<noteq> b'" "need_int p p' \<Longrightarrow> p \<noteq> p'"
  "need_list xs xs' \<Longrightarrow> xs \<noteq> xs'"
  by (auto simp: need_defs)

definition upd_if :: "bool \<Rightarrow> ('a \<Rightarrow> 'a) \<Rightarrow> bool \<times> 'a \<Rightarrow> bool \<times> 'a" where
  "upd_if c f st = (if c then (True, f (snd st)) else st)"

lemma upd_if_False [simp]: "upd_if False f st = st"
  by (simp add: upd_if_def)

lemma fst_upd_if: "fst (upd_if c f st) \<longleftrightarrow> fst st \<or> c"
  by (simp add: upd_if_def)

text \<open>A selector either ignores a step or is set by it to a value that does not depend on the copy.\<close>

lemma sel_upd_if_skip: "(\<And>x. g (f x) = g x) \<Longrightarrow> g (snd (upd_if c f st)) = g (snd st)"
  by (simp add: upd_if_def)

lemma sel_upd_if_hit:
  "(\<And>x y. g (f x) = g (f y)) \<Longrightarrow> g (snd (upd_if c f st)) = (if c then g (f undefined) else g (snd st))"
  unfolding upd_if_def by (metis snd_conv)

locale attribute_merge =
  fixes merge :: "'a \<Rightarrow> 'a \<Rightarrow> (bool \<times> 'a) res"
  assumes settles: "merge l r = Inr (n, u) \<Longrightarrow> merge l u = Inr (False, u)"
    and quiet: "merge l r = Inr (False, u) \<Longrightarrow> u = r"
begin

lemma reports:
  assumes "merge l r = Inr (n, u)"
  shows "n \<longleftrightarrow> u \<noteq> r"
  using settles [OF assms] quiet [of l r u] assms by (cases n) auto

lemma second_round:
  assumes "merge l r = Inr (n, u)" and "merge l u = Inr (m, v)"
  shows "\<not> m \<and> v = u"
  using settles [OF assms(1)] assms(2) by simp

end

subsection \<open>Health checks\<close>

text \<open>
  The health check part of \<open>UpdateServerGroup\<close>.  The change detail dereferences the
  remote flag, which panics when the remote side has none.
\<close>

definition hc_steps :: "health_check_config \<Rightarrow> health_check_config \<Rightarrow> bool \<times> health_check_config" where
  "hc_steps l r =
     (let st = (False, r);
          st = upd_if (need_flag (hc_HealthCheckEnabled l) (hc_HealthCheckEnabled r))
                 (\<lambda>u. u\<lparr>hc_HealthCheckEnabled := hc_HealthCheckEnabled l\<rparr>) st;
          st = upd_if (need_fold (hc_HealthCheckType l) (hc_HealthCheckType r))
                 (\<lambda>u. u\<lparr>hc_HealthCheckType := hc_HealthCheckType l\<rparr>) st;
          st = upd_if (need_num (hc_HealthCheckConnectPort l) (hc_HealthCheckConnectPort r))
                 (\<lambda>u. u\<lparr>hc_HealthCheckConnectPort := hc_HealthCheckConnectPort l\<rparr>) st;
          st = upd_if (need_num (hc_HealthyThreshold l) (hc_HealthyThreshold r))
                 (\<lambda>u. u\<lparr>hc_HealthyThreshold := hc_HealthyThreshold l\<rparr>) st;
          st = upd_if (need_num (hc_UnhealthyThreshold l) (hc_UnhealthyThreshold r))
                 (\<lambda>u. u\<lparr>hc_UnhealthyThreshold := hc_UnhealthyThreshold l\<rparr>) st;
          st = upd_if (need_num (hc_HealthCheckConnectTimeout l) (hc_HealthCheckConnectTimeout r))
                 (\<lambda>u. u\<lparr>hc_HealthCheckConnectTimeout := hc_HealthCheckConnectTimeout l\<rparr>) st;
          st = upd_if (need_num (hc_HealthCheckInterval l) (hc_HealthCheckInterval r))
                 (\<lambda>u. u\<lparr>hc_HealthCheckInterval := hc_HealthCheckInterval l\<rparr>) st;
          st = upd_if (need_str (hc_HealthCheckDomain l) (hc_HealthCheckDomain r))
                 (\<lambda>u. u\<lparr>hc_HealthCheckDomain := hc_HealthCheckDomain l\<rparr>) st;
          st = upd_if (need_str (hc_HealthCheckUrl l) (hc_HealthCheckUrl r))
                 (\<lambda>u. u\<lparr>hc_HealthCheckUrl := hc_HealthCheckUrl l\<rparr>) st;
          st = upd_if (need_fold (hc_HttpCheckMethod l) (hc_HttpCheckMethod r))
                 (\<lambda>u. u\<lparr>hc_HttpCheckMethod := hc_HttpCheckMethod l\<rparr>) st;
          st = upd_if (need_list (hc_HealthCheckHttpCode l) (hc_HealthCheckHttpCode r))
                 (\<lambda>u. u\<lparr>hc_HealthCheckHttpCode := hc_HealthCheckHttpCode l\<rparr>) st
      in st)"

definition hc_merge :: "health_check_config \<Rightarrow> health_check_config \<Rightarrow> (bool \<times> health_check_config) res" where
  "hc_merge l r =
     (if need_flag (hc_HealthCheckEnabled l) (hc_HealthCheckEnabled r) \<and> hc_HealthCheckEnabled r = None
      then Inl (Panic ''nil pointer dereference'') else Inr (hc_steps l r))"

lemmas sel_upd_if_hc =
  sel_upd_if_skip [of hc_HealthCheckEnabled] sel_upd_if_hit [of hc_HealthCheckEnabled]
  sel_upd_if_skip [of hc_HealthCheckType] sel_upd_if_hit [of hc_HealthCheckType]
  sel_upd_if_skip [of hc_HealthCheckConnectPort] sel_upd_if_hit [of hc_HealthCheckConnectPort]
  sel_upd_if_skip [of hc_HealthyThreshold] sel_upd_if_hit [of hc_HealthyThreshold]
  sel_upd_if_skip [of hc_UnhealthyThreshold] sel_upd_if_hit [of hc_UnhealthyThreshold]
  sel_upd_if_skip [of hc_HealthCheckConnectTimeout] sel_upd_if_hit [of hc_HealthCheckConnectTimeout]
  sel_upd_if_skip [of hc_HealthCheckInterval] sel_upd_if_hit [of hc_HealthCheckInterval]
  sel_upd_if_skip [of hc_HealthCheckDomain] sel_upd_if_hit [of hc_HealthCheckDomain]
  sel_upd_if_skip [of hc_HealthCheckUrl] sel_upd_if_hit [of hc_HealthCheckUrl]
  sel_upd_if_skip [of hc_HttpCheckMethod] sel_upd_if_hit [of hc_HttpCheckMethod]
  sel_upd_if_skip [of hc_HealthCheckHttpCode] sel_upd_if_hit [of hc_HealthCheckHttpCode]

abbreviation pick :: "('a \<Rightarrow> 'a \<Rightarrow> bool) \<Rightarrow> 'a \<Rightarrow> 'a \<Rightarrow> 'a" where
  "pick need l r \<equiv> (if need l r then l else r)"

lemma hc_steps_sel:
  "hc_HealthCheckEnabled (snd (hc_steps l r)) = pick need_flag (hc_HealthCheckEnabled l) (hc_HealthCheckEnabled r)"
  "hc_HealthCheckType (snd (hc_steps l r)) = pick need_fold (hc_HealthCheckType l) (hc_HealthCheckType r)"
  "hc_HealthCheckConnectPort (snd (hc_steps l r)) =
     pick need_num (hc_HealthCheckConnectPort l) (hc_HealthCheckConnectPort r)"
  "hc_HealthyThreshold (snd (hc_steps l r)) = pick need_num (hc_HealthyThreshold l) (hc_HealthyThreshold r)"
  "hc_UnhealthyThreshold (snd (hc_steps l r)) = pick need_num (hc_UnhealthyThreshold l) (hc_UnhealthyThreshold r)"
  "hc_HealthCheckConnectTimeout (snd (hc_steps l r)) =
     pick need_num (hc_HealthCheckConnectTimeout l) (hc_HealthCheckConnectTimeout r)"
  "hc_HealthCheckInterval (snd (hc_steps l r)) = pick need_num (hc_HealthCheckInterval l) (hc_HealthCheckInterval r)"
  "hc_HealthCheckDomain (snd (hc_steps l r)) = pick need_str (hc_HealthCheckDomain l) (hc_HealthCheckDomain r)"
  "hc_HealthCheckUrl (snd (hc_steps l r)) = pick need_str (hc_HealthCheckUrl l) (hc_HealthCheckUrl r)"
  "hc_HttpCheckMethod (snd (hc_steps l r)) = pick need_fold (hc_HttpCheckMethod l) (hc_HttpCheckMethod r)"
  "hc_HealthCheckHttpCode (snd (hc_steps l r)) = pick need_list (hc_HealthCheckHttpCode l) (hc_HealthCheckHttpCode r)"
  by (simp_all add: hc_steps_def Let_def sel_upd_if_hc cong: if_cong split del: if_split)

lemma hc_steps_changed:
  "fst (hc_steps l r) \<longleftrightarrow>
     need_flag (hc_HealthCheckEnabled l) (hc_HealthCheckEnabled r) \<or>
     need_fold (hc_HealthCheckType l) (hc_HealthCheckType r) \<or>
     need_num (hc_HealthCheckConnectPort l) (hc_HealthCheckConnectPort r) \<or>
     need_num (hc_HealthyThreshold l) (hc_HealthyThreshold r) \<or>
     need_num (hc_UnhealthyThreshold l) (hc_UnhealthyThreshold r) \<or>
     need_num (hc_HealthCheckConnectTimeout l) (hc_HealthCheckConnectTimeout r) \<or>
     need_num (hc_HealthCheckInterval l) (hc_HealthCheckInterval r) \<or>
     need_str (hc_HealthCheckDomain l) (hc_HealthCheckDomain r) \<or>
     need_str (hc_HealthCheckUrl l) (hc_HealthCheckUrl r) \<or>
     need_fold (hc_HttpCheckMethod l) (hc_HttpCheckMethod r) \<or>
     need_list (hc_HealthCheckHttpCode l) (hc_HealthCheckHttpCode r)"
  by (simp only: hc_steps_def Let_def fst_upd_if fst_conv) blast

lemma hc_steps_quiet: "\<not> fst (hc_steps l r) \<Longrightarrow> hc_steps l r = (False, r)"
  by (simp add: hc_steps_changed) (simp add: hc_steps_def Let_def)

lemma pick_settled [simp]:
  "\<not> need_any l (pick need_any l r)" "\<not> need_str s (pick need_str s s')"
  "\<not> need_fold s (pick need_fold s s')" "\<not> need_num i (pick need_num i i')"
  "\<not> need_flag b (pick need_flag b b')" "\<not> need_int p (pick need_int p p')"
  "\<not> need_list xs (pick need_list xs xs')"
  by simp_all

lemma hc_steps_settled: "hc_steps l (snd (hc_steps l r)) = (False, snd (hc_steps l r))"
  by (rule hc_steps_quiet) (simp only: hc_steps_changed hc_steps_sel pick_settled simp_thms)

interpretation hc: attribute_merge hc_merge
proof unfold_locales
  fix l r n u
  assume m: "hc_merge l r = Inr (n, u)"
  then have u: "hc_steps l r = (n, u)" by (simp add: hc_merge_def split: if_splits)
  have "\<not> need_flag (hc_HealthCheckEnabled l) (hc_HealthCheckEnabled u)"
    using hc_steps_sel(1) [of l r] u by (simp only: snd_conv pick_settled simp_thms)
  with u hc_steps_settled [of l r] show "hc_merge l u = Inr (False, u)"
    by (simp add: hc_merge_def)
next
  fix l r u
  assume "hc_merge l r = Inr (False, u)"
  then show "u = r" using hc_steps_quiet [of l r] by (simp add: hc_merge_def split: if_splits)
qed

end
