(* ===== verification/Server_Group_Sync.thy ===== *)
theory Server_Group_Sync
  imports Server_Groups Attribute_Merge
begin

text \<open>
  Bringing a server group of the cloud in line with the one built from the service
  (\<open>service/server_groups.go\<close>): the comparison of the attributes, the difference of the
  server lists, and the requests that send both.
\<close>

subsection \<open>Attributes\<close>

definition sg_steps :: "server_group \<Rightarrow> server_group \<Rightarrow> bool \<times> server_group" where
  "sg_steps l r =
     (let st = (False, r);
          st = upd_if (need_any (sg_ServerGroupName l) (sg_ServerGroupName r))
                 (\<lambda>u. u\<lparr>sg_ServerGroupName := sg_ServerGroupName l\<rparr>) st;
          st = upd_if (need_fold (sg_Scheduler l) (sg_Scheduler r))
                 (\<lambda>u. u\<lparr>sg_Scheduler := sg_Scheduler l\<rparr>) st;
          st = upd_if (need_flag (sg_ConnectionDrainEnabled l) (sg_ConnectionDrainEnabled r))
                 (\<lambda>u. u\<lparr>sg_ConnectionDrainEnabled := sg_ConnectionDrainEnabled l\<rparr>) st;
          st = upd_if (need_num (sg_ConnectionDrainTimeout l) (sg_ConnectionDrainTimeout r))
                 (\<lambda>u. u\<lparr>sg_ConnectionDrainTimeout := sg_ConnectionDrainTimeout l\<rparr>) st;
          st = upd_if (need_flag (sg_PreserveClientIpEnabled l) (sg_PreserveClientIpEnabled r))
                 (\<lambda>u. u\<lparr>sg_PreserveClientIpEnabled := sg_PreserveClientIpEnabled l\<rparr>) st
      in st)"

definition sg_hc_merge ::
  "health_check_config option \<Rightarrow> health_check_config option \<Rightarrow> (bool \<times> health_check_config option) res" where
  "sg_hc_merge l r =
     (case l of None \<Rightarrow> Inr (False, r)
      | Some lhc \<Rightarrow>
          (case r of None \<Rightarrow> Inr (True, Some lhc)
           | Some rhc \<Rightarrow> bind_res (hc_merge lhc rhc) (\<lambda>(n, u). Inr (n, Some u))))"

text \<open>
  The comparison of \<open>UpdateServerGroup\<close> up to the label \<open>update\<close>.  Like the health
  check flag, the remote connection drain flag is dereferenced for the change detail.
\<close>

definition sg_merge :: "server_group \<Rightarrow> server_group \<Rightarrow> (bool \<times> server_group) res" where
  "sg_merge l r =
     (if need_flag (sg_ConnectionDrainEnabled l) (sg_ConnectionDrainEnabled r) \<and>
         sg_ConnectionDrainEnabled r = None
      then Inl (Panic ''nil pointer dereference'')
      else bind_res (sg_hc_merge (sg_HealthCheckConfig l) (sg_HealthCheckConfig r)) (\<lambda>(n, hc).
        Inr (fst (sg_steps l r) \<or> n, (snd (sg_steps l r))\<lparr>sg_HealthCheckConfig := hc\<rparr>)))"

subsection \<open>Difference of the server lists\<close>

definition isServerEqual :: "sg_server \<Rightarrow> sg_server \<Rightarrow> bool" where
  "isServerEqual a b =
     (if srv_ServerType a \<noteq> srv_ServerType b then False
      else case srv_ServerType a of
          EniServerType \<Rightarrow> srv_ServerId a = srv_ServerId b \<and> srv_ServerIp a = srv_ServerIp b
        | EcsServerType \<Rightarrow> srv_ServerId a = srv_ServerId b
        | IpServerType \<Rightarrow> srv_ServerIp a = srv_ServerIp b
        | OtherServerType _ \<Rightarrow> False)"

definition server_changed :: "sg_server \<Rightarrow> sg_server \<Rightarrow> bool" where
  "server_changed l r \<longleftrightarrow>
     srv_Port l \<noteq> srv_Port r \<or> srv_Weight l \<noteq> srv_Weight r \<or> srv_Description l \<noteq> srv_Description r"

definition diff :: "sg_server list \<Rightarrow> sg_server list \<Rightarrow> sg_server list \<times> sg_server list \<times> sg_server list" where
  "diff remote local =
     (let deletions = filter (\<lambda>r. \<not> srv_IsUserManaged r \<and> \<not> list_ex (\<lambda>l. isServerEqual r l) local) remote;
          additions = filter (\<lambda>l. \<not> list_ex (\<lambda>r. isServerEqual l r) remote) local;
          updates = concat (map (\<lambda>l. map (\<lambda>_. l)
                      (filter (\<lambda>r. isServerEqual l r \<and> server_changed l r) remote)) local)
      in (additions, deletions, updates))"

subsection \<open>Requests\<close>

definition BatchAddServers :: "'w cloud \<Rightarrow> server_group \<Rightarrow> sg_server list \<Rightarrow> ('w, unit) nlb_prog" where
  "BatchAddServers C sg add = Batch add MaxBackendNum (\<lambda>l. AddNLBServers C (sg_ServerGroupId sg) l)"

definition BatchRemoveServers :: "'w cloud \<Rightarrow> server_group \<Rightarrow> sg_server list \<Rightarrow> ('w, unit) nlb_prog" where
  "BatchRemoveServers C sg del = Batch del MaxBackendNum (\<lambda>l. RemoveNLBServers C (sg_ServerGroupId sg) l)"

definition BatchUpdateServers :: "'w cloud \<Rightarrow> server_group \<Rightarrow> sg_server list \<Rightarrow> ('w, unit) nlb_prog" where
  "BatchUpdateServers C sg upd = Batch upd MaxBackendNum (\<lambda>l. UpdateNLBServers C (sg_ServerGroupId sg) l)"

definition updateServerGroupServers :: "'w cloud \<Rightarrow> server_group \<Rightarrow> server_group \<Rightarrow> ('w, unit) nlb_prog" where
  "updateServerGroupServers C local remote =
     (case diff (sg_Servers remote) (sg_Servers local) of (add, del, update) \<Rightarrow>
        if length add = 0 \<and> length del = 0 \<and> length update = 0 then returnP ()
        else
          bindP (if length add > 0 then BatchAddServers C local add else returnP ()) (\<lambda>_.
          bindP (if length del > 0 then BatchRemoveServers C remote del else returnP ()) (\<lambda>_.
          if length update > 0 then BatchUpdateServers C remote update else returnP ())))"

definition UpdateServerGroup :: "'w cloud \<Rightarrow> server_group \<Rightarrow> server_group \<Rightarrow> ('w, unit) nlb_prog" where
  "UpdateServerGroup C local remote =
     bindP (liftP (sg_merge local remote)) (\<lambda>(needUpdate, update).
     bindP (if needUpdate then wrapP ''UpdateNLBServerGroup error: '' (UpdateNLBServerGroup C update)
            else returnP ()) (\<lambda>_.
     updateServerGroupServers C local remote))"

text \<open>The id the cloud assigns comes back in the server group.\<close>

definition CreateServerGroup :: "'w cloud \<Rightarrow> server_group \<Rightarrow> ('w, server_group) nlb_prog" where
  "CreateServerGroup C sg =
     bindP (CreateNLBServerGroup C sg) (\<lambda>sg.
     bindP (TagNLBResource C (sg_ServerGroupId sg) ServerGroupTagType (sg_Tags sg)) (\<lambda>_.
     returnP sg))"

definition DeleteServerGroup :: "'w cloud \<Rightarrow> string \<Rightarrow> ('w, unit) nlb_prog" where
  "DeleteServerGroup C sgId = DeleteNLBServerGroup C sgId"

subsection \<open>Attribute comparison: the contract\<close>

lemmas sel_upd_if_sg =
  sel_upd_if_skip [of sg_ServerGroupName] sel_upd_if_hit [of sg_ServerGroupName]
  sel_upd_if_skip [of sg_Scheduler] sel_upd_if_hit [of sg_Scheduler]
  sel_upd_if_skip [of sg_ConnectionDrainEnabled] sel_upd_if_hit [of sg_ConnectionDrainEnabled]
  sel_upd_if_skip [of sg_ConnectionDrainTimeout] sel_upd_if_hit [of sg_ConnectionDrainTimeout]
  sel_upd_if_skip [of sg_PreserveClientIpEnabled] sel_upd_if_hit [of sg_PreserveClientIpEnabled]
  sel_upd_if_skip [of sg_HealthCheckConfig] sel_upd_if_skip [of sg_Servers]
  sel_upd_if_skip [of sg_ServerGroupId] sel_upd_if_skip [of sg_NamedKey]

lemma sg_steps_sel:
  "sg_ServerGroupName (snd (sg_steps l r)) = pick need_any (sg_ServerGroupName l) (sg_ServerGroupName r)"
  "sg_Scheduler (snd (sg_steps l r)) = pick need_fold (sg_Scheduler l) (sg_Scheduler r)"
  "sg_ConnectionDrainEnabled (snd (sg_steps l r)) =
     pick need_flag (sg_ConnectionDrainEnabled l) (sg_ConnectionDrainEnabled r)"
  "sg_ConnectionDrainTimeout (snd (sg_steps l r)) =
     pick need_num (sg_ConnectionDrainTimeout l) (sg_ConnectionDrainTimeout r)"
  "sg_PreserveClientIpEnabled (snd (sg_steps l r)) =
     pick need_flag (sg_PreserveClientIpEnabled l) (sg_PreserveClientIpEnabled r)"
  "sg_HealthCheckConfig (snd (sg_steps l r)) = sg_HealthCheckConfig r"
  "sg_Servers (snd (sg_steps l r)) = sg_Servers r"
  "sg_ServerGroupId (snd (sg_steps l r)) = sg_ServerGroupId r"
  "sg_NamedKey (snd (sg_steps l r)) = sg_NamedKey r"
  by (simp_all add: sg_steps_def Let_def sel_upd_if_sg cong: if_cong split del: if_split)

lemma sg_steps_changed:
  "fst (sg_steps l r) \<longleftrightarrow>
     need_any (sg_ServerGroupName l) (sg_ServerGroupName r) \<or>
     need_fold (sg_Scheduler l) (sg_Scheduler r) \<or>
     need_flag (sg_ConnectionDrainEnabled l) (sg_ConnectionDrainEnabled r) \<or>
     need_num (sg_ConnectionDrainTimeout l) (sg_ConnectionDrainTimeout r) \<or>
     need_flag (sg_PreserveClientIpEnabled l) (sg_PreserveClientIpEnabled r)"
  by (simp only: sg_steps_def Let_def fst_upd_if fst_conv) blast

lemma sg_steps_quiet: "\<not> fst (sg_steps l r) \<Longrightarrow> sg_steps l r = (False, r)"
  by (simp add: sg_steps_changed) (simp add: sg_steps_def Let_def)

lemma sg_steps_settled:
  "sg_steps l ((snd (sg_steps l r))\<lparr>sg_HealthCheckConfig := hc\<rparr>) =
     (False, (snd (sg_steps l r))\<lparr>sg_HealthCheckConfig := hc\<rparr>)"
  by (rule sg_steps_quiet)
    (simp add: sg_steps_changed sg_steps_sel split del: if_split)

interpretation sg_hc: attribute_merge sg_hc_merge
proof unfold_locales
  fix l r n u
  assume m: "sg_hc_merge l r = Inr (n, u)"
  show "sg_hc_merge l u = Inr (False, u)"
  proof (cases l; cases r)
    fix lhc rhc
    assume "l = Some lhc" "r = Some rhc"
    with m obtain v where v: "hc_merge lhc rhc = Inr (n, v)" "u = Some v"
      by (auto simp: sg_hc_merge_def bind_res_Inr_iff)
    with hc.settles [OF v(1)] \<open>l = Some lhc\<close> show ?thesis by (simp add: sg_hc_merge_def)
  qed (use m in \<open>auto simp: sg_hc_merge_def hc_merge_def hc_steps_quiet hc_steps_changed\<close>)
next
  fix l r u
  assume "sg_hc_merge l r = Inr (False, u)"
  then show "u = r"
    by (auto simp: sg_hc_merge_def bind_res_Inr_iff dest: hc.quiet split: option.splits)
qed

interpretation sg: attribute_merge sg_merge
proof unfold_locales
  fix l r n u
  assume m: "sg_merge l r = Inr (n, u)"
  then obtain n' hc where hc: "sg_hc_merge (sg_HealthCheckConfig l) (sg_HealthCheckConfig r) = Inr (n', hc)"
    and u: "u = (snd (sg_steps l r))\<lparr>sg_HealthCheckConfig := hc\<rparr>"
    by (auto simp: sg_merge_def bind_res_Inr_iff split: if_splits)
  have drain: "\<not> need_flag (sg_ConnectionDrainEnabled l) (sg_ConnectionDrainEnabled u)"
    by (simp add: u sg_steps_sel split del: if_split)
  have steps: "sg_steps l u = (False, u)" unfolding u by (rule sg_steps_settled)
  have "sg_HealthCheckConfig u = hc" by (simp add: u)
  with drain steps sg_hc.settles [OF hc] show "sg_merge l u = Inr (False, u)"
    by (simp add: sg_merge_def)
next
  fix l r u
  assume "sg_merge l r = Inr (False, u)"
  then obtain hc where hc: "sg_hc_merge (sg_HealthCheckConfig l) (sg_HealthCheckConfig r) = Inr (False, hc)"
    and "\<not> fst (sg_steps l r)" and u: "u = (snd (sg_steps l r))\<lparr>sg_HealthCheckConfig := hc\<rparr>"
    by (auto simp: sg_merge_def bind_res_Inr_iff split: if_splits)
  with sg_steps_quiet [of l r] sg_hc.quiet [OF hc] show "u = r" by simp
qed

subsection \<open>Server lists: what the difference means\<close>

text \<open>
  The identity of a server: type with instance id, address or both.  Unknown types have
  none and are never matched.
\<close>

definition server_key :: "sg_server \<Rightarrow> (server_type \<times> string \<times> string) option" where
  "server_key s =
     (case srv_ServerType s of
        EniServerType \<Rightarrow> Some (EniServerType, srv_ServerId s, srv_ServerIp s)
      | EcsServerType \<Rightarrow> Some (EcsServerType, srv_ServerId s, [])
      | IpServerType \<Rightarrow> Some (IpServerType, [], srv_ServerIp s)
      | OtherServerType _ \<Rightarrow> None)"

lemma isServerEqual_key: "isServerEqual a b \<longleftrightarrow> server_key a \<noteq> None \<and> server_key a = server_key b"
  by (auto simp: isServerEqual_def server_key_def split: server_type.splits)

lemma isServerEqual_sym: "isServerEqual a b \<Longrightarrow> isServerEqual b a"
  unfolding isServerEqual_key by metis

text \<open>
  Specification of the three requests on the server list of a group: remove the
  deletions, replace the attributes of the updated servers, append the additions.
\<close>

definition sync_servers ::
  "sg_server list \<Rightarrow> sg_server list \<times> sg_server list \<times> sg_server list \<Rightarrow> sg_server list" where
  "sync_servers remote d =
     (case d of (add, del, upd) \<Rightarrow>
        map (\<lambda>r. case find (\<lambda>u. isServerEqual u r) upd of None \<Rightarrow> r
                 | Some u \<Rightarrow> r\<lparr>srv_Port := srv_Port u, srv_Weight := srv_Weight u,
                              srv_Description := srv_Description u\<rparr>)
            (filter (\<lambda>r. r \<notin> set del) remote) @ add)"

definition keyed_servers :: "sg_server list \<Rightarrow> bool" where
  "keyed_servers ls \<longleftrightarrow> distinct (map server_key ls) \<and> None \<notin> server_key ` set ls"

lemma diff_empty_iff:
  "diff remote local = ([], [], []) \<longleftrightarrow>
     (\<forall>r \<in> set remote. srv_IsUserManaged r \<or> (\<exists>l \<in> set local. isServerEqual r l)) \<and>
     (\<forall>l \<in> set local. \<exists>r \<in> set remote. isServerEqual l r) \<and>
     (\<forall>l \<in> set local. \<forall>r \<in> set remote. isServerEqual l r \<longrightarrow> \<not> server_changed l r)"
  by (auto simp: diff_def Let_def filter_empty_conv list_ex_iff)

lemma keyed_unique:
  "keyed_servers ls \<Longrightarrow> l \<in> set ls \<Longrightarrow> l' \<in> set ls \<Longrightarrow> server_key l = server_key l' \<Longrightarrow> l = l'"
  by (auto simp: keyed_servers_def distinct_map inj_on_def)

lemma server_key_upd [simp]:
  "server_key (r\<lparr>srv_Port := p, srv_Weight := w, srv_Description := d\<rparr>) = server_key r"
  by (simp add: server_key_def split: server_type.split)

lemma set_updates:
  "u \<in> set (snd (snd (diff remote local))) \<longleftrightarrow>
     u \<in> set local \<and> (\<exists>r \<in> set remote. isServerEqual u r \<and> server_changed u r)"
  by (auto simp: diff_def Let_def)

lemma updates_find:
  assumes ks: "keyed_servers ls" and r: "r \<in> set remote" and l: "l \<in> set ls" and eq: "isServerEqual l r"
  shows "find (\<lambda>u. isServerEqual u r) (snd (snd (diff remote ls))) = Some l \<or>
    find (\<lambda>u. isServerEqual u r) (snd (snd (diff remote ls))) = None \<and> \<not> server_changed l r"
proof (cases "find (\<lambda>u. isServerEqual u r) (snd (snd (diff remote ls)))")
  case None
  then have "\<not> server_changed l r"
    using l r eq by (auto simp: find_None_iff set_updates)
  with None show ?thesis by simp
next
  case (Some u)
  then have "u \<in> set ls" and "isServerEqual u r"
    by (auto simp: find_Some_iff set_updates dest: nth_mem)
  with keyed_unique [OF ks l] eq Some show ?thesis by (auto simp: isServerEqual_key)
qed

text \<open>What the group holds for a remote server that stays.\<close>

definition synced :: "sg_server list \<Rightarrow> sg_server list \<Rightarrow> sg_server \<Rightarrow> sg_server" where
  "synced remote ls r =
     (case find (\<lambda>u. isServerEqual u r) (snd (snd (diff remote ls))) of None \<Rightarrow> r
      | Some u \<Rightarrow> r\<lparr>srv_Port := srv_Port u, srv_Weight := srv_Weight u,
                    srv_Description := srv_Description u\<rparr>)"

lemma set_sync:
  "set (sync_servers remote (diff remote ls)) =
     synced remote ls ` {r \<in> set remote. srv_IsUserManaged r \<or> (\<exists>l \<in> set ls. isServerEqual r l)} \<union>
     {l \<in> set ls. \<not> (\<exists>r \<in> set remote. isServerEqual l r)}"
  by (auto simp: sync_servers_def synced_def diff_def Let_def list_ex_iff)

lemma synced_key [simp]: "server_key (synced remote ls r) = server_key r"
  by (simp add: synced_def split: option.split)

lemma synced_managed [simp]: "srv_IsUserManaged (synced remote ls r) = srv_IsUserManaged r"
  by (simp add: synced_def split: option.split)

lemma synced_unchanged:
  assumes "keyed_servers ls" "r \<in> set remote" "l \<in> set ls" "isServerEqual l r"
  shows "\<not> server_changed l (synced remote ls r)"
  using updates_find [OF assms] by (auto simp: server_changed_def synced_def)

lemma keyed_servers_self_key: "keyed_servers ls \<Longrightarrow> l \<in> set ls \<Longrightarrow> isServerEqual l l"
  by (metis imageI isServerEqual_key keyed_servers_def)

lemma diff_after_sync:
  assumes ks: "keyed_servers ls"
  shows "diff (sync_servers remote (diff remote ls)) ls = ([], [], [])"
  unfolding diff_empty_iff set_sync
proof (intro conjI ballI impI)
  fix s
  assume "s \<in> synced remote ls ` {r \<in> set remote. srv_IsUserManaged r \<or> (\<exists>l \<in> set ls. isServerEqual r l)} \<union>
     {l \<in> set ls. \<not> (\<exists>r \<in> set remote. isServerEqual l r)}"
  then show "srv_IsUserManaged s \<or> (\<exists>l \<in> set ls. isServerEqual s l)"
    using keyed_servers_self_key [OF ks] by (auto simp: isServerEqual_key)
next
  fix l
  assume l: "l \<in> set ls"
  show "\<exists>r \<in> synced remote ls ` {r \<in> set remote. srv_IsUserManaged r \<or> (\<exists>l \<in> set ls. isServerEqual r l)} \<union>
     {l \<in> set ls. \<not> (\<exists>r \<in> set remote. isServerEqual l r)}. isServerEqual l r"
  proof (cases "\<exists>r \<in> set remote. isServerEqual l r")
    case True
    then obtain r where "r \<in> set remote" "isServerEqual l r" by blast
    then have "isServerEqual l (synced remote ls r)"
      unfolding isServerEqual_key synced_key by blast
    moreover have "\<exists>l \<in> set ls. isServerEqual r l"
      using l isServerEqual_sym [OF \<open>isServerEqual l r\<close>] by blast
    ultimately show ?thesis using \<open>r \<in> set remote\<close> by blast
  next
    case False
    with l keyed_servers_self_key [OF ks l] show ?thesis by blast
  qed
next
  fix l s
  assume l: "l \<in> set ls" and eq: "isServerEqual l s"
    and "s \<in> synced remote ls ` {r \<in> set remote. srv_IsUserManaged r \<or> (\<exists>l \<in> set ls. isServerEqual r l)} \<union>
     {l \<in> set ls. \<not> (\<exists>r \<in> set remote. isServerEqual l r)}"
  then consider r where "r \<in> set remote" "s = synced remote ls r" | "s \<in> set ls" by blast
  then show "\<not> server_changed l s"
  proof cases
    case 1
    with eq have "isServerEqual l r" by (metis isServerEqual_key synced_key)
    with synced_unchanged [OF ks 1(1) l] 1(2) show ?thesis by blast
  next
    case 2
    with keyed_unique [OF ks l 2] eq have "l = s" by (simp add: isServerEqual_key)
    then show ?thesis by (simp add: server_changed_def)
  qed
qed

subsection \<open>The requests on the servers\<close>

lemma follows_Batch:
  assumes "\<And>c. follows (batch c) [k c]"
  shows "follows (Batch m MaxBackendNum batch) (map k (chunks 39 m))"
proof -
  have "follows (forP batch (chunks 39 m)) (concat (map (\<lambda>c. [k c]) (chunks 39 m)))"
    by (rule follows_for) (rule assms)
  then show ?thesis by (simp add: Batch_MaxBackendNum)
qed

text \<open>What \<open>updateServerGroupServers\<close> sends: additions, then removals, then updates, each in pieces.\<close>

definition server_requests :: "server_group \<Rightarrow> server_group \<Rightarrow> nlb_call list" where
  "server_requests local remote =
     (case diff (sg_Servers remote) (sg_Servers local) of (add, del, update) \<Rightarrow>
        map (CAddNLBServers (sg_ServerGroupId local)) (chunks 39 add) @
        map (CRemoveNLBServers (sg_ServerGroupId remote)) (chunks 39 del) @
        map (CUpdateNLBServers (sg_ServerGroupId remote)) (chunks 39 update))"

lemma chunks_Nil [simp]: "chunks n [] = []"
  by (simp add: chunks.simps)

lemma follows_unless_empty:
  "follows m (map k (chunks n xs)) \<Longrightarrow> follows (if length xs > 0 then m else returnP ()) (map k (chunks n xs))"
  by (auto intro: follows_return)

lemma follows_servers [follows_intros]:
  "follows (BatchAddServers C sg xs) (map (CAddNLBServers (sg_ServerGroupId sg)) (chunks 39 xs))"
  "follows (BatchRemoveServers C sg xs) (map (CRemoveNLBServers (sg_ServerGroupId sg)) (chunks 39 xs))"
  "follows (BatchUpdateServers C sg xs) (map (CUpdateNLBServers (sg_ServerGroupId sg)) (chunks 39 xs))"
  unfolding BatchAddServers_def BatchRemoveServers_def BatchUpdateServers_def nlb_calls
  by (rule follows_Batch, rule follows_invoke)+

lemma follows_updateServerGroupServers [follows_intros]:
  "follows (updateServerGroupServers C local remote) (server_requests local remote)"
proof -
  obtain add del upd where d: "diff (sg_Servers remote) (sg_Servers local) = (add, del, upd)"
    by (cases "diff (sg_Servers remote) (sg_Servers local)") auto
  have "follows (if length add > 0 then BatchAddServers C local add else returnP ())
      (map (CAddNLBServers (sg_ServerGroupId local)) (chunks 39 add))"
    "follows (if length del > 0 then BatchRemoveServers C remote del else returnP ())
      (map (CRemoveNLBServers (sg_ServerGroupId remote)) (chunks 39 del))"
    "follows (if length upd > 0 then BatchUpdateServers C remote upd else returnP ())
      (map (CUpdateNLBServers (sg_ServerGroupId remote)) (chunks 39 upd))"
    by (rule follows_unless_empty, rule follows_servers)+
  then have "follows (bindP (if length add > 0 then BatchAddServers C local add else returnP ()) (\<lambda>_.
      bindP (if length del > 0 then BatchRemoveServers C remote del else returnP ()) (\<lambda>_.
      if length upd > 0 then BatchUpdateServers C remote upd else returnP ())))
      (server_requests local remote)"
    unfolding server_requests_def d prod.case by (intro follows_bind)
  moreover have "length add = 0 \<and> length del = 0 \<and> length upd = 0 \<Longrightarrow> server_requests local remote = []"
    by (simp add: server_requests_def d)
  ultimately show ?thesis
    unfolding updateServerGroupServers_def d prod.case by (auto intro: follows_return)
qed

text \<open>And \<open>UpdateServerGroup\<close>: the attributes first, when they changed.\<close>

lemma follows_UpdateServerGroup:
  assumes "sg_merge local remote = Inr (n, u)"
  shows "follows (UpdateServerGroup C local remote)
    ((if n then [CUpdateNLBServerGroup u] else []) @ server_requests local remote)"
proof -
  have "follows (if n then wrapP ''UpdateNLBServerGroup error: '' (UpdateNLBServerGroup C u) else returnP ())
      (if n then [CUpdateNLBServerGroup u] else [])"
    unfolding nlb_calls by (intro follows_if follows_wrap follows_invoke follows_return)
  from follows_bind [OF this follows_updateServerGroupServers [of C local remote]]
  show ?thesis unfolding UpdateServerGroup_def assms bindP_liftP_Inr prod.case .
qed

subsection \<open>Properties\<close>

definition demo_local_servers :: "sg_server list" where
  "demo_local_servers =
     [zero_server\<lparr>srv_ServerType := EcsServerType, srv_ServerId := ''i-1'', srv_Port := 80, srv_Weight := 100\<rparr>,
      zero_server\<lparr>srv_ServerType := EniServerType, srv_ServerId := ''eni-2'', srv_ServerIp := ''10.0.0.2'', srv_Port := 80\<rparr>]"

definition demo_remote_servers :: "sg_server list" where
  "demo_remote_servers =
     [zero_server\<lparr>srv_ServerType := EcsServerType, srv_ServerId := ''i-1'', srv_Port := 8080, srv_Weight := 50\<rparr>,
      zero_server\<lparr>srv_ServerType := EcsServerType, srv_ServerId := ''i-3'', srv_Port := 80\<rparr>]"



text \<open>
  (C29) The requests of a server update: a run of \<open>updateServerGroupServers\<close> that succeeds
  sends the additions, then the removals, then the updates, each in pieces of at most
  39 in order, and a run that fails sends an initial part of that sequence.
\<close>

theorem server_update_requests:
  "follows (updateServerGroupServers C local remote) (server_requests local remote)"
  by (rule follows_updateServerGroupServers)

text \<open>
  (C34) Nothing is reported twice: a server group whose attributes were sent compares equal
  in the next round, and the update is sent exactly when it differs from what the cloud has.
\<close>

theorem server_group_merge_settles:
  assumes "sg_merge l r = Inr (n, u)"
  shows "sg_merge l u = Inr (False, u) \<and> (n \<longleftrightarrow> u \<noteq> r)"
  using sg.settles [OF assms] sg.reports [OF assms] by blast

theorem server_group_merge_settles_witness:
  "sg_merge (zero_server_group\<lparr>sg_Scheduler := ''wrr''\<rparr>) zero_server_group =
     Inr (True, zero_server_group\<lparr>sg_Scheduler := ''wrr''\<rparr>) \<and>
   sg_merge (zero_server_group\<lparr>sg_Scheduler := ''wrr''\<rparr>) (zero_server_group\<lparr>sg_Scheduler := ''wrr''\<rparr>) =
     Inr (False, zero_server_group\<lparr>sg_Scheduler := ''wrr''\<rparr>)"
proof -
  have run: "sg_merge (zero_server_group\<lparr>sg_Scheduler := ''wrr''\<rparr>) zero_server_group =
      Inr (True, zero_server_group\<lparr>sg_Scheduler := ''wrr''\<rparr>)"
    by (simp add: sg_merge_def sg_steps_def sg_hc_merge_def upd_if_def need_defs zero_server_group_def EqualFold_def)
  from run server_group_merge_settles [OF run] show ?thesis by blast
qed

text \<open>
  The change detail dereferences the connection drain flag of the remote group: when
  the service turns connection drain on and the cloud reports no flag, the update panics.
\<close>

theorem connection_drain_nil_panics:
  assumes "sg_ConnectionDrainEnabled local = Some True" and "sg_ConnectionDrainEnabled remote = None"
  shows "fst (UpdateServerGroup C local remote s) = Inl (Panic ''nil pointer dereference'')"
  using assms by (simp add: UpdateServerGroup_def sg_merge_def need_defs prog_simps)

theorem connection_drain_nil_panics_witness:
  "\<forall>C (s :: unit nlb_state). fst (UpdateServerGroup C (zero_server_group\<lparr>sg_ConnectionDrainEnabled := Some True\<rparr>)
     zero_server_group s) = Inl (Panic ''nil pointer dereference'')"
  by (intro allI, rule connection_drain_nil_panics) (simp_all add: zero_server_group_def)

end
