(* ===== verification/Listeners.thy ===== *)
theory Listeners
  imports Server_Group_Sync
begin

text \<open>
  The listener manager (\<open>service/listeners.go\<close>): listeners built from the ports and
  annotations of a service, and the comparison and requests that bring a listener of
  the cloud in line.
\<close>

definition isTCPSSL :: "string \<Rightarrow> bool" where
  "isTCPSSL proto \<longleftrightarrow> proto = TCPSSL"

text \<open>The loop over the entries \<open>protocol:port\<close>; an entry after the matching one is not looked at.\<close>

fun protocol_of_entries :: "string list \<Rightarrow> service_port \<Rightarrow> string res" where
  "protocol_of_entries [] port = Inr (ToUpper (sp_Protocol port))"
| "protocol_of_entries (v # vs) port =
     (let pp = Split v '':''
      in if length pp < 2 then
           Inl (Errorf ''port and protocol format must be like 'https:443' with colon separated.'')
         else if ToUpper (pp ! 0) \<noteq> TCP \<and> ToUpper (pp ! 0) \<noteq> UDP \<and> ToUpper (pp ! 0) \<noteq> TCPSSL then
           Inl (Errorf ''port protocol format must be either [TCP|UDP|TCPSSL]'')
         else if pp ! 1 = Itoa (sp_Port port) then Inr (ToUpper (pp ! 0))
         else protocol_of_entries vs port)"

definition nlbListenerProtocol :: "string \<Rightarrow> service_port \<Rightarrow> string res" where
  "nlbListenerProtocol annotation port =
     (if annotation = [] then Inr (ToUpper (sp_Protocol port))
      else protocol_of_entries (Split annotation '','') port)"

text \<open>The assignments of \<open>buildListenerFromServicePort\<close> that cannot fail.\<close>

definition listener_flags :: "service \<Rightarrow> listener_attr \<Rightarrow> listener_attr" where
  "listener_flags svc lis =
     (let lis = (if Get svc TLSCipherPolicy \<noteq> [] then lis\<lparr>ls_SecurityPolicyId := Get svc TLSCipherPolicy\<rparr> else lis);
          lis = (if Get svc ProxyProtocol \<noteq> []
                 then lis\<lparr>ls_ProxyProtocolEnabled := Some (Get svc ProxyProtocol = OnFlag)\<rparr> else lis);
          lis = (if Get svc CertID \<noteq> [] then lis\<lparr>ls_CertificateIds := Split (Get svc CertID) '',''\<rparr> else lis);
          lis = (if Get svc CaCertID \<noteq> [] then lis\<lparr>ls_CaCertificateIds := Split (Get svc CaCertID) '',''\<rparr> else lis);
          lis = (if Get svc CaCert \<noteq> [] then lis\<lparr>ls_CaEnabled := Some (Get svc CaCert = OnFlag)\<rparr> else lis)
      in lis)"

definition buildListenerFromServicePort :: "config \<Rightarrow> service \<Rightarrow> service_port \<Rightarrow> listener_attr res" where
  "buildListenerFromServicePort cfg svc port =
     bind_res (nlbListenerProtocol (Get svc ProtocolPort) port) (\<lambda>proto.
       let key = \<lparr>nk_Prefix = DEFAULT_PREFIX, nk_CID = cfg_ClusterID cfg, nk_Namespace = svc_Namespace svc,
                  nk_ServiceName = svc_Name svc, lk_Port = sp_Port port, lk_Protocol = proto\<rparr>;
           lis = zero_listener\<lparr>ls_NamedKey := Some key, ls_ServicePort := Some port,
                   ls_ListenerPort := sp_Port port, ls_ListenerProtocol := proto,
                   ls_ListenerDescription := ListenerNamedKey_Key key,
                   ls_ServerGroupName := SGNamedKey_Key (getServerGroupNamedKey cfg svc proto port)\<rparr>
       in bind_res (anno_int32 svc IdleTimeout ''parse IdleTimeout error: '' 0) (\<lambda>idle.
          let lis = listener_flags svc (lis\<lparr>ls_IdleTimeout := idle\<rparr>)
          in if Get svc Cps \<noteq> [] then
               bind_res (wrap_res ''parse Mss error: '' (Atoi (Get svc Cps))) (\<lambda>cps.
               Inr (lis\<lparr>ls_Cps := Some (to_int32 cps)\<rparr>))
             else Inr lis))"

definition Listener_BuildLocalModel :: "config \<Rightarrow> service \<Rightarrow> nlb \<Rightarrow> nlb res" where
  "Listener_BuildLocalModel cfg svc mdl =
     bind_res (map_res (\<lambda>port. wrap_res ''build listener from servicePort error: ''
                 (buildListenerFromServicePort cfg svc port)) (spec_Ports (svc_Spec svc)))
       (\<lambda>ls. Inr (mdl\<lparr>nlb_Listeners := nlb_Listeners mdl @ ls\<rparr>))"

definition ListListeners :: "'w cloud \<Rightarrow> string \<Rightarrow> ('w, listener_attr list) nlb_prog" where
  "ListListeners C lbId = ListNLBListeners C lbId"

definition Listener_BuildRemoteModel :: "'w cloud \<Rightarrow> nlb \<Rightarrow> ('w, nlb) nlb_prog" where
  "Listener_BuildRemoteModel C mdl =
     bindP (wrapP ''DescribeNLBListeners error:''
             (ListListeners C (lb_LoadBalancerId (nlb_LoadBalancerAttribute mdl)))) (\<lambda>listeners.
     returnP (mdl\<lparr>nlb_Listeners := listeners\<rparr>))"

definition CreateListener :: "'w cloud \<Rightarrow> string \<Rightarrow> listener_attr \<Rightarrow> ('w, unit) nlb_prog" where
  "CreateListener C lbId local = CreateNLBListener C lbId local"

definition DeleteListener :: "'w cloud \<Rightarrow> string \<Rightarrow> ('w, unit) nlb_prog" where
  "DeleteListener C lisId = DeleteNLBListener C lisId"

text \<open>The comparison of \<open>UpdateNLBListener\<close>.\<close>

definition listener_merge :: "listener_attr \<Rightarrow> listener_attr \<Rightarrow> bool \<times> listener_attr" where
  "listener_merge l r =
     (let st = (False, r);
          ssl = isTCPSSL (ls_ListenerProtocol l);
          st = upd_if (need_any (ls_ListenerDescription l) (ls_ListenerDescription r))
                 (\<lambda>u. u\<lparr>ls_ListenerDescription := ls_ListenerDescription l\<rparr>) st;
          st = upd_if (need_any (ls_ServerGroupId l) (ls_ServerGroupId r))
                 (\<lambda>u. u\<lparr>ls_ServerGroupId := ls_ServerGroupId l\<rparr>) st;
          st = upd_if (need_flag (ls_ProxyProtocolEnabled l) (ls_ProxyProtocolEnabled r))
                 (\<lambda>u. u\<lparr>ls_ProxyProtocolEnabled := ls_ProxyProtocolEnabled l\<rparr>) st;
          st = upd_if (need_num (ls_IdleTimeout l) (ls_IdleTimeout r))
                 (\<lambda>u. u\<lparr>ls_IdleTimeout := ls_IdleTimeout l\<rparr>) st;
          st = upd_if (need_int (ls_Cps l) (ls_Cps r))
                 (\<lambda>u. u\<lparr>ls_Cps := ls_Cps l\<rparr>) st;
          st = upd_if (ssl \<and> need_list (ls_CertificateIds l) (ls_CertificateIds r))
                 (\<lambda>u. u\<lparr>ls_CertificateIds := ls_CertificateIds l\<rparr>) st;
          st = upd_if (ssl \<and> need_list (ls_CaCertificateIds l) (ls_CaCertificateIds r))
                 (\<lambda>u. u\<lparr>ls_CaCertificateIds := ls_CaCertificateIds l\<rparr>) st;
          st = upd_if (ssl \<and> need_flag (ls_CaEnabled l) (ls_CaEnabled r))
                 (\<lambda>u. u\<lparr>ls_CaEnabled := ls_CaEnabled l\<rparr>) st;
          st = upd_if (ssl \<and> need_str (ls_SecurityPolicyId l) (ls_SecurityPolicyId r))
                 (\<lambda>u. u\<lparr>ls_SecurityPolicyId := ls_SecurityPolicyId l\<rparr>) st
      in st)"

definition UpdateNLBListener :: "'w cloud \<Rightarrow> listener_attr \<Rightarrow> listener_attr \<Rightarrow> ('w, unit) nlb_prog" where
  "UpdateNLBListener C local remote =
     bindP (if ls_ListenerStatus remote = ''Stopped''
            then wrapP ''start listener error: '' (StartNLBListener C (ls_ListenerId remote))
            else returnP ()) (\<lambda>_.
     case listener_merge local remote of (needUpdate, update) \<Rightarrow>
       if needUpdate then PutNLBListener C update else returnP ())"

subsection \<open>The comparison meets its contract\<close>

lemmas sel_upd_if_ls =
  sel_upd_if_skip [of ls_ListenerDescription] sel_upd_if_hit [of ls_ListenerDescription]
  sel_upd_if_skip [of ls_ServerGroupId] sel_upd_if_hit [of ls_ServerGroupId]
  sel_upd_if_skip [of ls_ProxyProtocolEnabled] sel_upd_if_hit [of ls_ProxyProtocolEnabled]
  sel_upd_if_skip [of ls_IdleTimeout] sel_upd_if_hit [of ls_IdleTimeout]
  sel_upd_if_skip [of ls_Cps] sel_upd_if_hit [of ls_Cps]
  sel_upd_if_skip [of ls_CertificateIds] sel_upd_if_hit [of ls_CertificateIds]
  sel_upd_if_skip [of ls_CaCertificateIds] sel_upd_if_hit [of ls_CaCertificateIds]
  sel_upd_if_skip [of ls_CaEnabled] sel_upd_if_hit [of ls_CaEnabled]
  sel_upd_if_skip [of ls_SecurityPolicyId] sel_upd_if_hit [of ls_SecurityPolicyId]
  sel_upd_if_skip [of ls_ListenerId] sel_upd_if_skip [of ls_ListenerPort]
  sel_upd_if_skip [of ls_ListenerProtocol]

lemma listener_merge_sel:
  "ls_ListenerDescription (snd (listener_merge l r)) =
     pick need_any (ls_ListenerDescription l) (ls_ListenerDescription r)"
  "ls_ServerGroupId (snd (listener_merge l r)) = pick need_any (ls_ServerGroupId l) (ls_ServerGroupId r)"
  "ls_ProxyProtocolEnabled (snd (listener_merge l r)) =
     pick need_flag (ls_ProxyProtocolEnabled l) (ls_ProxyProtocolEnabled r)"
  "ls_IdleTimeout (snd (listener_merge l r)) = pick need_num (ls_IdleTimeout l) (ls_IdleTimeout r)"
  "ls_Cps (snd (listener_merge l r)) = pick need_int (ls_Cps l) (ls_Cps r)"
  "ls_CertificateIds (snd (listener_merge l r)) =
     (if isTCPSSL (ls_ListenerProtocol l) \<and> need_list (ls_CertificateIds l) (ls_CertificateIds r)
      then ls_CertificateIds l else ls_CertificateIds r)"
  "ls_CaCertificateIds (snd (listener_merge l r)) =
     (if isTCPSSL (ls_ListenerProtocol l) \<and> need_list (ls_CaCertificateIds l) (ls_CaCertificateIds r)
      then ls_CaCertificateIds l else ls_CaCertificateIds r)"
  "ls_CaEnabled (snd (listener_merge l r)) =
     (if isTCPSSL (ls_ListenerProtocol l) \<and> need_flag (ls_CaEnabled l) (ls_CaEnabled r)
      then ls_CaEnabled l else ls_CaEnabled r)"
  "ls_SecurityPolicyId (snd (listener_merge l r)) =
     (if isTCPSSL (ls_ListenerProtocol l) \<and> need_str (ls_SecurityPolicyId l) (ls_SecurityPolicyId r)
      then ls_SecurityPolicyId l else ls_SecurityPolicyId r)"
  "ls_ListenerId (snd (listener_merge l r)) = ls_ListenerId r"
  "ls_ListenerPort (snd (listener_merge l r)) = ls_ListenerPort r"
  "ls_ListenerProtocol (snd (listener_merge l r)) = ls_ListenerProtocol r"
  by (simp_all add: listener_merge_def Let_def sel_upd_if_ls cong: if_cong split del: if_split)

lemma listener_merge_changed:
  "fst (listener_merge l r) \<longleftrightarrow>
     need_any (ls_ListenerDescription l) (ls_ListenerDescription r) \<or>
     need_any (ls_ServerGroupId l) (ls_ServerGroupId r) \<or>
     need_flag (ls_ProxyProtocolEnabled l) (ls_ProxyProtocolEnabled r) \<or>
     need_num (ls_IdleTimeout l) (ls_IdleTimeout r) \<or>
     need_int (ls_Cps l) (ls_Cps r) \<or>
     isTCPSSL (ls_ListenerProtocol l) \<and>
       (need_list (ls_CertificateIds l) (ls_CertificateIds r) \<or>
        need_list (ls_CaCertificateIds l) (ls_CaCertificateIds r) \<or>
        need_flag (ls_CaEnabled l) (ls_CaEnabled r) \<or>
        need_str (ls_SecurityPolicyId l) (ls_SecurityPolicyId r))"
  by (simp only: listener_merge_def Let_def fst_upd_if fst_conv) blast

lemma listener_merge_quiet: "\<not> fst (listener_merge l r) \<Longrightarrow> listener_merge l r = (False, r)"
  by (simp add: listener_merge_changed) (auto simp: listener_merge_def Let_def)

interpretation listener: attribute_merge "\<lambda>l r. Inr (listener_merge l r)"
proof unfold_locales
  fix l r n u
  assume "(Inr (listener_merge l r) :: (bool \<times> listener_attr) res) = Inr (n, u)"
  then have u: "u = snd (listener_merge l r)" by simp
  have "\<not> fst (listener_merge l u)"
    unfolding u listener_merge_changed listener_merge_sel by simp
  then show "(Inr (listener_merge l u) :: (bool \<times> listener_attr) res) = Inr (False, u)"
    by (simp add: listener_merge_quiet)
next
  fix l r u
  assume "(Inr (listener_merge l r) :: (bool \<times> listener_attr) res) = Inr (False, u)"
  then show "u = r" using listener_merge_quiet [of l r] by simp
qed

subsection \<open>Lemmas\<close>

text \<open>Every protocol of a listener built from the annotation is upper case, and its key is exact.\<close>

lemma protocol_of_entries_cases:
  "protocol_of_entries vs port = Inr p \<Longrightarrow> p = ToUpper (sp_Protocol port) \<or> p \<in> {TCP, UDP, TCPSSL}"
  by (induction vs) (auto simp: Let_def split: if_splits)

lemma nlbListenerProtocol_cases:
  "nlbListenerProtocol a port = Inr p \<Longrightarrow> p = ToUpper (sp_Protocol port) \<or> p \<in> {TCP, UDP, TCPSSL}"
  by (auto simp: nlbListenerProtocol_def dest: protocol_of_entries_cases split: if_splits)

lemma listener_flags_sel [simp]:
  "ls_NamedKey (listener_flags svc lis) = ls_NamedKey lis"
  "ls_ListenerDescription (listener_flags svc lis) = ls_ListenerDescription lis"
  "ls_ListenerPort (listener_flags svc lis) = ls_ListenerPort lis"
  "ls_ListenerProtocol (listener_flags svc lis) = ls_ListenerProtocol lis"
  "ls_ServicePort (listener_flags svc lis) = ls_ServicePort lis"
  "ls_ServerGroupName (listener_flags svc lis) = ls_ServerGroupName lis"
  "ls_IsUserManaged (listener_flags svc lis) = ls_IsUserManaged lis"
  "ls_ListenerId (listener_flags svc lis) = ls_ListenerId lis"
  by (simp_all add: listener_flags_def Let_def)

definition base_listener :: "config \<Rightarrow> service \<Rightarrow> service_port \<Rightarrow> string \<Rightarrow> listener_attr" where
  "base_listener cfg svc port proto =
     (let key = \<lparr>nk_Prefix = DEFAULT_PREFIX, nk_CID = cfg_ClusterID cfg, nk_Namespace = svc_Namespace svc,
                  nk_ServiceName = svc_Name svc, lk_Port = sp_Port port, lk_Protocol = proto\<rparr>
      in zero_listener\<lparr>ls_NamedKey := Some key, ls_ServicePort := Some port,
           ls_ListenerPort := sp_Port port, ls_ListenerProtocol := proto,
           ls_ListenerDescription := ListenerNamedKey_Key key,
           ls_ServerGroupName := SGNamedKey_Key (getServerGroupNamedKey cfg svc proto port)\<rparr>)"

lemma buildListener_cases:
  assumes "buildListenerFromServicePort cfg svc port = Inr lis"
  obtains proto idle where "nlbListenerProtocol (Get svc ProtocolPort) port = Inr proto"
    and "lis = listener_flags svc (base_listener cfg svc port proto\<lparr>ls_IdleTimeout := idle\<rparr>)"
  | proto idle cps where "nlbListenerProtocol (Get svc ProtocolPort) port = Inr proto"
    and "lis = listener_flags svc (base_listener cfg svc port proto\<lparr>ls_IdleTimeout := idle\<rparr>)\<lparr>ls_Cps := cps\<rparr>"
  using assms that unfolding buildListenerFromServicePort_def bind_res_Inr_iff Let_def base_listener_def
  by (fastforce simp only: bind_res_Inr_iff sum.inject split: if_split_asm)

lemma base_listener_sel:
  "ls_ServicePort (base_listener cfg svc port proto) = Some port"
  "ls_ListenerPort (base_listener cfg svc port proto) = sp_Port port"
  "\<not> ls_IsUserManaged (base_listener cfg svc port proto)"
  "ls_ListenerProtocol (base_listener cfg svc port proto) = proto"
  "ls_ServerGroupName (base_listener cfg svc port proto) =
     SGNamedKey_Key (getServerGroupNamedKey cfg svc proto port)"
  "\<exists>key. ls_NamedKey (base_listener cfg svc port proto) = Some key \<and>
     IsManagedByService (Some key) svc (cfg_ClusterID cfg) \<and>
     ls_ListenerDescription (base_listener cfg svc port proto) = ListenerNamedKey_Key key"
  by (simp_all add: base_listener_def Let_def zero_listener_def IsManagedByService_def)

lemma buildListener_sel:
  assumes "buildListenerFromServicePort cfg svc port = Inr lis"
  shows "ls_ServicePort lis = Some port" "ls_ListenerPort lis = sp_Port port" "\<not> ls_IsUserManaged lis"
    and "nlbListenerProtocol (Get svc ProtocolPort) port = Inr (ls_ListenerProtocol lis)"
    and "ls_ServerGroupName lis = SGNamedKey_Key (getServerGroupNamedKey cfg svc (ls_ListenerProtocol lis) port)"
    and "\<exists>key. ls_NamedKey lis = Some key \<and> IsManagedByService (Some key) svc (cfg_ClusterID cfg) \<and>
          ls_ListenerDescription lis = ListenerNamedKey_Key key"
  by (rule buildListener_cases [OF assms]; simp add: base_listener_sel)+

lemma built_listeners:
  assumes "Listener_BuildLocalModel cfg svc mdl = Inr m" and "nlb_Listeners mdl = []"
  shows "map ls_ServicePort (nlb_Listeners m) = map Some (spec_Ports (svc_Spec svc))"
    and "lis \<in> set (nlb_Listeners m) \<Longrightarrow>
      \<exists>port \<in> set (spec_Ports (svc_Spec svc)). buildListenerFromServicePort cfg svc port = Inr lis"
proof -
  obtain ls where ls: "map_res (\<lambda>port. wrap_res ''build listener from servicePort error: ''
      (buildListenerFromServicePort cfg svc port)) (spec_Ports (svc_Spec svc)) = Inr ls"
    and m: "m = mdl\<lparr>nlb_Listeners := ls\<rparr>"
    using assms by (auto simp: Listener_BuildLocalModel_def bind_res_Inr_iff)
  have "list_all2 (\<lambda>p l. buildListenerFromServicePort cfg svc p = Inr l) (spec_Ports (svc_Spec svc)) ls"
    using ls by (simp add: map_res_Inr_iff)
  then have "list_all2 (\<lambda>p l. ls_ServicePort l = Some p) (spec_Ports (svc_Spec svc)) ls"
    by (rule list_all2_mono) (rule buildListener_sel(1))
  then show "map ls_ServicePort (nlb_Listeners m) = map Some (spec_Ports (svc_Spec svc))"
    unfolding m by (induction rule: list_all2_induct) auto
  show "\<exists>port \<in> set (spec_Ports (svc_Spec svc)). buildListenerFromServicePort cfg svc port = Inr lis"
    if "lis \<in> set (nlb_Listeners m)"
    using map_res_set [OF ls] that by (simp add: m)
qed

subsection \<open>Properties\<close>

text \<open>
  Nothing is reported twice: the listener that is sent compares equal in the next
  round, and it is sent exactly when it differs from what the cloud has.
\<close>

theorem listener_merge_settles:
  "listener_merge l (snd (listener_merge l r)) = (False, snd (listener_merge l r)) \<and>
   (fst (listener_merge l r) \<longleftrightarrow> snd (listener_merge l r) \<noteq> r)"
  using listener.settles [of l r "fst (listener_merge l r)" "snd (listener_merge l r)"]
    listener.reports [of l r "fst (listener_merge l r)" "snd (listener_merge l r)"] by simp

text \<open>
  The listeners built for a service: one per port, in order; every listener carries
  a key of this service and cluster, its description is that key, and its protocol is
  the upper-case protocol of the port or one of TCP, UDP and TCPSSL.
\<close>

theorem built_listeners_owned:
  assumes "Listener_BuildLocalModel cfg svc mdl = Inr m" and "nlb_Listeners mdl = []"
  shows "map ls_ServicePort (nlb_Listeners m) = map Some (spec_Ports (svc_Spec svc)) \<and>
    list_all (\<lambda>lis. IsManagedByService (ls_NamedKey lis) svc (cfg_ClusterID cfg) \<and>
      ls_ListenerDescription lis = ListenerNamedKey_Key (the (ls_NamedKey lis)) \<and>
      (ls_ListenerProtocol lis \<in> {TCP, UDP, TCPSSL} \<or>
       ls_ListenerProtocol lis = ToUpper (sp_Protocol (the (ls_ServicePort lis))))) (nlb_Listeners m)"
proof -
  note built = built_listeners [OF assms]
  show ?thesis
  proof (intro conjI)
    show "map ls_ServicePort (nlb_Listeners m) = map Some (spec_Ports (svc_Spec svc))" by (rule built(1))
    show "list_all (\<lambda>lis. IsManagedByService (ls_NamedKey lis) svc (cfg_ClusterID cfg) \<and>
      ls_ListenerDescription lis = ListenerNamedKey_Key (the (ls_NamedKey lis)) \<and>
      (ls_ListenerProtocol lis \<in> {TCP, UDP, TCPSSL} \<or>
       ls_ListenerProtocol lis = ToUpper (sp_Protocol (the (ls_ServicePort lis))))) (nlb_Listeners m)"
      unfolding list_all_iff
    proof
      fix lis
      assume "lis \<in> set (nlb_Listeners m)"
      then obtain port where "buildListenerFromServicePort cfg svc port = Inr lis" using built(2) by blast
      note sel = buildListener_sel [OF this]
      from nlbListenerProtocol_cases [OF sel(4)] sel(1,6)
      show "IsManagedByService (ls_NamedKey lis) svc (cfg_ClusterID cfg) \<and>
        ls_ListenerDescription lis = ListenerNamedKey_Key (the (ls_NamedKey lis)) \<and>
        (ls_ListenerProtocol lis \<in> {TCP, UDP, TCPSSL} \<or>
         ls_ListenerProtocol lis = ToUpper (sp_Protocol (the (ls_ServicePort lis))))" by auto
    qed
  qed
qed

theorem built_listeners_owned_witness:
  "\<exists>m. Listener_BuildLocalModel demo_config demo_service
       \<lparr>nlb_NamespacedName = (''ns'', ''web''), nlb_LoadBalancerAttribute = zero_lb_attr, nlb_Listeners = [], nlb_ServerGroups = []\<rparr> = Inr m \<and>
     map ls_ServicePort (nlb_Listeners m) = map Some (spec_Ports (svc_Spec demo_service))"
proof -
  have none: "Get demo_service k = []" for k by (simp add: Get_def demo_service_def)
  have "\<exists>m. Listener_BuildLocalModel demo_config demo_service
       \<lparr>nlb_NamespacedName = (''ns'', ''web''), nlb_LoadBalancerAttribute = zero_lb_attr, nlb_Listeners = [], nlb_ServerGroups = []\<rparr> = Inr m"
    by (simp add: Listener_BuildLocalModel_def buildListenerFromServicePort_def nlbListenerProtocol_def anno_int32_def
        none Let_def) (simp add: demo_service_def)
  then obtain m where m: "Listener_BuildLocalModel demo_config demo_service
       \<lparr>nlb_NamespacedName = (''ns'', ''web''), nlb_LoadBalancerAttribute = zero_lb_attr, nlb_Listeners = [], nlb_ServerGroups = []\<rparr> = Inr m" ..
  from built_listeners_owned [OF m] m show ?thesis by auto
qed

end
