(* ===== verification/Load_Balancers.thy ===== *)
theory Load_Balancers
  imports Listeners
begin

text \<open>
  The load balancer manager (\<open>service/loadbalancer.go\<close>): the attributes a service
  asks for, looking up, creating, updating and deleting the load balancer.  A method
  that changes the model it is given returns the model.
\<close>

definition parse_zone_mapping :: "string \<Rightarrow> zone_mapping res" where
  "parse_zone_mapping attr =
     (let items = Split attr '':''
      in if length items < 2 then
           Inl (Errorf ''ZoneMapping format error, expect [zone-a:vsw-id-1,zone-b:vsw-id-2]'')
         else Inr \<lparr>zm_VSwitchId = items ! 1, zm_ZoneId = items ! 0,
                   zm_IPv4Addr = (if length items > 2 then items ! 2 else []),
                   zm_AllocationId = (if length items > 3 then items ! 3 else [])\<rparr>)"

definition ParseZoneMappings :: "string \<Rightarrow> zone_mapping list res" where
  "ParseZoneMappings zoneMaps =
     bind_res (map_res parse_zone_mapping (Split zoneMaps '','')) (\<lambda>ret.
       if length ret = 0 then
         Inl (Errorf ''ZoneMapping format error, expect [zone-a:vsw-id-1,zone-b:vsw-id-2]'')
       else Inr ret)"

definition NLB_BuildLocalModel :: "(smap \<Rightarrow> smap) \<Rightarrow> service \<Rightarrow> nlb \<Rightarrow> nlb res" where
  "NLB_BuildLocalModel iter svc mdl =
     (let lb = nlb_LoadBalancerAttribute mdl;
          lb = (if Get svc LoadBalancerId \<noteq> []
                then lb\<lparr>lb_LoadBalancerId := Get svc LoadBalancerId, lb_IsUserManaged := True\<rparr> else lb)
      in bind_res (if Get svc ZoneMaps \<noteq> [] then ParseZoneMappings (Get svc ZoneMaps)
                   else if \<not> lb_IsUserManaged lb then
                     Inl (Errorf ''ParameterMissing, zone mappings are required'')
                   else Inr (lb_ZoneMappings lb)) (\<lambda>zones.
         Inr (mdl\<lparr>nlb_LoadBalancerAttribute := lb\<lparr>lb_ZoneMappings := zones,
                lb_AddressType := GetAddressType (Get svc AddressType),
                lb_ResourceGroupId := Get svc ResourceGroupId,
                lb_AddressIpVersion := GetAddressIpVersion (Get svc IPVersion),
                lb_Name := Get svc LoadBalancerName,
                lb_Tags := GetLoadBalancerAdditionalTags iter svc\<rparr>\<rparr>)))"

definition NLB_Find :: "'w cloud \<Rightarrow> service \<Rightarrow> nlb \<Rightarrow> ('w, nlb) nlb_prog" where
  "NLB_Find C svc mdl =
     (let lb = nlb_LoadBalancerAttribute mdl;
          lb = (if Get svc LoadBalancerId \<noteq> [] then lb\<lparr>lb_LoadBalancerId := Get svc LoadBalancerId\<rparr> else lb);
          lb = lb\<lparr>lb_Name := GetDefaultLoadBalancerName svc,
                  lb_Tags := [(TAGKEY, GetDefaultLoadBalancerName svc)]\<rparr>
      in FindNLB C (mdl\<lparr>nlb_LoadBalancerAttribute := lb\<rparr>))"

definition NLB_BuildRemoteModel :: "'w cloud \<Rightarrow> service \<Rightarrow> nlb \<Rightarrow> ('w, nlb) nlb_prog" where
  "NLB_BuildRemoteModel C svc mdl = NLB_Find C svc mdl"

definition setDefaultValueForLoadBalancer :: "config \<Rightarrow> 'w cloud \<Rightarrow> service \<Rightarrow> nlb \<Rightarrow> ('w, nlb) nlb_prog" where
  "setDefaultValueForLoadBalancer cfg C svc mdl =
     (let lb = nlb_LoadBalancerAttribute mdl;
          lb = (if lb_AddressType lb = [] then lb\<lparr>lb_AddressType := GetDefaultValue svc AddressType\<rparr> else lb);
          lb = (if lb_Name lb = [] then lb\<lparr>lb_Name := GetDefaultLoadBalancerName svc\<rparr> else lb)
      in bindP (if lb_VpcId lb = [] then wrapP ''get vpc id error: '' (VpcID C)
                else returnP (lb_VpcId lb)) (\<lambda>vpc.
         returnP (mdl\<lparr>nlb_LoadBalancerAttribute :=
           lb\<lparr>lb_VpcId := vpc, lb_Tags := GetDefaultTags cfg svc @ lb_Tags lb\<rparr>\<rparr>)))"

definition NLB_Create :: "config \<Rightarrow> 'w cloud \<Rightarrow> service \<Rightarrow> nlb \<Rightarrow> ('w, nlb) nlb_prog" where
  "NLB_Create cfg C svc mdl =
     bindP (wrapP ''set model default value error: '' (setDefaultValueForLoadBalancer cfg C svc mdl)) (\<lambda>mdl.
     bindP (CreateNLB C mdl) (\<lambda>mdl.
     bindP (TagNLBResource C (lb_LoadBalancerId (nlb_LoadBalancerAttribute mdl)) LoadBalancerTagType
              (lb_Tags (nlb_LoadBalancerAttribute mdl))) (\<lambda>_.
     returnP mdl)))"

definition NLB_Delete :: "'w cloud \<Rightarrow> nlb \<Rightarrow> ('w, unit) nlb_prog" where
  "NLB_Delete C mdl =
     (if lb_LoadBalancerId (nlb_LoadBalancerAttribute mdl) = [] then returnP () else DeleteNLB C mdl)"

text \<open>Some requested zone is missing; a zone the cloud has in excess is not a reason to update.\<close>

definition zones_changed :: "zone_mapping list \<Rightarrow> zone_mapping list \<Rightarrow> bool" where
  "zones_changed local remote =
     list_ex (\<lambda>l. \<not> list_ex (\<lambda>r. zm_ZoneId l = zm_ZoneId r \<and> zm_VSwitchId l = zm_VSwitchId r) remote) local"

definition NLB_Update :: "'w cloud \<Rightarrow> nlb \<Rightarrow> nlb \<Rightarrow> ('w, nlb) nlb_prog" where
  "NLB_Update C local remote =
     (let r = nlb_LoadBalancerAttribute remote;
          l = (nlb_LoadBalancerAttribute local)\<lparr>lb_LoadBalancerId := lb_LoadBalancerId r\<rparr>;
          local = local\<lparr>nlb_LoadBalancerAttribute := l\<rparr>
      in if lb_AddressIpVersion l \<noteq> [] \<and> \<not> EqualFold (lb_AddressIpVersion l) (lb_AddressIpVersion r) then
           throwP (Errorf ''AddressIpVersion cannot be changed'')
         else if lb_ResourceGroupId l \<noteq> [] \<and> \<not> EqualFold (lb_ResourceGroupId l) (lb_ResourceGroupId r) then
           throwP (Errorf ''ResourceGroupId cannot be changed'')
         else
           bindP (if lb_AddressType l \<noteq> [] \<and> \<not> EqualFold (lb_AddressType l) (lb_AddressType r)
                  then wrapP ''UpdateNLBAddressType error: '' (UpdateNLBAddressType C local)
                  else returnP ()) (\<lambda>_.
           bindP (if zones_changed (lb_ZoneMappings l) (lb_ZoneMappings r)
                  then wrapP ''update zone mappings error: '' (UpdateNLBZones C local)
                  else returnP ()) (\<lambda>_.
           bindP (if lb_Name l \<noteq> [] \<and> lb_Name l \<noteq> lb_Name r then UpdateNLB C local
                  else returnP ()) (\<lambda>_.
           returnP local))))"

subsection \<open>Lemmas\<close>

lemma ParseZoneMappings_length:
  assumes "ParseZoneMappings s = Inr zs"
  shows "zs \<noteq> []" and "length zs = length (Split s '','')"
  using assms map_res_Inr_length by (auto simp: ParseZoneMappings_def bind_res_Inr_iff split: if_splits)

text \<open>Printing a list of zone mappings in the format of the annotation.\<close>

definition print_zone_mapping :: "zone_mapping \<Rightarrow> string" where
  "print_zone_mapping z = Join [zm_ZoneId z, zm_VSwitchId z, zm_IPv4Addr z, zm_AllocationId z] '':''"

definition plain_zone_mapping :: "zone_mapping \<Rightarrow> bool" where
  "plain_zone_mapping z =
     list_all (\<lambda>p. CHR '','' \<notin> set p \<and> CHR '':'' \<notin> set p)
       [zm_ZoneId z, zm_VSwitchId z, zm_IPv4Addr z, zm_AllocationId z]"

lemma parse_print_zone_mapping:
  assumes "plain_zone_mapping z"
  shows "parse_zone_mapping (print_zone_mapping z) = Inr z"
proof -
  have "Split (print_zone_mapping z) '':'' = [zm_ZoneId z, zm_VSwitchId z, zm_IPv4Addr z, zm_AllocationId z]"
    using assms unfolding print_zone_mapping_def plain_zone_mapping_def by (intro Split_Join1) auto
  then show ?thesis by (simp add: parse_zone_mapping_def numeral_nat)
qed

lemma print_zone_mapping_comma: "plain_zone_mapping z \<Longrightarrow> CHR '','' \<notin> set (print_zone_mapping z)"
  by (auto simp: print_zone_mapping_def plain_zone_mapping_def)

lemma ParseZoneMappings_print:
  assumes "zs \<noteq> []" and "\<forall>z \<in> set zs. plain_zone_mapping z"
  shows "ParseZoneMappings (Join (map print_zone_mapping zs) '','') = Inr zs"
proof -
  have "Split (Join (map print_zone_mapping zs) '','') '','' = map print_zone_mapping zs"
    using assms print_zone_mapping_comma by (intro Split_Join1) auto
  moreover have "map_res parse_zone_mapping (map print_zone_mapping zs) = Inr zs"
    using assms(2) by (induction zs) (auto simp: parse_print_zone_mapping)
  ultimately show ?thesis using assms(1) by (simp add: ParseZoneMappings_def)
qed

text \<open>Which requests the manager may send.\<close>

fun is_lb_update :: "nlb_call \<Rightarrow> bool" where
  "is_lb_update (CUpdateNLB _) = True"
| "is_lb_update (CUpdateNLBAddressType _) = True"
| "is_lb_update (CUpdateNLBZones _) = True"
| "is_lb_update _ = False"

lemma NLB_Update_calls [emits_intros]: "only_calls is_lb_update (NLB_Update C local remote)"
  unfolding NLB_Update_def Let_def nlb_calls by (auto intro!: emits_intros)

lemma NLB_Find_reads [emits_intros]: "reads_only (NLB_Find C svc mdl)"
  unfolding NLB_Find_def Let_def by (auto intro!: emits_intros)

subsection \<open>Properties\<close>

text \<open>
  Zone mappings written in the format of the annotation are parsed back: zone, vSwitch,
  address and allocation id of every entry.
\<close>

theorem zone_mappings_round_trip:
  assumes "zs \<noteq> []" and "list_all plain_zone_mapping zs"
  shows "ParseZoneMappings (Join (map print_zone_mapping zs) '','') = Inr zs"
  using ParseZoneMappings_print assms by (simp add: list_all_iff)

theorem zone_mappings_round_trip_witness:
  "ParseZoneMappings (Join (map print_zone_mapping
     [\<lparr>zm_VSwitchId = ''vsw-1'', zm_ZoneId = ''a'', zm_IPv4Addr = ''10.0.0.1'', zm_AllocationId = []\<rparr>,
      \<lparr>zm_VSwitchId = ''vsw-2'', zm_ZoneId = ''b'', zm_IPv4Addr = [], zm_AllocationId = ''eip-2''\<rparr>]) '','') =
   Inr [\<lparr>zm_VSwitchId = ''vsw-1'', zm_ZoneId = ''a'', zm_IPv4Addr = ''10.0.0.1'', zm_AllocationId = []\<rparr>,
      \<lparr>zm_VSwitchId = ''vsw-2'', zm_ZoneId = ''b'', zm_IPv4Addr = [], zm_AllocationId = ''eip-2''\<rparr>]"
  by (rule zone_mappings_round_trip) (simp_all add: plain_zone_mapping_def)

text \<open>
  The address version and the resource group of an existing load balancer cannot be
  changed: asking for another one is an error, and nothing is sent to the cloud.
\<close>

theorem immutable_attributes_refused:
  assumes "lb_AddressIpVersion (nlb_LoadBalancerAttribute local) \<noteq> [] \<and>
      \<not> EqualFold (lb_AddressIpVersion (nlb_LoadBalancerAttribute local)) (lb_AddressIpVersion (nlb_LoadBalancerAttribute remote)) \<or>
    lb_ResourceGroupId (nlb_LoadBalancerAttribute local) \<noteq> [] \<and>
      \<not> EqualFold (lb_ResourceGroupId (nlb_LoadBalancerAttribute local)) (lb_ResourceGroupId (nlb_LoadBalancerAttribute remote))"
  shows "\<exists>e. NLB_Update C local remote s = (Inl (Errorf e), s)"
  using assms by (auto simp: NLB_Update_def Let_def prog_simps)

theorem immutable_attributes_refused_witness:
  "\<forall>C (s :: unit nlb_state).
     \<exists>e. NLB_Update C
       \<lparr>nlb_NamespacedName = (''ns'', ''web''), nlb_LoadBalancerAttribute = zero_lb_attr\<lparr>lb_AddressIpVersion := ''DualStack''\<rparr>,
        nlb_Listeners = [], nlb_ServerGroups = []\<rparr>
       \<lparr>nlb_NamespacedName = (''ns'', ''web''), nlb_LoadBalancerAttribute = zero_lb_attr\<lparr>lb_AddressIpVersion := ''ipv4''\<rparr>,
        nlb_Listeners = [], nlb_ServerGroups = []\<rparr> s = (Inl (Errorf e), s)"
  by (intro allI, rule immutable_attributes_refused) (simp add: EqualFold_def lower_char_def)

end
