(* ===== verification/Model_Applier.thy ===== *)
theory Model_Applier
  imports Load_Balancers
begin

text \<open>
  Building the model of a service and applying it to the cloud
  (\<open>service/model_builder.go\<close>, \<open>service/model_applier.go\<close>).  The Go code mutates the
  local and the remote model while it runs; here each step returns what it changed.
\<close>

subsection \<open>Building (\<open>model_builder.go\<close>)\<close>

definition NamespacedName :: "service \<Rightarrow> string \<times> string" where
  "NamespacedName svc = (svc_Namespace svc, svc_Name svc)"

definition empty_nlb :: "service \<Rightarrow> nlb" where
  "empty_nlb svc = \<lparr>nlb_NamespacedName = NamespacedName svc, nlb_LoadBalancerAttribute = zero_lb_attr,
     nlb_Listeners = [], nlb_ServerGroups = []\<rparr>"

definition localModel_Build ::
  "config \<Rightarrow> 'w cloud \<Rightarrow> (smap \<Rightarrow> smap) \<Rightarrow> string \<Rightarrow> service \<Rightarrow> ('w, nlb) nlb_prog" where
  "localModel_Build cfg C iter vpcId svc =
     (let lbMdl = empty_nlb svc
      in if NeedDeleteLoadBalancer svc then
           returnP (if Get svc LoadBalancerId \<noteq> []
                    then lbMdl\<lparr>nlb_LoadBalancerAttribute := zero_lb_attr\<lparr>lb_IsUserManaged := True\<rparr>\<rparr>
                    else lbMdl)
         else
           bindP (wrapP ''build nlb attribute error: '' (liftP (NLB_BuildLocalModel iter svc lbMdl))) (\<lambda>m.
           bindP (wrapP ''build nlb server group error: '' (liftP (Listener_BuildLocalModel cfg svc m))) (\<lambda>m.
           wrapP ''builid nlb listener error: '' (SG_BuildLocalModel cfg C vpcId svc m))))"

definition remoteModel_Build :: "config \<Rightarrow> 'w cloud \<Rightarrow> service \<Rightarrow> ('w, nlb) nlb_prog" where
  "remoteModel_Build cfg C svc =
     bindP (wrapP ''can not get nlb attribute from cloud, error: ''
             (NLB_BuildRemoteModel C svc (empty_nlb svc))) (\<lambda>m.
       if lb_LoadBalancerId (nlb_LoadBalancerAttribute m) = [] then returnP m
       else
         bindP (wrapP ''build server group from remote error: '' (SG_BuildRemoteModel cfg C svc m)) (\<lambda>m.
         wrapP ''can not build nlb listener attribute from cloud, error: '' (Listener_BuildRemoteModel C m)))"

datatype model_type = LocalModel | RemoteModel | OtherModel string

definition BuildModel ::
  "config \<Rightarrow> 'w cloud \<Rightarrow> (smap \<Rightarrow> smap) \<Rightarrow> string \<Rightarrow> service \<Rightarrow> model_type \<Rightarrow> ('w, nlb) nlb_prog" where
  "BuildModel cfg C iter vpcId svc t =
     (case t of LocalModel \<Rightarrow> localModel_Build cfg C iter vpcId svc
      | RemoteModel \<Rightarrow> remoteModel_Build cfg C svc
      | OtherModel _ \<Rightarrow> localModel_Build cfg C iter vpcId svc)"

subsection \<open>Load balancer attributes\<close>

definition isNLBReusable :: "service \<Rightarrow> tag list \<Rightarrow> string \<Rightarrow> bool \<times> string" where
  "isNLBReusable svc tags dnsName =
     (if list_ex (\<lambda>(k, _). k = TAGKEY \<or> k = ClusterTagKey) tags then
        (False, ''can not reuse loadbalancer created by kubernetes.'')
      else if length (svc_Ingress svc) > 0 \<and> \<not> list_ex (\<lambda>i. ing_Hostname i = dnsName) (svc_Ingress svc) then
        (False, ''service has been associated with dnsname, cannot be bound to dnsname'')
      else (True, []))"

definition name_string :: "string \<times> string \<Rightarrow> string" where
  "name_string n = fst n @ ''/'' @ snd n"

definition applyLoadBalancerAttribute ::
  "config \<Rightarrow> 'w cloud \<Rightarrow> service \<Rightarrow> nlb \<Rightarrow> nlb \<Rightarrow> ('w, nlb \<times> nlb) nlb_prog" where
  "applyLoadBalancerAttribute cfg C svc local remote =
     (let r = nlb_LoadBalancerAttribute remote; l = nlb_LoadBalancerAttribute local
      in if name_string (nlb_NamespacedName local) \<noteq> name_string (nlb_NamespacedName remote) then
           throwP (Errorf ''models for different svc'')
         else if NeedDeleteLoadBalancer svc then
           (if \<not> lb_IsUserManaged l then
              bindP (wrapP ''delete nlb error: '' (NLB_Delete C remote)) (\<lambda>_.
              returnP (local, remote\<lparr>nlb_LoadBalancerAttribute := r\<lparr>lb_LoadBalancerId := [], lb_DNSName := []\<rparr>\<rparr>))
            else returnP (local, remote))
         else if lb_LoadBalancerId r = [] then
           (if IsServiceOwnIngress svc then
              throwP (Errorf ''alicloud: can not find loadbalancer, but it's defined in service'')
            else
              bindP (wrapP ''create nlb error: '' (NLB_Create cfg C svc local)) (\<lambda>local.
              bindP (wrapP ''update remote model error: '' (NLB_Find C svc
                      (remote\<lparr>nlb_LoadBalancerAttribute := r\<lparr>lb_LoadBalancerId :=
                         lb_LoadBalancerId (nlb_LoadBalancerAttribute local)\<rparr>\<rparr>))) (\<lambda>remote.
              returnP (local, remote))))
         else
           bindP (wrapP ''ListNLBTagResources: '' (ListNLBTagResources C (lb_LoadBalancerId r))) (\<lambda>tags.
           let remote = remote\<lparr>nlb_LoadBalancerAttribute := r\<lparr>lb_Tags := tags\<rparr>\<rparr>
           in if \<not> NeedDeleteLoadBalancer svc \<and> lb_IsUserManaged l \<and>
                 \<not> fst (isNLBReusable svc tags (lb_DNSName r)) then
                throwP (Errorf (''the loadbalancer can not be reused, '' @ snd (isNLBReusable svc tags (lb_DNSName r))))
              else bindP (NLB_Update C local remote) (\<lambda>local. returnP (local, remote))))"

subsection \<open>Server groups\<close>

text \<open>
  The inner loop of \<open>applyVGroups\<close>: a local group with an id is looked up by the id,
  one without by its name.
\<close>

definition vgroup_match :: "server_group \<Rightarrow> server_group \<Rightarrow> bool" where
  "vgroup_match l rv \<longleftrightarrow>
     sg_ServerGroupId l \<noteq> [] \<and> sg_ServerGroupId l = sg_ServerGroupId rv \<or>
     sg_ServerGroupId l = [] \<and> sg_ServerGroupName l = sg_ServerGroupName rv"

definition apply_vgroup ::
  "'w cloud \<Rightarrow> server_group \<Rightarrow> server_group list \<times> server_group list \<Rightarrow>
   ('w, server_group list \<times> server_group list) nlb_prog" where
  "apply_vgroup C l acc =
     (case acc of (done, remotes) \<Rightarrow>
        (case find (vgroup_match l) remotes of
           Some old \<Rightarrow>
             (let l = (if sg_ServerGroupId l = [] then l\<lparr>sg_ServerGroupId := sg_ServerGroupId old\<rparr> else l)
              in bindP (wrapP ''EnsureServerGroupUpdated error: '' (UpdateServerGroup C l old)) (\<lambda>_.
                 returnP (done @ [l], remotes)))
         | None \<Rightarrow>
             bindP (wrapP ''EnsureServerGroupCreated error: '' (CreateServerGroup C l)) (\<lambda>l.
             bindP (BatchAddServers C l (sg_Servers l)) (\<lambda>_.
             returnP (done @ [l], remotes @ [l])))))"

definition applyVGroups :: "'w cloud \<Rightarrow> nlb \<Rightarrow> nlb \<Rightarrow> ('w, nlb \<times> nlb) nlb_prog" where
  "applyVGroups C local remote =
     bindP (foldP (apply_vgroup C) (nlb_ServerGroups local) ([], nlb_ServerGroups remote)) (\<lambda>(ls, rs).
     returnP (local\<lparr>nlb_ServerGroups := ls\<rparr>, remote\<lparr>nlb_ServerGroups := rs\<rparr>))"

definition managed_group :: "config \<Rightarrow> service \<Rightarrow> server_group \<Rightarrow> bool" where
  "managed_group cfg svc g \<longleftrightarrow> IsManagedByService (sg_NamedKey g) svc (cfg_ClusterID cfg)"

definition cleanup :: "config \<Rightarrow> 'w cloud \<Rightarrow> service \<Rightarrow> nlb \<Rightarrow> nlb \<Rightarrow> ('w, unit) nlb_prog" where
  "cleanup cfg C svc local remote =
     forP (\<lambda>r.
        if \<not> managed_group cfg svc r then returnP ()
        else if list_ex (\<lambda>l. sg_ServerGroupId l = sg_ServerGroupId r) (nlb_ServerGroups local) then returnP ()
        else wrapP ''delete server group failed, error: '' (DeleteServerGroup C (sg_ServerGroupId r)))
       (nlb_ServerGroups remote)"

subsection \<open>Listeners\<close>

definition findServerGroup :: "server_group list \<Rightarrow> listener_attr \<Rightarrow> listener_attr res" where
  "findServerGroup sgs lis =
     (case find (\<lambda>sg. sg_ServerGroupName sg = ls_ServerGroupName lis) sgs of
        Some sg \<Rightarrow> Inr (lis\<lparr>ls_ServerGroupId := sg_ServerGroupId sg\<rparr>)
      | None \<Rightarrow> Inl (Errorf ''can not find server group by name''))"

definition associate_listener :: "server_group list \<Rightarrow> listener_attr \<Rightarrow> listener_attr res" where
  "associate_listener sgs lis =
     (if ls_ServerGroupId lis \<noteq> [] then Inr lis
      else wrap_res ''find servergroup error: '' (findServerGroup sgs lis))"

definition same_listener :: "listener_attr \<Rightarrow> listener_attr \<Rightarrow> bool" where
  "same_listener r l \<longleftrightarrow> ls_ListenerPort r = ls_ListenerPort l \<and> ls_ListenerProtocol r = ls_ListenerProtocol l"

definition managed_listener :: "config \<Rightarrow> service \<Rightarrow> listener_attr \<Rightarrow> bool" where
  "managed_listener cfg svc r \<longleftrightarrow> IsManagedByService (ls_NamedKey r) svc (cfg_ClusterID cfg)"

text \<open>One remote listener: its id goes to the local listeners it matches, else it is deleted.\<close>

definition delete_step ::
  "config \<Rightarrow> 'w cloud \<Rightarrow> service \<Rightarrow> bool \<Rightarrow> listener_attr \<Rightarrow> listener_attr list \<Rightarrow> ('w, listener_attr list) nlb_prog" where
  "delete_step cfg C svc userManaged r locals =
     (if list_ex (same_listener r) locals then
        returnP (map (\<lambda>l. if same_listener r l then l\<lparr>ls_ListenerId := ls_ListenerId r\<rparr> else l) locals)
      else if userManaged \<and> \<not> managed_listener cfg svc r then returnP locals
      else bindP (wrapP ''EnsureListenerDeleted error: '' (DeleteListener C (ls_ListenerId r))) (\<lambda>_.
           returnP locals))"

definition ensure_listener :: "'w cloud \<Rightarrow> string \<Rightarrow> listener_attr list \<Rightarrow> listener_attr \<Rightarrow> ('w, unit) nlb_prog" where
  "ensure_listener C lbId remotes l =
     bindP (forP (\<lambda>r. if ls_ListenerId l = ls_ListenerId r
                      then wrapP ''EnsureListenerUpdated error: '' (UpdateNLBListener C l r)
                      else returnP ()) remotes) (\<lambda>_.
     if \<not> list_ex (\<lambda>r. ls_ListenerId l = ls_ListenerId r) remotes
     then wrapP ''EnsureListenerCreated error: '' (CreateListener C lbId l)
     else returnP ())"

definition applyListeners :: "config \<Rightarrow> 'w cloud \<Rightarrow> service \<Rightarrow> nlb \<Rightarrow> nlb \<Rightarrow> ('w, unit) nlb_prog" where
  "applyListeners cfg C svc local remote =
     (let userManaged = lb_IsUserManaged (nlb_LoadBalancerAttribute local);
          remotes = nlb_Listeners remote
      in if userManaged \<and> \<not> IsForceOverride svc then returnP ()
         else
           bindP (liftP (map_res (associate_listener (nlb_ServerGroups local)) (nlb_Listeners local))) (\<lambda>locals.
           bindP (foldP (delete_step cfg C svc userManaged) remotes locals) (\<lambda>locals.
           forP (ensure_listener C (lb_LoadBalancerId (nlb_LoadBalancerAttribute remote)) remotes) locals)))"

subsection \<open>Apply\<close>

definition Apply :: "config \<Rightarrow> 'w cloud \<Rightarrow> hash_fun \<Rightarrow> service \<Rightarrow> nlb \<Rightarrow> ('w, nlb) nlb_prog" where
  "Apply cfg C HashObject svc local =
     bindP (wrapP ''get nlb attribute from cloud error: ''
             (NLB_BuildRemoteModel C svc (empty_nlb svc))) (\<lambda>remote.
     let changed = IsServiceHashChanged HashObject svc \<or> cfg_DryRun cfg
     in bindP (if changed
               then wrapP ''reconcile nlb attribute error: '' (applyLoadBalancerAttribute cfg C svc local remote)
               else returnP (local, remote)) (\<lambda>(local, remote).
        bindP (wrapP ''get server group from remote error: '' (SG_BuildRemoteModel cfg C svc remote)) (\<lambda>remote.
        bindP (wrapP ''reconcile backends error: '' (applyVGroups C local remote)) (\<lambda>(local, remote).
        bindP (if changed then
                 (if lb_LoadBalancerId (nlb_LoadBalancerAttribute remote) \<noteq> [] then
                    bindP (wrapP ''get lb listeners from cloud, error: '' (Listener_BuildRemoteModel C remote)) (\<lambda>remote.
                    bindP (wrapP ''reconcile listeners error: '' (applyListeners cfg C svc local remote)) (\<lambda>_.
                    returnP remote))
                  else if \<not> NeedDeleteLoadBalancer svc then
                    throwP (Errorf ''alicloud: can not find loadbalancer by tag'')
                  else returnP remote)
               else returnP remote) (\<lambda>remote.
        bindP (wrapP ''update lb listeners error: '' (cleanup cfg C svc local remote)) (\<lambda>_.
        returnP remote))))))"

subsection \<open>Requests on listeners\<close>

definition listener_update_calls :: "listener_attr \<Rightarrow> listener_attr \<Rightarrow> nlb_call list" where
  "listener_update_calls l r =
     (if ls_ListenerStatus r = ''Stopped'' then [CStartNLBListener (ls_ListenerId r)] else []) @
     (if fst (listener_merge l r) then [CUpdateNLBListener (snd (listener_merge l r))] else [])"

lemma follows_UpdateNLBListener:
  "follows (UpdateNLBListener C l r) (listener_update_calls l r)"
proof -
  have "follows (if fst (listener_merge l r) then PutNLBListener C (snd (listener_merge l r)) else returnP ())
      (if fst (listener_merge l r) then [CUpdateNLBListener (snd (listener_merge l r))] else [])"
    unfolding nlb_calls by (intro follows_if follows_invoke follows_return)
  then show ?thesis
    unfolding UpdateNLBListener_def listener_update_calls_def nlb_calls case_prod_beta
    by (intro follows_bind follows_if follows_wrap follows_invoke follows_return)
qed

text \<open>The ids the first loop hands out: the last matching remote listener wins.\<close>

definition assign_id :: "listener_attr list \<Rightarrow> listener_attr \<Rightarrow> listener_attr" where
  "assign_id rs = fold (\<lambda>r l. if same_listener r l then l\<lparr>ls_ListenerId := ls_ListenerId r\<rparr> else l) rs"

definition listener_delete_calls ::
  "config \<Rightarrow> service \<Rightarrow> bool \<Rightarrow> listener_attr list \<Rightarrow> listener_attr \<Rightarrow> nlb_call list" where
  "listener_delete_calls cfg svc userManaged locals r =
     (if list_ex (same_listener r) locals \<or> userManaged \<and> \<not> managed_listener cfg svc r then []
      else [CDeleteNLBListener (ls_ListenerId r)])"

definition listener_ensure_calls :: "string \<Rightarrow> listener_attr list \<Rightarrow> listener_attr \<Rightarrow> nlb_call list" where
  "listener_ensure_calls lbId rs l =
     concat (map (\<lambda>r. if ls_ListenerId l = ls_ListenerId r then listener_update_calls l r else []) rs) @
     (if \<not> list_ex (\<lambda>r. ls_ListenerId l = ls_ListenerId r) rs then [CCreateNLBListener lbId l] else [])"

lemma same_listener_id [simp]:
  "same_listener r (l\<lparr>ls_ListenerId := i\<rparr>) = same_listener r l"
  "same_listener (r\<lparr>ls_ListenerId := i\<rparr>) l = same_listener r l"
  by (simp_all add: same_listener_def)

lemma same_listener_assign [simp]: "same_listener r (assign_id rs l) = same_listener r l"
  unfolding assign_id_def by (induction rs arbitrary: l) auto

lemma delete_step_result:
  assumes "delete_step cfg C svc um r ls s = (Inr ls', t)"
  shows "ls' = map (assign_id [r]) ls"
proof (cases "list_ex (same_listener r) ls")
  case True
  with assms show ?thesis by (simp add: delete_step_def prog_simps assign_id_def)
next
  case False
  then have "map (assign_id [r]) ls = ls" by (auto simp: list_ex_iff assign_id_def intro!: map_idI)
  with assms False show ?thesis
    by (simp add: delete_step_def prog_simps split: if_splits prod.splits sum.splits)
qed

lemma delete_loop_result:
  "foldP (delete_step cfg C svc um) rs ls s = (Inr ls', t) \<Longrightarrow> ls' = map (assign_id rs) ls"
proof (induction rs arbitrary: ls s)
  case Nil
  then show ?case by (simp add: prog_simps assign_id_def)
next
  case (Cons r rs)
  then obtain ls1 s1 where "delete_step cfg C svc um r ls s = (Inr ls1, s1)"
    and "foldP (delete_step cfg C svc um) rs ls1 s1 = (Inr ls', t)"
    by (auto simp: prog_simps split: prod.splits sum.splits)
  with Cons.IH delete_step_result have "ls' = map (assign_id rs) (map (assign_id [r]) ls)" by blast
  then show ?case by (simp add: assign_id_def)
qed

lemma follows_delete_loop:
  "follows (foldP (delete_step cfg C svc um) rs ls) (concat (map (listener_delete_calls cfg svc um ls) rs))"
proof (rule follows_fold [where I = "\<lambda>ls'. \<forall>r. list_ex (same_listener r) ls' = list_ex (same_listener r) ls"])
  fix r ls'
  assume I: "\<forall>r. list_ex (same_listener r) ls' = list_ex (same_listener r) ls"
  have "follows (delete_step cfg C svc um r ls') (listener_delete_calls cfg svc um ls' r)"
    unfolding delete_step_def listener_delete_calls_def DeleteListener_def nlb_calls
    by (auto intro!: follows_return follows_bind [where ds = "[]", simplified] follows_wrap follows_invoke)
  then show "follows (delete_step cfg C svc um r ls') (listener_delete_calls cfg svc um ls r)"
    using I by (simp add: listener_delete_calls_def)
next
  fix r ls' s ls'' t
  assume "\<forall>r. list_ex (same_listener r) ls' = list_ex (same_listener r) ls"
    and "delete_step cfg C svc um r ls' s = (Inr ls'', t)"
  then show "\<forall>r. list_ex (same_listener r) ls'' = list_ex (same_listener r) ls"
    using delete_step_result by (fastforce simp: list_ex_iff)
qed simp

lemma follows_ensure_listener:
  "follows (ensure_listener C lbId rs l) (listener_ensure_calls lbId rs l)"
proof -
  have "follows (forP (\<lambda>r. if ls_ListenerId l = ls_ListenerId r
        then wrapP ''EnsureListenerUpdated error: '' (UpdateNLBListener C l r) else returnP ()) rs)
      (concat (map (\<lambda>r. if ls_ListenerId l = ls_ListenerId r then listener_update_calls l r else []) rs))"
    by (intro follows_for follows_if follows_wrap follows_UpdateNLBListener follows_return)
  then show ?thesis
    unfolding ensure_listener_def listener_ensure_calls_def CreateListener_def nlb_calls
    by (intro follows_bind follows_if follows_wrap follows_invoke follows_return)
qed

lemma follows_applyListeners:
  assumes "lb_IsUserManaged (nlb_LoadBalancerAttribute local) \<longrightarrow> IsForceOverride svc"
    and ls: "map_res (associate_listener (nlb_ServerGroups local)) (nlb_Listeners local) = Inr ls"
  shows "follows (applyListeners cfg C svc local remote)
    (concat (map (listener_delete_calls cfg svc (lb_IsUserManaged (nlb_LoadBalancerAttribute local)) ls)
        (nlb_Listeners remote)) @
     concat (map (listener_ensure_calls (lb_LoadBalancerId (nlb_LoadBalancerAttribute remote)) (nlb_Listeners remote))
        (map (assign_id (nlb_Listeners remote)) ls)))"
proof -
  have "follows (bindP (foldP (delete_step cfg C svc (lb_IsUserManaged (nlb_LoadBalancerAttribute local)))
        (nlb_Listeners remote) ls)
      (\<lambda>ls. forP (ensure_listener C (lb_LoadBalancerId (nlb_LoadBalancerAttribute remote)) (nlb_Listeners remote)) ls))
    (concat (map (listener_delete_calls cfg svc (lb_IsUserManaged (nlb_LoadBalancerAttribute local)) ls)
        (nlb_Listeners remote)) @
     concat (map (listener_ensure_calls (lb_LoadBalancerId (nlb_LoadBalancerAttribute remote)) (nlb_Listeners remote))
        (map (assign_id (nlb_Listeners remote)) ls)))"
    by (rule follows_bind [OF follows_delete_loop], drule delete_loop_result)
      (simp only:, intro follows_for follows_ensure_listener)
  with assms(1) show ?thesis unfolding applyListeners_def Let_def ls bindP_liftP_Inr by auto
qed

text \<open>
  On listeners as the cloud has them (port and protocol unique, ids unique and not
  empty) the plan is: delete what the service no longer has, then update each listener
  that exists and create each that does not.
\<close>

definition cloud_listeners :: "listener_attr list \<Rightarrow> bool" where
  "cloud_listeners rs \<longleftrightarrow> distinct (map (\<lambda>r. (ls_ListenerPort r, ls_ListenerProtocol r)) rs) \<and>
     distinct (map ls_ListenerId rs) \<and> [] \<notin> ls_ListenerId ` set rs"

definition listener_plan ::
  "config \<Rightarrow> service \<Rightarrow> bool \<Rightarrow> string \<Rightarrow> listener_attr list \<Rightarrow> listener_attr list \<Rightarrow> nlb_call list" where
  "listener_plan cfg svc userManaged lbId ls rs =
     map (\<lambda>r. CDeleteNLBListener (ls_ListenerId r))
       (filter (\<lambda>r. \<not> list_ex (same_listener r) ls \<and> (userManaged \<longrightarrow> managed_listener cfg svc r)) rs) @
     concat (map (\<lambda>l. case find (\<lambda>r. same_listener r l) rs of
         Some r \<Rightarrow> listener_update_calls (l\<lparr>ls_ListenerId := ls_ListenerId r\<rparr>) r
       | None \<Rightarrow> [CCreateNLBListener lbId l]) ls)"

lemma assign_id_none: "\<forall>r \<in> set rs. \<not> same_listener r l \<Longrightarrow> assign_id rs l = l"
  by (induction rs) (auto simp: assign_id_def)

lemma assign_id_some:
  assumes "r \<in> set rs" "same_listener r l" "cloud_listeners rs"
  shows "assign_id rs l = l\<lparr>ls_ListenerId := ls_ListenerId r\<rparr>"
  using assms
proof (induction rs arbitrary: l)
  case Nil
  then show ?case by simp
next
  case (Cons q rs)
  have step: "assign_id (q # rs) l = assign_id rs (if same_listener q l then l\<lparr>ls_ListenerId := ls_ListenerId q\<rparr> else l)"
    by (simp add: assign_id_def)
  have cl: "cloud_listeners rs" using Cons.prems(3) by (simp add: cloud_listeners_def)
  show ?case
  proof (cases "q = r")
    case True
    with Cons.prems have "\<forall>r' \<in> set rs. \<not> same_listener r' l"
      by (auto simp: cloud_listeners_def same_listener_def image_iff)
    with True Cons.prems(2) show ?thesis unfolding step by (simp add: assign_id_none)
  next
    case False
    with Cons.prems have "r \<in> set rs" and "\<not> same_listener q l"
      by (auto simp: cloud_listeners_def same_listener_def image_iff)
    with Cons.IH Cons.prems(2) cl show ?thesis by (simp add: step)
  qed
qed

lemma concat_id_calls:
  assumes "distinct (map ls_ListenerId rs)" "r \<in> set rs"
  shows "concat (map (\<lambda>q. if ls_ListenerId r = ls_ListenerId q then g q else []) rs) = g r"
  using assms
proof (induction rs)
  case Nil
  then show ?case by simp
next
  case (Cons q rs)
  then show ?case
  proof (cases "q = r")
    case True
    with Cons.prems have "\<forall>p \<in> set rs. ls_ListenerId r \<noteq> ls_ListenerId p" by force
    with True show ?thesis by simp
  next
    case False
    with Cons.prems have "r \<in> set rs" "ls_ListenerId r \<noteq> ls_ListenerId q" by (auto simp: image_iff)
    with Cons show ?thesis by simp
  qed
qed

lemma ensure_calls_cloud:
  assumes rs: "cloud_listeners rs" and l: "ls_ListenerId l = []"
  shows "listener_ensure_calls lbId rs (assign_id rs l) =
    (case find (\<lambda>r. same_listener r l) rs of
       Some r \<Rightarrow> listener_update_calls (l\<lparr>ls_ListenerId := ls_ListenerId r\<rparr>) r
     | None \<Rightarrow> [CCreateNLBListener lbId l])"
proof (cases "find (\<lambda>r. same_listener r l) rs")
  case None
  then have "assign_id rs l = l" by (intro assign_id_none) (auto simp: find_None_iff)
  moreover have "\<forall>r \<in> set rs. ls_ListenerId l \<noteq> ls_ListenerId r" using rs l by (force simp: cloud_listeners_def)
  ultimately show ?thesis using None by (auto simp: listener_ensure_calls_def list_ex_iff)
next
  case (Some r)
  then have r: "r \<in> set rs" "same_listener r l" by (auto simp: find_Some_iff)
  with rs have a: "assign_id rs l = l\<lparr>ls_ListenerId := ls_ListenerId r\<rparr>" by (simp add: assign_id_some)
  have "distinct (map ls_ListenerId rs)" using rs by (simp add: cloud_listeners_def)
  from concat_id_calls [OF this r(1)] r(1) Some a show ?thesis
    by (auto simp: listener_ensure_calls_def list_ex_iff)
qed

lemma delete_calls_filter:
  "concat (map (listener_delete_calls cfg svc um ls) rs) =
     map (\<lambda>r. CDeleteNLBListener (ls_ListenerId r))
       (filter (\<lambda>r. \<not> list_ex (same_listener r) ls \<and> (um \<longrightarrow> managed_listener cfg svc r)) rs)"
  by (induction rs) (auto simp: listener_delete_calls_def)

lemma applyListeners_follows_plan:
  assumes "lb_IsUserManaged (nlb_LoadBalancerAttribute local) \<longrightarrow> IsForceOverride svc"
    and ls: "map_res (associate_listener (nlb_ServerGroups local)) (nlb_Listeners local) = Inr ls"
    and new: "\<forall>l \<in> set (nlb_Listeners local). ls_ListenerId l = []"
    and rs: "cloud_listeners (nlb_Listeners remote)"
  shows "follows (applyListeners cfg C svc local remote)
    (listener_plan cfg svc (lb_IsUserManaged (nlb_LoadBalancerAttribute local))
       (lb_LoadBalancerId (nlb_LoadBalancerAttribute remote)) ls (nlb_Listeners remote))"
proof -
  have "\<forall>l \<in> set ls. ls_ListenerId l = []"
  proof
    fix l
    assume "l \<in> set ls"
    with map_res_set [OF ls] obtain k where "k \<in> set (nlb_Listeners local)"
      "associate_listener (nlb_ServerGroups local) k = Inr l" by blast
    with new show "ls_ListenerId l = []"
      by (auto simp: associate_listener_def findServerGroup_def split: if_splits option.splits)
  qed
  then have en: "map (listener_ensure_calls lbId (nlb_Listeners remote) \<circ> assign_id (nlb_Listeners remote)) ls =
      map (\<lambda>l. case find (\<lambda>r. same_listener r l) (nlb_Listeners remote) of
         Some r \<Rightarrow> listener_update_calls (l\<lparr>ls_ListenerId := ls_ListenerId r\<rparr>) r
       | None \<Rightarrow> [CCreateNLBListener lbId l]) ls" for lbId
    using ensure_calls_cloud [OF rs] by simp
  show ?thesis
    using follows_applyListeners [OF assms(1) ls, of cfg C remote]
    unfolding listener_plan_def delete_calls_filter map_map en .
qed

subsection \<open>Requests on server groups\<close>

lemma cleanup_follows:
  "follows (cleanup cfg C svc local remote)
     (map (\<lambda>r. CDeleteNLBServerGroup (sg_ServerGroupId r))
       (filter (\<lambda>r. managed_group cfg svc r \<and>
          \<not> list_ex (\<lambda>l. sg_ServerGroupId l = sg_ServerGroupId r) (nlb_ServerGroups local))
         (nlb_ServerGroups remote)))" (is "follows _ (map _ (filter ?gone _))")
proof -
  have "follows (cleanup cfg C svc local remote)
      (concat (map (\<lambda>r. if ?gone r then [CDeleteNLBServerGroup (sg_ServerGroupId r)] else [])
        (nlb_ServerGroups remote)))"
    unfolding cleanup_def DeleteServerGroup_def nlb_calls
    by (rule follows_for) (auto intro!: follows_return follows_wrap follows_invoke)
  also have "concat (map (\<lambda>r. if ?gone r then [CDeleteNLBServerGroup (sg_ServerGroupId r)] else []) rs) =
      map (\<lambda>r. CDeleteNLBServerGroup (sg_ServerGroupId r)) (filter ?gone rs)" for rs
    by (induction rs) auto
  finally show ?thesis .
qed

subsection \<open>Which requests each step can send\<close>

fun is_group_write :: "nlb_call \<Rightarrow> bool" where
  "is_group_write (CTagNLBResource _ t _) = (t = ServerGroupTagType)"
| "is_group_write (CCreateNLBServerGroup _) = True"
| "is_group_write (CDeleteNLBServerGroup _) = True"
| "is_group_write (CUpdateNLBServerGroup _) = True"
| "is_group_write (CAddNLBServers _ _) = True"
| "is_group_write (CRemoveNLBServers _ _) = True"
| "is_group_write (CUpdateNLBServers _ _) = True"
| "is_group_write _ = False"

fun is_listener_write :: "nlb_call \<Rightarrow> bool" where
  "is_listener_write (CCreateNLBListener _ _) = True"
| "is_listener_write (CUpdateNLBListener _) = True"
| "is_listener_write (CDeleteNLBListener _) = True"
| "is_listener_write (CStartNLBListener _) = True"
| "is_listener_write _ = False"

lemma group_servers [emits_intros]:
  "only_calls is_group_write (BatchAddServers C sg xs)"
  "only_calls is_group_write (BatchRemoveServers C sg xs)"
  "only_calls is_group_write (BatchUpdateServers C sg xs)"
  unfolding BatchAddServers_def BatchRemoveServers_def BatchUpdateServers_def nlb_calls
  by (auto intro!: emits_Batch emits_invoke)

lemma group_UpdateServerGroup [emits_intros]: "only_calls is_group_write (UpdateServerGroup C l r)"
  unfolding UpdateServerGroup_def updateServerGroupServers_def
  by (auto intro!: emits_intros simp: UpdateNLBServerGroup_def split: prod.split)

lemma group_CreateServerGroup [emits_intros]: "only_calls is_group_write (CreateServerGroup C l)"
  unfolding CreateServerGroup_def nlb_calls by (auto intro!: emits_intros)

lemma group_apply_vgroup [emits_intros]: "only_calls is_group_write (apply_vgroup C l acc)"
  unfolding apply_vgroup_def Let_def by (auto intro!: emits_intros split: prod.split option.split)

lemma group_applyVGroups: "only_calls is_group_write (applyVGroups C l r)"
  unfolding applyVGroups_def by (auto intro!: emits_intros split: prod.split)

lemma group_cleanup: "only_calls is_group_write (cleanup cfg C svc l r)"
  unfolding cleanup_def DeleteServerGroup_def nlb_calls by (auto intro!: emits_intros)

lemma listener_applyListeners: "only_calls is_listener_write (applyListeners cfg C svc l r)"
  unfolding applyListeners_def ensure_listener_def delete_step_def UpdateNLBListener_def DeleteListener_def
    CreateListener_def Let_def nlb_calls
  by (auto intro!: emits_intros split: prod.split)

lemma reads_SG_BuildRemoteModel: "reads_only (SG_BuildRemoteModel cfg C svc mdl)"
  unfolding SG_BuildRemoteModel_def by (auto intro!: emits_intros)

lemma reads_Listener_BuildRemoteModel: "reads_only (Listener_BuildRemoteModel C mdl)"
  unfolding Listener_BuildRemoteModel_def ListListeners_def by (auto intro!: emits_intros)

lemma reads_localModel_Build: "reads_only (localModel_Build cfg C iter v svc)"
  unfolding localModel_Build_def Let_def by (auto intro!: emits_intros reads_SG_BuildLocalModel)

lemma reads_remoteModel_Build: "reads_only (remoteModel_Build cfg C svc)"
  unfolding remoteModel_Build_def NLB_BuildRemoteModel_def
  by (auto intro!: emits_intros reads_SG_BuildRemoteModel reads_Listener_BuildRemoteModel)

lemma reads_BuildModel [emits_intros]: "reads_only (BuildModel cfg C iter v svc t)"
  unfolding BuildModel_def using reads_localModel_Build reads_remoteModel_Build by (cases t) auto

text \<open>A rule for \<open>Apply\<close>: every step may send what \<open>P\<close> allows.\<close>

lemma Apply_calls:
  assumes reads: "\<And>c. \<not> is_cloud_write c \<Longrightarrow> P c"
    and groups: "\<And>c. is_group_write c \<Longrightarrow> P c"
    and attribute: "\<And>r. IsServiceHashChanged H svc \<or> cfg_DryRun cfg \<Longrightarrow>
      only_calls P (applyLoadBalancerAttribute cfg C svc local r)"
    and listeners: "\<And>c. IsServiceHashChanged H svc \<or> cfg_DryRun cfg \<Longrightarrow> is_listener_write c \<Longrightarrow> P c"
  shows "only_calls P (Apply cfg C H svc local)"
proof -
  have find: "only_calls P (NLB_BuildRemoteModel C svc m)" for m
    unfolding NLB_BuildRemoteModel_def by (rule only_weaken [OF NLB_Find_reads reads])
  have sgs: "only_calls P (SG_BuildRemoteModel cfg C svc m)" for m
    by (rule only_weaken [OF reads_SG_BuildRemoteModel reads])
  have lss: "only_calls P (Listener_BuildRemoteModel C m)" for m
    by (rule only_weaken [OF reads_Listener_BuildRemoteModel reads])
  have vgs: "only_calls P (applyVGroups C l r)" "only_calls P (cleanup cfg C svc l r)" for l r
    by (rule only_weaken [OF group_applyVGroups groups] only_weaken [OF group_cleanup groups]; assumption)+
  have ls: "only_calls P (applyListeners cfg C svc l r)"
    if "IsServiceHashChanged H svc \<or> cfg_DryRun cfg" for l r
    by (rule only_weaken [OF listener_applyListeners listeners [OF that]])
  show ?thesis
    unfolding Apply_def Let_def
    by (intro only_bind emits_wrap emits_if emits_case_prod emits_return emits_throw find sgs lss vgs ls
        attribute TrueI)
qed

text \<open>The only request to delete a load balancer.\<close>

lemma applyLoadBalancerAttribute_delete:
  "only_calls (\<lambda>c. \<forall>m. c = CDeleteNLB m \<longrightarrow> NeedDeleteLoadBalancer svc \<and>
       \<not> lb_IsUserManaged (nlb_LoadBalancerAttribute local) \<and>
       lb_LoadBalancerId (nlb_LoadBalancerAttribute m) \<noteq> [])
     (applyLoadBalancerAttribute cfg C svc local remote)"
  unfolding applyLoadBalancerAttribute_def NLB_Create_def setDefaultValueForLoadBalancer_def NLB_Delete_def
    NLB_Find_def NLB_Update_def Let_def nlb_calls
  by (auto intro!: emits_intros)

lemma Apply_delete:
  "only_calls (\<lambda>c. \<forall>m. c = CDeleteNLB m \<longrightarrow> NeedDeleteLoadBalancer svc \<and>
       \<not> lb_IsUserManaged (nlb_LoadBalancerAttribute local) \<and>
       lb_LoadBalancerId (nlb_LoadBalancerAttribute m) \<noteq> [])
     (Apply cfg C H svc local)"
  by (rule Apply_calls) (auto intro!: applyLoadBalancerAttribute_delete)

lemma Apply_unchanged:
  assumes "\<not> IsServiceHashChanged H svc" and "\<not> cfg_DryRun cfg"
  shows "only_calls (\<lambda>c. is_cloud_write c \<longrightarrow> is_group_write c) (Apply cfg C H svc local)"
  by (rule Apply_calls) (use assms in auto)

subsection \<open>Properties\<close>

definition demo_nlb :: "listener_attr list \<Rightarrow> server_group list \<Rightarrow> nlb" where
  "demo_nlb ls sgs = \<lparr>nlb_NamespacedName = (''ns'', ''web''),
     nlb_LoadBalancerAttribute = zero_lb_attr\<lparr>lb_LoadBalancerId := ''nlb-1''\<rparr>,
     nlb_Listeners = ls, nlb_ServerGroups = sgs\<rparr>"

text \<open>
  (C10) What applying the listeners sends: first a delete for each listener of the cloud
  that the service no longer has (on a load balancer the user brought, only if the
  listener's key is this service's), then, listener by listener, a start and an update
  where needed if it exists, a create if not.  A failing run sends an initial part.
\<close>

theorem listeners_applied_as_planned:
  assumes "lb_IsUserManaged (nlb_LoadBalancerAttribute local) \<longrightarrow> IsForceOverride svc"
    and "map_res (associate_listener (nlb_ServerGroups local)) (nlb_Listeners local) = Inr ls"
    and "\<forall>l \<in> set (nlb_Listeners local). ls_ListenerId l = []"
    and "cloud_listeners (nlb_Listeners remote)"
  shows "follows (applyListeners cfg C svc local remote)
    (listener_plan cfg svc (lb_IsUserManaged (nlb_LoadBalancerAttribute local))
       (lb_LoadBalancerId (nlb_LoadBalancerAttribute remote)) ls (nlb_Listeners remote))"
  by (rule applyListeners_follows_plan [OF assms])

theorem listeners_applied_as_planned_witness:
  "\<forall>C :: unit cloud. follows (applyListeners demo_config C demo_service
       (demo_nlb [zero_listener\<lparr>ls_ListenerPort := 80, ls_ListenerProtocol := ''TCP'', ls_ServerGroupId := ''sg''\<rparr>] [])
       (demo_nlb [zero_listener\<lparr>ls_ListenerPort := 81, ls_ListenerProtocol := ''TCP'', ls_ListenerId := ''lsn-1''\<rparr>] []))
     [CDeleteNLBListener ''lsn-1'',
      CCreateNLBListener ''nlb-1'' (zero_listener\<lparr>ls_ListenerPort := 80, ls_ListenerProtocol := ''TCP'', ls_ServerGroupId := ''sg''\<rparr>)]"
proof
  fix C :: "unit cloud"
  let ?l = "zero_listener\<lparr>ls_ListenerPort := 80, ls_ListenerProtocol := ''TCP'', ls_ServerGroupId := ''sg''\<rparr>"
  let ?r = "zero_listener\<lparr>ls_ListenerPort := 81, ls_ListenerProtocol := ''TCP'', ls_ListenerId := ''lsn-1''\<rparr>"
  have plan: "follows (applyListeners demo_config C demo_service (demo_nlb [?l] []) (demo_nlb [?r] []))
      (listener_plan demo_config demo_service (lb_IsUserManaged (nlb_LoadBalancerAttribute (demo_nlb [?l] [])))
        (lb_LoadBalancerId (nlb_LoadBalancerAttribute (demo_nlb [?r] []))) [?l] (nlb_Listeners (demo_nlb [?r] [])))"
    by (rule listeners_applied_as_planned)
      (simp_all add: demo_nlb_def zero_lb_attr_def associate_listener_def cloud_listeners_def zero_listener_def)
  have "listener_plan demo_config demo_service False ''nlb-1'' [?l] [?r] = [CDeleteNLBListener ''lsn-1'', CCreateNLBListener ''nlb-1'' ?l]"
    by (simp add: listener_plan_def same_listener_def)
  with plan show "follows (applyListeners demo_config C demo_service (demo_nlb [?l] []) (demo_nlb [?r] []))
      [CDeleteNLBListener ''lsn-1'', CCreateNLBListener ''nlb-1'' ?l]"
    by (simp add: demo_nlb_def zero_lb_attr_def)
qed

text \<open>
  (C30) Cleaning up deletes exactly the server groups that carry a key of this service and
  cluster and that the service no longer has, in order; groups of users, of other
  services and of other clusters stay.
\<close>

theorem cleanup_deletes_own_groups:
  "follows (cleanup cfg C svc local remote)
     (map (\<lambda>r. CDeleteNLBServerGroup (sg_ServerGroupId r))
       (filter (\<lambda>r. IsManagedByService (sg_NamedKey r) svc (cfg_ClusterID cfg) \<and>
          \<not> list_ex (\<lambda>l. sg_ServerGroupId l = sg_ServerGroupId r) (nlb_ServerGroups local))
         (nlb_ServerGroups remote)))"
  using cleanup_follows [of cfg C svc local remote] by (simp add: managed_group_def)

text \<open>
  (C31) A service whose hash is unchanged, outside a dry run: whatever the cloud answers,
  applying its model writes to server groups only, never to the load balancer or its
  listeners.
\<close>

theorem unchanged_service_writes_groups_only:
  assumes "\<not> IsServiceHashChanged H svc" and "\<not> cfg_DryRun cfg"
  shows "only_calls (\<lambda>c. \<not> is_cloud_write c \<or> is_group_write c) (Apply cfg C H svc local)"
  by (rule only_weaken [OF Apply_unchanged [OF assms]]) auto

theorem unchanged_service_writes_groups_only_witness:
  "\<forall>(C :: unit cloud) local. only_calls (\<lambda>c. \<not> is_cloud_write c \<or> is_group_write c)
     (Apply demo_config C (\<lambda>_ _ _. ''h1'') (demo_service\<lparr>svc_Labels := [(LabelServiceHash, ''h1'')]\<rparr>) local)"
  by (intro allI, rule unchanged_service_writes_groups_only)
    (simp_all add: IsServiceHashChanged_def GetServiceHash_def demo_config_def)

text \<open>
  Building the model of a service, local or remote, only reads from the cloud.
\<close>

theorem building_only_reads:
  "only_calls (\<lambda>c. \<not> is_cloud_write c) (BuildModel cfg C iter vpcId svc t)"
  by (rule reads_BuildModel)

end
