(* ===== verification/Nlb_Controller.thy ===== *)
theory Nlb_Controller
  imports Model_Applier
begin

text \<open>
  The reconciler of services of class NLB (\<open>service/nlb_controller.go\<close>) and the
  finalizer manager (\<open>helper/finalizer.go\<close>).  Waiting between attempts and metrics
  have no counterpart; recording an event is a call of the log.  A \<open>Get\<close> that fails
  leaves the zero service.
\<close>

subsection \<open>Finalizers (\<open>finalizer.go\<close>)\<close>

definition add_finalizer :: "string \<Rightarrow> service \<Rightarrow> service" where
  "add_finalizer f svc = (if HasFinalizer svc f then svc else svc\<lparr>svc_Finalizers := svc_Finalizers svc @ [f]\<rparr>)"

definition remove_finalizer :: "string \<Rightarrow> service \<Rightarrow> service" where
  "remove_finalizer f svc = svc\<lparr>svc_Finalizers := filter (\<lambda>e. e \<noteq> f) (svc_Finalizers svc)\<rparr>"

definition add_finalizers_attempt :: "'w cloud \<Rightarrow> string \<times> string \<Rightarrow> string list \<Rightarrow> ('w, service) nlb_prog" where
  "add_finalizers_attempt C name fs =
     bindP (GetService C name) (\<lambda>oldObj.
       if list_all (HasFinalizer oldObj) fs then returnP oldObj
       else PatchService C oldObj (fold add_finalizer fs oldObj))"

definition AddFinalizers :: "'w cloud \<Rightarrow> service \<Rightarrow> string list \<Rightarrow> ('w, service) nlb_prog" where
  "AddFinalizers C svc fs =
     RetryOnConflict (c_IsConflict C) DefaultBackoff_Steps (Errorf [])
       (add_finalizers_attempt C (NamespacedName svc) fs)"

definition remove_finalizers_attempt :: "'w cloud \<Rightarrow> string \<times> string \<Rightarrow> string list \<Rightarrow> ('w, service) nlb_prog" where
  "remove_finalizers_attempt C name fs =
     bindP (GetService C name) (\<lambda>oldObj.
       if \<not> list_ex (HasFinalizer oldObj) fs then returnP oldObj
       else PatchService C oldObj (fold remove_finalizer fs oldObj))"

definition RemoveFinalizers :: "'w cloud \<Rightarrow> service \<Rightarrow> string list \<Rightarrow> ('w, service) nlb_prog" where
  "RemoveFinalizers C svc fs =
     RetryOnConflict (c_IsConflict C) DefaultBackoff_Steps (Errorf [])
       (remove_finalizers_attempt C (NamespacedName svc) fs)"

subsection \<open>Status and labels\<close>

fun err_msg :: "go_error \<Rightarrow> string" where
  "err_msg (Errorf e) = e"
| "err_msg (Panic e) = e"

text \<open>
  The closure both status functions retry: the first component is what it leaves in
  \<open>retErr\<close>, the second what it returns.
\<close>

definition status_attempt ::
  "'w cloud \<Rightarrow> string \<times> string \<Rightarrow> lb_ingress list \<Rightarrow> ('w, go_error option \<times> go_error option) nlb_prog" where
  "status_attempt C name newStatus =
     bindP (tryP (GetService C name)) (\<lambda>r. case r of
        Inl e \<Rightarrow> returnP (Some e, Some (Errorf ''error to get svc''))
      | Inr svcOld \<Rightarrow>
          bindP (tryP (PatchServiceStatus C svcOld (svcOld\<lparr>svc_Ingress := newStatus\<rparr>))) (\<lambda>p. case p of
             Inr _ \<Rightarrow> returnP (None, None)
           | Inl e \<Rightarrow>
               if c_IsNotFound C e then returnP (None, None)
               else if c_IsConflict C e then
                 returnP (Some e, Some (Errorf (''not persisting update to service that has been changed since we received it: '' @ err_msg e)))
               else returnP (Some e, Some (Errorf (''retry with '' @ err_msg e @ '', '' @ TRY_AGAIN)))))"

text \<open>\<open>helper.Retry\<close> around it in \<open>updateServiceStatus\<close>, which returns the captured \<open>retErr\<close>.\<close>

fun retry_captured :: "nat \<Rightarrow> go_error option \<Rightarrow> ('s, go_error option \<times> go_error option) prog \<Rightarrow> ('s, go_error option) prog" where
  "retry_captured 0 ret f = returnP ret"
| "retry_captured (Suc n) ret f =
     bindP f (\<lambda>(ret, err). case err of
        Some (Errorf e) \<Rightarrow> if Contains e TRY_AGAIN then retry_captured n ret f else returnP ret
      | _ \<Rightarrow> returnP ret)"

definition raise_opt :: "go_error option \<Rightarrow> ('s, unit) prog" where
  "raise_opt e = (case e of None \<Rightarrow> returnP () | Some e \<Rightarrow> throwP e)"

definition status_Steps :: nat where "status_Steps = 3"

definition updateServiceStatus :: "'w cloud \<Rightarrow> service \<Rightarrow> nlb option \<Rightarrow> ('w, unit) nlb_prog" where
  "updateServiceStatus C svc lb =
     (case lb of None \<Rightarrow> throwP (Errorf ''lb not found, cannot not patch service status'')
      | Some m \<Rightarrow>
          (let newStatus = [\<lparr>ing_IP = [], ing_Hostname = lb_DNSName (nlb_LoadBalancerAttribute m)\<rparr>]
           in if svc_Ingress svc \<noteq> newStatus then
                bindP (retry_captured status_Steps None (status_attempt C (NamespacedName svc) newStatus)) raise_opt
              else returnP ()))"

definition removeServiceStatus :: "'w cloud \<Rightarrow> service \<Rightarrow> ('w, unit) nlb_prog" where
  "removeServiceStatus C svc =
     (if svc_Ingress svc \<noteq> [] then
        Retry status_Steps (bindP (status_attempt C (NamespacedName svc) []) (\<lambda>(_, err). raise_opt err))
      else returnP ())"

definition labels_added :: "hash_fun \<Rightarrow> string \<Rightarrow> service \<Rightarrow> service" where
  "labels_added HashObject lbId svc =
     (let labels = map_set LabelServiceHash (GetServiceHash HashObject svc) (svc_Labels svc)
      in svc\<lparr>svc_Labels := (if lbId \<noteq> [] then map_set LabelLoadBalancerId lbId labels else labels)\<rparr>)"

definition addServiceLabels :: "'w cloud \<Rightarrow> hash_fun \<Rightarrow> service \<Rightarrow> string \<Rightarrow> ('w, unit) nlb_prog" where
  "addServiceLabels C HashObject svc lbId =
     wrapP ''failed to add service hash:, error: '' (PatchServiceStatus C svc (labels_added HashObject lbId svc))"

definition removeServiceLabels :: "'w cloud \<Rightarrow> service \<Rightarrow> ('w, unit) nlb_prog" where
  "removeServiceLabels C svc =
     (if has_key (svc_Labels svc) LabelServiceHash \<or> has_key (svc_Labels svc) LabelLoadBalancerId then
        wrapP ''failed to remove service hash:, error: ''
          (PatchServiceStatus C svc
            (svc\<lparr>svc_Labels := map_delete LabelLoadBalancerId (map_delete LabelServiceHash (svc_Labels svc))\<rparr>))
      else returnP ())"

subsection \<open>Reconciliation\<close>

definition buildAndApplyModel ::
  "config \<Rightarrow> 'w cloud \<Rightarrow> (smap \<Rightarrow> smap) \<Rightarrow> hash_fun \<Rightarrow> string \<Rightarrow> service \<Rightarrow> ('w, nlb) nlb_prog" where
  "buildAndApplyModel cfg C iter HashObject vpcId svc =
     bindP (wrapP ''build lb local model error: '' (BuildModel cfg C iter vpcId svc LocalModel)) (\<lambda>localModel.
     wrapP ''apply model error: '' (Apply cfg C HashObject svc localModel))"

text \<open>Failing with an event: \<open>if err := f(); err != nil \{ record.Event(...); return err \}\<close>.\<close>

definition or_event :: "event_reason \<Rightarrow> ('w, 'a) nlb_prog \<Rightarrow> ('w, 'a) nlb_prog" where
  "or_event reason m =
     bindP (tryP m) (\<lambda>r. case r of Inr x \<Rightarrow> returnP x
      | Inl e \<Rightarrow> bindP (Event reason) (\<lambda>_. throwP e))"

definition lb_gone :: "go_error \<Rightarrow> bool" where
  "lb_gone e \<longleftrightarrow> Contains (err_msg e) ''ResourceNotFound.loadBalancer''"

definition cleanupLoadBalancerResources ::
  "config \<Rightarrow> 'w cloud \<Rightarrow> (smap \<Rightarrow> smap) \<Rightarrow> hash_fun \<Rightarrow> string \<Rightarrow> service \<Rightarrow> ('w, unit) nlb_prog" where
  "cleanupLoadBalancerResources cfg C iter HashObject vpcId svc =
     bindP
       (if HasFinalizer svc NLBFinalizer then
          bindP (tryP (buildAndApplyModel cfg C iter HashObject vpcId svc)) (\<lambda>r.
          bindP (case r of Inr _ \<Rightarrow> returnP ()
                 | Inl e \<Rightarrow> if lb_gone e then returnP ()
                            else bindP (Event FailedCleanLB) (\<lambda>_. throwP e)) (\<lambda>_.
          bindP (or_event FailedRemoveHash (removeServiceLabels C svc)) (\<lambda>_.
          bindP (or_event FailedUpdateStatus (removeServiceStatus C svc)) (\<lambda>_.
          bindP (or_event FailedRemoveFinalizer (RemoveFinalizers C svc [NLBFinalizer])) (\<lambda>_.
          returnP ())))))
        else returnP ()) (\<lambda>_.
     Event SucceedCleanLB)"

text \<open>\<open>AddFinalizers\<close> reads the service again, and the rest works on what it read.\<close>

definition reconcileLoadBalancerResources ::
  "config \<Rightarrow> 'w cloud \<Rightarrow> (smap \<Rightarrow> smap) \<Rightarrow> hash_fun \<Rightarrow> string \<Rightarrow> service \<Rightarrow> ('w, unit) nlb_prog" where
  "reconcileLoadBalancerResources cfg C iter HashObject vpcId svc =
     bindP (or_event FailedAddFinalizer (AddFinalizers C svc [NLBFinalizer])) (\<lambda>svc.
     bindP (or_event FailedSyncLB (buildAndApplyModel cfg C iter HashObject vpcId svc)) (\<lambda>lb.
     bindP (or_event FailedAddHash (addServiceLabels C HashObject svc (GetLoadBalancerId (Some lb)))) (\<lambda>_.
     bindP (or_event FailedUpdateStatus (updateServiceStatus C svc (Some lb))) (\<lambda>_.
     Event SucceedSyncLB))))"

definition zero_service :: service where
  "zero_service = \<lparr>svc_Namespace = [], svc_Name = [], svc_UID = [], svc_Annotations = [], svc_Labels = [],
     svc_Finalizers = [], svc_DeletionTimestamp = None,
     svc_Spec = \<lparr>spec_Type = [], spec_LoadBalancerClass = None, spec_ExternalTrafficPolicy = [],
       spec_Ports = [], spec_Other = []\<rparr>,
     svc_Ingress = []\<rparr>"

definition reconcile ::
  "config \<Rightarrow> 'w cloud \<Rightarrow> (smap \<Rightarrow> smap) \<Rightarrow> hash_fun \<Rightarrow> string \<Rightarrow> string \<times> string \<Rightarrow> ('w, unit) nlb_prog" where
  "reconcile cfg C iter HashObject vpcId request =
     bindP (tryP (GetService C request)) (\<lambda>r.
       if (case r of Inl e \<Rightarrow> c_IsNotFound C e | Inr _ \<Rightarrow> False) then returnP ()
       else
         (let svc = (case r of Inl _ \<Rightarrow> zero_service | Inr svc \<Rightarrow> svc)
          in if NeedDeleteLoadBalancer svc then cleanupLoadBalancerResources cfg C iter HashObject vpcId svc
             else reconcileLoadBalancerResources cfg C iter HashObject vpcId svc))"

subsection \<open>Finalizers\<close>

lemma HasFinalizer_add: "HasFinalizer (add_finalizer f svc) f"
  "HasFinalizer svc g \<Longrightarrow> HasFinalizer (add_finalizer f svc) g"
  by (auto simp: add_finalizer_def HasFinalizer_def)

lemma HasFinalizer_remove: "HasFinalizer (remove_finalizer f svc) g \<longleftrightarrow> g \<noteq> f \<and> HasFinalizer svc g"
  by (auto simp: remove_finalizer_def HasFinalizer_def)

lemma HasFinalizer_fold_add: "f \<in> set fs \<or> HasFinalizer svc f \<Longrightarrow> HasFinalizer (fold add_finalizer fs svc) f"
  by (induction fs arbitrary: svc) (auto simp: HasFinalizer_add)

lemma HasFinalizer_fold_remove:
  "HasFinalizer (fold remove_finalizer fs svc) f \<longleftrightarrow> f \<notin> set fs \<and> HasFinalizer svc f"
  by (induction fs arbitrary: svc) (auto simp: HasFinalizer_remove)

lemma emits_RetryOnConflict:
  "emits P Q f \<Longrightarrow> emits P Q (RetryOnConflict conflict n e f)"
proof (induction n arbitrary: e)
  case 0
  then show ?case by (simp add: emits_throw)
next
  case (Suc n)
  show ?case
    unfolding RetryOnConflict.simps
    by (rule emits_bind [OF emits_try [OF Suc.prems]])
      (auto intro!: emits_case_sum emits_return emits_if emits_throw Suc)
qed

text \<open>At most \<open>n\<close> attempts.\<close>

definition call_count :: "(('w, 'c, 'z) effects_scheme, 'a) prog \<Rightarrow> nat \<Rightarrow> bool" where
  "call_count m k \<longleftrightarrow> (\<forall>s. length (fx_calls (snd (m s))) \<le> length (fx_calls s) + k)"

lemma call_count_RetryOnConflict:
  assumes "call_count f k"
  shows "call_count (RetryOnConflict conflict n e f) (n * k)"
proof (induction n arbitrary: e)
  case 0
  then show ?case by (simp add: call_count_def throwP_def)
next
  case (Suc n)
  show ?case
    unfolding call_count_def
  proof
    fix s
    obtain r t where rt: "f s = (r, t)" by (cases "f s")
    with assms have t: "length (fx_calls t) \<le> length (fx_calls s) + k"
      unfolding call_count_def by (metis snd_conv)
    have IH: "length (fx_calls (snd (RetryOnConflict conflict n e f t))) \<le> length (fx_calls t) + n * k" for e
      using Suc.IH unfolding call_count_def by blast
    show "length (fx_calls (snd (RetryOnConflict conflict (Suc n) e f s))) \<le> length (fx_calls s) + Suc n * k"
      using rt t IH [of "case r of Inl e \<Rightarrow> e | Inr _ \<Rightarrow> e"]
      by (auto simp: prog_simps split: sum.splits go_error.splits)
  qed
qed

lemma call_count_attempts:
  "call_count (add_finalizers_attempt C name fs) 2" "call_count (remove_finalizers_attempt C name fs) 2"
  by (auto simp: call_count_def add_finalizers_attempt_def remove_finalizers_attempt_def nlb_calls prog_simps
      invoke_def split: prod.splits sum.splits)

lemma AddFinalizers_emits:
  assumes patch: "\<And>old new w x w'. c_PatchService C old new w = (Inr x, w') \<Longrightarrow> svc_Finalizers x = svc_Finalizers new"
  shows "emits (\<lambda>c. \<not> is_cloud_write c) (\<lambda>svc'. \<forall>f \<in> set fs. HasFinalizer svc' f) (AddFinalizers C svc fs)"
  unfolding AddFinalizers_def add_finalizers_attempt_def nlb_calls
proof (intro emits_RetryOnConflict emits_bind [where R = "\<lambda>_. True"] emits_if emits_return emits_invoke)
  fix old x w w'
  assume "c_PatchService C old (fold add_finalizer fs old) w = (Inr x, w')"
  then show "\<forall>f \<in> set fs. HasFinalizer x f"
    using patch HasFinalizer_fold_add [of _ fs old] by (simp add: HasFinalizer_def)
qed (auto simp: list_all_iff)

lemma reads_AddFinalizers [emits_intros]: "reads_only (AddFinalizers C svc fs)"
  unfolding AddFinalizers_def add_finalizers_attempt_def
  by (intro emits_RetryOnConflict) (auto intro!: emits_intros)

subsection \<open>Labels and status\<close>

lemma labels_added_hash:
  "map_of (svc_Labels (labels_added H lbId svc)) LabelServiceHash = Some (GetServiceHash H svc)"
  by (simp add: labels_added_def Let_def map_of_map_set LabelServiceHash_def LabelLoadBalancerId_def)

lemma labels_added_unchanged: "\<not> IsServiceHashChanged H (labels_added H lbId svc)"
proof -
  have "GetServiceHash H (labels_added H lbId svc) = GetServiceHash H svc"
    by (simp add: GetServiceHash_def labels_added_def Let_def)
  then show ?thesis by (simp add: IsServiceHashChanged_def labels_added_hash)
qed

subsection \<open>Deleting a load balancer\<close>

lemma SG_BuildLocalModel_attr:
  "emits (\<lambda>_. True) (\<lambda>m. nlb_LoadBalancerAttribute m = nlb_LoadBalancerAttribute mdl)
     (SG_BuildLocalModel cfg C vpcId svc mdl)"
  unfolding SG_BuildLocalModel_def
  by (rule emits_bind [where R = "\<lambda>_. True"], rule only_weaken [OF reads_NewEndpointWithENI], simp)
    (rule emits_bind [where R = "\<lambda>_. True"], auto intro!: emits_intros only_weaken [OF reads_build_server_group])

lemma NLB_BuildLocalModel_managed:
  assumes "NLB_BuildLocalModel iter svc (empty_nlb svc) = Inr m"
  shows "lb_IsUserManaged (nlb_LoadBalancerAttribute m) \<longleftrightarrow> Get svc LoadBalancerId \<noteq> []"
  using assms
  by (auto simp: NLB_BuildLocalModel_def bind_res_Inr_iff Let_def empty_nlb_def zero_lb_attr_def split: if_splits)

lemma Listener_BuildLocalModel_attr:
  "Listener_BuildLocalModel cfg svc mdl = Inr m \<Longrightarrow> nlb_LoadBalancerAttribute m = nlb_LoadBalancerAttribute mdl"
  by (auto simp: Listener_BuildLocalModel_def bind_res_Inr_iff)

definition managed_as_annotated :: "service \<Rightarrow> nlb \<Rightarrow> bool" where
  "managed_as_annotated svc m \<longleftrightarrow>
     (lb_IsUserManaged (nlb_LoadBalancerAttribute m) \<longleftrightarrow> Get svc LoadBalancerId \<noteq> [])"

lemma localModel_Build_managed:
  "emits (\<lambda>_. True) (managed_as_annotated svc) (localModel_Build cfg C iter vpcId svc)"
proof -
  have "emits (\<lambda>_. True) (managed_as_annotated svc) (SG_BuildLocalModel cfg C vpcId svc m)"
    if "managed_as_annotated svc m" for m
    by (rule emits_mono [OF SG_BuildLocalModel_attr]) (use that in \<open>auto simp: managed_as_annotated_def\<close>)
  then show ?thesis
    unfolding localModel_Build_def Let_def
    by (intro emits_if emits_return emits_wrap emits_bind [where R = "managed_as_annotated svc"] emits_lift)
      (auto simp: managed_as_annotated_def empty_nlb_def zero_lb_attr_def NLB_BuildLocalModel_managed
        Listener_BuildLocalModel_attr)
qed

definition delete_justified :: "service \<Rightarrow> nlb_call \<Rightarrow> bool" where
  "delete_justified svc c \<longleftrightarrow>
     (\<forall>m. c = CDeleteNLB m \<longrightarrow> NeedDeleteLoadBalancer svc \<and> Get svc LoadBalancerId = [] \<and>
        lb_LoadBalancerId (nlb_LoadBalancerAttribute m) \<noteq> [])"

lemma buildAndApplyModel_delete:
  "only_calls (delete_justified svc) (buildAndApplyModel cfg C iter H vpcId svc)"
  unfolding buildAndApplyModel_def BuildModel_def model_type.case
proof (rule emits_bind [where R = "managed_as_annotated svc"])
  have "reads_only (localModel_Build cfg C iter vpcId svc)" by (rule reads_localModel_Build)
  with localModel_Build_managed [of svc cfg C iter vpcId]
  have "emits (\<lambda>c. \<not> is_cloud_write c) (managed_as_annotated svc) (localModel_Build cfg C iter vpcId svc)"
    unfolding emits_def by meson
  then show "emits (delete_justified svc) (managed_as_annotated svc)
      (wrapP ''build lb local model error: '' (localModel_Build cfg C iter vpcId svc))"
    by (intro emits_wrap) (erule emits_mono, auto simp: delete_justified_def)
next
  fix m
  assume "managed_as_annotated svc m"
  then show "only_calls (delete_justified svc) (wrapP ''apply model error: '' (Apply cfg C H svc m))"
    by (intro emits_wrap only_weaken [OF Apply_delete])
      (auto simp: delete_justified_def managed_as_annotated_def)
qed

subsection \<open>Properties\<close>

text \<open>
  (C11) A request to delete a load balancer is made only for a service that no longer needs
  one and that does not name a load balancer of its own, and only for a load balancer
  that was found; this holds for every answer of the cloud.
\<close>

theorem load_balancer_deletion_justified:
  "only_calls (delete_justified svc) (buildAndApplyModel cfg C iter H vpcId svc)"
  by (rule buildAndApplyModel_delete)

text \<open>
  (C33) The finalizer comes first: if it cannot be added, reconciling a service fails with
  that error and has written nothing to the cloud.
\<close>

theorem finalizer_before_cloud_writes:
  assumes "AddFinalizers C svc [NLBFinalizer] s = (Inl (Errorf e), t)" and "fx_calls s = []"
  shows "\<exists>t'. reconcileLoadBalancerResources cfg C iter H vpcId svc s = (Inl (Errorf e), t') \<and>
    list_all (\<lambda>c. \<not> is_cloud_write c) (fx_calls t')"
proof -
  have "\<forall>c \<in> set (fx_calls t). \<not> is_cloud_write c"
    using emits_run [OF reads_AddFinalizers assms(1,2)] by blast
  with assms(1) show ?thesis
    by (simp add: reconcileLoadBalancerResources_def or_event_def prog_simps Event_def invoke_def list_all_iff)
qed

theorem finalizer_before_cloud_writes_witness:
  "\<exists>t'. reconcileLoadBalancerResources demo_config
       ((demo_cloud demo_service)\<lparr>c_GetService := \<lambda>_ w. (Inl (Errorf ''timeout''), w)\<rparr>)
       id (\<lambda>_ _ _. ''h'') ''vpc'' demo_service demo_state = (Inl (Errorf ''timeout''), t') \<and>
     list_all (\<lambda>c. \<not> is_cloud_write c) (fx_calls t')"
proof -
  let ?C = "(demo_cloud demo_service)\<lparr>c_GetService := \<lambda>_ w. (Inl (Errorf ''timeout''), w)\<rparr>"
  have "AddFinalizers ?C demo_service [NLBFinalizer] demo_state =
      (Inl (Errorf ''timeout''), demo_state\<lparr>fx_calls := [CGetService (NamespacedName demo_service)]\<rparr>)"
    by (simp add: AddFinalizers_def DefaultBackoff_Steps_def numeral_eq_Suc add_finalizers_attempt_def prog_simps
        GetService_def invoke_def demo_cloud_def demo_state_def)
  from finalizer_before_cloud_writes [OF this] show ?thesis by (simp add: demo_state_def)
qed



text \<open>
  The hash label settles: once \<open>addServiceLabels\<close> has stored the labels, the service
  counts as unchanged, so the next reconciliation leaves load balancer and listeners alone.
\<close>

theorem stored_hash_settles:
  "\<not> IsServiceHashChanged H (labels_added H lbId svc) \<and>
   map_of (svc_Labels (labels_added H lbId svc)) LabelServiceHash = Some (GetServiceHash H svc)"
  by (simp add: labels_added_unchanged labels_added_hash)

text \<open>
  A service that cannot be read (an error other than not found) is reported as
  cleaned: the reconciler goes on with an empty service, records the success event and
  returns no error, so the request is not retried.
\<close>

theorem unreadable_service_reported_clean:
  assumes "c_GetService C request (fx_world s) = (Inl (Errorf e), w)" and "\<not> c_IsNotFound C (Errorf e)"
  shows "reconcile cfg C iter H vpcId request s =
    (Inr (), s\<lparr>fx_world := w, fx_calls := fx_calls s @ [CGetService request, CEvent SucceedCleanLB]\<rparr>)"
  using assms
  by (simp add: reconcile_def GetService_def invoke_def prog_simps Let_def NeedDeleteLoadBalancer_def zero_service_def
      cleanupLoadBalancerResources_def HasFinalizer_def Event_def)

theorem unreadable_service_reported_clean_witness:
  "reconcile demo_config ((demo_cloud demo_service)\<lparr>c_GetService := \<lambda>_ w. (Inl (Errorf ''timeout''), w)\<rparr>)
     id (\<lambda>_ _ _. ''h'') ''vpc'' (''ns'', ''web'') demo_state =
   (Inr (), demo_state\<lparr>fx_calls := [CGetService (''ns'', ''web''), CEvent SucceedCleanLB]\<rparr>)"
  using unreadable_service_reported_clean
    [of "(demo_cloud demo_service)\<lparr>c_GetService := \<lambda>_ w. (Inl (Errorf ''timeout''), w)\<rparr>" "(''ns'', ''web'')" demo_state "''timeout''" "()"
      demo_config id "\<lambda>_ _ _. ''h''" "''vpc''"]
  by (simp add: demo_cloud_def demo_state_def)

text \<open>
  Removing the status gives up silently: when the service cannot be read, the retry
  loop treats the error as final and returns success, so the clean-up goes on to remove
  the finalizer with the status still in place.
\<close>

theorem status_removal_drops_read_errors:
  assumes "c_GetService C (NamespacedName svc) (fx_world s) = (Inl (Errorf e), w)"
  shows "fst (removeServiceStatus C svc s) = Inr ()"
  using assms
  by (simp add: removeServiceStatus_def status_Steps_def numeral_eq_Suc status_attempt_def GetService_def invoke_def
      prog_simps raise_opt_def Contains_def TRY_AGAIN_def sublist_code)

theorem status_removal_drops_read_errors_witness:
  "fst (removeServiceStatus ((demo_cloud demo_service)\<lparr>c_GetService := \<lambda>_ w. (Inl (Errorf ''timeout''), w)\<rparr>)
     (demo_service\<lparr>svc_Ingress := [\<lparr>ing_IP = [], ing_Hostname = ''h''\<rparr>]\<rparr>) demo_state) = Inr ()"
  by (rule status_removal_drops_read_errors [where e = "''timeout''" and w = "()"]) (simp add: demo_cloud_def)

end
