(* ===== verification/Event_Handlers.thy ===== *)
theory Event_Handlers
  imports Nlb_Controller "HOL-Library.Multiset"
begin

text \<open>
  The event handlers that feed the work queue of the service controller
  (\<open>service/event_handler.go\<close>): which changes of services, endpoints, endpoint slices
  and nodes lead to a request.  A handler returns the requests it adds to the queue.
\<close>

subsection \<open>Services\<close>

definition needUpdate :: "service \<Rightarrow> service \<Rightarrow> ('w, bool) nlb_prog" where
  "needUpdate oldSvc newSvc =
     (if \<not> NeedNLB oldSvc \<and> \<not> NeedNLB newSvc then returnP False
      else if NeedNLB oldSvc \<noteq> NeedNLB newSvc then bindP (Event TypeChanged) (\<lambda>_. returnP True)
      else if svc_UID oldSvc \<noteq> svc_UID newSvc then returnP True
      else if \<not> same_map (svc_Annotations oldSvc) (svc_Annotations newSvc) then
        bindP (Event AnnoChanged) (\<lambda>_. returnP True)
      else if svc_Spec oldSvc \<noteq> svc_Spec newSvc then bindP (Event SpecChanged) (\<lambda>_. returnP True)
      else if (svc_DeletionTimestamp oldSvc = None) \<noteq> (svc_DeletionTimestamp newSvc = None) then
        bindP (Event DeleteTimestampChanged) (\<lambda>_. returnP True)
      else returnP False)"

definition needAdd :: "service \<Rightarrow> bool" where
  "needAdd newService =
     (if NeedNLB newService then True else HasFinalizer newService NLBFinalizer)"

type_synonym request = "string \<times> string"

definition service_Create :: "service \<Rightarrow> request list" where
  "service_Create svc = (if needAdd svc then [NamespacedName svc] else [])"

definition service_Update :: "service \<Rightarrow> service \<Rightarrow> ('w, request list) nlb_prog" where
  "service_Update oldSvc newSvc =
     bindP (needUpdate oldSvc newSvc) (\<lambda>b. returnP (if b then [NamespacedName newSvc] else []))"

subsection \<open>Endpoints\<close>

record endpoints =
  ep_Namespace :: string
  ep_Name :: string
  ep_Annotations :: smap
  ep_Subsets :: "ep_subset list"

definition LeaderElectionRecordAnnotationKey :: string where
  "LeaderElectionRecordAnnotationKey = ''control-plane.alpha.kubernetes.io/leader''"

definition isEndpointProcessNeeded :: "'w cloud \<Rightarrow> endpoints option \<Rightarrow> ('w, bool) nlb_prog" where
  "isEndpointProcessNeeded C ep =
     (case ep of None \<Rightarrow> returnP False
      | Some e \<Rightarrow>
          if length (ep_Annotations e) \<noteq> 0 \<and> has_key (ep_Annotations e) LeaderElectionRecordAnnotationKey
          then returnP False
          else bindP (tryP (GetService C (ep_Namespace e, ep_Name e))) (\<lambda>r. case r of
             Inl _ \<Rightarrow> returnP False
           | Inr svc \<Rightarrow> returnP (NeedNLB svc)))"

definition endpoint_request :: "endpoints \<Rightarrow> request" where
  "endpoint_request e = (ep_Namespace e, ep_Name e)"

definition endpoint_Create :: "'w cloud \<Rightarrow> endpoints \<Rightarrow> ('w, request list) nlb_prog" where
  "endpoint_Create C ep =
     bindP (isEndpointProcessNeeded C (Some ep)) (\<lambda>b. returnP (if b then [endpoint_request ep] else []))"

definition endpoint_Update :: "'w cloud \<Rightarrow> endpoints \<Rightarrow> endpoints \<Rightarrow> ('w, request list) nlb_prog" where
  "endpoint_Update C ep1 ep2 =
     bindP (isEndpointProcessNeeded C (Some ep1)) (\<lambda>b.
     returnP (if b \<and> ep_Subsets ep1 \<noteq> ep_Subsets ep2 then [endpoint_request ep1] else []))"

definition endpoint_Delete :: "'w cloud \<Rightarrow> endpoints \<Rightarrow> ('w, request list) nlb_prog" where
  "endpoint_Delete C ep =
     bindP (isEndpointProcessNeeded C (Some ep)) (\<lambda>b. returnP (if b then [endpoint_request ep] else []))"

subsection \<open>Endpoint slices\<close>

definition LabelServiceName :: string where "LabelServiceName = ''kubernetes.io/service-name''"

definition isEndpointSliceProcessNeeded :: "'w cloud \<Rightarrow> endpoint_slice option \<Rightarrow> ('w, bool) nlb_prog" where
  "isEndpointSliceProcessNeeded C es =
     (case es of None \<Rightarrow> returnP False
      | Some e \<Rightarrow>
          (case map_of (es_Labels e) LabelServiceName of
             None \<Rightarrow> returnP False
           | Some serviceName \<Rightarrow>
               bindP (tryP (GetService C (es_Namespace e, serviceName))) (\<lambda>r. case r of
                  Inl _ \<Rightarrow> returnP False
                | Inr svc \<Rightarrow> returnP (NeedNLB svc))))"

definition isEndpointSliceUpdateNeeded :: "endpoint_slice \<Rightarrow> endpoint_slice \<Rightarrow> bool" where
  "isEndpointSliceUpdateNeeded old new \<longleftrightarrow> es_Endpoints old \<noteq> es_Endpoints new \<or> es_Ports old \<noteq> es_Ports new"

definition enqueueManagedEndpointSlice :: "endpoint_slice \<Rightarrow> request list" where
  "enqueueManagedEndpointSlice es =
     (case map_of (es_Labels es) LabelServiceName of
        None \<Rightarrow> [] | Some serviceName \<Rightarrow> [(es_Namespace es, serviceName)])"

definition endpointSlice_Create :: "'w cloud \<Rightarrow> endpoint_slice \<Rightarrow> ('w, request list) nlb_prog" where
  "endpointSlice_Create C es =
     bindP (isEndpointSliceProcessNeeded C (Some es)) (\<lambda>b.
     returnP (if b then enqueueManagedEndpointSlice es else []))"

definition endpointSlice_Update :: "'w cloud \<Rightarrow> endpoint_slice \<Rightarrow> endpoint_slice \<Rightarrow> ('w, request list) nlb_prog" where
  "endpointSlice_Update C es1 es2 =
     bindP (isEndpointSliceProcessNeeded C (Some es1)) (\<lambda>b.
     returnP (if b \<and> isEndpointSliceUpdateNeeded es1 es2 then enqueueManagedEndpointSlice es1 else []))"

definition endpointSlice_Delete :: "'w cloud \<Rightarrow> endpoint_slice \<Rightarrow> ('w, request list) nlb_prog" where
  "endpointSlice_Delete C es =
     bindP (isEndpointSliceProcessNeeded C (Some es)) (\<lambda>b.
     returnP (if b then enqueueManagedEndpointSlice es else []))"

subsection \<open>Nodes\<close>

text \<open>The sizes are compared first, so the loop over the old labels does not see a key only the new map has.\<close>

definition nodeLabelsChanged :: "smap \<Rightarrow> smap \<Rightarrow> bool" where
  "nodeLabelsChanged oldL newL =
     (if length oldL \<noteq> length newL then True
      else list_ex (\<lambda>(k, v). index_str newL k \<noteq> v) oldL)"

text \<open>
  \<open>sort.SliceStable\<close> with a comparison that is also true of equal types: insertion in
  one block (up to 20 elements), which puts an element in front of its equals.
\<close>

definition sort_conditions :: "node_condition list \<Rightarrow> node_condition list" where
  "sort_conditions cs = fold (insort_key cond_Type) cs []"

definition nodeConditionChanged :: "node_condition list \<Rightarrow> node_condition list \<Rightarrow> bool" where
  "nodeConditionChanged oldC newC =
     (if length oldC \<noteq> length newC then True
      else list_ex (\<lambda>(a, b). cond_Type a \<noteq> cond_Type b \<or> cond_Status a \<noteq> cond_Status b)
             (zip (sort_conditions oldC) (sort_conditions newC)))"

definition nodeSpecChanged :: "node \<Rightarrow> node \<Rightarrow> bool" where
  "nodeSpecChanged oldNode newNode =
     (if nodeLabelsChanged (node_Labels oldNode) (node_Labels newNode) then True
      else if node_Unschedulable oldNode \<noteq> node_Unschedulable newNode then True
      else nodeConditionChanged (node_Conditions oldNode) (node_Conditions newNode))"

definition canNodeSkipEventHandler :: "node \<Rightarrow> bool" where
  "canNodeSkipEventHandler node = (if HasExcludeLabel node then True else IsMasterNode node)"

definition enqueueManagedNode :: "'w cloud \<Rightarrow> ('w, request list) nlb_prog" where
  "enqueueManagedNode C =
     bindP (tryP (ListServices C)) (\<lambda>r. case r of
        Inl _ \<Rightarrow> returnP []
      | Inr svcs \<Rightarrow> returnP (map NamespacedName (filter NeedNLB svcs)))"

definition node_Create :: "'w cloud \<Rightarrow> node \<Rightarrow> ('w, request list) nlb_prog" where
  "node_Create C node = (if \<not> canNodeSkipEventHandler node then enqueueManagedNode C else returnP [])"

definition node_Update :: "'w cloud \<Rightarrow> node \<Rightarrow> node \<Rightarrow> ('w, request list) nlb_prog" where
  "node_Update C oldNode newNode =
     (if canNodeSkipEventHandler oldNode \<and> canNodeSkipEventHandler newNode then returnP []
      else if nodeSpecChanged oldNode newNode then enqueueManagedNode C
      else returnP [])"

definition node_Delete :: "'w cloud \<Rightarrow> node \<Rightarrow> ('w, request list) nlb_prog" where
  "node_Delete C node = (if \<not> canNodeSkipEventHandler node then enqueueManagedNode C else returnP [])"

subsection \<open>What the comparisons see\<close>

lemma index_str_map_of: "index_str m k = (case map_of m k of Some v \<Rightarrow> v | None \<Rightarrow> [])"
  by (simp add: index_str_def split: option.split)

lemma nodeLabelsChanged_sound:
  assumes "smap_wf oldL" "smap_wf newL" "nodeLabelsChanged oldL newL"
  shows "map_of oldL \<noteq> map_of newL"
proof
  assume eq: "map_of oldL = map_of newL"
  have "length oldL = card (dom (map_of oldL))" "length newL = card (dom (map_of newL))"
    using assms(1,2) by (metis card_set dom_map_of_conv_image_fst list.set_map remdups_id_iff_distinct smap_wf_def length_map distinct_card)+
  with eq have "length oldL = length newL" by simp
  with assms(3) obtain k v where kv: "(k, v) \<in> set oldL" "index_str newL k \<noteq> v"
    by (auto simp: nodeLabelsChanged_def list_ex_iff)
  from kv(1) assms(1) have "map_of oldL k = Some v" by (simp add: smap_wf_def)
  with eq kv(2) show False by (simp add: index_str_map_of)
qed

lemma nodeLabelsChanged_complete:
  assumes wf: "smap_wf oldL" "smap_wf newL" and ne: "[] \<notin> snd ` set oldL"
    and unchanged: "\<not> nodeLabelsChanged oldL newL"
  shows "map_of oldL = map_of newL"
proof -
  have len: "length oldL = length newL" and idx: "\<forall>(k, v) \<in> set oldL. index_str newL k = v"
    using unchanged by (auto simp: nodeLabelsChanged_def list_ex_iff split: if_splits)
  have sub: "map_of newL k = Some v" if "map_of oldL k = Some v" for k v
  proof -
    from that have "(k, v) \<in> set oldL" by (rule map_of_SomeD)
    with idx ne have "index_str newL k = v" "v \<noteq> []" by force+
    then show ?thesis by (auto simp: index_str_map_of split: option.splits)
  qed
  then have le: "map_of oldL \<subseteq>\<^sub>m map_of newL" by (auto simp: map_le_def)
  have card: "card (dom (map_of m)) = length m" if "smap_wf m" for m :: smap
    using that by (metis distinct_card dom_map_of_conv_image_fst length_map list.set_map smap_wf_def)
  have "dom (map_of oldL) = dom (map_of newL)"
    using map_le_implies_dom_le [OF le] card [OF wf(1)] card [OF wf(2)] len
    by (intro card_subset_eq) (auto simp: finite_dom_map_of)
  with le show ?thesis by (metis map_le_antisym map_le_def)
qed

definition type_status :: "node_condition \<Rightarrow> string \<times> string" where
  "type_status c = (cond_Type c, cond_Status c)"

lemma sort_conditions_sort_key: "sort_conditions cs = sort_key cond_Type (rev cs)"
  by (simp add: sort_conditions_def sort_key_def foldr_conv_fold)

lemma sort_conditions_props:
  "length (sort_conditions cs) = length cs" "mset (sort_conditions cs) = mset cs"
  "sorted (map cond_Type (sort_conditions cs))"
  by (simp_all add: sort_conditions_sort_key)

lemma distinct_sort_map: "distinct (map cond_Type (sort_conditions cs)) \<longleftrightarrow> distinct (map cond_Type cs)"
  by (rule mset_eq_imp_distinct_iff) (simp add: sort_conditions_props(2))

lemma nodeConditionChanged_sorted:
  "\<not> nodeConditionChanged oldC newC \<longleftrightarrow>
     map type_status (sort_conditions oldC) = map type_status (sort_conditions newC)"
proof -
  have "\<not> list_ex (\<lambda>(a, b). cond_Type a \<noteq> cond_Type b \<or> cond_Status a \<noteq> cond_Status b) (zip xs ys) \<longleftrightarrow>
      map type_status xs = map type_status ys" if "length xs = length ys" for xs ys
    using that by (induction xs ys rule: list_induct2) (auto simp: type_status_def)
  then have eq: "length oldC = length newC \<Longrightarrow> ?thesis"
    by (simp add: nodeConditionChanged_def sort_conditions_props(1))
  have "length oldC = length newC"
    if "map type_status (sort_conditions oldC) = map type_status (sort_conditions newC)"
    using map_eq_imp_length_eq [OF that] by (simp add: sort_conditions_props(1))
  with eq show ?thesis by (cases "length oldC = length newC") (auto simp: nodeConditionChanged_def)
qed

lemma nodeConditionChanged_iff:
  assumes "distinct (map cond_Type oldC)"
  shows "nodeConditionChanged oldC newC \<longleftrightarrow> mset (map type_status oldC) \<noteq> mset (map type_status newC)"
proof -
  define A where "A = map type_status (sort_conditions oldC)"
  define B where "B = map type_status (sort_conditions newC)"
  have mA: "mset A = mset (map type_status oldC)" and mB: "mset B = mset (map type_status newC)"
    by (simp_all add: A_def B_def sort_conditions_props(2))
  have fsts: "map fst A = map cond_Type (sort_conditions oldC)" "map fst B = map cond_Type (sort_conditions newC)"
    by (simp_all add: A_def B_def type_status_def)
  have "distinct (map fst A)"
    unfolding fsts using assms by (simp add: distinct_sort_map)
  then have inj: "inj_on fst (set A)" by (simp add: distinct_map)
  have "A = B" if "mset A = mset B"
    using sort_key_inj_key_eq [OF refl inj] sort_key_inj_key_eq [OF that inj]
    by (simp add: fsts sort_conditions_props(3))
  moreover have "mset A = mset B" if "A = B" using that by simp
  ultimately show ?thesis
    using nodeConditionChanged_sorted [of oldC newC] unfolding A_def [symmetric] B_def [symmetric] mA mB by blast
qed

lemma needUpdate_False:
  assumes "needUpdate old new s = (Inr False, t)" and "NeedNLB old \<or> NeedNLB new"
  shows "NeedNLB old = NeedNLB new" "svc_UID old = svc_UID new" "svc_Spec old = svc_Spec new"
    "map_of (svc_Annotations old) = map_of (svc_Annotations new)"
    "(svc_DeletionTimestamp old = None) = (svc_DeletionTimestamp new = None)"
  using assms by (auto simp: needUpdate_def prog_simps Event_def invoke_def same_map_iff split: if_splits)

subsection \<open>Properties\<close>

text \<open>
  (C36) No update is lost: if the update event of a service that is or was of class NLB is
  dropped, then class, uid, specification, annotations and deletion state are the same
  before and after.
\<close>

theorem dropped_update_changes_nothing:
  assumes "service_Update old new s = (Inr [], t)" and "NeedNLB old \<or> NeedNLB new"
  shows "NeedNLB old = NeedNLB new \<and> svc_UID old = svc_UID new \<and> svc_Spec old = svc_Spec new \<and>
    map_of (svc_Annotations old) = map_of (svc_Annotations new) \<and>
    (svc_DeletionTimestamp old = None) = (svc_DeletionTimestamp new = None)"
proof -
  obtain b where "needUpdate old new s = (Inr b, t)" "\<not> b"
    using assms(1) by (auto simp: service_Update_def prog_simps split: prod.splits sum.splits if_splits)
  with needUpdate_False [of old new s t] assms(2) show ?thesis by simp
qed

theorem dropped_update_changes_nothing_witness:
  "service_Update demo_service (demo_service\<lparr>svc_Labels := [(''a'', ''b'')]\<rparr>) demo_state = (Inr [], demo_state) \<and>
   svc_Spec demo_service = svc_Spec (demo_service\<lparr>svc_Labels := [(''a'', ''b'')]\<rparr>)"
proof -
  have run: "service_Update demo_service (demo_service\<lparr>svc_Labels := [(''a'', ''b'')]\<rparr>) demo_state = (Inr [], demo_state)"
    by (simp add: service_Update_def needUpdate_def prog_simps NeedNLB_def same_map_def demo_service_def)
  with dropped_update_changes_nothing [OF run] show ?thesis by (simp add: NeedNLB_def demo_service_def)
qed

text \<open>
  The condition comparison of two states of a node: with one condition of each type
  it reports a change exactly when some type or status differs, in whatever order the
  conditions are listed and whatever their heartbeats are.
\<close>

theorem condition_change_exact:
  assumes "distinct (map cond_Type oldC)"
  shows "nodeConditionChanged oldC newC \<longleftrightarrow> mset (map type_status oldC) \<noteq> mset (map type_status newC)"
  by (rule nodeConditionChanged_iff [OF assms])

theorem condition_change_exact_witness:
  "\<not> nodeConditionChanged
     [\<lparr>cond_Type = ''Ready'', cond_Status = ''True'', cond_LastHeartbeatTime = 1\<rparr>,
      \<lparr>cond_Type = ''DiskPressure'', cond_Status = ''False'', cond_LastHeartbeatTime = 1\<rparr>]
     [\<lparr>cond_Type = ''DiskPressure'', cond_Status = ''False'', cond_LastHeartbeatTime = 9\<rparr>,
      \<lparr>cond_Type = ''Ready'', cond_Status = ''True'', cond_LastHeartbeatTime = 9\<rparr>]"
  by (subst condition_change_exact) (simp_all add: type_status_def)

text \<open>
  The label comparison of two states of a node is exact when no old label has an empty
  value: it reports a change exactly when the label maps differ.
\<close>

theorem label_change_exact:
  assumes "smap_wf oldL" and "smap_wf newL" and "[] \<notin> snd ` set oldL"
  shows "nodeLabelsChanged oldL newL \<longleftrightarrow> map_of oldL \<noteq> map_of newL"
  using nodeLabelsChanged_sound nodeLabelsChanged_complete assms by blast

theorem label_change_exact_witness:
  "nodeLabelsChanged [(''zone'', ''a'')] [(''zone'', ''b'')]"
  by (subst label_change_exact) (auto simp: smap_wf_def dest: fun_cong [where x = "''zone''"])

text \<open>
  With an empty value the comparison misses a change: replacing a label without value
  by another label goes unnoticed, because a missing key reads as the empty string and
  the reverse direction is not compared.
\<close>

theorem label_change_missed:
  assumes "k \<noteq> k'" and "k \<notin> fst ` set rest" and "k' \<notin> fst ` set rest" and "smap_wf rest"
  shows "\<not> nodeLabelsChanged ((k, []) # rest) ((k', v) # rest) \<and>
    map_of ((k, []) # rest) \<noteq> map_of ((k', v) # rest)"
proof
  have "index_str ((k', v) # rest) j = w" if "(j, w) \<in> set rest" for j w
    using that assms(3,4) by (force simp: index_str_map_of smap_wf_def)
  moreover have "index_str ((k', v) # rest) k = []"
    using assms(1,2) by (simp add: index_str_map_of map_of_eq_None_iff split: option.split) (metis image_eqI map_of_SomeD fst_conv)
  ultimately show "\<not> nodeLabelsChanged ((k, []) # rest) ((k', v) # rest)"
    by (auto simp: nodeLabelsChanged_def list_ex_iff)
  have "map_of ((k, []) # rest) k \<noteq> map_of ((k', v) # rest) k"
    using assms(1,2) by (simp add: map_of_eq_None_iff [symmetric])
  then show "map_of ((k, []) # rest) \<noteq> map_of ((k', v) # rest)" by metis
qed

theorem label_change_missed_witness:
  "\<not> nodeLabelsChanged [(''node-role.kubernetes.io/worker'', [])] [(''service.alibabacloud.com/exclude-node'', ''true'')]"
  using label_change_missed [of "''node-role.kubernetes.io/worker''" "''service.alibabacloud.com/exclude-node''" "[]" "''true''"]
  by (simp add: smap_wf_def)

end
