(* ===== verification/Resource_Graph.thy ===== *)
theory Resource_Graph
  imports Go_Base "HOL-Library.Multiset"
begin

text \<open>
  The resource graph of the ingress controller (\<open>pkg/model/alb/core/graph\<close>): the
  interface \<open>ResourceGraph\<close> as a locale, its default implementation, and the
  topological traversal.  The traversal sees a graph through its two observers.  The
  order in which Go ranges over the map of in-degrees is the parameter \<open>iter\<close>.
\<close>

subsection \<open>Graphs\<close>

type_synonym resource_uid = "string \<times> string"

record 'u resource_graph =
  rg_nodes :: "'u list"
  rg_outEdges :: "('u \<times> 'u list) list"

definition NewDefaultResourceGraph :: "'u resource_graph" where
  "NewDefaultResourceGraph = \<lparr>rg_nodes = [], rg_outEdges = []\<rparr>"

definition Nodes :: "'u resource_graph \<Rightarrow> 'u list" where
  "Nodes g = rg_nodes g"

definition OutEdgeNodes :: "'u resource_graph \<Rightarrow> 'u \<Rightarrow> 'u list" where
  "OutEdgeNodes g n = (case map_of (rg_outEdges g) n of None \<Rightarrow> [] | Some vs \<Rightarrow> vs)"

definition AddNode :: "'u \<Rightarrow> 'u resource_graph \<Rightarrow> 'u resource_graph" where
  "AddNode n g = g\<lparr>rg_nodes := rg_nodes g @ [n]\<rparr>"

definition AddEdge :: "'u \<Rightarrow> 'u \<Rightarrow> 'u resource_graph \<Rightarrow> 'u resource_graph" where
  "AddEdge src dst g = g\<lparr>rg_outEdges := map_set src (OutEdgeNodes g src @ [dst]) (rg_outEdges g)\<rparr>"

subsection \<open>Traversal\<close>

text \<open>The map of in-degrees; a missing key reads as zero.\<close>

type_synonym 'u degrees = "('u \<times> int) list"

definition deg_of :: "'u degrees \<Rightarrow> 'u \<Rightarrow> int" where
  "deg_of deg k = (case map_of deg k of None \<Rightarrow> 0 | Some d \<Rightarrow> d)"

definition deg_add :: "int \<Rightarrow> 'u \<Rightarrow> 'u degrees \<Rightarrow> 'u degrees" where
  "deg_add i k deg = map_set k (deg_of deg k + i) deg"

definition indegrees :: "'u list \<Rightarrow> ('u \<Rightarrow> 'u list) \<Rightarrow> 'u degrees" where
  "indegrees nodes out =
     fold (\<lambda>node deg. fold (deg_add 1) (out node)
             (if has_key deg node then deg else map_set node 0 deg)) nodes []"

text \<open>The loop over the out-edges of a visited node.\<close>

definition relax_edge :: "'u \<Rightarrow> 'u degrees \<times> 'u list \<Rightarrow> 'u degrees \<times> 'u list" where
  "relax_edge v st =
     (case st of (deg, queue) \<Rightarrow>
        let deg = deg_add (-1) v deg in (deg, if deg_of deg v = 0 then queue @ [v] else queue))"

definition relax :: "'u list \<Rightarrow> 'u degrees \<Rightarrow> 'u list \<Rightarrow> 'u degrees \<times> 'u list" where
  "relax vs deg queue = fold relax_edge vs (deg, queue)"

definition positives :: "'u degrees \<Rightarrow> nat" where
  "positives deg = length (filter (\<lambda>(_, d). d > 0) deg)"

lemma positives_map_set:
  "positives (map_set k v deg) + (if deg_of deg k > 0 then 1 else 0) = positives deg + (if v > 0 then 1 else 0)"
  by (induction k v deg rule: map_set.induct) (auto simp: positives_def deg_of_def)

lemma deg_of_map_set: "deg_of (map_set k v deg) j = (if j = k then v else deg_of deg j)"
  by (simp add: deg_of_def map_of_map_set)

lemma deg_of_add: "deg_of (deg_add i k deg) j = deg_of deg j + (if j = k then i else 0)"
  by (simp add: deg_add_def deg_of_map_set)

lemma relax_measure:
  "positives (fst (relax vs deg queue)) + length (snd (relax vs deg queue)) = positives deg + length queue"
proof (induction vs arbitrary: deg queue)
  case Nil
  then show ?case by (simp add: relax_def)
next
  case (Cons v vs)
  have step: "relax (v # vs) deg queue = relax vs (fst (relax_edge v (deg, queue))) (snd (relax_edge v (deg, queue)))"
    by (simp add: relax_def)
  have "positives (fst (relax_edge v (deg, queue))) + length (snd (relax_edge v (deg, queue))) =
      positives deg + length queue"
    using positives_map_set [of v "deg_of deg v - 1" deg]
    by (cases "deg_of deg v = 1") (auto simp: relax_edge_def Let_def deg_add_def deg_of_map_set split: if_splits)
  with Cons.IH step show ?case by simp
qed

text \<open>
  The main loop.  A push happens only when a counter goes from one to zero, so the
  number of positive counters plus the length of the queue falls in every round.
\<close>

function traverse ::
  "('u \<Rightarrow> 'u list) \<Rightarrow> ('u \<Rightarrow> ('s, unit) prog) \<Rightarrow> 'u degrees \<Rightarrow> 'u list \<Rightarrow> ('s, 'u degrees) prog" where
  "traverse out visit deg queue =
     (if queue = [] then returnP deg
      else bindP (visit (last queue)) (\<lambda>_.
           traverse out visit (fst (relax (out (last queue)) deg (butlast queue)))
             (snd (relax (out (last queue)) deg (butlast queue)))))"
  by pat_completeness auto
termination
  by (relation "measure (\<lambda>(out, visit, deg, queue). positives deg + length queue)")
    (auto simp: case_prod_beta relax_measure)

declare traverse.simps [simp del]

definition TopologicalTraversal ::
  "('u degrees \<Rightarrow> 'u degrees) \<Rightarrow> 'u list \<Rightarrow> ('u \<Rightarrow> 'u list) \<Rightarrow> ('u \<Rightarrow> ('s, unit) prog) \<Rightarrow> ('s, unit) prog" where
  "TopologicalTraversal iter nodes out visitFunc =
     (let deg = indegrees nodes out;
          queue = map fst (filter (\<lambda>(_, d). d = 0) (iter deg))
      in bindP (traverse out visitFunc deg queue) (\<lambda>deg.
           if list_ex (\<lambda>(_, d). d > 0) deg then throwP (Errorf ''ResourceGraph is not a DAG'')
           else returnP ()))"

subsection \<open>The interface\<close>

definition wf_graph :: "'u list \<Rightarrow> ('u \<Rightarrow> 'u list) \<Rightarrow> bool" where
  "wf_graph nodes out \<longleftrightarrow> distinct nodes \<and> (\<forall>u. set (out u) \<subseteq> set nodes) \<and> (\<forall>u. out u \<noteq> [] \<longrightarrow> u \<in> set nodes)"

locale graph_interface =
  fixes empty :: 'g and add_node :: "'u \<Rightarrow> 'g \<Rightarrow> 'g" and add_edge :: "'u \<Rightarrow> 'u \<Rightarrow> 'g \<Rightarrow> 'g"
    and nodes :: "'g \<Rightarrow> 'u list" and out :: "'g \<Rightarrow> 'u \<Rightarrow> 'u list"
  assumes nodes_empty: "nodes empty = []" and out_empty: "out empty u = []"
    and nodes_add_node: "nodes (add_node n g) = nodes g @ [n]"
    and out_add_node: "out (add_node n g) u = out g u"
    and nodes_add_edge: "nodes (add_edge s d g) = nodes g"
    and out_add_edge: "out (add_edge s d g) u = (if u = s then out g u @ [d] else out g u)"
begin

lemma wf_empty: "wf_graph (nodes empty) (out empty)"
  by (simp add: wf_graph_def nodes_empty out_empty)

lemma wf_add_node:
  "wf_graph (nodes g) (out g) \<Longrightarrow> n \<notin> set (nodes g) \<Longrightarrow> wf_graph (nodes (add_node n g)) (out (add_node n g))"
  by (auto simp: wf_graph_def nodes_add_node out_add_node)

lemma wf_add_edge:
  "wf_graph (nodes g) (out g) \<Longrightarrow> s \<in> set (nodes g) \<Longrightarrow> d \<in> set (nodes g) \<Longrightarrow>
   wf_graph (nodes (add_edge s d g)) (out (add_edge s d g))"
  by (auto simp: wf_graph_def nodes_add_edge out_add_edge split: if_splits)

end

interpretation default_graph: graph_interface NewDefaultResourceGraph AddNode AddEdge Nodes OutEdgeNodes
  by unfold_locales
    (auto simp: NewDefaultResourceGraph_def AddNode_def AddEdge_def Nodes_def OutEdgeNodes_def map_of_map_set)

subsection \<open>The visiting order\<close>

text \<open>The traversal without the visits: the order of the nodes and the counters that remain.\<close>

function topo_run :: "('u \<Rightarrow> 'u list) \<Rightarrow> 'u degrees \<Rightarrow> 'u list \<Rightarrow> 'u list \<times> 'u degrees" where
  "topo_run out deg queue =
     (if queue = [] then ([], deg)
      else let rest = topo_run out (fst (relax (out (last queue)) deg (butlast queue)))
             (snd (relax (out (last queue)) deg (butlast queue)))
           in (last queue # fst rest, snd rest))"
  by pat_completeness auto
termination
  by (relation "measure (\<lambda>(out, deg, queue). positives deg + length queue)")
    (auto simp: case_prod_beta relax_measure)

declare topo_run.simps [simp del]

lemma bindP_assoc: "bindP (bindP m f) g = bindP m (\<lambda>x. bindP (f x) g)"
  by (rule ext) (simp add: bindP_def split: prod.splits sum.splits)

lemma bindP_return_left [simp]: "bindP (returnP x) f = f x"
  by (rule ext) (simp add: bindP_def returnP_def)

lemma traverse_run:
  "traverse out visit deg queue =
     bindP (forP visit (fst (topo_run out deg queue))) (\<lambda>_. returnP (snd (topo_run out deg queue)))"
proof (induction out deg queue rule: topo_run.induct)
  case (1 out deg queue)
  show ?case
  proof (cases "queue = []")
    case True
    then show ?thesis by (simp add: traverse.simps [of _ _ _ "[]"] topo_run.simps [of _ _ "[]"])
  next
    case False
    with 1 [OF False] show ?thesis
      by (simp add: traverse.simps [of _ _ _ queue] topo_run.simps [of _ _ queue] Let_def bindP_assoc)
  qed
qed

text \<open>Number of edges from \<open>S\<close> to \<open>k\<close>.\<close>

definition indeg :: "('u \<Rightarrow> 'u list) \<Rightarrow> 'u set \<Rightarrow> 'u \<Rightarrow> nat" where
  "indeg out S k = (\<Sum>u \<in> S. count_list (out u) k)"

lemma deg_of_fold_add: "deg_of (fold (deg_add i) vs deg) k = deg_of deg k + i * int (count_list vs k)"
  by (induction vs arbitrary: deg) (auto simp: deg_of_add algebra_simps)

lemma deg_of_indegrees_acc:
  assumes "distinct nodes"
  shows "deg_of (fold (\<lambda>node deg. fold (deg_add 1) (out node)
             (if has_key deg node then deg else map_set node 0 deg)) nodes deg) k =
    deg_of deg k + int (indeg out (set nodes) k)"
  using assms
proof (induction nodes arbitrary: deg)
  case Nil
  then show ?case by (simp add: indeg_def)
next
  case (Cons n nodes)
  have "deg_of (if has_key deg n then deg else map_set n 0 deg) k = deg_of deg k"
    by (auto simp: deg_of_map_set) (simp add: deg_of_def has_key_map_of)
  with Cons show ?case by (simp add: deg_of_fold_add indeg_def)
qed

lemma deg_of_indegrees:
  "distinct nodes \<Longrightarrow> deg_of (indegrees nodes out) k = int (indeg out (set nodes) k)"
  unfolding indegrees_def by (simp add: deg_of_indegrees_acc) (simp add: deg_of_def)

lemma keys_fold_deg_add: "fst ` set (fold (deg_add i) vs deg) = set vs \<union> fst ` set deg"
  by (induction vs arbitrary: deg) (auto simp: deg_add_def keys_map_set)

lemma keys_indegrees_acc:
  "fst ` set (fold (\<lambda>node deg. fold (deg_add 1) (out node)
             (if has_key deg node then deg else map_set node 0 deg)) nodes deg) =
     fst ` set deg \<union> set nodes \<union> (\<Union>n \<in> set nodes. set (out n))"
proof (induction nodes arbitrary: deg)
  case Nil
  then show ?case by simp
next
  case (Cons n nodes)
  have "fst ` set (if has_key deg n then deg else map_set n 0 deg) = insert n (fst ` set deg)"
    by (auto simp: keys_map_set) (auto simp: has_key_map_of map_of_eq_None_iff image_iff)
  with Cons show ?case by (auto simp: keys_fold_deg_add)
qed

lemma keys_indegrees: "wf_graph nodes out \<Longrightarrow> fst ` set (indegrees nodes out) = set nodes"
  unfolding indegrees_def keys_indegrees_acc by (auto simp: wf_graph_def)

lemma smap_wf_indegrees: "smap_wf (indegrees nodes out)"
proof -
  have add: "smap_wf deg \<Longrightarrow> smap_wf (fold (deg_add i) vs deg)" for i vs and deg :: "'a degrees"
    by (induction vs arbitrary: deg) (auto simp: deg_add_def smap_wf_map_set)
  have "smap_wf deg \<Longrightarrow> smap_wf (fold (\<lambda>node deg. fold (deg_add 1) (out node)
             (if has_key deg node then deg else map_set node 0 deg)) nodes deg)" for deg
    by (induction nodes arbitrary: deg) (auto simp: smap_wf_map_set add)
  from this [of "[]"] show ?thesis by (simp add: indegrees_def smap_wf_def)
qed

subsection \<open>Correctness of the order\<close>

lemma relax_deg: "deg_of (fst (relax vs deg queue)) k = deg_of deg k - int (count_list vs k)"
proof (induction vs arbitrary: deg queue)
  case Nil
  then show ?case by (simp add: relax_def)
next
  case (Cons v vs)
  then show ?case by (simp add: relax_def relax_edge_def Let_def deg_of_add split: prod.splits)
qed

lemma relax_queue:
  obtains hits where "snd (relax vs deg queue) = queue @ hits" and "distinct hits"
    and "set hits = {k. 0 < deg_of deg k \<and> deg_of deg k \<le> int (count_list vs k)}"
proof (induction vs arbitrary: deg queue thesis)
  case Nil
  then show ?case by (auto simp: relax_def)
next
  case (Cons v vs)
  define deg' where "deg' = deg_add (-1) v deg"
  define push where "push = (if deg_of deg' v = 0 then [v] else [])"
  have step: "relax (v # vs) deg queue = relax vs deg' (queue @ push)"
    by (simp add: relax_def relax_edge_def Let_def deg'_def push_def)
  obtain hits where hits: "snd (relax vs deg' (queue @ push)) = (queue @ push) @ hits" "distinct hits"
    "set hits = {k. 0 < deg_of deg' k \<and> deg_of deg' k \<le> int (count_list vs k)}"
    using Cons.IH by blast
  have d': "deg_of deg' k = deg_of deg k - (if k = v then 1 else 0)" for k
    by (simp add: deg'_def deg_of_add)
  have "distinct (push @ hits)" using hits(2,3) by (simp add: push_def)
  moreover have "set (push @ hits) = {k. 0 < deg_of deg k \<and> deg_of deg k \<le> int (count_list (v # vs) k)}"
    unfolding set_append hits(3) push_def by (auto simp: d' split: if_splits)
  ultimately show ?case using Cons.prems [of "push @ hits"] step hits(1) by simp
qed

text \<open>
  Invariant, with \<open>V\<close> the visited nodes: a counter is the number of edges from nodes
  not yet visited, the queue holds the unvisited nodes without such edges, and no
  such edge leads to a visited node.
\<close>

definition topo_inv :: "'u set \<Rightarrow> ('u \<Rightarrow> 'u list) \<Rightarrow> 'u set \<Rightarrow> 'u degrees \<Rightarrow> 'u list \<Rightarrow> bool" where
  "topo_inv N out V deg queue \<longleftrightarrow> V \<subseteq> N \<and> distinct queue \<and> (\<forall>k \<in> V. indeg out (N - V) k = 0) \<and>
     (\<forall>k. deg_of deg k = int (indeg out (N - V) k)) \<and>
     set queue = {k \<in> N. k \<notin> V \<and> indeg out (N - V) k = 0}"

lemma indeg_remove:
  assumes "finite S" "u \<in> S"
  shows "indeg out S k = count_list (out u) k + indeg out (S - {u}) k"
  using assms by (simp add: indeg_def sum.remove)

lemma set_butlast: "distinct xs \<Longrightarrow> xs \<noteq> [] \<Longrightarrow> set (butlast xs) = set xs - {last xs}"
  by (cases xs rule: rev_cases) auto

lemma topo_inv_step:
  assumes fin: "finite N" and closed: "\<forall>u. set (out u) \<subseteq> N"
    and inv: "topo_inv N out V deg queue" and ne: "queue \<noteq> []"
  shows "topo_inv N out (insert (last queue) V) (fst (relax (out (last queue)) deg (butlast queue)))
    (snd (relax (out (last queue)) deg (butlast queue)))"
proof -
  let ?n = "last queue"
  have q: "set queue = {k \<in> N. k \<notin> V \<and> indeg out (N - V) k = 0}" "distinct queue" "V \<subseteq> N"
    and d: "\<And>k. deg_of deg k = int (indeg out (N - V) k)" and v: "\<And>k. k \<in> V \<Longrightarrow> indeg out (N - V) k = 0"
    using inv unfolding topo_inv_def by blast+
  have n: "?n \<in> N" "?n \<notin> V" "indeg out (N - V) ?n = 0" using q(1) last_in_set [OF ne] by blast+
  have rem: "indeg out (N - V) k = count_list (out ?n) k + indeg out (N - insert ?n V) k" for k
    using indeg_remove [of "N - V" ?n out k] n(1,2) fin unfolding Diff_insert [of N ?n V] by blast
  obtain hits where hits: "snd (relax (out ?n) deg (butlast queue)) = butlast queue @ hits" "distinct hits"
    "set hits = {k. 0 < deg_of deg k \<and> deg_of deg k \<le> int (count_list (out ?n) k)}"
    by (rule relax_queue)
  have out: "k \<in> N" if "0 < count_list (out ?n) k" for k
    using that closed count_list_0_iff [of "out ?n" k] by (cases "k \<in> set (out ?n)") auto
  have hs: "set hits = {k \<in> N. k \<notin> V \<and> 0 < indeg out (N - V) k \<and> indeg out (N - insert ?n V) k = 0}"
  proof (intro equalityI subsetI)
    fix k
    assume "k \<in> set hits"
    then have "0 < indeg out (N - V) k" "indeg out (N - V) k \<le> count_list (out ?n) k"
      unfolding hits(3) d mem_Collect_eq by linarith+
    moreover have "k \<notin> V" using v [of k] calculation(1) by linarith
    moreover have "k \<in> N" using out [of k] calculation(1,2) by linarith
    ultimately show "k \<in> {k \<in> N. k \<notin> V \<and> 0 < indeg out (N - V) k \<and> indeg out (N - insert ?n V) k = 0}"
      unfolding mem_Collect_eq using rem [of k] by linarith
  next
    fix k
    assume "k \<in> {k \<in> N. k \<notin> V \<and> 0 < indeg out (N - V) k \<and> indeg out (N - insert ?n V) k = 0}"
    then have "0 < indeg out (N - V) k" "indeg out (N - insert ?n V) k = 0" by blast+
    with rem [of k] show "k \<in> set hits" unfolding hits(3) d mem_Collect_eq by linarith
  qed
  have n0: "k = ?n \<Longrightarrow> \<not> 0 < indeg out (N - V) k" for k using n(3) by blast
  have le: "indeg out (N - V) k = 0 \<Longrightarrow> indeg out (N - insert ?n V) k = 0" for k
    using rem [of k] by linarith
  have "set (butlast queue @ hits) = {k \<in> N. k \<notin> insert ?n V \<and> indeg out (N - insert ?n V) k = 0}"
  proof (rule set_eqI)
    fix k
    show "k \<in> set (butlast queue @ hits) \<longleftrightarrow>
        k \<in> {k \<in> N. k \<notin> insert ?n V \<and> indeg out (N - insert ?n V) k = 0}"
      unfolding set_append hs set_butlast [OF q(2) ne] q(1) using n0 [of k] le [of k]
      by (cases "indeg out (N - V) k = 0") auto
  qed
  moreover have "set (butlast queue) \<inter> set hits = {}"
    unfolding hs set_butlast [OF q(2) ne] q(1) by auto
  then have "distinct (butlast queue @ hits)"
    using hits(2) q(2) by (simp add: distinct_butlast)
  moreover have "deg_of (fst (relax (out ?n) deg (butlast queue))) k = int (indeg out (N - insert ?n V) k)" for k
    unfolding relax_deg d rem [of k] by simp
  moreover have "\<forall>k \<in> insert ?n V. indeg out (N - insert ?n V) k = 0"
  proof
    fix k
    assume "k \<in> insert ?n V"
    then show "indeg out (N - insert ?n V) k = 0"
      using le [of k] v [of k] n(3) by (cases "k = ?n") simp_all
  qed
  ultimately show ?thesis using q(3) n(1) unfolding topo_inv_def hits(1) by blast
qed

text \<open>Every node of the order comes after all its predecessors.\<close>

fun topo_sorted :: "'u set \<Rightarrow> ('u \<Rightarrow> 'u list) \<Rightarrow> 'u set \<Rightarrow> 'u list \<Rightarrow> bool" where
  "topo_sorted N out V [] \<longleftrightarrow> True"
| "topo_sorted N out V (x # xs) \<longleftrightarrow> x \<in> N \<and> x \<notin> V \<and> (\<forall>u \<in> N. x \<in> set (out u) \<longrightarrow> u \<in> V) \<and>
     topo_sorted N out (insert x V) xs"

lemma indeg_zero: "finite S \<Longrightarrow> indeg out S k = 0 \<longleftrightarrow> (\<forall>u \<in> S. k \<notin> set (out u))"
  by (simp add: indeg_def count_list_0_iff)

lemma topo_run_correct:
  assumes "finite N" and "\<forall>u. set (out u) \<subseteq> N" and "topo_inv N out V deg queue"
    and "topo_run out deg queue = (xs, deg')"
  shows "topo_sorted N out V xs \<and> topo_inv N out (V \<union> set xs) deg' []"
  using assms(2-4)
proof (induction out deg queue arbitrary: V xs rule: topo_run.induct)
  case (1 out deg queue)
  show ?case
  proof (cases "queue = []")
    case True
    with 1 show ?thesis by (simp add: topo_run.simps [of _ _ "[]"])
  next
    case False
    let ?r = "relax (out (last queue)) deg (butlast queue)"
    obtain ys where ys: "topo_run out (fst ?r) (snd ?r) = (ys, deg')" "xs = last queue # ys"
      using "1.prems"(3) False
      by (cases "topo_run out (fst ?r) (snd ?r)") (simp add: topo_run.simps [of _ _ queue] Let_def)
    have "last queue \<in> set queue" using False by simp
    with "1.prems"(2) have l: "last queue \<in> N" "last queue \<notin> V" "indeg out (N - V) (last queue) = 0"
      by (auto simp: topo_inv_def)
    then have pre: "\<forall>u \<in> N. last queue \<in> set (out u) \<longrightarrow> u \<in> V" using \<open>finite N\<close> by (auto simp: indeg_zero)
    have "topo_sorted N out (insert (last queue) V) ys \<and> topo_inv N out (insert (last queue) V \<union> set ys) deg' []"
      by (rule "1.IH" [OF False "1.prems"(1) topo_inv_step [OF \<open>finite N\<close> "1.prems"(1,2) False] ys(1)])
    with l pre ys(2) show ?thesis by simp
  qed
qed

lemma topo_sorted_distinct: "topo_sorted N out V xs \<Longrightarrow> distinct xs \<and> set xs \<subseteq> N - V"
  by (induction xs arbitrary: V) auto

lemma topo_sorted_before:
  "topo_sorted N out V (ys @ x # zs) \<Longrightarrow> u \<in> N \<Longrightarrow> x \<in> set (out u) \<Longrightarrow> u \<in> V \<union> set ys"
  by (induction ys arbitrary: V) auto

definition edges :: "'u list \<Rightarrow> ('u \<Rightarrow> 'u list) \<Rightarrow> ('u \<times> 'u) set" where
  "edges nodes out = {(u, v). u \<in> set nodes \<and> v \<in> set (out u)}"

lemma finite_edges: "finite (edges nodes out)"
proof -
  have "edges nodes out = (\<Union>u \<in> set nodes. (\<lambda>v. (u, v)) ` set (out u))" by (auto simp: edges_def)
  then show ?thesis by simp
qed

definition topo_order :: "('u degrees \<Rightarrow> 'u degrees) \<Rightarrow> 'u list \<Rightarrow> ('u \<Rightarrow> 'u list) \<Rightarrow> 'u list" where
  "topo_order iter nodes out =
     fst (topo_run out (indegrees nodes out)
       (map fst (filter (\<lambda>(_, d). d = 0) (iter (indegrees nodes out)))))"

text \<open>Ranging over a map visits each of its entries once, in some order.\<close>

abbreviation range_order :: "('a list \<Rightarrow> 'a list) \<Rightarrow> bool" where
  "range_order iter \<equiv> (\<forall>m. mset (iter m) = mset m)"

lemma topo_inv_init:
  assumes wf: "wf_graph nodes out" and iter: "range_order iter"
  shows "topo_inv (set nodes) out {} (indegrees nodes out)
    (map fst (filter (\<lambda>(_, d). d = 0) (iter (indegrees nodes out))))"
proof -
  let ?deg = "indegrees nodes out"
  have d: "deg_of ?deg k = int (indeg out (set nodes) k)" for k
    using wf by (simp add: deg_of_indegrees wf_graph_def)
  have s: "set (iter ?deg) = set ?deg" using iter mset_eq_setD by blast
  have "mset (map fst (iter ?deg)) = mset (map fst ?deg)" using iter by simp
  moreover have w: "distinct (map fst ?deg)" using smap_wf_indegrees by (simp add: smap_wf_def)
  ultimately have "distinct (map fst (iter ?deg))" using mset_eq_imp_distinct_iff by blast
  then have "distinct (map fst (filter (\<lambda>(_, d). d = 0) (iter ?deg)))" by (rule distinct_map_filter)
  moreover have "(k, 0) \<in> set ?deg \<longleftrightarrow> k \<in> set nodes \<and> indeg out (set nodes) k = 0" for k
  proof -
    have "(k, 0) \<in> set ?deg \<longleftrightarrow> map_of ?deg k = Some 0" using w by (simp add: map_of_eq_Some_iff)
    moreover have "map_of ?deg k \<noteq> None \<longleftrightarrow> k \<in> set nodes"
      using keys_indegrees [OF wf] by (auto simp: map_of_eq_None_iff)
    ultimately show ?thesis using d [of k] by (auto simp: deg_of_def split: option.splits)
  qed
  then have "set (map fst (filter (\<lambda>(_, d). d = 0) (iter ?deg))) =
      {k \<in> set nodes. k \<notin> {} \<and> indeg out (set nodes - {}) k = 0}"
    by (force simp: s)
  ultimately show ?thesis by (simp add: topo_inv_def d)
qed

lemma topo_order_props:
  assumes wf: "wf_graph nodes out" and iter: "range_order iter"
  shows "topo_sorted (set nodes) out {} (topo_order iter nodes out)"
    and "topo_inv (set nodes) out (set (topo_order iter nodes out))
      (snd (topo_run out (indegrees nodes out) (map fst (filter (\<lambda>(_, d). d = 0) (iter (indegrees nodes out)))))) []"
  using topo_run_correct [OF _ _ topo_inv_init [OF wf iter] surjective_pairing] wf
  by (auto simp: topo_order_def wf_graph_def)

text \<open>What is left over when the queue runs empty has a cycle.\<close>

lemma topo_complete:
  assumes inv: "topo_inv (set nodes) out V deg []" and ac: "acyclic (edges nodes out)"
  shows "V = set nodes"
proof (rule ccontr)
  assume "V \<noteq> set nodes"
  with inv obtain x where x: "x \<in> set nodes - V" by (auto simp: topo_inv_def)
  have "wf (edges nodes out)" by (rule finite_acyclic_wf [OF finite_edges ac])
  then obtain m where m: "m \<in> set nodes - V" and min: "\<And>u. (u, m) \<in> edges nodes out \<Longrightarrow> u \<notin> set nodes - V"
    using wfE_min [OF _ x] by metis
  from min have "indeg out (set nodes - V) m = 0" by (auto simp: indeg_zero edges_def)
  with m inv show False by (auto simp: topo_inv_def)
qed

definition position :: "'a list \<Rightarrow> 'a \<Rightarrow> nat" where
  "position xs x = length (takeWhile (\<lambda>y. y \<noteq> x) xs)"

lemma position_before: "u \<in> set ys \<Longrightarrow> v \<notin> set ys \<Longrightarrow> position (ys @ v # zs) u < position (ys @ v # zs) v"
  by (induction ys) (auto simp: position_def)

lemma topo_sorted_position:
  assumes "topo_sorted N out {} xs" and "u \<in> N" and "v \<in> set (out u)" and "v \<in> set xs"
  shows "u \<in> set xs \<and> position xs u < position xs v"
proof -
  obtain ys zs where xs: "xs = ys @ v # zs" using assms(4) by (meson split_list)
  have "u \<in> set ys" using topo_sorted_before [OF assms(1) [unfolded xs] assms(2,3)] by simp
  moreover have "v \<notin> set ys" using topo_sorted_distinct [OF assms(1)] xs by simp
  ultimately show ?thesis using position_before xs by fastforce
qed

lemma topo_sorted_acyclic:
  assumes "topo_sorted (set nodes) out {} xs" and "set xs = set nodes" and "\<forall>u. set (out u) \<subseteq> set nodes"
  shows "acyclic (edges nodes out)"
proof -
  have "edges nodes out \<subseteq> measure (position xs)"
  proof (clarsimp simp: edges_def)
    fix u v
    assume "u \<in> set nodes" "v \<in> set (out u)"
    moreover from this assms(2,3) have "v \<in> set xs" by blast
    ultimately show "position xs u < position xs v" using topo_sorted_position [OF assms(1)] by blast
  qed
  then show ?thesis by (meson acyclic_subset wf_acyclic wf_measure)
qed

lemma smap_wf_relax: "smap_wf deg \<Longrightarrow> smap_wf (fst (relax vs deg queue))"
proof (induction vs arbitrary: deg queue)
  case Nil
  then show ?case by (simp add: relax_def)
next
  case (Cons v vs)
  then show ?case by (simp add: relax_def relax_edge_def Let_def deg_add_def smap_wf_map_set)
qed

lemma smap_wf_topo_run: "smap_wf deg \<Longrightarrow> smap_wf (snd (topo_run out deg queue))"
proof (induction out deg queue rule: topo_run.induct)
  case (1 out deg queue)
  then show ?case
    by (subst topo_run.simps) (simp add: Let_def smap_wf_relax)
qed

lemma leftover_degree:
  assumes inv: "topo_inv (set nodes) out V deg []" and wf: "smap_wf deg"
  shows "list_ex (\<lambda>(_, d). d > 0) deg \<longleftrightarrow> V \<noteq> set nodes"
proof
  assume "list_ex (\<lambda>(_, d). d > 0) deg"
  then obtain k d where "(k, d) \<in> set deg" "d > 0" by (auto simp: list_ex_iff)
  with wf have "deg_of deg k > 0" by (simp add: deg_of_def smap_wf_def)
  with inv have "0 < indeg out (set nodes - V) k" by (simp add: topo_inv_def)
  then show "V \<noteq> set nodes" by (auto simp: indeg_def)
next
  assume "V \<noteq> set nodes"
  with inv obtain x where x: "x \<in> set nodes" "x \<notin> V" by (auto simp: topo_inv_def)
  with inv have "indeg out (set nodes - V) x \<noteq> 0" by (auto simp: topo_inv_def)
  with inv have "deg_of deg x > 0" by (simp add: topo_inv_def)
  then obtain d where "(x, d) \<in> set deg" "d > 0"
    by (auto simp: deg_of_def dest: map_of_SomeD split: option.splits)
  then show "list_ex (\<lambda>(_, d). d > 0) deg" by (auto simp: list_ex_iff)
qed

lemma TopologicalTraversal_order:
  assumes wf: "wf_graph nodes out" and iter: "range_order iter"
  shows "TopologicalTraversal iter nodes out visit =
    bindP (forP visit (topo_order iter nodes out)) (\<lambda>_.
      if acyclic (edges nodes out) then returnP () else throwP (Errorf ''ResourceGraph is not a DAG''))"
    and "distinct (topo_order iter nodes out)" "set (topo_order iter nodes out) \<subseteq> set nodes"
    and "acyclic (edges nodes out) \<longleftrightarrow> set (topo_order iter nodes out) = set nodes"
proof -
  let ?q = "map fst (filter (\<lambda>(_, d). d = 0) (iter (indegrees nodes out)))"
  let ?deg = "snd (topo_run out (indegrees nodes out) ?q)"
  note p = topo_order_props [OF wf iter]
  show "distinct (topo_order iter nodes out)" "set (topo_order iter nodes out) \<subseteq> set nodes"
    using topo_sorted_distinct [OF p(1)] by auto
  show ac: "acyclic (edges nodes out) \<longleftrightarrow> set (topo_order iter nodes out) = set nodes"
    using topo_complete [OF p(2)] topo_sorted_acyclic [OF p(1)] wf by (auto simp: wf_graph_def)
  have "list_ex (\<lambda>(_, d). d > 0) ?deg \<longleftrightarrow> \<not> acyclic (edges nodes out)"
    unfolding ac by (rule leftover_degree [OF p(2) smap_wf_topo_run [OF smap_wf_indegrees]])
  then show "TopologicalTraversal iter nodes out visit =
    bindP (forP visit (topo_order iter nodes out)) (\<lambda>_.
      if acyclic (edges nodes out) then returnP () else throwP (Errorf ''ResourceGraph is not a DAG''))"
    unfolding TopologicalTraversal_def Let_def traverse_run topo_order_def by (simp add: bindP_assoc)
qed

subsection \<open>Properties\<close>

text \<open>
  (C14) The traversal ends for every graph and visits what \<open>topo_order\<close> lists, in that
  order, as long as the visits succeed; it then succeeds if the graph is acyclic and
  reports that it is not a DAG if it has a cycle.  \<open>iter\<close> is any order in which the map
  of in-degrees may be ranged over.
\<close>

theorem traversal_decides_acyclicity:
  assumes "wf_graph nodes out" and "range_order iter"
  shows "TopologicalTraversal iter nodes out visit =
    bindP (forP visit (topo_order iter nodes out)) (\<lambda>_.
      if acyclic (edges nodes out) then returnP () else throwP (Errorf ''ResourceGraph is not a DAG''))"
  by (rule TopologicalTraversal_order(1) [OF assms])

theorem traversal_decides_acyclicity_witness:
  "TopologicalTraversal rev [5, 7 :: nat] (\<lambda>n. if n = 5 then [7] else []) (\<lambda>n s. (Inr (), s @ [n])) [] = (Inr (), [5, 7]) \<and>
   fst (TopologicalTraversal rev [5, 7 :: nat] (\<lambda>n. if n = 5 then [7] else if n = 7 then [5] else []) (\<lambda>n s. (Inr (), s @ [n])) []) =
     Inl (Errorf ''ResourceGraph is not a DAG'')"
proof -
  let ?out = "\<lambda>n. if n = 5 then [7] else [] :: nat list" and ?cyc = "\<lambda>n. if n = 5 then [7] else if n = 7 then [5] else [] :: nat list"
  have wf: "wf_graph [5, 7] ?out" "wf_graph [5, 7] ?cyc" and it: "range_order (rev :: nat degrees \<Rightarrow> nat degrees)"
    by (auto simp: wf_graph_def)
  have ord: "topo_order rev [5, 7] ?out = [5, 7]" "topo_order rev [5, 7] ?cyc = []" by code_simp+
  then have "acyclic (edges [5, 7] ?out)" "\<not> acyclic (edges [5, 7] ?cyc)"
    using TopologicalTraversal_order(4) [OF wf(1) it] TopologicalTraversal_order(4) [OF wf(2) it] by simp_all
  with ord traversal_decides_acyclicity [OF wf(1) it, of "\<lambda>n s. (Inr (), s @ [n])"]
    traversal_decides_acyclicity [OF wf(2) it, of "\<lambda>n s. (Inr (), s @ [n])"]
  show ?thesis by (simp add: prog_simps)
qed

text \<open>
  (C15) The visiting order: no node twice, only nodes of the graph, and every node after all
  the nodes it depends on.  If the graph is acyclic, every node is visited.
\<close>

theorem visiting_order_topological:
  assumes "wf_graph nodes out" and "range_order iter"
  shows "distinct (topo_order iter nodes out) \<and> set (topo_order iter nodes out) \<subseteq> set nodes \<and>
    (\<forall>(u, v) \<in> edges nodes out. v \<in> set (topo_order iter nodes out) \<longrightarrow>
       u \<in> set (topo_order iter nodes out) \<and> position (topo_order iter nodes out) u < position (topo_order iter nodes out) v) \<and>
    (acyclic (edges nodes out) \<longrightarrow> set (topo_order iter nodes out) = set nodes)"
  using TopologicalTraversal_order(2-4) [OF assms] topo_sorted_position [OF topo_order_props(1) [OF assms]]
  by (auto simp: edges_def)

theorem visiting_order_topological_witness:
  "distinct (topo_order rev [7, 5 :: nat] (\<lambda>n. if n = 5 then [7] else [])) \<and>
   position (topo_order rev [7, 5 :: nat] (\<lambda>n. if n = 5 then [7] else [])) 5 <
     position (topo_order rev [7, 5 :: nat] (\<lambda>n. if n = 5 then [7] else [])) 7"
proof -
  have wf: "wf_graph [7, 5 :: nat] (\<lambda>n. if n = 5 then [7] else [])" and it: "range_order (rev :: nat degrees \<Rightarrow> nat degrees)"
    by (auto simp: wf_graph_def)
  have "topo_order rev [7, 5 :: nat] (\<lambda>n. if n = 5 then [7] else []) = [5, 7]" by code_simp
  with visiting_order_topological [OF wf it] show ?thesis by (simp add: edges_def position_def)
qed

end
