(* ===== verification/Resource_Stack.thy ===== *)
theory Resource_Stack
  imports Resource_Graph
begin

text \<open>
  The resource stack of the ingress controller (\<open>pkg/model/alb/core\<close>: \<open>stack.go\<close>,
  \<open>stack_id.go\<close>, \<open>resource.go\<close>, \<open>token_types.go\<close>, \<open>err_result.go\<close>).  A resource carries
  its Go type, which \<open>reflect.TypeOf\<close> reads, its resource type, its id and its content.
\<close>

subsection \<open>Resources and stack (\<open>resource.go\<close>, \<open>stack.go\<close>)\<close>

record 'p resource =
  rs_GoType :: string
  rs_Type :: string
  rs_ID :: string
  rs_Content :: 'p

record 'p stack =
  stk_stackID :: "string \<times> string"
  stk_resources :: "(resource_uid \<times> 'p resource) list"
  stk_graph :: "resource_uid resource_graph"

definition NewDefaultManager :: "string \<times> string \<Rightarrow> 'p stack" where
  "NewDefaultManager stackID =
     \<lparr>stk_stackID = stackID, stk_resources = [], stk_graph = NewDefaultResourceGraph\<rparr>"

definition StackID_String :: "string \<times> string \<Rightarrow> string" where
  "StackID_String stackID = (if fst stackID = [] then snd stackID else fst stackID @ ''/'' @ snd stackID)"

definition computeResourceUID :: "'p resource \<Rightarrow> resource_uid" where
  "computeResourceUID res = (rs_GoType res, rs_ID res)"

definition AddResource :: "'p resource \<Rightarrow> 'p stack \<Rightarrow> 'p stack res" where
  "AddResource res s =
     (let resUID = computeResourceUID res
      in if has_key (stk_resources s) resUID then Inl (Errorf ''resource already exists'')
         else Inr (s\<lparr>stk_resources := map_set resUID res (stk_resources s),
                     stk_graph := AddNode resUID (stk_graph s)\<rparr>))"

definition AddDependency :: "'p resource \<Rightarrow> 'p resource \<Rightarrow> 'p stack \<Rightarrow> 'p stack res" where
  "AddDependency dependee depender s =
     (if \<not> has_key (stk_resources s) (computeResourceUID dependee) then
        Inl (Errorf ''dependee resource didn't exists'')
      else if \<not> has_key (stk_resources s) (computeResourceUID depender) then
        Inl (Errorf ''depender resource didn't exists'')
      else Inr (s\<lparr>stk_graph := AddEdge (computeResourceUID dependee) (computeResourceUID depender) (stk_graph s)\<rparr>))"

text \<open>The argument of \<open>ListResources\<close>: its kind, and the element type when it is a pointer to a slice.\<close>

datatype list_target = NoPointer | PointerToOther | PointerToSlice string

definition ListResources ::
  "((resource_uid \<times> 'p resource) list \<Rightarrow> (resource_uid \<times> 'p resource) list) \<Rightarrow> list_target \<Rightarrow> 'p stack \<Rightarrow> 'p resource list res" where
  "ListResources iter target s =
     (case target of
        NoPointer \<Rightarrow> Inl (Errorf ''pResourceSlice must be pointer to resource slice'')
      | PointerToOther \<Rightarrow> Inl (Errorf ''pResourceSlice must be pointer to resource slice'')
      | PointerToSlice resType \<Rightarrow>
          Inr (map snd (filter (\<lambda>(uid, _). fst uid = resType) (iter (stk_resources s)))))"

text \<open>Every uid of the graph has its resource (\<open>stack_inv\<close> below), so the lookup succeeds.\<close>

definition Stack_TopologicalTraversal ::
  "(resource_uid degrees \<Rightarrow> resource_uid degrees) \<Rightarrow> ('p resource option \<Rightarrow> ('s, unit) prog) \<Rightarrow> 'p stack \<Rightarrow> ('s, unit) prog" where
  "Stack_TopologicalTraversal iter visit s =
     TopologicalTraversal iter (Nodes (stk_graph s)) (OutEdgeNodes (stk_graph s))
       (\<lambda>uid. visit (map_of (stk_resources s) uid))"

subsection \<open>Tokens (\<open>token_types.go\<close>)\<close>

datatype ('p, 'e) string_token =
    LiteralStringToken string
  | ResourceFieldStringToken "'p resource" string "'p resource \<Rightarrow> string \<Rightarrow> 'e \<Rightarrow> string res"

primrec Resolve :: "('p, 'e) string_token \<Rightarrow> 'e \<Rightarrow> string res" where
  "Resolve (LiteralStringToken t) ctx = Inr t"
| "Resolve (ResourceFieldStringToken r path f) ctx = f r path ctx"

primrec Dependencies :: "('p, 'e) string_token \<Rightarrow> 'p resource list" where
  "Dependencies (LiteralStringToken t) = []"
| "Dependencies (ResourceFieldStringToken r path f) = [r]"

subsection \<open>Errors by listener port (\<open>err_result.go\<close>)\<close>

type_synonym err_result = "(int \<times> go_error list) list"

definition NewDefaultErrResult :: err_result where
  "NewDefaultErrResult = []"

definition CheckErrMsgsByListenerPort :: "err_result \<Rightarrow> int \<Rightarrow> unit res" where
  "CheckErrMsgsByListenerPort e port =
     (case map_of e port of
        Some msgs \<Rightarrow> if length msgs \<noteq> 0 then Inl (Errorf ''ListenerPort exists in ErrResult'') else Inr ()
      | None \<Rightarrow> Inr ())"

text \<open>The messages and the error come together.\<close>

definition FindErrMsgsByListenerPort :: "err_result \<Rightarrow> int \<Rightarrow> go_error list \<times> go_error option" where
  "FindErrMsgsByListenerPort e port =
     (if CheckErrMsgsByListenerPort e port = Inr () then ([], None)
      else case map_of e port of
          Some msgs \<Rightarrow> if length msgs \<noteq> 0 then (msgs, Some (Errorf ''ListenerPort exists in ErrResult'')) else ([], None)
        | None \<Rightarrow> ([], None))"

definition AddErrMsgsWithListenerPort :: "err_result \<Rightarrow> int \<Rightarrow> go_error \<Rightarrow> err_result" where
  "AddErrMsgsWithListenerPort e port errMsg =
     (case FindErrMsgsByListenerPort e port of
        (msgs, Some _) \<Rightarrow> map_set port (msgs @ [errMsg]) e
      | (_, None) \<Rightarrow> map_set port [errMsg] e)"

subsection \<open>Invariant of the stack\<close>

definition stack_inv :: "'p stack \<Rightarrow> bool" where
  "stack_inv s \<longleftrightarrow> smap_wf (stk_resources s) \<and>
     set (Nodes (stk_graph s)) = fst ` set (stk_resources s) \<and>
     (\<forall>(uid, res) \<in> set (stk_resources s). computeResourceUID res = uid) \<and>
     wf_graph (Nodes (stk_graph s)) (OutEdgeNodes (stk_graph s))"

lemma has_key_iff: "has_key m k \<longleftrightarrow> k \<in> fst ` set m"
  by (force simp: has_key_map_of map_of_eq_None_iff)

lemma set_map_set_new: "k \<notin> fst ` set m \<Longrightarrow> set (map_set k v m) = insert (k, v) (set m)"
  by (induction k v m rule: map_set.induct) auto

lemma stack_inv_new: "stack_inv (NewDefaultManager i)"
  using default_graph.wf_empty
  by (simp add: stack_inv_def NewDefaultManager_def smap_wf_def default_graph.nodes_empty)

lemma stack_inv_AddResource:
  assumes "stack_inv s" and "AddResource res s = Inr t"
  shows "stack_inv t"
proof -
  let ?u = "computeResourceUID res"
  have new: "?u \<notin> fst ` set (stk_resources s)" and t: "t = s\<lparr>stk_resources := map_set ?u res (stk_resources s),
      stk_graph := AddNode ?u (stk_graph s)\<rparr>"
    using assms(2) by (auto simp: AddResource_def Let_def has_key_iff split: if_splits)
  from assms(1) new have "wf_graph (Nodes (AddNode ?u (stk_graph s))) (OutEdgeNodes (AddNode ?u (stk_graph s)))"
    by (intro default_graph.wf_add_node) (auto simp: stack_inv_def)
  with assms(1) show ?thesis
    by (auto simp: t stack_inv_def smap_wf_map_set set_map_set_new [OF new] default_graph.nodes_add_node)
qed

lemma stack_inv_AddDependency:
  assumes "stack_inv s" and "AddDependency a b s = Inr t"
  shows "stack_inv t"
proof -
  have t: "t = s\<lparr>stk_graph := AddEdge (computeResourceUID a) (computeResourceUID b) (stk_graph s)\<rparr>"
    and ab: "computeResourceUID a \<in> set (Nodes (stk_graph s))" "computeResourceUID b \<in> set (Nodes (stk_graph s))"
    using assms by (auto simp: AddDependency_def has_key_iff stack_inv_def split: if_splits)
  with assms(1) default_graph.wf_add_edge [OF _ ab] show ?thesis
    by (auto simp: t stack_inv_def default_graph.nodes_add_edge)
qed

lemma stack_inv_lookup:
  assumes "stack_inv s" "uid \<in> set (Nodes (stk_graph s))"
  shows "\<exists>res. map_of (stk_resources s) uid = Some res \<and> computeResourceUID res = uid"
proof -
  from assms obtain res where "map_of (stk_resources s) uid = Some res"
    by (metis map_of_eq_None_iff not_None_eq stack_inv_def)
  moreover from this have "(uid, res) \<in> set (stk_resources s)" by (rule map_of_SomeD)
  ultimately show ?thesis using assms(1) by (auto simp: stack_inv_def)
qed

subsection \<open>Errors by port\<close>

lemma map_of_AddErrMsgs:
  "map_of (AddErrMsgsWithListenerPort e port m) =
     (map_of e)(port \<mapsto> (case map_of e port of Some ms \<Rightarrow> ms | None \<Rightarrow> []) @ [m])"
  by (auto simp: AddErrMsgsWithListenerPort_def FindErrMsgsByListenerPort_def CheckErrMsgsByListenerPort_def
      map_of_map_set split: option.splits)

subsection \<open>Traversal of the stack\<close>

text \<open>
  Traversing a consistent stack never meets a missing resource: if the visitor succeeds on
  every resource, the traversal succeeds exactly when the dependencies are acyclic.
\<close>

lemma stack_traversal:
  assumes inv: "stack_inv s" and "range_order iter"
    and "\<And>res t. fst (visit (Some res) t) = Inr ()"
  shows "fst (Stack_TopologicalTraversal iter visit s t) = Inr () \<longleftrightarrow>
    acyclic (edges (Nodes (stk_graph s)) (OutEdgeNodes (stk_graph s)))"
proof -
  let ?n = "Nodes (stk_graph s)" and ?o = "OutEdgeNodes (stk_graph s)"
  from inv have wf: "wf_graph ?n ?o" by (simp add: stack_inv_def)
  have "fst (visit (map_of (stk_resources s) uid) t) = Inr ()" if "uid \<in> set ?n" for uid t
    using stack_inv_lookup [OF inv that] assms(3) by auto
  then have "fst (forP (\<lambda>uid. visit (map_of (stk_resources s) uid)) xs t) = Inr ()" if "set xs \<subseteq> set ?n" for xs t
    using that by (rule forP_succeeds)
  then have "fst (forP (\<lambda>uid. visit (map_of (stk_resources s) uid)) (topo_order iter ?n ?o) t) = Inr ()" for t
    using TopologicalTraversal_order(3) [OF wf assms(2)] by blast
  then show ?thesis
    unfolding Stack_TopologicalTraversal_def TopologicalTraversal_order(1) [OF wf assms(2)]
    by (auto simp: bindP_def returnP_def throwP_def split: prod.splits sum.splits) (metis fst_conv Inl_Inr_False)+
qed

end
