(* ===== verification/Keyed_Match.thy ===== *)
theory Keyed_Match
  imports Go_Base
begin

text \<open>
  Matching of wanted resources with the resources found in the cloud, as every
  \<open>matchResAndSDK...\<close> function of the ingress appliers does it: both sides go into maps
  by a key, and the sorted key sets are intersected and subtracted
  (\<open>sets.StringKeySet\<close>, \<open>Intersection\<close>, \<open>Difference\<close>, \<open>List\<close>).  The locale is the contract of
  such a function; what follows from it is proved once and each matching function of
  the appliers is an interpretation.
\<close>

subsection \<open>Maps by key\<close>

text \<open>A later element with the same key replaces an earlier one.\<close>

definition index_by :: "('a \<Rightarrow> 'k) \<Rightarrow> 'a list \<Rightarrow> ('k \<times> 'a) list" where
  "index_by key xs = fold (\<lambda>x m. map_set (key x) x m) xs []"

definition group_add :: "'k \<Rightarrow> 'a \<Rightarrow> ('k \<times> 'a list) list \<Rightarrow> ('k \<times> 'a list) list" where
  "group_add k x m = map_set k ((case map_of m k of None \<Rightarrow> [] | Some xs \<Rightarrow> xs) @ [x]) m"

definition group_by :: "('a \<Rightarrow> 'k) \<Rightarrow> 'a list \<Rightarrow> ('k \<times> 'a list) list" where
  "group_by key xs = fold (\<lambda>x m. group_add (key x) x m) xs []"

definition sorted_keys :: "(string \<times> 'a) list \<Rightarrow> string list" where
  "sorted_keys m = sort (map fst m)"

definition common_keys :: "(string \<times> 'a) list \<Rightarrow> (string \<times> 'b) list \<Rightarrow> string list" where
  "common_keys m n = filter (has_key n) (sorted_keys m)"

definition keys_without :: "(string \<times> 'a) list \<Rightarrow> (string \<times> 'b) list \<Rightarrow> string list" where
  "keys_without m n = filter (\<lambda>k. \<not> has_key n k) (sorted_keys m)"

definition at_key :: "('k \<times> 'a) list \<Rightarrow> 'k \<Rightarrow> 'a" where
  "at_key m k = the (map_of m k)"

definition match_index ::
  "(string \<times> 'r) list \<Rightarrow> (string \<times> 's) list \<Rightarrow> ('r \<times> 's) list \<times> 'r list \<times> 's list" where
  "match_index rs ss =
     (map (\<lambda>k. (at_key rs k, at_key ss k)) (common_keys rs ss),
      map (at_key rs) (keys_without rs ss), map (at_key ss) (keys_without ss rs))"

definition match_group ::
  "(string \<times> 'r) list \<Rightarrow> (string \<times> 's list) list \<Rightarrow> ('r \<times> 's) list \<times> 'r list \<times> 's list" where
  "match_group rs ss =
     (concat (map (\<lambda>k. map (Pair (at_key rs k)) (at_key ss k)) (common_keys rs ss)),
      map (at_key rs) (keys_without rs ss), concat (map (at_key ss) (keys_without ss rs)))"

subsection \<open>Facts about the maps\<close>

lemma set_sorted_keys [simp]: "set (sorted_keys m) = fst ` set m"
  by (simp add: sorted_keys_def)

lemma set_common_keys: "set (common_keys m n) = fst ` set m \<inter> fst ` set n"
  by (auto simp: common_keys_def has_key_def)

lemma set_keys_without: "set (keys_without m n) = fst ` set m - fst ` set n"
  by (auto simp: keys_without_def has_key_def)

lemma distinct_keys_without: "smap_wf m \<Longrightarrow> distinct (keys_without m n)"
  by (simp add: keys_without_def sorted_keys_def smap_wf_def)

lemma index_fold_wf: "smap_wf m \<Longrightarrow> smap_wf (fold (\<lambda>x m. map_set (key x) x m) xs m)"
  by (induction xs arbitrary: m) (simp_all add: smap_wf_map_set)

lemma index_fold_keys: "fst ` set (fold (\<lambda>x m. map_set (key x) x m) xs m) = fst ` set m \<union> key ` set xs"
  by (induction xs arbitrary: m) (simp_all add: keys_map_set)

lemma index_fold_sound:
  "map_of (fold (\<lambda>x m. map_set (key x) x m) xs m) k = Some x \<Longrightarrow>
     map_of m k = Some x \<or> key x = k \<and> x \<in> set xs"
proof (induction xs arbitrary: m)
  case Nil
  then show ?case by simp
next
  case (Cons y xs)
  have "map_of (map_set (key y) y m) k = Some x \<or> key x = k \<and> x \<in> set xs"
    using Cons.prems by (intro Cons.IH) simp
  then show ?case by (cases "k = key y") (auto simp: map_of_map_set)
qed

lemma index_by_facts:
  "smap_wf (index_by key xs)"
  "map_of (index_by key xs) k = Some x \<Longrightarrow> key x = k \<and> x \<in> set xs"
  "fst ` set (index_by key xs) = key ` set xs"
  using index_fold_wf [of "[]" key xs] index_fold_sound [of key xs "[]" k x] index_fold_keys [of key xs "[]"]
  by (simp_all add: index_by_def smap_wf_def)

lemma at_key_index:
  assumes "k \<in> key ` set xs"
  shows "key (at_key (index_by key xs) k) = k" and "at_key (index_by key xs) k \<in> set xs"
proof -
  obtain x where x: "map_of (index_by key xs) k = Some x"
    using assms index_by_facts(3) [of key xs] by (metis map_of_eq_None_iff not_None_eq)
  then show "key (at_key (index_by key xs) k) = k" "at_key (index_by key xs) k \<in> set xs"
    using index_by_facts(2) [OF x] by (simp_all add: at_key_def)
qed

lemma index_by_inj: "inj_on key (set xs) \<Longrightarrow> x \<in> set xs \<Longrightarrow> at_key (index_by key xs) (key x) = x"
  using at_key_index [of "key x" key xs] by (auto dest: inj_onD)

lemma map_of_group_add:
  "map_of (group_add k x m) = (map_of m)(k \<mapsto> (case map_of m k of None \<Rightarrow> [] | Some xs \<Rightarrow> xs) @ [x])"
  by (simp add: group_add_def map_of_map_set)

lemma group_fold:
  "map_of (fold (\<lambda>x m. group_add (key x) x m) xs m) k =
     (if k \<in> key ` set xs then Some ((case map_of m k of None \<Rightarrow> [] | Some ys \<Rightarrow> ys) @ filter (\<lambda>x. key x = k) xs)
      else map_of m k)"
proof (induction xs arbitrary: m)
  case Nil
  then show ?case by simp
next
  case (Cons x xs)
  have "filter (\<lambda>y. key y = k) xs = []" if "k \<notin> key ` set xs"
    using that by (auto simp: filter_empty_conv)
  then show ?case
    by (auto simp: Cons.IH map_of_group_add split: option.splits)
qed

lemma group_by_map_of:
  "map_of (group_by key xs) k = (if k \<in> key ` set xs then Some (filter (\<lambda>x. key x = k) xs) else None)"
  using group_fold [of key xs "[]" k] by (simp add: group_by_def)

lemma group_by_keys: "fst ` set (group_by key xs) = key ` set xs"
  unfolding dom_map_of_conv_image_fst [symmetric] by (auto simp: dom_def group_by_map_of)

lemma at_key_group: "k \<in> key ` set xs \<Longrightarrow> at_key (group_by key xs) k = filter (\<lambda>x. key x = k) xs"
  by (simp add: at_key_def group_by_map_of)

subsection \<open>The contract of a matching\<close>

text \<open>
  \<open>gone\<close> are the cloud resources that are being removed already and are left out of the
  deletions.
\<close>

locale keyed_match =
  fixes rkey :: "'r \<Rightarrow> string" and skey :: "'s \<Rightarrow> string" and gone :: "'s \<Rightarrow> bool"
    and match :: "'r list \<Rightarrow> 's list \<Rightarrow> ('r \<times> 's) list \<times> 'r list \<times> 's list"
  assumes matched: "match rs ss = (M, C, D) \<Longrightarrow>
      set M \<subseteq> {(r, s). r \<in> set rs \<and> s \<in> set ss \<and> rkey r = skey s}"
    and matched_keys: "match rs ss = (M, C, D) \<Longrightarrow> rkey ` fst ` set M = rkey ` set rs \<inter> skey ` set ss"
    and created: "match rs ss = (M, C, D) \<Longrightarrow> set C \<subseteq> set rs"
    and created_keys: "match rs ss = (M, C, D) \<Longrightarrow> rkey ` set C = rkey ` set rs - skey ` set ss"
    and created_once: "match rs ss = (M, C, D) \<Longrightarrow> distinct (map rkey C)"
    and deleted: "match rs ss = (M, C, D) \<Longrightarrow>
      set D \<subseteq> {s \<in> set ss. skey s \<notin> rkey ` set rs \<and> \<not> gone s}"
    and deleted_all: "match rs ss = (M, C, D) \<Longrightarrow> inj_on skey (set ss) \<Longrightarrow>
      {s \<in> set ss. skey s \<notin> rkey ` set rs \<and> \<not> gone s} \<subseteq> set D"
begin

text \<open>Each wanted key is created or updated, never both.\<close>

lemma every_key_once:
  assumes "match rs ss = (M, C, D)"
  shows "rkey ` set C \<union> rkey ` fst ` set M = rkey ` set rs" and "rkey ` set C \<inter> rkey ` fst ` set M = {}"
  using matched_keys [OF assms] created_keys [OF assms] by auto

lemma wanted_not_deleted:
  "match rs ss = (M, C, D) \<Longrightarrow> r \<in> set rs \<Longrightarrow> s \<in> set D \<Longrightarrow> skey s \<noteq> rkey r"
  using deleted by fastforce

text \<open>
  Carrying out the creations and deletions leaves nothing more to create or delete: the
  cloud then has the resources that were not deleted, and one with each created key.
\<close>

lemma settles:
  assumes m: "match rs ss = (M, C, D)" and inj: "inj_on skey (set ss)"
    and after: "set ss' = (set ss - set D) \<union> new" "skey ` new = rkey ` set C"
    and m': "match rs ss' = (M', C', D')"
  shows "C' = [] \<and> D' = []"
proof
  have kept: "rkey ` set rs \<inter> skey ` set ss \<subseteq> skey ` (set ss - set D)"
  proof
    fix k assume k: "k \<in> rkey ` set rs \<inter> skey ` set ss"
    then obtain s where s: "s \<in> set ss" "k = skey s" by blast
    with k deleted [OF m] have "s \<notin> set D" by auto
    with s show "k \<in> skey ` (set ss - set D)" by blast
  qed
  have "rkey ` set rs = (rkey ` set rs \<inter> skey ` set ss) \<union> rkey ` set C"
    by (simp add: created_keys [OF m] Int_Diff_Un)
  also have "\<dots> \<subseteq> skey ` set ss'"
    unfolding after(1) image_Un after(2) using kept by (rule Un_mono) simp
  finally have "rkey ` set C' = {}" using created_keys [OF m'] by simp
  then show "C' = []" by simp
  have "s \<notin> set D'" for s
  proof
    assume "s \<in> set D'"
    then have s: "s \<in> set ss'" "skey s \<notin> rkey ` set rs" "\<not> gone s" using deleted [OF m'] by blast+
    moreover have "skey ` new \<subseteq> rkey ` set rs" using after(2) created [OF m] by auto
    ultimately have "s \<in> set ss - set D" using after(1) by blast
    with s(2,3) deleted_all [OF m inj] show False by blast
  qed
  then show "D' = []" by (metis list.set_intros(1) neq_Nil_conv)
qed

end

text \<open>Matchings that keep all cloud resources of a key need no assumption to delete every one.\<close>

locale grouped_match = keyed_match +
  assumes deleted_exactly: "match rs ss = (M, C, D) \<Longrightarrow>
      set D = {s \<in> set ss. skey s \<notin> rkey ` set rs \<and> \<not> gone s}"
    and matched_exactly: "match rs ss = (M, C, D) \<Longrightarrow>
      snd ` set M = {s \<in> set ss. skey s \<in> rkey ` set rs}"
begin

lemma every_cloud_resource_once:
  assumes "match rs ss = (M, C, D)"
  shows "snd ` set M \<union> set D \<union> {s \<in> set ss. gone s} = set ss" and "snd ` set M \<inter> set D = {}"
  using deleted_exactly [OF assms] matched_exactly [OF assms] by auto

end

subsection \<open>The two ways of matching\<close>

lemma match_index_facts:
  assumes "match_index (index_by rkey rs) (index_by skey ss) = (M, C, D)"
  shows "set M \<subseteq> {(r, s). r \<in> set rs \<and> s \<in> set ss \<and> rkey r = skey s}"
    and "rkey ` fst ` set M = rkey ` set rs \<inter> skey ` set ss"
    and "set C \<subseteq> set rs" and "rkey ` set C = rkey ` set rs - skey ` set ss" and "distinct (map rkey C)"
    and "set D \<subseteq> {s \<in> set ss. skey s \<notin> rkey ` set rs}"
    and "inj_on skey (set ss) \<Longrightarrow> {s \<in> set ss. skey s \<notin> rkey ` set rs} \<subseteq> set D"
proof -
  let ?R = "index_by rkey rs" and ?S = "index_by skey ss"
  have MCD: "M = map (\<lambda>k. (at_key ?R k, at_key ?S k)) (common_keys ?R ?S)"
    "C = map (at_key ?R) (keys_without ?R ?S)" "D = map (at_key ?S) (keys_without ?S ?R)"
    using assms by (simp_all add: match_index_def)
  have com: "set (common_keys ?R ?S) = rkey ` set rs \<inter> skey ` set ss"
    and lw: "set (keys_without ?R ?S) = rkey ` set rs - skey ` set ss"
    and rw: "set (keys_without ?S ?R) = skey ` set ss - rkey ` set rs"
    by (simp_all add: set_common_keys set_keys_without index_by_facts(3))
  have R: "rkey (at_key ?R k) = k" "at_key ?R k \<in> set rs" if "k \<in> rkey ` set rs" for k
    using at_key_index [OF that] by auto
  have S: "skey (at_key ?S k) = k" "at_key ?S k \<in> set ss" if "k \<in> skey ` set ss" for k
    using at_key_index [OF that] by auto
  show "set M \<subseteq> {(r, s). r \<in> set rs \<and> s \<in> set ss \<and> rkey r = skey s}"
  proof
    fix p assume "p \<in> set M"
    then obtain k where k: "k \<in> rkey ` set rs" "k \<in> skey ` set ss" "p = (at_key ?R k, at_key ?S k)"
      using com unfolding MCD by force
    with R [OF k(1)] S [OF k(2)] show "p \<in> {(r, s). r \<in> set rs \<and> s \<in> set ss \<and> rkey r = skey s}" by simp
  qed
  have "rkey ` fst ` set M = (\<lambda>k. rkey (at_key ?R k)) ` set (common_keys ?R ?S)"
    by (simp add: MCD image_image)
  also have "\<dots> = (\<lambda>k. k) ` set (common_keys ?R ?S)"
    by (rule image_cong [OF refl]) (simp add: com R)
  finally show "rkey ` fst ` set M = rkey ` set rs \<inter> skey ` set ss" by (simp add: com)
  show "set C \<subseteq> set rs"
  proof
    fix r assume "r \<in> set C"
    then obtain k where "k \<in> rkey ` set rs" "r = at_key ?R k" using lw unfolding MCD by force
    then show "r \<in> set rs" using R(2) by simp
  qed
  have keyC: "map rkey C = keys_without ?R ?S"
    unfolding MCD map_map by (rule map_idI) (simp add: lw R)
  then show "rkey ` set C = rkey ` set rs - skey ` set ss" using lw by (metis set_map)
  show "distinct (map rkey C)" unfolding keyC by (rule distinct_keys_without) (rule index_by_facts(1))
  show "set D \<subseteq> {s \<in> set ss. skey s \<notin> rkey ` set rs}"
  proof
    fix s assume "s \<in> set D"
    then obtain k where "k \<in> skey ` set ss" "k \<notin> rkey ` set rs" "s = at_key ?S k"
      using rw unfolding MCD by force
    then show "s \<in> {s \<in> set ss. skey s \<notin> rkey ` set rs}" using S by simp
  qed
  show "{s \<in> set ss. skey s \<notin> rkey ` set rs} \<subseteq> set D" if "inj_on skey (set ss)"
  proof
    fix s assume s: "s \<in> {s \<in> set ss. skey s \<notin> rkey ` set rs}"
    then have "at_key ?S (skey s) = s" using that by (auto intro: index_by_inj)
    moreover have "skey s \<in> set (keys_without ?S ?R)" using s by (simp add: rw)
    ultimately show "s \<in> set D" unfolding MCD by (metis image_eqI set_map)
  qed
qed

lemma match_group_facts:
  assumes "match_group (index_by rkey rs) (group_by skey ss) = (M, C, D)"
  shows "set M = {(at_key (index_by rkey rs) (skey s), s) | s. s \<in> set ss \<and> skey s \<in> rkey ` set rs}"
    and "C = map (at_key (index_by rkey rs)) (keys_without (index_by rkey rs) (group_by skey ss))"
    and "set D = {s \<in> set ss. skey s \<notin> rkey ` set rs}"
proof -
  let ?R = "index_by rkey rs" and ?S = "group_by skey ss"
  have MCD: "M = concat (map (\<lambda>k. map (Pair (at_key ?R k)) (at_key ?S k)) (common_keys ?R ?S))"
    "C = map (at_key ?R) (keys_without ?R ?S)" "D = concat (map (at_key ?S) (keys_without ?S ?R))"
    using assms by (simp_all add: match_group_def)
  have com: "set (common_keys ?R ?S) = rkey ` set rs \<inter> skey ` set ss"
    and rw: "set (keys_without ?S ?R) = skey ` set ss - rkey ` set rs"
    by (simp_all add: set_common_keys set_keys_without index_by_facts(3) group_by_keys)
  have S: "at_key ?S k = filter (\<lambda>s. skey s = k) ss" if "k \<in> skey ` set ss" for k
    by (rule at_key_group [OF that])
  show "C = map (at_key ?R) (keys_without ?R ?S)" by (rule MCD(2))
  show "set D = {s \<in> set ss. skey s \<notin> rkey ` set rs}"
    unfolding MCD by (auto simp: rw S) (metis image_eqI)
  show "set M = {(at_key ?R (skey s), s) | s. s \<in> set ss \<and> skey s \<in> rkey ` set rs}"
    unfolding MCD by (auto simp: com S) (metis image_eqI)
qed

lemma keyed_match_index:
  "keyed_match rkey skey (\<lambda>_. False) (\<lambda>rs ss. match_index (index_by rkey rs) (index_by skey ss))"
  by unfold_locales (use match_index_facts in \<open>simp_all\<close>)

lemma grouped_match_group:
  "grouped_match rkey skey (\<lambda>_. False) (\<lambda>rs ss. match_group (index_by rkey rs) (group_by skey ss))"
proof
  fix rs ss M C D
  assume m: "match_group (index_by rkey rs) (group_by skey ss) = (M, C, D)"
  let ?R = "index_by rkey rs"
  note f = match_group_facts [OF m]
  have R: "rkey (at_key ?R k) = k" "at_key ?R k \<in> set rs" if "k \<in> rkey ` set rs" for k
    using at_key_index [OF that] by auto
  have lw: "set (keys_without ?R (group_by skey ss)) = rkey ` set rs - skey ` set ss"
    by (simp add: set_keys_without index_by_facts(3) group_by_keys)
  have keyC: "map rkey C = keys_without ?R (group_by skey ss)"
    unfolding f(2) map_map by (rule map_idI) (simp add: lw R)
  show "set M \<subseteq> {(r, s). r \<in> set rs \<and> s \<in> set ss \<and> rkey r = skey s}"
    unfolding f(1) using R by auto
  have "rkey ` fst ` set M = {k \<in> skey ` set ss. k \<in> rkey ` set rs}"
    unfolding f(1) using R(1) by (force simp: image_iff)
  then show "rkey ` fst ` set M = rkey ` set rs \<inter> skey ` set ss" by blast
  show "set C \<subseteq> set rs" unfolding f(2) using R(2) lw by auto
  show "rkey ` set C = rkey ` set rs - skey ` set ss" using keyC lw by (metis set_map)
  show "distinct (map rkey C)" unfolding keyC by (rule distinct_keys_without) (rule index_by_facts(1))
  show "set D = {s \<in> set ss. skey s \<notin> rkey ` set rs \<and> \<not> False}" unfolding f(3) by simp
  then show "set D \<subseteq> {s \<in> set ss. skey s \<notin> rkey ` set rs \<and> \<not> False}"
    and "{s \<in> set ss. skey s \<notin> rkey ` set rs \<and> \<not> False} \<subseteq> set D" by simp_all
  show "snd ` set M = {s \<in> set ss. skey s \<in> rkey ` set rs}"
    unfolding f(1) by (force simp: image_iff)
qed

end
