(* ===== verification/Go_Pool.thy ===== *)
theory Go_Pool
  imports Go_Base "HOL-Library.Multiset"
begin

text \<open>
  The goroutine pools of the ingress appliers: a loop that takes a slot of a buffered
  channel, starts a goroutine per element, and waits for all of them
  (\<open>ch <- struct\{\}\{\}; wg.Add(1); go func() \{...; defer wg.Done(); <-ch\}; wg.Wait()\<close>).

  A goroutine is its local state and the atomic steps it has left; a step gives the
  new local state, or \<open>None\<close> when the goroutine returns.  At each point the scheduler
  chooses one of the running goroutines or, if a slot is free, the start of the next
  one.  The scheduler is an arbitrary function, and the theorems hold for each.  A
  panic in a goroutine ends the program.
\<close>

subsection \<open>Running a pool\<close>

type_synonym ('s, 'l) thread = "'l \<times> ('l \<Rightarrow> ('s, 'l option) prog) list"

definition thread_next :: "('l \<Rightarrow> ('s, 'l option) prog) list \<Rightarrow> 'l \<Rightarrow> 'l option \<Rightarrow> ('s, 'l) thread" where
  "thread_next fs l r = (case r of None \<Rightarrow> (l, []) | Some l' \<Rightarrow> (l', fs))"

definition drop_nth :: "nat \<Rightarrow> 'a list \<Rightarrow> 'a list" where
  "drop_nth i xs = take i xs @ drop (Suc i) xs"

definition thread_size :: "('s, 'l) thread \<Rightarrow> nat" where
  "thread_size th = Suc (length (snd th))"

definition choices :: "nat \<Rightarrow> 'a list \<Rightarrow> 'b list \<Rightarrow> nat" where
  "choices limit waiting running =
     length running + (if waiting \<noteq> [] \<and> length running < limit then 1 else 0)"

lemma sum_drop_nth:
  fixes f :: "'a \<Rightarrow> 'b :: comm_monoid_add"
  assumes "i < length xs"
  shows "f (xs ! i) + sum_list (map f (drop_nth i xs)) = sum_list (map f xs)"
proof -
  have "sum_list (map f xs) = sum_list (map f (take i xs @ xs ! i # drop (Suc i) xs))"
    using id_take_nth_drop [OF assms] by simp
  then show ?thesis by (simp add: drop_nth_def ac_simps)
qed

lemma sum_update:
  fixes f :: "'a \<Rightarrow> 'b :: comm_monoid_add"
  assumes "i < length xs"
  shows "f (xs ! i) + sum_list (map f (xs[i := y])) = f y + sum_list (map f xs)"
proof -
  have "sum_list (map f (xs[i := y])) = sum_list (map f (take i xs @ y # drop (Suc i) xs))"
    using assms by (simp add: upd_conv_take_nth_drop)
  moreover have "sum_list (map f xs) = sum_list (map f (take i xs @ xs ! i # drop (Suc i) xs))"
    using id_take_nth_drop [OF assms] by simp
  ultimately show ?thesis by (simp add: ac_simps)
qed

function poolP ::
  "(nat \<Rightarrow> nat) \<Rightarrow> nat \<Rightarrow> ('a \<Rightarrow> ('s, 'l) thread) \<Rightarrow> nat \<Rightarrow> 'a list \<Rightarrow> ('s, 'l) thread list \<Rightarrow> ('s, unit) prog" where
  "poolP sched limit body n waiting running =
     (if waiting = [] \<and> running = [] then returnP ()
      else let c = sched n mod max 1 (choices limit waiting running)
           in if c < length running then
                (case snd (running ! c) of
                   [] \<Rightarrow> poolP sched limit body (Suc n) waiting (drop_nth c running)
                 | f # fs \<Rightarrow> bindP (f (fst (running ! c))) (\<lambda>r.
                     poolP sched limit body (Suc n) waiting (running[c := thread_next fs (fst (running ! c)) r])))
              else
                (case waiting of
                   [] \<Rightarrow> returnP ()
                 | x # xs \<Rightarrow> poolP sched limit body (Suc n) xs (running @ [body x])))"
  by pat_completeness auto

lemma pool_measure_finish:
  "c < length running \<Longrightarrow> sum_list (map thread_size (drop_nth c running)) < sum_list (map thread_size running)"
  using sum_drop_nth [of c running thread_size] by (simp add: thread_size_def)

lemma pool_measure_step:
  assumes "c < length running" and "snd (running ! c) = f # fs"
  shows "sum_list (map thread_size (running[c := thread_next fs l r])) < sum_list (map thread_size running)"
proof -
  have "thread_size (thread_next fs l r) < thread_size (running ! c)"
    using assms(2) by (simp add: thread_size_def thread_next_def split: option.splits)
  then show ?thesis using sum_update [OF assms(1), of thread_size "thread_next fs l r"] by linarith
qed

termination poolP
  by (relation "measure (\<lambda>(sched, limit, body, n, waiting, running).
      sum_list (map (\<lambda>x. Suc (thread_size (body x))) waiting) + sum_list (map thread_size running))")
    (auto simp: pool_measure_finish pool_measure_step)

declare poolP.simps [simp del]

lemma poolP_steps:
  fixes sched :: "nat \<Rightarrow> nat" and limit n :: nat and waiting :: "'a list" and running :: "('s, 'l) thread list"
  defines "c \<equiv> sched n mod max 1 (choices limit waiting running)"
  shows "c < length running \<Longrightarrow> snd (running ! c) = [] \<Longrightarrow>
      poolP sched limit body n waiting running = poolP sched limit body (Suc n) waiting (drop_nth c running)"
    and "c < length running \<Longrightarrow> snd (running ! c) = f # fs \<Longrightarrow>
      poolP sched limit body n waiting running = bindP (f (fst (running ! c))) (\<lambda>r.
        poolP sched limit body (Suc n) waiting (running[c := thread_next fs (fst (running ! c)) r]))"
    and "\<not> c < length running \<Longrightarrow> waiting = x # xs \<Longrightarrow>
      poolP sched limit body n waiting running = poolP sched limit body (Suc n) xs (running @ [body x])"
  by (subst poolP.simps; force simp: c_def Let_def)+

lemma poolP_cases:
  fixes sched :: "nat \<Rightarrow> nat" and limit n :: nat and waiting :: "'a list" and running :: "('s, 'l) thread list"
  defines "c \<equiv> sched n mod max 1 (choices limit waiting running)"
  obtains (empty) "waiting = []" "running = []"
    | (finish) "\<not> (waiting = [] \<and> running = [])" "c < length running" "snd (running ! c) = []"
    | (step) f fs where "\<not> (waiting = [] \<and> running = [])" "c < length running" "snd (running ! c) = f # fs"
    | (start) x xs where "\<not> (waiting = [] \<and> running = [])" "\<not> c < length running" "waiting = x # xs"
proof (cases "c < length running")
  case True
  then have "running \<noteq> []" by auto
  with True show ?thesis using that(2,3) by (cases "snd (running ! c)") auto
next
  case False
  then have "running = []" if "waiting = []"
    using that by (cases running) (auto simp: c_def choices_def)
  with False show ?thesis
    using that(1,4) by (cases waiting) auto
qed

text \<open>The whole loop: start with no goroutine and wait for all of them.\<close>

definition goP :: "(nat \<Rightarrow> nat) \<Rightarrow> nat \<Rightarrow> ('a \<Rightarrow> ('s, 'l) thread) \<Rightarrow> 'a list \<Rightarrow> ('s, unit) prog" where
  "goP sched limit body xs = poolP sched limit body 0 xs []"

subsection \<open>Calls of a pool\<close>

text \<open>
  \<open>makes m B\<close>: the calls of \<open>m\<close> are those of the multiset \<open>B\<close>, in some order; a run that
  fails makes a part of them.
\<close>

definition makes :: "(('w, 'c, 'z) effects_scheme, 'a) prog \<Rightarrow> 'c multiset \<Rightarrow> bool" where
  "makes m B \<longleftrightarrow> (\<forall>s. \<exists>ds. fx_calls (snd (m s)) = fx_calls s @ ds \<and> mset ds \<subseteq># B \<and>
     (\<forall>x. fst (m s) = Inr x \<longrightarrow> mset ds = B))"

lemma makesD:
  assumes "makes m B" and "m s = (r, t)"
  obtains ds where "fx_calls t = fx_calls s @ ds" and "mset ds \<subseteq># B" and "\<And>x. r = Inr x \<Longrightarrow> mset ds = B"
  using assms unfolding makes_def by (metis fst_conv snd_conv)

lemma makes_return: "makes (returnP x) {#}"
  by (simp add: makes_def returnP_def)

lemma makes_invoke: "makes (invoke c f) {#c#}"
  by (auto simp: makes_def invoke_def split: prod.splits)

lemma makes_bind:
  assumes m: "makes m A" and f: "\<And>s x t. m s = (Inr x, t) \<Longrightarrow> makes (f x) B"
  shows "makes (bindP m f) (A + B)"
  unfolding makes_def
proof
  fix s
  obtain r t where rt: "m s = (r, t)" by (cases "m s")
  obtain es where es: "fx_calls t = fx_calls s @ es" "mset es \<subseteq># A" "\<And>x. r = Inr x \<Longrightarrow> mset es = A"
    using makesD [OF m rt] by blast
  show "\<exists>es. fx_calls (snd (bindP m f s)) = fx_calls s @ es \<and> mset es \<subseteq># A + B \<and>
     (\<forall>x. fst (bindP m f s) = Inr x \<longrightarrow> mset es = A + B)"
  proof (cases r)
    case (Inl e)
    with rt es show ?thesis by (auto simp: bindP_def intro: subset_mset.order_trans)
  next
    case (Inr x)
    obtain gs where "fx_calls (snd (f x t)) = fx_calls t @ gs" "mset gs \<subseteq># B"
      "\<forall>y. fst (f x t) = Inr y \<longrightarrow> mset gs = B"
      using f [OF rt [unfolded Inr]] unfolding makes_def by blast
    with rt Inr es show ?thesis by (intro exI [of _ "es @ gs"]) (auto simp: bindP_def)
  qed
qed

fun thread_makes :: "'l \<Rightarrow> ('l \<Rightarrow> (('w, 'c, 'z) effects_scheme, 'l option) prog) list \<Rightarrow> 'c multiset \<Rightarrow> bool" where
  "thread_makes l [] B \<longleftrightarrow> B = {#}"
| "thread_makes l (f # fs) B \<longleftrightarrow> (\<exists>B1 B2. B = B1 + B2 \<and> makes (f l) B1 \<and>
     (\<forall>s r t. f l s = (Inr r, t) \<longrightarrow> (case r of None \<Rightarrow> B2 = {#} | Some l' \<Rightarrow> thread_makes l' fs B2)))"

lemma thread_makes_next:
  assumes "thread_makes l (f # fs) B"
  obtains B1 B2 where "B = B1 + B2" and "makes (f l) B1"
    and "\<And>s r t. f l s = (Inr r, t) \<Longrightarrow> thread_makes (fst (thread_next fs l r)) (snd (thread_next fs l r)) B2"
proof -
  from assms obtain B1 B2 where B: "B = B1 + B2" "makes (f l) B1" and nx: "\<And>s r t. f l s = (Inr r, t) \<Longrightarrow>
      (case r of None \<Rightarrow> B2 = {#} | Some l' \<Rightarrow> thread_makes l' fs B2)"
    unfolding thread_makes.simps by blast
  have "thread_makes (fst (thread_next fs l r)) (snd (thread_next fs l r)) B2" if "f l s = (Inr r, t)" for s r t
    using nx [OF that] by (cases r) (simp_all add: thread_next_def)
  with B that show ?thesis by blast
qed

lemma drop_nth_list_all2:
  "list_all2 P xs ys \<Longrightarrow> list_all2 P (drop_nth i xs) (drop_nth i ys)"
  by (simp add: drop_nth_def list_all2_appendI)

lemma pool_makes:
  assumes "\<forall>x \<in> set waiting. thread_makes (fst (body x)) (snd (body x)) (B x)"
    and "list_all2 (\<lambda>th. thread_makes (fst th) (snd th)) running Bs"
  shows "makes (poolP sched limit body n waiting running) (sum_list (map B waiting) + sum_list Bs)"
  using assms
proof (induction sched limit body n waiting running arbitrary: Bs rule: poolP.induct)
  case (1 sched limit body n waiting running)
  let ?c = "sched n mod max 1 (choices limit waiting running)"
  have len: "length Bs = length running" using "1.prems"(2) by (simp add: list_all2_lengthD)
  show ?case
  proof (cases rule: poolP_cases [where waiting = waiting and running = running and sched = sched and n = n and limit = limit])
    case empty
    with len show ?thesis by (simp add: poolP.simps makes_return)
  next
    case finish
    have "Bs ! ?c = {#}"
      using list_all2_nthD [OF "1.prems"(2) finish(2)] finish(3) by simp
    then have "sum_list (drop_nth ?c Bs) = sum_list Bs"
      using sum_drop_nth [of ?c Bs "\<lambda>x. x"] finish(2) len by simp
    moreover have "makes (poolP sched limit body (Suc n) waiting (drop_nth ?c running))
        (sum_list (map B waiting) + sum_list (drop_nth ?c Bs))"
      using finish "1.prems" by (intro "1.IH"(1)) (auto intro: drop_nth_list_all2)
    ultimately show ?thesis by (simp only: poolP_steps(1) [where sched = sched and n = n, OF finish(2,3)])
  next
    case (step f fs)
    have "thread_makes (fst (running ! ?c)) (f # fs) (Bs ! ?c)"
      using list_all2_nthD [OF "1.prems"(2) step(2)] step(3) by simp
    then obtain B1 B2 where B: "Bs ! ?c = B1 + B2" "makes (f (fst (running ! ?c))) B1"
      and nx: "\<And>s r t. f (fst (running ! ?c)) s = (Inr r, t) \<Longrightarrow>
        thread_makes (fst (thread_next fs (fst (running ! ?c)) r)) (snd (thread_next fs (fst (running ! ?c)) r)) B2"
      by (rule thread_makes_next) blast
    have mk: "makes (bindP (f (fst (running ! ?c))) (\<lambda>r.
        poolP sched limit body (Suc n) waiting (running[?c := thread_next fs (fst (running ! ?c)) r])))
      (B1 + (sum_list (map B waiting) + sum_list (Bs[?c := B2])))"
    proof (rule makes_bind [OF B(2)])
      fix s r t assume "f (fst (running ! ?c)) s = (Inr r, t)"
      then show "makes (poolP sched limit body (Suc n) waiting (running[?c := thread_next fs (fst (running ! ?c)) r]))
          (sum_list (map B waiting) + sum_list (Bs[?c := B2]))"
        using step "1.prems" nx by (intro "1.IH"(2)) (auto intro: list_all2_update_cong)
    qed
    have "B1 + sum_list (Bs[?c := B2]) = sum_list Bs"
      using sum_update [of ?c Bs "\<lambda>x. x" B2] step(2) len B(1) by simp
    then have eq: "B1 + (sum_list (map B waiting) + sum_list (Bs[?c := B2])) = sum_list (map B waiting) + sum_list Bs"
      by (simp add: ac_simps)
    show ?thesis
      using mk unfolding eq by (simp only: poolP_steps(2) [where sched = sched and n = n, OF step(2,3)])
  next
    case (start x xs)
    have "makes (poolP sched limit body (Suc n) xs (running @ [body x]))
        (sum_list (map B xs) + sum_list (Bs @ [B x]))"
      using start "1.prems" by (intro "1.IH"(3)) (auto intro: list_all2_appendI)
    then show ?thesis
      unfolding poolP_steps(3) [where sched = sched and n = n, OF start(2,3)] by (simp add: start(3) ac_simps)
  qed
qed

lemma goP_makes:
  assumes "\<And>x. x \<in> set xs \<Longrightarrow> thread_makes (fst (body x)) (snd (body x)) (B x)"
  shows "makes (goP sched limit body xs) (sum_list (map B xs))"
  using pool_makes [of xs body B "[]" "[]"] assms by (simp add: goP_def)


lemma set_thread_next: "set (snd (thread_next fs l r)) \<subseteq> set fs"
  by (simp add: thread_next_def split: option.splits)

text \<open>
  A property of programs that holds of returning and is kept when a step comes first holds
  of the pool.
\<close>

lemma pool_closed:
  assumes ret: "T (returnP ())" and bind: "\<And>m k. S m \<Longrightarrow> (\<And>x. T (k x)) \<Longrightarrow> T (bindP m k)"
    and "\<forall>x \<in> set waiting. \<forall>f \<in> set (snd (body x)). \<forall>l. S (f l)"
    and "\<forall>th \<in> set running. \<forall>f \<in> set (snd th). \<forall>l. S (f l)"
  shows "T (poolP sched limit body n waiting running)"
  using assms(3,4)
proof (induction sched limit body n waiting running rule: poolP.induct)
  case (1 sched limit body n waiting running)
  let ?c = "sched n mod max 1 (choices limit waiting running)"
  show ?case
  proof (cases rule: poolP_cases [where waiting = waiting and running = running and sched = sched and n = n and limit = limit])
    case empty
    then show ?thesis by (simp add: poolP.simps ret)
  next
    case finish
    have "T (poolP sched limit body (Suc n) waiting (drop_nth ?c running))"
      using finish "1.prems" by (intro "1.IH"(1)) (auto simp: drop_nth_def dest: in_set_takeD in_set_dropD)
    then show ?thesis by (simp only: poolP_steps(1) [where sched = sched and n = n, OF finish(2,3)])
  next
    case (step f fs)
    let ?th = "\<lambda>r. thread_next fs (fst (running ! ?c)) r"
    have mem: "running ! ?c \<in> set running" using step(2) by simp
    have "T (poolP sched limit body (Suc n) waiting (running[?c := ?th r]))" for r
    proof (rule "1.IH"(2) [OF step(1) refl step(2,3) "1.prems"(1)], rule ballI)
      fix th assume "th \<in> set (running[?c := ?th r])"
      then have "th \<in> set running \<or> set (snd th) \<subseteq> set (snd (running ! ?c))"
        using set_update_subset_insert [of running ?c "?th r"]
          set_thread_next [of fs "fst (running ! ?c)" r] step(3) by fastforce
      then show "\<forall>f \<in> set (snd th). \<forall>l. S (f l)" using "1.prems"(2) mem by blast
    qed
    moreover have "S (f l)" for l
      using "1.prems"(2) mem step(3) by (metis list.set_intros(1))
    ultimately show ?thesis
      unfolding poolP_steps(2) [where sched = sched and n = n, OF step(2,3)] by (intro bind)
  next
    case (start x xs)
    have "T (poolP sched limit body (Suc n) xs (running @ [body x]))"
      using "1.prems" start(3) by (intro "1.IH"(3) [OF start(1) refl start(2,3)]) auto
    then show ?thesis by (simp only: poolP_steps(3) [where sched = sched and n = n, OF start(2,3)])
  qed
qed

lemma goP_closed:
  assumes "T (returnP ())" and "\<And>m k. S m \<Longrightarrow> (\<And>x. T (k x)) \<Longrightarrow> T (bindP m k)"
    and "\<And>x f l. x \<in> set xs \<Longrightarrow> f \<in> set (snd (body x)) \<Longrightarrow> S (f l)"
  shows "T (goP sched limit body xs)"
  unfolding goP_def by (rule pool_closed [where S = S]) (use assms in auto)

lemma goP_only_calls:
  assumes "\<And>x f l. x \<in> set xs \<Longrightarrow> f \<in> set (snd (body x)) \<Longrightarrow> only_calls P (f l)"
  shows "only_calls P (goP sched limit body xs)"
  by (rule goP_closed [where S = "only_calls P"]) (use assms in \<open>auto intro: emits_return only_bind\<close>)

subsection \<open>Ends of a pool\<close>

text \<open>
  A pool whose steps do not panic always comes to its end, and when it does, every
  goroutine has reached its goal, provided that the goroutines do not undo each
  other's goals.
\<close>

fun thread_reaches :: "'l \<Rightarrow> ('l \<Rightarrow> ('s, 'l option) prog) list \<Rightarrow> ('s \<Rightarrow> bool) \<Rightarrow> bool" where
  "thread_reaches l [] Q \<longleftrightarrow> False"
| "thread_reaches l (f # fs) Q \<longleftrightarrow>
     (\<forall>s r t. f l s = (Inr r, t) \<longrightarrow> Q t \<or> (\<exists>l'. r = Some l' \<and> thread_reaches l' fs Q))"

definition pool_stable :: "('s, 'l) thread \<Rightarrow> ('s \<Rightarrow> bool) \<Rightarrow> bool" where
  "pool_stable th Q \<longleftrightarrow> (\<forall>f \<in> set (snd th). \<forall>l s r t. f l s = (r, t) \<longrightarrow> Q s \<longrightarrow> Q t)"

lemma pool_stable_next:
  "pool_stable th Q \<Longrightarrow> snd th = f # fs \<Longrightarrow> pool_stable (thread_next fs l r) Q"
  by (auto simp: pool_stable_def thread_next_def split: option.splits)

lemma pool_reaches:
  assumes "\<forall>x \<in> set waiting. thread_reaches (fst (body x)) (snd (body x)) (Q x)"
    and "list_all2 (\<lambda>th x. thread_reaches (fst th) (snd th) (Q x) \<or> Q x s) running tags"
    and "\<forall>x \<in> D. Q x s"
    and "\<forall>x \<in> set waiting. \<forall>y. pool_stable (body x) (Q y)" and "\<forall>th \<in> set running. \<forall>y. pool_stable th (Q y)"
    and "poolP sched limit body n waiting running s = (Inr (), t)"
  shows "\<forall>x \<in> set waiting \<union> set tags \<union> D. Q x t"
  using assms
proof (induction sched limit body n waiting running arbitrary: s tags D rule: poolP.induct)
  case (1 sched limit body n waiting running)
  let ?c = "sched n mod max 1 (choices limit waiting running)"
  have len: "length tags = length running" using "1.prems"(2) by (simp add: list_all2_lengthD)
  show ?case
  proof (cases rule: poolP_cases [where waiting = waiting and running = running and sched = sched and n = n and limit = limit])
    case empty
    with len "1.prems"(3,6) show ?thesis by (simp add: poolP.simps prog_simps)
  next
    case finish
    have Q: "Q (tags ! ?c) s"
      using list_all2_nthD [OF "1.prems"(2) finish(2)] finish(3) by simp
    have "\<forall>x \<in> set waiting \<union> set (drop_nth ?c tags) \<union> insert (tags ! ?c) D. Q x t"
    proof (rule "1.IH"(1) [OF finish(1) refl finish(2,3) "1.prems"(1) drop_nth_list_all2 [OF "1.prems"(2)]])
      show "poolP sched limit body (Suc n) waiting (drop_nth ?c running) s = (Inr (), t)"
        using "1.prems"(6) by (simp only: poolP_steps(1) [where sched = sched and n = n, OF finish(2,3)])
    qed (use Q "1.prems"(3-5) in \<open>auto simp: drop_nth_def dest: in_set_takeD in_set_dropD\<close>)
    moreover have "set tags \<subseteq> insert (tags ! ?c) (set (drop_nth ?c tags))"
      using id_take_nth_drop [of ?c tags] finish(2) len by (auto simp: drop_nth_def) (metis Un_iff insert_iff list.set(2) set_append)
    ultimately show ?thesis by blast
  next
    case (step f fs)
    let ?th = "\<lambda>r. thread_next fs (fst (running ! ?c)) r"
    from "1.prems"(6) obtain r s' where r: "f (fst (running ! ?c)) s = (Inr r, s')"
      and rest: "poolP sched limit body (Suc n) waiting (running[?c := ?th r]) s' = (Inr (), t)"
      unfolding poolP_steps(2) [where sched = sched and n = n, OF step(2,3)]
      by (auto simp: bindP_def split: prod.splits sum.splits)
    have stable: "pool_stable (running ! ?c) (Q y)" for y
      using "1.prems"(5) nth_mem [OF step(2)] by blast
    then have keep: "Q y s \<Longrightarrow> Q y s'" for y
      using r step(3) by (simp add: pool_stable_def)
    have "thread_reaches (fst (running ! ?c)) (f # fs) (Q (tags ! ?c)) \<or> Q (tags ! ?c) s"
      using list_all2_nthD [OF "1.prems"(2) step(2)] step(3) by simp
    then have new: "thread_reaches (fst (?th r)) (snd (?th r)) (Q (tags ! ?c)) \<or> Q (tags ! ?c) s'"
      using r keep by (auto simp: thread_next_def split: option.splits)
    have "list_all2 (\<lambda>th x. thread_reaches (fst th) (snd th) (Q x) \<or> Q x s') running tags"
      using "1.prems"(2) by (rule list_all2_mono) (auto intro: keep)
    then have "list_all2 (\<lambda>th x. thread_reaches (fst th) (snd th) (Q x) \<or> Q x s') (running[?c := ?th r]) (tags[?c := tags ! ?c])"
      using new by (intro list_all2_update_cong)
    then have all2: "list_all2 (\<lambda>th x. thread_reaches (fst th) (snd th) (Q x) \<or> Q x s') (running[?c := ?th r]) tags"
      by simp
    show ?thesis
    proof (rule "1.IH"(2) [OF step(1) refl step(2,3) "1.prems"(1) all2 _ "1.prems"(4) _ rest])
      show "\<forall>x \<in> D. Q x s'" using "1.prems"(3) keep by blast
      show "\<forall>th \<in> set (running[?c := ?th r]). \<forall>y. pool_stable th (Q y)"
        using set_update_subset_insert [of running ?c "?th r"] "1.prems"(5) pool_stable_next [OF stable step(3)] by blast
    qed
  next
    case (start x xs)
    have "\<forall>y \<in> set xs \<union> set (tags @ [x]) \<union> D. Q y t"
    proof (rule "1.IH"(3) [OF start(1) refl start(2,3)])
      show "poolP sched limit body (Suc n) xs (running @ [body x]) s = (Inr (), t)"
        using "1.prems"(6) by (simp only: poolP_steps(3) [where sched = sched and n = n, OF start(2,3)])
    qed (use "1.prems"(1-5) start(3) in \<open>auto intro: list_all2_appendI\<close>)
    with start(3) show ?thesis by auto
  qed
qed

lemma goP_reaches:
  assumes "goP sched limit body xs s = (Inr (), t)"
    and "\<And>x. x \<in> set xs \<Longrightarrow> thread_reaches (fst (body x)) (snd (body x)) (Q x)"
    and "\<And>x y. x \<in> set xs \<Longrightarrow> pool_stable (body x) (Q y)"
    and "x \<in> set xs"
  shows "Q x t"
proof -
  have "\<forall>x \<in> set xs \<union> set [] \<union> {}. Q x t"
    by (rule pool_reaches [OF _ _ _ _ _ assms(1) [unfolded goP_def]]) (use assms(2,3) in auto)
  with assms(4) show ?thesis by simp
qed

lemma bind_ends:
  assumes "\<forall>s. \<exists>r. fst (m s) = Inr r" and "\<And>x. \<forall>s. fst (k x s) = Inr y"
  shows "fst (bindP m k s) = Inr y"
proof -
  obtain r t where "m s = (Inr r, t)" using assms(1) by (metis prod.collapse)
  with assms(2) show ?thesis by (simp add: bindP_def)
qed

lemma goP_ends:
  assumes "\<And>x f l s. x \<in> set xs \<Longrightarrow> f \<in> set (snd (body x)) \<Longrightarrow> \<exists>r. fst (f l s) = Inr r"
  shows "fst (goP sched limit body xs s) = Inr ()"
proof -
  have "\<forall>s. fst (goP sched limit body xs s) = Inr ()"
    by (rule goP_closed [where S = "\<lambda>m. \<forall>s. \<exists>r. fst (m s) = Inr r" and T = "\<lambda>m. \<forall>s. fst (m s) = Inr ()"])
      (use assms in \<open>auto simp: returnP_def intro: bind_ends\<close>)
  then show ?thesis by blast
qed

text \<open>What every step keeps, the pool keeps.\<close>

definition keeps :: "('s \<Rightarrow> bool) \<Rightarrow> ('s, 'a) prog \<Rightarrow> bool" where
  "keeps I m \<longleftrightarrow> (\<forall>s. I s \<longrightarrow> I (snd (m s)))"

lemma keeps_bind: "keeps I m \<Longrightarrow> (\<And>x. keeps I (f x)) \<Longrightarrow> keeps I (bindP m f)"
  by (auto simp: keeps_def bindP_def split: prod.splits sum.splits)

lemma keeps_return: "keeps I (returnP x)"
  by (simp add: keeps_def returnP_def)

lemma keeps_for: "(\<And>x. x \<in> set xs \<Longrightarrow> keeps I (f x)) \<Longrightarrow> keeps I (forP f xs)"
  by (induction xs) (auto intro: keeps_return keeps_bind)

lemma keepsD: "keeps I m \<Longrightarrow> m s = (r, t) \<Longrightarrow> I s \<Longrightarrow> I t"
  unfolding keeps_def by (metis snd_conv)

lemma goP_keeps:
  assumes "\<And>x f l. x \<in> set xs \<Longrightarrow> f \<in> set (snd (body x)) \<Longrightarrow> keeps I (f l)"
  shows "keeps I (goP sched limit body xs)"
  by (rule goP_closed [where S = "keeps I"]) (use assms in \<open>auto intro: keeps_return keeps_bind\<close>)

lemma pool_stable_keeps: "(\<And>f l. f \<in> set (snd th) \<Longrightarrow> keeps Q (f l)) \<Longrightarrow> pool_stable th Q"
  unfolding pool_stable_def keeps_def by (metis snd_conv)

text \<open>The same with regard to what each goroutine knows at its steps.\<close>

fun thread_keeps :: "('s \<Rightarrow> bool) \<Rightarrow> 'l \<Rightarrow> ('l \<Rightarrow> ('s, 'l option) prog) list \<Rightarrow> bool" where
  "thread_keeps I l [] \<longleftrightarrow> True"
| "thread_keeps I l (f # fs) \<longleftrightarrow>
     keeps I (f l) \<and> (\<forall>s t l'. f l s = (Inr (Some l'), t) \<longrightarrow> thread_keeps I l' fs)"

lemma thread_keeps_inv:
  assumes "J l" and "\<And>f l. f \<in> set fs \<Longrightarrow> J l \<Longrightarrow> keeps I (f l)"
    and "\<And>f l s l' t. f \<in> set fs \<Longrightarrow> J l \<Longrightarrow> f l s = (Inr (Some l'), t) \<Longrightarrow> J l'"
  shows "thread_keeps I l fs"
  using assms
proof (induction fs arbitrary: l)
  case Nil
  then show ?case by simp
next
  case (Cons f fs)
  have "thread_keeps I l' fs" if "f l s = (Inr (Some l'), t)" for s t l'
  proof (rule Cons.IH)
    show "J l'" using Cons.prems(3) [of f, OF _ Cons.prems(1) that] by simp
    show "keeps I (g l)" if "g \<in> set fs" "J l" for g l
      using Cons.prems(2) [of g l] that by simp
    show "J m'" if "g \<in> set fs" "J m" "g m s = (Inr (Some m'), t)" for g m s m' t
      using Cons.prems(3) [of g m s m' t] that by simp
  qed
  with Cons.prems(1,2) show ?case by simp
qed

lemma pool_thread_keeps:
  assumes "\<forall>x \<in> set waiting. thread_keeps I (fst (body x)) (snd (body x))"
    and "\<forall>th \<in> set running. thread_keeps I (fst th) (snd th)"
    and "I s" and "poolP sched limit body n waiting running s = (r, t)"
  shows "I t"
  using assms
proof (induction sched limit body n waiting running arbitrary: s rule: poolP.induct)
  case (1 sched limit body n waiting running)
  let ?c = "sched n mod max 1 (choices limit waiting running)"
  show ?case
  proof (cases rule: poolP_cases [where waiting = waiting and running = running and sched = sched and n = n and limit = limit])
    case empty
    with "1.prems" show ?thesis by (simp add: poolP.simps prog_simps)
  next
    case finish
    show ?thesis
      using finish "1.prems" poolP_steps(1) [where sched = sched and n = n, OF finish(2,3)]
      by (intro "1.IH"(1)) (auto simp: drop_nth_def dest: in_set_takeD in_set_dropD)
  next
    case (step f fs)
    let ?th = "\<lambda>r. thread_next fs (fst (running ! ?c)) r"
    have keep: "thread_keeps I (fst (running ! ?c)) (f # fs)"
      using "1.prems"(2) nth_mem [OF step(2)] step(3) by metis
    obtain q s' where q: "f (fst (running ! ?c)) s = (q, s')" by (cases "f (fst (running ! ?c)) s")
    have "I s'" using keep q "1.prems"(3) by (auto dest: keepsD)
    show ?thesis
    proof (cases q)
      case (Inl e)
      with q "1.prems"(4) \<open>I s'\<close> show ?thesis
        unfolding poolP_steps(2) [where sched = sched and n = n, OF step(2,3)] bindP_def by simp
    next
      case (Inr m)
      have "thread_keeps I (fst (?th m)) (snd (?th m))"
        using keep q Inr by (auto simp: thread_next_def split: option.splits)
      then have "\<forall>th \<in> set (running[?c := ?th m]). thread_keeps I (fst th) (snd th)"
        using "1.prems"(2) set_update_subset_insert [of running ?c "?th m"] by blast
      moreover have "poolP sched limit body (Suc n) waiting (running[?c := ?th m]) s' = (r, t)"
        using "1.prems"(4) unfolding poolP_steps(2) [where sched = sched and n = n, OF step(2,3)] bindP_def q Inr by simp
      ultimately show ?thesis
        using \<open>I s'\<close> by (intro "1.IH"(2) [OF step(1) refl step(2,3) "1.prems"(1)])
    qed
  next
    case (start x xs)
    show ?thesis
      using "1.prems" start(3) poolP_steps(3) [where sched = sched and n = n, OF start(2,3)]
      by (intro "1.IH"(3) [OF start(1) refl start(2,3)]) auto
  qed
qed

lemma goP_thread_keeps:
  assumes "\<And>x. x \<in> set xs \<Longrightarrow> thread_keeps I (fst (body x)) (snd (body x))"
    and "I s" and "goP sched limit body xs s = (r, t)"
  shows "I t"
  using pool_thread_keeps [of xs I body "[]"] assms by (auto simp: goP_def)

text \<open>A pool fails only by a panic of one of its steps.\<close>

definition panics_only :: "('s, 'a) prog \<Rightarrow> bool" where
  "panics_only m \<longleftrightarrow> (\<forall>s e. fst (m s) \<noteq> Inl (Errorf e))"

lemma panics_bind: "panics_only m \<Longrightarrow> (\<And>x. panics_only (f x)) \<Longrightarrow> panics_only (bindP m f)"
  by (auto simp: panics_only_def bindP_def split: prod.splits sum.splits) (metis fst_conv)

lemma panics_return: "panics_only (returnP x)"
  by (simp add: panics_only_def returnP_def)

lemma panics_try: "panics_only (tryP m)"
  by (auto simp: panics_only_def tryP_def split: prod.splits sum.splits go_error.splits)

lemma goP_panics:
  assumes "\<And>x f l. x \<in> set xs \<Longrightarrow> f \<in> set (snd (body x)) \<Longrightarrow> panics_only (f l)"
  shows "panics_only (goP sched limit body xs)"
  by (rule goP_closed [where S = panics_only]) (use assms in \<open>auto intro: panics_return panics_bind\<close>)

text \<open>A goroutine on its own: its steps in sequence.\<close>

fun seqP :: "'l \<Rightarrow> ('l \<Rightarrow> ('s, 'l option) prog) list \<Rightarrow> ('s, 'l option) prog" where
  "seqP l [] = returnP (Some l)"
| "seqP l (f # fs) = bindP (f l) (\<lambda>r. case r of None \<Rightarrow> returnP None | Some l' \<Rightarrow> seqP l' fs)"

end
