(* ===== verification/Alb_Model.thy ===== *)
theory Alb_Model
  imports Resource_Stack Keyed_Match Go_Pool K8s_Helper
begin

text \<open>
  The data of the ingress appliers and their boundary: the resources of the model
  (\<open>pkg/model/alb\<close>), the objects the cloud SDK returns, the provider interface
  (\<open>prvd.Provider\<close>: \<open>IALB\<close>, \<open>ICAS\<close>) and the Kubernetes client as one record of
  operations over an arbitrary world, and the state an applier runs in.

  Fields the appliers only hand on (the settings of a listener, the actions and
  conditions of a rule, ...) are one field of an arbitrary type.  The resources of the
  stack are lists by Go type, what \<open>ListResources\<close> gives; a pointer to a resource is its
  id, and \<open>SetStatus\<close> changes the resource with that id.  A provider operation whose
  result is used even if it fails returns the result together with the error, and one
  whose error is only kept in a variable returns that error.
\<close>

subsection \<open>Identifiers that refer to other resources\<close>

text \<open>
  A token holds the resource whose status it reads.  A resource whose uid is already taken
  is not added to the stack, so nothing ever sets its status; its token is \<open>UnregisteredToken\<close>.
\<close>

datatype id_token =
    LiteralToken string
  | LoadBalancerIDToken string
  | ListenerIDToken string
  | ServerGroupIDToken string
  | UnregisteredToken string

subsection \<open>Resources (\<open>pkg/model/alb\<close>)\<close>

record lb_status =
  lbs_DNSName :: string
  lbs_LoadBalancerID :: string

record 'x alb_lb =
  alb_ID :: string
  alb_LoadBalancerId :: string
  alb_ForceOverride :: "bool option"
  alb_ListenerForceOverride :: "bool option"
  alb_Spec :: 'x
  alb_Status :: "lb_status option"

record 'x alb_listener =
  als_ID :: string
  als_LoadBalancerID :: id_token
  als_ListenerPort :: int
  als_ListenerProtocol :: string
  als_Spec :: 'x
  als_Status :: "string option"

record 'x alb_rule =
  alr_ID :: string
  alr_ListenerID :: id_token
  alr_Priority :: int
  alr_RuleDirection :: string
  alr_Spec :: 'x
  alr_Status :: "string option"

record sgp_named_key =
  sk_Prefix :: string
  sk_ClusterID :: string
  sk_Namespace :: string
  sk_IngressName :: string
  sk_ServiceName :: string
  sk_ServicePort :: int

record 'x alb_sgp =
  asg_ID :: string
  asg_NamedKey :: sgp_named_key
  asg_Spec :: 'x
  asg_Status :: "string option"

record 'x alb_acl =
  acl_ID :: string
  acl_ListenerID :: id_token
  acl_AclName :: string
  acl_AclType :: string
  acl_AclIds :: "string list"
  acl_Spec :: 'x
  acl_Status :: "string option"

record alb_cert =
  cert_ID :: string
  cert_CertName :: string
  cert_IsDefault :: bool
  cert_Certificate :: string
  cert_PrivateKey :: string
  cert_Status :: "string option"

record pod_condition =
  pc_Type :: string
  pc_Status :: string
  pc_Reason :: string
  pc_Message :: string

record pod =
  pod_Namespace :: string
  pod_Name :: string
  pod_UID :: string
  pod_ReadinessGates :: "string list"
  pod_Conditions :: "pod_condition list"

record backend_item =
  bi_Pod :: "pod option"
  bi_Description :: string
  bi_ServerId :: string
  bi_ServerIp :: string
  bi_Weight :: int
  bi_Port :: int
  bi_Type :: string

subsection \<open>Objects of the cloud SDK\<close>

record 'x sdk_lb =
  slb_LoadBalancerId :: string
  slb_DNSName :: string
  slb_Tags :: smap
  slb_Rest :: 'x

record 'x sdk_listener =
  sls_ListenerId :: string
  sls_ListenerPort :: int
  sls_ListenerProtocol :: string
  sls_ListenerDescription :: string
  sls_Rest :: 'x

record 'x sdk_rule =
  slr_RuleId :: string
  slr_Priority :: int
  slr_Direction :: string
  slr_Rest :: 'x

record 'x sdk_sgp =
  ssg_ServerGroupId :: string
  ssg_Tags :: smap
  ssg_Rest :: 'x

record backend_server =
  bs_Description :: string
  bs_Port :: int
  bs_ServerId :: string
  bs_ServerIp :: string
  bs_ServerType :: string
  bs_Status :: string
  bs_Weight :: int

record sdk_acl =
  sac_AclId :: string
  sac_AclName :: string

record cert_info =
  ci_CertName :: string
  ci_CertIdentifier :: string

subsection \<open>Provider and Kubernetes client\<close>

datatype 'x alb_call =
    CListALBsWithTags smap
  | CCreateALB "'x alb_lb"
  | CReuseALB "'x alb_lb" string
  | CUnReuseALB string
  | CUpdateALB "'x alb_lb" "'x sdk_lb"
  | CDeleteALB string
  | CListALBListeners string
  | CCreateALBListener "'x alb_listener"
  | CUpdateALBListener "'x alb_listener" "'x sdk_listener"
  | CDeleteALBListener string
  | CListALBListenerRules string
  | CCreateALBListenerRules "'x alb_rule list"
  | CUpdateALBListenerRules "('x alb_rule \<times> 'x sdk_rule) list"
  | CDeleteALBListenerRules "string list"
  | CListALBServers string
  | CRegisterALBServers string "backend_item list"
  | CDeregisterALBServers string "backend_server list"
  | CReplaceALBServers string "backend_item list" "backend_server list"
  | CListALBServerGroupsWithTags smap
  | CSelectALBServerGroupsByID string
  | CCreateALBServerGroup "'x alb_sgp"
  | CUpdateALBServerGroup "'x alb_sgp" "'x sdk_sgp"
  | CDeleteALBServerGroup string
  | CTagALBResources string smap
  | CGetALBListenerAttribute string
  | CListAcl "'x alb_listener" "string list"
  | CCreateAcl "'x alb_acl"
  | CUpdateAcl string "'x alb_acl" sdk_acl
  | CAssociateAcl "'x alb_acl" "string list"
  | CDisassociateAcl string "string list"
  | CDescribeSSLCertificateList
  | CCreateSSLCertificateWithName string string string
  | CBuildBackends "string \<times> string" int
  | CGetPod "string \<times> string"
  | CPatchPodStatus pod pod_condition

text \<open>
  \<open>a_BuildBackends\<close> stands for \<open>backendManager.BuildServicePortSDKBackends\<close>, and
  \<open>a_sha256hex\<close> for the hexadecimal SHA-256 sum.
\<close>

record ('w, 'x) alb_cloud =
  a_ListALBsWithTags :: "smap \<Rightarrow> 'w \<Rightarrow> 'x sdk_lb list res \<times> 'w"
  a_CreateALB :: "'x alb_lb \<Rightarrow> 'w \<Rightarrow> lb_status res \<times> 'w"
  a_ReuseALB :: "'x alb_lb \<Rightarrow> string \<Rightarrow> 'w \<Rightarrow> lb_status res \<times> 'w"
  a_UnReuseALB :: "string \<Rightarrow> 'w \<Rightarrow> unit res \<times> 'w"
  a_UpdateALB :: "'x alb_lb \<Rightarrow> 'x sdk_lb \<Rightarrow> 'w \<Rightarrow> lb_status res \<times> 'w"
  a_DeleteALB :: "string \<Rightarrow> 'w \<Rightarrow> unit res \<times> 'w"
  a_ListALBListeners :: "string \<Rightarrow> 'w \<Rightarrow> 'x sdk_listener list res \<times> 'w"
  a_CreateALBListener :: "'x alb_listener \<Rightarrow> 'w \<Rightarrow> (string \<times> go_error option) \<times> 'w"
  a_UpdateALBListener :: "'x alb_listener \<Rightarrow> 'x sdk_listener \<Rightarrow> 'w \<Rightarrow> (string \<times> go_error option) \<times> 'w"
  a_DeleteALBListener :: "string \<Rightarrow> 'w \<Rightarrow> go_error option \<times> 'w"
  a_ListALBListenerRules :: "string \<Rightarrow> 'w \<Rightarrow> 'x sdk_rule list res \<times> 'w"
  a_CreateALBListenerRules :: "'x alb_rule list \<Rightarrow> 'w \<Rightarrow> (int \<times> string) list res \<times> 'w"
  a_UpdateALBListenerRules :: "('x alb_rule \<times> 'x sdk_rule) list \<Rightarrow> 'w \<Rightarrow> unit res \<times> 'w"
  a_DeleteALBListenerRules :: "string list \<Rightarrow> 'w \<Rightarrow> unit res \<times> 'w"
  a_ListALBServers :: "string \<Rightarrow> 'w \<Rightarrow> backend_server list res \<times> 'w"
  a_RegisterALBServers :: "string \<Rightarrow> backend_item list \<Rightarrow> 'w \<Rightarrow> unit res \<times> 'w"
  a_DeregisterALBServers :: "string \<Rightarrow> backend_server list \<Rightarrow> 'w \<Rightarrow> unit res \<times> 'w"
  a_ReplaceALBServers :: "string \<Rightarrow> backend_item list \<Rightarrow> backend_server list \<Rightarrow> 'w \<Rightarrow> unit res \<times> 'w"
  a_ListALBServerGroupsWithTags :: "smap \<Rightarrow> 'w \<Rightarrow> 'x sdk_sgp list res \<times> 'w"
  a_SelectALBServerGroupsByID :: "string \<Rightarrow> 'w \<Rightarrow> 'x sdk_sgp res \<times> 'w"
  a_CreateALBServerGroup :: "'x alb_sgp \<Rightarrow> 'w \<Rightarrow> (string \<times> go_error option) \<times> 'w"
  a_UpdateALBServerGroup :: "'x alb_sgp \<Rightarrow> 'x sdk_sgp \<Rightarrow> 'w \<Rightarrow> (string \<times> go_error option) \<times> 'w"
  a_DeleteALBServerGroup :: "string \<Rightarrow> 'w \<Rightarrow> go_error option \<times> 'w"
  a_TagALBResources :: "string \<Rightarrow> smap \<Rightarrow> 'w \<Rightarrow> unit res \<times> 'w"
  a_GetALBListenerAttribute :: "string \<Rightarrow> 'w \<Rightarrow> (string list \<times> string) res \<times> 'w"
  a_ListAcl :: "'x alb_listener \<Rightarrow> string list \<Rightarrow> 'w \<Rightarrow> sdk_acl list res \<times> 'w"
  a_CreateAcl :: "'x alb_acl \<Rightarrow> 'w \<Rightarrow> string res \<times> 'w"
  a_UpdateAcl :: "string \<Rightarrow> 'x alb_acl \<Rightarrow> sdk_acl \<Rightarrow> 'w \<Rightarrow> string res \<times> 'w"
  a_AssociateAcl :: "'x alb_acl \<Rightarrow> string list \<Rightarrow> 'w \<Rightarrow> unit res \<times> 'w"
  a_DisassociateAcl :: "string \<Rightarrow> string list \<Rightarrow> 'w \<Rightarrow> unit res \<times> 'w"
  a_DescribeSSLCertificateList :: "'w \<Rightarrow> cert_info list res \<times> 'w"
  a_CreateSSLCertificateWithName :: "string \<Rightarrow> string \<Rightarrow> string \<Rightarrow> 'w \<Rightarrow> (string \<times> go_error option) \<times> 'w"
  a_BuildBackends :: "string \<times> string \<Rightarrow> int \<Rightarrow> 'w \<Rightarrow> backend_item list res \<times> 'w"
  a_GetPod :: "string \<times> string \<Rightarrow> 'w \<Rightarrow> pod res \<times> 'w"
  a_PatchPodStatus :: "pod \<Rightarrow> pod_condition \<Rightarrow> 'w \<Rightarrow> unit res \<times> 'w"
  a_IsNotFound :: "go_error \<Rightarrow> bool"
  a_sha256hex :: "string \<Rightarrow> string"

text \<open>
  What a run is given: the context flag \<open>IsReuseLb\<close>, the cluster, the tag prefix and the
  id of the stack, the order in which Go ranges over its maps, the order in which
  \<open>sort.Sort\<close> (which is not stable) leaves pairs of rules for a given key, and a scheduler
  for each goroutine pool.
\<close>

record 'x alb_env =
  e_IsReuseLb :: bool
  e_ClusterID :: string
  e_tagPrefix :: string
  e_stackID :: "string \<times> string"
  e_rangeLbs :: "(string \<times> 'x alb_listener list) list \<Rightarrow> (string \<times> 'x alb_listener list) list"
  e_rangeLss :: "(string \<times> 'x alb_listener) list \<Rightarrow> (string \<times> 'x alb_listener) list"
  e_rangeErrs :: "err_result \<Rightarrow> err_result"
  e_sort :: "('x alb_rule \<times> 'x sdk_rule \<Rightarrow> int) \<Rightarrow> ('x alb_rule \<times> 'x sdk_rule) list \<Rightarrow> ('x alb_rule \<times> 'x sdk_rule) list"
  e_sched :: "nat \<Rightarrow> nat \<Rightarrow> nat"

text \<open>
  The resources of the stack, the errors by port, the error variables that the goroutines
  of a pool share, and the server groups that \<open>PostApply\<close> deletes.
\<close>

record ('w, 'x) alb_state = "('w, 'x alb_call) effects" +
  as_LBs :: "'x alb_lb list"
  as_LSs :: "'x alb_listener list"
  as_LRs :: "'x alb_rule list"
  as_SGPs :: "'x alb_sgp list"
  as_Acls :: "'x alb_acl list"
  as_Certs :: "alb_cert list"
  as_errRes :: err_result
  as_errCreate :: "go_error option"
  as_errUpdate :: "go_error option"
  as_errDelete :: "go_error option"
  as_errApply :: "go_error option"
  as_unmatchedSDKSGPs :: "'x sdk_sgp list"

type_synonym ('w, 'x, 'a) alb_prog = "(('w, 'x) alb_state, 'a) prog"

definition sorts_by :: "(('a \<Rightarrow> int) \<Rightarrow> 'a list \<Rightarrow> 'a list) \<Rightarrow> bool" where
  "sorts_by srt \<longleftrightarrow> (\<forall>k xs. mset (srt k xs) = mset xs \<and> sorted (map k (srt k xs)))"

lemma sorts_by_sort_key: "sorts_by sort_key"
  by (simp add: sorts_by_def)

definition getP :: "('s \<Rightarrow> 'a) \<Rightarrow> ('s, 'a) prog" where
  "getP f = (\<lambda>s. (Inr (f s), s))"

definition modifyP :: "('s \<Rightarrow> 's) \<Rightarrow> ('s, unit) prog" where
  "modifyP f = (\<lambda>s. (Inr (), f s))"

text \<open>An operation that returns a result and an error together.\<close>

definition call2 :: "'c \<Rightarrow> ('w \<Rightarrow> 'a \<times> 'w) \<Rightarrow> (('w, 'c, 'z) effects_scheme, 'a) prog" where
  "call2 c f = invoke c (\<lambda>w. case f w of (x, w') \<Rightarrow> (Inr x, w'))"

lemma prog_state_run [prog_simps]:
  "getP f s = (Inr (f s), s)" "modifyP g s = (Inr (), g s)"
  by (simp_all add: getP_def modifyP_def)

lemma follows_silent:
  "(\<And>s. fx_calls (snd (m s)) = fx_calls s) \<Longrightarrow> follows m []"
  by (simp add: follows_def)

lemma follows_modify: "(\<And>s. fx_calls (f s) = fx_calls s) \<Longrightarrow> follows (modifyP f) []"
  by (rule follows_silent) (simp add: modifyP_def)

lemma follows_for_silent:
  assumes "\<And>x. follows (f x) []"
  shows "follows (forP f xs) []"
proof -
  have "concat (map (\<lambda>_. []) xs) = []" by simp
  with follows_for [of xs f "\<lambda>_. []"] assms show ?thesis by metis
qed

lemma follows_bind_silent:
  "follows m cs \<Longrightarrow> (\<And>x. follows (f x) []) \<Longrightarrow> follows (bindP m f) cs"
  using follows_bind [of m cs f "[]"] by simp

text \<open>Invariants that the parts of a program keep.\<close>

lemma keeps_modify: "(\<And>s. I s \<Longrightarrow> I (f s)) \<Longrightarrow> keeps I (modifyP f)"
  by (simp add: keeps_def modifyP_def)

lemma keeps_call2: "(\<And>s w c. I s \<Longrightarrow> I (s\<lparr>fx_world := w, fx_calls := c\<rparr>)) \<Longrightarrow> keeps I (call2 c f)"
  by (auto simp: keeps_def call2_def invoke_def split: prod.splits)

lemma keeps_invoke: "(\<And>s w c. I s \<Longrightarrow> I (s\<lparr>fx_world := w, fx_calls := c\<rparr>)) \<Longrightarrow> keeps I (invoke c f)"
  by (auto simp: keeps_def invoke_def split: prod.splits)

lemma keeps_try: "keeps I m \<Longrightarrow> keeps I (tryP m)"
  by (auto simp: keeps_def tryP_def split: prod.splits sum.splits go_error.splits)

lemma keeps_get: "keeps I (getP f)"
  by (simp add: keeps_def getP_def)

lemma keeps_lift: "keeps I (liftP r)"
  by (simp add: keeps_def liftP_def)

lemma keeps_throw: "keeps I (throwP e)"
  by (simp add: keeps_def throwP_def)

lemma keeps_case_option: "keeps I m \<Longrightarrow> (\<And>x. keeps I (f x)) \<Longrightarrow> keeps I (case v of None \<Rightarrow> m | Some x \<Rightarrow> f x)"
  by (cases v) auto

lemma keeps_case_prod: "(\<And>x y. keeps I (f x y)) \<Longrightarrow> keeps I (case p of (x, y) \<Rightarrow> f x y)"
  by (cases p) auto

lemma keeps_if: "(b \<Longrightarrow> keeps I m) \<Longrightarrow> (\<not> b \<Longrightarrow> keeps I n) \<Longrightarrow> keeps I (if b then m else n)"
  by simp

lemmas keeps_parts = keeps_bind keeps_case_option keeps_case_prod keeps_if keeps_get keeps_lift keeps_throw keeps_return

subsection \<open>Resolving identifiers (\<open>LoadBalancerID\<close>, \<open>ListenerID\<close>)\<close>

definition LoadBalancerID_resolve :: "'x alb_lb \<Rightarrow> string res" where
  "LoadBalancerID_resolve lb =
     (case alb_Status lb of None \<Rightarrow> Inl (Errorf ''LoadBalancer is not fulfilled yet: '')
      | Some st \<Rightarrow> Inr (lbs_LoadBalancerID st))"

definition ListenerID_resolve :: "'x alb_listener \<Rightarrow> string res" where
  "ListenerID_resolve ls =
     (case als_Status ls of None \<Rightarrow> Inl (Errorf ''Listener is not fulfilled yet: '') | Some i \<Rightarrow> Inr i)"

definition ServerGroupID_resolve :: "'x alb_sgp \<Rightarrow> string res" where
  "ServerGroupID_resolve g =
     (case asg_Status g of None \<Rightarrow> Inl (Errorf ''ServerGroup is not fulfilled yet: '') | Some i \<Rightarrow> Inr i)"

text \<open>The token of a resource holds the resource itself; here it is looked up by its id.\<close>

definition resolve_token :: "id_token \<Rightarrow> ('w, 'x) alb_state \<Rightarrow> string res" where
  "resolve_token tok s =
     (case tok of
        LiteralToken t \<Rightarrow> Inr t
      | LoadBalancerIDToken i \<Rightarrow>
          (case find (\<lambda>lb. alb_ID lb = i) (as_LBs s) of
             Some lb \<Rightarrow> LoadBalancerID_resolve lb | None \<Rightarrow> Inl (Panic ''nil pointer dereference''))
      | ListenerIDToken i \<Rightarrow>
          (case find (\<lambda>ls. als_ID ls = i) (as_LSs s) of
             Some ls \<Rightarrow> ListenerID_resolve ls | None \<Rightarrow> Inl (Panic ''nil pointer dereference''))
      | ServerGroupIDToken i \<Rightarrow>
          (case find (\<lambda>g. asg_ID g = i) (as_SGPs s) of
             Some g \<Rightarrow> ServerGroupID_resolve g | None \<Rightarrow> Inl (Panic ''nil pointer dereference''))
      | UnregisteredToken i \<Rightarrow> Inl (Errorf ''Listener is not fulfilled yet: ''))"

definition Resolve_token :: "id_token \<Rightarrow> ('w, 'x, string) alb_prog" where
  "Resolve_token tok = (\<lambda>s. (resolve_token tok s, s))"

subsection \<open>Setting the status\<close>

definition LB_SetStatus :: "string \<Rightarrow> lb_status \<Rightarrow> ('w, 'x, unit) alb_prog" where
  "LB_SetStatus i st = modifyP (as_LBs_update (map (\<lambda>lb. if alb_ID lb = i then lb\<lparr>alb_Status := Some st\<rparr> else lb)))"

definition LS_SetStatus :: "string \<Rightarrow> string \<Rightarrow> ('w, 'x, unit) alb_prog" where
  "LS_SetStatus i st = modifyP (as_LSs_update (map (\<lambda>ls. if als_ID ls = i then ls\<lparr>als_Status := Some st\<rparr> else ls)))"

definition LR_SetStatus :: "string \<Rightarrow> string \<Rightarrow> ('w, 'x, unit) alb_prog" where
  "LR_SetStatus i st = modifyP (as_LRs_update (map (\<lambda>lr. if alr_ID lr = i then lr\<lparr>alr_Status := Some st\<rparr> else lr)))"

definition SGP_SetStatus :: "string \<Rightarrow> string \<Rightarrow> ('w, 'x, unit) alb_prog" where
  "SGP_SetStatus i st = modifyP (as_SGPs_update (map (\<lambda>g. if asg_ID g = i then g\<lparr>asg_Status := Some st\<rparr> else g)))"

definition Acl_SetStatus :: "string \<Rightarrow> string \<Rightarrow> ('w, 'x, unit) alb_prog" where
  "Acl_SetStatus i st = modifyP (as_Acls_update (map (\<lambda>a. if acl_ID a = i then a\<lparr>acl_Status := Some st\<rparr> else a)))"

definition Cert_SetStatus :: "string \<Rightarrow> string \<Rightarrow> ('w, 'x, unit) alb_prog" where
  "Cert_SetStatus i st = modifyP (as_Certs_update (map (\<lambda>c. if cert_ID c = i then c\<lparr>cert_Status := Some st\<rparr> else c)))"

subsection \<open>Tags (\<open>tracking.go\<close>)\<close>

definition prefixedTrackingKey :: "'x alb_env \<Rightarrow> string \<Rightarrow> string" where
  "prefixedTrackingKey E tag = e_tagPrefix E @ ''/'' @ tag"

definition ResourceIDTagKey :: "'x alb_env \<Rightarrow> string" where
  "ResourceIDTagKey E = prefixedTrackingKey E ''resource''"

definition AlbConfigTagKey :: "'x alb_env \<Rightarrow> string" where
  "AlbConfigTagKey E = prefixedTrackingKey E ''albconfig''"

definition ClusterNameTagKey :: string where
  "ClusterNameTagKey = ''ack.aliyun.com''"

definition IsAlbIngressTagKey :: "'x alb_env \<Rightarrow> string \<Rightarrow> bool" where
  "IsAlbIngressTagKey E key \<longleftrightarrow>
     key = AlbConfigTagKey E \<or> key = ClusterNameTagKey \<or> key = ResourceIDTagKey E"

definition StackTags :: "'x alb_env \<Rightarrow> smap" where
  "StackTags E =
     map_set (AlbConfigTagKey E) (AvoidTagValueKeyword (StackID_String (e_stackID E)))
       [(ClusterNameTagKey, e_ClusterID E)]"

definition ResourceTags :: "'x alb_env \<Rightarrow> string \<Rightarrow> smap \<Rightarrow> smap" where
  "ResourceTags E resID additionalTags =
     MergeStringMap [StackTags E, [(ResourceIDTagKey E, resID)], additionalTags]"

subsection \<open>A world for the examples\<close>

text \<open>Lists are empty, every change succeeds, and the state of the world is trivial.\<close>

definition demo_alb :: "(unit, unit) alb_cloud" where
  "demo_alb = \<lparr>a_ListALBsWithTags = \<lambda>_ w. (Inr [], w),
     a_CreateALB = \<lambda>_ w. (Inr \<lparr>lbs_DNSName = ''dns'', lbs_LoadBalancerID = ''alb-1''\<rparr>, w),
     a_ReuseALB = \<lambda>_ i w. (Inr \<lparr>lbs_DNSName = ''dns'', lbs_LoadBalancerID = i\<rparr>, w),
     a_UnReuseALB = \<lambda>_ w. (Inr (), w),
     a_UpdateALB = \<lambda>_ k w. (Inr \<lparr>lbs_DNSName = slb_DNSName k, lbs_LoadBalancerID = slb_LoadBalancerId k\<rparr>, w),
     a_DeleteALB = \<lambda>_ w. (Inr (), w), a_ListALBListeners = \<lambda>_ w. (Inr [], w),
     a_CreateALBListener = \<lambda>_ w. ((''lsn-1'', None), w),
     a_UpdateALBListener = \<lambda>_ k w. ((sls_ListenerId k, None), w), a_DeleteALBListener = \<lambda>_ w. (None, w),
     a_ListALBListenerRules = \<lambda>_ w. (Inr [], w),
     a_CreateALBListenerRules = \<lambda>rs w. (Inr (map (\<lambda>r. (alr_Priority r, ''rule-1'')) rs), w),
     a_UpdateALBListenerRules = \<lambda>_ w. (Inr (), w), a_DeleteALBListenerRules = \<lambda>_ w. (Inr (), w),
     a_ListALBServers = \<lambda>_ w. (Inr [], w), a_RegisterALBServers = \<lambda>_ _ w. (Inr (), w),
     a_DeregisterALBServers = \<lambda>_ _ w. (Inr (), w), a_ReplaceALBServers = \<lambda>_ _ _ w. (Inr (), w),
     a_ListALBServerGroupsWithTags = \<lambda>_ w. (Inr [], w),
     a_SelectALBServerGroupsByID = \<lambda>i w. (Inr \<lparr>ssg_ServerGroupId = i, ssg_Tags = [], ssg_Rest = ()\<rparr>, w),
     a_CreateALBServerGroup = \<lambda>_ w. ((''sgp-1'', None), w),
     a_UpdateALBServerGroup = \<lambda>_ k w. ((ssg_ServerGroupId k, None), w), a_DeleteALBServerGroup = \<lambda>_ w. (None, w),
     a_TagALBResources = \<lambda>_ _ w. (Inr (), w), a_GetALBListenerAttribute = \<lambda>_ w. (Inr ([], []), w),
     a_ListAcl = \<lambda>_ _ w. (Inr [], w), a_CreateAcl = \<lambda>_ w. (Inr ''acl-1'', w),
     a_UpdateAcl = \<lambda>_ _ k w. (Inr (sac_AclId k), w), a_AssociateAcl = \<lambda>_ _ w. (Inr (), w),
     a_DisassociateAcl = \<lambda>_ _ w. (Inr (), w), a_DescribeSSLCertificateList = \<lambda>w. (Inr [], w),
     a_CreateSSLCertificateWithName = \<lambda>_ _ _ w. ((''cert-1'', None), w),
     a_BuildBackends = \<lambda>_ _ w. (Inr [], w), a_GetPod = \<lambda>_ w. (Inl (Errorf ''not found''), w),
     a_PatchPodStatus = \<lambda>_ _ w. (Inr (), w), a_IsNotFound = \<lambda>e. e = Errorf ''not found'', a_sha256hex = \<lambda>x. x\<rparr>"

definition demo_env :: "unit alb_env" where
  "demo_env = \<lparr>e_IsReuseLb = False, e_ClusterID = ''c1'', e_tagPrefix = ''ingress.k8s.alibaba'',
     e_stackID = (''ns'', ''web''), e_rangeLbs = \<lambda>m. m, e_rangeLss = \<lambda>m. m, e_rangeErrs = \<lambda>m. m,
     e_sort = sort_key, e_sched = \<lambda>_ _. 0\<rparr>"

definition demo_alb_state :: "(unit, unit) alb_state" where
  "demo_alb_state = \<lparr>fx_world = (), fx_calls = [], as_LBs = [], as_LSs = [], as_LRs = [], as_SGPs = [], as_Acls = [],
     as_Certs = [], as_errRes = [], as_errCreate = None, as_errUpdate = None, as_errDelete = None, as_errApply = None,
     as_unmatchedSDKSGPs = []\<rparr>"

end
