(* ===== verification/Alb_Matching.thy ===== *)
theory Alb_Matching
  imports Alb_Model
begin

text \<open>
  The matching functions of the ingress appliers (\<open>matchResAndSDK...\<close> in
  \<open>pkg/controller/ingress/reconcile/applier\<close>), each with the interpretation that makes
  it an instance of the matching contract.
\<close>

subsection \<open>Load balancers (\<open>alb.go\<close>)\<close>

definition mapResAlbLoadBalancerByResourceID :: "'x alb_lb list \<Rightarrow> (string \<times> 'x alb_lb) list" where
  "mapResAlbLoadBalancerByResourceID resLBs = index_by alb_ID resLBs"

definition mapSDKAlbLoadBalancerByResourceID :: "'x sdk_lb list \<Rightarrow> string \<Rightarrow> (string \<times> 'x sdk_lb list) list res" where
  "mapSDKAlbLoadBalancerByResourceID sdkLBs tagKey =
     (if list_all (\<lambda>lb. has_key (slb_Tags lb) tagKey) sdkLBs
      then Inr (group_by (\<lambda>lb. index_str (slb_Tags lb) tagKey) sdkLBs)
      else Inl (Errorf ''unexpected loadBalancer with no resourceID: ''))"

text \<open>
  The pairs hold the address of the loop variable, which all iterations of the inner loop
  share (the module asks for Go 1.20): every pair of a key sees the last load balancer.
\<close>

definition pair_last :: "(string \<times> 'r) list \<Rightarrow> (string \<times> 's list) list \<Rightarrow> string \<Rightarrow> ('r \<times> 's) list" where
  "pair_last rs ss k = map (\<lambda>_. (at_key rs k, last (at_key ss k))) (at_key ss k)"

definition match_group_last ::
  "(string \<times> 'r) list \<Rightarrow> (string \<times> 's list) list \<Rightarrow> ('r \<times> 's) list \<times> 'r list \<times> 's list" where
  "match_group_last rs ss =
     (concat (map (pair_last rs ss) (common_keys rs ss)),
      map (at_key rs) (keys_without rs ss), concat (map (at_key ss) (keys_without ss rs)))"

definition matchResAndSDKAlbLoadBalancers ::
  "'x alb_lb list \<Rightarrow> 'x sdk_lb list \<Rightarrow> string \<Rightarrow> (('x alb_lb \<times> 'x sdk_lb) list \<times> 'x alb_lb list \<times> 'x sdk_lb list) res" where
  "matchResAndSDKAlbLoadBalancers resLBs sdkLBs tagKey =
     bind_res (mapSDKAlbLoadBalancerByResourceID sdkLBs tagKey) (\<lambda>sdkLBsByID.
     Inr (match_group_last (mapResAlbLoadBalancerByResourceID resLBs) sdkLBsByID))"

subsection \<open>Listeners (\<open>listener.go\<close>)\<close>

definition port_protocol :: "string \<Rightarrow> int \<Rightarrow> string" where
  "port_protocol protocol port = protocol @ ''+'' @ Itoa port"

definition mapResListenerByPortProtocol :: "'x alb_listener list \<Rightarrow> (string \<times> 'x alb_listener) list" where
  "mapResListenerByPortProtocol resLSs =
     index_by (\<lambda>ls. port_protocol (als_ListenerProtocol ls) (als_ListenerPort ls)) resLSs"

definition mapSDKListenerByPortProtocol :: "'x sdk_listener list \<Rightarrow> (string \<times> 'x sdk_listener) list" where
  "mapSDKListenerByPortProtocol sdkLSs =
     index_by (\<lambda>ls. port_protocol (sls_ListenerProtocol ls) (sls_ListenerPort ls)) sdkLSs"

definition matchResAndSDKListeners ::
  "'x alb_listener list \<Rightarrow> 'x sdk_listener list \<Rightarrow>
   ('x alb_listener \<times> 'x sdk_listener) list \<times> 'x alb_listener list \<times> 'x sdk_listener list" where
  "matchResAndSDKListeners resLSs sdkLSs =
     match_index (mapResListenerByPortProtocol resLSs) (mapSDKListenerByPortProtocol sdkLSs)"

subsection \<open>Rules (\<open>rule.go\<close>)\<close>

definition mapResListenerRuleByPriority :: "'x alb_rule list \<Rightarrow> (string \<times> 'x alb_rule) list" where
  "mapResListenerRuleByPriority resLRs = index_by (\<lambda>lr. Itoa (alr_Priority lr) @ alr_RuleDirection lr) resLRs"

definition mapSDKListenerRuleByPriority :: "'x sdk_rule list \<Rightarrow> (string \<times> 'x sdk_rule) list" where
  "mapSDKListenerRuleByPriority sdkLRs = index_by (\<lambda>lr. Itoa (slr_Priority lr) @ slr_Direction lr) sdkLRs"

definition matchResAndSDKListenerRules ::
  "'x alb_rule list \<Rightarrow> 'x sdk_rule list \<Rightarrow> ('x alb_rule \<times> 'x sdk_rule) list \<times> 'x alb_rule list \<times> 'x sdk_rule list" where
  "matchResAndSDKListenerRules resLRs sdkLRs =
     match_index (mapResListenerRuleByPriority resLRs) (mapSDKListenerRuleByPriority sdkLRs)"

subsection \<open>Server groups of a stack (\<open>server_group.go\<close>)\<close>

definition isOldResourceID :: "string \<Rightarrow> bool" where
  "isOldResourceID i \<longleftrightarrow> Contains i ''/'' \<and> Contains i ''-'' \<and> Contains i '':''"

definition sgp_resource_id :: "(string \<Rightarrow> string) \<Rightarrow> string \<Rightarrow> 'x sdk_sgp \<Rightarrow> string" where
  "sgp_resource_id calHash tagKey g =
     (let i = index_str (ssg_Tags g) tagKey in if isOldResourceID i then calHash i else i)"

definition mapResServerGroupByResourceIDSGP :: "'x alb_sgp list \<Rightarrow> (string \<times> 'x alb_sgp) list" where
  "mapResServerGroupByResourceIDSGP resSGPs = index_by asg_ID resSGPs"

definition mapSDKServerGroupByResourceIDSGP ::
  "(string \<Rightarrow> string) \<Rightarrow> 'x sdk_sgp list \<Rightarrow> string \<Rightarrow> (string \<times> 'x sdk_sgp list) list res" where
  "mapSDKServerGroupByResourceIDSGP calHash sdkSGPs tagKey =
     (if list_all (\<lambda>g. has_key (ssg_Tags g) tagKey) sdkSGPs
      then Inr (group_by (sgp_resource_id calHash tagKey) sdkSGPs)
      else Inl (Errorf ''unexpected serverGroup with no resourceID: ''))"

definition matchResAndSDKServerGroupsSGP ::
  "(string \<Rightarrow> string) \<Rightarrow> 'x alb_sgp list \<Rightarrow> 'x sdk_sgp list \<Rightarrow> string \<Rightarrow>
   (('x alb_sgp \<times> 'x sdk_sgp) list \<times> 'x alb_sgp list \<times> 'x sdk_sgp list) res" where
  "matchResAndSDKServerGroupsSGP calHash resSGPs sdkSGPs tagKey =
     bind_res (mapSDKServerGroupByResourceIDSGP calHash sdkSGPs tagKey) (\<lambda>sdkSGPsByID.
     Inr (match_group (mapResServerGroupByResourceIDSGP resSGPs) sdkSGPsByID))"

subsection \<open>Servers (\<open>server.go\<close>)\<close>

definition isEniTrafficPolicy :: "string \<Rightarrow> bool" where
  "isEniTrafficPolicy p = EqualFold p ''eni''"

definition isServerStatusRemoving :: "string \<Rightarrow> bool" where
  "isServerStatusRemoving st = EqualFold st ''Removing''"

definition server_uid :: "bool \<Rightarrow> string \<Rightarrow> string \<Rightarrow> int \<Rightarrow> string" where
  "server_uid eni serverId serverIp port =
     (if eni then serverId @ '':'' @ serverIp @ '':'' @ Itoa port else serverId @ '':'' @ Itoa port)"

definition endpoint_uid :: "bool \<Rightarrow> backend_item \<Rightarrow> string" where
  "endpoint_uid eni b = server_uid eni (bi_ServerId b) (bi_ServerIp b) (bi_Port b)"

definition target_uid :: "bool \<Rightarrow> backend_server \<Rightarrow> string" where
  "target_uid eni b = server_uid eni (bs_ServerId b) (bs_ServerIp b) (bs_Port b)"

definition match_servers ::
  "bool \<Rightarrow> backend_item list \<Rightarrow> backend_server list \<Rightarrow>
   (backend_item \<times> backend_server) list \<times> backend_item list \<times> backend_server list" where
  "match_servers eni endpoints targets =
     (case match_index (index_by (endpoint_uid eni) endpoints) (index_by (target_uid eni) targets) of
        (matched, unmatchedEndpoints, unmatchedTargets) \<Rightarrow>
          (matched, unmatchedEndpoints, filter (\<lambda>t. \<not> isServerStatusRemoving (bs_Status t)) unmatchedTargets))"

definition matchEndpointWithTargets ::
  "backend_item list \<Rightarrow> backend_server list \<Rightarrow> string \<Rightarrow>
   (backend_item \<times> backend_server) list \<times> backend_item list \<times> backend_server list" where
  "matchEndpointWithTargets endpoints targets trafficPolicy =
     (let trafficPolicy = (if length trafficPolicy = 0 \<and> length endpoints = 0 then ''eni'' else trafficPolicy)
      in match_servers (isEniTrafficPolicy trafficPolicy) endpoints targets)"

subsection \<open>Access control lists (\<open>acl.go\<close>)\<close>

definition matchResAndSDKAclIds :: "string list \<Rightarrow> string list \<Rightarrow> string list \<times> string list \<times> string list" where
  "matchResAndSDKAclIds resAclIds sdkAclIds =
     (let res = sort (remdups resAclIds); sdk = sort (remdups sdkAclIds)
      in (filter (\<lambda>i. i \<in> set sdk) res, filter (\<lambda>i. i \<notin> set sdk) res, filter (\<lambda>i. i \<notin> set res) sdk))"

definition matchResAndSDKAcls ::
  "'x alb_acl list \<Rightarrow> sdk_acl list \<Rightarrow> ('x alb_acl \<times> sdk_acl) list \<times> 'x alb_acl list \<times> sdk_acl list" where
  "matchResAndSDKAcls resAcls sdkAcls = match_index (index_by acl_AclName resAcls) (index_by sac_AclName sdkAcls)"

subsection \<open>Certificates (\<open>secret.go\<close>)\<close>

text \<open>Every certificate resource is paired, also several with the same name.\<close>

definition matchResAndSDKCertificates ::
  "alb_cert list \<Rightarrow> cert_info list \<Rightarrow> (alb_cert \<times> cert_info) list \<times> alb_cert list \<times> cert_info list" where
  "matchResAndSDKCertificates resCerts sdkCerts =
     (let res = index_by cert_CertName resCerts; sdk = index_by ci_CertName sdkCerts
      in (List.map_filter (\<lambda>c. map_option (Pair c) (map_of sdk (cert_CertName c))) resCerts,
          map (at_key res) (keys_without res sdk), map (at_key sdk) (keys_without sdk res)))"

subsection \<open>Server groups of a service (\<open>service.go\<close>)\<close>

definition DefaultPrefix :: string where
  "DefaultPrefix = ''k8s''"

definition ServerGroupNamedKey_Key :: "sgp_named_key \<Rightarrow> string" where
  "ServerGroupNamedKey_Key n =
     (if sk_Prefix n = [] then DefaultPrefix else sk_Prefix n) @ ''_'' @ Itoa (sk_ServicePort n) @ ''_'' @
     sk_ServiceName n @ ''_'' @ sk_IngressName n @ ''_'' @ sk_Namespace n @ ''_'' @ take 6 (sk_ClusterID n)"

record service_sgp =
  sv_NamedKey :: sgp_named_key
  sv_AlbConfigKey :: string
  sv_Backends :: "backend_item list"

record service_manager =
  sm_ClusterID :: string
  sm_Namespace :: string
  sm_Name :: string
  sm_PortToServerGroup :: "(int \<times> string list \<times> backend_item list) list"
  sm_IngressAlbConfigMap :: smap
  sm_TrafficPolicy :: string
  sm_ContainsPotentialReadyEndpoints :: bool

definition transServiceStackToServerGroupsWithNameKey :: "service_manager \<Rightarrow> service_sgp list" where
  "transServiceStackToServerGroupsWithNameKey sm =
     concat (map (\<lambda>(port, ingressNames, backends).
       map (\<lambda>ingressName.
         \<lparr>sv_NamedKey =
            \<lparr>sk_Prefix = [], sk_ClusterID = sm_ClusterID sm, sk_Namespace = AvoidTagValueKeyword (sm_Namespace sm),
             sk_IngressName = AvoidTagValueKeyword ingressName, sk_ServiceName = AvoidTagValueKeyword (sm_Name sm),
             sk_ServicePort = port\<rparr>,
          sv_AlbConfigKey = index_str (sm_IngressAlbConfigMap sm) (sm_Namespace sm @ ''/'' @ ingressName),
          sv_Backends = backends\<rparr>) ingressNames) (sm_PortToServerGroup sm))"

definition service_res_id :: "service_sgp \<Rightarrow> string" where
  "service_res_id g = ServerGroupNamedKey_Key (sv_NamedKey g) @ ''_'' @ sv_AlbConfigKey g"

text \<open>A group without one of the tags, or whose port is no number, is passed over.\<close>

definition service_sdk_id :: "'x sdk_sgp \<Rightarrow> string option" where
  "service_sdk_id g =
     (case map_of (ssg_Tags g) ''ingress.k8s.alibaba/albconfig'' of None \<Rightarrow> None | Some albConfig \<Rightarrow>
     (case map_of (ssg_Tags g) ClusterNameTagKey of None \<Rightarrow> None | Some cluster \<Rightarrow>
     (case map_of (ssg_Tags g) ''ingress.k8s.alibaba/service_ns'' of None \<Rightarrow> None | Some ns \<Rightarrow>
     (case map_of (ssg_Tags g) ''ingress.k8s.alibaba/ingress_name'' of None \<Rightarrow> None | Some ing \<Rightarrow>
     (case map_of (ssg_Tags g) ''ingress.k8s.alibaba/service_name'' of None \<Rightarrow> None | Some svc \<Rightarrow>
     (case map_of (ssg_Tags g) ''ingress.k8s.alibaba/service_port'' of None \<Rightarrow> None | Some port \<Rightarrow>
     (case Atoi port of Inl _ \<Rightarrow> None | Inr p \<Rightarrow>
        Some (ServerGroupNamedKey_Key \<lparr>sk_Prefix = [], sk_ClusterID = cluster, sk_Namespace = ns,
                sk_IngressName = ing, sk_ServiceName = svc, sk_ServicePort = p\<rparr> @ ''_'' @ albConfig))))))))"

definition mapSDKServerGroupByResourceID :: "'x sdk_sgp list \<Rightarrow> (string \<times> 'x sdk_sgp) list" where
  "mapSDKServerGroupByResourceID sdkSGPs =
     fold (\<lambda>g m. case service_sdk_id g of None \<Rightarrow> m | Some i \<Rightarrow> map_set i g m) sdkSGPs []"

definition matchResAndSDKServerGroups ::
  "service_sgp list \<Rightarrow> 'x sdk_sgp list \<Rightarrow> (service_sgp \<times> 'x sdk_sgp) list \<times> service_sgp list \<times> 'x sdk_sgp list" where
  "matchResAndSDKServerGroups resSGPs sdkSGPs =
     match_index (index_by service_res_id resSGPs) (mapSDKServerGroupByResourceID sdkSGPs)"

subsection \<open>The matching functions meet the contract\<close>

abbreviation res_listener_key :: "'x alb_listener \<Rightarrow> string" where
  "res_listener_key ls \<equiv> port_protocol (als_ListenerProtocol ls) (als_ListenerPort ls)"

abbreviation sdk_listener_key :: "'x sdk_listener \<Rightarrow> string" where
  "sdk_listener_key ls \<equiv> port_protocol (sls_ListenerProtocol ls) (sls_ListenerPort ls)"

interpretation listeners: keyed_match res_listener_key sdk_listener_key "\<lambda>_. False" matchResAndSDKListeners
  unfolding matchResAndSDKListeners_def mapResListenerByPortProtocol_def mapSDKListenerByPortProtocol_def
  by (rule keyed_match_index)

abbreviation res_rule_key :: "'x alb_rule \<Rightarrow> string" where
  "res_rule_key lr \<equiv> Itoa (alr_Priority lr) @ alr_RuleDirection lr"

abbreviation sdk_rule_key :: "'x sdk_rule \<Rightarrow> string" where
  "sdk_rule_key lr \<equiv> Itoa (slr_Priority lr) @ slr_Direction lr"

interpretation rules: keyed_match res_rule_key sdk_rule_key "\<lambda>_. False" matchResAndSDKListenerRules
  unfolding matchResAndSDKListenerRules_def mapResListenerRuleByPriority_def mapSDKListenerRuleByPriority_def
  by (rule keyed_match_index)

interpretation acls: keyed_match acl_AclName sac_AclName "\<lambda>_. False" matchResAndSDKAcls
  unfolding matchResAndSDKAcls_def by (rule keyed_match_index)

interpretation servers: keyed_match "endpoint_uid eni" "target_uid eni"
    "\<lambda>t. isServerStatusRemoving (bs_Status t)" "match_servers eni" for eni
proof
  fix rs ss M C D
  assume "match_servers eni rs ss = (M, C, D)"
  then obtain D0 where m: "match_index (index_by (endpoint_uid eni) rs) (index_by (target_uid eni) ss) = (M, C, D0)"
    and D: "D = filter (\<lambda>t. \<not> isServerStatusRemoving (bs_Status t)) D0"
    by (auto simp: match_servers_def split: prod.splits)
  note f = match_index_facts [OF m]
  show "set M \<subseteq> {(r, s). r \<in> set rs \<and> s \<in> set ss \<and> endpoint_uid eni r = target_uid eni s}"
    and "endpoint_uid eni ` fst ` set M = endpoint_uid eni ` set rs \<inter> target_uid eni ` set ss"
    and "set C \<subseteq> set rs" and "endpoint_uid eni ` set C = endpoint_uid eni ` set rs - target_uid eni ` set ss"
    and "distinct (map (endpoint_uid eni) C)"
    by (rule f)+
  show "set D \<subseteq> {s \<in> set ss. target_uid eni s \<notin> endpoint_uid eni ` set rs \<and> \<not> isServerStatusRemoving (bs_Status s)}"
    unfolding D using f(6) by auto
  show "{s \<in> set ss. target_uid eni s \<notin> endpoint_uid eni ` set rs \<and> \<not> isServerStatusRemoving (bs_Status s)} \<subseteq> set D"
    if "inj_on (target_uid eni) (set ss)"
    unfolding D using f(7) [OF that] by auto
qed

interpretation server_groups: grouped_match asg_ID "sgp_resource_id calHash tagKey" "\<lambda>_. False"
    "\<lambda>rs ss. match_group (mapResServerGroupByResourceIDSGP rs) (group_by (sgp_resource_id calHash tagKey) ss)" for calHash tagKey
  unfolding mapResServerGroupByResourceIDSGP_def by (rule grouped_match_group)

text \<open>With at most one load balancer per id, the shared loop variable makes no difference.\<close>

lemma match_group_last_single:
  assumes "\<And>k. k \<in> set (common_keys rs ss) \<Longrightarrow> length (at_key ss k) \<le> 1"
  shows "match_group_last rs ss = match_group rs ss"
proof -
  have "pair_last rs ss k = map (Pair (at_key rs k)) (at_key ss k)" if "k \<in> set (common_keys rs ss)" for k
    using assms [OF that] by (cases "at_key ss k") (auto simp: pair_last_def)
  then show ?thesis by (simp add: match_group_last_def match_group_def cong: map_cong)
qed

lemma port_protocol_inject:
  assumes "CHR ''+'' \<notin> set p" and "CHR ''+'' \<notin> set q"
  shows "port_protocol p a = port_protocol q b \<longleftrightarrow> p = q \<and> a = b"
proof
  assume "port_protocol p a = port_protocol q b"
  then have "p @ CHR ''+'' # Itoa a = q @ CHR ''+'' # Itoa b" by (simp add: port_protocol_def)
  then have "Split (p @ CHR ''+'' # Itoa a) ''+'' = Split (q @ CHR ''+'' # Itoa b) ''+''" by simp
  then have "p = q" using assms by (simp add: Split_append1)
  with \<open>p @ CHR ''+'' # Itoa a = q @ CHR ''+'' # Itoa b\<close> show "p = q \<and> a = b" by (simp add: Itoa_inject)
qed simp

end
