(* ===== verification/Alb_Servers.thy ===== *)
theory Alb_Servers
  imports Alb_Matching
begin

text \<open>
  The servers of a server group (\<open>applier/server.go\<close>, \<open>applier/console_service.go\<close>): the
  difference between the endpoints and the registered servers is carried out by one
  replacement or by a removal and a registration, and the readiness gates of the pods are
  set.
\<close>

subsection \<open>Readiness gates of pods\<close>

definition BuildReadinessGatePodConditionType :: string where
  "BuildReadinessGatePodConditionType = ''target-health.alb.k8s.alibabacloud''"

definition HasAnyOfReadinessGates :: "pod \<Rightarrow> string list \<Rightarrow> bool" where
  "HasAnyOfReadinessGates p conditionTypes \<longleftrightarrow> list_ex (\<lambda>rg. rg \<in> set conditionTypes) (pod_ReadinessGates p)"

definition GetPodCondition :: "pod \<Rightarrow> string \<Rightarrow> pod_condition option" where
  "GetPodCondition p conditionType = find (\<lambda>c. pc_Type c = conditionType) (pod_Conditions p)"

definition target_health :: "string \<Rightarrow> pod_condition" where
  "target_health ty = \<lparr>pc_Type = ty, pc_Status = ''True'', pc_Reason = [], pc_Message = []\<rparr>"

definition updateTargetHealthPodConditionForPod ::
  "('w, 'x) alb_cloud \<Rightarrow> pod \<Rightarrow> string \<Rightarrow> ('w, 'x, bool) alb_prog" where
  "updateTargetHealthPodConditionForPod C p ty =
     (if \<not> HasAnyOfReadinessGates p [ty] then returnP False
      else if (case GetPodCondition p ty of None \<Rightarrow> False
               | Some c \<Rightarrow> pc_Status c = ''True'' \<and> pc_Reason c = [] \<and> pc_Message c = []) then returnP True
      else bindP (tryP (invoke (CPatchPodStatus p (target_health ty)) (a_PatchPodStatus C p (target_health ty)))) (\<lambda>r.
        case r of Inr _ \<Rightarrow> returnP True
        | Inl e \<Rightarrow> if a_IsNotFound C e then returnP False else throwP e))"

text \<open>Every error is logged and the next pod is taken; the result is always nil.\<close>

definition update_pod :: "('w, 'x) alb_cloud \<Rightarrow> string \<Rightarrow> backend_item \<Rightarrow> ('w, 'x, unit) alb_prog" where
  "update_pod C ty b =
     (case bi_Pod b of None \<Rightarrow> returnP ()
      | Some p \<Rightarrow>
          if pod_ReadinessGates p = [] then returnP ()
          else bindP (tryP (invoke (CGetPod (pod_Namespace p, pod_Name p)) (a_GetPod C (pod_Namespace p, pod_Name p)))) (\<lambda>r.
            case r of Inl _ \<Rightarrow> returnP ()
            | Inr p \<Rightarrow> bindP (tryP (updateTargetHealthPodConditionForPod C p ty)) (\<lambda>_. returnP ())))"

definition updateTargetHealthPodCondition :: "('w, 'x) alb_cloud \<Rightarrow> string \<Rightarrow> backend_item list \<Rightarrow> ('w, 'x, unit) alb_prog" where
  "updateTargetHealthPodCondition C ty endpoints = forP (update_pod C ty) endpoints"

subsection \<open>Server applier\<close>

definition BatchReplaceServersMaxNum :: nat where
  "BatchReplaceServersMaxNum = 40"

definition RegisterALBServers :: "('w, 'x) alb_cloud \<Rightarrow> string \<Rightarrow> backend_item list \<Rightarrow> ('w, 'x, unit) alb_prog" where
  "RegisterALBServers C i bs = invoke (CRegisterALBServers i bs) (a_RegisterALBServers C i bs)"

definition DeregisterALBServers :: "('w, 'x) alb_cloud \<Rightarrow> string \<Rightarrow> backend_server list \<Rightarrow> ('w, 'x, unit) alb_prog" where
  "DeregisterALBServers C i bs = invoke (CDeregisterALBServers i bs) (a_DeregisterALBServers C i bs)"

definition ReplaceALBServers ::
  "('w, 'x) alb_cloud \<Rightarrow> string \<Rightarrow> backend_item list \<Rightarrow> backend_server list \<Rightarrow> ('w, 'x, unit) alb_prog" where
  "ReplaceALBServers C i add del = invoke (CReplaceALBServers i add del) (a_ReplaceALBServers C i add del)"

definition ListALBServers :: "('w, 'x) alb_cloud \<Rightarrow> string \<Rightarrow> ('w, 'x, backend_server list) alb_prog" where
  "ListALBServers C i = invoke (CListALBServers i) (a_ListALBServers C i)"

definition small_batch :: "'a list \<Rightarrow> bool" where
  "small_batch xs \<longleftrightarrow> length xs \<noteq> 0 \<and> length xs < BatchReplaceServersMaxNum"

definition server_Apply :: "('w, 'x) alb_cloud \<Rightarrow> string \<Rightarrow> backend_item list \<Rightarrow> string \<Rightarrow> ('w, 'x, unit) alb_prog" where
  "server_Apply C sgpId endpoints trafficPolicy =
     bindP (ListALBServers C sgpId) (\<lambda>servers.
     case matchEndpointWithTargets endpoints servers trafficPolicy of (_, add, del) \<Rightarrow>
       if length add = 0 \<and> length del = 0 then returnP ()
       else if small_batch add \<and> small_batch del then
         bindP (ReplaceALBServers C sgpId add del) (\<lambda>_.
         updateTargetHealthPodCondition C BuildReadinessGatePodConditionType endpoints)
       else
         bindP (if length del \<noteq> 0 then DeregisterALBServers C sgpId del else returnP ()) (\<lambda>_.
         if length add \<noteq> 0 then
           bindP (RegisterALBServers C sgpId add) (\<lambda>_.
           updateTargetHealthPodCondition C BuildReadinessGatePodConditionType endpoints)
         else returnP ()))"

subsection \<open>Server groups made in the console (\<open>console_service.go\<close>)\<close>

record console_stack =
  cs_ClusterID :: string
  cs_ServerGroupID :: string
  cs_Namespace :: string
  cs_Name :: string
  cs_TrafficPolicy :: string
  cs_Backends :: "backend_item list"

definition tagConsoleService :: "('w, 'x) alb_cloud \<Rightarrow> console_stack \<Rightarrow> ('w, 'x, unit) alb_prog" where
  "tagConsoleService C cs =
     (let tags = [(ClusterNameTagKey, cs_ClusterID cs),
                  (''ingress.k8s.alibaba/service_ns'', AvoidTagValueKeyword (cs_Namespace cs)),
                  (''ingress.k8s.alibaba/service_name'', AvoidTagValueKeyword (cs_Name cs))]
      in invoke (CTagALBResources (cs_ServerGroupID cs) tags) (a_TagALBResources C (cs_ServerGroupID cs) tags))"

text \<open>The error of tagging is dropped.\<close>

definition console_Apply :: "('w, 'x) alb_cloud \<Rightarrow> console_stack \<Rightarrow> ('w, 'x, unit) alb_prog" where
  "console_Apply C cs =
     bindP (invoke (CSelectALBServerGroupsByID (cs_ServerGroupID cs)) (a_SelectALBServerGroupsByID C (cs_ServerGroupID cs))) (\<lambda>g.
     let cluster = index_str (ssg_Tags g) ClusterNameTagKey
     in if cluster \<noteq> [] \<and> cluster \<noteq> cs_ClusterID cs then
          throwP (Errorf ''ServerGroup managed by other cluster'')
        else
          bindP (if cluster = [] then bindP (tryP (tagConsoleService C cs)) (\<lambda>_. returnP ()) else returnP ()) (\<lambda>_.
          server_Apply C (ssg_ServerGroupId g) (cs_Backends cs) (cs_TrafficPolicy cs)))"

subsection \<open>Requests\<close>

fun pod_call :: "'x alb_call \<Rightarrow> bool" where
  "pod_call (CGetPod _) = True"
| "pod_call (CPatchPodStatus _ _) = True"
| "pod_call _ = False"

lemma update_pods_calls: "only_calls pod_call (updateTargetHealthPodCondition C ty bs)"
  unfolding updateTargetHealthPodCondition_def update_pod_def updateTargetHealthPodConditionForPod_def
  by (intro emits_intros) auto

definition server_plan :: "string \<Rightarrow> backend_item list \<Rightarrow> backend_server list \<Rightarrow> 'x alb_call list" where
  "server_plan i add del =
     (if small_batch add \<and> small_batch del then [CReplaceALBServers i add del]
      else (if del \<noteq> [] then [CDeregisterALBServers i del] else []) @
           (if add \<noteq> [] then [CRegisterALBServers i add] else []))"

abbreviation no_pod_call :: "'x alb_call \<Rightarrow> bool" where
  "no_pod_call c \<equiv> \<not> pod_call c"

lemma follows_update_pods: "follows_on no_pod_call (updateTargetHealthPodCondition C ty bs) []"
  by (rule follows_on_only) (simp add: update_pods_calls)

lemma server_Apply_plan:
  assumes "a_ListALBServers C i (fx_world s) = (Inr servers, w)"
    and "matchEndpointWithTargets endpoints servers policy = (M, add, del)"
    and run: "server_Apply C i endpoints policy s = (r, t)"
  obtains cs where "fx_calls t = fx_calls s @ CListALBServers i # cs"
    and "prefix (filter no_pod_call cs) (server_plan i add del)"
    and "r = Inr () \<Longrightarrow> filter no_pod_call cs = server_plan i add del"
proof -
  let ?pods = "updateTargetHealthPodCondition C BuildReadinessGatePodConditionType endpoints"
  let ?rest = "if length add = 0 \<and> length del = 0 then returnP ()
       else if small_batch add \<and> small_batch del then bindP (ReplaceALBServers C i add del) (\<lambda>_. ?pods)
       else bindP (if length del \<noteq> 0 then DeregisterALBServers C i del else returnP ()) (\<lambda>_.
         if length add \<noteq> 0 then bindP (RegisterALBServers C i add) (\<lambda>_. ?pods) else returnP ())"
  let ?s = "s\<lparr>fx_world := w, fx_calls := fx_calls s @ [CListALBServers i]\<rparr>"
  have "follows_on no_pod_call (bindP (RegisterALBServers C i add) (\<lambda>_. ?pods)) ([CRegisterALBServers i add] @ [])"
    by (rule follows_on_bind) (simp_all add: RegisterALBServers_def follows_on_invoke follows_update_pods)
  then have reg: "follows_on no_pod_call (if length add \<noteq> 0 then bindP (RegisterALBServers C i add) (\<lambda>_. ?pods) else returnP ())
      (if add \<noteq> [] then [CRegisterALBServers i add] else [])"
    by (simp add: follows_on_return)
  have der: "follows_on no_pod_call (if length del \<noteq> 0 then DeregisterALBServers C i del else returnP ())
      (if del \<noteq> [] then [CDeregisterALBServers i del] else [])"
    by (simp add: DeregisterALBServers_def follows_on_return follows_on_invoke)
  have rep: "follows_on no_pod_call (bindP (ReplaceALBServers C i add del) (\<lambda>_. ?pods)) ([CReplaceALBServers i add del] @ [])"
    by (rule follows_on_bind) (simp_all add: ReplaceALBServers_def follows_on_invoke follows_update_pods)
  have "follows_on no_pod_call ?rest (server_plan i add del)"
    using follows_on_bind [OF der reg] rep
    by (auto simp: server_plan_def small_batch_def follows_on_return)
  moreover have "?rest ?s = (r, t)"
    using run assms(1,2) by (simp add: server_Apply_def ListALBServers_def bindP_def invoke_def split: prod.splits)
  ultimately obtain ds where "fx_calls t = fx_calls ?s @ ds" "prefix (filter no_pod_call ds) (server_plan i add del)"
    "\<And>x. r = Inr x \<Longrightarrow> filter no_pod_call ds = server_plan i add del"
    by (rule follows_onD) blast
  with that [of ds] show ?thesis by simp
qed

lemma server_match_settles:
  assumes m: "matchEndpointWithTargets endpoints servers policy = (M, add, del)"
    and inj: "inj_on (target_uid eni) (set servers)"
    and eni: "eni = isEniTrafficPolicy (if policy = [] \<and> endpoints = [] then ''eni'' else policy)"
    and after: "set servers' = (set servers - set del) \<union> new" "target_uid eni ` new = endpoint_uid eni ` set add"
    and m': "matchEndpointWithTargets endpoints servers' policy = (M', add', del')"
  shows "add' = [] \<and> del' = []"
proof -
  have "match_servers eni endpoints servers = (M, add, del)" "match_servers eni endpoints servers' = (M', add', del')"
    using m m' by (auto simp: matchEndpointWithTargets_def eni Let_def split: if_splits)
  then show ?thesis using servers.settles inj after by blast
qed

subsection \<open>Properties\<close>

text \<open>
  What the requests do to the set of servers of group \<open>i\<close>, a server being its address in
  the traffic policy at hand.
\<close>

fun serve :: "bool \<Rightarrow> string \<Rightarrow> 'x alb_call \<Rightarrow> string set \<Rightarrow> string set" where
  "serve eni i (CRegisterALBServers j add) U = (if j = i then U \<union> endpoint_uid eni ` set add else U)"
| "serve eni i (CDeregisterALBServers j del) U = (if j = i then U - target_uid eni ` set del else U)"
| "serve eni i (CReplaceALBServers j add del) U =
     (if j = i then (U - target_uid eni ` set del) \<union> endpoint_uid eni ` set add else U)"
| "serve eni i _ U = U"

lemma serve_pod_call: "pod_call c \<Longrightarrow> serve eni i c U = U"
  by (cases c) auto

lemma fold_serve_filter: "fold (serve eni i) (filter no_pod_call cs) U = fold (serve eni i) cs U"
  by (induction cs arbitrary: U) (simp_all add: serve_pod_call)

lemma serve_plan:
  "fold (serve eni i) (server_plan i add del) U = (U - target_uid eni ` set del) \<union> endpoint_uid eni ` set add"
  by (auto simp: server_plan_def)

text \<open>
  (C2) A successful run of the server applier lists the servers of the group once and then
  sends requests after which the group serves exactly the wanted endpoints, apart from
  servers the cloud is already removing; whether they go out as one replacement or as a
  removal and a registration makes no difference.
\<close>

theorem alb_servers_converge:
  assumes list: "a_ListALBServers C i (fx_world s) = (Inr servers, w)"
    and inj: "inj_on (target_uid eni) (set servers)"
    and eni: "eni = isEniTrafficPolicy (if policy = [] \<and> endpoints = [] then ''eni'' else policy)"
    and run: "server_Apply C i endpoints policy s = (Inr (), t)"
  shows "\<exists>cs. fx_calls t = fx_calls s @ CListALBServers i # cs \<and>
    fold (serve eni i) cs (target_uid eni ` set servers) =
      endpoint_uid eni ` set endpoints \<union> target_uid eni ` {b \<in> set servers. isServerStatusRemoving (bs_Status b)}"
proof -
  obtain M add del where m: "matchEndpointWithTargets endpoints servers policy = (M, add, del)"
    by (cases "matchEndpointWithTargets endpoints servers policy")
  then have m': "match_servers eni endpoints servers = (M, add, del)"
    by (auto simp: matchEndpointWithTargets_def eni Let_def split: if_splits)
  obtain cs where cs: "fx_calls t = fx_calls s @ CListALBServers i # cs" "filter no_pod_call cs = server_plan i add del"
    using server_Apply_plan [OF list m run] by blast
  have "fold (serve eni i) cs (target_uid eni ` set servers) =
      (target_uid eni ` set servers - target_uid eni ` set del) \<union> endpoint_uid eni ` set add"
    using fold_serve_filter [of eni i cs] serve_plan [of eni i add del] cs(2) by metis
  also have "\<dots> = endpoint_uid eni ` set endpoints \<union> target_uid eni ` {b \<in> set servers. isServerStatusRemoving (bs_Status b)}"
    using servers.created_keys [OF m'] servers.deleted [OF m'] servers.deleted_all [OF m' inj] inj
    by (auto simp: inj_on_def) (metis imageI)+
  finally show ?thesis using cs(1) by blast
qed

theorem alb_servers_converge_witness:
  "let old = \<lparr>bs_Description = [], bs_Port = 80, bs_ServerId = ''i-1'', bs_ServerIp = [], bs_ServerType = ''Ecs'',
         bs_Status = ''Available'', bs_Weight = 100\<rparr>;
       new = \<lparr>bi_Pod = None, bi_Description = [], bi_ServerId = ''i-2'', bi_ServerIp = [], bi_Weight = 100,
         bi_Port = 80, bi_Type = ''Ecs''\<rparr>;
       C = demo_alb\<lparr>a_ListALBServers := \<lambda>_ w. (Inr [old], w)\<rparr>
   in \<exists>cs. fx_calls (snd (server_Apply C ''sgp-1'' [new] ''cluster'' demo_alb_state)) = CListALBServers ''sgp-1'' # cs \<and>
        fold (serve False ''sgp-1'') cs {''i-1:80''} = {''i-2:80''}"
proof -
  let ?old = "\<lparr>bs_Description = [], bs_Port = 80, bs_ServerId = ''i-1'', bs_ServerIp = [], bs_ServerType = ''Ecs'',
         bs_Status = ''Available'', bs_Weight = 100\<rparr>"
  let ?new = "\<lparr>bi_Pod = None, bi_Description = [], bi_ServerId = ''i-2'', bi_ServerIp = [], bi_Weight = 100,
         bi_Port = 80, bi_Type = ''Ecs''\<rparr>"
  let ?C = "demo_alb\<lparr>a_ListALBServers := \<lambda>_ w. (Inr [?old], w)\<rparr>"
  let ?s = "demo_alb_state"
  have "fst (server_Apply ?C ''sgp-1'' [?new] ''cluster'' ?s) = Inr ()" by code_simp
  then obtain t where t: "server_Apply ?C ''sgp-1'' [?new] ''cluster'' ?s = (Inr (), t)" by (metis prod.collapse)
  have p: "False = isEniTrafficPolicy (if ''cluster'' = [] \<and> [?new] = [] then ''eni'' else ''cluster'')"
    by code_simp
  have "fx_calls ?s = []" by (simp add: demo_alb_state_def)
  moreover have "target_uid False ?old = ''i-1:80''" "endpoint_uid False ?new = ''i-2:80''"
    by code_simp+
  moreover have "\<not> isServerStatusRemoving (bs_Status ?old)" by code_simp
  then have "{b \<in> set [?old]. isServerStatusRemoving (bs_Status b)} = {}" by auto
  ultimately show ?thesis
    using alb_servers_converge [where C = ?C and i = "''sgp-1''" and servers = "[?old]" and s = ?s and w = "()", OF _ _ p t] t
    by (simp only: Let_def snd_conv) simp
qed

end
