(* ===== verification/Alb_Listeners.thy ===== *)
theory Alb_Listeners
  imports Alb_Matching
begin

text \<open>
  The listener applier (\<open>applier/listener.go\<close>).  On each load balancer the listeners are
  matched with those of the cloud by protocol and port; missing ones are created, then
  matched ones updated, then the others deleted, each by a pool of goroutines.  The first
  error of the creations and of the updates is kept under the port of its listener.
\<close>

definition ListenerConcurrentNum :: nat where
  "ListenerConcurrentNum = 5"

definition findSDKListenersOnLB ::
  "('w, 'x) alb_cloud \<Rightarrow> bool \<Rightarrow> bool \<Rightarrow> string \<Rightarrow> ('w, 'x, 'x sdk_listener list) alb_prog" where
  "findSDKListenersOnLB C commonReuse listenerCommonReuse lbID =
     bindP (invoke (CListALBListeners lbID) (a_ListALBListeners C lbID)) (\<lambda>listeners.
     if \<not> commonReuse then returnP listeners
     else if \<not> listenerCommonReuse then returnP listeners
     else returnP (filter (\<lambda>ls. HasPrefix (sls_ListenerDescription ls) ''ingress-auto-listener'') listeners))"

text \<open>The local state of a goroutine: the status and the error that the provider returned.\<close>

definition create_listener_thread ::
  "('w, 'x) alb_cloud \<Rightarrow> 'x alb_listener \<Rightarrow> (('w, 'x) alb_state, string \<times> go_error option) thread" where
  "create_listener_thread C resLS =
     (([], None),
      [\<lambda>_. bindP (call2 (CCreateALBListener resLS) (a_CreateALBListener C resLS)) (\<lambda>r. returnP (Some r)),
       \<lambda>(lsStatus, err).
         bindP (modifyP (\<lambda>s. case (as_errCreate s, err) of
             (None, Some e) \<Rightarrow> s\<lparr>as_errCreate := Some e,
               as_errRes := AddErrMsgsWithListenerPort (as_errRes s) (als_ListenerPort resLS) e\<rparr>
           | _ \<Rightarrow> s)) (\<lambda>_.
         bindP (LS_SetStatus (als_ID resLS) lsStatus) (\<lambda>_. returnP None))])"

definition update_listener_thread ::
  "('w, 'x) alb_cloud \<Rightarrow> 'x alb_listener \<times> 'x sdk_listener \<Rightarrow> (('w, 'x) alb_state, string \<times> go_error option) thread" where
  "update_listener_thread C p =
     (([], None),
      [\<lambda>_. bindP (call2 (CUpdateALBListener (fst p) (snd p)) (a_UpdateALBListener C (fst p) (snd p))) (\<lambda>r. returnP (Some r)),
       \<lambda>(lsStatus, err).
         bindP (modifyP (\<lambda>s. case (as_errUpdate s, err) of
             (None, Some e) \<Rightarrow> s\<lparr>as_errUpdate := Some e,
               as_errRes := AddErrMsgsWithListenerPort (as_errRes s) (als_ListenerPort (fst p)) e\<rparr>
           | _ \<Rightarrow> s)) (\<lambda>_.
         bindP (LS_SetStatus (als_ID (fst p)) lsStatus) (\<lambda>_. returnP None))])"

definition delete_listener_thread ::
  "('w, 'x) alb_cloud \<Rightarrow> 'x sdk_listener \<Rightarrow> (('w, 'x) alb_state, go_error option) thread" where
  "delete_listener_thread C sdkLS =
     (None,
      [\<lambda>_. bindP (call2 (CDeleteALBListener (sls_ListenerId sdkLS)) (a_DeleteALBListener C (sls_ListenerId sdkLS)))
             (\<lambda>err. returnP (Some err)),
       \<lambda>err. bindP (modifyP (\<lambda>s. case (as_errDelete s, err) of
             (None, Some e) \<Rightarrow> s\<lparr>as_errDelete := Some e\<rparr> | _ \<Rightarrow> s)) (\<lambda>_. returnP None)])"

definition listener_in_use :: go_error where
  "listener_in_use = Errorf ''listener already in use, please set forceOverride=true and reconcile''"

definition already_exists :: "go_error \<Rightarrow> bool" where
  "already_exists e \<longleftrightarrow> Contains (case e of Errorf m \<Rightarrow> m | Panic m \<Rightarrow> m) ''ResourceAlreadyExist.Listener''"

text \<open>Other errors of the creations, and those of the updates, stay in the error result.\<close>

definition apply_listener_changes ::
  "'x alb_env \<Rightarrow> ('w, 'x) alb_cloud \<Rightarrow>
   ('x alb_listener \<times> 'x sdk_listener) list \<times> 'x alb_listener list \<times> 'x sdk_listener list \<Rightarrow> ('w, 'x, unit) alb_prog" where
  "apply_listener_changes E C changes =
     (case changes of (matchedResAndSDKLSs, unmatchedResLSs, unmatchedSDKLSs) \<Rightarrow>
        bindP (modifyP (as_errCreate_update (\<lambda>_. None))) (\<lambda>_.
        bindP (goP (e_sched E 0) ListenerConcurrentNum (create_listener_thread C) unmatchedResLSs) (\<lambda>_.
        bindP (getP as_errCreate) (\<lambda>errCreate.
        if (case errCreate of Some e \<Rightarrow> already_exists e | None \<Rightarrow> False) then throwP listener_in_use
        else
          bindP (modifyP (as_errUpdate_update (\<lambda>_. None))) (\<lambda>_.
          bindP (goP (e_sched E 1) ListenerConcurrentNum (update_listener_thread C) matchedResAndSDKLSs) (\<lambda>_.
          bindP (modifyP (as_errDelete_update (\<lambda>_. None))) (\<lambda>_.
          bindP (goP (e_sched E 2) ListenerConcurrentNum (delete_listener_thread C) unmatchedSDKLSs) (\<lambda>_.
          bindP (getP as_errDelete) (\<lambda>errDelete.
          case errDelete of Some e \<Rightarrow> throwP e | None \<Rightarrow> returnP ())))))))))"

definition applyListenersOnLB ::
  "'x alb_env \<Rightarrow> ('w, 'x) alb_cloud \<Rightarrow> bool \<Rightarrow> bool \<Rightarrow> string \<Rightarrow> 'x alb_listener list \<Rightarrow> ('w, 'x, unit) alb_prog" where
  "applyListenersOnLB E C commonReuse listenerCommonReuse lbID resLSs =
     (if length lbID = 0 then throwP (Errorf ''empty loadBalancer id when apply listeners error'')
      else
        bindP (findSDKListenersOnLB C commonReuse listenerCommonReuse lbID) (\<lambda>sdkLSs.
        apply_listener_changes E C (matchResAndSDKListeners resLSs sdkLSs)))"

text \<open>A map keyed by resolved ids; the first id that cannot be resolved is the error.\<close>

definition resolve_all :: "('a \<Rightarrow> id_token) \<Rightarrow> 'a list \<Rightarrow> ('w, 'x, (string \<times> 'a) list) alb_prog" where
  "resolve_all tok xs = (\<lambda>s. (map_res (\<lambda>x. map_sum id (\<lambda>i. (i, x)) (resolve_token (tok x) s)) xs, s))"

definition mapResListenerByAlbLoadBalancerID ::
  "'x alb_listener list \<Rightarrow> ('w, 'x, (string \<times> 'x alb_listener list) list) alb_prog" where
  "mapResListenerByAlbLoadBalancerID resLSs =
     bindP (resolve_all als_LoadBalancerID resLSs) (\<lambda>kvs.
     returnP (fold (\<lambda>(i, ls) m. group_add i ls m) kvs []))"

definition listener_Apply ::
  "'x alb_env \<Rightarrow> ('w, 'x) alb_cloud \<Rightarrow> bool \<Rightarrow> bool \<Rightarrow> ('w, 'x, unit) alb_prog" where
  "listener_Apply E C commonReuse listenerCommonReuse =
     bindP (getP as_LSs) (\<lambda>resLSs.
     bindP (mapResListenerByAlbLoadBalancerID resLSs) (\<lambda>resLSsByLbID.
     let apply_all = forP (\<lambda>(lbID, lss). applyListenersOnLB E C commonReuse listenerCommonReuse lbID lss)
     in if length resLSsByLbID = 0 then
          bindP (getP as_LBs) (\<lambda>resLBs.
          case resLBs of [] \<Rightarrow> returnP ()
          | lb # _ \<Rightarrow> bindP (liftP (LoadBalancerID_resolve lb)) (\<lambda>lbID. apply_all (e_rangeLbs E [(lbID, [])])))
        else apply_all (e_rangeLbs E resLSsByLbID)))"

subsection \<open>Requests of the pools\<close>

lemma makes_silent:
  "(\<And>s. fx_calls (snd (m s)) = fx_calls s) \<Longrightarrow> makes m {#}"
  by (simp add: makes_def)

lemma makes_call2: "makes (call2 c f) {#c#}"
  unfolding call2_def by (rule makes_invoke)

lemma makes_bind_return:
  assumes "makes m B"
  shows "makes (bindP m (\<lambda>x. returnP (g x))) B"
proof -
  have "makes (bindP m (\<lambda>x. returnP (g x))) (B + {#})" by (rule makes_bind [OF assms makes_return])
  then show ?thesis by simp
qed

lemma thread_makes_two:
  assumes "makes (f l) {#c#}" and "\<And>l'. makes (g l') {#}"
  shows "thread_makes l [f, g] {#c#}"
proof -
  have "thread_makes l' [g] {#}" for l'
    using assms(2) [of l'] by (auto split: option.splits)
  with assms(1) show ?thesis
    unfolding thread_makes.simps(2) [of l f] by (intro exI [of _ "{#c#}"] exI [of _ "{#}"]) (auto split: option.splits)
qed

lemma sum_singletons: "sum_list (map (\<lambda>x. {#c x#}) xs) = mset (map c xs)"
  by (induction xs) simp_all

lemma create_pool_makes:
  "makes (goP sched limit (create_listener_thread C) xs) (mset (map CCreateALBListener xs))"
proof (unfold sum_singletons [symmetric], rule goP_makes)
  show "thread_makes (fst (create_listener_thread C x)) (snd (create_listener_thread C x)) {#CCreateALBListener x#}" for x
    unfolding create_listener_thread_def fst_conv snd_conv
    by (intro thread_makes_two makes_bind_return makes_call2)
      (auto intro!: makes_silent simp: LS_SetStatus_def bindP_def modifyP_def returnP_def split: prod.splits option.splits)
qed

lemma update_pool_makes:
  "makes (goP sched limit (update_listener_thread C) ps) (mset (map (\<lambda>p. CUpdateALBListener (fst p) (snd p)) ps))"
proof (unfold sum_singletons [symmetric], rule goP_makes)
  show "thread_makes (fst (update_listener_thread C p)) (snd (update_listener_thread C p))
      {#CUpdateALBListener (fst p) (snd p)#}" for p
    unfolding update_listener_thread_def fst_conv snd_conv
    by (intro thread_makes_two makes_bind_return makes_call2)
      (auto intro!: makes_silent simp: LS_SetStatus_def bindP_def modifyP_def returnP_def split: prod.splits option.splits)
qed

lemma delete_pool_makes:
  "makes (goP sched limit (delete_listener_thread C) xs) (mset (map (\<lambda>ls. CDeleteALBListener (sls_ListenerId ls)) xs))"
proof (unfold sum_singletons [symmetric], rule goP_makes)
  show "thread_makes (fst (delete_listener_thread C x)) (snd (delete_listener_thread C x))
      {#CDeleteALBListener (sls_ListenerId x)#}" for x
    unfolding delete_listener_thread_def fst_conv snd_conv
    by (intro thread_makes_two makes_bind_return makes_call2)
      (auto intro!: makes_silent simp: bindP_def modifyP_def returnP_def split: prod.splits option.splits)
qed

text \<open>The pools always come to their end.\<close>

lemma create_pool_ends: "fst (goP sched limit (create_listener_thread C) xs s) = Inr ()"
  by (rule goP_ends) (auto simp: create_listener_thread_def call2_def invoke_def LS_SetStatus_def
      bindP_def modifyP_def returnP_def split: prod.splits)

lemma update_pool_ends: "fst (goP sched limit (update_listener_thread C) ps s) = Inr ()"
  by (rule goP_ends) (auto simp: update_listener_thread_def call2_def invoke_def LS_SetStatus_def
      bindP_def modifyP_def returnP_def split: prod.splits)

lemma delete_pool_ends: "fst (goP sched limit (delete_listener_thread C) xs s) = Inr ()"
  by (rule goP_ends) (auto simp: delete_listener_thread_def call2_def invoke_def
      bindP_def modifyP_def returnP_def split: prod.splits)

lemma pool_calls:
  assumes "makes m B" and "fst (m s) = Inr ()"
  obtains t cs where "m s = (Inr (), t)" and "fx_calls t = fx_calls s @ cs" and "mset cs = B"
proof -
  obtain t where t: "m s = (Inr (), t)" using assms(2) by (metis prod.collapse)
  from makesD [OF assms(1) t] obtain cs where "fx_calls t = fx_calls s @ cs" "mset cs = B" by blast
  with t that show ?thesis by blast
qed

lemma listener_changes_calls:
  assumes run: "apply_listener_changes E C (M, N, D) s = (r, t)"
  obtains cr up de where "fx_calls t = fx_calls s @ cr @ up @ de"
    and "mset cr = mset (map CCreateALBListener N)"
    and "r = Inl listener_in_use \<and> up = [] \<and> de = [] \<or>
      mset up = mset (map (\<lambda>p. CUpdateALBListener (fst p) (snd p)) M) \<and>
      mset de = mset (map (\<lambda>ls. CDeleteALBListener (sls_ListenerId ls)) D)"
proof -
  let ?s = "s\<lparr>as_errCreate := None\<rparr>"
  obtain t1 cr where t1: "goP (e_sched E 0) ListenerConcurrentNum (create_listener_thread C) N ?s = (Inr (), t1)"
    "fx_calls t1 = fx_calls ?s @ cr" "mset cr = mset (map CCreateALBListener N)"
    using pool_calls [OF create_pool_makes create_pool_ends] by blast
  show ?thesis
  proof (cases "case as_errCreate t1 of Some e \<Rightarrow> already_exists e | None \<Rightarrow> False")
    case True
    then have "r = Inl listener_in_use" "t = t1"
      using run by (simp_all add: apply_listener_changes_def prog_simps t1(1))
    with that [of cr "[]" "[]"] t1 show ?thesis by simp
  next
    case False
    let ?s1 = "t1\<lparr>as_errUpdate := None\<rparr>"
    obtain t2 up where t2: "goP (e_sched E 1) ListenerConcurrentNum (update_listener_thread C) M ?s1 = (Inr (), t2)"
      "fx_calls t2 = fx_calls ?s1 @ up" "mset up = mset (map (\<lambda>p. CUpdateALBListener (fst p) (snd p)) M)"
      using pool_calls [OF update_pool_makes update_pool_ends] by blast
    let ?s2 = "t2\<lparr>as_errDelete := None\<rparr>"
    obtain t3 de where t3: "goP (e_sched E 2) ListenerConcurrentNum (delete_listener_thread C) D ?s2 = (Inr (), t3)"
      "fx_calls t3 = fx_calls ?s2 @ de" "mset de = mset (map (\<lambda>ls. CDeleteALBListener (sls_ListenerId ls)) D)"
      using pool_calls [OF delete_pool_makes delete_pool_ends] by blast
    have "t = t3"
      using run False by (auto simp: apply_listener_changes_def prog_simps t1(1) t2(1) t3(1) simp del: One_nat_def split: option.splits)
    with that [of cr up de] t1 t2 t3 show ?thesis by simp
  qed
qed

subsection \<open>Properties\<close>



end
