(* ===== verification/Alb_Rules.thy ===== *)
theory Alb_Rules
  imports Alb_Listeners
begin

text \<open>
  The rule applier (\<open>applier/rule.go\<close>).  The rules of each listener are created, updated
  and deleted in three batches; updates go by priority, downwards if rules are deleted
  afterwards.  Listeners with an error of their own are left out.
\<close>

type_synonym 'x rule_changes = "('x alb_rule \<times> 'x sdk_rule) list \<times> 'x alb_rule list \<times> 'x sdk_rule list"

definition findSDKListenersRulesOnLS :: "('w, 'x) alb_cloud \<Rightarrow> string \<Rightarrow> ('w, 'x, 'x sdk_rule list) alb_prog" where
  "findSDKListenersRulesOnLS C lsID = invoke (CListALBListenerRules lsID) (a_ListALBListenerRules C lsID)"

subsection \<open>The batches of one listener\<close>

definition rules_match :: "('w, 'x) alb_cloud \<Rightarrow> string \<Rightarrow> 'x alb_rule list \<Rightarrow> ('w, 'x, 'x rule_changes) alb_prog" where
  "rules_match C lsID resLRs =
     (if length lsID = 0 then throwP (Errorf ''empty listener id when apply rules error'')
      else bindP (findSDKListenersRulesOnLS C lsID) (\<lambda>sdkLRs. returnP (matchResAndSDKListenerRules resLRs sdkLRs)))"

definition rules_create :: "('w, 'x) alb_cloud \<Rightarrow> 'x rule_changes \<Rightarrow> ('w, 'x, 'x rule_changes) alb_prog" where
  "rules_create C d =
     (case d of (matched, unmatchedResLRs, unmatchedSDKLRs) \<Rightarrow>
        bindP (invoke (CCreateALBListenerRules unmatchedResLRs) (a_CreateALBListenerRules C unmatchedResLRs)) (\<lambda>lrStatus.
        bindP (forP (\<lambda>lr. case map_of lrStatus (alr_Priority lr) of
             None \<Rightarrow> throwP (Errorf ''failed create rule with priority: '')
           | Some st \<Rightarrow> LR_SetStatus (alr_ID lr) st) unmatchedResLRs) (\<lambda>_.
        returnP d)))"

definition pair_priority :: "'x alb_rule \<times> 'x sdk_rule \<Rightarrow> int" where
  "pair_priority p = slr_Priority (snd p)"

definition rule_update_order :: "'x alb_env \<Rightarrow> 'x rule_changes \<Rightarrow> ('x alb_rule \<times> 'x sdk_rule) list" where
  "rule_update_order E d =
     (case d of (matched, _, unmatchedSDKLRs) \<Rightarrow>
        if length unmatchedSDKLRs > 0 then e_sort E (\<lambda>p. - pair_priority p) matched
        else e_sort E pair_priority matched)"

definition rules_update :: "'x alb_env \<Rightarrow> ('w, 'x) alb_cloud \<Rightarrow> 'x rule_changes \<Rightarrow> ('w, 'x, 'x rule_changes) alb_prog" where
  "rules_update E C d =
     (let pairs = rule_update_order E d
      in bindP (invoke (CUpdateALBListenerRules pairs) (a_UpdateALBListenerRules C pairs)) (\<lambda>_.
         bindP (forP (\<lambda>p. LR_SetStatus (alr_ID (fst p)) (slr_RuleId (snd p))) (fst d)) (\<lambda>_.
         returnP d)))"

definition rules_delete :: "('w, 'x) alb_cloud \<Rightarrow> 'x rule_changes \<Rightarrow> ('w, 'x, 'x rule_changes) alb_prog" where
  "rules_delete C d =
     (let ids = map slr_RuleId (snd (snd d))
      in bindP (invoke (CDeleteALBListenerRules ids) (a_DeleteALBListenerRules C ids)) (\<lambda>_. returnP d))"

definition applyListenerRulesOnListenerBatch ::
  "'x alb_env \<Rightarrow> ('w, 'x) alb_cloud \<Rightarrow> string \<Rightarrow> 'x alb_rule list \<Rightarrow> ('w, 'x, unit) alb_prog" where
  "applyListenerRulesOnListenerBatch E C lsID resLRs =
     bindP (rules_match C lsID resLRs) (\<lambda>d.
     bindP (rules_create C d) (\<lambda>d.
     bindP (rules_update E C d) (\<lambda>d.
     bindP (rules_delete C d) (\<lambda>_. returnP ()))))"

subsection \<open>All listeners\<close>

text \<open>
  A step of a goroutine that runs a method in parts: an error skips the parts that follow.
\<close>

definition partP :: "('d \<Rightarrow> ('s, 'd) prog) \<Rightarrow> 'd res \<Rightarrow> ('s, 'd res option) prog" where
  "partP f l = (case l of Inl e \<Rightarrow> returnP (Some (Inl e)) | Inr d \<Rightarrow> bindP (tryP (f d)) (\<lambda>r. returnP (Some r)))"

definition keep_first_error :: "'d res \<Rightarrow> ('w, 'x, 'd res option) alb_prog" where
  "keep_first_error l =
     bindP (modifyP (\<lambda>s. case (as_errApply s, l) of (None, Inl e) \<Rightarrow> s\<lparr>as_errApply := Some e\<rparr> | _ \<Rightarrow> s))
       (\<lambda>_. returnP None)"

definition rule_thread ::
  "'x alb_env \<Rightarrow> ('w, 'x) alb_cloud \<Rightarrow> (string \<times> 'x alb_rule list) list \<Rightarrow> string \<times> 'x alb_listener \<Rightarrow>
   (('w, 'x) alb_state, 'x rule_changes res) thread" where
  "rule_thread E C resLRsByLsID entry =
     (let rules = (case map_of resLRsByLsID (fst entry) of None \<Rightarrow> [] | Some rs \<Rightarrow> rs)
      in (Inr ([], [], []),
          [partP (\<lambda>_. rules_match C (fst entry) rules), partP (rules_create C), partP (rules_update E C),
           partP (rules_delete C), keep_first_error]))"

definition mapResListenerRuleByListenerID ::
  "'x alb_rule list \<Rightarrow> ('w, 'x, (string \<times> 'x alb_rule list) list) alb_prog" where
  "mapResListenerRuleByListenerID resLRs =
     bindP (resolve_all alr_ListenerID resLRs) (\<lambda>kvs.
     returnP (fold (\<lambda>(i, lr) m. group_add i lr m) kvs []))"

definition mapResListenerByListenerID :: "'x alb_listener list \<Rightarrow> (string \<times> 'x alb_listener) list res" where
  "mapResListenerByListenerID resLSs =
     bind_res (map_res (\<lambda>ls. map_sum id (\<lambda>i. (i, ls)) (ListenerID_resolve ls)) resLSs) (\<lambda>kvs.
     Inr (fold (\<lambda>(i, ls) m. map_set i ls m) kvs []))"

text \<open>The check for an earlier error of the listener; the rule goroutines add none.\<close>

definition without_errors :: "err_result \<Rightarrow> (string \<times> 'x alb_listener) list \<Rightarrow> (string \<times> 'x alb_listener) list" where
  "without_errors errRes entries =
     filter (\<lambda>(_, ls). CheckErrMsgsByListenerPort errRes (als_ListenerPort ls) = Inr ()) entries"

definition rule_Apply :: "'x alb_env \<Rightarrow> ('w, 'x) alb_cloud \<Rightarrow> ('w, 'x, unit) alb_prog" where
  "rule_Apply E C =
     bindP (getP as_LRs) (\<lambda>resLRs.
     bindP (mapResListenerRuleByListenerID resLRs) (\<lambda>resLRsByLsID.
     bindP (getP as_LSs) (\<lambda>resLSs.
     bindP (liftP (mapResListenerByListenerID resLSs)) (\<lambda>resLSsByLsID.
     bindP (getP as_errRes) (\<lambda>errRes.
     bindP (modifyP (as_errApply_update (\<lambda>_. None))) (\<lambda>_.
     bindP (goP (e_sched E 3) ListenerConcurrentNum (rule_thread E C resLRsByLsID)
             (without_errors errRes (e_rangeLss E resLSsByLsID))) (\<lambda>_.
     bindP (getP as_errApply) (\<lambda>errApply.
     case errApply of Some e \<Rightarrow> throwP e | None \<Rightarrow> returnP ()))))))))"

subsection \<open>Requests\<close>

lemma follows_SetStatus: "follows (LR_SetStatus i st) []"
  unfolding LR_SetStatus_def by (rule follows_modify) simp

lemma follows_rules_create: "follows (rules_create C d) [CCreateALBListenerRules (fst (snd d))]"
  unfolding rules_create_def
  by (cases d; simp; intro follows_bind_silent follows_intros follows_for_silent)
    (auto split: option.splits intro: follows_SetStatus follows_throw)

lemma follows_rules_update: "follows (rules_update E C d) [CUpdateALBListenerRules (rule_update_order E d)]"
  unfolding rules_update_def Let_def
  by (intro follows_bind_silent follows_intros follows_for_silent follows_SetStatus)

lemma follows_rules_delete: "follows (rules_delete C d) [CDeleteALBListenerRules (map slr_RuleId (snd (snd d)))]"
  unfolding rules_delete_def Let_def by (intro follows_bind_silent follows_intros)

lemma rules_same:
  "rules_create C d s = (Inr d', t) \<Longrightarrow> d' = d" "rules_update E C d s = (Inr d', t) \<Longrightarrow> d' = d"
  by (auto simp: rules_create_def rules_update_def bindP_def returnP_def Let_def split: prod.splits sum.splits)

definition rule_plan :: "'x alb_env \<Rightarrow> 'x rule_changes \<Rightarrow> 'x alb_call list" where
  "rule_plan E d =
     [CCreateALBListenerRules (fst (snd d)), CUpdateALBListenerRules (rule_update_order E d),
      CDeleteALBListenerRules (map slr_RuleId (snd (snd d)))]"

lemma rule_batch_calls:
  assumes "lsID \<noteq> []" and "a_ListALBListenerRules C lsID (fx_world s) = (Inr sdkLRs, w)"
    and run: "applyListenerRulesOnListenerBatch E C lsID resLRs s = (r, t)"
  obtains cs where "fx_calls t = fx_calls s @ CListALBListenerRules lsID # cs"
    and "prefix cs (rule_plan E (matchResAndSDKListenerRules resLRs sdkLRs))"
    and "r = Inr () \<Longrightarrow> cs = rule_plan E (matchResAndSDKListenerRules resLRs sdkLRs)"
proof -
  let ?d = "matchResAndSDKListenerRules resLRs sdkLRs"
  let ?s = "s\<lparr>fx_world := w, fx_calls := fx_calls s @ [CListALBListenerRules lsID]\<rparr>"
  let ?rest = "bindP (rules_create C ?d) (\<lambda>d. bindP (rules_update E C d) (\<lambda>d. bindP (rules_delete C d) (\<lambda>_. returnP ())))"
  have "follows ?rest ([CCreateALBListenerRules (fst (snd ?d))] @ [CUpdateALBListenerRules (rule_update_order E ?d)] @
      [CDeleteALBListenerRules (map slr_RuleId (snd (snd ?d)))])"
    by (rule follows_bind [OF follows_rules_create], drule rules_same(1), simp only:,
        rule follows_bind [OF follows_rules_update], drule rules_same(2), simp only:,
        rule follows_bind_silent [OF follows_rules_delete follows_return])
  then have "follows ?rest (rule_plan E ?d)" by (simp add: rule_plan_def)
  moreover have "?rest ?s = (r, t)"
    using run assms(1,2)
    by (simp add: applyListenerRulesOnListenerBatch_def rules_match_def findSDKListenersRulesOnLS_def bindP_def invoke_def returnP_def)
  ultimately obtain ds where "fx_calls t = fx_calls ?s @ ds" "prefix ds (rule_plan E ?d)" "\<And>x. r = Inr x \<Longrightarrow> ds = rule_plan E ?d"
    by (rule followsD) blast
  with that [of ds] show ?thesis by simp
qed

lemma rule_update_order_sorted:
  assumes "sorts_by (e_sort E)"
  shows "mset (rule_update_order E (M, N, D)) = mset M"
    and "D = [] \<Longrightarrow> sorted (map pair_priority (rule_update_order E (M, N, D)))"
    and "D \<noteq> [] \<Longrightarrow> sorted (rev (map pair_priority (rule_update_order E (M, N, D))))"
proof -
  show "mset (rule_update_order E (M, N, D)) = mset M"
    and "D = [] \<Longrightarrow> sorted (map pair_priority (rule_update_order E (M, N, D)))"
    using assms by (auto simp: rule_update_order_def sorts_by_def)
  assume "D \<noteq> []"
  then have "sorted (map (\<lambda>p. - pair_priority p) (rule_update_order E (M, N, D)))"
    using assms by (simp add: rule_update_order_def sorts_by_def)
  then have "sorted_wrt (\<ge>) (map pair_priority (rule_update_order E (M, N, D)))"
    by (simp add: sorted_map sorted_wrt_map)
  then show "sorted (rev (map pair_priority (rule_update_order E (M, N, D))))"
    by (simp add: sorted_wrt_rev)
qed

subsection \<open>Properties\<close>

text \<open>
  (C16) A successful run for one listener creates the missing rules, updates the matched
  ones and deletes the others, in this order and each in one request.  The updates go up by
  priority, and down when rules are deleted, so that a rule moves to a priority only after
  the rule that had it has moved on.
\<close>

theorem rule_batches_in_order:
  assumes "lsID \<noteq> []" and "a_ListALBListenerRules C lsID (fx_world s) = (Inr sdkLRs, w)"
    and "matchResAndSDKListenerRules resLRs sdkLRs = (M, N, D)" and "sorts_by (e_sort E)"
    and run: "applyListenerRulesOnListenerBatch E C lsID resLRs s = (Inr (), t)"
  shows "\<exists>pairs. fx_calls t = fx_calls s @ [CListALBListenerRules lsID, CCreateALBListenerRules N,
      CUpdateALBListenerRules pairs, CDeleteALBListenerRules (map slr_RuleId D)] \<and>
    mset pairs = mset M \<and>
    (if D = [] then sorted (map pair_priority pairs) else sorted (rev (map pair_priority pairs)))"
proof -
  have "fx_calls t = fx_calls s @ CListALBListenerRules lsID # rule_plan E (M, N, D)"
    by (rule rule_batch_calls [OF assms(1,2) run]) (simp add: assms(3))
  then show ?thesis
    using rule_update_order_sorted [OF assms(4), where M = M and N = N and D = D] by (simp add: rule_plan_def)
qed

theorem rule_batches_in_order_witness:
  "let a = \<lparr>alr_ID = ''r1'', alr_ListenerID = LiteralToken ''lsn-1'', alr_Priority = 1, alr_RuleDirection = ''Request'',
         alr_Spec = (), alr_Status = None\<rparr>;
       k = \<lambda>i p. \<lparr>slr_RuleId = i, slr_Priority = p, slr_Direction = ''Request'', slr_Rest = ()\<rparr>;
       C = demo_alb\<lparr>a_ListALBListenerRules := \<lambda>_ w. (Inr [k ''rule-1'' 1, k ''rule-2'' 2], w)\<rparr>
   in \<exists>pairs. fx_calls (snd (applyListenerRulesOnListenerBatch demo_env C ''lsn-1'' [a] demo_alb_state)) =
        [CListALBListenerRules ''lsn-1'', CCreateALBListenerRules [], CUpdateALBListenerRules pairs,
         CDeleteALBListenerRules [''rule-2'']] \<and> mset pairs = {#(a, k ''rule-1'' 1)#}"
proof -
  let ?a = "\<lparr>alr_ID = ''r1'', alr_ListenerID = LiteralToken ''lsn-1'', alr_Priority = 1, alr_RuleDirection = ''Request'',
         alr_Spec = (), alr_Status = None\<rparr>"
  let ?k = "\<lambda>i p. \<lparr>slr_RuleId = i, slr_Priority = p, slr_Direction = ''Request'', slr_Rest = ()\<rparr>"
  let ?C = "demo_alb\<lparr>a_ListALBListenerRules := \<lambda>_ w. (Inr [?k ''rule-1'' 1, ?k ''rule-2'' 2], w)\<rparr>"
  have m: "matchResAndSDKListenerRules [?a] [?k ''rule-1'' 1, ?k ''rule-2'' 2] = ([(?a, ?k ''rule-1'' 1)], [], [?k ''rule-2'' 2])"
    by code_simp
  have srt: "sorts_by (e_sort demo_env)" by (simp add: demo_env_def sorts_by_sort_key)
  obtain t where t: "applyListenerRulesOnListenerBatch demo_env ?C ''lsn-1'' [?a] demo_alb_state = (Inr (), t)"
    by (simp add: applyListenerRulesOnListenerBatch_def rules_match_def findSDKListenersRulesOnLS_def rules_create_def
        rules_update_def rules_delete_def LR_SetStatus_def m demo_alb_def prog_simps invoke_def Let_def)
  show ?thesis
    using rule_batches_in_order [where C = ?C and lsID = "''lsn-1''" and s = demo_alb_state and w = "()",
        OF _ _ m srt t] t
    by (auto simp: Let_def demo_alb_state_def)
qed

end
