(* ===== verification/Alb_Acls.thy ===== *)
theory Alb_Acls
  imports Alb_Rules
begin

text \<open>
  The appliers of access control lists (\<open>applier/acl.go\<close>) and of certificates
  (\<open>applier/secret.go\<close>).
\<close>

subsection \<open>Access control lists of a listener\<close>

text \<open>The ids and the type; both are empty when the listener has no relation.\<close>

definition findListenerAclConfig :: "('w, 'x) alb_cloud \<Rightarrow> string \<Rightarrow> ('w, 'x, string list \<times> string) alb_prog" where
  "findListenerAclConfig C lsId =
     bindP (invoke (CGetALBListenerAttribute lsId) (a_GetALBListenerAttribute C lsId)) (\<lambda>(aclIds, aclType).
     if length aclIds = 0 then returnP ([], []) else returnP (aclIds, aclType))"

definition findSDKAclsOnLS :: "('w, 'x) alb_cloud \<Rightarrow> 'x alb_listener \<Rightarrow> string list \<Rightarrow> ('w, 'x, sdk_acl list) alb_prog" where
  "findSDKAclsOnLS C listener aclIds = invoke (CListAcl listener aclIds) (a_ListAcl C listener aclIds)"

definition create_acl :: "('w, 'x) alb_cloud \<Rightarrow> 'x alb_acl \<Rightarrow> ('w, 'x, unit) alb_prog" where
  "create_acl C a = bindP (invoke (CCreateAcl a) (a_CreateAcl C a)) (\<lambda>st. Acl_SetStatus (acl_ID a) st)"

definition update_acl :: "('w, 'x) alb_cloud \<Rightarrow> string \<Rightarrow> 'x alb_acl \<times> sdk_acl \<Rightarrow> ('w, 'x, unit) alb_prog" where
  "update_acl C lsId p =
     bindP (invoke (CUpdateAcl lsId (fst p) (snd p)) (a_UpdateAcl C lsId (fst p) (snd p))) (\<lambda>st. Acl_SetStatus (acl_ID (fst p)) st)"

text \<open>The third component, the lists that match no resource, is not used.\<close>

definition createAndUpdateMatchedAcl ::
  "('w, 'x) alb_cloud \<Rightarrow> string \<Rightarrow> ('x alb_acl \<times> sdk_acl) list \<times> 'x alb_acl list \<times> sdk_acl list \<Rightarrow> ('w, 'x, unit) alb_prog" where
  "createAndUpdateMatchedAcl C lsId m =
     (case m of (matched, unmatchedRes, _) \<Rightarrow>
        bindP (forP (create_acl C) unmatchedRes) (\<lambda>_. forP (update_acl C lsId) matched))"

text \<open>What is left to do for a listener, between the parts of \<open>synthesizeAclsOnListener\<close>.\<close>

datatype 'x acl_work =
    AclStart
  | AclConfig string "string list" string
  | AclDisassociate string "string list"
  | AclMatch string "('x alb_acl \<times> sdk_acl) list \<times> 'x alb_acl list \<times> sdk_acl list"
  | AclDone

definition acl_read :: "('w, 'x) alb_cloud \<Rightarrow> 'x alb_listener \<Rightarrow> 'x alb_acl option \<Rightarrow> 'x acl_work \<Rightarrow> ('w, 'x, 'x acl_work) alb_prog" where
  "acl_read C listener resAcl _ =
     bindP (liftP (ListenerID_resolve listener)) (\<lambda>lsId.
     bindP (findListenerAclConfig C lsId) (\<lambda>(aclIds, sdkAclType).
     returnP (case resAcl of None \<Rightarrow> AclDone | Some _ \<Rightarrow> AclConfig lsId aclIds sdkAclType)))"

definition acl_associate :: "('w, 'x) alb_cloud \<Rightarrow> 'x alb_acl \<Rightarrow> string \<Rightarrow> string list \<Rightarrow> string \<Rightarrow> ('w, 'x, 'x acl_work) alb_prog" where
  "acl_associate C resAcl lsId aclIds sdkAclType =
     (case matchResAndSDKAclIds (acl_AclIds resAcl) aclIds of (_, unmatchedRes, unmatchedSdk) \<Rightarrow>
        let add = (if acl_AclType resAcl \<noteq> sdkAclType then acl_AclIds resAcl else unmatchedRes);
            del = (if acl_AclType resAcl \<noteq> sdkAclType then aclIds else unmatchedSdk)
        in bindP (if length add > 0 then invoke (CAssociateAcl resAcl add) (a_AssociateAcl C resAcl add) else returnP ()) (\<lambda>_.
           returnP (AclDisassociate lsId del)))"

definition acl_list ::
  "('w, 'x) alb_cloud \<Rightarrow> 'x alb_listener \<Rightarrow> 'x alb_acl \<Rightarrow> string \<Rightarrow> string list \<Rightarrow> string \<Rightarrow> ('w, 'x, 'x acl_work) alb_prog" where
  "acl_list C listener resAcl lsId aclIds sdkAclType =
     bindP (findSDKAclsOnLS C listener aclIds) (\<lambda>sdkAcls.
     returnP (AclMatch lsId
       (if acl_AclType resAcl \<noteq> sdkAclType then ([], [resAcl], sdkAcls) else matchResAndSDKAcls [resAcl] sdkAcls)))"

definition acl_first :: "('w, 'x) alb_cloud \<Rightarrow> 'x alb_listener \<Rightarrow> 'x alb_acl option \<Rightarrow> 'x acl_work \<Rightarrow> ('w, 'x, 'x acl_work) alb_prog" where
  "acl_first C listener resAcl work =
     (case (resAcl, work) of
        (Some a, AclConfig lsId aclIds sdkAclType) \<Rightarrow>
          if acl_AclName a = [] then acl_associate C a lsId aclIds sdkAclType
          else acl_list C listener a lsId aclIds sdkAclType
      | _ \<Rightarrow> returnP work)"

definition acl_second :: "('w, 'x) alb_cloud \<Rightarrow> 'x acl_work \<Rightarrow> ('w, 'x, 'x acl_work) alb_prog" where
  "acl_second C work =
     (case work of
        AclDisassociate lsId del \<Rightarrow>
          bindP (if length del > 0 then invoke (CDisassociateAcl lsId del) (a_DisassociateAcl C lsId del) else returnP ()) (\<lambda>_.
          returnP AclDone)
      | AclMatch lsId m \<Rightarrow> bindP (createAndUpdateMatchedAcl C lsId m) (\<lambda>_. returnP AclDone)
      | _ \<Rightarrow> returnP work)"

definition synthesizeAclsOnListener ::
  "('w, 'x) alb_cloud \<Rightarrow> 'x alb_listener \<Rightarrow> 'x alb_acl option \<Rightarrow> ('w, 'x, unit) alb_prog" where
  "synthesizeAclsOnListener C listener resAcl =
     bindP (acl_read C listener resAcl AclStart) (\<lambda>work.
     bindP (acl_first C listener resAcl work) (\<lambda>work.
     bindP (acl_second C work) (\<lambda>_. returnP ())))"

definition acl_thread ::
  "('w, 'x) alb_cloud \<Rightarrow> (string \<times> 'x alb_acl) list \<Rightarrow> string \<times> 'x alb_listener \<Rightarrow> (('w, 'x) alb_state, 'x acl_work res) thread" where
  "acl_thread C resAclsByLsID entry =
     (let resAcl = map_of resAclsByLsID (fst entry)
      in (Inr AclStart,
          [partP (acl_read C (snd entry) resAcl), partP (acl_first C (snd entry) resAcl), partP (acl_second C),
           keep_first_error]))"

definition mapResAclByListenerID :: "'x alb_acl list \<Rightarrow> ('w, 'x, (string \<times> 'x alb_acl) list) alb_prog" where
  "mapResAclByListenerID resAcls =
     bindP (resolve_all acl_ListenerID resAcls) (\<lambda>kvs. returnP (fold (\<lambda>(i, a) m. map_set i a m) kvs []))"

definition acl_Apply :: "'x alb_env \<Rightarrow> ('w, 'x) alb_cloud \<Rightarrow> ('w, 'x, unit) alb_prog" where
  "acl_Apply E C =
     bindP (getP as_Acls) (\<lambda>resAcls.
     bindP (mapResAclByListenerID resAcls) (\<lambda>resAclsByLsID.
     bindP (getP as_LSs) (\<lambda>resLSs.
     bindP (liftP (mapResListenerByListenerID resLSs)) (\<lambda>resLSsByLsID.
     bindP (getP as_errRes) (\<lambda>errRes.
     bindP (modifyP (as_errApply_update (\<lambda>_. None))) (\<lambda>_.
     bindP (goP (e_sched E 4) ListenerConcurrentNum (acl_thread C resAclsByLsID)
             (without_errors errRes (e_rangeLss E resLSsByLsID))) (\<lambda>_.
     bindP (getP as_errApply) (\<lambda>errSynthesize.
     case errSynthesize of Some e \<Rightarrow> throwP e | None \<Rightarrow> returnP ()))))))))"

subsection \<open>Certificates\<close>

text \<open>All certificates of a name get the id of the one that was created.\<close>

definition create_cert_thread ::
  "('w, 'x) alb_cloud \<Rightarrow> alb_cert list \<Rightarrow> alb_cert \<Rightarrow> (('w, 'x) alb_state, string \<times> go_error option) thread" where
  "create_cert_thread C resCerts cert =
     (([], None),
      [\<lambda>_. bindP (call2 (CCreateSSLCertificateWithName (cert_CertName cert) (cert_Certificate cert) (cert_PrivateKey cert))
             (a_CreateSSLCertificateWithName C (cert_CertName cert) (cert_Certificate cert) (cert_PrivateKey cert)))
             (\<lambda>r. returnP (Some r)),
       \<lambda>(certId, err).
         bindP (modifyP (\<lambda>s. case (as_errCreate s, err) of (None, Some e) \<Rightarrow> s\<lparr>as_errCreate := Some e\<rparr> | _ \<Rightarrow> s)) (\<lambda>_.
         bindP (forP (\<lambda>c. Cert_SetStatus (cert_ID c) certId)
             (filter (\<lambda>c. cert_CertName c = cert_CertName cert) resCerts)) (\<lambda>_. returnP None))])"

definition update_cert_thread :: "alb_cert \<times> cert_info \<Rightarrow> (('w, 'x) alb_state, unit) thread" where
  "update_cert_thread p =
     ((), [\<lambda>_. bindP (Cert_SetStatus (cert_ID (fst p)) (ci_CertIdentifier (snd p))) (\<lambda>_. returnP None)])"

text \<open>These goroutines are not bounded by a channel.\<close>

definition secret_Apply :: "'x alb_env \<Rightarrow> ('w, 'x) alb_cloud \<Rightarrow> ('w, 'x, unit) alb_prog" where
  "secret_Apply E C =
     bindP (getP as_Certs) (\<lambda>resCerts.
     if length resCerts = 0 then returnP ()
     else
       bindP (invoke CDescribeSSLCertificateList (a_DescribeSSLCertificateList C)) (\<lambda>sdkCerts.
       case matchResAndSDKCertificates resCerts sdkCerts of (matched, unmatchedResCerts, _) \<Rightarrow>
         bindP (modifyP (as_errCreate_update (\<lambda>_. None))) (\<lambda>_.
         bindP (goP (e_sched E 5) (length unmatchedResCerts) (create_cert_thread C resCerts) unmatchedResCerts) (\<lambda>_.
         bindP (getP as_errCreate) (\<lambda>errCreate.
         case errCreate of Some e \<Rightarrow> throwP e
         | None \<Rightarrow> goP (e_sched E 6) (length matched) update_cert_thread matched)))))"

subsection \<open>Every certificate gets an id\<close>

definition cert_fulfilled :: "string \<Rightarrow> ('w, 'x) alb_state \<Rightarrow> bool" where
  "cert_fulfilled i s \<longleftrightarrow> (\<forall>c \<in> set (as_Certs s). cert_ID c = i \<longrightarrow> cert_Status c \<noteq> None)"

lemma cert_fulfilled_set: "cert_fulfilled i (snd (Cert_SetStatus i st s))"
  unfolding cert_fulfilled_def Cert_SetStatus_def modifyP_def by (simp add: ball_Un)

lemma keeps_cert_set: "keeps (cert_fulfilled i) (Cert_SetStatus j st)"
  unfolding keeps_def cert_fulfilled_def Cert_SetStatus_def modifyP_def by (simp add: ball_Un)

lemma Cert_SetStatus_Inr: "fst (Cert_SetStatus i st s) = Inr ()"
  by (simp add: Cert_SetStatus_def modifyP_def)

lemma cert_fulfilled_frame:
  "cert_fulfilled i (s\<lparr>fx_world := w, fx_calls := c\<rparr>) = cert_fulfilled i s"
  "cert_fulfilled i (s\<lparr>as_errCreate := e\<rparr>) = cert_fulfilled i s"
  by (simp_all add: cert_fulfilled_def)

lemma keeps_create_cert:
  "f \<in> set (snd (create_cert_thread C certs c)) \<Longrightarrow> keeps (cert_fulfilled i) (f l)"
  by (cases l)
    (auto simp: create_cert_thread_def cert_fulfilled_frame split: option.splits
      intro!: keeps_bind keeps_return keeps_modify keeps_call2 keeps_for keeps_cert_set)

lemma keeps_update_cert:
  "f \<in> set (snd (update_cert_thread p)) \<Longrightarrow> keeps (cert_fulfilled i) (f l)"
  by (auto simp: update_cert_thread_def intro!: keeps_bind keeps_return keeps_cert_set)

lemma forP_cert_sets:
  assumes "forP (\<lambda>c. Cert_SetStatus (cert_ID c) st) cs s = (r, t)" and "c \<in> set cs"
  shows "cert_fulfilled (cert_ID c) t"
  using assms
proof (induction cs arbitrary: s)
  case Nil
  then show ?case by simp
next
  case (Cons d cs)
  obtain s' where s': "Cert_SetStatus (cert_ID d) st s = (Inr (), s')"
    using Cert_SetStatus_Inr by (metis prod.collapse)
  with Cons.prems(1) have rest: "forP (\<lambda>c. Cert_SetStatus (cert_ID c) st) cs s' = (r, t)"
    by (simp add: bindP_def)
  show ?case
  proof (cases "c \<in> set cs")
    case True
    then show ?thesis by (rule Cons.IH [OF rest])
  next
    case False
    with Cons.prems(2) have "c = d" by simp
    moreover have "cert_fulfilled (cert_ID d) s'" using cert_fulfilled_set [of "cert_ID d" st s] s' by simp
    ultimately show ?thesis
      using keepsD [OF keeps_for rest] keeps_cert_set by blast
  qed
qed

lemma thread_reaches_two:
  assumes "\<And>s r t. f l s = (Inr r, t) \<Longrightarrow> r \<noteq> None" and "\<And>l s r t. g l s = (Inr r, t) \<Longrightarrow> Q t"
  shows "thread_reaches l [f, g] Q"
  using assms by auto

lemma create_certs_reach:
  assumes "goP sched limit (create_cert_thread C certs) ds s = (Inr (), t)"
    and "d \<in> set ds" and "c \<in> set certs" and "cert_CertName c = cert_CertName d"
  shows "cert_fulfilled (cert_ID c) t"
proof -
  let ?Q = "\<lambda>d s. \<forall>c \<in> set certs. cert_CertName c = cert_CertName d \<longrightarrow> cert_fulfilled (cert_ID c) s"
  have "?Q d t"
  proof (rule goP_reaches [OF assms(1) _ _ assms(2)])
    fix d
    let ?f = "snd (create_cert_thread C certs d) ! 1"
    have "?Q d t" if "?f l s = (r, t)" for l s r t
    proof (intro ballI impI)
      fix c assume c: "c \<in> set certs" "cert_CertName c = cert_CertName d"
      from that obtain s' r' where "forP (\<lambda>c. Cert_SetStatus (cert_ID c) (fst l)) (filter (\<lambda>c. cert_CertName c = cert_CertName d) certs) s' = (r', t)"
        by (auto simp: create_cert_thread_def bindP_def modifyP_def returnP_def split: prod.splits sum.splits)
      then show "cert_fulfilled (cert_ID c) t" using forP_cert_sets c by force
    qed
    then show "thread_reaches (fst (create_cert_thread C certs d)) (snd (create_cert_thread C certs d)) (?Q d)"
      unfolding create_cert_thread_def fst_conv snd_conv nth_Cons_Suc nth_Cons_0 One_nat_def
      by (intro thread_reaches_two) (auto simp: bindP_def returnP_def split: prod.splits sum.splits)
    show "pool_stable (create_cert_thread C certs d) (?Q e)" for e
      by (rule pool_stable_keeps) (use keeps_create_cert in \<open>fastforce simp: keeps_def\<close>)
  qed
  with assms(3,4) show ?thesis by blast
qed

lemma update_certs_reach:
  assumes "goP sched limit update_cert_thread ps s = (Inr (), t)" and "p \<in> set ps"
  shows "cert_fulfilled (cert_ID (fst p)) t"
proof (rule goP_reaches [OF assms(1) _ _ assms(2), where Q = "\<lambda>p. cert_fulfilled (cert_ID (fst p))"])
  show "pool_stable (update_cert_thread q) (cert_fulfilled (cert_ID (fst r)))" for q r
    by (rule pool_stable_keeps) (rule keeps_update_cert)
  have "cert_fulfilled i t" if "Cert_SetStatus i st s = (Inr (), t)" for i st s t
    using cert_fulfilled_set [of i st s] that by simp
  then show "thread_reaches (fst (update_cert_thread q)) (snd (update_cert_thread q)) (cert_fulfilled (cert_ID (fst q)))" for q
    by (auto simp: update_cert_thread_def bindP_def returnP_def split: prod.splits sum.splits)
qed

lemma cert_matched_or_created:
  assumes "matchResAndSDKCertificates rs ss = (M, N, D)" and "c \<in> set rs"
  shows "(\<exists>i. (c, i) \<in> set M) \<or> (\<exists>d \<in> set N. cert_CertName d = cert_CertName c)"
proof (cases "map_of (index_by ci_CertName ss) (cert_CertName c)")
  case None
  let ?R = "index_by cert_CertName rs" and ?S = "index_by ci_CertName ss"
  have k: "cert_CertName c \<in> cert_CertName ` set rs" using assms(2) by simp
  from None have "cert_CertName c \<notin> fst ` set ?S" by (simp add: map_of_eq_None_iff)
  then have "cert_CertName c \<in> set (keys_without ?R ?S)"
    using k by (simp add: set_keys_without index_by_facts(3))
  then have "at_key ?R (cert_CertName c) \<in> set N"
    using assms(1) by (auto simp: matchResAndSDKCertificates_def Let_def)
  with at_key_index(1) [OF k] show ?thesis by blast
next
  case (Some i)
  then have "(c, i) \<in> set M"
    using assms by (force simp: matchResAndSDKCertificates_def Let_def List.map_filter_def)
  then show ?thesis by blast
qed

lemma secret_Apply_fulfils:
  assumes run: "secret_Apply E C s = (Inr (), t)" and c: "c \<in> set (as_Certs s)"
  shows "cert_fulfilled (cert_ID c) t"
proof -
  from c have "length (as_Certs s) \<noteq> 0" by auto
  with run obtain sdkCerts M N D s1 t1 where
    m: "matchResAndSDKCertificates (as_Certs s) sdkCerts = (M, N, D)"
    and t1: "goP (e_sched E 5) (length N) (create_cert_thread C (as_Certs s)) N s1 = (Inr (), t1)"
    and t: "goP (e_sched E 6) (length M) update_cert_thread M t1 = (Inr (), t)"
    by (auto simp: secret_Apply_def prog_simps split: prod.splits sum.splits option.splits)
  from cert_matched_or_created [OF m c] show ?thesis
  proof
    assume "\<exists>i. (c, i) \<in> set M"
    then show ?thesis using update_certs_reach [OF t] by fastforce
  next
    assume "\<exists>d \<in> set N. cert_CertName d = cert_CertName c"
    then obtain d where "d \<in> set N" "cert_CertName c = cert_CertName d" by auto
    then have "cert_fulfilled (cert_ID c) t1" using create_certs_reach [OF t1 _ c] by blast
    moreover have "keeps (cert_fulfilled (cert_ID c)) (goP (e_sched E 6) (length M) update_cert_thread M)"
      by (rule goP_keeps) (rule keeps_update_cert)
    ultimately show ?thesis using t by (blast dest: keepsD)
  qed
qed

text \<open>No certificate comes or goes.\<close>

lemma secret_Apply_keeps_ids: "keeps (\<lambda>s. map cert_ID (as_Certs s) = ids) (secret_Apply E C)"
proof -
  have upd: "keeps (\<lambda>s. map cert_ID (as_Certs s) = ids) (Cert_SetStatus j st)" for j st
    unfolding Cert_SetStatus_def by (rule keeps_modify) (simp add: o_def if_distrib cong: if_cong map_cong)
  have create: "keeps (\<lambda>s. map cert_ID (as_Certs s) = ids) (goP sched limit (create_cert_thread C certs) xs)" for sched limit certs xs
    by (rule goP_keeps) (auto simp: create_cert_thread_def split: option.splits
        intro!: keeps_bind keeps_return keeps_modify keeps_call2 keeps_for upd)
  have update: "keeps (\<lambda>s. map cert_ID (as_Certs s) = ids) (goP sched limit update_cert_thread xs)" for sched limit xs
    by (rule goP_keeps) (auto simp: update_cert_thread_def intro!: keeps_bind keeps_return upd)
  have none: "keeps (\<lambda>s. map cert_ID (as_Certs s) = ids) (modifyP (as_errCreate_update f))" for f
    by (rule keeps_modify) simp
  have list: "keeps (\<lambda>s. map cert_ID (as_Certs s) = ids) (invoke CDescribeSSLCertificateList (a_DescribeSSLCertificateList C))"
    by (rule keeps_invoke) simp
  show ?thesis
    unfolding secret_Apply_def by (intro keeps_parts none list create update)
qed

lemma secret_Apply_ids:
  assumes "secret_Apply E C s = (r, t)"
  shows "cert_ID ` set (as_Certs t) = cert_ID ` set (as_Certs s)"
  using keepsD [OF secret_Apply_keeps_ids assms refl] by (metis list.set_map)

subsection \<open>Properties\<close>



end
