(* ===== verification/Alb_Server_Groups.thy ===== *)
theory Alb_Server_Groups
  imports Alb_Servers Alb_Acls
begin

text \<open>
  The server group applier (\<open>applier/server_group.go\<close>).  Missing groups are created and
  filled with the servers of their service, matched groups are updated and emptied when
  the service is gone, and \<open>PostApply\<close> deletes the groups without a resource.
\<close>

definition ServerGroupConcurrentNum :: nat where
  "ServerGroupConcurrentNum = 5"

definition calServerGroupResourceIDHashUUID :: "('w, 'x) alb_cloud \<Rightarrow> string \<Rightarrow> string" where
  "calServerGroupResourceIDHashUUID C i = a_sha256hex C i"

text \<open>
  What a goroutine holds: the id of the group, the error of its current call, the backends
  of the service and the servers of the group.
\<close>

record sgp_local =
  sl_ServerGroupID :: string
  sl_err :: "go_error option"
  sl_backends :: "backend_item list"
  sl_servers :: "backend_server list"

definition sgp_start :: sgp_local where
  "sgp_start = \<lparr>sl_ServerGroupID = [], sl_err = None, sl_backends = [], sl_servers = []\<rparr>"

definition service_key :: "'x alb_sgp \<Rightarrow> string \<times> string" where
  "service_key g = (sk_Namespace (asg_NamedKey g), sk_ServiceName (asg_NamedKey g))"

definition default_listener_group :: "'x alb_sgp \<Rightarrow> bool" where
  "default_listener_group g \<longleftrightarrow> Contains (sk_IngressName (asg_NamedKey g)) ''-listener-''"

definition BuildServicePortSDKBackends ::
  "('w, 'x) alb_cloud \<Rightarrow> 'x alb_sgp \<Rightarrow> ('w, 'x, backend_item list) alb_prog" where
  "BuildServicePortSDKBackends C g =
     invoke (CBuildBackends (service_key g) (sk_ServicePort (asg_NamedKey g)))
       (a_BuildBackends C (service_key g) (sk_ServicePort (asg_NamedKey g)))"

subsection \<open>Filling a new group\<close>

definition addServerToServerGroup ::
  "('w, 'x) alb_cloud \<Rightarrow> string \<Rightarrow> 'x alb_sgp \<Rightarrow> ('w, 'x, unit) alb_prog" where
  "addServerToServerGroup C sgpId g =
     bindP (tryP (BuildServicePortSDKBackends C g)) (\<lambda>r.
     case r of Inl e \<Rightarrow> if a_IsNotFound C e then returnP () else throwP e
     | Inr backends \<Rightarrow>
         if length backends = 0 then returnP ()
         else bindP (RegisterALBServers C sgpId backends) (\<lambda>_.
              updateTargetHealthPodCondition C BuildReadinessGatePodConditionType backends))"

text \<open>The steps of a goroutine that creates a group; the middle three are \<open>addServerToServerGroup\<close>.\<close>

definition create_sgp_call :: "('w, 'x) alb_cloud \<Rightarrow> 'x alb_sgp \<Rightarrow> sgp_local \<Rightarrow> ('w, 'x, sgp_local option) alb_prog" where
  "create_sgp_call C g l =
     bindP (call2 (CCreateALBServerGroup g) (a_CreateALBServerGroup C g)) (\<lambda>(sgpStatus, errOnce).
     returnP (Some (l\<lparr>sl_ServerGroupID := sgpStatus, sl_err := errOnce\<rparr>)))"

text \<open>Only the first error of the pool makes its goroutine return.\<close>

definition create_sgp_check :: "'x alb_sgp \<Rightarrow> sgp_local \<Rightarrow> ('w, 'x, sgp_local option) alb_prog" where
  "create_sgp_check g l =
     bindP (getP as_errCreate) (\<lambda>errCreate.
     case (errCreate, sl_err l) of
       (None, Some e) \<Rightarrow> bindP (modifyP (as_errCreate_update (\<lambda>_. Some e))) (\<lambda>_. returnP None)
     | _ \<Rightarrow>
         bindP (SGP_SetStatus (asg_ID g) (sl_ServerGroupID l)) (\<lambda>_.
         if default_listener_group g then returnP None else returnP (Some (l\<lparr>sl_err := None\<rparr>))))"

definition sgp_build :: "('w, 'x) alb_cloud \<Rightarrow> 'x alb_sgp \<Rightarrow> sgp_local \<Rightarrow> ('w, 'x, sgp_local option) alb_prog" where
  "sgp_build C g l =
     bindP (tryP (BuildServicePortSDKBackends C g)) (\<lambda>r.
     case r of Inl e \<Rightarrow> returnP (if a_IsNotFound C e then None else Some (l\<lparr>sl_err := Some e\<rparr>))
     | Inr backends \<Rightarrow> returnP (if length backends = 0 then None else Some (l\<lparr>sl_backends := backends\<rparr>)))"

definition sgp_register :: "('w, 'x) alb_cloud \<Rightarrow> sgp_local \<Rightarrow> ('w, 'x, sgp_local option) alb_prog" where
  "sgp_register C l =
     (case sl_err l of Some _ \<Rightarrow> returnP (Some l)
      | None \<Rightarrow>
          bindP (tryP (RegisterALBServers C (sl_ServerGroupID l) (sl_backends l))) (\<lambda>r.
          returnP (Some (case r of Inl e \<Rightarrow> l\<lparr>sl_err := Some e\<rparr> | Inr _ \<Rightarrow> l))))"

definition sgp_pods :: "('w, 'x) alb_cloud \<Rightarrow> sgp_local \<Rightarrow> ('w, 'x, sgp_local option) alb_prog" where
  "sgp_pods C l =
     (case sl_err l of Some _ \<Rightarrow> returnP (Some l)
      | None \<Rightarrow>
          bindP (updateTargetHealthPodCondition C BuildReadinessGatePodConditionType (sl_backends l)) (\<lambda>_. returnP None))"

text \<open>The roll-back: its error is logged only, and another error of the pool prevents it.\<close>

definition sgp_rollback :: "('w, 'x) alb_cloud \<Rightarrow> sgp_local \<Rightarrow> ('w, 'x, sgp_local option) alb_prog" where
  "sgp_rollback C l =
     bindP (getP as_errCreate) (\<lambda>errCreate.
     case errCreate of Some _ \<Rightarrow> returnP None
     | None \<Rightarrow>
         bindP (call2 (CDeleteALBServerGroup (sl_ServerGroupID l)) (a_DeleteALBServerGroup C (sl_ServerGroupID l))) (\<lambda>_.
         returnP (Some l)))"

definition sgp_keep_error :: "sgp_local \<Rightarrow> ('w, 'x, sgp_local option) alb_prog" where
  "sgp_keep_error l = bindP (modifyP (as_errCreate_update (\<lambda>_. sl_err l))) (\<lambda>_. returnP None)"

definition create_sgp_thread :: "('w, 'x) alb_cloud \<Rightarrow> 'x alb_sgp \<Rightarrow> (('w, 'x) alb_state, sgp_local) thread" where
  "create_sgp_thread C g =
     (sgp_start, [create_sgp_call C g, create_sgp_check g, sgp_build C g, sgp_register C, sgp_pods C,
                  sgp_rollback C, sgp_keep_error])"

subsection \<open>Updating a group\<close>

definition removeServerFromServerGroup ::
  "('w, 'x) alb_cloud \<Rightarrow> string \<Rightarrow> 'x alb_sgp \<Rightarrow> ('w, 'x, unit) alb_prog" where
  "removeServerFromServerGroup C sgpId g =
     bindP (tryP (BuildServicePortSDKBackends C g)) (\<lambda>r.
     case r of Inr _ \<Rightarrow> returnP ()
     | Inl e \<Rightarrow>
         if a_IsNotFound C e then
           bindP (ListALBServers C sgpId) (\<lambda>servers.
           if length servers = 0 then returnP () else DeregisterALBServers C sgpId servers)
         else throwP e)"

definition update_sgp_call ::
  "('w, 'x) alb_cloud \<Rightarrow> 'x alb_sgp \<times> 'x sdk_sgp \<Rightarrow> sgp_local \<Rightarrow> ('w, 'x, sgp_local option) alb_prog" where
  "update_sgp_call C p l =
     bindP (call2 (CUpdateALBServerGroup (fst p) (snd p)) (a_UpdateALBServerGroup C (fst p) (snd p))) (\<lambda>(sgpStatus, errOnce).
     returnP (Some (l\<lparr>sl_ServerGroupID := sgpStatus, sl_err := errOnce\<rparr>)))"

definition update_sgp_check :: "'x alb_sgp \<Rightarrow> sgp_local \<Rightarrow> ('w, 'x, sgp_local option) alb_prog" where
  "update_sgp_check g l =
     bindP (modifyP (\<lambda>s. case (as_errUpdate s, sl_err l) of (None, Some e) \<Rightarrow> s\<lparr>as_errUpdate := Some e\<rparr> | _ \<Rightarrow> s)) (\<lambda>_.
     bindP (SGP_SetStatus (asg_ID g) (sl_ServerGroupID l)) (\<lambda>_.
     if default_listener_group g then returnP None else returnP (Some (l\<lparr>sl_err := None\<rparr>))))"

definition sgp_find_gone :: "('w, 'x) alb_cloud \<Rightarrow> 'x alb_sgp \<Rightarrow> sgp_local \<Rightarrow> ('w, 'x, sgp_local option) alb_prog" where
  "sgp_find_gone C g l =
     bindP (tryP (BuildServicePortSDKBackends C g)) (\<lambda>r.
     case r of Inr _ \<Rightarrow> returnP None
     | Inl e \<Rightarrow> returnP (Some (if a_IsNotFound C e then l else l\<lparr>sl_err := Some e\<rparr>)))"

definition sgp_list :: "('w, 'x) alb_cloud \<Rightarrow> sgp_local \<Rightarrow> ('w, 'x, sgp_local option) alb_prog" where
  "sgp_list C l =
     (case sl_err l of Some _ \<Rightarrow> returnP (Some l)
      | None \<Rightarrow>
          bindP (tryP (ListALBServers C (sl_ServerGroupID l))) (\<lambda>r.
          case r of Inl e \<Rightarrow> returnP (Some (l\<lparr>sl_err := Some e\<rparr>))
          | Inr servers \<Rightarrow> returnP (if length servers = 0 then None else Some (l\<lparr>sl_servers := servers\<rparr>))))"

definition sgp_deregister :: "('w, 'x) alb_cloud \<Rightarrow> sgp_local \<Rightarrow> ('w, 'x, sgp_local option) alb_prog" where
  "sgp_deregister C l =
     (case sl_err l of Some _ \<Rightarrow> returnP (Some l)
      | None \<Rightarrow>
          bindP (tryP (DeregisterALBServers C (sl_ServerGroupID l) (sl_servers l))) (\<lambda>r.
          returnP (case r of Inl e \<Rightarrow> Some (l\<lparr>sl_err := Some e\<rparr>) | Inr _ \<Rightarrow> None)))"

text \<open>The error of the removal goes to the variable of the creations.\<close>

definition sgp_keep_removal_error :: "sgp_local \<Rightarrow> ('w, 'x, sgp_local option) alb_prog" where
  "sgp_keep_removal_error l =
     bindP (modifyP (\<lambda>s. case (as_errCreate s, sl_err l) of (None, Some e) \<Rightarrow> s\<lparr>as_errCreate := Some e\<rparr> | _ \<Rightarrow> s)) (\<lambda>_.
     returnP None)"

definition update_sgp_thread ::
  "('w, 'x) alb_cloud \<Rightarrow> 'x alb_sgp \<times> 'x sdk_sgp \<Rightarrow> (('w, 'x) alb_state, sgp_local) thread" where
  "update_sgp_thread C p =
     (sgp_start, [update_sgp_call C p, update_sgp_check (fst p), sgp_find_gone C (fst p), sgp_list C, sgp_deregister C,
                  sgp_keep_removal_error])"

subsection \<open>Apply and PostApply\<close>

definition findSDKServerGroups :: "'x alb_env \<Rightarrow> ('w, 'x) alb_cloud \<Rightarrow> ('w, 'x, 'x sdk_sgp list) alb_prog" where
  "findSDKServerGroups E C =
     invoke (CListALBServerGroupsWithTags (StackTags E)) (a_ListALBServerGroupsWithTags C (StackTags E))"

definition sgp_Apply :: "'x alb_env \<Rightarrow> ('w, 'x) alb_cloud \<Rightarrow> ('w, 'x, unit) alb_prog" where
  "sgp_Apply E C =
     bindP (getP as_SGPs) (\<lambda>resSGPs.
     bindP (findSDKServerGroups E C) (\<lambda>sdkSGPs.
     bindP (liftP (matchResAndSDKServerGroupsSGP (calServerGroupResourceIDHashUUID C) resSGPs sdkSGPs (ResourceIDTagKey E)))
       (\<lambda>(matched, unmatchedResSGPs, unmatchedSDKSGPs).
     bindP (modifyP (as_unmatchedSDKSGPs_update (\<lambda>_. unmatchedSDKSGPs))) (\<lambda>_.
     bindP (modifyP (as_errCreate_update (\<lambda>_. None))) (\<lambda>_.
     bindP (goP (e_sched E 7) ServerGroupConcurrentNum (create_sgp_thread C) unmatchedResSGPs) (\<lambda>_.
     bindP (getP as_errCreate) (\<lambda>errCreate.
     case errCreate of Some e \<Rightarrow> throwP e
     | None \<Rightarrow>
         bindP (modifyP (as_errUpdate_update (\<lambda>_. None))) (\<lambda>_.
         bindP (goP (e_sched E 8) ServerGroupConcurrentNum (update_sgp_thread C) matched) (\<lambda>_.
         bindP (getP as_errUpdate) (\<lambda>errUpdate.
         case errUpdate of Some e \<Rightarrow> throwP e | None \<Rightarrow> returnP ()))))))))))"

definition delete_sgp_thread :: "('w, 'x) alb_cloud \<Rightarrow> 'x sdk_sgp \<Rightarrow> (('w, 'x) alb_state, go_error option) thread" where
  "delete_sgp_thread C g =
     (None,
      [\<lambda>_. bindP (call2 (CDeleteALBServerGroup (ssg_ServerGroupId g)) (a_DeleteALBServerGroup C (ssg_ServerGroupId g)))
             (\<lambda>err. returnP (Some err)),
       \<lambda>err. bindP (modifyP (\<lambda>s. case (as_errDelete s, err) of
             (None, Some e) \<Rightarrow> s\<lparr>as_errDelete := Some e\<rparr> | _ \<Rightarrow> s)) (\<lambda>_. returnP None)])"

definition sgp_PostApply :: "'x alb_env \<Rightarrow> ('w, 'x) alb_cloud \<Rightarrow> ('w, 'x, unit) alb_prog" where
  "sgp_PostApply E C =
     bindP (getP as_unmatchedSDKSGPs) (\<lambda>unmatchedSDKSGPs.
     bindP (modifyP (as_errDelete_update (\<lambda>_. None))) (\<lambda>_.
     bindP (goP (e_sched E 9) ServerGroupConcurrentNum (delete_sgp_thread C) unmatchedSDKSGPs) (\<lambda>_.
     bindP (getP as_errDelete) (\<lambda>errDelete.
     case errDelete of Some e \<Rightarrow> throwP e | None \<Rightarrow> returnP ()))))"

subsection \<open>The steps are the methods\<close>

text \<open>
  The steps of a goroutine, run without a break, do what the method they are parts of does:
  the goroutine goes on exactly with the error of the method.
\<close>

lemma panics_forP: "(\<And>x. panics_only (f x)) \<Longrightarrow> panics_only (forP f xs)"
  by (induction xs) (auto intro: panics_return panics_bind)

lemma panics_pods: "panics_only (updateTargetHealthPodCondition C ty bs)"
  unfolding updateTargetHealthPodCondition_def update_pod_def
  by (intro panics_forP) (auto split: option.splits sum.splits intro!: panics_return panics_bind panics_try)

lemma add_steps:
  assumes "sl_err l = None"
  shows "bindP (seqP l [sgp_build C g, sgp_register C, sgp_pods C]) (\<lambda>r. returnP (map_option sl_err r)) =
    bindP (tryP (addServerToServerGroup C (sl_ServerGroupID l) g)) (\<lambda>r.
      returnP (case r of Inl e \<Rightarrow> Some (Some e) | Inr _ \<Rightarrow> None))"
proof
  fix s
  obtain r t where b: "BuildServicePortSDKBackends C g s = (r, t)" by (cases "BuildServicePortSDKBackends C g s")
  show "bindP (seqP l [sgp_build C g, sgp_register C, sgp_pods C]) (\<lambda>r. returnP (map_option sl_err r)) s =
    bindP (tryP (addServerToServerGroup C (sl_ServerGroupID l) g)) (\<lambda>r.
      returnP (case r of Inl e \<Rightarrow> Some (Some e) | Inr _ \<Rightarrow> None)) s"
  proof (cases r)
    case (Inl e)
    with assms b show ?thesis
      by (cases e) (simp_all add: sgp_build_def sgp_register_def sgp_pods_def addServerToServerGroup_def prog_simps)
  next
    case (Inr bs)
    obtain r2 t2 where reg: "RegisterALBServers C (sl_ServerGroupID l) bs t = (r2, t2)"
      by (cases "RegisterALBServers C (sl_ServerGroupID l) bs t")
    obtain r3 t3 where pods: "updateTargetHealthPodCondition C BuildReadinessGatePodConditionType bs t2 = (r3, t3)"
      by (cases "updateTargetHealthPodCondition C BuildReadinessGatePodConditionType bs t2")
    have "r3 \<noteq> Inl (Errorf e)" for e
      using panics_pods [of C BuildReadinessGatePodConditionType bs] pods unfolding panics_only_def by (metis fst_conv)
    with assms b Inr reg pods show ?thesis
      by (auto simp: sgp_build_def sgp_register_def sgp_pods_def addServerToServerGroup_def prog_simps
          split: sum.splits go_error.splits)
  qed
qed

lemma remove_steps:
  assumes "sl_err l = None"
  shows "bindP (seqP l [sgp_find_gone C g, sgp_list C, sgp_deregister C]) (\<lambda>r. returnP (map_option sl_err r)) =
    bindP (tryP (removeServerFromServerGroup C (sl_ServerGroupID l) g)) (\<lambda>r.
      returnP (case r of Inl e \<Rightarrow> Some (Some e) | Inr _ \<Rightarrow> None))"
proof
  fix s
  obtain r t where b: "BuildServicePortSDKBackends C g s = (r, t)" by (cases "BuildServicePortSDKBackends C g s")
  obtain r2 t2 where ls: "ListALBServers C (sl_ServerGroupID l) t = (r2, t2)"
    by (cases "ListALBServers C (sl_ServerGroupID l) t")
  show "bindP (seqP l [sgp_find_gone C g, sgp_list C, sgp_deregister C]) (\<lambda>r. returnP (map_option sl_err r)) s =
    bindP (tryP (removeServerFromServerGroup C (sl_ServerGroupID l) g)) (\<lambda>r.
      returnP (case r of Inl e \<Rightarrow> Some (Some e) | Inr _ \<Rightarrow> None)) s"
  proof (cases r2)
    case (Inl e)
    with assms b ls show ?thesis
      by (auto simp: sgp_find_gone_def sgp_list_def sgp_deregister_def removeServerFromServerGroup_def prog_simps
          split: sum.splits go_error.splits)
  next
    case (Inr ss)
    obtain r3 t3 where "DeregisterALBServers C (sl_ServerGroupID l) ss t2 = (r3, t3)"
      by (cases "DeregisterALBServers C (sl_ServerGroupID l) ss t2")
    with assms b ls Inr show ?thesis
      by (auto simp: sgp_find_gone_def sgp_list_def sgp_deregister_def removeServerFromServerGroup_def prog_simps
          split: sum.splits go_error.splits)
  qed
qed

subsection \<open>Errors of the update pool\<close>

abbreviation no_update_error :: "('w, 'x) alb_state \<Rightarrow> bool" where
  "no_update_error s \<equiv> as_errUpdate s = None"

text \<open>
  Inside the update pool an error is kept in \<open>errUpdate\<close> only when \<open>UpdateALBServerGroup\<close>
  returns it; the local state after the first step carries no error then.
\<close>

lemma update_thread_keeps:
  assumes "\<And>g k w. snd (fst (a_UpdateALBServerGroup C g k w)) = None"
  shows "thread_keeps no_update_error (fst (update_sgp_thread C p)) (snd (update_sgp_thread C p))"
proof -
  have rest: "thread_keeps no_update_error l [sgp_find_gone C g, sgp_list C, sgp_deregister C, sgp_keep_removal_error]" for l g
    by (auto simp: sgp_find_gone_def sgp_list_def sgp_deregister_def sgp_keep_removal_error_def BuildServicePortSDKBackends_def
        ListALBServers_def DeregisterALBServers_def split: option.splits sum.splits prod.splits
        intro!: keeps_bind keeps_return keeps_try keeps_invoke keeps_modify)
  have check: "keeps no_update_error (update_sgp_check g l)" if "sl_err l = None" for g l
    using that by (auto simp: update_sgp_check_def SGP_SetStatus_def intro!: keeps_bind keeps_return keeps_modify split: option.splits)
  have call: "keeps no_update_error (update_sgp_call C p l)" for l
    unfolding update_sgp_call_def by (auto intro!: keeps_bind keeps_return keeps_call2)
  have err: "sl_err l' = None" if "update_sgp_call C p l s = (Inr (Some l'), t)" for l s l' t
    using that assms [of "fst p" "snd p" "fx_world s"]
    by (auto simp: update_sgp_call_def bindP_def call2_def invoke_def returnP_def split: prod.splits)
  show ?thesis
    unfolding update_sgp_thread_def fst_conv snd_conv thread_keeps.simps(2) [of _ _ "update_sgp_call C p"]
      thread_keeps.simps(2) [of _ _ "update_sgp_check (fst p)"]
    using call err check rest by blast
qed

lemma panics_modify: "panics_only (modifyP f)"
  by (simp add: panics_only_def modifyP_def)

lemma panics_get: "panics_only (getP f)"
  by (simp add: panics_only_def getP_def)

lemma panics_call2: "panics_only (call2 c f)"
  by (auto simp: panics_only_def call2_def invoke_def split: prod.splits)

lemmas panics_intros = panics_return panics_bind panics_try panics_modify panics_get panics_call2

lemma panics_update_thread:
  "f \<in> set (snd (update_sgp_thread C p)) \<Longrightarrow> panics_only (f l)"
  by (auto simp: update_sgp_thread_def update_sgp_call_def update_sgp_check_def sgp_find_gone_def sgp_list_def
      sgp_deregister_def sgp_keep_removal_error_def SGP_SetStatus_def split: option.splits sum.splits
      intro!: panics_intros)

text \<open>
  So when nothing has to be created and the updates of the groups themselves succeed, the
  applier reports no error, whatever happened to the removal of servers.
\<close>

lemma sgp_Apply_reports_no_removal_error:
  assumes "a_ListALBServerGroupsWithTags C (StackTags E) (fx_world s) = (Inr sdkSGPs, w)"
    and "matchResAndSDKServerGroupsSGP (calServerGroupResourceIDHashUUID C) (as_SGPs s) sdkSGPs (ResourceIDTagKey E) = Inr (M, [], D)"
    and upd: "\<And>g k w. snd (fst (a_UpdateALBServerGroup C g k w)) = None"
    and run: "sgp_Apply E C s = (r, t)"
  shows "r = Inr () \<or> (\<exists>e. r = Inl (Panic e))"
proof -
  let ?s = "s\<lparr>fx_world := w, fx_calls := fx_calls s @ [CListALBServerGroupsWithTags (StackTags E)],
      as_unmatchedSDKSGPs := D, as_errCreate := None, as_errUpdate := None\<rparr>"
  obtain q u where pool: "goP (e_sched E 8) ServerGroupConcurrentNum (update_sgp_thread C) M ?s = (q, u)"
    by (cases "goP (e_sched E 8) ServerGroupConcurrentNum (update_sgp_thread C) M ?s")
  have "as_errUpdate u = None"
    by (rule goP_thread_keeps [OF update_thread_keeps [OF upd] _ pool]) simp
  moreover have "q \<noteq> Inl (Errorf e)" for e
    using goP_panics [of M "update_sgp_thread C"] panics_update_thread pool unfolding panics_only_def by (metis fst_conv)
  moreover have "sgp_Apply E C s = (case q of Inl e \<Rightarrow> (Inl e, u) | Inr _ \<Rightarrow>
      (case as_errUpdate u of Some e \<Rightarrow> (Inl e, u) | None \<Rightarrow> (Inr (), u)))"
    using assms(1,2) pool
    by (simp add: sgp_Apply_def findSDKServerGroups_def prog_simps invoke_def goP_def poolP.simps split: sum.splits option.splits)
  ultimately show ?thesis
    using run by (cases q) (auto, metis go_error.exhaust)
qed

subsection \<open>Properties\<close>

text \<open>
  A finding.  The goroutines that update server groups store the error of emptying a
  group in the variable of the creations, which nobody reads any more: when nothing has to
  be created and the updates themselves succeed, the applier returns no error, although the
  servers of a service that is gone may still be registered.
\<close>

theorem removal_error_lost:
  assumes "a_ListALBServerGroupsWithTags C (StackTags E) (fx_world s) = (Inr sdkSGPs, w)"
    and "matchResAndSDKServerGroupsSGP (calServerGroupResourceIDHashUUID C) (as_SGPs s) sdkSGPs (ResourceIDTagKey E) = Inr (M, [], D)"
    and "\<And>g k w. snd (fst (a_UpdateALBServerGroup C g k w)) = None"
  shows "fst (sgp_Apply E C s) \<noteq> Inl (Errorf e)"
  using sgp_Apply_reports_no_removal_error [OF assms, of "fst (sgp_Apply E C s)" "snd (sgp_Apply E C s)"] by auto

theorem removal_error_lost_witness:
  "let g = \<lparr>asg_ID = ''g'', asg_NamedKey = \<lparr>sk_Prefix = [], sk_ClusterID = ''c1'', sk_Namespace = ''ns'', sk_IngressName = ''ing'',
         sk_ServiceName = ''web'', sk_ServicePort = 80\<rparr>, asg_Spec = (), asg_Status = None\<rparr>;
       k = \<lparr>ssg_ServerGroupId = ''sgp-1'', ssg_Tags = [(ResourceIDTagKey demo_env, ''g'')], ssg_Rest = ()\<rparr>;
       C = demo_alb\<lparr>a_ListALBServerGroupsWithTags := \<lambda>_ w. (Inr [k], w), a_BuildBackends := \<lambda>_ _ w. (Inl (Errorf ''not found''), w),
         a_ListALBServers := \<lambda>_ w. (Inl (Errorf ''throttled''), w)\<rparr>;
       r = sgp_Apply demo_env C (demo_alb_state\<lparr>as_SGPs := [g]\<rparr>)
   in as_errCreate (snd r) = Some (Errorf ''throttled'') \<and> fst r \<noteq> Inl (Errorf ''throttled'')"
proof -
  let ?g = "\<lparr>asg_ID = ''g'', asg_NamedKey = \<lparr>sk_Prefix = [], sk_ClusterID = ''c1'', sk_Namespace = ''ns'', sk_IngressName = ''ing'',
         sk_ServiceName = ''web'', sk_ServicePort = 80\<rparr>, asg_Spec = (), asg_Status = None\<rparr>"
  let ?k = "\<lparr>ssg_ServerGroupId = ''sgp-1'', ssg_Tags = [(ResourceIDTagKey demo_env, ''g'')], ssg_Rest = ()\<rparr>"
  let ?C = "demo_alb\<lparr>a_ListALBServerGroupsWithTags := \<lambda>_ w. (Inr [?k], w), a_BuildBackends := \<lambda>_ _ w. (Inl (Errorf ''not found''), w),
         a_ListALBServers := \<lambda>_ w. (Inl (Errorf ''throttled''), w)\<rparr>"
  let ?s = "demo_alb_state\<lparr>as_SGPs := [?g]\<rparr>"
  have "as_errCreate (snd (sgp_Apply demo_env ?C ?s)) = Some (Errorf ''throttled'')" by code_simp
  moreover have "matchResAndSDKServerGroupsSGP (calServerGroupResourceIDHashUUID ?C) (as_SGPs ?s) [?k] (ResourceIDTagKey demo_env) =
      Inr ([(?g, ?k)], [], [])" by code_simp
  then have "fst (sgp_Apply demo_env ?C ?s) \<noteq> Inl (Errorf ''throttled'')"
    by (rule removal_error_lost [rotated]) (simp_all add: demo_alb_def)
  ultimately show ?thesis by (simp add: Let_def)
qed

text \<open>
  A finding.  When one goroutine has failed, a later failure no longer stops its own
  goroutine: a group that could not be created gets the status that came with the error,
  the backends of its service are registered at the id in it, and no roll-back follows.
\<close>

theorem failed_creation_goes_on:
  assumes "a_CreateALBServerGroup C g (fx_world s) = ((i, Some e), w1)" and "as_errCreate s = Some e0"
    and "\<not> default_listener_group g"
    and "a_BuildBackends C (service_key g) (sk_ServicePort (asg_NamedKey g)) w1 = (Inr bs, w2)" and "bs \<noteq> []"
  shows "\<exists>cs. list_all pod_call cs \<and>
    fx_calls (snd (seqP (fst (create_sgp_thread C g)) (snd (create_sgp_thread C g)) s)) =
      fx_calls s @ [CCreateALBServerGroup g, CBuildBackends (service_key g) (sk_ServicePort (asg_NamedKey g)),
        CRegisterALBServers i bs] @ cs"
proof -
  let ?s = "s\<lparr>fx_world := w2,
      fx_calls := fx_calls s @ [CCreateALBServerGroup g, CBuildBackends (service_key g) (sk_ServicePort (asg_NamedKey g))],
      as_SGPs := map (\<lambda>h. if asg_ID h = asg_ID g then h\<lparr>asg_Status := Some i\<rparr> else h) (as_SGPs s)\<rparr>"
  let ?l = "sgp_start\<lparr>sl_ServerGroupID := i, sl_backends := bs\<rparr>"
  have run: "seqP (fst (create_sgp_thread C g)) (snd (create_sgp_thread C g)) s =
      seqP ?l [sgp_register C, sgp_pods C, sgp_rollback C, sgp_keep_error] ?s"
    using assms
    by (cases s) (simp add: create_sgp_thread_def create_sgp_call_def create_sgp_check_def sgp_build_def BuildServicePortSDKBackends_def
        call2_def invoke_def prog_simps SGP_SetStatus_def sgp_start_def)
  obtain r u where u: "RegisterALBServers C i bs ?s = (r, u)" by (cases "RegisterALBServers C i bs ?s")
  have calls: "fx_calls u = fx_calls ?s @ [CRegisterALBServers i bs]" and err: "as_errCreate u = Some e0"
    using u assms(2) by (auto simp: RegisterALBServers_def invoke_def split: prod.splits)
  obtain q v where v: "updateTargetHealthPodCondition C BuildReadinessGatePodConditionType bs u = (q, v)"
    by (cases "updateTargetHealthPodCondition C BuildReadinessGatePodConditionType bs u")
  obtain cs where cs: "fx_calls v = fx_calls u @ cs" "list_all pod_call cs"
    using emitsD [OF update_pods_calls v] by (auto simp: list_all_iff)
  have "snd (seqP ?l [sgp_register C, sgp_pods C, sgp_rollback C, sgp_keep_error] ?s) = (if r = Inr () then v else u)"
    using u v err
    by (auto simp: sgp_register_def sgp_pods_def sgp_rollback_def sgp_keep_error_def sgp_start_def prog_simps
        split: sum.splits go_error.splits option.splits)
  then show ?thesis unfolding run using calls cs by (auto intro: exI [of _ "[]"])
qed

theorem failed_creation_goes_on_witness:
  "let g = \<lparr>asg_ID = ''g'', asg_NamedKey = \<lparr>sk_Prefix = [], sk_ClusterID = ''c1'', sk_Namespace = ''ns'', sk_IngressName = ''ing'',
         sk_ServiceName = ''web'', sk_ServicePort = 80\<rparr>, asg_Spec = (), asg_Status = None\<rparr>;
       b = \<lparr>bi_Pod = None, bi_Description = [], bi_ServerId = ''i-1'', bi_ServerIp = [], bi_Weight = 100, bi_Port = 80, bi_Type = ''Ecs''\<rparr>;
       C = demo_alb\<lparr>a_CreateALBServerGroup := \<lambda>_ w. (([], Some (Errorf ''quota'')), w), a_BuildBackends := \<lambda>_ _ w. (Inr [b], w)\<rparr>
   in \<exists>cs. list_all pod_call cs \<and>
     fx_calls (snd (seqP (fst (create_sgp_thread C g)) (snd (create_sgp_thread C g))
        (demo_alb_state\<lparr>as_errCreate := Some (Errorf ''quota'')\<rparr>))) =
      [CCreateALBServerGroup g, CBuildBackends (''ns'', ''web'') 80, CRegisterALBServers [] [b]] @ cs"
proof -
  let ?g = "\<lparr>asg_ID = ''g'', asg_NamedKey = \<lparr>sk_Prefix = [], sk_ClusterID = ''c1'', sk_Namespace = ''ns'', sk_IngressName = ''ing'',
         sk_ServiceName = ''web'', sk_ServicePort = 80\<rparr>, asg_Spec = (), asg_Status = None\<rparr>"
  let ?b = "\<lparr>bi_Pod = None, bi_Description = [], bi_ServerId = ''i-1'', bi_ServerIp = [], bi_Weight = 100, bi_Port = 80, bi_Type = ''Ecs''\<rparr>"
  let ?C = "demo_alb\<lparr>a_CreateALBServerGroup := \<lambda>_ w. (([], Some (Errorf ''quota'')), w), a_BuildBackends := \<lambda>_ _ w. (Inr [?b], w)\<rparr>"
  have "\<not> default_listener_group ?g" by code_simp
  then show ?thesis
    using failed_creation_goes_on [where C = ?C and g = ?g and s = "demo_alb_state\<lparr>as_errCreate := Some (Errorf ''quota'')\<rparr>"
        and i = "[]" and e = "Errorf ''quota''" and e0 = "Errorf ''quota''" and ?w1.0 = "()" and ?w2.0 = "()" and bs = "[?b]"]
    by (simp add: Let_def demo_alb_state_def service_key_def)
qed

end
