(* ===== verification/Alb_Load_Balancers.thy ===== *)
theory Alb_Load_Balancers
  imports Alb_Matching
begin

text \<open>
  The load balancer applier (\<open>applier/alb.go\<close>): at most one load balancer belongs to a
  stack.  It is created, updated or deleted, or, when the load balancer is the user's,
  taken into use and given back.
\<close>

definition DeleteALB :: "'x alb_env \<Rightarrow> ('w, 'x) alb_cloud \<Rightarrow> string \<Rightarrow> ('w, 'x, unit) alb_prog" where
  "DeleteALB E C lbID =
     (if e_IsReuseLb E then invoke (CUnReuseALB lbID) (a_UnReuseALB C lbID)
      else invoke (CDeleteALB lbID) (a_DeleteALB C lbID))"

definition CreateALB :: "'x alb_env \<Rightarrow> ('w, 'x) alb_cloud \<Rightarrow> 'x alb_lb \<Rightarrow> ('w, 'x, lb_status) alb_prog" where
  "CreateALB E C resLB =
     (if e_IsReuseLb E
      then invoke (CReuseALB resLB (alb_LoadBalancerId resLB)) (a_ReuseALB C resLB (alb_LoadBalancerId resLB))
      else invoke (CCreateALB resLB) (a_CreateALB C resLB))"

definition UpdateALB ::
  "('w, 'x) alb_cloud \<Rightarrow> bool \<Rightarrow> 'x alb_lb \<Rightarrow> 'x sdk_lb \<Rightarrow> ('w, 'x, lb_status) alb_prog" where
  "UpdateALB C commonReuse resLB sdkLB =
     (if commonReuse
      then returnP \<lparr>lbs_DNSName = slb_DNSName sdkLB, lbs_LoadBalancerID = slb_LoadBalancerId sdkLB\<rparr>
      else invoke (CUpdateALB resLB sdkLB) (a_UpdateALB C resLB sdkLB))"

definition findSDKAlbLoadBalancers :: "'x alb_env \<Rightarrow> ('w, 'x) alb_cloud \<Rightarrow> ('w, 'x, 'x sdk_lb list) alb_prog" where
  "findSDKAlbLoadBalancers E C = invoke (CListALBsWithTags (StackTags E)) (a_ListALBsWithTags C (StackTags E))"

definition create_lb :: "'x alb_env \<Rightarrow> ('w, 'x) alb_cloud \<Rightarrow> 'x alb_lb \<Rightarrow> ('w, 'x, unit) alb_prog" where
  "create_lb E C resLB =
     (if (case alb_Status resLB of None \<Rightarrow> False | Some st \<Rightarrow> lbs_LoadBalancerID st \<noteq> []) then
        throwP (Errorf ''ALB loadBalancer has been deleted on the console, please delete related albconfig first'')
      else bindP (CreateALB E C resLB) (\<lambda>lbStatus. LB_SetStatus (alb_ID resLB) lbStatus))"

definition update_lb ::
  "('w, 'x) alb_cloud \<Rightarrow> bool \<Rightarrow> 'x alb_lb \<times> 'x sdk_lb \<Rightarrow> ('w, 'x, unit) alb_prog" where
  "update_lb C commonReuse p =
     bindP (UpdateALB C commonReuse (fst p) (snd p)) (\<lambda>lbStatus. LB_SetStatus (alb_ID (fst p)) lbStatus)"

definition lb_Apply :: "'x alb_env \<Rightarrow> ('w, 'x) alb_cloud \<Rightarrow> bool \<Rightarrow> ('w, 'x, unit) alb_prog" where
  "lb_Apply E C commonReuse =
     bindP (getP as_LBs) (\<lambda>resLBs.
     if length resLBs > 1 then throwP (Errorf ''invalid res loadBalancers, at most one loadBalancer for stack'')
     else
       bindP (findSDKAlbLoadBalancers E C) (\<lambda>sdkLBs.
       if length sdkLBs > 1 then throwP (Errorf ''invalid sdk loadBalancers, at most one loadBalancer can find by stack tag'')
       else
         bindP (liftP (matchResAndSDKAlbLoadBalancers resLBs sdkLBs (ResourceIDTagKey E)))
           (\<lambda>(matched, unmatchedResLBs, unmatchedSDKLBs).
         bindP (forP (\<lambda>sdkLB. DeleteALB E C (slb_LoadBalancerId sdkLB)) unmatchedSDKLBs) (\<lambda>_.
         bindP (forP (create_lb E C) unmatchedResLBs) (\<lambda>_.
         forP (update_lb C commonReuse) matched)))))"

subsection \<open>Requests\<close>

text \<open>What is sent for the resources of the stack and the load balancers found in the cloud.\<close>

definition lb_plan :: "'x alb_env \<Rightarrow> bool \<Rightarrow> 'x alb_lb list \<Rightarrow> 'x sdk_lb list \<Rightarrow> 'x alb_call list" where
  "lb_plan E commonReuse resLBs sdkLBs =
     (case (resLBs, sdkLBs) of
        ([], [sdkLB]) \<Rightarrow> [(if e_IsReuseLb E then CUnReuseALB else CDeleteALB) (slb_LoadBalancerId sdkLB)]
      | ([resLB], []) \<Rightarrow> [if e_IsReuseLb E then CReuseALB resLB (alb_LoadBalancerId resLB) else CCreateALB resLB]
      | ([resLB], [sdkLB]) \<Rightarrow>
          if index_str (slb_Tags sdkLB) (ResourceIDTagKey E) = alb_ID resLB
          then (if commonReuse then [] else [CUpdateALB resLB sdkLB])
          else [(if e_IsReuseLb E then CUnReuseALB else CDeleteALB) (slb_LoadBalancerId sdkLB),
                if e_IsReuseLb E then CReuseALB resLB (alb_LoadBalancerId resLB) else CCreateALB resLB]
      | _ \<Rightarrow> [])"

lemma sort_singleton [simp]: "sort [x] = [x]"
  by simp

lemma match_lbs_small:
  assumes "list_all (\<lambda>lb. has_key (slb_Tags lb) k) ss"
  shows "rs = [] \<Longrightarrow> ss = [] \<Longrightarrow> matchResAndSDKAlbLoadBalancers rs ss k = Inr ([], [], [])"
    and "rs = [] \<Longrightarrow> ss = [s] \<Longrightarrow> matchResAndSDKAlbLoadBalancers rs ss k = Inr ([], [], [s])"
    and "rs = [r] \<Longrightarrow> ss = [] \<Longrightarrow> matchResAndSDKAlbLoadBalancers rs ss k = Inr ([], [r], [])"
    and "rs = [r] \<Longrightarrow> ss = [s] \<Longrightarrow> matchResAndSDKAlbLoadBalancers rs ss k =
      (if index_str (slb_Tags s) k = alb_ID r then Inr ([(r, s)], [], []) else Inr ([], [r], [s]))"
  using assms
  by (simp_all add: matchResAndSDKAlbLoadBalancers_def mapSDKAlbLoadBalancerByResourceID_def
      mapResAlbLoadBalancerByResourceID_def match_group_last_def pair_last_def index_by_def group_by_def group_add_def
      common_keys_def keys_without_def sorted_keys_def at_key_def has_key_def)

lemma follows_LB_SetStatus: "follows (LB_SetStatus i st) []"
  unfolding LB_SetStatus_def by (rule follows_modify) simp

lemma follows_delete_lb:
  "follows (DeleteALB E C i) [(if e_IsReuseLb E then CUnReuseALB else CDeleteALB) i]"
  by (simp add: DeleteALB_def follows_invoke)

lemma follows_create_lb:
  "follows (create_lb E C r) [if e_IsReuseLb E then CReuseALB r (alb_LoadBalancerId r) else CCreateALB r]"
  by (simp add: create_lb_def CreateALB_def follows_throw follows_invoke follows_bind_silent follows_LB_SetStatus)

lemma follows_update_lb:
  "follows (update_lb C reuse p) (if reuse then [] else [CUpdateALB (fst p) (snd p)])"
  by (simp add: update_lb_def UpdateALB_def follows_return follows_invoke follows_bind_silent follows_LB_SetStatus)

lemma length_le_1_cases:
  assumes "length xs \<le> 1"
  obtains "xs = []" | x where "xs = [x]"
  using assms by (cases xs) auto

lemma lb_changes_plan:
  assumes "length rs \<le> 1" and "length ss \<le> 1"
    and tags: "list_all (\<lambda>lb. has_key (slb_Tags lb) (ResourceIDTagKey E)) ss"
    and m: "matchResAndSDKAlbLoadBalancers rs ss (ResourceIDTagKey E) = Inr (M, N, D)"
  shows "concat (map (\<lambda>x. [(if e_IsReuseLb E then CUnReuseALB else CDeleteALB) (slb_LoadBalancerId x)]) D) @
      concat (map (\<lambda>r. [if e_IsReuseLb E then CReuseALB r (alb_LoadBalancerId r) else CCreateALB r]) N) @
      concat (map (\<lambda>p. if reuse then [] else [CUpdateALB (fst p) (snd p)]) M) = lb_plan E reuse rs ss"
  using m match_lbs_small [OF tags]
  by (cases rule: length_le_1_cases [OF assms(1)]; cases rule: length_le_1_cases [OF assms(2)])
    (auto simp: lb_plan_def split: if_splits)

lemma lb_Apply_calls:
  assumes "length (as_LBs s) \<le> 1" and "a_ListALBsWithTags C (StackTags E) (fx_world s) = (Inr sdkLBs, w)"
    and "length sdkLBs \<le> 1" and tags: "list_all (\<lambda>lb. has_key (slb_Tags lb) (ResourceIDTagKey E)) sdkLBs"
    and run: "lb_Apply E C reuse s = (r, t)"
  obtains cs where "fx_calls t = fx_calls s @ CListALBsWithTags (StackTags E) # cs"
    and "prefix cs (lb_plan E reuse (as_LBs s) sdkLBs)"
    and "r = Inr () \<Longrightarrow> cs = lb_plan E reuse (as_LBs s) sdkLBs"
proof -
  obtain M N D where m: "matchResAndSDKAlbLoadBalancers (as_LBs s) sdkLBs (ResourceIDTagKey E) = Inr (M, N, D)"
    using tags by (auto simp: matchResAndSDKAlbLoadBalancers_def mapSDKAlbLoadBalancerByResourceID_def match_group_last_def)
  let ?s = "s\<lparr>fx_world := w, fx_calls := fx_calls s @ [CListALBsWithTags (StackTags E)]\<rparr>"
  let ?rest = "bindP (forP (\<lambda>sdkLB. DeleteALB E C (slb_LoadBalancerId sdkLB)) D) (\<lambda>_.
      bindP (forP (create_lb E C) N) (\<lambda>_. forP (update_lb C reuse) M))"
  have "follows ?rest (concat (map (\<lambda>x. [(if e_IsReuseLb E then CUnReuseALB else CDeleteALB) (slb_LoadBalancerId x)]) D) @
      concat (map (\<lambda>r. [if e_IsReuseLb E then CReuseALB r (alb_LoadBalancerId r) else CCreateALB r]) N) @
      concat (map (\<lambda>p. if reuse then [] else [CUpdateALB (fst p) (snd p)]) M))"
    by (intro follows_bind follows_for follows_delete_lb follows_create_lb follows_update_lb)
  also have "\<dots> = lb_plan E reuse (as_LBs s) sdkLBs"
    by (rule lb_changes_plan [OF assms(1,3) tags m])
  finally have "follows ?rest (lb_plan E reuse (as_LBs s) sdkLBs)" .
  moreover have "?rest ?s = (r, t)"
    using run assms(1-3) m
    by (simp add: lb_Apply_def findSDKAlbLoadBalancers_def prog_simps invoke_def)
  ultimately obtain ds where "fx_calls t = fx_calls ?s @ ds" "prefix ds (lb_plan E reuse (as_LBs s) sdkLBs)"
    "\<And>x. r = Inr x \<Longrightarrow> ds = lb_plan E reuse (as_LBs s) sdkLBs"
    by (rule followsD) blast
  with that [of ds] show ?thesis by simp
qed

subsection \<open>Properties\<close>

text \<open>
  (C17) For the at most one load balancer of a stack the applier sends what the pair of
  wanted and found load balancer calls for: a load balancer without a resource is deleted,
  or given back if it is the user's; a resource without a load balancer is created, or
  taken into use; a matching pair is updated, except for a reused one; and with different
  resource ids the old one goes before the new one comes.  A failing run sends a prefix.
\<close>

theorem load_balancer_requests:
  assumes "length (as_LBs s) \<le> 1" and "a_ListALBsWithTags C (StackTags E) (fx_world s) = (Inr sdkLBs, w)"
    and "length sdkLBs \<le> 1" and "list_all (\<lambda>lb. has_key (slb_Tags lb) (ResourceIDTagKey E)) sdkLBs"
    and "lb_Apply E C reuse s = (r, t)"
  shows "\<exists>cs. fx_calls t = fx_calls s @ CListALBsWithTags (StackTags E) # cs \<and>
    prefix cs (lb_plan E reuse (as_LBs s) sdkLBs) \<and> (r = Inr () \<longrightarrow> cs = lb_plan E reuse (as_LBs s) sdkLBs)"
  using lb_Apply_calls [OF assms] by metis

theorem load_balancer_requests_witness:
  "let a = \<lparr>alb_ID = ''lb'', alb_LoadBalancerId = [], alb_ForceOverride = None, alb_ListenerForceOverride = None,
         alb_Spec = (), alb_Status = None\<rparr>;
       r = lb_Apply demo_env demo_alb False (demo_alb_state\<lparr>as_LBs := [a]\<rparr>)
   in fst r = Inr () \<and> fx_calls (snd r) = [CListALBsWithTags (StackTags demo_env), CCreateALB a]"
proof -
  let ?a = "\<lparr>alb_ID = ''lb'', alb_LoadBalancerId = [], alb_ForceOverride = None, alb_ListenerForceOverride = None,
         alb_Spec = (), alb_Status = None\<rparr>"
  let ?s = "demo_alb_state\<lparr>as_LBs := [?a]\<rparr>"
  have "matchResAndSDKAlbLoadBalancers [?a] [] (ResourceIDTagKey demo_env) = Inr ([], [?a], [])" by code_simp
  then obtain t where t: "lb_Apply demo_env demo_alb False ?s = (Inr (), t)"
    by (simp add: lb_Apply_def findSDKAlbLoadBalancers_def create_lb_def CreateALB_def LB_SetStatus_def demo_alb_def demo_env_def
        prog_simps invoke_def)
  have "\<not> e_IsReuseLb demo_env" by (simp add: demo_env_def)
  with load_balancer_requests [where C = demo_alb and E = demo_env and s = ?s and sdkLBs = "[]" and w = "()", OF _ _ _ _ t] t
  show ?thesis by (simp add: demo_alb_def demo_alb_state_def lb_plan_def Let_def)
qed

end
