(* ===== verification/Albconfig_Applier.thy ===== *)
theory Albconfig_Applier
  imports Alb_Server_Groups Alb_Load_Balancers
begin

text \<open>
  The appliers put together: \<open>applier/albconfig.go\<close> runs the appliers of one stack in a
  fixed order and then their \<open>PostApply\<close>; \<open>applier/service.go\<close> brings the servers of all
  groups of a service up to date.
\<close>

subsection \<open>One stack (\<open>albconfig.go\<close>)\<close>

definition reuse_without_override :: "'x alb_env \<Rightarrow> ('x alb_lb \<Rightarrow> bool option) \<Rightarrow> 'x alb_lb list \<Rightarrow> bool" where
  "reuse_without_override E flag resLBs \<longleftrightarrow>
     e_IsReuseLb E \<and> (case resLBs of [lb] \<Rightarrow> flag lb = Some False | _ \<Rightarrow> False)"

text \<open>The first error kept for a port, in the order of the map.\<close>

definition check_errRes :: "'x alb_env \<Rightarrow> err_result \<Rightarrow> unit res" where
  "check_errRes E errRes =
     (case find (\<lambda>(_, msgs). msgs \<noteq> []) (e_rangeErrs E errRes) of
        Some _ \<Rightarrow> Inl (Errorf ''apply  failed listenerPort'') | None \<Rightarrow> Inr ())"

definition albconfig_appliers ::
  "'x alb_env \<Rightarrow> ('w, 'x) alb_cloud \<Rightarrow> bool \<Rightarrow> bool \<Rightarrow> ('w, 'x, unit) alb_prog" where
  "albconfig_appliers E C commonReuse listenerCommonReuse =
     bindP (modifyP (as_errRes_update (\<lambda>_. NewDefaultErrResult))) (\<lambda>_.
     bindP (secret_Apply E C) (\<lambda>_.
     bindP (sgp_Apply E C) (\<lambda>_.
     bindP (lb_Apply E C commonReuse) (\<lambda>_.
     bindP (listener_Apply E C commonReuse listenerCommonReuse) (\<lambda>_.
     bindP (acl_Apply E C) (\<lambda>_.
     bindP (rule_Apply E C) (\<lambda>_.
     bindP (getP as_errRes) (\<lambda>errRes. liftP (check_errRes E errRes)))))))))"

text \<open>Of the appliers only that of the server groups does anything in \<open>PostApply\<close>.\<close>

definition albconfig_Apply :: "'x alb_env \<Rightarrow> ('w, 'x) alb_cloud \<Rightarrow> ('w, 'x, unit) alb_prog" where
  "albconfig_Apply E C =
     bindP (getP as_LBs) (\<lambda>resLBs.
     if length resLBs > 1 then throwP (Errorf ''invalid res loadBalancers, at most one loadBalancer for stack'')
     else
       (let commonReuse = reuse_without_override E alb_ForceOverride resLBs;
            listenerCommonReuse = reuse_without_override E alb_ListenerForceOverride resLBs
        in if length resLBs = 0 then
             bindP (lb_Apply E C commonReuse) (\<lambda>_.
             bindP (sgp_Apply E C) (\<lambda>_.
             sgp_PostApply E C))
           else
             bindP (albconfig_appliers E C commonReuse listenerCommonReuse) (\<lambda>_.
             sgp_PostApply E C)))"

subsection \<open>The servers of a service (\<open>service.go\<close>)\<close>

text \<open>The parts of the server applier, one request each.\<close>

type_synonym server_changes = "backend_item list \<times> backend_server list"

definition server_diff ::
  "('w, 'x) alb_cloud \<Rightarrow> string \<Rightarrow> backend_item list \<Rightarrow> string \<Rightarrow> server_changes \<Rightarrow> ('w, 'x, server_changes) alb_prog" where
  "server_diff C sgpId endpoints policy _ =
     bindP (ListALBServers C sgpId) (\<lambda>servers. returnP (snd (matchEndpointWithTargets endpoints servers policy)))"

definition server_swap :: "('w, 'x) alb_cloud \<Rightarrow> string \<Rightarrow> server_changes \<Rightarrow> ('w, 'x, server_changes) alb_prog" where
  "server_swap C sgpId d =
     bindP (if small_batch (fst d) \<and> small_batch (snd d) then ReplaceALBServers C sgpId (fst d) (snd d)
            else if length (snd d) \<noteq> 0 then DeregisterALBServers C sgpId (snd d) else returnP ()) (\<lambda>_. returnP d)"

definition server_fill :: "('w, 'x) alb_cloud \<Rightarrow> string \<Rightarrow> server_changes \<Rightarrow> ('w, 'x, server_changes) alb_prog" where
  "server_fill C sgpId d =
     bindP (if \<not> (small_batch (fst d) \<and> small_batch (snd d)) \<and> length (fst d) \<noteq> 0
            then RegisterALBServers C sgpId (fst d) else returnP ()) (\<lambda>_. returnP d)"

definition server_pods :: "('w, 'x) alb_cloud \<Rightarrow> backend_item list \<Rightarrow> server_changes \<Rightarrow> ('w, 'x, server_changes) alb_prog" where
  "server_pods C endpoints d =
     bindP (if length (fst d) \<noteq> 0 then updateTargetHealthPodCondition C BuildReadinessGatePodConditionType endpoints
            else returnP ()) (\<lambda>_. returnP d)"

lemma server_Apply_parts:
  "server_Apply C sgpId endpoints policy =
     bindP (server_diff C sgpId endpoints policy ([], [])) (\<lambda>d.
     bindP (server_swap C sgpId d) (\<lambda>d.
     bindP (server_fill C sgpId d) (\<lambda>d.
     bindP (server_pods C endpoints d) (\<lambda>_. returnP ()))))"
  by (rule ext)
    (auto simp: server_Apply_def server_diff_def server_swap_def server_fill_def server_pods_def small_batch_def prog_simps
      split: prod.splits sum.splits)

definition server_thread ::
  "('w, 'x) alb_cloud \<Rightarrow> string \<Rightarrow> service_sgp \<times> 'x sdk_sgp \<Rightarrow> (('w, 'x) alb_state, server_changes res) thread" where
  "server_thread C policy p =
     (let sgpId = ssg_ServerGroupId (snd p); endpoints = sv_Backends (fst p)
      in (Inr ([], []),
          [partP (server_diff C sgpId endpoints policy), partP (server_swap C sgpId), partP (server_fill C sgpId),
           partP (server_pods C endpoints), keep_first_error]))"

definition service_tag_filters :: "service_manager \<Rightarrow> smap" where
  "service_tag_filters sm =
     [(ClusterNameTagKey, sm_ClusterID sm),
      (''ingress.k8s.alibaba/service_ns'', AvoidTagValueKeyword (sm_Namespace sm)),
      (''ingress.k8s.alibaba/service_name'', AvoidTagValueKeyword (sm_Name sm))]"

definition serviceStack_Apply ::
  "('w, 'x) alb_cloud \<Rightarrow> service_manager \<Rightarrow> ('w, 'x, (service_sgp \<times> 'x sdk_sgp) list) alb_prog" where
  "serviceStack_Apply C sm =
     (let wanted = transServiceStackToServerGroupsWithNameKey sm; tags = service_tag_filters sm
      in bindP (invoke (CListALBServerGroupsWithTags tags) (a_ListALBServerGroupsWithTags C tags)) (\<lambda>found.
         returnP (fst (matchResAndSDKServerGroups wanted found))))"

definition service_Apply :: "'x alb_env \<Rightarrow> ('w, 'x) alb_cloud \<Rightarrow> service_manager \<Rightarrow> ('w, 'x, unit) alb_prog" where
  "service_Apply E C sm =
     bindP (serviceStack_Apply C sm) (\<lambda>matchedResAndSDKSGPs.
     bindP (modifyP (as_errApply_update (\<lambda>_. None))) (\<lambda>_.
     bindP (goP (e_sched E 10) ServerGroupConcurrentNum (server_thread C (sm_TrafficPolicy sm)) matchedResAndSDKSGPs) (\<lambda>_.
     bindP (getP as_errApply) (\<lambda>err. case err of Some e \<Rightarrow> throwP e | None \<Rightarrow> returnP ()))))"

subsection \<open>Deletion of server groups comes last\<close>

definition deletes_group :: "string \<Rightarrow> 'x alb_call \<Rightarrow> bool" where
  "deletes_group i c \<longleftrightarrow> c = CDeleteALBServerGroup i"

text \<open>The invariant of the log: group \<open>i\<close> has not been deleted.\<close>

definition group_kept :: "string \<Rightarrow> ('w, 'x) alb_state \<Rightarrow> bool" where
  "group_kept i s \<longleftrightarrow> CDeleteALBServerGroup i \<notin> set (fx_calls s)"

lemma keeps_only_calls:
  assumes "only_calls (\<lambda>c. c \<noteq> CDeleteALBServerGroup i) m"
  shows "keeps (group_kept i) m"
  using assms unfolding emits_def keeps_def group_kept_def by (metis Un_iff set_append)

lemma only_modify: "(\<And>s. fx_calls (f s) = fx_calls s) \<Longrightarrow> only_calls P (modifyP f)"
  by (auto simp: emits_def modifyP_def)

lemma only_get: "only_calls P (getP f)"
  by (auto simp: emits_def getP_def)

lemma only_call2: "P c \<Longrightarrow> only_calls P (call2 c f)"
  by (auto simp: emits_def call2_def invoke_def split: prod.splits)

lemma only_resolve: "only_calls P (resolve_all tok xs)"
  by (auto simp: emits_def resolve_all_def)

lemmas only_intros = emits_intros only_modify only_get only_call2 only_resolve goP_only_calls

lemma pods_keep_groups: "only_calls (\<lambda>c. c \<noteq> CDeleteALBServerGroup i) (updateTargetHealthPodCondition C ty bs)"
  by (rule only_weaken [OF update_pods_calls]) auto

lemma create_sgp_thread_keeps:
  fixes C :: "('w, 'x) alb_cloud"
  assumes new: "\<And>g w. fst (fst (a_CreateALBServerGroup C g w)) \<noteq> i"
  shows "thread_keeps (group_kept i) (fst (create_sgp_thread C g)) (snd (create_sgp_thread C g))"
proof -
  let ?fs = "[create_sgp_check g, sgp_build C g, sgp_register C, sgp_pods C, sgp_rollback C, sgp_keep_error]"
  have "thread_keeps (group_kept i) l ?fs" if "sl_ServerGroupID l \<noteq> i" for l
  proof (rule thread_keeps_inv [where J = "\<lambda>l. sl_ServerGroupID l \<noteq> i"])
    show "sl_ServerGroupID l \<noteq> i" by (rule that)
    show "keeps (group_kept i) (f l)" if "f \<in> set ?fs" "sl_ServerGroupID l \<noteq> i" for f l
      using that
      by (auto simp: create_sgp_check_def sgp_build_def sgp_register_def sgp_pods_def sgp_rollback_def sgp_keep_error_def
          SGP_SetStatus_def BuildServicePortSDKBackends_def RegisterALBServers_def
          intro!: keeps_only_calls only_intros pods_keep_groups split: option.splits prod.splits)
    show "sl_ServerGroupID l' \<noteq> i"
      if "f \<in> set ?fs" "sl_ServerGroupID l \<noteq> i" "f l s = (Inr (Some l'), t)" for f l s l' t
      using that
      by (auto simp: create_sgp_check_def sgp_build_def sgp_register_def sgp_pods_def sgp_rollback_def sgp_keep_error_def
          prog_simps SGP_SetStatus_def split: option.splits prod.splits sum.splits if_splits)
  qed
  moreover have "sl_ServerGroupID l' \<noteq> i" if "create_sgp_call C g l s = (Inr (Some l'), t)" for l s l' t
    using that new [of g "fx_world s"]
    by (auto simp: create_sgp_call_def bindP_def call2_def invoke_def returnP_def split: prod.splits)
  moreover have "keeps (group_kept i) (create_sgp_call C g l)" for l
    unfolding create_sgp_call_def by (intro keeps_only_calls only_intros) (auto intro!: only_intros)
  ultimately show ?thesis
    unfolding create_sgp_thread_def fst_conv snd_conv thread_keeps.simps(2) [of _ _ "create_sgp_call C g"] by blast
qed

lemma update_sgp_keeps:
  "f \<in> set (snd (update_sgp_thread C p)) \<Longrightarrow> only_calls (\<lambda>c. c \<noteq> CDeleteALBServerGroup i) (f l)"
  by (auto simp: update_sgp_thread_def update_sgp_call_def update_sgp_check_def sgp_find_gone_def sgp_list_def
      sgp_deregister_def sgp_keep_removal_error_def SGP_SetStatus_def BuildServicePortSDKBackends_def ListALBServers_def
      DeregisterALBServers_def intro!: only_intros split: option.splits prod.splits)

lemma part_only: "(\<And>d. only_calls P (f d)) \<Longrightarrow> only_calls P (partP f l)"
  by (auto simp: partP_def intro!: only_intros split: sum.splits)

lemma keep_first_error_only: "only_calls P (keep_first_error l)"
  by (auto simp: keep_first_error_def intro!: only_intros split: option.splits sum.splits)

lemma secret_keeps: "only_calls (\<lambda>c. c \<noteq> CDeleteALBServerGroup i) (secret_Apply E C)"
  by (auto simp: secret_Apply_def create_cert_thread_def update_cert_thread_def Cert_SetStatus_def
      intro!: only_intros split: option.splits prod.splits)

lemma lb_keeps: "only_calls (\<lambda>c. c \<noteq> CDeleteALBServerGroup i) (lb_Apply E C reuse)"
  by (auto simp: lb_Apply_def findSDKAlbLoadBalancers_def DeleteALB_def create_lb_def CreateALB_def update_lb_def UpdateALB_def
      LB_SetStatus_def intro!: only_intros split: option.splits prod.splits)

lemma listener_keeps: "only_calls (\<lambda>c. c \<noteq> CDeleteALBServerGroup i) (listener_Apply E C reuse lreuse)"
  by (auto simp: listener_Apply_def mapResListenerByAlbLoadBalancerID_def applyListenersOnLB_def findSDKListenersOnLB_def
      apply_listener_changes_def create_listener_thread_def update_listener_thread_def delete_listener_thread_def
      LS_SetStatus_def Let_def intro!: only_intros split: option.splits prod.splits list.splits)

lemma rule_keeps: "only_calls (\<lambda>c. c \<noteq> CDeleteALBServerGroup i) (rule_Apply E C)"
  by (auto simp: rule_Apply_def mapResListenerRuleByListenerID_def rule_thread_def rules_match_def rules_create_def
      rules_update_def rules_delete_def findSDKListenersRulesOnLS_def LR_SetStatus_def Let_def
      intro!: only_intros part_only keep_first_error_only split: option.splits prod.splits)

lemma acl_keeps: "only_calls (\<lambda>c. c \<noteq> CDeleteALBServerGroup i) (acl_Apply E C)"
  by (auto simp: acl_Apply_def mapResAclByListenerID_def acl_thread_def acl_read_def acl_first_def acl_second_def
      acl_associate_def acl_list_def findListenerAclConfig_def findSDKAclsOnLS_def createAndUpdateMatchedAcl_def
      create_acl_def update_acl_def Acl_SetStatus_def Let_def
      intro!: only_intros part_only keep_first_error_only split: option.splits prod.splits acl_work.splits)

lemma keeps_update: "(\<And>s. fx_calls (f s) = fx_calls s) \<Longrightarrow> keeps (group_kept i) (modifyP f)"
  by (rule keeps_modify) (simp add: group_kept_def)

lemma keeps_find_groups: "keeps (group_kept i) (findSDKServerGroups E C)"
  unfolding findSDKServerGroups_def by (intro keeps_only_calls only_intros) auto

lemma sgp_keeps:
  fixes C :: "('w, 'x) alb_cloud"
  assumes "\<And>g w. fst (fst (a_CreateALBServerGroup C g w)) \<noteq> i"
  shows "keeps (group_kept i) (sgp_Apply E C)"
proof -
  have create: "keeps (group_kept i) (goP sched limit (create_sgp_thread C) xs)" for sched limit xs
    unfolding keeps_def
  proof (intro allI impI)
    fix s :: "('w, 'x) alb_state" assume "group_kept i s"
    then show "group_kept i (snd (goP sched limit (create_sgp_thread C) xs s))"
      by (rule goP_thread_keeps [OF create_sgp_thread_keeps [OF assms] _ surjective_pairing])
  qed
  have update: "keeps (group_kept i) (goP sched limit (update_sgp_thread C) xs)" for sched limit xs
    by (rule goP_keeps) (blast intro: keeps_only_calls update_sgp_keeps)
  show ?thesis
    unfolding sgp_Apply_def
    by (intro keeps_parts keeps_update keeps_find_groups create update) simp_all
qed

lemma appliers_keep:
  assumes "\<And>g w. fst (fst (a_CreateALBServerGroup C g w)) \<noteq> i"
  shows "keeps (group_kept i) (albconfig_appliers E C reuse lreuse)"
  unfolding albconfig_appliers_def
  by (intro keeps_bind keeps_get keeps_lift sgp_keeps [OF assms] keeps_only_calls [OF secret_keeps] keeps_only_calls [OF lb_keeps]
      keeps_only_calls [OF listener_keeps] keeps_only_calls [OF acl_keeps] keeps_only_calls [OF rule_keeps])
    (auto intro!: keeps_modify simp: group_kept_def)

lemma delete_sgp_pool_makes:
  "makes (goP sched limit (delete_sgp_thread C) gs) (mset (map (\<lambda>g. CDeleteALBServerGroup (ssg_ServerGroupId g)) gs))"
proof (unfold sum_singletons [symmetric], rule goP_makes)
  show "thread_makes (fst (delete_sgp_thread C g)) (snd (delete_sgp_thread C g))
      {#CDeleteALBServerGroup (ssg_ServerGroupId g)#}" for g
    unfolding delete_sgp_thread_def fst_conv snd_conv
    by (intro thread_makes_two makes_bind_return makes_call2)
      (auto intro!: makes_silent simp: bindP_def modifyP_def returnP_def split: prod.splits option.splits)
qed

lemma delete_sgp_pool_ends: "fst (goP sched limit (delete_sgp_thread C) gs s) = Inr ()"
  by (rule goP_ends) (auto simp: delete_sgp_thread_def call2_def invoke_def
      bindP_def modifyP_def returnP_def split: prod.splits)

lemma PostApply_calls:
  assumes "sgp_PostApply E C s = (r, t)"
  obtains cs where "fx_calls t = fx_calls s @ cs"
    and "mset cs = mset (map (\<lambda>g. CDeleteALBServerGroup (ssg_ServerGroupId g)) (as_unmatchedSDKSGPs s))"
proof -
  let ?s = "s\<lparr>as_errDelete := None\<rparr>"
  obtain u cs where u: "goP (e_sched E 9) ServerGroupConcurrentNum (delete_sgp_thread C) (as_unmatchedSDKSGPs s) ?s = (Inr (), u)"
    "fx_calls u = fx_calls ?s @ cs" "mset cs = mset (map (\<lambda>g. CDeleteALBServerGroup (ssg_ServerGroupId g)) (as_unmatchedSDKSGPs s))"
    using pool_calls [OF delete_sgp_pool_makes delete_sgp_pool_ends] by blast
  then have "t = u" using assms by (auto simp: sgp_PostApply_def prog_simps split: option.splits)
  with u that show ?thesis by simp
qed

lemma deleted_after_appliers:
  assumes lb: "as_LBs s = [lb]" and "group_kept i s"
    and new: "\<And>g w. fst (fst (a_CreateALBServerGroup C g w)) \<noteq> i"
    and run: "albconfig_Apply E C s = (r, t)" and del: "CDeleteALBServerGroup i \<in> set (fx_calls t)"
  shows "\<exists>u. albconfig_appliers E C (reuse_without_override E alb_ForceOverride [lb])
      (reuse_without_override E alb_ListenerForceOverride [lb]) s = (Inr (), u) \<and>
    CDeleteALBServerGroup i \<notin> set (fx_calls u) \<and> i \<in> ssg_ServerGroupId ` set (as_unmatchedSDKSGPs u)"
proof -
  let ?A = "albconfig_appliers E C (reuse_without_override E alb_ForceOverride [lb])
      (reuse_without_override E alb_ListenerForceOverride [lb])"
  obtain q u where u: "?A s = (q, u)" by (cases "?A s")
  have kept: "CDeleteALBServerGroup i \<notin> set (fx_calls u)"
    using keepsD [OF appliers_keep [OF new] u assms(2)] by (simp add: group_kept_def)
  show ?thesis
  proof (cases q)
    case (Inl e)
    with run lb u have "t = u" by (simp add: albconfig_Apply_def prog_simps Let_def)
    with del kept show ?thesis by blast
  next
    case (Inr x)
    with run lb u have "sgp_PostApply E C u = (r, t)" by (simp add: albconfig_Apply_def prog_simps Let_def)
    then obtain cs where cs: "fx_calls t = fx_calls u @ cs"
      "mset cs = mset (map (\<lambda>g. CDeleteALBServerGroup (ssg_ServerGroupId g)) (as_unmatchedSDKSGPs u))"
      by (rule PostApply_calls)
    with del kept have "CDeleteALBServerGroup i \<in> set cs" by simp
    also have "set cs = set (map (\<lambda>g. CDeleteALBServerGroup (ssg_ServerGroupId g)) (as_unmatchedSDKSGPs u))"
      by (rule mset_eq_setD [OF cs(2)])
    finally have "i \<in> ssg_ServerGroupId ` set (as_unmatchedSDKSGPs u)" by auto
    with u Inr kept show ?thesis by auto
  qed
qed

subsection \<open>Properties\<close>



end
