(* ===== verification/Ingress_Annotations.thy ===== *)
theory Ingress_Annotations
  imports K8s_Helper
begin

text \<open>
  Ingresses as the controller reads them and the annotation readers of
  \<open>ingress/reconcile/annotations/annotations.go\<close>: the lookup functions that trim the value
  and refuse an empty one, and the parser by suffix with its typed variants.
\<close>

subsection \<open>Ingresses\<close>

record ingress_service =
  isv_Name :: string
  isv_PortName :: string
  isv_PortNumber :: int

record ingress_path =
  ipt_Path :: string
  ipt_PathType :: "string option"
  ipt_Service :: "ingress_service option"

record ingress_rule =
  irl_Host :: string
  irl_HTTP :: "ingress_path list option"

record ingress_tls =
  tls_Hosts :: "string list"
  tls_SecretName :: string

record ingress =
  igs_Namespace :: string
  igs_Name :: string
  igs_Labels :: smap
  igs_Annotations :: smap
  igs_Finalizers :: "string list"
  igs_Deleted :: bool
  igs_ClassName :: "string option"
  igs_Rules :: "ingress_rule list"
  igs_TLS :: "ingress_tls list"

definition empty_ingress :: ingress where
  "empty_ingress = \<lparr>igs_Namespace = [], igs_Name = [], igs_Labels = [], igs_Annotations = [], igs_Finalizers = [],
     igs_Deleted = False, igs_ClassName = None, igs_Rules = [], igs_TLS = []\<rparr>"

text \<open>\<open>path.Backend.Service\<close> is a pointer; a backend that is not a service has none.\<close>

definition backend_service :: "ingress_path \<Rightarrow> ingress_service res" where
  "backend_service p = deref (ipt_Service p)"

subsection \<open>Lookup with trimming\<close>

definition normalizeString :: "string \<Rightarrow> string" where
  "normalizeString input = Join (map TrimSpace (Split input [CHR 0x0A])) [CHR 0x0A]"

definition ErrMissingAnnotations :: go_error where
  "ErrMissingAnnotations = Errorf ''ingress rule without annotations''"

definition parseString :: "smap \<Rightarrow> string \<Rightarrow> string res" where
  "parseString a name =
     (case map_of a name of
        Some val \<Rightarrow>
          (let s = normalizeString val
           in if length s = 0 then Inl (Errorf ''the annotation does not contain a valid value'') else Inr s)
      | None \<Rightarrow> Inl ErrMissingAnnotations)"

definition checkAnnotation :: "string \<Rightarrow> ingress \<Rightarrow> unit res" where
  "checkAnnotation name ing =
     (if length (igs_Annotations ing) = 0 then Inl ErrMissingAnnotations
      else if name = [] then Inl (Errorf ''invalid annotation name'')
      else Inr ())"

definition GetStringAnnotation :: "string \<Rightarrow> ingress \<Rightarrow> string res" where
  "GetStringAnnotation name ing =
     bind_res (checkAnnotation name ing) (\<lambda>_. parseString (igs_Annotations ing) name)"

text \<open>The form \<open>v, _ := GetStringAnnotation(...)\<close>.\<close>

definition string_annotation :: "string \<Rightarrow> ingress \<Rightarrow> string" where
  "string_annotation name ing = (case GetStringAnnotation name ing of Inl _ \<Rightarrow> [] | Inr v \<Rightarrow> v)"

definition GetStringAnnotationMutil :: "string \<Rightarrow> string \<Rightarrow> ingress \<Rightarrow> string" where
  "GetStringAnnotationMutil name name1 ing =
     (case map_of (igs_Annotations ing) name of
        Some val \<Rightarrow> val
      | None \<Rightarrow> (case map_of (igs_Annotations ing) name1 of Some val \<Rightarrow> val | None \<Rightarrow> []))"

subsection \<open>Names\<close>

definition alb_annotation :: "string \<Rightarrow> string" where
  "alb_annotation sfx = ''alb.ingress.kubernetes.io/'' @ sfx"

definition nginx_annotation :: "string \<Rightarrow> string" where
  "nginx_annotation sfx = ''nginx.ingress.kubernetes.io/'' @ sfx"

text \<open>An annotation that exists under both prefixes; the nginx one comes first.\<close>

definition both_annotation :: "string \<Rightarrow> ingress \<Rightarrow> string" where
  "both_annotation sfx ing = GetStringAnnotationMutil (nginx_annotation sfx) (alb_annotation sfx) ing"

subsection \<open>The parser by suffix\<close>

record parse_options =
  po_exact :: bool
  po_alternativePrefixes :: "string list"

definition buildAnnotationKeys :: "string \<Rightarrow> string \<Rightarrow> parse_options \<Rightarrow> string list" where
  "buildAnnotationKeys annotationPrefix sfx opts =
     (if po_exact opts then [sfx]
      else (annotationPrefix @ ''/'' @ sfx) # map (\<lambda>pfx. pfx @ ''/'' @ sfx) (po_alternativePrefixes opts))"

text \<open>The first key that is present, with its value.\<close>

definition parseStringAnnotation ::
  "string \<Rightarrow> string \<Rightarrow> parse_options \<Rightarrow> smap \<Rightarrow> (string \<times> string) option" where
  "parseStringAnnotation annotationPrefix sfx opts annos =
     (case List.find (has_key annos) (buildAnnotationKeys annotationPrefix sfx opts) of
        Some key \<Rightarrow> Some (key, index_str annos key) | None \<Rightarrow> None)"

definition ParseStringAnnotation :: "string \<Rightarrow> string \<Rightarrow> parse_options \<Rightarrow> smap \<Rightarrow> string option" where
  "ParseStringAnnotation annotationPrefix sfx opts annos =
     map_option snd (parseStringAnnotation annotationPrefix sfx opts annos)"

definition ParseBool :: "string \<Rightarrow> bool res" where
  "ParseBool s =
     (if s \<in> set [''1'', ''t'', ''T'', ''true'', ''TRUE'', ''True''] then Inr True
      else if s \<in> set [''0'', ''f'', ''F'', ''false'', ''FALSE'', ''False''] then Inr False
      else Inl (Errorf ''strconv.ParseBool: invalid syntax''))"

text \<open>\<open>strconv.ParseInt(s, 10, 64)\<close> accepts what \<open>Atoi\<close> accepts.\<close>

definition ParseInt64 :: "string \<Rightarrow> int res" where
  "ParseInt64 s = Atoi s"

text \<open>The result is \<open>None\<close> when the annotation is absent; a value is written only if it parses.\<close>

definition ParseBoolAnnotation :: "string \<Rightarrow> string \<Rightarrow> parse_options \<Rightarrow> smap \<Rightarrow> bool option res" where
  "ParseBoolAnnotation annotationPrefix sfx opts annos =
     (case ParseStringAnnotation annotationPrefix sfx opts annos of
        None \<Rightarrow> Inr None
      | Some raw \<Rightarrow> bind_res (wrap_res ''failed to parse bool annotation: '' (ParseBool raw)) (\<lambda>v. Inr (Some v)))"

definition ParseInt64Annotation :: "string \<Rightarrow> string \<Rightarrow> parse_options \<Rightarrow> smap \<Rightarrow> int option res" where
  "ParseInt64Annotation annotationPrefix sfx opts annos =
     (case ParseStringAnnotation annotationPrefix sfx opts annos of
        None \<Rightarrow> Inr None
      | Some raw \<Rightarrow> bind_res (wrap_res ''failed to parse int64 annotation: '' (ParseInt64 raw)) (\<lambda>v. Inr (Some v)))"

definition splitCommaSeparatedString :: "string \<Rightarrow> string list" where
  "splitCommaSeparatedString s = filter (\<lambda>p. length p \<noteq> 0) (map TrimSpace (Split s '',''))"

definition ParseStringSliceAnnotation :: "string \<Rightarrow> string \<Rightarrow> parse_options \<Rightarrow> smap \<Rightarrow> string list option" where
  "ParseStringSliceAnnotation annotationPrefix sfx opts annos =
     map_option splitCommaSeparatedString (ParseStringAnnotation annotationPrefix sfx opts annos)"

text \<open>\<open>strings.SplitN(s, "=", 2)\<close>.\<close>

definition split_once :: "string \<Rightarrow> string list" where
  "split_once s =
     (let k = takeWhile (\<lambda>c. c \<noteq> CHR ''='') s
      in if k = s then [s] else [k, drop (Suc (length k)) s])"

definition string_map_pair :: "string \<Rightarrow> smap \<Rightarrow> smap res" where
  "string_map_pair kvPair m =
     (case split_once kvPair of
        [key, val] \<Rightarrow>
          if length key = 0 then Inl (Errorf ''failed to parse stringMap annotation'') else Inr (map_set key val m)
      | _ \<Rightarrow> Inl (Errorf ''failed to parse stringMap annotation''))"

primrec fold_res :: "('a \<Rightarrow> 'b \<Rightarrow> 'b res) \<Rightarrow> 'a list \<Rightarrow> 'b \<Rightarrow> 'b res" where
  "fold_res f [] b = Inr b"
| "fold_res f (x # xs) b = bind_res (f x b) (fold_res f xs)"

definition ParseStringMapAnnotation :: "string \<Rightarrow> string \<Rightarrow> parse_options \<Rightarrow> smap \<Rightarrow> smap option res" where
  "ParseStringMapAnnotation annotationPrefix sfx opts annos =
     (case ParseStringAnnotation annotationPrefix sfx opts annos of
        None \<Rightarrow> Inr None
      | Some raw \<Rightarrow>
          bind_res (fold_res string_map_pair (splitCommaSeparatedString raw) []) (\<lambda>m. Inr (Some m)))"

definition ParseJSONAnnotation ::
  "(string \<Rightarrow> 'a res) \<Rightarrow> string \<Rightarrow> string \<Rightarrow> parse_options \<Rightarrow> smap \<Rightarrow> 'a option res" where
  "ParseJSONAnnotation Unmarshal annotationPrefix sfx opts annos =
     (case ParseStringAnnotation annotationPrefix sfx opts annos of
        None \<Rightarrow> Inr None
      | Some raw \<Rightarrow> bind_res (wrap_res ''failed to parse json annotation: '' (Unmarshal raw)) (\<lambda>v. Inr (Some v)))"

subsection \<open>Lemmas\<close>

lemma fold_res_append:
  "fold_res f (xs @ ys) b = bind_res (fold_res f xs b) (fold_res f ys)"
  by (induction xs arbitrary: b) (auto simp: bind_res_def split: sum.splits)

lemma split_once_pair: "CHR ''='' \<notin> set k \<Longrightarrow> split_once (k @ CHR ''='' # v) = [k, v]"
proof -
  assume "CHR ''='' \<notin> set k"
  then have "takeWhile (\<lambda>c. c \<noteq> CHR ''='') (k @ CHR ''='' # v) = k"
    by (subst takeWhile_append2) auto
  then show ?thesis by (simp add: split_once_def Let_def)
qed

text \<open>A string map as an annotation value, and the strings that survive it.\<close>

definition print_string_map :: "smap \<Rightarrow> string" where
  "print_string_map m = Join (map (\<lambda>(k, v). k @ ''='' @ v) m) '',''"

definition plain :: "string \<Rightarrow> bool" where
  "plain s \<longleftrightarrow> CHR '','' \<notin> set s \<and> list_all (\<lambda>c. \<not> is_space c) s"

lemma TrimSpace_plain: "list_all (\<lambda>c. \<not> is_space c) s \<Longrightarrow> TrimSpace s = s"
proof -
  assume "list_all (\<lambda>c. \<not> is_space c) s"
  moreover have "dropWhile is_space xs = xs" if "list_all (\<lambda>c. \<not> is_space c) xs" for xs
    using that by (cases xs) auto
  ultimately show ?thesis by (simp add: TrimSpace_def list_all_rev)
qed

lemma split_print_string_map:
  assumes "\<And>k v. (k, v) \<in> set m \<Longrightarrow> plain k \<and> plain v" and "m \<noteq> []"
  shows "splitCommaSeparatedString (print_string_map m) = map (\<lambda>(k, v). k @ ''='' @ v) m"
proof -
  let ?ps = "map (\<lambda>(k, v). k @ ''='' @ v) m"
  have pl: "plain p" if "p \<in> set ?ps" for p
    using that assms(1) by (auto simp: plain_def is_space_def)
  have "Split (print_string_map m) '','' = ?ps"
    unfolding print_string_map_def using pl assms(2) by (intro Split_Join1) (auto simp: plain_def)
  moreover have "map TrimSpace ?ps = ?ps"
    by (rule map_idI) (use pl in \<open>simp add: plain_def TrimSpace_plain\<close>)
  moreover have "filter (\<lambda>p. length p \<noteq> 0) ?ps = ?ps" by (auto simp: filter_id_conv)
  ultimately show ?thesis unfolding splitCommaSeparatedString_def by metis
qed

lemma string_map_pair_print:
  "plain k \<Longrightarrow> k \<noteq> [] \<Longrightarrow> CHR ''='' \<notin> set k \<Longrightarrow> string_map_pair (k @ ''='' @ v) m = Inr (map_set k v m)"
  by (simp add: string_map_pair_def split_once_pair)

lemma fold_string_map_pair:
  assumes "\<And>k v. (k, v) \<in> set m \<Longrightarrow> plain k \<and> k \<noteq> [] \<and> CHR ''='' \<notin> set k"
  shows "fold_res string_map_pair (map (\<lambda>(k, v). k @ ''='' @ v) m) acc = Inr (fold (\<lambda>(k, v). map_set k v) m acc)"
  using assms
proof (induction m arbitrary: acc)
  case (Cons p m)
  obtain k v where p: "p = (k, v)" by (cases p)
  with Cons.prems have "string_map_pair (k @ ''='' @ v) acc = Inr (map_set k v acc)"
    by (intro string_map_pair_print) auto
  moreover have "fold_res string_map_pair (map (\<lambda>(k, v). k @ ''='' @ v) m) acc = Inr (fold (\<lambda>(k, v). map_set k v) m acc)" for acc
    by (rule Cons.IH) (meson Cons.prems list.set_intros(2))
  ultimately show ?case by (simp add: p)
qed simp

lemma map_of_fold_map_set:
  "map_of (fold (\<lambda>(k, v). map_set k v) m acc) = map_of acc ++ map_of (rev m)"
  by (induction m arbitrary: acc) (auto simp: map_of_map_set map_add_def fun_eq_iff split: option.splits)

lemma map_of_rev_wf: "smap_wf m \<Longrightarrow> map_of (rev m) = map_of m"
  by (rule map_of_eqI) (auto simp: smap_wf_def map_of_eq_Some_iff rev_map [symmetric])

subsection \<open>Properties\<close>

text \<open>
  A string map that is written as \<open>k1=v1,k2=v2\<close> into the annotation of the prefix is
  read back as the same map, whatever alternative prefixes the parser knows.
\<close>

theorem string_map_annotation_round_trip:
  assumes "smap_wf m" and "m \<noteq> []" and "\<not> po_exact opts"
    and "\<And>k v. (k, v) \<in> set m \<Longrightarrow> plain k \<and> k \<noteq> [] \<and> CHR ''='' \<notin> set k \<and> plain v"
    and "map_of annos (pfx @ ''/'' @ sfx) = Some (print_string_map m)"
  shows "\<exists>r. ParseStringMapAnnotation pfx sfx opts annos = Inr (Some r) \<and> map_of r = map_of m"
proof -
  have "ParseStringAnnotation pfx sfx opts annos = Some (print_string_map m)"
    using assms(3,5)
    by (simp add: ParseStringAnnotation_def parseStringAnnotation_def buildAnnotationKeys_def has_key_map_of index_str_def)
  moreover have "splitCommaSeparatedString (print_string_map m) = map (\<lambda>(k, v). k @ ''='' @ v) m"
    using assms(2,4) by (intro split_print_string_map) auto
  moreover have "fold_res string_map_pair (map (\<lambda>(k, v). k @ ''='' @ v) m) [] = Inr (fold (\<lambda>(k, v). map_set k v) m [])"
    using assms(4) by (intro fold_string_map_pair) blast
  ultimately show ?thesis
    using map_of_fold_map_set [of m "[]"] map_of_rev_wf [OF assms(1)]
    by (simp add: ParseStringMapAnnotation_def)
qed

theorem string_map_annotation_round_trip_witness:
  "\<exists>r. ParseStringMapAnnotation ''p'' ''s'' \<lparr>po_exact = False, po_alternativePrefixes = [''q'']\<rparr> [(''p/s'', ''a=1,b=x=y'')] = Inr (Some r) \<and>
    map_of r = map_of [(''a'', ''1''), (''b'', ''x=y'')]"
proof -
  let ?m = "[(''a'', ''1''), (''b'', ''x=y'')]"
  have "smap_wf ?m" by (simp add: smap_wf_def)
  moreover have "plain k \<and> k \<noteq> [] \<and> CHR ''='' \<notin> set k \<and> plain v" if "(k, v) \<in> set ?m" for k v
    using that by (auto simp: plain_def is_space_def)
  moreover have "map_of [(''p/s'', ''a=1,b=x=y'')] (''p'' @ ''/'' @ ''s'') = Some (print_string_map ?m)"
    by (simp add: print_string_map_def)
  ultimately show ?thesis
    using string_map_annotation_round_trip [of ?m "\<lparr>po_exact = False, po_alternativePrefixes = [''q'']\<rparr>" "[(''p/s'', ''a=1,b=x=y'')]" "''p''" "''s''"]
    by simp
qed

end
