(* ===== verification/Alb_Specs.thy ===== *)
theory Alb_Specs
  imports Alb_Model Ingress_Annotations
begin

text \<open>
  The contents of the resources the ingress model builder makes (\<open>pkg/model/alb/alb.go\<close>), the
  configuration types of the annotations (\<open>configcache/config_types.go\<close>), and the AlbConfig
  the builder starts from (\<open>apis/alibabacloud/v1/albconfig_types.go\<close>).  Fields that the
  builder never writes (ids and states that only the cloud fills in) are left out.
\<close>

subsection \<open>Actions and conditions\<close>

record server_group_tuple =
  sgt_ServerGroupID :: "id_token option"
  sgt_ServiceName :: string
  sgt_ServicePort :: int
  sgt_Weight :: int

record fixed_response_config =
  fr_Content :: string
  fr_ContentType :: string
  fr_HttpCode :: string

record redirect_config =
  rd_Host :: string
  rd_HttpCode :: string
  rd_Path :: string
  rd_Port :: string
  rd_Protocol :: string
  rd_Query :: string

record insert_header_config =
  ih_CoverEnabled :: bool
  ih_Key :: string
  ih_Value :: string
  ih_ValueType :: string

record rewrite_config =
  rw_Host :: string
  rw_Path :: string
  rw_Query :: string

record mirror_tuple =
  mt_ServerGroupID :: string
  mt_ServiceName :: string
  mt_ServicePort :: int
  mt_Weight :: int

record traffic_mirror_config =
  tm_TargetType :: string
  tm_ServerGroupTuples :: "mirror_tuple list"

record traffic_limit_config =
  tl_QPS :: int
  tl_PerIpQps :: int

record cors_config =
  co_AllowCredentials :: string
  co_MaxAge :: string
  co_AllowOrigin :: "string list"
  co_AllowMethods :: "string list"
  co_AllowHeaders :: "string list"
  co_ExposeHeaders :: "string list"

record alb_action =
  act_Type :: string
  act_ForwardConfig :: "server_group_tuple list option"
  act_FixedResponseConfig :: "fixed_response_config option"
  act_RedirectConfig :: "redirect_config option"
  act_InsertHeaderConfig :: "insert_header_config option"
  act_RemoveHeaderConfig :: "string option"
  act_RewriteConfig :: "rewrite_config option"
  act_TrafficMirrorConfig :: "traffic_mirror_config option"
  act_TrafficLimitConfig :: "traffic_limit_config option"
  act_CorsConfig :: "cors_config option"

definition zero_action :: alb_action where
  "zero_action = \<lparr>act_Type = [], act_ForwardConfig = None, act_FixedResponseConfig = None, act_RedirectConfig = None,
     act_InsertHeaderConfig = None, act_RemoveHeaderConfig = None, act_RewriteConfig = None,
     act_TrafficMirrorConfig = None, act_TrafficLimitConfig = None, act_CorsConfig = None\<rparr>"

record alb_condition =
  cnd_Type :: string
  cnd_Cookie :: "(string \<times> string) list"
  cnd_Header :: "string \<times> string list"
  cnd_Host :: "string list"
  cnd_Method :: "string list"
  cnd_Path :: "string list"
  cnd_QueryString :: "(string \<times> string) list"
  cnd_SourceIp :: "string list"
  cnd_ResponseStatusCode :: "string list"
  cnd_ResponseHeader :: "string \<times> string list"

definition zero_condition :: alb_condition where
  "zero_condition = \<lparr>cnd_Type = [], cnd_Cookie = [], cnd_Header = ([], []), cnd_Host = [], cnd_Method = [], cnd_Path = [],
     cnd_QueryString = [], cnd_SourceIp = [], cnd_ResponseStatusCode = [], cnd_ResponseHeader = ([], [])\<rparr>"

text \<open>
  The actions of an annotation: a forward tuple names a server group or a service, and the
  limits are strings.  The conditions of an annotation have the shape of \<open>alb_condition\<close>.
\<close>

record cfg_tuple =
  ct_ServerGroupID :: string
  ct_ServiceName :: string
  ct_ServicePort :: int
  ct_Weight :: int

record cfg_action =
  ca_Type :: string
  ca_ForwardConfig :: "cfg_tuple list option"
  ca_FixedResponseConfig :: "fixed_response_config option"
  ca_RedirectConfig :: "redirect_config option"
  ca_InsertHeaderConfig :: "insert_header_config option"
  ca_RemoveHeaderConfig :: "string option"
  ca_RewriteConfig :: "rewrite_config option"
  ca_TrafficMirrorConfig :: "traffic_mirror_config option"
  ca_TrafficLimitConfig :: "(string \<times> string) option"

definition zero_cfg_action :: cfg_action where
  "zero_cfg_action = \<lparr>ca_Type = [], ca_ForwardConfig = None, ca_FixedResponseConfig = None, ca_RedirectConfig = None,
     ca_InsertHeaderConfig = None, ca_RemoveHeaderConfig = None, ca_RewriteConfig = None,
     ca_TrafficMirrorConfig = None, ca_TrafficLimitConfig = None\<rparr>"

subsection \<open>Specifications of the resources\<close>

record alb_health_check_config =
  hk_ConnectPort :: int
  hk_Enabled :: bool
  hk_Host :: string
  hk_HttpVersion :: string
  hk_Interval :: int
  hk_Method :: string
  hk_Path :: string
  hk_Protocol :: string
  hk_Timeout :: int
  hk_HealthyThreshold :: int
  hk_UnhealthyThreshold :: int
  hk_TcpFastCloseEnabled :: bool
  hk_HttpCodes :: "string list"
  hk_Codes :: "string list"

record sticky_session_config =
  ss_Cookie :: string
  ss_CookieTimeout :: int
  ss_Enabled :: bool
  ss_Type :: string

record sgp_spec =
  gs_Protocol :: string
  gs_Scheduler :: string
  gs_ServerGroupName :: string
  gs_ServerGroupType :: string
  gs_VpcId :: string
  gs_HealthCheckConfig :: alb_health_check_config
  gs_StickySessionConfig :: sticky_session_config
  gs_Tags :: "(string \<times> string) list"
  gs_UpstreamKeepaliveEnabled :: bool
  gs_UchConfig :: "string \<times> string"

text \<open>A certificate of a listener: one from a secret, by the id of its resource, or a fixed one.\<close>

datatype certificate = SecretCert string | FixedCert bool string

record tracing_config =
  tr_Sample :: int
  tr_Type :: string
  tr_Enabled :: bool

text \<open>\<open>XForwardedForConfig\<close> is copied field by field; here it is one value.\<close>

record 'f ls_settings =
  lss_IdleTimeout :: int
  lss_RequestTimeout :: int
  lss_SecurityPolicyId :: string
  lss_CustomizedHeadersEnabled :: bool
  lss_Tracing :: tracing_config
  lss_QuicConfig :: "bool \<times> string"
  lss_XForwardedForConfig :: 'f

record 'f ls_spec = "'f ls_settings" +
  lsp_DefaultActions :: "alb_action list"
  lsp_Certificates :: "certificate list"
  lsp_CaCertificates :: "certificate list"
  lsp_GzipEnabled :: bool
  lsp_Http2Enabled :: bool
  lsp_ListenerDescription :: string

record lr_spec =
  lrs_RuleName :: string
  lrs_RuleActions :: "alb_action list"
  lrs_RuleConditions :: "alb_condition list"

record alb_zone_mapping =
  zmp_VSwitchId :: string
  zmp_ZoneId :: string
  zmp_AllocationId :: string

record billing_config =
  bl_InternetBandwidth :: int
  bl_InternetChargeType :: string
  bl_PayType :: string
  bl_BandWidthPackageId :: string

record lb_spec =
  lbp_AddressAllocatedMode :: string
  lbp_AddressType :: string
  lbp_Ipv6AddressType :: string
  lbp_AddressIpVersion :: string
  lbp_LoadBalancerEdition :: string
  lbp_LoadBalancerName :: string
  lbp_ResourceGroupId :: string
  lbp_VpcId :: string
  lbp_AccessLogConfig :: "string \<times> string"
  lbp_DeletionProtection :: "bool \<times> string"
  lbp_BillingConfig :: billing_config
  lbp_ModificationProtection :: "string \<times> string"
  lbp_Tags :: "(string \<times> string) list"
  lbp_ZoneMapping :: "alb_zone_mapping list"

datatype 'f alb_spec =
    LBSpec lb_spec
  | LSSpec "'f ls_spec"
  | LRSpec lr_spec
  | SGPSpec sgp_spec
  | AclEntries "string list"

subsection \<open>Resources in the stack\<close>

datatype 'f alb_resource =
    RLoadBalancer "'f alb_spec alb_lb"
  | RListener "'f alb_spec alb_listener"
  | RRule "'f alb_spec alb_rule"
  | RServerGroup "'f alb_spec alb_sgp"
  | RAcl "'f alb_spec alb_acl"
  | RCertificate alb_cert

text \<open>The Go type, the resource type and the id of a resource.\<close>

fun go_type :: "'f alb_resource \<Rightarrow> string" where
  "go_type (RLoadBalancer _) = ''*alb.AlbLoadBalancer''"
| "go_type (RListener _) = ''*alb.Listener''"
| "go_type (RRule _) = ''*alb.ListenerRule''"
| "go_type (RServerGroup _) = ''*alb.ServerGroup''"
| "go_type (RAcl _) = ''*alb.Acl''"
| "go_type (RCertificate _) = ''*alb.SecretCertificate''"

fun res_type :: "'f alb_resource \<Rightarrow> string" where
  "res_type (RLoadBalancer _) = ''ALIYUN::ALB::LOADBALANCER''"
| "res_type (RListener _) = ''ALIYUN::ALB::LISTENER''"
| "res_type (RRule _) = ''ALIYUN::ALB::RULE''"
| "res_type (RServerGroup _) = ''ALIYUN::ALB::SERVERGROUP''"
| "res_type (RAcl _) = ''ALIYUN::ALB::ACL''"
| "res_type (RCertificate _) = ''ALIYUN::ALB::CERTIFICATE''"

fun res_id :: "'f alb_resource \<Rightarrow> string" where
  "res_id (RLoadBalancer x) = alb_ID x"
| "res_id (RListener x) = als_ID x"
| "res_id (RRule x) = alr_ID x"
| "res_id (RServerGroup x) = asg_ID x"
| "res_id (RAcl x) = acl_ID x"
| "res_id (RCertificate x) = cert_ID x"

definition as_resource :: "'f alb_resource \<Rightarrow> 'f alb_resource resource" where
  "as_resource x = \<lparr>rs_GoType = go_type x, rs_Type = res_type x, rs_ID = res_id x, rs_Content = x\<rparr>"

type_synonym 'f alb_stack = "'f alb_resource stack"

subsection \<open>The AlbConfig\<close>

record api_acl_config =
  aa_AclName :: string
  aa_AclType :: string
  aa_AclEntries :: "string list"
  aa_AclIds :: "string list"

record 'f api_listener = "'f ls_settings" +
  al_GzipEnabled :: "bool option"
  al_Http2Enabled :: "bool option"
  al_Port :: int_or_string
  al_CaCertificates :: "(bool \<times> string) list"
  al_Protocol :: string
  al_Certificates :: "(bool \<times> string) list"
  al_Description :: string
  al_AclConfig :: api_acl_config

record api_lb =
  ab_Id :: string
  ab_Name :: string
  ab_AddressAllocatedMode :: string
  ab_AddressType :: string
  ab_Ipv6AddressType :: string
  ab_AddressIpVersion :: string
  ab_ResourceGroupId :: string
  ab_Edition :: string
  ab_ZoneMappings :: "(string \<times> string) list"
  ab_AccessLogConfig :: "string \<times> string"
  ab_BillingConfig :: billing_config
  ab_ForceOverride :: "bool option"
  ab_Tags :: "(string \<times> string) list"
  ab_ListenerForceOverride :: "bool option"

record 'f albconfig =
  ac_Namespace :: string
  ac_Name :: string
  ac_Deleted :: bool
  ac_LoadBalancer :: "api_lb option"
  ac_Listeners :: "'f api_listener list"
  ac_StatusDNSName :: string
  ac_StatusId :: string

text \<open>\<open>intstr\<close>: \<open>IntValue\<close> drops the error of \<open>Atoi\<close>, \<open>String\<close> prints either.\<close>

definition IntValue :: "int_or_string \<Rightarrow> int" where
  "IntValue p = (case p of IntPort i \<Rightarrow> i | StrPort s \<Rightarrow> Atoi_value s)"

definition port_String :: "int_or_string \<Rightarrow> string" where
  "port_String p = (case p of IntPort i \<Rightarrow> Itoa i | StrPort s \<Rightarrow> s)"

end
