(* ===== verification/Build_Server_Groups.thy ===== *)
theory Build_Server_Groups
  imports Alb_Specs
begin

text \<open>
  The state of the ingress model builder (\<open>defaultModelBuildTask\<close> of
  \<open>builder/albconfig_manager/model_builder.go\<close>) with the constructors of the resources
  (\<open>New...\<close> in \<open>pkg/model/alb\<close>), and the server groups
  (\<open>model_build_server_group.go\<close>).

  The decoders of \<open>encoding/json\<close> and the hashes of \<open>crypto\<close> are parameters; a decoder gives
  what it has decoded together with its error.  The constructors drop the error of
  \<open>AddResource\<close>: when the uid is taken, the first resource stays.
\<close>

subsection \<open>Environment and state\<close>

record ssl_cert =
  sc_CertIdentifier :: string
  sc_CommonName :: string
  sc_Sans :: string
  sc_Algorithm :: string

record vswitch =
  vs_VSwitchId :: string
  vs_ZoneId :: string

record secret =
  sec_Namespace :: string
  sec_Name :: string
  sec_Crt :: string
  sec_Key :: string

type_synonym port_protocol = "int \<times> string"

record 'w build_env =
  t_clusterID :: string
  t_vpcID :: string
  t_UnmarshalActions :: "string \<Rightarrow> cfg_action list \<times> go_error option"
  t_UnmarshalConditions :: "string \<Rightarrow> alb_condition list \<times> go_error option"
  t_UnmarshalAction :: "string \<Rightarrow> alb_action \<times> go_error option"
  t_UnmarshalListenPorts :: "string \<Rightarrow> (string \<times> int) list list \<times> go_error option"
  t_sha256hex :: "string \<Rightarrow> string"
  t_sha1hex :: "string \<Rightarrow> string"
  t_GetSecret :: "string \<times> string \<Rightarrow> 'w \<Rightarrow> secret res \<times> 'w"
  t_DescribeSSLCertificateList :: "'w \<Rightarrow> ssl_cert list res \<times> 'w"
  t_DescribeALBZones :: "'w \<Rightarrow> string list res \<times> 'w"
  t_DescribeVSwitches :: "string \<Rightarrow> 'w \<Rightarrow> vswitch list res \<times> 'w"
  t_rangePorts :: "(port_protocol \<times> ingress list) list \<Rightarrow> (port_protocol \<times> ingress list) list"

datatype build_call = BGetSecret "string \<times> string" | BDescribeCerts | BDescribeZones | BDescribeVSwitches string

text \<open>
  The server groups and certificates made so far by resource id; for a certificate its name,
  which never changes.  The errors by ingress are kept in the order they are set.
\<close>

record ('w, 'f) build_state = "('w, build_call) effects" +
  b_stack :: "'f alb_stack"
  b_sgpByResID :: "string list"
  b_scByResID :: smap
  b_errIngress :: "(ingress \<times> go_error) list"

type_synonym ('w, 'f, 'a) build_prog = "(('w, 'f) build_state, 'a) prog"

text \<open>\<open>t.errResultWithIngress[ing] = err\<close>, then the error is returned, with a prefix.\<close>

definition record_error :: "ingress \<Rightarrow> string \<Rightarrow> ('w, 'f, 'a) build_prog \<Rightarrow> ('w, 'f, 'a) build_prog" where
  "record_error ing pre m =
     bindP (tryP m) (\<lambda>r.
       case r of
         Inr x \<Rightarrow> returnP x
       | Inl e \<Rightarrow> bindP (modifyP (b_errIngress_update (\<lambda>l. l @ [(ing, e)]))) (\<lambda>_. throwP (wrap_err pre e)))"

subsection \<open>Constructors of resources\<close>

definition add_resource :: "'f alb_resource \<Rightarrow> 'f alb_stack \<Rightarrow> 'f alb_stack" where
  "add_resource x s = (case AddResource (as_resource x) s of Inl _ \<Rightarrow> s | Inr s' \<Rightarrow> s')"

text \<open>\<open>AddDependency\<close> reads only type and id of the two resources.\<close>

definition add_dependency :: "resource_uid \<Rightarrow> 'f alb_resource \<Rightarrow> 'f alb_stack \<Rightarrow> 'f alb_stack" where
  "add_dependency uid x s =
     (case AddDependency ((as_resource x)\<lparr>rs_GoType := fst uid, rs_ID := snd uid\<rparr>) (as_resource x) s of
        Inl _ \<Rightarrow> s | Inr s' \<Rightarrow> s')"

fun token_dependencies :: "id_token \<Rightarrow> resource_uid list" where
  "token_dependencies (LiteralToken _) = []"
| "token_dependencies (LoadBalancerIDToken i) = [(''*alb.AlbLoadBalancer'', i)]"
| "token_dependencies (ListenerIDToken i) = [(''*alb.Listener'', i)]"
| "token_dependencies (ServerGroupIDToken i) = [(''*alb.ServerGroup'', i)]"
| "token_dependencies (UnregisteredToken i) = [(''*alb.Listener'', i)]"

definition new_resource :: "'f alb_resource \<Rightarrow> id_token list \<Rightarrow> ('w, 'f, unit) build_prog" where
  "new_resource x tokens =
     modifyP (b_stack_update (\<lambda>s. fold (\<lambda>uid. add_dependency uid x) (concat (map token_dependencies tokens)) (add_resource x s)))"

definition NewServerGroup :: "string \<Rightarrow> sgp_named_key \<Rightarrow> sgp_spec \<Rightarrow> ('w, 'f, unit) build_prog" where
  "NewServerGroup i key spec =
     new_resource (RServerGroup \<lparr>asg_ID = i, asg_NamedKey = key, asg_Spec = SGPSpec spec, asg_Status = None\<rparr>) []"

definition NewListenerRule ::
  "string \<Rightarrow> id_token \<Rightarrow> int \<Rightarrow> string \<Rightarrow> lr_spec \<Rightarrow> ('w, 'f, unit) build_prog" where
  "NewListenerRule i lsID priority direction spec =
     new_resource (RRule \<lparr>alr_ID = i, alr_ListenerID = lsID, alr_Priority = priority, alr_RuleDirection = direction,
       alr_Spec = LRSpec spec, alr_Status = None\<rparr>) [lsID]"

definition NewAcl :: "string \<Rightarrow> id_token \<Rightarrow> string \<Rightarrow> string \<Rightarrow> string list \<Rightarrow> string list \<Rightarrow> ('w, 'f, unit) build_prog" where
  "NewAcl i lsID name ty ids entries =
     new_resource (RAcl \<lparr>acl_ID = i, acl_ListenerID = lsID, acl_AclName = name, acl_AclType = ty, acl_AclIds = ids,
       acl_Spec = AclEntries entries, acl_Status = None\<rparr>) [lsID]"

definition NewSecretCertificate :: "string \<Rightarrow> string \<Rightarrow> string \<Rightarrow> string \<Rightarrow> ('w, 'f, unit) build_prog" where
  "NewSecretCertificate i name crt key =
     new_resource (RCertificate \<lparr>cert_ID = i, cert_CertName = name, cert_IsDefault = False, cert_Certificate = crt,
       cert_PrivateKey = key, cert_Status = None\<rparr>) []"

text \<open>The token of the listener that was made: of the one in the stack, or of one that was not added.\<close>

definition NewListener ::
  "string \<Rightarrow> id_token \<Rightarrow> int \<Rightarrow> string \<Rightarrow> 'f ls_spec \<Rightarrow> ('w, 'f, id_token) build_prog" where
  "NewListener i lbID port protocol spec =
     (let x = RListener \<lparr>als_ID = i, als_LoadBalancerID = lbID, als_ListenerPort = port, als_ListenerProtocol = protocol,
            als_Spec = LSSpec spec, als_Status = None\<rparr>
      in bindP (getP (\<lambda>s. has_key (stk_resources (b_stack s)) (go_type x, i))) (\<lambda>taken.
         bindP (new_resource x [lbID]) (\<lambda>_.
         returnP (if taken then UnregisteredToken i else ListenerIDToken i))))"

definition NewAlbLoadBalancer ::
  "string \<Rightarrow> string \<Rightarrow> bool option \<Rightarrow> bool option \<Rightarrow> lb_spec \<Rightarrow> ('w, 'f, unit) build_prog" where
  "NewAlbLoadBalancer i lbId force listenerForce spec =
     new_resource (RLoadBalancer \<lparr>alb_ID = i, alb_LoadBalancerId = lbId, alb_ForceOverride = force,
       alb_ListenerForceOverride = listenerForce, alb_Spec = LBSpec spec, alb_Status = None\<rparr>) []"

subsection \<open>Checks of a server group\<close>

definition checkBackendSchedulerAnnotations :: "ingress \<Rightarrow> unit res" where
  "checkBackendSchedulerAnnotations ing =
     (case map_of (igs_Annotations ing) (alb_annotation ''backend-scheduler'') of
        None \<Rightarrow> Inr ()
      | Some v \<Rightarrow>
          if v \<in> set [''wrr'', ''wlc'', ''sch'', ''uch''] then Inr () else Inl (Errorf ''unkown backend scheduler''))"

definition grpc_port_check :: "ingress \<Rightarrow> string \<times> int \<Rightarrow> unit res" where
  "grpc_port_check ing e =
     (if snd e < 1 \<or> snd e > 65535 then Inl (Errorf ''listen port must be within [1, 65535]'')
      else if fst e = ''HTTP'' then
        (if both_annotation ''ssl-redirect'' ing = ''true'' \<and> snd e = 80 then Inr ()
         else Inl (Errorf ''grpc backend protocol must be use TLS listener only or redirect to''))
      else if fst e = ''HTTPS'' then Inr ()
      else Inl (Errorf ''listen protocol must be within [HTTP, HTTPS]''))"

definition checkIngressProtocolAnnotations :: "'w build_env \<Rightarrow> ingress \<Rightarrow> unit res" where
  "checkIngressProtocolAnnotations E ing =
     (if map_of (igs_Annotations ing) (alb_annotation ''backend-protocol'') \<noteq> Some ''grpc'' then Inr ()
      else if length (igs_TLS ing) = 0 then Inl (Errorf ''grpc backend protocol must be use with TLS listener(Ingress.Spec.TLS)'')
      else
        case GetStringAnnotation (alb_annotation ''listen-ports'') ing of
          Inl _ \<Rightarrow> Inr ()
        | Inr raw \<Rightarrow>
            (case t_UnmarshalListenPorts E raw of
               (_, Some e) \<Rightarrow> Inl (wrap_err ''failed to parse listen-ports configuration: '' e)
             | (entries, None) \<Rightarrow>
                 if length entries = 0 then Inl (Errorf ''empty listen-ports configuration'')
                 else bind_res (map_res (grpc_port_check ing) (concat entries)) (\<lambda>_. Inr ())))"

subsection \<open>Settings from annotations\<close>

definition anno_or :: "string \<Rightarrow> string \<Rightarrow> ingress \<Rightarrow> string" where
  "anno_or sfx d ing = (case map_of (igs_Annotations ing) (alb_annotation sfx) of Some v \<Rightarrow> v | None \<Rightarrow> d)"

definition anno_true :: "string \<Rightarrow> bool \<Rightarrow> ingress \<Rightarrow> bool" where
  "anno_true sfx d ing = (if map_of (igs_Annotations ing) (alb_annotation sfx) = Some ''true'' then True else d)"

text \<open>A value that is no number is logged, and the default stays.\<close>

definition anno_int :: "string \<Rightarrow> int \<Rightarrow> ingress \<Rightarrow> int" where
  "anno_int sfx d ing =
     (case map_of (igs_Annotations ing) (alb_annotation sfx) of
        None \<Rightarrow> d | Some v \<Rightarrow> (case Atoi v of Inl _ \<Rightarrow> d | Inr i \<Rightarrow> i))"

definition buildServerGroupScheduler :: "ingress \<Rightarrow> string" where
  "buildServerGroupScheduler ing =
     (case map_of (igs_Annotations ing) (alb_annotation ''backend-scheduler'') of
        None \<Rightarrow> ''Wrr''
      | Some v \<Rightarrow>
          if v = ''wrr'' then ''Wrr'' else if v = ''wlc'' then ''Wlc'' else if v = ''sch'' then ''Sch''
          else if v = ''uch'' then ''Uch'' else ''Wrr'')"

definition buildServerGroupUchSchedulerConfig :: "ingress \<Rightarrow> string \<times> string" where
  "buildServerGroupUchSchedulerConfig ing = (''QueryString'', anno_or ''backend-scheduler-uch-value'' [] ing)"

definition buildServerGroupProtocol :: "ingress \<Rightarrow> string" where
  "buildServerGroupProtocol ing =
     (case map_of (igs_Annotations ing) (alb_annotation ''backend-protocol'') of
        None \<Rightarrow> ''HTTP''
      | Some v \<Rightarrow> if v = ''grpc'' then ''GRPC'' else if v = ''https'' then ''HTTPS'' else ''HTTP'')"

text \<open>\<open>strings.Split\<close> never gives an empty list, so only a missing annotation means the default codes.\<close>

definition buildServerGroupHealthCheckConfig :: "ingress \<Rightarrow> alb_health_check_config" where
  "buildServerGroupHealthCheckConfig ing =
     (let codes = (case map_of (igs_Annotations ing) (alb_annotation ''healthcheck-httpcode'') of
            Some v \<Rightarrow> Split v '','' | None \<Rightarrow> [])
      in \<lparr>hk_ConnectPort = anno_int ''healthcheck-connect-port'' 0 ing,
          hk_Enabled = anno_true ''healthcheck-enabled'' False ing,
          hk_Host = ''$SERVER_IP'', hk_HttpVersion = ''HTTP1.1'',
          hk_Interval = anno_int ''healthcheck-interval-seconds'' 2 ing,
          hk_Method = anno_or ''healthcheck-method'' ''HEAD'' ing,
          hk_Path = anno_or ''healthcheck-path'' ''/'' ing,
          hk_Protocol = anno_or ''healthcheck-protocol'' ''HTTP'' ing,
          hk_Timeout = anno_int ''healthcheck-timeout-seconds'' 5 ing,
          hk_HealthyThreshold = anno_int ''healthy-threshold-count'' 3 ing,
          hk_UnhealthyThreshold = anno_int ''unhealthy-threshold-count'' 3 ing,
          hk_TcpFastCloseEnabled = False,
          hk_HttpCodes = (if length codes = 0 then [''http_2xx''] else codes), hk_Codes = [''http_2xx'']\<rparr>)"

definition buildServerGroupStickySessionConfig :: "ingress \<Rightarrow> sticky_session_config" where
  "buildServerGroupStickySessionConfig ing =
     \<lparr>ss_Cookie = [], ss_CookieTimeout = anno_int ''cookie-timeout'' 1000 ing,
      ss_Enabled = anno_true ''sticky-session'' False ing, ss_Type = anno_or ''sticky-session-type'' ''Insert'' ing\<rparr>"

definition buildServerGroupKeepalived :: "ingress \<Rightarrow> bool" where
  "buildServerGroupKeepalived ing = anno_true ''backend-keepalive'' False ing"

subsection \<open>Server groups\<close>

definition buildServerGroupName :: "string \<times> string \<Rightarrow> int \<Rightarrow> string" where
  "buildServerGroupName svc port = fst svc @ ''-'' @ snd svc @ ''-'' @ Itoa port"

definition server_group_resource_key :: "ingress \<Rightarrow> string \<times> string \<Rightarrow> int \<Rightarrow> string" where
  "server_group_resource_key ing svc port =
     igs_Namespace ing @ ''/'' @ igs_Name ing @ ''-'' @ snd svc @ '':'' @ Itoa port"

definition buildServerGroupResourceID :: "'w build_env \<Rightarrow> ingress \<Rightarrow> string \<times> string \<Rightarrow> int \<Rightarrow> string" where
  "buildServerGroupResourceID E ing svc port = t_sha256hex E (server_group_resource_key ing svc port)"

definition buildServerGroupSpec ::
  "'w build_env \<Rightarrow> ingress \<Rightarrow> string \<times> string \<Rightarrow> int \<Rightarrow> (sgp_named_key \<times> sgp_spec) res" where
  "buildServerGroupSpec E ing svc port =
     (if length (igs_Namespace ing) = 0 \<or> length (igs_Name ing) = 0 \<or> length (snd svc) = 0 then
        Inl (Errorf ''ingress namespace, ingress name and service name cant be empty'')
      else
        bind_res (checkIngressProtocolAnnotations E ing) (\<lambda>_.
        bind_res (checkBackendSchedulerAnnotations ing) (\<lambda>_.
        Inr (\<lparr>sk_Prefix = [], sk_ClusterID = t_clusterID E, sk_Namespace = fst svc, sk_IngressName = igs_Name ing,
              sk_ServiceName = snd svc, sk_ServicePort = port\<rparr>,
             \<lparr>gs_Protocol = buildServerGroupProtocol ing, gs_Scheduler = buildServerGroupScheduler ing,
              gs_ServerGroupName = buildServerGroupName svc port, gs_ServerGroupType = ''instance'', gs_VpcId = t_vpcID E,
              gs_HealthCheckConfig = buildServerGroupHealthCheckConfig ing,
              gs_StickySessionConfig = buildServerGroupStickySessionConfig ing,
              gs_Tags = [(''ingress.k8s.alibaba/service_ns'', AvoidTagValueKeyword (igs_Namespace ing)),
                         (''ingress.k8s.alibaba/ingress_name'', AvoidTagValueKeyword (igs_Name ing)),
                         (''ingress.k8s.alibaba/service_name'', AvoidTagValueKeyword (snd svc)),
                         (''ingress.k8s.alibaba/service_port'', Itoa port)],
              gs_UpstreamKeepaliveEnabled = buildServerGroupKeepalived ing,
              gs_UchConfig = buildServerGroupUchSchedulerConfig ing\<rparr>))))"

text \<open>The result is the token \<open>ServerGroupID()\<close>, the only thing the callers take.\<close>

definition buildServerGroup ::
  "'w build_env \<Rightarrow> ingress \<Rightarrow> string \<times> string \<Rightarrow> int \<Rightarrow> ('w, 'f, id_token) build_prog" where
  "buildServerGroup E ing svc port =
     (let sgpResID = buildServerGroupResourceID E ing svc port
      in bindP (getP b_sgpByResID) (\<lambda>known.
         if sgpResID \<in> set known then returnP (ServerGroupIDToken sgpResID)
         else
           bindP (liftP (buildServerGroupSpec E ing svc port)) (\<lambda>(key, spec).
           bindP (NewServerGroup sgpResID key spec) (\<lambda>_.
           bindP (modifyP (b_sgpByResID_update (\<lambda>ids. ids @ [sgpResID]))) (\<lambda>_.
           returnP (ServerGroupIDToken sgpResID))))))"

subsection \<open>An environment and an ingress for evaluation\<close>

definition demo_build_env :: "unit build_env" where
  "demo_build_env = \<lparr>t_clusterID = ''c'', t_vpcID = ''v'', t_UnmarshalActions = (\<lambda>_. ([], None)),
     t_UnmarshalConditions = (\<lambda>_. ([], None)), t_UnmarshalAction = (\<lambda>_. (zero_action, None)),
     t_UnmarshalListenPorts = (\<lambda>_. ([[(''HTTP'', 80)], [(''HTTPS'', 443), (''HTTP'', 80)]], None)),
     t_sha256hex = (\<lambda>x. x), t_sha1hex = (\<lambda>x. x),
     t_GetSecret = (\<lambda>n w. (Inl (Errorf ''not found''), w)),
     t_DescribeSSLCertificateList = (\<lambda>w. (Inr [\<lparr>sc_CertIdentifier = ''1'', sc_CommonName = ''*.a'', sc_Sans = [], sc_Algorithm = ''RSA''\<rparr>], w)),
     t_DescribeALBZones = (\<lambda>w. (Inr [''z''], w)),
     t_DescribeVSwitches = (\<lambda>_ w. (Inr [\<lparr>vs_VSwitchId = ''sw'', vs_ZoneId = ''z''\<rparr>], w)),
     t_rangePorts = (\<lambda>m. m)\<rparr>"

definition demo_path :: ingress_path where
  "demo_path = \<lparr>ipt_Path = ''/'', ipt_PathType = None, ipt_Service = Some \<lparr>isv_Name = ''s'', isv_PortName = [], isv_PortNumber = 80\<rparr>\<rparr>"

definition demo_ingress :: ingress where
  "demo_ingress = empty_ingress\<lparr>igs_Namespace := ''n'', igs_Name := ''i'',
     igs_Rules := [\<lparr>irl_Host = ''h.a'', irl_HTTP = Some [demo_path]\<rparr>]\<rparr>"

definition demo_build_state :: "(unit, unit) build_state" where
  "demo_build_state = \<lparr>fx_world = (), fx_calls = [], b_stack = NewDefaultManager (''n'', ''g''), b_sgpByResID = [],
     b_scByResID = [], b_errIngress = []\<rparr>"

subsection \<open>References between resources\<close>

text \<open>
  What a resource refers to: through the tokens of its specification, which the constructors
  register as dependencies, through the server groups of its actions, and through the
  certificates of a listener.
\<close>

fun registered :: "'f alb_resource \<Rightarrow> resource_uid list" where
  "registered (RListener x) = token_dependencies (als_LoadBalancerID x)"
| "registered (RRule x) = token_dependencies (alr_ListenerID x)"
| "registered (RAcl x) = token_dependencies (acl_ListenerID x)"
| "registered _ = []"

definition tuple_refs :: "server_group_tuple \<Rightarrow> resource_uid set" where
  "tuple_refs t = (case sgt_ServerGroupID t of None \<Rightarrow> {} | Some tok \<Rightarrow> set (token_dependencies tok))"

definition action_refs :: "alb_action \<Rightarrow> resource_uid set" where
  "action_refs a =
     (case act_ForwardConfig a of
        None \<Rightarrow> {}
      | Some tuples \<Rightarrow> \<Union> (tuple_refs ` set tuples))"

fun cert_refs :: "certificate \<Rightarrow> resource_uid set" where
  "cert_refs (SecretCert i) = {(''*alb.SecretCertificate'', i)}"
| "cert_refs (FixedCert _ _) = {}"

fun spec_refs :: "'f alb_spec \<Rightarrow> resource_uid set" where
  "spec_refs (LSSpec sp) = (\<Union>a \<in> set (lsp_DefaultActions sp). action_refs a) \<union> (\<Union>c \<in> set (lsp_Certificates sp). cert_refs c)"
| "spec_refs (LRSpec sp) = (\<Union>a \<in> set (lrs_RuleActions sp). action_refs a)"
| "spec_refs _ = {}"

fun content_spec :: "'f alb_resource \<Rightarrow> 'f alb_spec option" where
  "content_spec (RLoadBalancer x) = Some (alb_Spec x)"
| "content_spec (RListener x) = Some (als_Spec x)"
| "content_spec (RRule x) = Some (alr_Spec x)"
| "content_spec (RServerGroup x) = Some (asg_Spec x)"
| "content_spec (RAcl x) = Some (acl_Spec x)"
| "content_spec (RCertificate x) = None"

definition refs :: "'f alb_resource \<Rightarrow> resource_uid set" where
  "refs x = set (registered x) \<union> (case content_spec x of None \<Rightarrow> {} | Some sp \<Rightarrow> spec_refs sp)"

text \<open>A resource carries the specification of its own kind.\<close>

fun typed :: "'f alb_resource \<Rightarrow> bool" where
  "typed (RLoadBalancer x) \<longleftrightarrow> (\<exists>sp. alb_Spec x = LBSpec sp)"
| "typed (RListener x) \<longleftrightarrow> (\<exists>sp. als_Spec x = LSSpec sp)"
| "typed (RRule x) \<longleftrightarrow> (\<exists>sp. alr_Spec x = LRSpec sp)"
| "typed (RServerGroup x) \<longleftrightarrow> (\<exists>sp. asg_Spec x = SGPSpec sp)"
| "typed (RAcl x) \<longleftrightarrow> (\<exists>es. acl_Spec x = AclEntries es)"
| "typed (RCertificate x) \<longleftrightarrow> True"

text \<open>Load balancers come before listeners, and these before everything else.\<close>

definition rank :: "resource_uid \<Rightarrow> nat" where
  "rank uid = (if fst uid = ''*alb.AlbLoadBalancer'' then 0 else if fst uid = ''*alb.Listener'' then 1 else 2)"

definition stack_uids :: "'p stack \<Rightarrow> resource_uid set" where
  "stack_uids s = fst ` set (stk_resources s)"

definition closed_resource :: "'f alb_stack \<Rightarrow> resource_uid \<Rightarrow> 'f alb_resource resource \<Rightarrow> bool" where
  "closed_resource s uid r \<longleftrightarrow>
     r = as_resource (rs_Content r) \<and> typed (rs_Content r) \<and> refs (rs_Content r) \<subseteq> stack_uids s \<and>
     (\<forall>d \<in> set (registered (rs_Content r)). uid \<in> set (OutEdgeNodes (stk_graph s) d))"

definition stack_ok :: "'f alb_stack \<Rightarrow> bool" where
  "stack_ok s \<longleftrightarrow> stack_inv s \<and> (\<forall>(uid, r) \<in> set (stk_resources s). closed_resource s uid r) \<and>
     (\<forall>u v. v \<in> set (OutEdgeNodes (stk_graph s) u) \<longrightarrow> rank u < rank v)"

subsection \<open>Adding a resource\<close>

lemma as_resource_uid [simp]: "computeResourceUID (as_resource x) = (go_type x, res_id x)"
  by (simp add: computeResourceUID_def as_resource_def)

lemma uid_update [simp]: "computeResourceUID (r\<lparr>rs_GoType := a, rs_ID := b\<rparr>) = (a, b)"
  by (simp add: computeResourceUID_def)

lemma add_dependency_resources [simp]: "stk_resources (add_dependency uid x s) = stk_resources s"
  by (simp add: add_dependency_def AddDependency_def)

lemma stack_uids_add_dependency [simp]: "stack_uids (add_dependency uid x s) = stack_uids s"
  by (simp add: stack_uids_def)

lemma out_add_dependency:
  assumes "uid \<in> stack_uids s" and "(go_type x, res_id x) \<in> stack_uids s"
  shows "set (OutEdgeNodes (stk_graph (add_dependency uid x s)) u) =
    set (OutEdgeNodes (stk_graph s) u) \<union> (if u = uid then {(go_type x, res_id x)} else {})"
  using assms default_graph.out_add_edge [of uid "(go_type x, res_id x)" "stk_graph s" u]
  by (auto simp: add_dependency_def AddDependency_def has_key_iff stack_uids_def)

lemma stack_inv_add_dependency: "stack_inv s \<Longrightarrow> stack_inv (add_dependency uid x s)"
  using stack_inv_AddDependency by (fastforce simp: add_dependency_def split: sum.splits)

lemma stack_inv_add_resource: "stack_inv s \<Longrightarrow> stack_inv (add_resource x s)"
  using stack_inv_AddResource by (fastforce simp: add_resource_def split: sum.splits)

lemma stack_uids_add_resource: "stack_uids (add_resource x s) = insert (go_type x, res_id x) (stack_uids s)"
  by (auto simp: add_resource_def AddResource_def Let_def has_key_iff stack_uids_def keys_map_set)

lemma out_add_resource: "OutEdgeNodes (stk_graph (add_resource x s)) u = OutEdgeNodes (stk_graph s) u"
  by (simp add: add_resource_def AddResource_def Let_def default_graph.out_add_node)

lemma set_add_resource:
  "set (stk_resources (add_resource x s)) \<subseteq> insert ((go_type x, res_id x), as_resource x) (set (stk_resources s))"
  by (auto simp: add_resource_def AddResource_def Let_def has_key_iff set_map_set_new)

definition add_dependencies :: "resource_uid list \<Rightarrow> 'f alb_resource \<Rightarrow> 'f alb_stack \<Rightarrow> 'f alb_stack" where
  "add_dependencies ds x s = fold (\<lambda>uid. add_dependency uid x) ds s"

lemma add_dependencies_resources [simp]: "stk_resources (add_dependencies ds x s) = stk_resources s"
  unfolding add_dependencies_def by (induction ds arbitrary: s) simp_all

lemma stack_uids_add_dependencies [simp]: "stack_uids (add_dependencies ds x s) = stack_uids s"
  by (simp add: stack_uids_def)

lemma out_add_dependencies:
  assumes "set ds \<subseteq> stack_uids s" and "(go_type x, res_id x) \<in> stack_uids s"
  shows "set (OutEdgeNodes (stk_graph (add_dependencies ds x s)) u) =
    set (OutEdgeNodes (stk_graph s) u) \<union> (if u \<in> set ds then {(go_type x, res_id x)} else {})"
  using assms unfolding add_dependencies_def
  by (induction ds arbitrary: s) (auto simp: out_add_dependency)

lemma stack_inv_add_dependencies: "stack_inv s \<Longrightarrow> stack_inv (add_dependencies ds x s)"
  unfolding add_dependencies_def by (induction ds arbitrary: s) (auto intro: stack_inv_add_dependency)

lemma stack_ok_add:
  assumes ok: "stack_ok s" and t: "typed x" and r: "refs x \<subseteq> stack_uids s"
    and rk: "\<And>d. d \<in> set (registered x) \<Longrightarrow> rank d < rank (go_type x, res_id x)"
  shows "stack_ok (add_dependencies (registered x) x (add_resource x s))" (is "stack_ok ?t")
proof -
  let ?u = "(go_type x, res_id x)"
  have reg: "set (registered x) \<subseteq> stack_uids (add_resource x s)"
    using r by (auto simp: stack_uids_add_resource refs_def)
  have out: "set (OutEdgeNodes (stk_graph ?t) u) =
      set (OutEdgeNodes (stk_graph s) u) \<union> (if u \<in> set (registered x) then {?u} else {})" for u
    using reg by (simp add: out_add_dependencies stack_uids_add_resource out_add_resource)
  have "stack_inv ?t"
    using ok by (auto simp: stack_ok_def intro!: stack_inv_add_dependencies stack_inv_add_resource)
  moreover have "closed_resource ?t uid res" if "(uid, res) \<in> set (stk_resources ?t)" for uid res
  proof (cases "(uid, res) \<in> set (stk_resources s)")
    case True
    with ok have "closed_resource s uid res" by (auto simp: stack_ok_def)
    then show ?thesis by (auto simp: closed_resource_def out stack_uids_add_resource)
  next
    case False
    with that set_add_resource [of x s] have "uid = ?u" "res = as_resource x" by auto
    moreover have "rs_Content (as_resource x) = x" by (simp add: as_resource_def)
    ultimately show ?thesis using t r by (auto simp: closed_resource_def out stack_uids_add_resource)
  qed
  moreover have "rank u < rank v" if "v \<in> set (OutEdgeNodes (stk_graph ?t) u)" for u v
  proof -
    from that have "v \<in> set (OutEdgeNodes (stk_graph s) u) \<or> u \<in> set (registered x) \<and> v = ?u"
      by (simp add: out split: if_splits)
    with ok rk show ?thesis unfolding stack_ok_def by blast
  qed
  ultimately show ?thesis by (auto simp: stack_ok_def)
qed

subsection \<open>Programs that build\<close>

definition build_inv :: "('w, 'f) build_state \<Rightarrow> bool" where
  "build_inv s \<longleftrightarrow> stack_ok (b_stack s) \<and>
     (\<forall>i \<in> set (b_sgpByResID s). (''*alb.ServerGroup'', i) \<in> stack_uids (b_stack s)) \<and>
     (\<forall>i \<in> fst ` set (b_scByResID s). (''*alb.SecretCertificate'', i) \<in> stack_uids (b_stack s))"

text \<open>
  \<open>builds K Q m\<close>: from a state with the invariant whose stack has the resources \<open>K\<close>, the
  program \<open>m\<close> keeps the invariant, drops no resource, and a value it returns satisfies \<open>Q\<close> of
  the resources there are then.
\<close>

definition builds :: "resource_uid set \<Rightarrow> (resource_uid set \<Rightarrow> 'a \<Rightarrow> bool) \<Rightarrow> ('w, 'f, 'a) build_prog \<Rightarrow> bool" where
  "builds K Q m \<longleftrightarrow> (\<forall>s. build_inv s \<and> K \<subseteq> stack_uids (b_stack s) \<longrightarrow>
     build_inv (snd (m s)) \<and> stack_uids (b_stack s) \<subseteq> stack_uids (b_stack (snd (m s))) \<and>
     (\<forall>x. fst (m s) = Inr x \<longrightarrow> Q (stack_uids (b_stack (snd (m s)))) x))"

named_theorems builds_intros \<open>rules for programs that build\<close>

lemma buildsI:
  assumes "\<And>s r t. build_inv s \<Longrightarrow> K \<subseteq> stack_uids (b_stack s) \<Longrightarrow> m s = (r, t) \<Longrightarrow>
    build_inv t \<and> stack_uids (b_stack s) \<subseteq> stack_uids (b_stack t) \<and> (\<forall>x. r = Inr x \<longrightarrow> Q (stack_uids (b_stack t)) x)"
  shows "builds K Q m"
  unfolding builds_def by (metis assms prod.collapse)

lemma buildsD:
  assumes "builds K Q m" and "build_inv s" and "K \<subseteq> stack_uids (b_stack s)" and "m s = (r, t)"
  shows "build_inv t" and "stack_uids (b_stack s) \<subseteq> stack_uids (b_stack t)" and "r = Inr x \<Longrightarrow> Q (stack_uids (b_stack t)) x"
  using assms unfolding builds_def by (metis fst_conv snd_conv)+

lemma builds_return [builds_intros]: "(\<And>L. K \<subseteq> L \<Longrightarrow> Q L x) \<Longrightarrow> builds K Q (returnP x)"
  by (auto simp: builds_def returnP_def)

lemma builds_throw [builds_intros]: "builds K Q (throwP e)"
  by (simp add: builds_def throwP_def)

lemma builds_lift [builds_intros]: "(\<And>x L. r = Inr x \<Longrightarrow> K \<subseteq> L \<Longrightarrow> Q L x) \<Longrightarrow> builds K Q (liftP r)"
  by (auto simp: builds_def liftP_def)

lemma builds_bind:
  assumes "builds K R m" and "\<And>x L. K \<subseteq> L \<Longrightarrow> R L x \<Longrightarrow> builds L Q (f x)"
  shows "builds K Q (bindP m f)"
proof (rule buildsI)
  fix s r t assume s: "build_inv s" "K \<subseteq> stack_uids (b_stack s)" and run: "bindP m f s = (r, t)"
  obtain q u where m: "m s = (q, u)" by (cases "m s")
  note u = buildsD [OF assms(1) s m]
  show "build_inv t \<and> stack_uids (b_stack s) \<subseteq> stack_uids (b_stack t) \<and> (\<forall>x. r = Inr x \<longrightarrow> Q (stack_uids (b_stack t)) x)"
  proof (cases q)
    case (Inl e)
    with run m u show ?thesis by (auto simp: bindP_def)
  next
    case (Inr x)
    with run m have "f x u = (r, t)" by (simp add: bindP_def)
    moreover have "K \<subseteq> stack_uids (b_stack u)" using s(2) u(2) by blast
    ultimately show ?thesis
      using buildsD [OF assms(2) [OF _ u(3) [OF Inr]] u(1) subset_refl] u(2) by blast
  qed
qed

lemma builds_map_result:
  assumes "builds K Q m" and "\<And>s. snd (n s) = snd (m s)" and "\<And>s y L. fst (n s) = Inr y \<Longrightarrow> (\<And>x. fst (m s) = Inr x \<Longrightarrow> Q L x) \<Longrightarrow> R L y"
  shows "builds K R n"
  using assms unfolding builds_def by (metis (no_types, lifting))

lemma builds_wrap [builds_intros]: "builds K Q m \<Longrightarrow> builds K Q (wrapP p m)"
  by (erule builds_map_result) (auto simp: wrapP_def split: prod.splits)

lemma builds_try: "builds K Q m \<Longrightarrow> builds K (\<lambda>L r. \<forall>x. r = Inr x \<longrightarrow> Q L x) (tryP m)"
  by (erule builds_map_result) (auto simp: tryP_def split: prod.splits sum.splits go_error.splits)

lemma builds_get: "builds K (\<lambda>_ _. True) (getP f)"
  by (simp add: builds_def getP_def)

lemma builds_invoke [builds_intros]: "builds K (\<lambda>_ _. True) (invoke c f)"
  by (auto simp: builds_def invoke_def build_inv_def split: prod.splits)

lemma builds_weaken: "builds K Q m \<Longrightarrow> (\<And>L x. K \<subseteq> L \<Longrightarrow> Q L x \<Longrightarrow> Q' L x) \<Longrightarrow> builds K Q' m"
  unfolding builds_def by (meson order_trans)

lemma builds_mapP:
  assumes "\<And>x L. x \<in> set xs \<Longrightarrow> K \<subseteq> L \<Longrightarrow> builds L Q (f x)" and "\<And>y L L'. Q L y \<Longrightarrow> L \<subseteq> L' \<Longrightarrow> Q L' y"
  shows "builds K (\<lambda>L ys. \<forall>y \<in> set ys. Q L y) (mapP f xs)"
  using assms(1)
proof (induction xs arbitrary: K)
  case (Cons x xs)
  have "builds L (\<lambda>L ys. \<forall>y \<in> set ys. Q L y) (mapP f xs)" if "K \<subseteq> L" for L
    using that by (intro Cons.IH Cons.prems) auto
  moreover have "builds M (\<lambda>L ys. \<forall>y \<in> set ys. Q L y) (returnP (y # ys))" if "L \<subseteq> M" "Q L y" "\<forall>y \<in> set ys. Q M y" for L M y ys
  proof (rule builds_return)
    fix N assume N: "M \<subseteq> N"
    with that have "Q N y" by (meson assms(2) order_trans)
    moreover from that N have "Q N z" if "z \<in> set ys" for z using that assms(2) by blast
    ultimately show "\<forall>z \<in> set (y # ys). Q N z" by simp
  qed
  ultimately show ?case using Cons.prems
    by (auto intro!: builds_bind [where R = Q] builds_bind [where R = "\<lambda>L ys. \<forall>y \<in> set ys. Q L y"])
qed (auto intro: builds_return)

lemma builds_foldP:
  assumes "\<And>x b L. x \<in> set xs \<Longrightarrow> K \<subseteq> L \<Longrightarrow> Q L b \<Longrightarrow> builds L Q (f x b)" and "Q K b"
    and mono: "\<And>y L L'. Q L y \<Longrightarrow> L \<subseteq> L' \<Longrightarrow> Q L' y"
  shows "builds K Q (foldP f xs b)"
  using assms(1,2)
proof (induction xs arbitrary: K b)
  case Nil
  then show ?case by (auto intro!: builds_return intro: mono)
next
  case (Cons x xs)
  have "builds L Q (foldP f xs c)" if "K \<subseteq> L" "Q L c" for L c
    using that Cons.prems(1) by (intro Cons.IH) auto
  with Cons.prems show ?case by (auto intro!: builds_bind [where R = Q])
qed

lemma builds_forP:
  assumes "\<And>x L. x \<in> set xs \<Longrightarrow> K \<subseteq> L \<Longrightarrow> builds L (\<lambda>_ _. True) (f x)"
  shows "builds K (\<lambda>_ _. True) (forP f xs)"
  using assms
proof (induction xs arbitrary: K)
  case (Cons x xs)
  have "builds L (\<lambda>_ _. True) (forP f xs)" if "K \<subseteq> L" for L
    using that Cons.prems by (intro Cons.IH) auto
  with Cons.prems show ?case by (auto intro!: builds_bind [where R = "\<lambda>_ _. True"])
qed (auto intro: builds_return)

lemma builds_record_error:
  assumes "builds K Q m" and "\<And>y L L'. Q L y \<Longrightarrow> L \<subseteq> L' \<Longrightarrow> Q L' y"
  shows "builds K Q (record_error ing pre m)"
proof -
  have "builds L (\<lambda>_ _. True) (modifyP (b_errIngress_update (\<lambda>l. l @ [(ing, e)])))" for L e
    by (simp add: builds_def modifyP_def build_inv_def)
  then have "builds L Q (bindP (modifyP (b_errIngress_update (\<lambda>l. l @ [(ing, e)]))) (\<lambda>_. throwP (wrap_err pre e)))" for L e
    by (rule builds_bind) (rule builds_throw)
  with assms(2) show ?thesis unfolding record_error_def
    by (intro builds_bind [OF builds_try [OF assms(1)]]) (auto split: sum.splits intro!: builds_return)
qed

lemma builds_if [builds_intros]:
  "(b \<Longrightarrow> builds K Q m) \<Longrightarrow> (\<not> b \<Longrightarrow> builds K Q n) \<Longrightarrow> builds K Q (if b then m else n)"
  by simp

lemma builds_stack_update:
  assumes "\<And>s. stack_ok s \<Longrightarrow> K \<subseteq> stack_uids s \<Longrightarrow>
    stack_ok (f s) \<and> stack_uids s \<subseteq> stack_uids (f s) \<and> Q (stack_uids (f s))"
  shows "builds K (\<lambda>L _. Q L) (modifyP (b_stack_update f))"
  using assms by (fastforce simp: builds_def modifyP_def build_inv_def)

lemma builds_new_resource:
  fixes x :: "'f alb_resource"
  assumes "typed x" and "refs x \<subseteq> K" and "concat (map token_dependencies tokens) = registered x"
    and "\<And>d. d \<in> set (registered x) \<Longrightarrow> rank d < rank (go_type x, res_id x)"
  shows "builds K (\<lambda>L _. (go_type x, res_id x) \<in> L) (new_resource x tokens)"
  unfolding new_resource_def assms(3) add_dependencies_def [symmetric]
proof (rule builds_stack_update)
  fix s :: "'f alb_stack" assume s: "stack_ok s" "K \<subseteq> stack_uids s"
  let ?t = "add_dependencies (registered x) x (add_resource x s)"
  have "stack_ok ?t" using s assms(2) by (intro stack_ok_add [OF _ assms(1) _ assms(4)]) auto
  then show "stack_ok ?t \<and> stack_uids s \<subseteq> stack_uids ?t \<and> (go_type x, res_id x) \<in> stack_uids ?t"
    by (auto simp: stack_uids_add_resource)
qed

subsection \<open>What the constructors build\<close>

definition is_listener_token :: "id_token \<Rightarrow> bool" where
  "is_listener_token tok \<longleftrightarrow> (\<exists>i. tok = ListenerIDToken i \<or> tok = UnregisteredToken i)"

lemma builds_NewServerGroup: "builds K (\<lambda>L _. (''*alb.ServerGroup'', i) \<in> L) (NewServerGroup i key spec)"
  unfolding NewServerGroup_def
  by (rule builds_weaken [OF builds_new_resource]) (auto simp: refs_def)

lemma builds_NewSecretCertificate:
  "builds K (\<lambda>L _. (''*alb.SecretCertificate'', i) \<in> L) (NewSecretCertificate i name crt key)"
  unfolding NewSecretCertificate_def
  by (rule builds_weaken [OF builds_new_resource]) (auto simp: refs_def)

lemma builds_NewListenerRule:
  assumes "is_listener_token lsID" "set (token_dependencies lsID) \<subseteq> K" "(\<Union>a \<in> set (lrs_RuleActions spec). action_refs a) \<subseteq> K"
  shows "builds K (\<lambda>_ _. True) (NewListenerRule i lsID priority direction spec)"
  unfolding NewListenerRule_def using assms
  by (intro builds_weaken [OF builds_new_resource]) (auto simp: refs_def is_listener_token_def rank_def)

lemma builds_NewAcl:
  assumes "is_listener_token lsID" "set (token_dependencies lsID) \<subseteq> K"
  shows "builds K (\<lambda>_ _. True) (NewAcl i lsID name ty ids es)"
  unfolding NewAcl_def using assms
  by (intro builds_weaken [OF builds_new_resource]) (auto simp: refs_def is_listener_token_def rank_def)

lemma builds_NewAlbLoadBalancer:
  "builds K (\<lambda>L _. (''*alb.AlbLoadBalancer'', i) \<in> L) (NewAlbLoadBalancer i lbId force lforce spec)"
  unfolding NewAlbLoadBalancer_def
  by (rule builds_weaken [OF builds_new_resource]) (auto simp: refs_def)

lemma builds_NewListener:
  assumes "(''*alb.AlbLoadBalancer'', lb) \<in> K" "spec_refs (LSSpec spec) \<subseteq> K"
  shows "builds K (\<lambda>L tok. is_listener_token tok \<and> set (token_dependencies tok) \<subseteq> L)
    (NewListener i (LoadBalancerIDToken lb) port protocol spec)"
proof -
  let ?x = "RListener \<lparr>als_ID = i, als_LoadBalancerID = LoadBalancerIDToken lb, als_ListenerPort = port,
    als_ListenerProtocol = protocol, als_Spec = LSSpec spec, als_Status = None\<rparr>"
  have "builds L (\<lambda>L _. (''*alb.Listener'', i) \<in> L) (new_resource ?x [LoadBalancerIDToken lb])" if "K \<subseteq> L" for L
    by (rule builds_weaken [OF builds_new_resource]) (use assms that in \<open>auto simp: refs_def rank_def\<close>)
  then show ?thesis unfolding NewListener_def Let_def
    by (intro builds_bind [OF builds_get] builds_bind [where R = "\<lambda>L _. (''*alb.Listener'', i) \<in> L"] builds_return)
      (auto simp: is_listener_token_def)
qed

lemma builds_buildServerGroup:
  "builds K (\<lambda>L tok. set (token_dependencies tok) \<subseteq> L) (buildServerGroup E ing svc port)"
proof -
  let ?i = "buildServerGroupResourceID E ing svc port"
  have known: "builds L (\<lambda>L b. b \<longrightarrow> (''*alb.ServerGroup'', ?i) \<in> L) (getP (\<lambda>s. ?i \<in> set (b_sgpByResID s)))" for L
    by (auto simp: builds_def getP_def build_inv_def)
  have new: "builds L (\<lambda>L _. (''*alb.ServerGroup'', ?i) \<in> L) (modifyP (b_sgpByResID_update (\<lambda>ids. ids @ [?i])))"
    if "(''*alb.ServerGroup'', ?i) \<in> L" for L
    using that by (auto simp: builds_def modifyP_def build_inv_def)
  have eq: "buildServerGroup E ing svc port = bindP (getP (\<lambda>s. ?i \<in> set (b_sgpByResID s))) (\<lambda>b.
      if b then returnP (ServerGroupIDToken ?i)
      else bindP (liftP (buildServerGroupSpec E ing svc port)) (\<lambda>(key, spec).
           bindP (NewServerGroup ?i key spec) (\<lambda>_.
           bindP (modifyP (b_sgpByResID_update (\<lambda>ids. ids @ [?i]))) (\<lambda>_.
           returnP (ServerGroupIDToken ?i)))))"
    by (rule ext) (simp add: buildServerGroup_def Let_def bindP_def getP_def)
  show ?thesis unfolding eq
    by (rule builds_bind [OF known])
      (auto split: prod.splits intro!: builds_if builds_return builds_bind [OF builds_lift [where Q = "\<lambda>_ _. True"]]
        builds_bind [OF builds_NewServerGroup] builds_bind [OF new])
qed

end
