(* ===== verification/Build_Rule_Actions.thy ===== *)
theory Build_Rule_Actions
  imports Build_Server_Groups
begin

text \<open>
  The actions of a forwarding rule: the action half of
  \<open>builder/albconfig_manager/model_build_listener_rules.go\<close>, and
  \<open>CheckAnnotationForwardAction\<close> of \<open>store/store.go\<close>.
\<close>

subsection \<open>Simple actions\<close>

definition forward_tuple :: "id_token \<Rightarrow> int \<Rightarrow> server_group_tuple" where
  "forward_tuple token w = \<lparr>sgt_ServerGroupID = Some token, sgt_ServiceName = [], sgt_ServicePort = 0, sgt_Weight = w\<rparr>"

definition forward_action :: "server_group_tuple list \<Rightarrow> alb_action" where
  "forward_action tuples = zero_action\<lparr>act_Type := ''ForwardGroup'', act_ForwardConfig := Some tuples\<rparr>"

definition buildActionViaServiceAndServicePort :: "string \<Rightarrow> int \<Rightarrow> int \<Rightarrow> alb_action" where
  "buildActionViaServiceAndServicePort svcName svcPort weight =
     forward_action [\<lparr>sgt_ServerGroupID = None, sgt_ServiceName = svcName, sgt_ServicePort = svcPort, sgt_Weight = weight\<rparr>]"

text \<open>The path is not used: the redirect keeps host, path and query of the request.\<close>

definition buildActionViaHostAndPath :: "string \<Rightarrow> alb_action" where
  "buildActionViaHostAndPath path =
     zero_action\<lparr>act_Type := ''Redirect'', act_RedirectConfig :=
       Some \<lparr>rd_Host = ''${host}'', rd_HttpCode = ''308'', rd_Path = ''${path}'', rd_Port = ''443'',
             rd_Protocol = ''HTTPS'', rd_Query = ''${query}''\<rparr>\<rparr>"

subsection \<open>Limits\<close>

definition limit_action :: "int \<Rightarrow> int \<Rightarrow> alb_action" where
  "limit_action q i =
     zero_action\<lparr>act_Type := ''TrafficLimit'', act_TrafficLimitConfig := Some \<lparr>tl_QPS = q, tl_PerIpQps = i\<rparr>\<rparr>"

definition limit_value :: "string \<Rightarrow> string \<Rightarrow> int res" where
  "limit_value msg s =
     bind_res (Atoi s) (\<lambda>i. if i < 1 then Inl (Errorf msg) else Inr i)"

definition buildQpsLimitAction :: "string \<Rightarrow> string \<Rightarrow> alb_action res" where
  "buildQpsLimitAction qps qpsPerIp =
     (if qps \<noteq> [] \<and> qpsPerIp = [] then
        bind_res (limit_value ''traffic limit action qps out of range'' qps) (\<lambda>q. Inr (limit_action q 0))
      else if qps = [] \<and> qpsPerIp \<noteq> [] then
        bind_res (limit_value ''traffic limit action qps per ip out of range'' qpsPerIp) (\<lambda>i. Inr (limit_action 0 i))
      else if qps \<noteq> [] \<and> qpsPerIp \<noteq> [] then
        bind_res (limit_value ''traffic limit action qps out of range'' qps) (\<lambda>q.
        bind_res (limit_value ''traffic limit action qps per ip out of range'' qpsPerIp) (\<lambda>i.
        if i \<ge> q then Inl (Errorf ''traffic limit action qps per ip must less than qps'') else Inr (limit_action q i)))
      else Inl (Errorf ''invalid parameter for qps limit''))"

subsection \<open>Cross-origin requests\<close>

definition splitAndTrim :: "string \<Rightarrow> string list" where
  "splitAndTrim values =
     map (\<lambda>s. rev (dropWhile (\<lambda>c. c = CHR '' '') (rev (dropWhile (\<lambda>c. c = CHR '' '') s)))) (Split values '','')"

definition cors_strings :: "string \<Rightarrow> string list \<Rightarrow> ingress \<Rightarrow> string list" where
  "cors_strings sfx d ing =
     (case GetStringAnnotation (alb_annotation sfx) ing of Inl _ \<Rightarrow> d | Inr v \<Rightarrow> splitAndTrim v)"

definition cors_allow_headers :: string where
  "cors_allow_headers =
     ''DNT,X-CustomHeader,Keep-Alive,User-Agent,X-Requested-With,If-Modified-Since,Cache-Control,Content-Type,Authorization''"

definition cors_actions :: "ingress \<Rightarrow> alb_action list" where
  "cors_actions ing =
     (if string_annotation (alb_annotation ''enable-cors'') ing = ''true'' then
        [zero_action\<lparr>act_Type := ''Cors'', act_CorsConfig := Some
           \<lparr>co_AllowCredentials =
              (case GetStringAnnotation (alb_annotation ''cors-allow-credentials'') ing of
                 Inl _ \<Rightarrow> ''on''
               | Inr v \<Rightarrow> if v = ''true'' then ''on'' else if v = ''false'' then ''off'' else ''on''),
            co_MaxAge =
              (case GetStringAnnotation (alb_annotation ''cors-max-age'') ing of Inl _ \<Rightarrow> ''172800'' | Inr v \<Rightarrow> v),
            co_AllowOrigin = cors_strings ''cors-allow-origin'' (splitAndTrim ''*'') ing,
            co_AllowMethods =
              cors_strings ''cors-allow-methods'' (splitAndTrim ''GET, PUT, POST, DELETE, PATCH, OPTIONS'') ing,
            co_AllowHeaders = cors_strings ''cors-allow-headers'' (splitAndTrim cors_allow_headers) ing,
            co_ExposeHeaders = cors_strings ''cors-expose-headers'' [] ing\<rparr>\<rparr>]
      else [])"

subsection \<open>Forwarding to a service and its canaries\<close>

text \<open>\<open>canarySGPWithIngress\<close>: a tuple and the canary ingress it comes from.\<close>

type_synonym canary = "server_group_tuple \<times> ingress"

definition canary_weight :: "canary list \<Rightarrow> int" where
  "canary_weight cs = foldl (\<lambda>w c. to_int64 (w + sgt_Weight (fst c))) 0 cs"

definition buildForwardCanarySGP ::
  "'w build_env \<Rightarrow> canary list \<Rightarrow> ('w, 'f, server_group_tuple list) build_prog" where
  "buildForwardCanarySGP E cs =
     mapP (\<lambda>(tuple, ing).
       bindP (buildServerGroup E ing (igs_Namespace ing, sgt_ServiceName tuple) (sgt_ServicePort tuple)) (\<lambda>token.
       returnP (forward_tuple token (sgt_Weight tuple)))) cs"

definition forward_groups :: "'w build_env \<Rightarrow> ingress \<Rightarrow> server_group_tuple list \<Rightarrow> ('w, 'f, server_group_tuple list) build_prog" where
  "forward_groups E ing groups =
     mapP (\<lambda>sgp.
       bindP (buildServerGroup E ing (igs_Namespace ing, sgt_ServiceName sgp) (sgt_ServicePort sgp)) (\<lambda>token.
       returnP (forward_tuple token (sgt_Weight sgp)))) groups"

definition server_groups :: "alb_action \<Rightarrow> server_group_tuple list" where
  "server_groups a = (case act_ForwardConfig a of Some gs \<Rightarrow> gs | None \<Rightarrow> [])"

definition buildActionForwardSGP ::
  "'w build_env \<Rightarrow> ingress \<Rightarrow> ingress_path \<Rightarrow> bool \<Rightarrow> canary list \<Rightarrow> ('w, 'f, alb_action) build_prog" where
  "buildActionForwardSGP E ing path withCanary cs =
     bindP (liftP (backend_service path)) (\<lambda>svc.
     let action = buildActionViaServiceAndServicePort (isv_Name svc) (isv_PortNumber svc) 100;
         canaryWeight = canary_weight cs
     in if withCanary \<and> canaryWeight = 100 then
          bindP (buildForwardCanarySGP E cs) (\<lambda>tuples. returnP (action\<lparr>act_ForwardConfig := Some tuples\<rparr>))
        else
          bindP (if withCanary then buildForwardCanarySGP E cs else returnP []) (\<lambda>canaryTuples.
          bindP (forward_groups E ing
                   (if withCanary then map (sgt_Weight_update (\<lambda>_. to_int64 (100 - canaryWeight))) (server_groups action)
                    else server_groups action)) (\<lambda>tuples.
          returnP (action\<lparr>act_ForwardConfig := Some (tuples @ canaryTuples)\<rparr>))))"

subsection \<open>Actions of an annotation\<close>

definition buildTrafficMirrorAction :: "cfg_action \<Rightarrow> alb_action res" where
  "buildTrafficMirrorAction action =
     bind_res (deref (ca_TrafficMirrorConfig action)) (\<lambda>c.
       Inr (zero_action\<lparr>act_Type := ''TrafficMirror'', act_TrafficMirrorConfig := Some c\<rparr>))"

definition buildAnnotationForwardAction ::
  "'w build_env \<Rightarrow> ingress \<Rightarrow> cfg_action \<Rightarrow> ('w, 'f, alb_action) build_prog" where
  "buildAnnotationForwardAction E ing action =
     bindP (liftP (deref (ca_ForwardConfig action))) (\<lambda>groups.
     bindP (mapP (\<lambda>sgp.
       if ct_ServerGroupID sgp \<noteq> [] then returnP (forward_tuple (LiteralToken (ct_ServerGroupID sgp)) (ct_Weight sgp))
       else
         bindP (buildServerGroup E ing (igs_Namespace ing, ct_ServiceName sgp) (ct_ServicePort sgp)) (\<lambda>token.
         returnP \<lparr>sgt_ServerGroupID = Some token, sgt_ServiceName = ct_ServiceName sgp,
           sgt_ServicePort = ct_ServicePort sgp, sgt_Weight = ct_Weight sgp\<rparr>)) groups) (\<lambda>tuples.
     returnP (forward_action tuples)))"

text \<open>
  The redirect configuration is written as JSON and read back over the defaults; every field
  is written, also the empty ones, and a missing configuration as \<open>null\<close>, so the result is
  the given one.  The last statement \<open>return *toAct, err\<close> dereferences \<open>toAct\<close>, which is nil
  for an unknown type and for a refused limit.
\<close>

definition toCustomAction :: "'w build_env \<Rightarrow> ingress \<Rightarrow> cfg_action \<Rightarrow> ('w, 'f, alb_action) build_prog" where
  "toCustomAction E ing action =
     (let actType = ToLower (ca_Type action)
      in if actType = ''fixedresponse'' then
           bindP (liftP (deref (ca_FixedResponseConfig action))) (\<lambda>c.
           returnP (zero_action\<lparr>act_Type := ''FixedResponse'', act_FixedResponseConfig := Some c\<rparr>))
         else if actType = ''redirect'' then
           returnP (zero_action\<lparr>act_Type := ''Redirect'', act_RedirectConfig := ca_RedirectConfig action\<rparr>)
         else if actType = ''insertheader'' then
           bindP (liftP (deref (ca_InsertHeaderConfig action))) (\<lambda>c.
           returnP (zero_action\<lparr>act_Type := ''InsertHeader'', act_InsertHeaderConfig := Some c\<rparr>))
         else if actType = ''trafficmirror'' then liftP (buildTrafficMirrorAction action)
         else if actType = ''removeheader'' then
           bindP (liftP (deref (ca_RemoveHeaderConfig action))) (\<lambda>key.
           returnP (zero_action\<lparr>act_Type := ''RemoveHeader'', act_RemoveHeaderConfig := Some key\<rparr>))
         else if actType = ''forwardgroup'' then
           wrapP ''build ForwardAction Failed: '' (buildAnnotationForwardAction E ing action)
         else if actType = ''rewrite'' then
           bindP (liftP (deref (ca_RewriteConfig action))) (\<lambda>c.
           returnP (zero_action\<lparr>act_Type := ''Rewrite'', act_RewriteConfig := Some c\<rparr>))
         else if actType = ''trafficlimit'' then
           bindP (liftP (deref (ca_TrafficLimitConfig action))) (\<lambda>(qps, qpsPerIp).
             case buildQpsLimitAction qps qpsPerIp of
               Inl _ \<Rightarrow> throwP (Panic ''nil pointer dereference'')
             | Inr a \<Rightarrow> returnP a)
         else throwP (Panic ''nil pointer dereference''))"

definition annotation_actions ::
  "'w build_env \<Rightarrow> ingress \<Rightarrow> string \<Rightarrow> string \<Rightarrow> string \<Rightarrow> ('w, 'f, alb_action list) build_prog" where
  "annotation_actions E ing svcName qps qpsPerIp =
     (case map_of (igs_Annotations ing) (alb_annotation (''actions.'' @ svcName)) of
        None \<Rightarrow> returnP []
      | Some actionStr \<Rightarrow>
          (case t_UnmarshalActions E actionStr of
             (_, Some e) \<Rightarrow> throwP e
           | (actionsArray, None) \<Rightarrow>
               mapP (\<lambda>action.
                 if qps \<noteq> [] \<and> EqualFold (ca_Type action) ''TrafficLimit'' then
                   throwP (Errorf ''can't exist action trafficlimit and annotation traffic-limit-qps at the same time'')
                 else if qpsPerIp \<noteq> [] \<and> EqualFold (ca_Type action) ''TrafficLimit'' then
                   throwP (Errorf ''can't exist action trafficlimit and annotation traffic-limit-ip-qps at the same time'')
                 else toCustomAction E ing action) actionsArray))"

definition rewrite_actions :: "ingress \<Rightarrow> alb_action list" where
  "rewrite_actions ing =
     (case GetStringAnnotation (alb_annotation ''rewrite-target'') ing of
        Inl _ \<Rightarrow> []
      | Inr v \<Rightarrow> [zero_action\<lparr>act_Type := ''Rewrite'', act_RewriteConfig :=
          Some \<lparr>rw_Host = ''${host}'', rw_Path = v, rw_Query = ''${query}''\<rparr>\<rparr>])"

subsection \<open>All actions of a rule\<close>

definition is_limit :: "alb_action \<Rightarrow> bool" where
  "is_limit a \<longleftrightarrow> act_Type a = ''TrafficLimit''"

definition is_ext :: "alb_action \<Rightarrow> bool" where
  "is_ext a \<longleftrightarrow> act_Type a \<in> set [''InsertHeader'', ''RemoveHeader'', ''Rewrite'', ''Cors'', ''TrafficMirror'']"

definition is_final :: "alb_action \<Rightarrow> bool" where
  "is_final a \<longleftrightarrow> act_Type a \<in> set [''ForwardGroup'', ''Redirect'', ''FixedResponse'']"

definition kept_on_ssl_redirect :: "alb_action \<Rightarrow> bool" where
  "kept_on_ssl_redirect a \<longleftrightarrow> act_Type a \<in> set [''InsertHeader'', ''RemoveHeader'', ''TrafficLimit'', ''Cors'']"

definition order_actions :: "alb_action list \<Rightarrow> alb_action list" where
  "order_actions rawActions = filter is_limit rawActions @ filter is_ext rawActions @ filter is_final rawActions"

definition limit_actions :: "string \<Rightarrow> string \<Rightarrow> alb_action list res" where
  "limit_actions qps qpsPerIp =
     (if qps \<noteq> [] \<or> qpsPerIp \<noteq> [] then bind_res (buildQpsLimitAction qps qpsPerIp) (\<lambda>a. Inr [a]) else Inr [])"

definition final_actions ::
  "'w build_env \<Rightarrow> ingress \<Rightarrow> ingress_path \<Rightarrow> ingress_service \<Rightarrow> canary list \<Rightarrow> ('w, 'f, alb_action list) build_prog" where
  "final_actions E ing path svc canaries =
     (if isv_PortName svc \<noteq> ''use-annotation'' then
        bindP (buildActionForwardSGP E ing path (both_annotation ''canary'' ing \<noteq> ''true'' \<and> length canaries > 0) canaries)
          (\<lambda>a. returnP [a])
      else returnP [])"

definition buildRuleActions ::
  "'w build_env \<Rightarrow> ingress \<Rightarrow> ingress_path \<Rightarrow> canary list \<Rightarrow> bool \<Rightarrow> ('w, 'f, alb_action list) build_prog" where
  "buildRuleActions E ing path canaries listen443 =
     (let qps = string_annotation (alb_annotation ''traffic-limit-qps'') ing;
          qpsPerIp = string_annotation (alb_annotation ''traffic-limit-ip-qps'') ing
      in bindP (liftP (limit_actions qps qpsPerIp)) (\<lambda>limit.
         bindP (liftP (backend_service path)) (\<lambda>svc.
         bindP (annotation_actions E ing (isv_Name svc) qps qpsPerIp) (\<lambda>custom.
         let rawActions = limit @ cors_actions ing @ custom @ rewrite_actions ing
         in if both_annotation ''ssl-redirect'' ing = ''true'' \<and> \<not> listen443 then
              returnP (filter kept_on_ssl_redirect rawActions @ [buildActionViaHostAndPath (ipt_Path path)])
            else
              bindP (final_actions E ing path svc canaries) (\<lambda>final.
              if length (filter is_final (rawActions @ final)) > 1 then throwP (Errorf ''multi finalType action find'')
              else returnP (order_actions (rawActions @ final)))))))"

subsection \<open>Actions of the older annotation form\<close>

definition buildFixedResponseAction :: "alb_action \<Rightarrow> alb_action res" where
  "buildFixedResponseAction actionCfg =
     bind_res (deref (act_FixedResponseConfig actionCfg)) (\<lambda>c.
       if length (fr_ContentType c) = 0 then Inl (Errorf ''missing FixedResponseConfig'')
       else Inr (zero_action\<lparr>act_Type := ''FixedResponse'', act_FixedResponseConfig := Some c\<rparr>))"

definition buildRedirectAction :: "alb_action \<Rightarrow> alb_action res" where
  "buildRedirectAction actionCfg =
     (case act_RedirectConfig actionCfg of
        None \<Rightarrow> Inl (Errorf ''missing RedirectConfig'')
      | Some c \<Rightarrow> Inr (zero_action\<lparr>act_Type := ''Redirect'', act_RedirectConfig := Some c\<rparr>))"

definition buildForwardAction :: "'w build_env \<Rightarrow> ingress \<Rightarrow> alb_action \<Rightarrow> ('w, 'f, alb_action) build_prog" where
  "buildForwardAction E ing actionCfg =
     (case act_ForwardConfig actionCfg of
        None \<Rightarrow> throwP (Errorf ''missing ForwardConfig'')
      | Some groups \<Rightarrow> bindP (forward_groups E ing groups) (\<lambda>tuples. returnP (forward_action tuples)))"

definition buildBackendAction :: "'w build_env \<Rightarrow> ingress \<Rightarrow> alb_action \<Rightarrow> ('w, 'f, alb_action) build_prog" where
  "buildBackendAction E ing actionCfg =
     (if act_Type actionCfg = ''FixedResponse'' then liftP (buildFixedResponseAction actionCfg)
      else if act_Type actionCfg = ''Redirect'' then liftP (buildRedirectAction actionCfg)
      else if act_Type actionCfg = ''ForwardGroup'' then buildForwardAction E ing actionCfg
      else throwP (Errorf ''unknown action type''))"

definition buildAction :: "'w build_env \<Rightarrow> ingress \<Rightarrow> alb_action \<Rightarrow> ('w, 'f, alb_action) build_prog" where
  "buildAction E ing action = buildBackendAction E ing action"

subsection \<open>Forward actions named by annotations\<close>

text \<open>A decoding error is logged; what was decoded is still looked at.\<close>

definition path_forward_groups :: "'w build_env \<Rightarrow> ingress \<Rightarrow> ingress_path \<Rightarrow> cfg_tuple list res" where
  "path_forward_groups E ing path =
     bind_res (backend_service path) (\<lambda>svc.
       case map_of (igs_Annotations ing) (alb_annotation (''actions.'' @ isv_Name svc)) of
         None \<Rightarrow> Inr []
       | Some actionStr \<Rightarrow>
           bind_res (map_res (\<lambda>action. deref (ca_ForwardConfig action))
             (filter (\<lambda>action. ToLower (ca_Type action) = ''forwardgroup'') (fst (t_UnmarshalActions E actionStr))))
             (\<lambda>gs. Inr (concat gs)))"

definition ingress_paths :: "ingress \<Rightarrow> (ingress_rule \<times> ingress_path) list" where
  "ingress_paths ing =
     concat (map (\<lambda>rule. case irl_HTTP rule of None \<Rightarrow> [] | Some paths \<Rightarrow> map (Pair rule) paths) (igs_Rules ing))"

definition CheckAnnotationForwardAction :: "'w build_env \<Rightarrow> ingress \<Rightarrow> (bool \<times> cfg_tuple list) res" where
  "CheckAnnotationForwardAction E ing =
     bind_res (map_res (\<lambda>(rule, path). path_forward_groups E ing path) (ingress_paths ing)) (\<lambda>gs.
       Inr (if length (concat gs) \<noteq> 0 then (True, concat gs) else (False, [])))"

subsection \<open>Server groups of the actions are built\<close>

abbreviation actions_built :: "resource_uid set \<Rightarrow> alb_action list \<Rightarrow> bool" where
  "actions_built L as \<equiv> (\<forall>a \<in> set as. action_refs a \<subseteq> L)"

lemma action_refs_simps [simp]:
  "action_refs zero_action = {}"
  "action_refs (a\<lparr>act_Type := ty\<rparr>) = action_refs a"
  "action_refs (a\<lparr>act_FixedResponseConfig := x1\<rparr>) = action_refs a"
  "action_refs (a\<lparr>act_RedirectConfig := x2\<rparr>) = action_refs a"
  "action_refs (a\<lparr>act_InsertHeaderConfig := x3\<rparr>) = action_refs a"
  "action_refs (a\<lparr>act_RemoveHeaderConfig := x4\<rparr>) = action_refs a"
  "action_refs (a\<lparr>act_RewriteConfig := x5\<rparr>) = action_refs a"
  "action_refs (a\<lparr>act_TrafficMirrorConfig := x6\<rparr>) = action_refs a"
  "action_refs (a\<lparr>act_TrafficLimitConfig := x7\<rparr>) = action_refs a"
  "action_refs (a\<lparr>act_CorsConfig := x8\<rparr>) = action_refs a"
  "action_refs (a\<lparr>act_ForwardConfig := Some ts\<rparr>) = \<Union> (tuple_refs ` set ts)"
  by (simp_all add: action_refs_def zero_action_def)

lemma action_refs_built [simp]:
  "action_refs (buildActionViaHostAndPath p) = {}" "action_refs (limit_action q i) = {}"
  "action_refs (forward_action ts) = \<Union> (tuple_refs ` set ts)"
  by (simp_all add: buildActionViaHostAndPath_def limit_action_def forward_action_def)

lemma action_refs_cors: "a \<in> set (cors_actions ing) \<Longrightarrow> action_refs a = {}"
  by (auto simp: cors_actions_def split: if_splits)

lemma action_refs_rewrite: "a \<in> set (rewrite_actions ing) \<Longrightarrow> action_refs a = {}"
  by (auto simp: rewrite_actions_def split: sum.splits)

lemma buildQpsLimitAction_refs: "buildQpsLimitAction q i = Inr a \<Longrightarrow> action_refs a = {}"
  by (auto simp: buildQpsLimitAction_def bind_res_Inr_iff split: if_splits)

lemma limit_actions_refs: "limit_actions q i = Inr as \<Longrightarrow> actions_built L as"
  by (auto simp: limit_actions_def bind_res_Inr_iff dest!: buildQpsLimitAction_refs split: if_splits)

lemma builds_group_tuple:
  "builds K (\<lambda>L t. tuple_refs t \<subseteq> L)
     (bindP (buildServerGroup E ing svc port) (\<lambda>token.
        returnP \<lparr>sgt_ServerGroupID = Some token, sgt_ServiceName = n, sgt_ServicePort = p, sgt_Weight = w\<rparr>))"
  by (rule builds_bind [OF builds_buildServerGroup]) (auto intro!: builds_return simp: tuple_refs_def)

lemma builds_tuples:
  assumes "\<And>x L. x \<in> set xs \<Longrightarrow> builds L (\<lambda>L t. tuple_refs t \<subseteq> L) (f x)"
  shows "builds K (\<lambda>L ts. \<forall>t \<in> set ts. tuple_refs t \<subseteq> L) (mapP f xs)"
  using assms by (intro builds_mapP) auto

lemma builds_buildForwardCanarySGP:
  "builds K (\<lambda>L ts. \<forall>t \<in> set ts. tuple_refs t \<subseteq> L) (buildForwardCanarySGP E cs)"
  unfolding buildForwardCanarySGP_def forward_tuple_def
  by (rule builds_tuples) (auto intro: builds_group_tuple split: prod.splits)

lemma builds_forward_groups:
  "builds K (\<lambda>L ts. \<forall>t \<in> set ts. tuple_refs t \<subseteq> L) (forward_groups E ing gs)"
  unfolding forward_groups_def forward_tuple_def by (rule builds_tuples) (rule builds_group_tuple)

lemma builds_buildActionForwardSGP: "builds K (\<lambda>L a. action_refs a \<subseteq> L) (buildActionForwardSGP E ing path wc cs)"
proof -
  have "builds K (\<lambda>L ts. \<forall>t \<in> set ts. tuple_refs t \<subseteq> L) (if wc then buildForwardCanarySGP E cs else returnP [])" for K
    by (auto intro: builds_buildForwardCanarySGP builds_return)
  then show ?thesis unfolding buildActionForwardSGP_def Let_def
    by (intro builds_bind [OF builds_lift [where Q = "\<lambda>_ _. True"]] builds_if builds_return
        builds_bind [OF builds_buildForwardCanarySGP] builds_bind [OF builds_forward_groups]
        builds_bind [where R = "\<lambda>L ts. \<forall>t \<in> set ts. tuple_refs t \<subseteq> L"]) (auto, blast+)
qed

lemma builds_buildAnnotationForwardAction:
  "builds K (\<lambda>L a. action_refs a \<subseteq> L) (buildAnnotationForwardAction E ing action)"
  unfolding buildAnnotationForwardAction_def
  by (intro builds_bind [OF builds_lift [where Q = "\<lambda>_ _. True"]] builds_bind [OF builds_tuples] builds_if
      builds_group_tuple builds_return)
    (auto simp: tuple_refs_def forward_tuple_def, blast)

lemma builds_toCustomAction: "builds K (\<lambda>L a. action_refs a \<subseteq> L) (toCustomAction E ing action)"
  unfolding toCustomAction_def Let_def
  by (intro builds_if builds_wrap builds_buildAnnotationForwardAction builds_bind [OF builds_lift [where Q = "\<lambda>_ _. True"]] builds_return)
    (auto simp: buildTrafficMirrorAction_def bind_res_Inr_iff intro!: builds_lift builds_throw builds_return
      dest!: buildQpsLimitAction_refs split: sum.splits)

lemma builds_annotation_actions: "builds K actions_built (annotation_actions E ing svc q i)"
  unfolding annotation_actions_def
  by (auto split: option.splits prod.splits intro!: builds_return builds_throw builds_mapP builds_if builds_toCustomAction)

lemma builds_final_actions: "builds K actions_built (final_actions E ing path svc cs)"
  unfolding final_actions_def
  by (intro builds_if builds_bind [OF builds_buildActionForwardSGP] builds_return) auto

lemma builds_buildRuleActions: "builds K actions_built (buildRuleActions E ing path cs listen443)"
proof -
  have limit: "builds K actions_built (liftP (limit_actions q i))" for K q i
    by (rule builds_lift) (auto dest: limit_actions_refs)
  show ?thesis unfolding buildRuleActions_def Let_def
    by (intro builds_bind [OF limit] builds_bind [OF builds_lift [where Q = "\<lambda>_ _. True"]] builds_if
        builds_bind [OF builds_annotation_actions] builds_bind [OF builds_final_actions] builds_throw builds_return)
      (auto simp: order_actions_def dest: action_refs_cors action_refs_rewrite, blast+)
qed

lemma builds_buildAction: "builds K (\<lambda>L a. action_refs a \<subseteq> L) (buildAction E ing a)"
  unfolding buildAction_def buildBackendAction_def buildForwardAction_def
  by (intro builds_if builds_lift builds_throw)
    (auto simp: buildFixedResponseAction_def buildRedirectAction_def bind_res_Inr_iff split: if_splits option.splits
      intro!: builds_throw builds_bind [OF builds_forward_groups] builds_return, blast)

subsection \<open>Weights\<close>

lemma foldl_to_int64:
  "foldl (\<lambda>w c. to_int64 (w + f c)) (to_int64 a) cs = to_int64 (a + sum_list (map f cs))"
  by (induction cs arbitrary: a) (simp_all add: to_int64_add add.assoc)

lemma canary_weight_sum: "canary_weight cs = to_int64 (sum_list (map (sgt_Weight \<circ> fst) cs))"
  using foldl_to_int64 [of "sgt_Weight \<circ> fst" 0 cs] by (simp add: canary_weight_def to_int64_def)

lemma to_int64_rest: "to_int64 (to_int64 (a - to_int64 x) + x) = to_int64 a"
  by (simp add: to_int64_def mod_simps algebra_simps)

lemma canary_tuple_weights:
  "buildForwardCanarySGP E cs s = (Inr ts, t) \<Longrightarrow> map sgt_Weight ts = map (sgt_Weight \<circ> fst) cs"
  unfolding buildForwardCanarySGP_def
  by (drule mapP_Inr, erule list_all2_induct) (auto simp: prog_Inr forward_tuple_def)

lemma forward_group_weights:
  "forward_groups E ing gs s = (Inr ts, t) \<Longrightarrow> map sgt_Weight ts = map sgt_Weight gs"
  unfolding forward_groups_def
  by (drule mapP_Inr, erule list_all2_induct) (auto simp: prog_Inr forward_tuple_def)

lemma server_groups_via [simp]:
  "server_groups (buildActionViaServiceAndServicePort n p w) =
     [\<lparr>sgt_ServerGroupID = None, sgt_ServiceName = n, sgt_ServicePort = p, sgt_Weight = w\<rparr>]"
  "server_groups (a\<lparr>act_ForwardConfig := Some ts\<rparr>) = ts"
  by (simp_all add: server_groups_def buildActionViaServiceAndServicePort_def forward_action_def)

lemma act_Type_via [simp]: "act_Type (buildActionViaServiceAndServicePort n p w) = ''ForwardGroup''"
  by (simp add: buildActionViaServiceAndServicePort_def forward_action_def)

text \<open>The three ways \<open>buildActionForwardSGP\<close> succeeds.\<close>

lemma forward_cases:
  assumes "buildActionForwardSGP E ing path wc cs s = (Inr a, t)"
  shows "act_Type a = ''ForwardGroup''"
    and "map sgt_Weight (server_groups a) =
      (if \<not> wc then [100] else if canary_weight cs = 100 then map (sgt_Weight \<circ> fst) cs
       else to_int64 (100 - canary_weight cs) # map (sgt_Weight \<circ> fst) cs)"
proof -
  have "act_Type a = ''ForwardGroup'' \<and> map sgt_Weight (server_groups a) =
      (if \<not> wc then [100] else if canary_weight cs = 100 then map (sgt_Weight \<circ> fst) cs
       else to_int64 (100 - canary_weight cs) # map (sgt_Weight \<circ> fst) cs)"
    using assms unfolding buildActionForwardSGP_def Let_def
    by (cases wc; cases "canary_weight cs = 100")
      (auto simp: prog_Inr dest!: canary_tuple_weights forward_group_weights)
  then show "act_Type a = ''ForwardGroup''"
    and "map sgt_Weight (server_groups a) =
      (if \<not> wc then [100] else if canary_weight cs = 100 then map (sgt_Weight \<circ> fst) cs
       else to_int64 (100 - canary_weight cs) # map (sgt_Weight \<circ> fst) cs)" by simp_all
qed

subsection \<open>Which actions come out\<close>

lemma final_actions_cases:
  assumes "final_actions E ing path svc cs s = (Inr fin, t)"
  shows "if isv_PortName svc = ''use-annotation'' then fin = [] else \<exists>a. fin = [a] \<and> is_final a"
  using assms unfolding final_actions_def
  by (auto simp: prog_Inr is_final_def split: if_splits dest!: forward_cases(1))

lemma buildRuleActions_cases:
  assumes "buildRuleActions E ing path cs listen443 s = (Inr as, t)"
  obtains (redirect) pre where "both_annotation ''ssl-redirect'' ing = ''true''" "\<not> listen443"
      "as = filter kept_on_ssl_redirect pre @ [buildActionViaHostAndPath (ipt_Path path)]"
    | (ordered) raw svc fin where "\<not> (both_annotation ''ssl-redirect'' ing = ''true'' \<and> \<not> listen443)"
      "ipt_Service path = Some svc" "as = order_actions (raw @ fin)" "length (filter is_final (raw @ fin)) \<le> 1"
      "if isv_PortName svc = ''use-annotation'' then fin = [] else \<exists>a. fin = [a] \<and> is_final a"
proof -
  let ?redirect = "both_annotation ''ssl-redirect'' ing = ''true'' \<and> \<not> listen443"
  from assms obtain svc raw u where svc: "ipt_Service path = Some svc"
    and rest: "(if ?redirect then returnP (filter kept_on_ssl_redirect raw @ [buildActionViaHostAndPath (ipt_Path path)])
      else bindP (final_actions E ing path svc cs) (\<lambda>fin.
        if length (filter is_final (raw @ fin)) > 1 then throwP (Errorf ''multi finalType action find'')
        else returnP (order_actions (raw @ fin)))) u = (Inr as, t)"
    unfolding buildRuleActions_def Let_def backend_service_def deref_def
    by (simp only: bindP_Inr_iff liftP_def prod.inject sum.inject) (force split: option.splits)
  show ?thesis
  proof (cases ?redirect)
    case True
    with rest show ?thesis by (intro redirect) (auto simp: returnP_def)
  next
    case False
    with rest obtain fin v where fin: "final_actions E ing path svc cs u = (Inr fin, v)"
      and out: "(if length (filter is_final (raw @ fin)) > 1 then throwP (Errorf ''multi finalType action find'')
        else returnP (order_actions (raw @ fin))) v = (Inr as, t)"
      by (simp only: if_False bindP_Inr_iff) blast
    from out have "length (filter is_final (raw @ fin)) \<le> 1" "as = order_actions (raw @ fin)"
      by (simp_all add: returnP_def throwP_def del: filter_append split: if_splits)
    with False svc final_actions_cases [OF fin] show ?thesis by (intro ordered)
  qed
qed

subsection \<open>Properties\<close>

text \<open>
  (C21) However many canary ingresses a path has, the weights of the server groups that the
  forward action gets add up to 100, in the arithmetic of Go's 64-bit integers.
\<close>

theorem forward_weights_total:
  assumes "buildActionForwardSGP E ing path withCanary cs s = (Inr a, t)"
  shows "to_int64 (sum_list (map sgt_Weight (server_groups a))) = 100"
proof -
  let ?x = "sum_list (map (sgt_Weight \<circ> fst) cs)"
  have h: "to_int64 100 = 100" by (simp add: to_int64_def)
  have "to_int64 (to_int64 (100 - to_int64 ?x) + ?x) = 100" using to_int64_rest [of 100 ?x] h by simp
  then show ?thesis
    using forward_cases(2) [OF assms] h by (simp add: canary_weight_sum split: if_splits)
qed

definition demo_canary :: canary where
  "demo_canary = (\<lparr>sgt_ServerGroupID = None, sgt_ServiceName = ''b'', sgt_ServicePort = 80, sgt_Weight = 30\<rparr>, demo_ingress)"

lemma demo_forward:
  "\<exists>a t. buildActionForwardSGP demo_build_env demo_ingress demo_path True [demo_canary] demo_build_state = (Inr a, t) \<and>
    map sgt_Weight (server_groups a) = [70, 30]"
proof -
  let ?r = "fst (buildActionForwardSGP demo_build_env demo_ingress demo_path True [demo_canary] demo_build_state)"
  have "(case ?r of Inl _ \<Rightarrow> False | Inr a \<Rightarrow> map sgt_Weight (server_groups a) = [70, 30])" by code_simp
  then obtain a where "?r = Inr a" "map sgt_Weight (server_groups a) = [70, 30]" by (auto split: sum.splits)
  then show ?thesis by (metis prod.collapse)
qed

theorem forward_weights_total_witness:
  "\<exists>a t. buildActionForwardSGP demo_build_env demo_ingress demo_path True [demo_canary] demo_build_state = (Inr a, t) \<and>
    to_int64 (sum_list (map sgt_Weight (server_groups a))) = 100"
proof -
  obtain a t where "buildActionForwardSGP demo_build_env demo_ingress demo_path True [demo_canary] demo_build_state = (Inr a, t)"
    using demo_forward by blast
  with forward_weights_total [OF this] show ?thesis by blast
qed

text \<open>
  (C22) The actions of a rule come out in the order the load balancer wants: limits, then
  header, rewrite, cross-origin and mirror actions, then at most one action that ends the
  request, exactly one if the backend is not left to the annotation.  On a redirect to HTTPS
  the redirect ends the list, and only limit, header and cross-origin actions precede it.
\<close>

theorem rule_actions_ordered:
  assumes "buildRuleActions E ing path cs listen443 s = (Inr as, t)"
  shows "if both_annotation ''ssl-redirect'' ing = ''true'' \<and> \<not> listen443 then
      \<exists>pre. as = pre @ [buildActionViaHostAndPath (ipt_Path path)] \<and> list_all kept_on_ssl_redirect pre
    else \<exists>lim ext fin svc. as = lim @ ext @ fin \<and> list_all is_limit lim \<and> list_all is_ext ext \<and> list_all is_final fin \<and>
      ipt_Service path = Some svc \<and> length fin \<le> 1 \<and> (isv_PortName svc \<noteq> ''use-annotation'' \<longrightarrow> length fin = 1)"
  using assms
proof (cases rule: buildRuleActions_cases)
  case (redirect pre)
  then show ?thesis by (auto simp: list_all_iff)
next
  case (ordered raw svc fin)
  then have "length (filter is_final (raw @ fin)) = 1" if "isv_PortName svc \<noteq> ''use-annotation''" using that by auto
  with ordered show ?thesis
    by (intro if_not_P [THEN iffD2] exI [of _ "filter is_limit (raw @ fin)"] exI [of _ "filter is_ext (raw @ fin)"]
        exI [of _ "filter is_final (raw @ fin)"] exI [of _ svc]) (auto simp: order_actions_def list_all_iff)
qed

theorem rule_actions_ordered_witness:
  "\<exists>as t lim ext fin. buildRuleActions demo_build_env demo_ingress demo_path [demo_canary] False demo_build_state = (Inr as, t) \<and>
    as = lim @ ext @ fin \<and> list_all is_limit lim \<and> list_all is_ext ext \<and> list_all is_final fin \<and> length fin = 1"
proof -
  let ?r = "fst (buildRuleActions demo_build_env demo_ingress demo_path [demo_canary] False demo_build_state)"
  have "(case ?r of Inl _ \<Rightarrow> False | Inr as \<Rightarrow> True)" by code_simp
  then obtain as where "?r = Inr as" by (auto split: sum.splits)
  then obtain t where t: "buildRuleActions demo_build_env demo_ingress demo_path [demo_canary] False demo_build_state = (Inr as, t)"
    by (metis prod.collapse)
  have a: "both_annotation ''ssl-redirect'' demo_ingress \<noteq> ''true''" by code_simp
  have p: "\<forall>svc. ipt_Service demo_path = Some svc \<longrightarrow> isv_PortName svc \<noteq> ''use-annotation''" by (simp add: demo_path_def)
  from rule_actions_ordered [OF t] a p t show ?thesis by auto
qed

text \<open>
  An action of an unknown type in the annotation, and a traffic limit that is refused,
  are meant to be reported as errors, but the reconciler panics: the last statement of
  \<open>toCustomAction\<close> dereferences the action that was never made.
\<close>

theorem bad_annotation_action_panics:
  assumes "ToLower (ca_Type action) \<notin> set [''fixedresponse'', ''redirect'', ''insertheader'', ''trafficmirror'', ''removeheader'',
      ''forwardgroup'', ''rewrite'', ''trafficlimit''] \<or>
    ToLower (ca_Type action) = ''trafficlimit'' \<and>
      (\<exists>qps ip e. ca_TrafficLimitConfig action = Some (qps, ip) \<and> buildQpsLimitAction qps ip = Inl e)"
  shows "toCustomAction E ing action s = (Inl (Panic ''nil pointer dereference''), s)"
  using assms unfolding toCustomAction_def Let_def
  by (elim disjE conjE exE) (simp_all add: throwP_def)

theorem bad_annotation_action_panics_witness:
  "toCustomAction demo_build_env demo_ingress (zero_cfg_action\<lparr>ca_Type := ''Forward''\<rparr>) demo_build_state =
     (Inl (Panic ''nil pointer dereference''), demo_build_state)"
  by (rule bad_annotation_action_panics) (simp add: zero_cfg_action_def ToLower_def lower_char_def)

end
