(* ===== verification/Build_Rules.thy ===== *)
theory Build_Rules
  imports Build_Rule_Actions
begin

text \<open>
  The conditions of a forwarding rule and the rules of a listener: the rest of
  \<open>builder/albconfig_manager/model_build_listener_rules.go\<close>.
\<close>

subsection \<open>Path patterns\<close>

definition has_wildcard :: "string \<Rightarrow> bool" where
  "has_wildcard path \<longleftrightarrow> CHR ''*'' \<in> set path \<or> CHR ''?'' \<in> set path"

definition buildPathPatternsForImplementationSpecificPathType :: "string \<Rightarrow> string list res" where
  "buildPathPatternsForImplementationSpecificPathType path = Inr [path]"

definition buildPathPatternsForExactPathType :: "string \<Rightarrow> string list res" where
  "buildPathPatternsForExactPathType path =
     (if has_wildcard path then Inl (Errorf ''exact path shouldn't contain wildcards'') else Inr [path])"

definition trim_slash :: "string \<Rightarrow> string" where
  "trim_slash path = (if path \<noteq> [] \<and> last path = CHR ''/'' then butlast path else path)"

definition uses_regex :: "string \<Rightarrow> ingress \<Rightarrow> bool" where
  "uses_regex path ing \<longleftrightarrow>
     (\<exists>sfx \<in> set [''rewrite-target'', ''use-regex''].
        case GetStringAnnotation (alb_annotation sfx) ing of Inl _ \<Rightarrow> False | Inr v \<Rightarrow> v \<noteq> path)"

definition buildPathPatternsForPrefixPathType :: "string \<Rightarrow> ingress \<Rightarrow> string list res" where
  "buildPathPatternsForPrefixPathType path ing =
     (if path = ''/'' then Inr [''/*'']
      else if uses_regex path ing then Inr [''~*'' @ path]
      else if has_wildcard path then Inl (Errorf ''prefix path shouldn't contain wildcards'')
      else Inr [trim_slash path, trim_slash path @ ''/*''])"

definition buildPathPatterns :: "string \<Rightarrow> string option \<Rightarrow> ingress \<Rightarrow> string list res" where
  "buildPathPatterns path pathType ing =
     (let normalizedPathType = (case pathType of None \<Rightarrow> ''ImplementationSpecific'' | Some t \<Rightarrow> t)
      in if normalizedPathType = ''ImplementationSpecific'' then
           buildPathPatternsForImplementationSpecificPathType path
         else if normalizedPathType = ''Exact'' then buildPathPatternsForExactPathType path
         else if normalizedPathType = ''Prefix'' then buildPathPatternsForPrefixPathType path ing
         else Inl (Errorf ''unsupported pathType''))"

subsection \<open>Conditions\<close>

definition buildSourceIpCondition :: "string list \<Rightarrow> alb_condition" where
  "buildSourceIpCondition ips = zero_condition\<lparr>cnd_Type := ''SourceIp'', cnd_SourceIp := ips\<rparr>"

definition buildHostHeaderCondition :: "string list \<Rightarrow> alb_condition" where
  "buildHostHeaderCondition hosts = zero_condition\<lparr>cnd_Type := ''Host'', cnd_Host := hosts\<rparr>"

definition buildMethodCondition :: "string list \<Rightarrow> alb_condition" where
  "buildMethodCondition methods = zero_condition\<lparr>cnd_Type := ''Method'', cnd_Method := methods\<rparr>"

definition buildHeaderCondition :: "string \<Rightarrow> string list \<Rightarrow> alb_condition" where
  "buildHeaderCondition key values = zero_condition\<lparr>cnd_Type := ''Header'', cnd_Header := (key, values)\<rparr>"

definition buildCookieCondition :: "string \<Rightarrow> string \<Rightarrow> alb_condition" where
  "buildCookieCondition key val = zero_condition\<lparr>cnd_Type := ''Cookie'', cnd_Cookie := [(key, val)]\<rparr>"

definition buildPathPatternCondition :: "string list \<Rightarrow> alb_condition" where
  "buildPathPatternCondition paths = zero_condition\<lparr>cnd_Type := ''Path'', cnd_Path := paths\<rparr>"

definition buildResponseStatusCodeCondition :: "string list \<Rightarrow> alb_condition" where
  "buildResponseStatusCodeCondition codes =
     zero_condition\<lparr>cnd_Type := ''ResponseStatusCode'', cnd_ResponseStatusCode := codes\<rparr>"

text \<open>The lists that the loop over the conditions of the annotation fills.\<close>

record condition_parts =
  cp_conditions :: "alb_condition list"
  cp_hosts :: "string list"
  cp_paths :: "string list"
  cp_methods :: "string list"
  cp_sourceIps :: "string list"
  cp_statusCodes :: "string list"

definition no_parts :: condition_parts where
  "no_parts = \<lparr>cp_conditions = [], cp_hosts = [], cp_paths = [], cp_methods = [], cp_sourceIps = [], cp_statusCodes = []\<rparr>"

definition read_condition :: "alb_condition \<Rightarrow> condition_parts \<Rightarrow> condition_parts res" where
  "read_condition cond p =
     (let ty = ToLower (cnd_Type cond);
          append = (\<lambda>c. Inr (p\<lparr>cp_conditions := cp_conditions p @ [c]\<rparr>))
      in if ty = ''host'' then Inr (p\<lparr>cp_hosts := cp_hosts p @ cnd_Host cond\<rparr>)
         else if ty = ''path'' then Inr (p\<lparr>cp_paths := cp_paths p @ cnd_Path cond\<rparr>)
         else if ty = ''method'' then Inr (p\<lparr>cp_methods := cp_methods p @ cnd_Method cond\<rparr>)
         else if ty = ''sourceip'' then Inr (p\<lparr>cp_sourceIps := cp_sourceIps p @ cnd_SourceIp cond\<rparr>)
         else if ty = ''responsestatuscode'' then
           Inr (p\<lparr>cp_statusCodes := cp_statusCodes p @ cnd_ResponseStatusCode cond\<rparr>)
         else if ty = ''header'' then append (zero_condition\<lparr>cnd_Type := ''Header'', cnd_Header := cnd_Header cond\<rparr>)
         else if ty = ''querystring'' then
           append (zero_condition\<lparr>cnd_Type := ''QueryString'', cnd_QueryString := cnd_QueryString cond\<rparr>)
         else if ty = ''cookie'' then append (zero_condition\<lparr>cnd_Type := ''Cookie'', cnd_Cookie := cnd_Cookie cond\<rparr>)
         else if ty = ''responseheader'' then
           append (zero_condition\<lparr>cnd_Type := ''ResponseHeader'', cnd_ResponseHeader := cnd_ResponseHeader cond\<rparr>)
         else Inl (Errorf ''readCondition Failed(unknown condition type)''))"

definition annotation_conditions :: "'w build_env \<Rightarrow> ingress \<Rightarrow> string \<Rightarrow> condition_parts res" where
  "annotation_conditions E ing svcName =
     (case map_of (igs_Annotations ing) (alb_annotation (''conditions.'' @ svcName)) of
        None \<Rightarrow> Inr no_parts
      | Some conditionStr \<Rightarrow>
          if conditionStr = [] then Inr no_parts
          else (case t_UnmarshalConditions E conditionStr of
                  (_, Some e) \<Rightarrow> Inl e
                | (conds, None) \<Rightarrow> fold_res read_condition conds no_parts))"

definition nonempty_cond :: "(string list \<Rightarrow> alb_condition) \<Rightarrow> string list \<Rightarrow> alb_condition list" where
  "nonempty_cond build values = (if length values \<noteq> 0 then [build values] else [])"

definition canary_conditions :: "ingress \<Rightarrow> alb_condition list" where
  "canary_conditions ing =
     (if both_annotation ''canary'' ing = ''true'' then
        (if both_annotation ''canary-by-header'' ing \<noteq> [] then
           [buildHeaderCondition (both_annotation ''canary-by-header'' ing) [both_annotation ''canary-by-header-value'' ing]]
         else []) @
        (if both_annotation ''canary-by-cookie'' ing \<noteq> [] then
           [buildCookieCondition (both_annotation ''canary-by-cookie'' ing) ''always''] else [])
      else [])"

definition rule_hosts :: "ingress_rule \<Rightarrow> string list" where
  "rule_hosts rule = (if irl_Host rule \<noteq> [] then [irl_Host rule] else [])"

definition path_patterns :: "ingress_path \<Rightarrow> ingress \<Rightarrow> string list res" where
  "path_patterns path ing =
     (if ipt_Path path \<noteq> [] then buildPathPatterns (ipt_Path path) (ipt_PathType path) ing else Inr [])"

definition or_any_path :: "alb_condition list \<Rightarrow> alb_condition list" where
  "or_any_path cs = (if length cs = 0 then [buildPathPatternCondition [''/*'']] else cs)"

definition buildRuleConditions ::
  "'w build_env \<Rightarrow> ingress_rule \<Rightarrow> ingress_path \<Rightarrow> ingress \<Rightarrow> alb_condition list res" where
  "buildRuleConditions E rule path ing =
     bind_res (backend_service path) (\<lambda>svc.
     bind_res (annotation_conditions E ing (isv_Name svc)) (\<lambda>p.
     bind_res (path_patterns path ing) (\<lambda>patterns.
     Inr (or_any_path
       (cp_conditions p @
        nonempty_cond buildHostHeaderCondition (cp_hosts p @ rule_hosts rule) @
        nonempty_cond buildPathPatternCondition (cp_paths p @ patterns) @
        nonempty_cond buildMethodCondition (cp_methods p) @
        nonempty_cond buildSourceIpCondition (cp_sourceIps p) @
        nonempty_cond buildResponseStatusCodeCondition (cp_statusCodes p) @
        canary_conditions ing)))))"

definition buildRuleConditionsCommon ::
  "'w build_env \<Rightarrow> ingress_rule \<Rightarrow> ingress_path \<Rightarrow> ingress \<Rightarrow> alb_condition list res" where
  "buildRuleConditionsCommon E rule path ing =
     bind_res (path_patterns path ing) (\<lambda>patterns.
     bind_res (backend_service path) (\<lambda>svc.
     let conditionStr = index_str (igs_Annotations ing) (alb_annotation (''conditions.'' @ isv_Name svc));
         base = nonempty_cond buildHostHeaderCondition (rule_hosts rule) @ nonempty_cond buildPathPatternCondition patterns
     in if conditionStr = [] then Inr (or_any_path base)
        else (case t_UnmarshalConditions E conditionStr of
                (_, Some e) \<Rightarrow> Inl (wrap_err ''buildRuleConditionsCommon: Unmarshal: '' e)
              | (items, None) \<Rightarrow> Inr (or_any_path (base @ items)))))"

definition buildRuleDirection :: "ingress_path \<Rightarrow> ingress \<Rightarrow> string res" where
  "buildRuleDirection path ing =
     bind_res (backend_service path) (\<lambda>svc.
       case map_of (igs_Annotations ing) (alb_annotation (''rule-direction.'' @ isv_Name svc)) of
         None \<Rightarrow> Inr ''Request''
       | Some direction \<Rightarrow>
           if direction = ''Request'' \<or> direction = ''Response'' then Inr direction
           else Inl (Errorf ''readDirection Failed(unknown direction type)''))"

subsection \<open>Canaries\<close>

text \<open>Here \<open>rule.HTTP\<close> is read without a check for nil.\<close>

definition checkCanaryAndCustomizeCondition :: "ingress \<Rightarrow> unit res" where
  "checkCanaryAndCustomizeCondition ing =
     bind_res (map_res (\<lambda>rule. bind_res (deref (irl_HTTP rule)) (\<lambda>paths.
         map_res (\<lambda>path. bind_res (backend_service path) (\<lambda>svc.
           if has_key (igs_Annotations ing) (alb_annotation (''conditions.'' @ isv_Name svc)) then
             Inl (Errorf ''can't exist Canary and customize condition at the same time'')
           else Inr ())) paths)) (igs_Rules ing))
       (\<lambda>_. Inr ())"

definition getIfOnlyWeight :: "ingress \<Rightarrow> int" where
  "getIfOnlyWeight ing =
     (if both_annotation ''canary-by-header'' ing \<noteq> [] \<or> both_annotation ''canary-by-header-value'' ing \<noteq> [] \<or>
         both_annotation ''canary-by-cookie'' ing \<noteq> [] then 0
      else Atoi_value (both_annotation ''canary-weight'' ing))"

definition path_key :: "ingress_rule \<Rightarrow> ingress_path \<Rightarrow> string" where
  "path_key rule path = irl_Host rule @ ''-'' @ ipt_Path path"

text \<open>The canaries by host and path, and the paths that are not of a canary.\<close>

type_synonym canaries = "(string \<times> canary list) list"

definition canaries_of :: "canaries \<Rightarrow> string \<Rightarrow> canary list" where
  "canaries_of m k = (case map_of m k of None \<Rightarrow> [] | Some cs \<Rightarrow> cs)"

definition add_canary :: "ingress \<Rightarrow> int \<Rightarrow> ingress_rule \<times> ingress_path \<Rightarrow> canaries \<Rightarrow> canaries res" where
  "add_canary ing weight rp m =
     (case rp of (rule, path) \<Rightarrow>
        bind_res (backend_service path) (\<lambda>svc.
        let k = path_key rule path
        in Inr (map_set k (canaries_of m k @
             [(\<lparr>sgt_ServerGroupID = None, sgt_ServiceName = isv_Name svc, sgt_ServicePort = isv_PortNumber svc,
                sgt_Weight = weight\<rparr>, ing)]) m)))"

definition collect_canary ::
  "'w build_env \<Rightarrow> ingress \<Rightarrow> canaries \<times> string list \<Rightarrow> (canaries \<times> string list) res" where
  "collect_canary E ing acc =
     (case acc of (m, nonCanaryPath) \<Rightarrow>
        if both_annotation ''canary'' ing = ''true'' then
          bind_res (checkCanaryAndCustomizeCondition ing) (\<lambda>_.
          let weight = getIfOnlyWeight ing
          in if weight = 0 then Inr (m, nonCanaryPath)
             else bind_res (CheckAnnotationForwardAction E ing) (\<lambda>(found, _).
               if found then Inl (Errorf ''can't exist CanaryWeight and annotation forwardAction at the same time'')
               else bind_res (fold_res (add_canary ing weight) (ingress_paths ing) m) (\<lambda>m'. Inr (m', nonCanaryPath))))
        else Inr (m, nonCanaryPath @ map (\<lambda>(rule, path). path_key rule path) (ingress_paths ing)))"

subsection \<open>Which rules a listener gets\<close>

definition withTlsRule :: "string \<Rightarrow> string \<Rightarrow> ingress \<Rightarrow> bool" where
  "withTlsRule protocol host ing \<longleftrightarrow>
     protocol = ''HTTPS'' \<and> length (igs_TLS ing) = 0 \<or> host = [] \<or> (\<exists>tls \<in> set (igs_TLS ing). host \<in> set (tls_Hosts tls))"

definition forceListenIngress :: "ingress \<Rightarrow> bool" where
  "forceListenIngress ing \<longleftrightarrow>
     both_annotation ''ssl-redirect'' ing = ''true'' \<or>
     (case GetStringAnnotation (alb_annotation ''listen-ports'') ing of Inl _ \<Rightarrow> False | Inr _ \<Rightarrow> True)"

definition rule_skipped :: "string \<Rightarrow> ingress \<Rightarrow> ingress_rule \<Rightarrow> bool" where
  "rule_skipped protocol ing rule \<longleftrightarrow>
     irl_Host rule \<noteq> [] \<and> \<not> forceListenIngress ing \<and>
     (protocol = ''HTTPS'' \<and> \<not> withTlsRule protocol (irl_Host rule) ing \<or>
      protocol = ''HTTP'' \<and> withTlsRule protocol (irl_Host rule) ing)"

definition listener_paths ::
  "string \<Rightarrow> string list \<Rightarrow> ingress list \<Rightarrow> (ingress \<times> ingress_rule \<times> ingress_path) list" where
  "listener_paths protocol nonCanaryPath ingList =
     concat (map (\<lambda>ing.
       if both_annotation ''canary'' ing = ''true'' \<and> both_annotation ''canary-weight'' ing \<noteq> [] then []
       else map (Pair ing)
         (filter (\<lambda>(rule, path). \<not> rule_skipped protocol ing rule \<and> path_key rule path \<in> set nonCanaryPath) (ingress_paths ing)))
       ingList)"

record rule_draft =
  df_Actions :: "alb_action list"
  df_Conditions :: "alb_condition list"
  df_Direction :: string

definition build_rule_draft ::
  "'w build_env \<Rightarrow> int \<Rightarrow> canaries \<Rightarrow> ingress \<times> ingress_rule \<times> ingress_path \<Rightarrow> ('w, 'f, rule_draft) build_prog" where
  "build_rule_draft E port m irp =
     (case irp of (ing, rule, path) \<Rightarrow>
        bindP (record_error ing ''buildListenerRules-Actions: ''
                 (buildRuleActions E ing path (canaries_of m (path_key rule path)) (port = 443))) (\<lambda>actions.
        bindP (record_error ing ''buildListenerRules-Conditions: '' (liftP (buildRuleConditions E rule path ing))) (\<lambda>conditions.
        bindP (record_error ing ''buildListenerRules-Direction: '' (liftP (buildRuleDirection path ing))) (\<lambda>direction.
        returnP \<lparr>df_Actions = actions, df_Conditions = conditions, df_Direction = direction\<rparr>))))"

subsection \<open>Listener rules\<close>

definition new_rule :: "id_token \<Rightarrow> string \<Rightarrow> int \<Rightarrow> nat \<times> rule_draft \<Rightarrow> ('w, 'f, unit) build_prog" where
  "new_rule lsID pre port pr =
     (case pr of (priority, d) \<Rightarrow>
        NewListenerRule (pre @ '':'' @ Itoa (int priority)) lsID (int priority) (df_Direction d)
          \<lparr>lrs_RuleName = ''rule-'' @ Itoa port @ ''-'' @ Itoa (int priority), lrs_RuleActions = df_Actions d,
           lrs_RuleConditions = df_Conditions d\<rparr>)"

definition add_rules :: "id_token \<Rightarrow> string \<Rightarrow> int \<Rightarrow> rule_draft list \<Rightarrow> ('w, 'f, unit) build_prog" where
  "add_rules lsID pre port rules = forP (new_rule lsID pre port) (zip [1..<Suc (length rules)] rules)"

text \<open>The form of the annotations before they were lists, for knative: errors skip the path.\<close>

definition common_rule_draft ::
  "'w build_env \<Rightarrow> int \<Rightarrow> ingress \<times> ingress_rule \<times> ingress_path \<Rightarrow> ('w, 'f, rule_draft) build_prog" where
  "common_rule_draft E port irp =
     (case irp of (ing, rule, path) \<Rightarrow>
        bindP (liftP (backend_service path)) (\<lambda>svc.
        let actionStr = index_str (igs_Annotations ing) (alb_annotation (''actions.'' @ isv_Name svc))
        in bindP
             (if actionStr = [] then returnP []
              else (case t_UnmarshalAction E actionStr of
                 (_, Some e) \<Rightarrow> throwP e
               | (action, None) \<Rightarrow>
                   bindP (buildAction E ing action) (\<lambda>a.
                   returnP (if string_annotation (alb_annotation ''ssl-redirect'') ing = ''true'' \<and> port \<noteq> 443
                     then [buildActionViaHostAndPath (ipt_Path path)] else [a])))) (\<lambda>actions.
           bindP (liftP (buildRuleConditionsCommon E rule path ing)) (\<lambda>conditions.
           returnP \<lparr>df_Actions = actions, df_Conditions = conditions, df_Direction = []\<rparr>))))"

definition buildListenerRulesCommon ::
  "'w build_env \<Rightarrow> id_token \<Rightarrow> int \<Rightarrow> ingress list \<Rightarrow> ('w, 'f, unit) build_prog" where
  "buildListenerRulesCommon E lsID port ingList =
     bindP (mapP (\<lambda>irp. tryP (common_rule_draft E port irp))
              (concat (map (\<lambda>ing. map (Pair ing) (ingress_paths ing)) ingList))) (\<lambda>rs.
     add_rules lsID (Itoa port) port (concat (map (\<lambda>r. case r of Inl _ \<Rightarrow> [] | Inr d \<Rightarrow> [d]) rs)))"

definition old_knative :: "ingress list \<Rightarrow> bool" where
  "old_knative ingList \<longleftrightarrow>
     (case ingList of
        [] \<Rightarrow> False
      | ing # _ \<Rightarrow>
          has_key (igs_Labels ing) ''knative.aliyun.com/ingress'' \<and>
          (\<exists>(k, actionStr) \<in> set (igs_Annotations ing).
             HasPrefix k ''alb.ingress.kubernetes.io/actions'' \<and> \<not> HasPrefix actionStr ''[''))"

definition buildListenerRules ::
  "'w build_env \<Rightarrow> id_token \<Rightarrow> int \<Rightarrow> string \<Rightarrow> ingress list \<Rightarrow> ('w, 'f, unit) build_prog" where
  "buildListenerRules E lsID port protocol ingList =
     (if old_knative ingList then buildListenerRulesCommon E lsID port ingList
      else
        bindP (foldP (\<lambda>ing acc. record_error ing [] (liftP (collect_canary E ing acc))) ingList ([], [])) (\<lambda>(m, nonCanaryPath).
        bindP (mapP (build_rule_draft E port m) (listener_paths protocol nonCanaryPath ingList)) (\<lambda>rules.
        add_rules lsID (Itoa port @ ''-'' @ protocol) port rules)))"

subsection \<open>What the rules refer to is built\<close>

lemma builds_build_rule_draft:
  "builds K (\<lambda>L d. actions_built L (df_Actions d)) (build_rule_draft E port m irp)"
proof -
  have lift: "builds L (\<lambda>_ _. True) (record_error ing pre (liftP r))" for L ing pre r
    by (rule builds_record_error [OF builds_lift]) auto
  have acts: "builds L actions_built (record_error ing pre (buildRuleActions E ing path cs b))" for L ing pre path cs b
    by (rule builds_record_error [OF builds_buildRuleActions]) auto
  show ?thesis unfolding build_rule_draft_def
    by (auto split: prod.splits intro!: builds_bind [OF acts] builds_bind [OF lift] builds_return) blast
qed

lemma builds_common_rule_draft:
  "builds K (\<lambda>L d. actions_built L (df_Actions d)) (common_rule_draft E port irp)"
proof -
  have acts: "builds L actions_built
    (if s = [] then returnP []
     else (case t_UnmarshalAction E s of
        (_, Some e) \<Rightarrow> throwP e
      | (action, None) \<Rightarrow>
          bindP (buildAction E ing action) (\<lambda>a.
          returnP (if c then [buildActionViaHostAndPath p] else [a]))))" for L s ing c p
    by (auto split: prod.splits option.splits if_splits intro!: builds_return builds_throw builds_bind [OF builds_buildAction])
  obtain ing rule path where irp: "irp = (ing, rule, path)" by (cases irp)
  show ?thesis unfolding common_rule_draft_def irp Let_def prod.case
    by (intro builds_bind [OF builds_lift [where Q = "\<lambda>_ _. True"]] builds_bind [OF acts] builds_return) (auto, blast)
qed

lemma builds_add_rules:
  assumes "is_listener_token lsID" "set (token_dependencies lsID) \<subseteq> K" "\<forall>d \<in> set rules. actions_built K (df_Actions d)"
  shows "builds K (\<lambda>_ _. True) (add_rules lsID pre port rules)"
  unfolding add_rules_def
proof (rule builds_forP)
  fix x L assume x: "x \<in> set (zip [1..<Suc (length rules)] rules)" and L: "K \<subseteq> L"
  from x have "snd x \<in> set rules" by (metis prod.collapse set_zip_rightD)
  with assms(3) have "actions_built K (df_Actions (snd x))" by blast
  then show "builds L (\<lambda>_ _. True) (new_rule lsID pre port x)"
    unfolding new_rule_def using assms L by (auto split: prod.splits intro!: builds_NewListenerRule) blast
qed

lemma builds_buildListenerRules:
  assumes "is_listener_token lsID" "set (token_dependencies lsID) \<subseteq> K"
  shows "builds K (\<lambda>_ _. True) (buildListenerRules E lsID port protocol ingList)"
proof -
  have add: "builds L (\<lambda>_ _. True) (add_rules lsID pre port rules)"
    if "K \<subseteq> L" "\<forall>d \<in> set rules. actions_built L (df_Actions d)" for L pre rules
    using that assms by (intro builds_add_rules) auto
  have common: "builds K (\<lambda>_ _. True) (buildListenerRulesCommon E lsID port ingList)"
    unfolding buildListenerRulesCommon_def
    by (rule builds_bind [OF builds_mapP [where Q = "\<lambda>L r. \<forall>d. r = Inr d \<longrightarrow> actions_built L (df_Actions d)"]])
      (auto intro!: builds_try builds_common_rule_draft add split: sum.splits, blast)
  have canary: "builds L (\<lambda>_ _. True) (foldP (\<lambda>ing acc. record_error ing [] (liftP (collect_canary E ing acc))) ingList b)" for L b
    by (rule builds_foldP) (auto intro!: builds_record_error builds_lift)
  have "builds L (\<lambda>L ds. \<forall>d \<in> set ds. actions_built L (df_Actions d)) (mapP (build_rule_draft E port m) irps)" for L m irps
    by (rule builds_mapP) (auto intro!: builds_build_rule_draft)
  with common show ?thesis unfolding buildListenerRules_def
    by (auto split: prod.splits intro!: builds_bind [OF canary]
        builds_bind [where R = "\<lambda>L ds. \<forall>d \<in> set ds. actions_built L (df_Actions d)"] add)
qed

subsection \<open>Making drafts adds no rules\<close>

definition no_uid :: "resource_uid \<Rightarrow> ('w, 'f) build_state \<Rightarrow> bool" where
  "no_uid u s \<longleftrightarrow> u \<notin> stack_uids (b_stack s)"

lemma keeps_mapP: "(\<And>x. keeps I (f x)) \<Longrightarrow> keeps I (mapP f xs)"
  by (induction xs) (auto intro: keeps_return keeps_bind)

lemma keeps_foldP: "(\<And>x b. keeps I (f x b)) \<Longrightarrow> keeps I (foldP f xs b)"
  by (induction xs arbitrary: b) (auto intro: keeps_return keeps_bind)

lemma keeps_wrapP: "keeps I m \<Longrightarrow> keeps I (wrapP p m)"
  by (auto simp: keeps_def wrapP_def split: prod.splits)

lemma keeps_record_error: "keeps (no_uid u) m \<Longrightarrow> keeps (no_uid u) (record_error ing pre m)"
  unfolding record_error_def
  by (auto intro!: keeps_bind keeps_try keeps_return keeps_throw keeps_modify split: sum.splits simp: no_uid_def)

lemma stack_uids_new_resource:
  "stack_uids (b_stack (snd (new_resource x tokens s))) = insert (go_type x, res_id x) (stack_uids (b_stack s))"
  by (simp add: new_resource_def modifyP_def stack_uids_add_resource flip: add_dependencies_def)

lemma keeps_buildServerGroup: "fst u \<noteq> ''*alb.ServerGroup'' \<Longrightarrow> keeps (no_uid u) (buildServerGroup E ing svc port)"
proof -
  assume u: "fst u \<noteq> ''*alb.ServerGroup''"
  then have "keeps (no_uid u) (NewServerGroup i key spec)" for i key spec
    by (auto simp: keeps_def no_uid_def NewServerGroup_def stack_uids_new_resource)
  moreover have "keeps (no_uid u) (modifyP (b_sgpByResID_update f))" for f
    by (rule keeps_modify) (simp add: no_uid_def)
  ultimately show ?thesis unfolding buildServerGroup_def Let_def by (intro keeps_parts)
qed

lemma keeps_buildRuleActions:
  assumes u: "fst u \<noteq> ''*alb.ServerGroup''"
  shows "keeps (no_uid u) (buildRuleActions E ing path cs l)"
proof -
  note parts = keeps_parts keeps_mapP keeps_wrapP keeps_buildServerGroup [OF u]
  have canary: "keeps (no_uid u) (buildForwardCanarySGP E cs)" for cs
    unfolding buildForwardCanarySGP_def by (intro parts)
  have groups: "keeps (no_uid u) (forward_groups E ing gs)" for ing gs
    unfolding forward_groups_def by (intro parts)
  have forward: "keeps (no_uid u) (buildActionForwardSGP E ing path wc cs)" for ing path wc cs
    unfolding buildActionForwardSGP_def Let_def by (intro parts canary groups)
  have custom: "keeps (no_uid u) (toCustomAction E ing a)" for ing a
    unfolding toCustomAction_def Let_def buildAnnotationForwardAction_def
    by (intro parts) (auto split: sum.splits intro: keeps_return keeps_throw)
  have "keeps (no_uid u) (annotation_actions E ing svc q i)" for svc q i
    unfolding annotation_actions_def
    by (auto split: option.splits prod.splits intro!: keeps_return keeps_throw keeps_mapP keeps_if custom)
  then show ?thesis unfolding buildRuleActions_def final_actions_def Let_def by (intro parts forward)
qed

lemma keeps_build_rule_draft:
  "fst u \<noteq> ''*alb.ServerGroup'' \<Longrightarrow> keeps (no_uid u) (build_rule_draft E port m irp)"
  unfolding build_rule_draft_def by (intro keeps_parts keeps_record_error keeps_buildRuleActions)

subsection \<open>Numbering of the rules\<close>

definition numbered_rule :: "id_token \<Rightarrow> string \<Rightarrow> int \<Rightarrow> nat \<Rightarrow> rule_draft \<Rightarrow> 'f alb_resource" where
  "numbered_rule lsID pre port n d =
     RRule \<lparr>alr_ID = pre @ '':'' @ Itoa (int n), alr_ListenerID = lsID, alr_Priority = int n, alr_RuleDirection = df_Direction d,
       alr_Spec = LRSpec \<lparr>lrs_RuleName = ''rule-'' @ Itoa port @ ''-'' @ Itoa (int n), lrs_RuleActions = df_Actions d,
         lrs_RuleConditions = df_Conditions d\<rparr>, alr_Status = None\<rparr>"

definition rule_uid :: "string \<Rightarrow> nat \<Rightarrow> resource_uid" where
  "rule_uid pre n = (''*alb.ListenerRule'', pre @ '':'' @ Itoa (int n))"

lemma rule_uid_inject [simp]: "rule_uid pre m = rule_uid pre n \<longleftrightarrow> m = n"
  by (simp add: rule_uid_def Itoa_inject)

lemma lookup_new_resource:
  "map_of (stk_resources (b_stack (snd (new_resource x tokens s)))) u =
     (if u = (go_type x, res_id x) \<and> u \<notin> stack_uids (b_stack s) then Some (as_resource x)
      else map_of (stk_resources (b_stack s)) u)"
  by (auto simp: new_resource_def modifyP_def add_resource_def AddResource_def Let_def has_key_iff stack_uids_def map_of_map_set
      simp flip: add_dependencies_def)

lemma new_rule_run:
  obtains t where "new_rule lsID pre port (n, d) s = (Inr (), t)"
    "stack_uids (b_stack t) = insert (rule_uid pre n) (stack_uids (b_stack s))"
    "\<And>u. map_of (stk_resources (b_stack t)) u =
       (if u = rule_uid pre n \<and> u \<notin> stack_uids (b_stack s) then Some (as_resource (numbered_rule lsID pre port n d))
        else map_of (stk_resources (b_stack s)) u)"
proof
  let ?m = "new_resource (numbered_rule lsID pre port n d) [lsID]"
  have eq: "new_rule lsID pre port (n, d) = ?m"
    by (simp add: new_rule_def NewListenerRule_def numbered_rule_def)
  show "new_rule lsID pre port (n, d) s = (Inr (), snd (?m s))"
    by (simp add: eq) (simp add: new_resource_def modifyP_def)
  have uid: "(go_type (numbered_rule lsID pre port n d), res_id (numbered_rule lsID pre port n d)) = rule_uid pre n"
    by (simp add: numbered_rule_def rule_uid_def)
  show "stack_uids (b_stack (snd (?m s))) = insert (rule_uid pre n) (stack_uids (b_stack s))"
    by (simp only: stack_uids_new_resource uid)
  show "map_of (stk_resources (b_stack (snd (?m s)))) u =
       (if u = rule_uid pre n \<and> u \<notin> stack_uids (b_stack s) then Some (as_resource (numbered_rule lsID pre port n d))
        else map_of (stk_resources (b_stack s)) u)" for u
    by (simp only: lookup_new_resource uid)
qed

lemma add_rules_from:
  assumes "\<And>i. i < length rules \<Longrightarrow> no_uid (rule_uid pre (k + i)) s"
  shows "\<exists>t. forP (new_rule lsID pre port) (zip [k..<k + length rules] rules) s = (Inr (), t) \<and>
    (\<forall>u. u \<notin> rule_uid pre ` {k..<k + length rules} \<longrightarrow> map_of (stk_resources (b_stack t)) u = map_of (stk_resources (b_stack s)) u) \<and>
    (\<forall>i < length rules. map_of (stk_resources (b_stack t)) (rule_uid pre (k + i)) =
       Some (as_resource (numbered_rule lsID pre port (k + i) (rules ! i))))"
  using assms
proof (induction rules arbitrary: k s)
  case Nil
  then show ?case by (simp add: returnP_def)
next
  case (Cons d rules)
  obtain t where t: "new_rule lsID pre port (k, d) s = (Inr (), t)"
      "stack_uids (b_stack t) = insert (rule_uid pre k) (stack_uids (b_stack s))"
    and look: "\<And>u. map_of (stk_resources (b_stack t)) u =
       (if u = rule_uid pre k \<and> u \<notin> stack_uids (b_stack s) then Some (as_resource (numbered_rule lsID pre port k d))
        else map_of (stk_resources (b_stack s)) u)"
    by (rule new_rule_run [of lsID pre port k d s]) (rule that)
  have "no_uid (rule_uid pre (Suc k + i)) t" if "i < length rules" for i
    using Cons.prems [of "Suc i"] that by (simp add: no_uid_def t(2))
  from Cons.IH [OF this] obtain v where v: "forP (new_rule lsID pre port) (zip [Suc k..<Suc k + length rules] rules) t = (Inr (), v)"
    and old: "\<And>u. u \<notin> rule_uid pre ` {Suc k..<Suc k + length rules} \<Longrightarrow> map_of (stk_resources (b_stack v)) u = map_of (stk_resources (b_stack t)) u"
    and new: "\<And>i. i < length rules \<Longrightarrow> map_of (stk_resources (b_stack v)) (rule_uid pre (Suc k + i)) =
       Some (as_resource (numbered_rule lsID pre port (Suc k + i) (rules ! i)))"
    by blast
  have run: "forP (new_rule lsID pre port) (zip [k..<k + length (d # rules)] (d # rules)) s = (Inr (), v)"
    using t(1) v by (simp add: upt_conv_Cons bindP_def del: upt_Suc)
  have fresh: "rule_uid pre k \<notin> stack_uids (b_stack s)" using Cons.prems [of 0] by (simp add: no_uid_def)
  show ?case
  proof (intro exI conjI allI impI, rule run)
    fix u assume u: "u \<notin> rule_uid pre ` {k..<k + length (d # rules)}"
    then have "u \<noteq> rule_uid pre k" by auto
    moreover from u have "u \<notin> rule_uid pre ` {Suc k..<Suc k + length rules}" by auto
    ultimately show "map_of (stk_resources (b_stack v)) u = map_of (stk_resources (b_stack s)) u" using old look by simp
  next
    fix i assume i: "i < length (d # rules)"
    show "map_of (stk_resources (b_stack v)) (rule_uid pre (k + i)) =
        Some (as_resource (numbered_rule lsID pre port (k + i) ((d # rules) ! i)))"
    proof (cases i)
      case 0
      have "rule_uid pre k \<notin> rule_uid pre ` {Suc k..<Suc k + length rules}" by auto
      with 0 old look fresh show ?thesis by simp
    next
      case (Suc j)
      with new [of j] i show ?thesis by simp
    qed
  qed
qed

subsection \<open>Paths that are not of a canary\<close>

definition non_canary_paths :: "ingress list \<Rightarrow> string list" where
  "non_canary_paths ings =
     concat (map (\<lambda>ing. if both_annotation ''canary'' ing = ''true'' then []
                        else map (\<lambda>(rule, path). path_key rule path) (ingress_paths ing)) ings)"

lemma collect_canary_paths:
  "collect_canary E ing (m, n) = Inr (m', n') \<Longrightarrow> n' = n @ non_canary_paths [ing]"
  by (auto simp: collect_canary_def non_canary_paths_def Let_def bind_res_Inr_iff split: if_splits)

lemma record_error_Inr: "record_error ing pre m s = (Inr x, t) \<longleftrightarrow> m s = (Inr x, t)"
  by (auto simp: record_error_def tryP_def bindP_def returnP_def throwP_def modifyP_def
      split: prod.splits sum.splits go_error.splits)

lemma collect_all_paths:
  "foldP (\<lambda>ing acc. record_error ing [] (liftP (collect_canary E ing acc))) ings (m, n) s = (Inr (m', n'), t) \<Longrightarrow>
   n' = n @ non_canary_paths ings"
proof (induction ings arbitrary: m n s)
  case Nil
  then show ?case by (simp add: returnP_def non_canary_paths_def)
next
  case (Cons ing ings)
  then obtain m1 n1 u where "collect_canary E ing (m, n) = Inr (m1, n1)"
    and "foldP (\<lambda>ing acc. record_error ing [] (liftP (collect_canary E ing acc))) ings (m1, n1) u = (Inr (m', n'), t)"
    by (auto simp: bindP_Inr_iff record_error_Inr liftP_def)
  with Cons.IH collect_canary_paths show ?case by (fastforce simp: non_canary_paths_def)
qed

lemma buildListenerRules_cases:
  fixes s t :: "('w, 'f) build_state"
  assumes "buildListenerRules E lsID port protocol ings s = (Inr (), t)" and "\<not> old_knative ings"
  obtains m drafts u where "list_all2 (\<lambda>irp d. \<exists>(u :: ('w, 'f) build_state) v. build_rule_draft E port m irp u = (Inr d, v))
      (listener_paths protocol (non_canary_paths ings) ings) drafts"
    "\<And>w. fst w = ''*alb.ListenerRule'' \<Longrightarrow> no_uid w s \<Longrightarrow> no_uid w u"
    "add_rules lsID (Itoa port @ ''-'' @ protocol) port drafts u = (Inr (), t)"
proof -
  from assms obtain m n v drafts u
    where c: "foldP (\<lambda>ing acc. record_error ing [] (liftP (collect_canary E ing acc))) ings ([], []) s = (Inr (m, n), v)"
    and d: "mapP (build_rule_draft E port m) (listener_paths protocol n ings) v = (Inr drafts, u)"
    and a: "add_rules lsID (Itoa port @ ''-'' @ protocol) port drafts u = (Inr (), t)"
    by (auto simp: buildListenerRules_def bindP_Inr_iff)
  have n: "n = non_canary_paths ings" using collect_all_paths [OF c] by simp
  have kc: "keeps (no_uid w) (foldP (\<lambda>ing acc. record_error ing [] (liftP (collect_canary E ing acc))) ings b)" for w b
    by (intro keeps_foldP keeps_record_error keeps_lift)
  have kd: "keeps (no_uid w) (mapP (build_rule_draft E port m) xs)" if "fst w = ''*alb.ListenerRule''" for w xs
    by (intro keeps_mapP keeps_build_rule_draft) (simp add: that)
  have "no_uid w u" if "fst w = ''*alb.ListenerRule''" "no_uid w s" for w
    by (rule keepsD [OF kd [OF that(1)] d keepsD [OF kc c that(2)]])
  with that [OF mapP_Inr [OF d, unfolded n]] a show ?thesis by blast
qed

subsection \<open>Properties\<close>

text \<open>
  (C20) A listener gets one rule for every path of its ingresses that it serves, in the order
  of the ingresses; the n-th has priority n and carries the actions, conditions and direction
  built for its path, and refers to the listener.
\<close>

theorem listener_rules_numbered:
  fixes s t :: "('w, 'f) build_state"
  assumes "buildListenerRules E lsID port protocol ings s = (Inr (), t)" and "\<not> old_knative ings"
    and "\<And>n. no_uid (rule_uid (Itoa port @ ''-'' @ protocol) n) s"
  shows "\<exists>m drafts. list_all2 (\<lambda>irp d. \<exists>(u :: ('w, 'f) build_state) v. build_rule_draft E port m irp u = (Inr d, v))
      (listener_paths protocol (non_canary_paths ings) ings) drafts \<and>
    (\<forall>i < length drafts. map_of (stk_resources (b_stack t)) (rule_uid (Itoa port @ ''-'' @ protocol) (i + 1)) =
      Some (as_resource (numbered_rule lsID (Itoa port @ ''-'' @ protocol) port (i + 1) (drafts ! i))))"
proof -
  let ?pre = "Itoa port @ ''-'' @ protocol"
  from assms(1,2) obtain m drafts u where d: "list_all2 (\<lambda>irp d. \<exists>(u :: ('w, 'f) build_state) v. build_rule_draft E port m irp u = (Inr d, v))
      (listener_paths protocol (non_canary_paths ings) ings) drafts"
    and no: "\<And>w. fst w = ''*alb.ListenerRule'' \<Longrightarrow> no_uid w s \<Longrightarrow> no_uid w u"
    and a: "add_rules lsID ?pre port drafts u = (Inr (), t)"
    by (rule buildListenerRules_cases) blast
  have "no_uid (rule_uid ?pre (1 + i)) u" for i
    by (rule no [OF _ assms(3)]) (simp add: rule_uid_def)
  then have "\<exists>t. forP (new_rule lsID ?pre port) (zip [1..<1 + length drafts] drafts) u = (Inr (), t) \<and>
      (\<forall>i < length drafts. map_of (stk_resources (b_stack t)) (rule_uid ?pre (1 + i)) =
        Some (as_resource (numbered_rule lsID ?pre port (1 + i) (drafts ! i))))"
    using add_rules_from [where k = 1 and rules = drafts and lsID = lsID and port = port] by blast
  with a d show ?thesis by (auto simp: add_rules_def add.commute simp del: upt_Suc)
qed

lemma demo_rules: "\<exists>t. buildListenerRules demo_build_env (ListenerIDToken ''80-HTTP'') 80 ''HTTP'' [demo_ingress] demo_build_state = (Inr (), t)"
proof -
  have "fst (buildListenerRules demo_build_env (ListenerIDToken ''80-HTTP'') 80 ''HTTP'' [demo_ingress] demo_build_state) = Inr ()"
    by code_simp
  then show ?thesis by (metis prod.collapse)
qed

theorem listener_rules_numbered_witness:
  "\<exists>t m drafts. buildListenerRules demo_build_env (ListenerIDToken ''80-HTTP'') 80 ''HTTP'' [demo_ingress] demo_build_state = (Inr (), t) \<and>
    list_all2 (\<lambda>irp d. \<exists>u v. build_rule_draft demo_build_env 80 m irp u = (Inr d, v :: (unit, unit) build_state))
      (listener_paths ''HTTP'' (non_canary_paths [demo_ingress]) [demo_ingress]) drafts \<and>
    (\<forall>i < length drafts. map_of (stk_resources (b_stack t)) (rule_uid (Itoa 80 @ ''-'' @ ''HTTP'') (i + 1)) =
      Some (as_resource (numbered_rule (ListenerIDToken ''80-HTTP'') (Itoa 80 @ ''-'' @ ''HTTP'') 80 (i + 1) (drafts ! i))))"
proof -
  obtain t where t: "buildListenerRules demo_build_env (ListenerIDToken ''80-HTTP'') 80 ''HTTP'' [demo_ingress] demo_build_state = (Inr (), t)"
    using demo_rules by blast
  have "\<not> old_knative [demo_ingress]" by code_simp
  moreover have "no_uid w demo_build_state" for w
    by (simp add: no_uid_def demo_build_state_def stack_uids_def NewDefaultManager_def)
  ultimately show ?thesis using listener_rules_numbered [OF t] t by blast
qed

end
