(* ===== verification/Build_Listeners.thy ===== *)
theory Build_Listeners
  imports Build_Rules
begin

text \<open>
  The load balancer, the listeners, their access control lists and certificates as the model
  builder makes them: \<open>model_build_load_balancer.go\<close>, \<open>model_build_listener.go\<close>,
  \<open>model_build_acl.go\<close>, \<open>model_build_certificate.go\<close>, \<open>vswitch_discovery.go\<close> and
  \<open>cert_discovery.go\<close> of \<open>builder/albconfig_manager\<close>.
\<close>

subsection \<open>VSwitches (\<open>vswitch_discovery.go\<close>)\<close>

definition discoveryALBZones :: "'w build_env \<Rightarrow> ('w, 'f, string list) build_prog" where
  "discoveryALBZones E = invoke BDescribeZones (t_DescribeALBZones E)"

text \<open>The first vSwitch of each zone that has one.\<close>

definition ResolveViaDiscovery :: "'w build_env \<Rightarrow> ('w, 'f, vswitch list) build_prog" where
  "ResolveViaDiscovery E =
     bindP (discoveryALBZones E) (\<lambda>albZones.
     bindP (invoke (BDescribeVSwitches (t_vpcID E)) (t_DescribeVSwitches E (t_vpcID E))) (\<lambda>allVSwitches.
     returnP (concat (map (\<lambda>zone. take 1 (filter (\<lambda>v. vs_ZoneId v = zone) allVSwitches)) albZones))))"

definition ResolveViaIDSlice :: "'w build_env \<Rightarrow> string list \<Rightarrow> ('w, 'f, vswitch list) build_prog" where
  "ResolveViaIDSlice E vSwitchIDs =
     bindP (invoke (BDescribeVSwitches (t_vpcID E)) (t_DescribeVSwitches E (t_vpcID E))) (\<lambda>allVSwitches.
     returnP (concat (map (\<lambda>i. take 1 (filter (\<lambda>v. vs_VSwitchId v = i) allVSwitches)) vSwitchIDs)))"

subsection \<open>The load balancer (\<open>model_build_load_balancer.go\<close>)\<close>

definition is_alnum :: "char \<Rightarrow> bool" where
  "is_alnum c \<longleftrightarrow>
     (let n = (of_char c :: nat) in 48 \<le> n \<and> n \<le> 57 \<or> 65 \<le> n \<and> n \<le> 90 \<or> 97 \<le> n \<and> n \<le> 122)"

definition GroupID_String :: "string \<times> string \<Rightarrow> string" where
  "GroupID_String g = fst g @ ''/'' @ snd g"

definition buildAlbLoadBalancerName :: "'w build_env \<Rightarrow> string \<times> string \<Rightarrow> string" where
  "buildAlbLoadBalancerName E g =
     ''k8s-'' @ filter is_alnum (fst g) @ ''-'' @ filter is_alnum (snd g) @ ''-'' @
     take 10 (t_sha256hex E (t_clusterID E @ GroupID_String g))"

definition or_default :: "string \<Rightarrow> string \<Rightarrow> string" where
  "or_default d s = (if s = [] then d else s)"

definition allocation_ids :: "(string \<times> string) list \<Rightarrow> smap" where
  "allocation_ids zms = fold (\<lambda>(v, a) m. if a \<noteq> [] then map_set v a m else m) zms []"

definition buildZoneMappings :: "'w build_env \<Rightarrow> api_lb \<Rightarrow> ('w, 'f, alb_zone_mapping list) build_prog" where
  "buildZoneMappings E lb =
     (if ab_Id lb \<noteq> [] then returnP []
      else if length (ab_ZoneMappings lb) \<noteq> 0 then
        bindP (ResolveViaIDSlice E (map fst (ab_ZoneMappings lb))) (\<lambda>vSwitches.
        returnP (map (\<lambda>v. \<lparr>zmp_VSwitchId = vs_VSwitchId v, zmp_ZoneId = vs_ZoneId v,
          zmp_AllocationId = index_str (allocation_ids (ab_ZoneMappings lb)) (vs_VSwitchId v)\<rparr>) vSwitches))
      else
        bindP (ResolveViaDiscovery E) (\<lambda>vSwitches.
        returnP (map (\<lambda>v. \<lparr>zmp_VSwitchId = vs_VSwitchId v, zmp_ZoneId = vs_ZoneId v, zmp_AllocationId = []\<rparr>) vSwitches)))"

definition buildAlbLoadBalancerSpec ::
  "'w build_env \<Rightarrow> string \<times> string \<Rightarrow> api_lb \<Rightarrow> ('w, 'f, lb_spec) build_prog" where
  "buildAlbLoadBalancerSpec E g lb =
     bindP (buildZoneMappings E lb) (\<lambda>zoneMappings.
     returnP
       \<lparr>lbp_AddressAllocatedMode = or_default ''Dynamic'' (ab_AddressAllocatedMode lb),
        lbp_AddressType = or_default ''Internet'' (ab_AddressType lb),
        lbp_Ipv6AddressType = or_default ''Intranet'' (ab_Ipv6AddressType lb),
        lbp_AddressIpVersion = or_default ''IPv4'' (ab_AddressIpVersion lb),
        lbp_LoadBalancerEdition = or_default ''Standard'' (ab_Edition lb),
        lbp_LoadBalancerName = (if length (ab_Name lb) \<noteq> 0 then ab_Name lb else buildAlbLoadBalancerName E g),
        lbp_ResourceGroupId = ab_ResourceGroupId lb,
        lbp_VpcId = t_vpcID E,
        lbp_AccessLogConfig = ab_AccessLogConfig lb,
        lbp_DeletionProtection = (True, []),
        lbp_BillingConfig = (ab_BillingConfig lb)\<lparr>bl_PayType := or_default ''PostPay'' (bl_PayType (ab_BillingConfig lb))\<rparr>,
        lbp_ModificationProtection = ([], ''ConsoleProtection''),
        lbp_Tags = ab_Tags lb,
        lbp_ZoneMapping = zoneMappings\<rparr>)"

text \<open>Writing to a resource of the stack through its pointer.\<close>

definition update_resource :: "resource_uid \<Rightarrow> ('f alb_resource \<Rightarrow> 'f alb_resource) \<Rightarrow> ('w, 'f, unit) build_prog" where
  "update_resource uid f =
     modifyP (b_stack_update (stk_resources_update
       (map (\<lambda>(u, r). if u = uid then (u, r\<lparr>rs_Content := f (rs_Content r)\<rparr>) else (u, r)))))"

fun set_lb_status :: "lb_status \<Rightarrow> 'f alb_resource \<Rightarrow> 'f alb_resource" where
  "set_lb_status st (RLoadBalancer lb) = RLoadBalancer (lb\<lparr>alb_Status := Some st\<rparr>)"
| "set_lb_status st x = x"

definition buildAlbLoadBalancerStatus :: "'f albconfig \<Rightarrow> lb_status" where
  "buildAlbLoadBalancerStatus cfg = \<lparr>lbs_DNSName = ac_StatusDNSName cfg, lbs_LoadBalancerID = ac_StatusId cfg\<rparr>"

text \<open>The result is the name of the load balancer, which the access control lists use.\<close>

definition buildAlbLoadBalancer ::
  "'w build_env \<Rightarrow> string \<times> string \<Rightarrow> 'f albconfig \<Rightarrow> ('w, 'f, string) build_prog" where
  "buildAlbLoadBalancer E g cfg =
     bindP (liftP (deref (ac_LoadBalancer cfg))) (\<lambda>lb.
     bindP (buildAlbLoadBalancerSpec E g lb) (\<lambda>spec.
     bindP (NewAlbLoadBalancer ''ApplicationLoadBalancer'' (ab_Id lb)
              (Some (BoolValue (ab_ForceOverride lb))) (Some (BoolValue (ab_ListenerForceOverride lb))) spec) (\<lambda>_.
     bindP (if ac_StatusDNSName cfg \<noteq> [] \<and> ac_StatusId cfg \<noteq> [] then
              update_resource (''*alb.AlbLoadBalancer'', ''ApplicationLoadBalancer'')
                (set_lb_status (buildAlbLoadBalancerStatus cfg))
            else returnP ()) (\<lambda>_.
     returnP (lbp_LoadBalancerName spec)))))"

subsection \<open>Listeners (\<open>model_build_listener.go\<close>)\<close>

definition transCertificatesFromAPIToSDK :: "(bool \<times> string) list \<Rightarrow> certificate list" where
  "transCertificatesFromAPIToSDK apiCerts = map (\<lambda>(d, i). FixedCert d i) apiCerts"

definition buildLsDefaultAction :: "'w build_env \<Rightarrow> 'f albconfig \<Rightarrow> int \<Rightarrow> ('w, 'f, alb_action) build_prog" where
  "buildLsDefaultAction E cfg lsPort =
     (let ing = empty_ingress\<lparr>igs_Namespace := (if ac_Namespace cfg = [] then ''kube-system'' else ac_Namespace cfg),
            igs_Name := ac_Name cfg @ ''-listener-'' @ Itoa lsPort\<rparr>
      in record_error ing [] (buildAction E ing (buildActionViaServiceAndServicePort ''fake-svc'' lsPort 0)))"

definition or_zero :: "int \<Rightarrow> int \<Rightarrow> int" where
  "or_zero d i = (if i = 0 then d else i)"

definition listener_port :: "'f api_listener \<Rightarrow> int" where
  "listener_port ls = or_zero 80 (IntValue (al_Port ls))"

definition listener_protocol :: "'f api_listener \<Rightarrow> string" where
  "listener_protocol ls = or_default ''HTTP'' (al_Protocol ls)"

definition buildListenerSpec :: "'w build_env \<Rightarrow> 'f albconfig \<Rightarrow> 'f api_listener \<Rightarrow> ('w, 'f, 'f ls_spec) build_prog" where
  "buildListenerSpec E cfg ls =
     bindP (buildLsDefaultAction E cfg (IntValue (al_Port ls))) (\<lambda>defaultAction.
     let https = al_Protocol ls = ''HTTPS''; quic = al_Protocol ls = ''QUIC''
     in returnP
       \<lparr>lss_IdleTimeout = or_zero 15 (lss_IdleTimeout ls),
        lss_RequestTimeout = or_zero 60 (lss_RequestTimeout ls),
        lss_SecurityPolicyId =
          (if https then or_default ''tls_cipher_policy_1_0'' (lss_SecurityPolicyId ls) else lss_SecurityPolicyId ls),
        lss_CustomizedHeadersEnabled = lss_CustomizedHeadersEnabled ls,
        lss_Tracing = lss_Tracing ls,
        lss_QuicConfig = lss_QuicConfig ls,
        lss_XForwardedForConfig = lss_XForwardedForConfig ls,
        lsp_DefaultActions = [defaultAction],
        lsp_Certificates = (if https \<or> quic then transCertificatesFromAPIToSDK (al_Certificates ls) else []),
        lsp_CaCertificates = (if https \<or> quic then transCertificatesFromAPIToSDK (al_CaCertificates ls) else []),
        lsp_GzipEnabled = (case al_GzipEnabled ls of None \<Rightarrow> True | Some b \<Rightarrow> b),
        lsp_Http2Enabled = (https \<and> al_Http2Enabled ls = None),
        lsp_ListenerDescription = or_default (''ingress-auto-listener-'' @ Itoa (listener_port ls)) (al_Description ls)\<rparr>)"

text \<open>The result is the token of the listener and the certificates it has so far.\<close>

definition buildListener ::
  "'w build_env \<Rightarrow> 'f albconfig \<Rightarrow> id_token \<Rightarrow> 'f api_listener \<Rightarrow> ('w, 'f, id_token \<times> certificate list) build_prog" where
  "buildListener E cfg lbID ls =
     bindP (buildListenerSpec E cfg ls) (\<lambda>spec.
     bindP (NewListener (Itoa (listener_port ls) @ ''-'' @ listener_protocol ls) lbID
              (listener_port ls) (listener_protocol ls) spec) (\<lambda>token.
     returnP (token, lsp_Certificates spec)))"

subsection \<open>Access control lists (\<open>model_build_acl.go\<close>)\<close>

definition buildAcl :: "id_token \<Rightarrow> 'f api_listener \<Rightarrow> string \<Rightarrow> ('w, 'f, unit) build_prog" where
  "buildAcl lsID ls lbName =
     (let c = al_AclConfig ls
      in if aa_AclType c \<noteq> ''White'' \<and> aa_AclType c \<noteq> ''Black'' then returnP ()
         else if length (aa_AclEntries c) > 0 \<and> length (aa_AclIds c) > 0 then
           throwP (Errorf ''aclEntry and aclIds cannot use together'')
         else
           NewAcl (port_String (al_Port ls)) lsID
             (if aa_AclName c = [] \<and> length (aa_AclEntries c) > 0 then ''acl-'' @ lbName @ ''-'' @ port_String (al_Port ls)
              else aa_AclName c)
             (aa_AclType c) (aa_AclIds c) (aa_AclEntries c))"

subsection \<open>Certificates of secrets (\<open>model_build_certificate.go\<close>)\<close>

definition computeDigest :: "'w build_env \<Rightarrow> string list \<Rightarrow> string" where
  "computeDigest E args = take 6 (t_sha1hex E (concat args))"

definition buildSecretCertificateSpec ::
  "'w build_env \<Rightarrow> ingress \<Rightarrow> string \<Rightarrow> ('w, 'f, string \<times> string \<times> string) build_prog" where
  "buildSecretCertificateSpec E ing secretName =
     bindP (invoke (BGetSecret (igs_Namespace ing, secretName)) (t_GetSecret E (igs_Namespace ing, secretName))) (\<lambda>sec.
     returnP (sec_Namespace sec @ ''-'' @ sec_Name sec @ ''-'' @
                computeDigest E [t_clusterID E, sec_Crt sec, sec_Key sec], sec_Crt sec, sec_Key sec))"

text \<open>The result is the id and the name of the certificate.\<close>

definition buildSecretCertificate ::
  "'w build_env \<Rightarrow> ingress \<Rightarrow> string \<Rightarrow> port_protocol \<Rightarrow> ('w, 'f, string \<times> string) build_prog" where
  "buildSecretCertificate E ing secretName pp =
     bindP (buildSecretCertificateSpec E ing secretName) (\<lambda>(certName, crt, key).
     let scResID = Itoa (fst pp) @ ''-'' @ snd pp @ ''-'' @ certName
     in bindP (getP b_scByResID) (\<lambda>known.
        case map_of known scResID of
          Some name \<Rightarrow> returnP (scResID, name)
        | None \<Rightarrow>
            bindP (NewSecretCertificate scResID certName crt key) (\<lambda>_.
            bindP (modifyP (b_scByResID_update (map_set scResID certName))) (\<lambda>_.
            returnP (scResID, certName)))))"

subsection \<open>Certificates found by host name (\<open>cert_discovery.go\<close>)\<close>

definition domain_matches :: "string \<Rightarrow> string \<Rightarrow> bool" where
  "domain_matches name host \<longleftrightarrow>
     (let ds = Split name ''.''; hs = Split host ''.''
      in if HasPrefix name ''*.'' then length ds = length hs \<and> (tl ds = tl hs \<or> name = host) else name = host)"

definition domainMatchesHost :: "string \<Rightarrow> string \<Rightarrow> bool" where
  "domainMatchesHost domainName tlsHost \<longleftrightarrow>
     (\<exists>name \<in> set (Split domainName '',''). domain_matches (ToLower name) (ToLower tlsHost))"

definition loadDomainsForAllCertificates :: "'w build_env \<Rightarrow> ('w, 'f, (string \<times> string list) list) build_prog" where
  "loadDomainsForAllCertificates E =
     bindP (invoke BDescribeCerts (t_DescribeSSLCertificateList E)) (\<lambda>certs.
     returnP (fold (\<lambda>c. map_set (sc_CertIdentifier c) [sc_CommonName c, sc_Sans c])
       (filter (\<lambda>c. sc_Algorithm c \<noteq> ''SM2'') certs) []))"

definition certs_for_host :: "(string \<times> string list) list \<Rightarrow> string \<Rightarrow> string list res" where
  "certs_for_host domainsByCertID host =
     (let ids = map fst (filter (\<lambda>(certID, domains). \<exists>domain \<in> set domains. domainMatchesHost domain host) domainsByCertID)
      in if length ids = 0 then Inl (Errorf ''none certificate found for host'') else Inr ids)"

definition Discover :: "'w build_env \<Rightarrow> string list \<Rightarrow> ('w, 'f, string list) build_prog" where
  "Discover E tlsHosts =
     bindP (loadDomainsForAllCertificates E) (\<lambda>domainsByCertID.
     bindP (liftP (map_res (certs_for_host domainsByCertID) tlsHosts)) (\<lambda>idss.
     returnP (sort (remdups (concat idss)))))"

subsection \<open>What the listeners refer to is built\<close>

lemma stack_ok_update:
  fixes uid :: resource_uid
  assumes ok: "stack_ok s" and K: "K \<subseteq> stack_uids s"
    and f: "\<And>x. typed x \<Longrightarrow> typed (f x) \<and> as_resource (f x) = (as_resource x)\<lparr>rs_Content := f x\<rparr> \<and>
      registered (f x) = registered x \<and> refs (f x) \<subseteq> refs x \<union> K"
  defines "t \<equiv> stk_resources_update (map (\<lambda>(u, r). if u = uid then (u, r\<lparr>rs_Content := f (rs_Content r)\<rparr>) else (u, r))) s"
  shows "stack_ok t" and "stack_uids t = stack_uids s"
proof -
  have g: "stk_graph t = stk_graph s" by (simp add: t_def)
  have keys: "map fst (stk_resources t) = map fst (stk_resources s)"
    by (simp add: t_def case_prod_unfold comp_def if_distrib cong: if_cong)
  then have fst_set: "fst ` set (stk_resources t) = fst ` set (stk_resources s)" by (metis set_map)
  then show uids: "stack_uids t = stack_uids s" by (simp add: stack_uids_def)
  have "closed_resource t u r \<and> computeResourceUID r = u" if "(u, r) \<in> set (stk_resources t)" for u r
  proof -
    from that obtain q where q: "(u, q) \<in> set (stk_resources s)"
      and r: "r = (if u = uid then q\<lparr>rs_Content := f (rs_Content q)\<rparr> else q)"
      by (auto simp: t_def split: if_splits prod.splits)
    from ok q have "closed_resource s u q" and uq: "computeResourceUID q = u" by (auto simp: stack_ok_def stack_inv_def)
    moreover from uq have "computeResourceUID r = u" by (simp add: r computeResourceUID_def)
    ultimately show ?thesis
      using f [of "rs_Content q"] K by (auto simp: closed_resource_def uids g r) 
  qed
  with ok fst_set keys show "stack_ok t"
    by (auto simp: stack_ok_def stack_inv_def smap_wf_def g)
qed

lemma builds_update_resource:
  assumes "\<And>x. typed x \<Longrightarrow> typed (f x) \<and> as_resource (f x) = (as_resource x)\<lparr>rs_Content := f x\<rparr> \<and>
      registered (f x) = registered x \<and> refs (f x) \<subseteq> refs x \<union> K"
  shows "builds K (\<lambda>_ _. True) (update_resource uid f)"
  unfolding update_resource_def
  by (rule builds_stack_update) (use stack_ok_update [OF _ _ assms] in simp)

lemma set_lb_status_ok:
  "typed x \<Longrightarrow> typed (set_lb_status st x) \<and> as_resource (set_lb_status st x) = as_resource x\<lparr>rs_Content := set_lb_status st x\<rparr> \<and>
    registered (set_lb_status st x) = registered x \<and> refs (set_lb_status st x) \<subseteq> refs x \<union> K"
  by (cases x) (auto simp: as_resource_def refs_def)

lemma builds_buildAlbLoadBalancer:
  "builds K (\<lambda>L _. (''*alb.AlbLoadBalancer'', ''ApplicationLoadBalancer'') \<in> L) (buildAlbLoadBalancer E g cfg)"
proof -
  have zones: "builds L (\<lambda>_ _. True) (buildZoneMappings E lb)" for L lb
    unfolding buildZoneMappings_def ResolveViaIDSlice_def ResolveViaDiscovery_def discoveryALBZones_def
    by (intro builds_if builds_return builds_bind [OF builds_invoke]
        builds_bind [OF builds_bind [OF builds_invoke builds_return [where Q = "\<lambda>_ _. True"]]]
        builds_bind [OF builds_bind [OF builds_invoke builds_bind [OF builds_invoke builds_return [where Q = "\<lambda>_ _. True"]]]]) auto
  have spec: "builds L (\<lambda>_ _. True) (buildAlbLoadBalancerSpec E g lb)" for L lb
    unfolding buildAlbLoadBalancerSpec_def by (rule builds_bind [OF zones]) (rule builds_return, simp)
  have status: "builds L (\<lambda>_ _. True) (if c then update_resource uid (set_lb_status st) else returnP ())" for L c uid st
    by (intro builds_if builds_update_resource builds_return set_lb_status_ok) auto
  show ?thesis unfolding buildAlbLoadBalancer_def
    by (intro builds_bind [OF builds_lift [where Q = "\<lambda>_ _. True"]] builds_bind [OF spec]
        builds_bind [OF builds_NewAlbLoadBalancer] builds_bind [OF status] builds_return) auto
qed

lemma trans_certs_refs [simp]: "c \<in> set (transCertificatesFromAPIToSDK cs) \<Longrightarrow> cert_refs c = {}"
  by (auto simp: transCertificatesFromAPIToSDK_def)

lemma builds_buildListenerSpec:
  "builds K (\<lambda>L sp. spec_refs (LSSpec sp) \<subseteq> L \<and> (\<forall>c \<in> set (lsp_Certificates sp). cert_refs c = {})) (buildListenerSpec E cfg ls)"
proof -
  have act: "builds L (\<lambda>L a. action_refs a \<subseteq> L) (buildLsDefaultAction E cfg port)" for L port
    unfolding buildLsDefaultAction_def Let_def by (rule builds_record_error [OF builds_buildAction]) auto
  show ?thesis unfolding buildListenerSpec_def Let_def
    by (rule builds_bind [OF act], rule builds_return) (auto split: if_splits)
qed

lemma builds_buildListener:
  assumes "(''*alb.AlbLoadBalancer'', lb) \<in> K"
  shows "builds K (\<lambda>L (tok, certs). is_listener_token tok \<and> set (token_dependencies tok) \<subseteq> L \<and> (\<forall>c \<in> set certs. cert_refs c = {}))
    (buildListener E cfg (LoadBalancerIDToken lb) ls)"
  unfolding buildListener_def using assms
  by (intro builds_bind [OF builds_buildListenerSpec] builds_bind [OF builds_NewListener] builds_return) auto

lemma builds_buildAcl:
  assumes "is_listener_token lsID" "set (token_dependencies lsID) \<subseteq> K"
  shows "builds K (\<lambda>_ _. True) (buildAcl lsID ls lbName)"
  unfolding buildAcl_def Let_def using assms by (intro builds_if builds_NewAcl builds_throw builds_return) auto

lemma builds_buildSecretCertificate:
  "builds K (\<lambda>L c. (''*alb.SecretCertificate'', fst c) \<in> L) (buildSecretCertificate E ing name pp)"
proof -
  have spec: "builds L (\<lambda>_ _. True) (buildSecretCertificateSpec E ing name)" for L
    unfolding buildSecretCertificateSpec_def by (intro builds_bind [OF builds_invoke] builds_return) auto
  have known: "builds L (\<lambda>L v. v \<noteq> None \<longrightarrow> (''*alb.SecretCertificate'', i) \<in> L) (getP (\<lambda>s. map_of (b_scByResID s) i))" for L i
    by (auto simp: builds_def getP_def build_inv_def dest!: map_of_SomeD) 
  have new: "builds L (\<lambda>L _. (''*alb.SecretCertificate'', i) \<in> L) (modifyP (b_scByResID_update (map_set i n)))"
    if "(''*alb.SecretCertificate'', i) \<in> L" for L i n
    using that by (auto simp: builds_def modifyP_def build_inv_def keys_map_set)
  have get: "bindP (getP b_scByResID) (\<lambda>known. f (map_of known i)) = bindP (getP (\<lambda>s. map_of (b_scByResID s) i)) f"
    for f :: "string option \<Rightarrow> ('a, 'b, string \<times> string) build_prog" and i
    by (rule ext) (simp add: bindP_def getP_def)
  show ?thesis unfolding buildSecretCertificate_def Let_def get
    by (auto split: prod.splits option.splits intro!: builds_bind [OF spec] builds_bind [OF known]
        builds_bind [OF builds_NewSecretCertificate] builds_bind [OF new] builds_return) blast+
qed

subsection \<open>What the certificate discovery finds\<close>

definition domains_by_id :: "ssl_cert list \<Rightarrow> (string \<times> string list) list" where
  "domains_by_id certs = fold (\<lambda>c. map_set (sc_CertIdentifier c) [sc_CommonName c, sc_Sans c])
     (filter (\<lambda>c. sc_Algorithm c \<noteq> ''SM2'') certs) []"

lemma fold_map_set_mem:
  "(k, v) \<in> set (fold (\<lambda>c. map_set (f c) (g c)) xs m) \<Longrightarrow> (k, v) \<in> set m \<or> (\<exists>c \<in> set xs. k = f c \<and> v = g c)"
proof (induction xs arbitrary: m)
  case (Cons x xs)
  have "set (map_set (f x) (g x) m) \<subseteq> insert (f x, g x) (set m)"
    by (induction "f x" "g x" m rule: map_set.induct) auto
  with Cons show ?case by fastforce
qed simp

lemma certs_for_host_sound:
  assumes "certs_for_host (domains_by_id certs) h = Inr js" and "i \<in> set js"
  shows "\<exists>c \<in> set certs. sc_CertIdentifier c = i \<and> sc_Algorithm c \<noteq> ''SM2'' \<and>
    (domainMatchesHost (sc_CommonName c) h \<or> domainMatchesHost (sc_Sans c) h)"
proof -
  from assms obtain ds where "(i, ds) \<in> set (domains_by_id certs)" "\<exists>d \<in> set ds. domainMatchesHost d h"
    by (auto simp: certs_for_host_def Let_def split: if_splits) blast
  with fold_map_set_mem [of i ds sc_CertIdentifier "\<lambda>c. [sc_CommonName c, sc_Sans c]"] show ?thesis
    by (fastforce simp: domains_by_id_def)
qed

lemma Discover_cases:
  assumes "Discover E hosts s = (Inr ids, t)" and "fst (t_DescribeSSLCertificateList E (fx_world s)) = Inr certs"
  obtains idss where "ids = sort (remdups (concat idss))" "map_res (certs_for_host (domains_by_id certs)) hosts = Inr idss"
  using assms unfolding Discover_def loadDomainsForAllCertificates_def domains_by_id_def [symmetric]
  by (auto simp: prog_Inr invoke_def split: prod.splits)

end
