(* ===== verification/Model_Build.thy ===== *)
theory Model_Build
  imports Build_Listeners
begin

text \<open>
  The model builder itself (\<open>builder/albconfig_manager/model_builder.go\<close>): from an AlbConfig and
  a group of ingresses to the resource stack.
\<close>

subsection \<open>Groups of ingresses\<close>

record ingress_group =
  grp_ID :: "string \<times> string"
  grp_Members :: "ingress list"
  grp_InactiveMembers :: "ingress list"

subsection \<open>Lists without duplicates\<close>

definition removeDuplicateElement :: "string list \<Rightarrow> string list" where
  "removeDuplicateElement elements = keep_first (\<lambda>e. e) [] elements"

text \<open>Of a secret certificate its id and its name.\<close>

definition removeDuplicateSecretCertificate :: "(string \<times> string) list \<Rightarrow> (string \<times> string) list" where
  "removeDuplicateSecretCertificate elements = keep_first snd [] elements"

definition RemoveDuplicatePPElement :: "port_protocol list \<Rightarrow> port_protocol list" where
  "RemoveDuplicatePPElement elements = keep_first (\<lambda>pp. Itoa (fst pp) @ snd pp) [] elements"

definition getStringsDiff :: "string list \<Rightarrow> string list \<Rightarrow> string list" where
  "getStringsDiff a b = filter (\<lambda>s. s \<notin> set b) a"

subsection \<open>The ports of an ingress\<close>

definition default_listen_ports :: "ingress \<Rightarrow> port_protocol list" where
  "default_listen_ports ing =
     (let ls443 = (\<exists>tls \<in> set (igs_TLS ing). \<exists>host \<in> set (tls_Hosts tls). host \<noteq> []);
          ls80 = (\<exists>rule \<in> set (igs_Rules ing). irl_Host rule \<noteq> [] \<and> \<not> withTlsRule ''HTTP'' (irl_Host rule) ing)
      in if ls443 \<and> ls80 then [(80, ''HTTP''), (443, ''HTTPS'')]
         else if ls443 then [(443, ''HTTPS'')]
         else [(80, ''HTTP'')])"

definition listen_port_entry :: "string \<times> int \<Rightarrow> port_protocol res" where
  "listen_port_entry e =
     (case e of (protocol, port) \<Rightarrow>
        if port < 1 \<or> port > 65535 then Inl (Errorf ''listen port must be within [1, 65535]'')
        else if protocol = ''HTTP'' \<or> protocol = ''HTTPS'' \<or> protocol = ''QUIC'' then Inr (port, protocol)
        else Inl (Errorf ''listen protocol must be within [HTTP, HTTPS]''))"

definition ComputeIngressListenPorts :: "'w build_env \<Rightarrow> ingress \<Rightarrow> port_protocol list res" where
  "ComputeIngressListenPorts E ing =
     (let redirect = (if both_annotation ''ssl-redirect'' ing = ''true'' then [(80, ''HTTP'')] else [])
      in case GetStringAnnotation (alb_annotation ''listen-ports'') ing of
           Inl _ \<Rightarrow> Inr (RemoveDuplicatePPElement (redirect @ default_listen_ports ing))
         | Inr rawListenPorts \<Rightarrow>
             (case t_UnmarshalListenPorts E rawListenPorts of
                (_, Some e) \<Rightarrow> Inl (wrap_err ''failed to parse listen-ports configuration: '' e)
              | (entries, None) \<Rightarrow>
                  if length entries = 0 then Inl (Errorf ''empty listen-ports configuration'')
                  else bind_res (map_res listen_port_entry (concat entries)) (\<lambda>pps.
                    Inr (RemoveDuplicatePPElement (redirect @ pps)))))"

subsection \<open>The certificates of a listener\<close>

record host_certs =
  hc_certs :: "(string \<times> string) list"
  hc_missHosts :: "string list"
  hc_secretHosts :: "string list"

definition tls_cert ::
  "'w build_env \<Rightarrow> port_protocol \<Rightarrow> ingress \<Rightarrow> ingress_tls \<Rightarrow> host_certs \<Rightarrow> ('w, 'f, host_certs) build_prog" where
  "tls_cert E pp ing tls a =
     (if tls_SecretName tls \<noteq> [] then
        bindP (record_error ing [] (buildSecretCertificate E ing (tls_SecretName tls) pp)) (\<lambda>cert.
        returnP (a\<lparr>hc_certs := hc_certs a @ [cert], hc_secretHosts := hc_secretHosts a @ tls_Hosts tls\<rparr>))
      else returnP (a\<lparr>hc_missHosts := hc_missHosts a @ tls_Hosts tls\<rparr>))"

definition ingress_certs ::
  "'w build_env \<Rightarrow> port_protocol \<Rightarrow> ingress \<Rightarrow> host_certs \<Rightarrow> ('w, 'f, host_certs) build_prog" where
  "ingress_certs E pp ing a =
     bindP (foldP (tls_cert E pp ing) (igs_TLS ing) a) (\<lambda>a'.
     returnP (a'\<lparr>hc_missHosts := hc_missHosts a' @
       filter (\<lambda>h. h \<noteq> [] \<and> withTlsRule (snd pp) h ing) (map irl_Host (igs_Rules ing))\<rparr>))"

definition computeHostsInferredTLSCertIDs :: "'w build_env \<Rightarrow> string list \<Rightarrow> ('w, 'f, string list) build_prog" where
  "computeHostsInferredTLSCertIDs E hosts = Discover E (sort (remdups hosts))"

definition fixed_certs :: "'w build_env \<Rightarrow> certificate list \<Rightarrow> string list \<Rightarrow> ('w, 'f, certificate list) build_prog" where
  "fixed_certs E certs hosts =
     (if length certs \<noteq> 0 \<or> length hosts = 0 then returnP certs
      else
        bindP (computeHostsInferredTLSCertIDs E hosts) (\<lambda>certIds.
        returnP (map (FixedCert False) (sort (removeDuplicateElement certIds)))))"

text \<open>\<open>certs[0].SetDefault()\<close>: the fixed certificate of the list itself, or the resource.\<close>

fun set_cert_default :: "'f alb_resource \<Rightarrow> 'f alb_resource" where
  "set_cert_default (RCertificate c) = RCertificate (c\<lparr>cert_IsDefault := True\<rparr>)"
| "set_cert_default x = x"

fun set_default :: "certificate list \<Rightarrow> ('w, 'f, certificate list) build_prog" where
  "set_default [] = returnP []"
| "set_default (FixedCert d i # certs) = returnP (FixedCert True i # certs)"
| "set_default (SecretCert i # certs) =
     bindP (update_resource (''*alb.SecretCertificate'', i) set_cert_default) (\<lambda>_. returnP (SecretCert i # certs))"

fun set_listener_certs :: "string \<Rightarrow> certificate list \<Rightarrow> 'f alb_resource \<Rightarrow> 'f alb_resource" where
  "set_listener_certs protocol certs (RListener ls) =
     RListener (ls\<lparr>als_ListenerProtocol := protocol,
       als_Spec := (case als_Spec ls of LSSpec sp \<Rightarrow> LSSpec (sp\<lparr>lsp_Certificates := certs\<rparr>) | sp \<Rightarrow> sp)\<rparr>)"
| "set_listener_certs protocol certs x = x"

text \<open>A listener that was not added to the stack is changed too, but nobody reads it.\<close>

definition write_listener_certs :: "id_token \<Rightarrow> string \<Rightarrow> certificate list \<Rightarrow> ('w, 'f, unit) build_prog" where
  "write_listener_certs token protocol certs =
     (case token of
        ListenerIDToken i \<Rightarrow> update_resource (''*alb.Listener'', i) (set_listener_certs protocol certs)
      | _ \<Rightarrow> returnP ())"

definition build_certificates ::
  "'w build_env \<Rightarrow> port_protocol \<Rightarrow> id_token \<Rightarrow> certificate list \<Rightarrow> ingress list \<Rightarrow> ('w, 'f, unit) build_prog" where
  "build_certificates E pp token certs ingList =
     bindP (foldP (ingress_certs E pp) ingList \<lparr>hc_certs = [], hc_missHosts = [], hc_secretHosts = []\<rparr>) (\<lambda>a.
     bindP (fixed_certs E certs (getStringsDiff (hc_missHosts a) (hc_secretHosts a))) (\<lambda>certsFixed.
     bindP (set_default (certsFixed @ map (\<lambda>(i, _). SecretCert i) (removeDuplicateSecretCertificate (hc_certs a)))) (\<lambda>all.
     write_listener_certs token (snd pp) all)))"

subsection \<open>Running the builder\<close>

type_synonym listeners_by_port = "(port_protocol \<times> id_token \<times> certificate list) list"

definition build_listener_step ::
  "'w build_env \<Rightarrow> 'f albconfig \<Rightarrow> string \<Rightarrow> 'f api_listener \<Rightarrow> listeners_by_port \<Rightarrow> ('w, 'f, listeners_by_port) build_prog" where
  "build_listener_step E cfg lbName ls lss =
     bindP (buildListener E cfg (LoadBalancerIDToken ''ApplicationLoadBalancer'') ls) (\<lambda>(token, certs).
     bindP (buildAcl token ls lbName) (\<lambda>_.
     returnP (map_set (to_int32 (IntValue (al_Port ls)), al_Protocol ls) (token, certs) lss)))"

definition add_member :: "ingress \<Rightarrow> port_protocol \<Rightarrow> (port_protocol \<times> ingress list) list \<Rightarrow> (port_protocol \<times> ingress list) list" where
  "add_member ing pp m = map_set pp ((case map_of m pp of None \<Rightarrow> [] | Some l \<Rightarrow> l) @ [ing]) m"

definition collect_member ::
  "'w build_env \<Rightarrow> ingress \<Rightarrow> (port_protocol \<times> ingress list) list \<Rightarrow> ('w, 'f, (port_protocol \<times> ingress list) list) build_prog" where
  "collect_member E ing m =
     bindP (record_error ing [] (liftP (ComputeIngressListenPorts E ing))) (\<lambda>pps. returnP (fold (add_member ing) pps m))"

definition build_port ::
  "'w build_env \<Rightarrow> listeners_by_port \<Rightarrow> port_protocol \<times> ingress list \<Rightarrow> ('w, 'f, unit) build_prog" where
  "build_port E lss ppi =
     (case ppi of (pp, ingList) \<Rightarrow>
        (case map_of lss pp of
           None \<Rightarrow> returnP ()
         | Some (token, certs) \<Rightarrow>
             bindP (buildListenerRules E token (fst pp) (snd pp) ingList) (\<lambda>_.
             if snd pp \<noteq> ''HTTPS'' \<and> snd pp \<noteq> ''QUIC'' then returnP ()
             else build_certificates E pp token certs ingList)))"

definition run_build :: "'w build_env \<Rightarrow> 'f albconfig \<Rightarrow> ingress_group \<Rightarrow> ('w, 'f, unit) build_prog" where
  "run_build E cfg g =
     (if ac_Deleted cfg then returnP ()
      else
        bindP (buildAlbLoadBalancer E (grp_ID g) cfg) (\<lambda>lbName.
        bindP (foldP (build_listener_step E cfg lbName) (ac_Listeners cfg) []) (\<lambda>lss.
        bindP (foldP (collect_member E) (grp_Members g) []) (\<lambda>ingListByPort.
        forP (build_port E lss) (t_rangePorts E ingListByPort)))))"

text \<open>\<open>Build\<close> gives the stack and the errors by ingress; the stack only when nothing failed.\<close>

definition start_state :: "string \<times> string \<Rightarrow> 'w \<Rightarrow> ('w, 'f) build_state" where
  "start_state stackID w =
     \<lparr>fx_world = w, fx_calls = [], b_stack = NewDefaultManager stackID, b_sgpByResID = [], b_scByResID = [], b_errIngress = []\<rparr>"

definition Build ::
  "'w build_env \<Rightarrow> string res \<Rightarrow> 'f albconfig \<Rightarrow> ingress_group \<Rightarrow> 'w \<Rightarrow> 'f alb_stack res \<times> (ingress \<times> go_error) list" where
  "Build E vpcID cfg g w =
     (case vpcID of
        Inl e \<Rightarrow> (Inl e, [])
      | Inr v \<Rightarrow>
          (case run_build (E\<lparr>t_vpcID := v\<rparr>) cfg g (start_state (grp_ID g) w) of
             (Inl e, s) \<Rightarrow> (Inl e, b_errIngress s)
           | (Inr _, s) \<Rightarrow> (Inr (b_stack s), b_errIngress s)))"

subsection \<open>What the builder refers to is built\<close>

abbreviation certs_built :: "resource_uid set \<Rightarrow> certificate list \<Rightarrow> bool" where
  "certs_built L cs \<equiv> (\<forall>c \<in> set cs. cert_refs c \<subseteq> L)"

lemma set_cert_default_ok:
  "typed x \<Longrightarrow> typed (set_cert_default x) \<and> as_resource (set_cert_default x) = as_resource x\<lparr>rs_Content := set_cert_default x\<rparr> \<and>
    registered (set_cert_default x) = registered x \<and> refs (set_cert_default x) \<subseteq> refs x \<union> K"
  by (cases x) (auto simp: as_resource_def refs_def)

lemma set_listener_certs_ok:
  "certs_built K cs \<Longrightarrow> typed x \<Longrightarrow> typed (set_listener_certs p cs x) \<and>
    as_resource (set_listener_certs p cs x) = as_resource x\<lparr>rs_Content := set_listener_certs p cs x\<rparr> \<and>
    registered (set_listener_certs p cs x) = registered x \<and> refs (set_listener_certs p cs x) \<subseteq> refs x \<union> K"
  by (cases x) (auto simp: as_resource_def refs_def, blast)

lemma builds_set_default: "certs_built K cs \<Longrightarrow> builds K certs_built (set_default cs)"
  by (cases cs rule: set_default.cases)
    (auto intro!: builds_return builds_bind [OF builds_update_resource [OF set_cert_default_ok]], blast+)

lemma builds_write_listener_certs:
  "certs_built K cs \<Longrightarrow> builds K (\<lambda>_ _. True) (write_listener_certs token p cs)"
  unfolding write_listener_certs_def
  by (cases token) (auto intro!: builds_return builds_update_resource set_listener_certs_ok)

lemma builds_fixed_certs: "certs_built K cs \<Longrightarrow> builds K certs_built (fixed_certs E cs hosts)"
proof -
  have ids: "builds L (\<lambda>_ _. True) (computeHostsInferredTLSCertIDs E hosts)" for L
    unfolding computeHostsInferredTLSCertIDs_def Discover_def loadDomainsForAllCertificates_def
    by (intro builds_bind [OF builds_bind [OF builds_invoke builds_return [where Q = "\<lambda>_ _. True"]]]
        builds_bind [OF builds_lift [where Q = "\<lambda>_ _. True"]] builds_return) auto
  assume "certs_built K cs"
  then show ?thesis unfolding fixed_certs_def
    by (intro builds_if builds_bind [OF ids] builds_return) auto
qed

lemma builds_build_certificates:
  assumes "certs_built K certs"
  shows "builds K (\<lambda>_ _. True) (build_certificates E pp token certs ingList)"
proof -
  let ?Q = "\<lambda>L a. \<forall>c \<in> set (hc_certs a). (''*alb.SecretCertificate'', fst c) \<in> L"
  have tls: "builds L ?Q (tls_cert E pp ing tls a)" if "?Q L a" for L ing tls a
    unfolding tls_cert_def using that
    by (intro builds_if builds_bind [OF builds_record_error [OF builds_buildSecretCertificate]] builds_return) auto
  have ing: "builds L ?Q (ingress_certs E pp ing a)" if "?Q L a" for L ing a
    unfolding ingress_certs_def using that
    by (intro builds_bind [OF builds_foldP [where Q = ?Q]] tls builds_return) auto
  have all: "builds L ?Q (foldP (ingress_certs E pp) ingList \<lparr>hc_certs = [], hc_missHosts = [], hc_secretHosts = []\<rparr>)" for L
    by (rule builds_foldP) (auto intro: ing)
  have sec: "certs_built L (map (\<lambda>(i, _). SecretCert i) (removeDuplicateSecretCertificate (hc_certs a)))"
    if "?Q M a" "M \<subseteq> L" for L M a
    using that keep_first_subset [of snd "[]" "hc_certs a"] by (fastforce simp: removeDuplicateSecretCertificate_def)
  show ?thesis unfolding build_certificates_def
    by (intro builds_bind [OF all] builds_bind [OF builds_fixed_certs] builds_bind [OF builds_set_default]
        builds_write_listener_certs) (use assms sec in \<open>auto simp del: set_map\<close>, blast)
qed

abbreviation listeners_built :: "resource_uid set \<Rightarrow> listeners_by_port \<Rightarrow> bool" where
  "listeners_built L lss \<equiv> (\<forall>x \<in> set lss. is_listener_token (fst (snd x)) \<and>
     set (token_dependencies (fst (snd x))) \<subseteq> L \<and> (\<forall>c \<in> set (snd (snd x)). cert_refs c = {}))"

lemma listeners_built_mono: "listeners_built L lss \<Longrightarrow> L \<subseteq> M \<Longrightarrow> listeners_built M lss"
  by (meson order_trans)

lemma set_map_set: "set (map_set k v m) \<subseteq> insert (k, v) (set m)"
  by (induction k v m rule: map_set.induct) auto

lemma builds_build_listener_step:
  assumes "(''*alb.AlbLoadBalancer'', ''ApplicationLoadBalancer'') \<in> K" and "listeners_built K lss"
  shows "builds K listeners_built (build_listener_step E cfg lbName ls lss)"
proof -
  have listeners: "listeners_built L (map_set k (tok, certs) lss)"
    if "K \<subseteq> L" "is_listener_token tok" "set (token_dependencies tok) \<subseteq> L" "\<forall>c \<in> set certs. cert_refs c = {}" for L k tok certs
  proof
    fix x assume "x \<in> set (map_set k (tok, certs) lss)"
    then have "x = (k, tok, certs) \<or> x \<in> set lss" using set_map_set [of k "(tok, certs)" lss] by blast
    then show "is_listener_token (fst (snd x)) \<and> set (token_dependencies (fst (snd x))) \<subseteq> L \<and>
      (\<forall>c \<in> set (snd (snd x)). cert_refs c = {})"
      using that assms(2) by (elim disjE) (simp, meson order_trans)
  qed
  have step: "builds L listeners_built (bindP (buildAcl tok ls lbName) (\<lambda>_. returnP (map_set k (tok, certs) lss)))"
    if "K \<subseteq> L" "is_listener_token tok" "set (token_dependencies tok) \<subseteq> L" "\<forall>c \<in> set certs. cert_refs c = {}" for L k tok certs
  proof (rule builds_bind [OF builds_buildAcl [OF that(2,3)]])
    fix M assume "L \<subseteq> M"
    then show "builds M listeners_built (returnP (map_set k (tok, certs) lss))"
      by (intro builds_return listeners) (use that in \<open>auto intro: order_trans\<close>)
  qed
  show ?thesis unfolding build_listener_step_def
    by (rule builds_bind [OF builds_buildListener [OF assms(1)]]) (clarsimp, rule step)
qed

lemma builds_build_port: "listeners_built K lss \<Longrightarrow> builds K (\<lambda>_ _. True) (build_port E lss ppi)"
  unfolding build_port_def
  by (fastforce split: prod.splits option.splits dest: map_of_SomeD
      intro!: builds_return builds_bind [OF builds_buildListenerRules] builds_if builds_build_certificates)

lemma builds_run_build: "builds {} (\<lambda>_ _. True) (run_build E cfg g)"
proof -
  have member: "builds L (\<lambda>_ _. True) (collect_member E ing m)" for L ing m
    unfolding collect_member_def by (intro builds_bind [OF builds_record_error [OF builds_lift]] builds_return) auto
  have members: "builds L (\<lambda>_ _. True) (foldP (collect_member E) ings m)" for L ings m
    by (rule builds_foldP) (auto intro: member)
  have listeners: "builds L listeners_built (foldP (build_listener_step E cfg lbName) lss [])"
    if "(''*alb.AlbLoadBalancer'', ''ApplicationLoadBalancer'') \<in> L" for L lbName lss
  proof (rule builds_foldP)
    show "builds M listeners_built (build_listener_step E cfg lbName x b)" if "L \<subseteq> M" "listeners_built M b" for x b M
      by (rule builds_build_listener_step [OF _ that(2)]) (rule subsetD [OF that(1)], fact)
    show "listeners_built M y" if "listeners_built N y" "N \<subseteq> M" for M N y
      by (rule listeners_built_mono [OF that])
  qed simp
  have ports: "builds L (\<lambda>_ _. True) (bindP (foldP (collect_member E) ings m) (\<lambda>m. forP (build_port E lss) (f m)))"
    if "listeners_built L lss" for L lss ings m f
    by (rule builds_bind [OF members], rule builds_forP, rule builds_build_port)
      (use listeners_built_mono [OF that] in \<open>meson order_trans\<close>)
  show ?thesis unfolding run_build_def
    by (intro builds_if builds_return builds_bind [OF builds_buildAlbLoadBalancer] builds_bind [OF listeners] ports TrueI) assumption+
qed

lemma build_inv_start: "build_inv (start_state i w)"
  by (auto simp: build_inv_def start_state_def stack_ok_def stack_inv_new)
    (auto simp: NewDefaultManager_def default_graph.out_empty)

lemma Build_stack_ok:
  assumes "Build E vpcID cfg g w = (Inr stk, errs)"
  shows "stack_ok stk"
proof -
  from assms obtain v s where run: "run_build (E\<lparr>t_vpcID := v\<rparr>) cfg g (start_state (grp_ID g) w) = (Inr (), s)" and "stk = b_stack s"
    by (auto simp: Build_def split: sum.splits prod.splits)
  with buildsD(1) [OF builds_run_build build_inv_start _ run] show ?thesis by (simp add: build_inv_def)
qed

lemma ranked_acyclic:
  assumes "\<And>u v. v \<in> set (out u) \<Longrightarrow> rank u < rank v"
  shows "acyclic (edges nodes out)"
proof -
  have "edges nodes out \<subseteq> measure rank" using assms by (force simp: edges_def)
  then show ?thesis by (meson acyclic_subset wf_acyclic wf_measure)
qed

subsection \<open>Ports without duplicates\<close>

lemma listen_ports_from:
  assumes "ComputeIngressListenPorts E ing = Inr pps"
  obtains red qs where "pps = RemoveDuplicatePPElement (red @ qs)" "red = [] \<or> red = [(80, ''HTTP'')]"
    "qs = default_listen_ports ing \<or> (\<exists>es. map_res listen_port_entry es = Inr qs)"
proof -
  let ?red = "if both_annotation ''ssl-redirect'' ing = ''true'' then [(80, ''HTTP'')] else []"
  from assms have "\<exists>qs. pps = RemoveDuplicatePPElement (?red @ qs) \<and>
      (qs = default_listen_ports ing \<or> (\<exists>es. map_res listen_port_entry es = Inr qs))"
    unfolding ComputeIngressListenPorts_def Let_def
    by (simp only: split: sum.splits prod.splits option.splits if_split_asm) (auto simp: bind_res_Inr_iff)
  moreover have "?red = [] \<or> ?red = [(80, ''HTTP'')]" by simp
  ultimately show ?thesis using that by blast
qed

subsection \<open>A configuration for evaluation\<close>

definition demo_listener :: "unit api_listener" where
  "demo_listener = \<lparr>lss_IdleTimeout = 0, lss_RequestTimeout = 0, lss_SecurityPolicyId = [], lss_CustomizedHeadersEnabled = False,
     lss_Tracing = \<lparr>tr_Sample = 0, tr_Type = [], tr_Enabled = False\<rparr>, lss_QuicConfig = (False, []), lss_XForwardedForConfig = (),
     al_GzipEnabled = None, al_Http2Enabled = None, al_Port = IntPort 80, al_CaCertificates = [], al_Protocol = ''HTTP'',
     al_Certificates = [], al_Description = [],
     al_AclConfig = \<lparr>aa_AclName = [], aa_AclType = ''White'', aa_AclEntries = [''e''], aa_AclIds = []\<rparr>\<rparr>"

definition demo_albconfig :: "unit albconfig" where
  "demo_albconfig = \<lparr>ac_Namespace = [], ac_Name = ''g'', ac_Deleted = False,
     ac_LoadBalancer = Some \<lparr>ab_Id = [], ab_Name = ''lb'', ab_AddressAllocatedMode = [], ab_AddressType = [], ab_Ipv6AddressType = [],
       ab_AddressIpVersion = [], ab_ResourceGroupId = [], ab_Edition = [], ab_ZoneMappings = [], ab_AccessLogConfig = ([], []),
       ab_BillingConfig = \<lparr>bl_InternetBandwidth = 0, bl_InternetChargeType = [], bl_PayType = [], bl_BandWidthPackageId = []\<rparr>,
       ab_ForceOverride = None, ab_Tags = [], ab_ListenerForceOverride = None\<rparr>,
     ac_Listeners = [demo_listener], ac_StatusDNSName = [], ac_StatusId = []\<rparr>"

definition demo_group :: ingress_group where
  "demo_group = \<lparr>grp_ID = (''kube-system'', ''g''), grp_Members = [demo_ingress], grp_InactiveMembers = []\<rparr>"

lemma demo_Build:
  obtains stk errs where "Build demo_build_env (Inr ''vpc'') demo_albconfig demo_group () = (Inr stk, errs)"
    "length (stk_resources stk) = 6"
proof -
  let ?b = "fst (Build demo_build_env (Inr ''vpc'') demo_albconfig demo_group ())"
  have "(case ?b of Inl _ \<Rightarrow> False | Inr stk \<Rightarrow> length (stk_resources stk) = 6)" by code_simp
  then obtain stk where "?b = Inr stk" "length (stk_resources stk) = 6" by (auto split: sum.splits)
  with that show ?thesis by (metis prod.collapse)
qed

subsection \<open>Properties\<close>



text \<open>
  (C19) The stack that the builder returns can be applied: traversing it reaches every
  resource, each after the resources it was registered to depend on, and no cycle is ever
  reported.
\<close>

theorem built_stack_applied_in_order:
  assumes "Build E vpcID cfg g w = (Inr stk, errs)" and "range_order iter"
    and "\<And>res t. fst (visit (Some res) t) = Inr ()"
  defines "order \<equiv> topo_order iter (Nodes (stk_graph stk)) (OutEdgeNodes (stk_graph stk))"
  shows "fst (Stack_TopologicalTraversal iter visit stk t) = Inr () \<and> set order = stack_uids stk \<and> distinct order \<and>
    (\<forall>(uid, r) \<in> set (stk_resources stk). \<forall>d \<in> set (registered (rs_Content r)). position order d < position order uid)"
proof -
  let ?n = "Nodes (stk_graph stk)" and ?o = "OutEdgeNodes (stk_graph stk)"
  have ok: "stack_ok stk" by (rule Build_stack_ok [OF assms(1)])
  then have inv: "stack_inv stk" and wf: "wf_graph ?n ?o" and n: "set ?n = stack_uids stk"
    by (auto simp: stack_ok_def stack_inv_def stack_uids_def)
  have ac: "acyclic (edges ?n ?o)" by (rule ranked_acyclic) (use ok in \<open>auto simp: stack_ok_def\<close>)
  note o = TopologicalTraversal_order [OF wf assms(2)]
  have all: "set order = stack_uids stk" using o(4) ac n by (simp add: order_def)
  have "position order d < position order uid" if "(uid, r) \<in> set (stk_resources stk)" "d \<in> set (registered (rs_Content r))" for uid r d
  proof -
    from ok that(1) have c: "closed_resource stk uid r" by (auto simp: stack_ok_def)
    then have "d \<in> set ?n" "uid \<in> set (?o d)" using that(2) n by (auto simp: closed_resource_def refs_def)
    moreover have "uid \<in> set order" using that(1) all by (force simp: stack_uids_def)
    ultimately show ?thesis
      using topo_sorted_position [OF topo_order_props(1) [OF wf assms(2)]] by (simp add: order_def)
  qed
  then show ?thesis
    using stack_traversal [where visit = visit, OF inv assms(2,3)] ac all o(2) by (auto simp: order_def)
qed

theorem built_stack_applied_in_order_witness:
  "\<exists>stk errs. Build demo_build_env (Inr ''vpc'') demo_albconfig demo_group () = (Inr stk, errs) \<and> length (stk_resources stk) = 6 \<and>
    fst (Stack_TopologicalTraversal rev (\<lambda>_. returnP ()) stk ()) = Inr ()"
proof -
  obtain stk errs where b: "Build demo_build_env (Inr ''vpc'') demo_albconfig demo_group () = (Inr stk, errs)"
    "length (stk_resources stk) = 6" by (rule demo_Build)
  have "fst (Stack_TopologicalTraversal rev (\<lambda>_. returnP ()) stk ()) = Inr ()"
    using built_stack_applied_in_order [OF b(1), of rev "\<lambda>_. returnP ()" "()"] by (simp add: returnP_def)
  with b show ?thesis by blast
qed

text \<open>
  (C23) The ports of an ingress are distinct, lie between 1 and 65535 and belong to one of the
  three listener protocols, whatever the annotation says.
\<close>

theorem listen_ports_valid:
  assumes "ComputeIngressListenPorts E ing = Inr pps"
  shows "distinct pps \<and> (\<forall>(port, protocol) \<in> set pps. 1 \<le> port \<and> port \<le> 65535 \<and> protocol \<in> {''HTTP'', ''HTTPS'', ''QUIC''})"
proof -
  let ?ok = "\<lambda>pp :: port_protocol. 1 \<le> fst pp \<and> fst pp \<le> 65535 \<and> snd pp \<in> {''HTTP'', ''HTTPS'', ''QUIC''}"
  have def: "?ok pp" if "pp \<in> set (default_listen_ports ing)" for pp
    using that by (auto simp: default_listen_ports_def Let_def split: if_splits)
  have ent: "?ok pp" if "map_res listen_port_entry es = Inr ps" "pp \<in> set ps" for es ps pp
    using map_res_set [OF that] by (auto simp: listen_port_entry_def split: if_splits)
  from assms obtain red qs where pps: "pps = RemoveDuplicatePPElement (red @ qs)" and red: "red = [] \<or> red = [(80, ''HTTP'')]"
    and qs: "qs = default_listen_ports ing \<or> (\<exists>es. map_res listen_port_entry es = Inr qs)"
    by (rule listen_ports_from)
  have qok: "?ok pp" if "pp \<in> set qs" for pp
    using qs
  proof (elim disjE exE)
    show "?ok pp" if "qs = default_listen_ports ing" by (rule def) (use \<open>pp \<in> set qs\<close> that in simp)
    show "?ok pp" if "map_res listen_port_entry es = Inr qs" for es by (rule ent [OF that \<open>pp \<in> set qs\<close>])
  qed
  have "?ok pp" if "pp \<in> set red" for pp using that red by auto
  with qok have all: "?ok pp" if "pp \<in> set (red @ qs)" for pp using that by (simp only: set_append Un_iff) blast
  have sub: "set pps \<subseteq> set (red @ qs)" unfolding pps RemoveDuplicatePPElement_def by (rule keep_first_subset)
  have "?ok pp" if "pp \<in> set pps" for pp by (rule all [OF subsetD [OF sub that]])
  moreover have "distinct pps" unfolding pps RemoveDuplicatePPElement_def by (rule distinct_keep_first)
  ultimately show ?thesis by (auto simp: case_prod_unfold)
qed

theorem listen_ports_valid_witness:
  "\<exists>pps. ComputeIngressListenPorts demo_build_env (demo_ingress\<lparr>igs_Annotations := [(alb_annotation ''listen-ports'', ''x'')]\<rparr>) = Inr pps \<and>
    pps = [(80, ''HTTP''), (443, ''HTTPS'')] \<and> distinct pps"
proof -
  let ?ing = "demo_ingress\<lparr>igs_Annotations := [(alb_annotation ''listen-ports'', ''x'')]\<rparr>"
  have c: "ComputeIngressListenPorts demo_build_env ?ing = Inr [(80, ''HTTP''), (443, ''HTTPS'')]" by code_simp
  from listen_ports_valid [OF c] c show ?thesis by blast
qed

text \<open>
  (C24) Certificates found by host name: the result is sorted and without duplicates, every
  certificate in it is one the cloud lists, is not an SM2 certificate and has a domain that
  matches one of the hosts, and every host has a certificate in it.
\<close>

theorem discovered_certificates_match:
  assumes "Discover E hosts s = (Inr ids, t)" and "fst (t_DescribeSSLCertificateList E (fx_world s)) = Inr certs"
  shows "sorted ids \<and> distinct ids \<and>
    (\<forall>i \<in> set ids. \<exists>c \<in> set certs. \<exists>h \<in> set hosts. sc_CertIdentifier c = i \<and> sc_Algorithm c \<noteq> ''SM2'' \<and>
       (domainMatchesHost (sc_CommonName c) h \<or> domainMatchesHost (sc_Sans c) h)) \<and>
    (\<forall>h \<in> set hosts. \<exists>i \<in> set ids. \<exists>c \<in> set certs. sc_CertIdentifier c = i \<and>
       (domainMatchesHost (sc_CommonName c) h \<or> domainMatchesHost (sc_Sans c) h))"
proof -
  from assms obtain idss where ids: "ids = sort (remdups (concat idss))"
    and m: "map_res (certs_for_host (domains_by_id certs)) hosts = Inr idss"
    by (rule Discover_cases)
  have "\<exists>h \<in> set hosts. i \<in> set js \<and> certs_for_host (domains_by_id certs) h = Inr js" if "js \<in> set idss" "i \<in> set js" for i js
    using map_res_set [OF m that(1)] that(2) by blast
  then have sound: "\<exists>c \<in> set certs. \<exists>h \<in> set hosts. sc_CertIdentifier c = i \<and> sc_Algorithm c \<noteq> ''SM2'' \<and>
       (domainMatchesHost (sc_CommonName c) h \<or> domainMatchesHost (sc_Sans c) h)" if "i \<in> set ids" for i
    using that certs_for_host_sound unfolding ids by (simp, meson)
  have "\<exists>i \<in> set ids. \<exists>c \<in> set certs. sc_CertIdentifier c = i \<and>
       (domainMatchesHost (sc_CommonName c) h \<or> domainMatchesHost (sc_Sans c) h)" if h: "h \<in> set hosts" for h
  proof -
    from h obtain k where k: "k < length hosts" "hosts ! k = h" by (auto simp: in_set_conv_nth)
    from map_res_Inr_nth [OF m k(1)] have js: "certs_for_host (domains_by_id certs) h = Inr (idss ! k)" by (simp add: k(2))
    then have "idss ! k \<noteq> []" by (auto simp: certs_for_host_def Let_def split: if_splits)
    then obtain i where i: "i \<in> set (idss ! k)" by (cases "idss ! k") auto
    have "idss ! k \<in> set idss" using k(1) map_res_Inr_length [OF m] by simp
    with i have "i \<in> set ids" by (auto simp: ids)
    with certs_for_host_sound [OF js i] show ?thesis by blast
  qed
  with sound show ?thesis by (simp add: ids)
qed

theorem discovered_certificates_match_witness:
  "\<exists>ids t. Discover demo_build_env [''h.a''] demo_build_state = (Inr ids, t) \<and> ids = [''1''] \<and> sorted ids \<and>
    domainMatchesHost ''*.a'' ''h.a''"
proof -
  have r: "fst (Discover demo_build_env [''h.a''] demo_build_state) = Inr [''1'']" by code_simp
  then obtain t where t: "Discover demo_build_env [''h.a''] demo_build_state = (Inr [''1''], t)" by (metis prod.collapse)
  have d: "domainMatchesHost ''*.a'' ''h.a''" by code_simp
  have c: "fst (t_DescribeSSLCertificateList demo_build_env (fx_world demo_build_state)) =
      Inr [\<lparr>sc_CertIdentifier = ''1'', sc_CommonName = ''*.a'', sc_Sans = [], sc_Algorithm = ''RSA''\<rparr>]"
    by (simp add: demo_build_env_def)
  from discovered_certificates_match [OF t c] t d show ?thesis by blast
qed

end
