(* ===== verification/Group_Loader.thy ===== *)
theory Group_Loader
  imports Model_Build "HOL-Library.Product_Lexorder"
begin

text \<open>
  The groups of ingresses (\<open>builder/albconfig_manager/group_loader.go\<close>) and their finalizers
  (\<open>finalizer.go\<close>).  What the API server and the informer cache answer is a parameter, and may
  change from call to call.
\<close>

subsection \<open>Environment and state\<close>

record albconfig_item =
  it_Namespace :: string
  it_Name :: string
  it_DNSName :: string

text \<open>
  \<open>gl_GetIngressClass\<close> gives the name in the parameters of the class, if there are parameters;
  \<open>gl_GetScope\<close> the scope of the resource definition of AlbConfigs.
\<close>

record 'w group_env =
  gl_GetIngressClass :: "string \<Rightarrow> 'w \<Rightarrow> string option res \<times> 'w"
  gl_GetScope :: "'w \<Rightarrow> string res \<times> 'w"
  gl_GetAlbConfig :: "string \<times> string \<Rightarrow> 'w \<Rightarrow> unit res \<times> 'w"
  gl_ListAlbConfigs :: "'w \<Rightarrow> albconfig_item list res \<times> 'w"
  gl_GetIngress :: "string \<times> string \<Rightarrow> 'w \<Rightarrow> ingress res \<times> 'w"
  gl_PatchIngress :: "ingress \<Rightarrow> ingress \<Rightarrow> 'w \<Rightarrow> ingress res \<times> 'w"
  gl_IsConflict :: "go_error \<Rightarrow> bool"

datatype group_call =
    GGetIngressClass string | GGetScope | GGetAlbConfig "string \<times> string" | GListAlbConfigs
  | GGetIngress "string \<times> string" | GPatchIngress ingress ingress

record 'w group_state = "('w, group_call) effects" +
  g_acrdCache :: smap
  g_groupIdCache :: "(string \<times> string \<times> string) list"
  g_errIngress :: "ingress option"

type_synonym ('w, 'a) group_prog = "('w group_state, 'a) prog"

text \<open>An error is returned together with the ingress it is about.\<close>

definition blame :: "ingress \<Rightarrow> ('w, 'a) group_prog \<Rightarrow> ('w, 'a) group_prog" where
  "blame ing m =
     bindP (tryP m) (\<lambda>r.
       case r of Inr x \<Rightarrow> returnP x
       | Inl e \<Rightarrow> bindP (modifyP (g_errIngress_update (\<lambda>_. Some ing))) (\<lambda>_. throwP e))"

subsection \<open>The group of an ingress\<close>

definition class_name :: "ingress \<Rightarrow> string" where
  "class_name ing =
     (case igs_ClassName ing of
        Some c \<Rightarrow> c | None \<Rightarrow> index_str (igs_Annotations ing) ''kubernetes.io/ingress.class'')"

definition IngressClass :: "'w group_env \<Rightarrow> ingress \<Rightarrow> ('w, string) group_prog" where
  "IngressClass G ing =
     bindP (tryP (invoke (GGetIngressClass (class_name ing)) (gl_GetIngressClass G (class_name ing)))) (\<lambda>r.
       case r of
         Inl _ \<Rightarrow> returnP []
       | Inr None \<Rightarrow> throwP (Errorf ''albconfig must be referenced in IngressClass'')
       | Inr (Some name) \<Rightarrow> returnP name)"

definition default_options :: parse_options where
  "default_options = \<lparr>po_exact = False, po_alternativePrefixes = []\<rparr>"

definition group_name :: "'w group_env \<Rightarrow> ingress \<Rightarrow> ('w, string) group_prog" where
  "group_name G ing =
     (case ParseStringAnnotation ''alb.ingress.kubernetes.io'' ''albconfig.name'' default_options (igs_Annotations ing) of
        Some name \<Rightarrow> returnP name
      | None \<Rightarrow>
          bindP (IngressClass G ing) (\<lambda>albconfigName.
          returnP (if albconfigName \<noteq> [] then albconfigName else ''default'')))"

text \<open>
  The namespace among all AlbConfigs of that name: of the first that has an address, else of
  the last.
\<close>

fun pick_namespace :: "string \<Rightarrow> string \<Rightarrow> albconfig_item list \<Rightarrow> string" where
  "pick_namespace name hasAlbConfig [] = hasAlbConfig"
| "pick_namespace name hasAlbConfig (i # is) =
     (if it_Name i = name then
        (if it_DNSName i \<noteq> [] then it_Namespace i else pick_namespace name (it_Namespace i) is)
      else pick_namespace name hasAlbConfig is)"

fun has_address :: "string \<Rightarrow> albconfig_item list \<Rightarrow> bool" where
  "has_address name is \<longleftrightarrow> (\<exists>i \<in> set is. it_Name i = name \<and> it_DNSName i \<noteq> [])"

definition LoadGroupID :: "'w group_env \<Rightarrow> ingress \<Rightarrow> ('w, string \<times> string) group_prog" where
  "LoadGroupID G ing =
     bindP (group_name G ing) (\<lambda>groupName.
     bindP (invoke GGetScope (gl_GetScope G)) (\<lambda>scope.
     if scope = ''Cluster'' then returnP (''kube-system'', groupName)
     else
       bindP (tryP (invoke (GGetAlbConfig (igs_Namespace ing, groupName)) (gl_GetAlbConfig G (igs_Namespace ing, groupName)))) (\<lambda>own.
       case own of
         Inr _ \<Rightarrow> returnP (igs_Namespace ing, groupName)
       | Inl _ \<Rightarrow>
           bindP (tryP (invoke GListAlbConfigs (gl_ListAlbConfigs G))) (\<lambda>alist.
           case alist of
             Inl _ \<Rightarrow> returnP (''kube-system'', groupName)
           | Inr items \<Rightarrow>
               (let ns = pick_namespace groupName [] items
                in returnP (if has_address groupName items \<or> ns \<noteq> [] then (ns, groupName) else (''kube-system'', groupName)))))))"

text \<open>
  The annotation is looked up under the bare suffix here, and the cache is keyed by the class
  alone.
\<close>

definition cached_group_id :: "'w group_env \<Rightarrow> ingress \<Rightarrow> ('w, string \<times> string) group_prog" where
  "cached_group_id G ing =
     (if index_str (igs_Annotations ing) ''albconfig.name'' = [] then
        bindP (getP g_groupIdCache) (\<lambda>cache.
        case map_of cache (class_name ing) of
          Some gid \<Rightarrow> returnP gid
        | None \<Rightarrow>
            bindP (LoadGroupID G ing) (\<lambda>gid.
            bindP (modifyP (g_groupIdCache_update (map_set (class_name ing) gid))) (\<lambda>_. returnP gid)))
      else LoadGroupID G ing)"

definition isGroupMember :: "'w group_env \<Rightarrow> string \<times> string \<Rightarrow> ingress \<Rightarrow> ('w, bool) group_prog" where
  "isGroupMember G groupID ing =
     (if igs_Deleted ing then returnP False
      else bindP (cached_group_id G ing) (\<lambda>gid. returnP (if snd gid = [] then False else groupID = gid)))"

subsection \<open>Order of the members\<close>

definition member_order_annotation :: "ingress \<Rightarrow> string" where
  "member_order_annotation ing =
     GetStringAnnotationMutil ''alb.ingress.kubernetes.io/albconfig.order'' (alb_annotation ''order'') ing"

text \<open>The loop over the members, with the explicit orders seen so far.\<close>

fun member_orders :: "int list \<Rightarrow> ingress list \<Rightarrow> (go_error \<times> ingress) + (ingress \<times> int) list" where
  "member_orders seen [] = Inr []"
| "member_orders seen (ing # ings) =
     (let v = member_order_annotation ing
      in if v = [] then
           (case member_orders seen ings of Inl e \<Rightarrow> Inl e | Inr os \<Rightarrow> Inr ((ing, 10) # os))
         else
           (case ParseInt64 v of
              Inl e \<Rightarrow> Inl (wrap_err ''failed to load Ingress group order for ingress: '' e, ing)
            | Inr order \<Rightarrow>
                if order < 1 \<or> order > 1000 then
                  Inl (Errorf ''explicit Ingress group order must be within [1:1000]'', ing)
                else if order \<in> set seen then Inl (Errorf ''conflict Ingress group order'', ing)
                else
                  (case member_orders (order # seen) ings of Inl e \<Rightarrow> Inl e | Inr os \<Rightarrow> Inr ((ing, order) # os))))"

definition member_key :: "ingress \<times> int \<Rightarrow> int \<times> string" where
  "member_key m = (snd m, igs_Namespace (fst m) @ ''/'' @ igs_Name (fst m))"

text \<open>\<open>sort.Slice\<close> by order and name; members have different names, so there are no ties.\<close>

definition sortGroupMembers :: "ingress list \<Rightarrow> (go_error \<times> ingress) + ingress list" where
  "sortGroupMembers members =
     (case member_orders [] members of Inl e \<Rightarrow> Inl e | Inr os \<Rightarrow> Inr (map fst (sort_key member_key os)))"

subsection \<open>Loading a group\<close>

definition crd_scope :: "'w group_env \<Rightarrow> string \<Rightarrow> ('w, string) group_prog" where
  "crd_scope G groupName =
     bindP (getP g_acrdCache) (\<lambda>cache.
     case map_of cache groupName of
       Some scope \<Rightarrow> returnP scope
     | None \<Rightarrow>
         bindP (invoke GGetScope (gl_GetScope G)) (\<lambda>scope.
         bindP (modifyP (g_acrdCache_update (map_set groupName scope))) (\<lambda>_. returnP scope)))"

definition in_question :: "'w group_env \<Rightarrow> string \<times> string \<Rightarrow> string \<Rightarrow> ('w, bool) group_prog" where
  "in_question G groupID groupName =
     (if fst groupID = ''kube-system'' then returnP (snd groupID = groupName)
      else bindP (crd_scope G groupName) (\<lambda>scope. returnP (scope \<noteq> ''Namespaced'' \<or> snd groupID = groupName)))"

definition GetIngressFinalizer :: string where
  "GetIngressFinalizer = ''ingress.k8s.alibaba/resources''"

definition containsGroupFinalizer :: "string \<Rightarrow> ingress \<Rightarrow> bool" where
  "containsGroupFinalizer f ing \<longleftrightarrow> f \<in> set (igs_Finalizers ing)"

definition load_step ::
  "'w group_env \<Rightarrow> string \<times> string \<Rightarrow> ingress \<Rightarrow> ingress list \<times> ingress list \<Rightarrow> ('w, ingress list \<times> ingress list) group_prog" where
  "load_step G groupID ing acc =
     (case acc of (members, inactive) \<Rightarrow>
        bindP (blame ing (group_name G ing)) (\<lambda>groupName.
        bindP (blame ing (in_question G groupID groupName)) (\<lambda>q.
        if \<not> q then returnP (members, inactive)
        else
          bindP (blame ing (wrapP ''ingress: '' (isGroupMember G groupID ing))) (\<lambda>isMember.
          returnP (if isMember then (members @ [ing], inactive)
                   else if containsGroupFinalizer GetIngressFinalizer ing then (members, inactive @ [ing])
                   else (members, inactive))))))"

definition Load :: "'w group_env \<Rightarrow> string \<times> string \<Rightarrow> ingress list \<Rightarrow> ('w, ingress_group) group_prog" where
  "Load G groupID ingresses =
     bindP (modifyP (\<lambda>s. s\<lparr>g_acrdCache := [], g_groupIdCache := [], g_errIngress := None\<rparr>)) (\<lambda>_.
     bindP (foldP (load_step G groupID) ingresses ([], [])) (\<lambda>(members, inactive).
     case sortGroupMembers members of
       Inl (e, ing) \<Rightarrow> bindP (modifyP (g_errIngress_update (\<lambda>_. Some ing))) (\<lambda>_. throwP e)
     | Inr sortedMembers \<Rightarrow> returnP \<lparr>grp_ID = groupID, grp_Members = sortedMembers, grp_InactiveMembers = inactive\<rparr>))"

subsection \<open>Finalizers\<close>

text \<open>
  One attempt of \<open>helper.AddFinalizers\<close> and of \<open>helper.RemoveFinalizers\<close> on an ingress: the
  object is read again, and the result is the object as it is then.
\<close>

definition add_ingress_finalizer :: "'w group_env \<Rightarrow> ingress \<Rightarrow> ('w, ingress) group_prog" where
  "add_ingress_finalizer G ing =
     bindP (invoke (GGetIngress (igs_Namespace ing, igs_Name ing)) (gl_GetIngress G (igs_Namespace ing, igs_Name ing))) (\<lambda>old.
     if containsGroupFinalizer GetIngressFinalizer old then returnP old
     else (let new = old\<lparr>igs_Finalizers := igs_Finalizers old @ [GetIngressFinalizer]\<rparr>
           in invoke (GPatchIngress old new) (gl_PatchIngress G old new)))"

definition remove_ingress_finalizer :: "'w group_env \<Rightarrow> ingress \<Rightarrow> ('w, ingress) group_prog" where
  "remove_ingress_finalizer G ing =
     bindP (invoke (GGetIngress (igs_Namespace ing, igs_Name ing)) (gl_GetIngress G (igs_Namespace ing, igs_Name ing))) (\<lambda>old.
     if \<not> containsGroupFinalizer GetIngressFinalizer old then returnP old
     else (let new = old\<lparr>igs_Finalizers := filter (\<lambda>f. f \<noteq> GetIngressFinalizer) (igs_Finalizers old)\<rparr>
           in invoke (GPatchIngress old new) (gl_PatchIngress G old new)))"

definition AddGroupFinalizer :: "'w group_env \<Rightarrow> ingress list \<Rightarrow> ('w, ingress list) group_prog" where
  "AddGroupFinalizer G members =
     mapP (\<lambda>member. RetryOnConflict (gl_IsConflict G) DefaultBackoff_Steps (Errorf []) (add_ingress_finalizer G member)) members"

definition RemoveGroupFinalizer :: "'w group_env \<Rightarrow> ingress list \<Rightarrow> ('w, ingress list) group_prog" where
  "RemoveGroupFinalizer G inactiveMembers =
     mapP (\<lambda>ing. RetryOnConflict (gl_IsConflict G) DefaultBackoff_Steps (Errorf []) (remove_ingress_finalizer G ing)) inactiveMembers"

subsection \<open>Order and membership\<close>

text \<open>The order of a member: the one it states, or 10.\<close>

definition group_order :: "ingress \<Rightarrow> int" where
  "group_order ing =
     (if member_order_annotation ing = [] then 10
      else (case ParseInt64 (member_order_annotation ing) of Inl _ \<Rightarrow> 10 | Inr i \<Rightarrow> i))"

lemma member_orders_Inr:
  "member_orders seen ings = Inr os \<Longrightarrow>
   os = map (\<lambda>m. (m, group_order m)) ings \<and> (\<forall>m \<in> set ings. 1 \<le> group_order m \<and> group_order m \<le> 1000) \<and>
   distinct (map group_order (filter (\<lambda>m. member_order_annotation m \<noteq> []) ings)) \<and>
   group_order ` set (filter (\<lambda>m. member_order_annotation m \<noteq> []) ings) \<inter> set seen = {}"
proof (induction ings arbitrary: seen os)
  case (Cons ing ings)
  show ?case
  proof (cases "member_order_annotation ing = []")
    case True
    with Cons.prems obtain os' where "member_orders seen ings = Inr os'" "os = (ing, 10) # os'"
      by (auto simp: Let_def split: sum.splits)
    moreover from True have "group_order ing = 10" by (simp add: group_order_def)
    ultimately show ?thesis using Cons.IH [of seen os'] True by auto
  next
    case False
    with Cons.prems obtain i os' where i: "ParseInt64 (member_order_annotation ing) = Inr i" "1 \<le> i" "i \<le> 1000" "i \<notin> set seen"
      and os': "member_orders (i # seen) ings = Inr os'" "os = (ing, i) # os'"
      by (auto simp: Let_def split: sum.splits if_splits)
    moreover from False i(1) have "group_order ing = i" by (simp add: group_order_def)
    ultimately show ?thesis using Cons.IH [OF os'(1)] False by auto
  qed
qed simp

lemma sortGroupMembers_Inr:
  assumes "sortGroupMembers members = Inr ms"
  shows "mset ms = mset members" and "sorted (map (\<lambda>m. member_key (m, group_order m)) ms)"
    and "\<forall>m \<in> set members. 1 \<le> group_order m \<and> group_order m \<le> 1000"
    and "distinct (map group_order (filter (\<lambda>m. member_order_annotation m \<noteq> []) members))"
proof -
  let ?f = "\<lambda>m. (m, group_order m)"
  from assms obtain os where os: "member_orders [] members = Inr os" and ms: "ms = map fst (sort_key member_key os)"
    by (auto simp: sortGroupMembers_def split: sum.splits)
  note o = member_orders_Inr [OF os]
  from o have "mset (map fst (sort_key member_key (map ?f members))) = mset members"
    by (simp add: mset_map image_mset.compositionality comp_def)
  with o ms show "mset ms = mset members" by simp
  have "map ?f (map fst (sort_key member_key (map ?f members))) = sort_key member_key (map ?f members)"
    unfolding map_map by (rule map_idI) auto
  then have "map (\<lambda>m. member_key (?f m)) ms = map member_key (sort_key member_key (map ?f members))"
    using o ms by (metis (no_types, lifting) map_map comp_def map_eq_conv)
  then show "sorted (map (\<lambda>m. member_key (?f m)) ms)" by (simp del: map_map)
  from o show "\<forall>m \<in> set members. 1 \<le> group_order m \<and> group_order m \<le> 1000"
    "distinct (map group_order (filter (\<lambda>m. member_order_annotation m \<noteq> []) members))" by blast+
qed

lemma blame_Inr: "blame ing m s = (Inr x, t) \<longleftrightarrow> m s = (Inr x, t)"
  by (auto simp: blame_def tryP_def bindP_def returnP_def throwP_def modifyP_def
      split: prod.splits sum.splits go_error.splits)

lemma wrapP_Inr: "wrapP p m s = (Inr x, t) \<longleftrightarrow> m s = (Inr x, t)"
  by (auto simp: wrapP_def split: prod.splits)

lemma isGroupMember_active: "isGroupMember G gid ing s = (Inr True, t) \<Longrightarrow> \<not> igs_Deleted ing"
  by (auto simp: isGroupMember_def returnP_def split: if_splits)

lemma load_steps:
  assumes "foldP (load_step G gid) ings (ms, ins) s = (Inr (ms', ins'), t)"
  shows "(\<forall>m \<in> set ms'. m \<in> set ms \<or> m \<in> set ings \<and> \<not> igs_Deleted m) \<and>
    (\<forall>m \<in> set ins'. m \<in> set ins \<or> m \<in> set ings \<and> containsGroupFinalizer GetIngressFinalizer m)"
  using assms
proof (induction ings arbitrary: ms ins s)
  case Nil
  then show ?case by (simp add: returnP_def)
next
  case (Cons ing ings)
  then obtain ms1 ins1 u where step: "load_step G gid ing (ms, ins) s = (Inr (ms1, ins1), u)"
    and rest: "foldP (load_step G gid) ings (ms1, ins1) u = (Inr (ms', ins'), t)"
    by (auto simp: bindP_Inr_iff)
  from step have "(\<forall>m \<in> set ms1. m \<in> set ms \<or> m = ing \<and> \<not> igs_Deleted ing) \<and>
      (\<forall>m \<in> set ins1. m \<in> set ins \<or> m = ing \<and> containsGroupFinalizer GetIngressFinalizer ing)"
    by (auto simp: load_step_def bindP_Inr_iff blame_Inr wrapP_Inr returnP_def split: if_splits dest!: isGroupMember_active)
  with Cons.IH [OF rest] show ?case by auto
qed

subsection \<open>An API server for evaluation\<close>

text \<open>AlbConfigs are namespaced; both namespaces have one that is called like the group.\<close>

definition demo_group_env :: "unit group_env" where
  "demo_group_env = \<lparr>gl_GetIngressClass = (\<lambda>_ w. (Inr (Some ''g''), w)), gl_GetScope = (\<lambda>w. (Inr ''Namespaced'', w)),
     gl_GetAlbConfig = (\<lambda>_ w. (Inr (), w)), gl_ListAlbConfigs = (\<lambda>w. (Inr [], w)),
     gl_GetIngress = (\<lambda>_ w. (Inr demo_ingress, w)), gl_PatchIngress = (\<lambda>_ new w. (Inr new, w)), gl_IsConflict = (\<lambda>_. False)\<rparr>"

definition demo_group_state :: "unit group_state" where
  "demo_group_state = \<lparr>fx_world = (), fx_calls = [], g_acrdCache = [], g_groupIdCache = [], g_errIngress = None\<rparr>"

definition demo_other :: ingress where
  "demo_other = demo_ingress\<lparr>igs_Namespace := ''m''\<rparr>"

subsection \<open>Properties\<close>

text \<open>
  (C25) A group that is loaded consists of ingresses that were given and are not being
  deleted, sorted by order and then by name; orders lie between 1 and 1000 and no order is
  stated twice.  The inactive members are given ingresses that carry the finalizer.
\<close>

theorem loaded_group_sorted:
  assumes "Load G groupID ings s = (Inr g, t)"
  shows "grp_ID g = groupID \<and> (\<forall>m \<in> set (grp_Members g). m \<in> set ings \<and> \<not> igs_Deleted m \<and> 1 \<le> group_order m \<and> group_order m \<le> 1000) \<and>
    sorted (map (\<lambda>m. member_key (m, group_order m)) (grp_Members g)) \<and>
    inj_on group_order {m \<in> set (grp_Members g). member_order_annotation m \<noteq> []} \<and>
    (\<forall>m \<in> set (grp_InactiveMembers g). m \<in> set ings \<and> containsGroupFinalizer GetIngressFinalizer m)"
proof -
  from assms obtain members inactive u v where f: "foldP (load_step G groupID) ings ([], []) u = (Inr (members, inactive), v)"
    and rest: "(case sortGroupMembers members of
       Inl (e, ing) \<Rightarrow> bindP (modifyP (g_errIngress_update (\<lambda>_. Some ing))) (\<lambda>_. throwP e)
     | Inr ms \<Rightarrow> returnP \<lparr>grp_ID = groupID, grp_Members = ms, grp_InactiveMembers = inactive\<rparr>) v = (Inr g, t)"
    unfolding Load_def bindP_Inr_iff by auto
  from rest have so: "sortGroupMembers members = Inr (grp_Members g)" and g: "grp_ID g = groupID" "grp_InactiveMembers g = inactive"
    by (cases "sortGroupMembers members"; auto simp: bindP_Inr_iff returnP_def throwP_def split: prod.splits)+
  note s = sortGroupMembers_Inr [OF so]
  have "set (grp_Members g) = set members" using s(1) mset_eq_setD by blast
  moreover have "inj_on group_order (set (filter (\<lambda>m. member_order_annotation m \<noteq> []) members))"
    using s(4) by (simp add: distinct_map)
  ultimately show ?thesis using load_steps [OF f] s(2,3) g by simp
qed

theorem loaded_group_sorted_witness:
  "\<exists>g t. Load demo_group_env (''n'', ''g'') [demo_ingress] demo_group_state = (Inr g, t) \<and> grp_Members g = [demo_ingress] \<and>
    group_order demo_ingress \<le> 1000"
proof -
  let ?r = "fst (Load demo_group_env (''n'', ''g'') [demo_ingress] demo_group_state)"
  have "(case ?r of Inl _ \<Rightarrow> False | Inr g \<Rightarrow> grp_Members g = [demo_ingress])" by code_simp
  then obtain g where "?r = Inr g" and m: "grp_Members g = [demo_ingress]" by (auto split: sum.splits)
  then obtain t where t: "Load demo_group_env (''n'', ''g'') [demo_ingress] demo_group_state = (Inr g, t)" by (metis prod.collapse)
  from loaded_group_sorted [OF t] m t show ?thesis by auto
qed

text \<open>
  While a group is loaded, the group of an ingress is cached under its class alone.
  With AlbConfigs per namespace, an ingress of another namespace that has its own AlbConfig of
  that name is therefore taken for a member of the group of the first one, although
  \<open>LoadGroupID\<close> gives its own group.
\<close>

theorem class_cache_mixes_namespaces:
  "map_sum id grp_Members (fst (Load demo_group_env (''n'', ''g'') [demo_ingress, demo_other] demo_group_state)) =
     Inr [demo_other, demo_ingress] \<and>
   fst (LoadGroupID demo_group_env demo_other demo_group_state) = Inr (''m'', ''g'')"
  by code_simp

end
