(* ===== verification/Endpoint_Resolver.thy ===== *)
theory Endpoint_Resolver
  imports Server_Groups Alb_Servers
begin

text \<open>
  Backends of the ingress controller: \<open>ingress/reconcile/backend/endpoint_resolver.go\<close> finds
  the endpoints of a service port in the three traffic modes,
  \<open>ingress/reconcile/backend/backend.go\<close> chooses the mode, and
  \<open>builder/service_manager/model_builder_service.go\<close> collects the backends of all ports of a
  service for the server applier.

  The API server and the cloud are those of the service controller (\<open>Nlb_Cloud\<close>).  The
  Endpoints object is read with more of its fields here, and pods come from the local store,
  so both are operations of a record of their own; a read of the store leaves the world
  alone and is no request.
\<close>

subsection \<open>Endpoints with the pods behind them\<close>

record target_ref =
  tr_Kind :: string
  tr_Namespace :: string
  tr_Name :: string

record pod_address =
  pa_IP :: string
  pa_NodeName :: "string option"
  pa_TargetRef :: "target_ref option"

record pod_subset =
  ps_Ports :: "(string \<times> int) list"
  ps_Addresses :: "pod_address list"
  ps_NotReadyAddresses :: "pod_address list"

record pod_endpoint =
  pe_IP :: string
  pe_Port :: int
  pe_NodeName :: "string option"
  pe_Pod :: pod

record 'w resolver =
  er_GetEndpoints :: "string \<times> string \<Rightarrow> 'w \<Rightarrow> pod_subset list res \<times> 'w"
  er_GetPod :: "string \<Rightarrow> 'w \<Rightarrow> pod res"

definition storeP :: "('w \<Rightarrow> 'a res) \<Rightarrow> ('w, 'a) nlb_prog" where
  "storeP f = (\<lambda>s. (f (fx_world s), s))"

definition ErrNotFound :: string where
  "ErrNotFound = ''backend not found''"

text \<open>\<open>helper/pod_utils.go\<close>\<close>

definition IsPodHasReadinessGate :: "pod \<Rightarrow> bool" where
  "IsPodHasReadinessGate p \<longleftrightarrow> list_ex (\<lambda>rg. rg = BuildReadinessGatePodConditionType) (pod_ReadinessGates p)"

definition IsPodContainersReady :: "pod \<Rightarrow> bool" where
  "IsPodContainersReady p \<longleftrightarrow>
     (case GetPodCondition p ''ContainersReady'' of None \<Rightarrow> False | Some c \<Rightarrow> pc_Status c = ''True'')"

definition LookupServicePort :: "service \<Rightarrow> int_or_string \<Rightarrow> service_port res" where
  "LookupServicePort svc port =
     (case (case port of
              StrPort name \<Rightarrow> find (\<lambda>p. sp_Name p = name) (spec_Ports (svc_Spec svc))
            | IntPort n \<Rightarrow> find (\<lambda>p. sp_Port p = n) (spec_Ports (svc_Spec svc))) of
        Some p \<Rightarrow> Inr p
      | None \<Rightarrow> Inl (Errorf ''unable to find port on service''))"

definition findServiceAndServicePort ::
  "'w cloud \<Rightarrow> string \<times> string \<Rightarrow> int_or_string \<Rightarrow> ('w, service \<times> service_port) nlb_prog" where
  "findServiceAndServicePort C svcKey port =
     bindP (tryP (GetService C svcKey)) (\<lambda>r. case r of
       Inl e \<Rightarrow> throwP (if c_IsNotFound C e then wrap_err (ErrNotFound @ '': '') e else e)
     | Inr svc \<Rightarrow>
         bindP (wrapP (ErrNotFound @ '': '') (liftP (LookupServicePort svc port))) (\<lambda>svcPort.
         returnP (svc, svcPort)))"

definition findPodByReference :: "'w resolver \<Rightarrow> target_ref \<Rightarrow> ('w, pod) nlb_prog" where
  "findPodByReference R ref = storeP (er_GetPod R (tr_Namespace ref @ ''/'' @ tr_Name ref))"

definition buildPodEndpoint :: "pod_address \<Rightarrow> int \<Rightarrow> pod \<Rightarrow> pod_endpoint" where
  "buildPodEndpoint epAddr port p = \<lparr>pe_IP = pa_IP epAddr, pe_Port = port, pe_NodeName = pa_NodeName epAddr, pe_Pod = p\<rparr>"

text \<open>
  What one address adds: the endpoints, none or one, and whether it may become ready later.
  The loop bodies for ready and for other addresses share the look-up of the pod.
\<close>

definition with_pod ::
  "'w resolver \<Rightarrow> (pod_address \<Rightarrow> pod \<Rightarrow> pod_endpoint list \<times> bool) \<Rightarrow> pod_address \<Rightarrow>
   ('w, pod_endpoint list \<times> bool) nlb_prog" where
  "with_pod R f addr =
     (case pa_TargetRef addr of
        None \<Rightarrow> returnP ([], False)
      | Some ref \<Rightarrow>
          if tr_Kind ref \<noteq> ''Pod'' then returnP ([], False)
          else bindP (findPodByReference R ref) (\<lambda>p. returnP (f addr p)))"

definition ready_address :: "int \<Rightarrow> pod_address \<Rightarrow> pod \<Rightarrow> pod_endpoint list \<times> bool" where
  "ready_address backendPort addr p = ([buildPodEndpoint addr backendPort p], False)"

definition not_ready_address :: "int \<Rightarrow> pod_address \<Rightarrow> pod \<Rightarrow> pod_endpoint list \<times> bool" where
  "not_ready_address backendPort addr p =
     (if \<not> IsPodHasReadinessGate p then ([], False)
      else if \<not> IsPodContainersReady p then ([], True)
      else ([buildPodEndpoint addr backendPort p], False))"

definition resolve_subset ::
  "'w resolver \<Rightarrow> service_port \<Rightarrow> pod_subset \<Rightarrow> ('w, (pod_endpoint list \<times> bool) list) nlb_prog" where
  "resolve_subset R svcPort ep =
     (let backendPort = port_by_name (ps_Ports ep) (sp_Name svcPort)
      in bindP (mapP (with_pod R (ready_address backendPort)) (ps_Addresses ep)) (\<lambda>xs.
         bindP (mapP (with_pod R (not_ready_address backendPort)) (ps_NotReadyAddresses ep)) (\<lambda>ys.
         returnP (xs @ ys))))"

definition resolvePodEndpoints ::
  "'w resolver \<Rightarrow> 'w cloud \<Rightarrow> service \<Rightarrow> service_port \<Rightarrow> ('w, pod_endpoint list \<times> bool) nlb_prog" where
  "resolvePodEndpoints R C svc svcPort =
     (let epsKey = (svc_Namespace svc, svc_Name svc)
      in bindP (tryP (invoke (CGetEndpoints epsKey) (er_GetEndpoints R epsKey))) (\<lambda>r. case r of
           Inl e \<Rightarrow> throwP (if c_IsNotFound C e then wrap_err (ErrNotFound @ '': '') e else e)
         | Inr subsets \<Rightarrow>
             bindP (mapP (resolve_subset R svcPort) subsets) (\<lambda>xss.
             returnP (concat (map fst (concat xss)), list_ex snd (concat xss)))))"

subsection \<open>Backends from endpoints\<close>

definition buildNodePortEndpoint :: "string \<Rightarrow> string \<Rightarrow> int \<Rightarrow> string \<Rightarrow> int \<Rightarrow> pod option \<Rightarrow> backend_item" where
  "buildNodePortEndpoint instanceID serverIP port tp weight p =
     \<lparr>bi_Pod = p, bi_Description = [], bi_ServerId = instanceID, bi_ServerIp = serverIP, bi_Weight = weight,
      bi_Port = port, bi_Type = tp\<rparr>"

definition eni_endpoint :: "smap \<Rightarrow> pod_endpoint \<Rightarrow> backend_item res" where
  "eni_endpoint result b =
     (case map_of result (pe_IP b) of
        None \<Rightarrow> Inl (Errorf ''can not find eniid for ip in vpc'')
      | Some eniid \<Rightarrow>
          Inr (buildNodePortEndpoint eniid (pe_IP b) (pe_Port b) ''eni'' DefaultServerWeight (Some (pe_Pod b))))"

definition transPodEndpointsToEnis :: "'w cloud \<Rightarrow> pod_endpoint list \<Rightarrow> ('w, backend_item list) nlb_prog" where
  "transPodEndpointsToEnis C backends =
     bindP (wrapP ''get vpc id from metadata error:'' (VpcID C)) (\<lambda>vpcId.
     bindP (wrapP ''call DescribeNetworkInterfaces: ''
              (DescribeNetworkInterfaces C vpcId (map pe_IP backends) ''ipv4'')) (\<lambda>result.
     liftP (map_res (eni_endpoint result) backends)))"

definition ResolveENIEndpoints ::
  "'w resolver \<Rightarrow> 'w cloud \<Rightarrow> string \<times> string \<Rightarrow> int_or_string \<Rightarrow> ('w, backend_item list \<times> bool) nlb_prog" where
  "ResolveENIEndpoints R C svcKey port =
     bindP (findServiceAndServicePort C svcKey port) (\<lambda>(svc, svcPort).
     bindP (resolvePodEndpoints R C svc svcPort) (\<lambda>(podEndpoints, potential).
     bindP (transPodEndpointsToEnis C podEndpoints) (\<lambda>eps.
     returnP (eps, potential))))"

text \<open>A later node of the same name replaces an earlier one.\<close>

definition nodesByName :: "node list \<Rightarrow> (string \<times> node) list" where
  "nodesByName nodes = fold (\<lambda>n m. map_set (node_Name n) n m) nodes []"

text \<open>The method of the same name of the server group manager, over the resolver's own cache.\<close>

definition resolver_getInstanceIdByNode :: "'w cloud \<Rightarrow> node \<Rightarrow> ('w, string) nlb_prog" where
  "resolver_getInstanceIdByNode C node =
     bindP (wrapP ''get vpc id from metadata error:'' (VpcID C)) (\<lambda>vpcId.
     let ip = internal_ip node
     in if ip = [] then
          throwP (Errorf ''get privateIp from node error: node.statu.addresses.type = internalIP not exist'')
        else
     bindP (wrapP ''get region id from metadata error:'' (Region C)) (\<lambda>regionId.
     let cacheKey = regionId @ ''.'' @ vpcId @ ''.'' @ ip
     in bindP (cacheGet C cacheKey) (\<lambda>hit. case hit of
          Some i \<Rightarrow> returnP i
        | None \<Rightarrow>
     bindP (tryP (GetInstanceByIp C ip regionId vpcId)) (\<lambda>r. case r of
          Inr (i # _) \<Rightarrow> bindP (cacheSet C cacheKey i) (\<lambda>_. returnP i)
        | _ \<Rightarrow> throwP (Errorf ''the corresponding instance cannot be found'')))))"

text \<open>The node of an endpoint; one on a virtual node goes to the list of those resolved by address.\<close>

definition on_virtual_node :: "(string \<times> node) list \<Rightarrow> pod_endpoint \<Rightarrow> pod_endpoint list res" where
  "on_virtual_node nodes pe =
     (case pe_NodeName pe of
        None \<Rightarrow> Inl (Errorf ''empty node name'')
      | Some name \<Rightarrow>
          (case map_of nodes name of
             None \<Rightarrow> Inr []
           | Some node \<Rightarrow> Inr (if index_str (node_Labels node) ''type'' = LabelNodeTypeVK then [pe] else [])))"

definition local_endpoint ::
  "'w cloud \<Rightarrow> (string \<times> node) list \<Rightarrow> int \<Rightarrow> pod_endpoint \<Rightarrow> ('w, backend_item list \<times> pod_endpoint list) nlb_prog" where
  "local_endpoint C nodes svcNodePort pe =
     (case pe_NodeName pe of
        None \<Rightarrow> throwP (Errorf ''empty node name'')
      | Some name \<Rightarrow>
          (case map_of nodes name of
             None \<Rightarrow> returnP ([], [])
           | Some node \<Rightarrow>
               if index_str (node_Labels node) ''type'' = LabelNodeTypeVK then returnP ([], [pe])
               else if HasExcludeLabel node then returnP ([], [])
               else bindP (resolver_getInstanceIdByNode C node) (\<lambda>i.
                 returnP ([buildNodePortEndpoint i [] svcNodePort ''ecs'' DefaultServerWeight (Some (pe_Pod pe))], []))))"

definition eni_endpoints_of :: "'w cloud \<Rightarrow> pod_endpoint list \<Rightarrow> ('w, backend_item list) nlb_prog" where
  "eni_endpoints_of C eci = (if length eci \<noteq> 0 then transPodEndpointsToEnis C eci else returnP [])"

definition RemoteDuplicatedBackends :: "backend_item list \<Rightarrow> backend_item list" where
  "RemoteDuplicatedBackends backends = keep_first bi_ServerId [] backends"

definition ResolveLocalEndpoints ::
  "'w resolver \<Rightarrow> 'w cloud \<Rightarrow> string \<times> string \<Rightarrow> int_or_string \<Rightarrow> ('w, backend_item list \<times> bool) nlb_prog" where
  "ResolveLocalEndpoints R C svcKey port =
     bindP (findServiceAndServicePort C svcKey port) (\<lambda>(svc, svcPort).
     bindP (resolvePodEndpoints R C svc svcPort) (\<lambda>(podEndPoints, potential).
     bindP (GetNodes C svc) (\<lambda>nodes.
     bindP (mapP (local_endpoint C (nodesByName nodes) (sp_NodePort svcPort)) podEndPoints) (\<lambda>parts.
     bindP (eni_endpoints_of C (concat (map snd parts))) (\<lambda>eniEps.
     returnP (RemoteDuplicatedBackends (concat (map fst parts) @ eniEps), potential))))))"

definition ResolveClusterEndpoints ::
  "'w resolver \<Rightarrow> 'w cloud \<Rightarrow> string \<times> string \<Rightarrow> int_or_string \<Rightarrow> ('w, backend_item list \<times> bool) nlb_prog" where
  "ResolveClusterEndpoints R C svcKey port =
     bindP (findServiceAndServicePort C svcKey port) (\<lambda>(svc, svcPort).
     bindP (resolvePodEndpoints R C svc svcPort) (\<lambda>(podEndPoints, potential).
     bindP (GetNodes C svc) (\<lambda>nodes.
     bindP (mapP (\<lambda>node.
         bindP (resolver_getInstanceIdByNode C node) (\<lambda>i.
         returnP (buildNodePortEndpoint i [] (sp_NodePort svcPort) ''ecs'' DefaultServerWeight None)))
       (filter (\<lambda>node. \<not> HasExcludeLabel node) nodes)) (\<lambda>ecsEndpoints.
     bindP (liftP (map_res (on_virtual_node (nodesByName nodes)) podEndPoints)) (\<lambda>eci.
     bindP (eni_endpoints_of C (concat eci)) (\<lambda>eniEndpointsFromEci.
     returnP (ecsEndpoints @ eniEndpointsFromEci, potential)))))))"

subsection \<open>Backends of a service (\<open>backend.go\<close>)\<close>

definition BuildServicePortSDKBackends ::
  "config \<Rightarrow> 'w resolver \<Rightarrow> 'w cloud \<Rightarrow> string \<times> string \<Rightarrow> int_or_string \<Rightarrow> ('w, backend_item list \<times> bool) nlb_prog" where
  "BuildServicePortSDKBackends cfg R C svcKey port =
     bindP (GetService C svcKey) (\<lambda>svc.
     bindP (liftP (GetServiceTrafficPolicy cfg svc)) (\<lambda>policy.
     let key = (svc_Namespace svc, svc_Name svc)
     in case policy of
          ENITrafficPolicy \<Rightarrow> ResolveENIEndpoints R C key port
        | LocalTrafficPolicy \<Rightarrow> ResolveLocalEndpoints R C key port
        | ClusterTrafficPolicy \<Rightarrow> ResolveClusterEndpoints R C key port
        | OtherTrafficPolicy p \<Rightarrow> throwP (Errorf ''not supported traffic policy'')))"

definition service_port_backends ::
  "config \<Rightarrow> 'w resolver \<Rightarrow> 'w cloud \<Rightarrow> service \<Rightarrow> service_port \<Rightarrow>
   (int \<times> backend_item list) list \<times> bool \<Rightarrow> ('w, (int \<times> backend_item list) list \<times> bool) nlb_prog" where
  "service_port_backends cfg R C svc port acc =
     bindP (tryP (BuildServicePortSDKBackends cfg R C (svc_Namespace svc, svc_Name svc) (IntPort (sp_Port port)))) (\<lambda>r.
       case r of
         Inl e \<Rightarrow> if c_IsNotFound C e then returnP acc else throwP e
       | Inr (backends, potential) \<Rightarrow> returnP (map_set (sp_Port port) backends (fst acc), potential))"

definition BuildServicePortsToSDKBackends ::
  "config \<Rightarrow> 'w resolver \<Rightarrow> 'w cloud \<Rightarrow> service \<Rightarrow> ('w, (int \<times> backend_item list) list \<times> bool) nlb_prog" where
  "BuildServicePortsToSDKBackends cfg R C svc =
     foldP (service_port_backends cfg R C svc) (spec_Ports (svc_Spec svc)) ([], False)"

subsection \<open>The service stack (\<open>model_builder_service.go\<close>)\<close>

record service_stack_context =
  ssc_ClusterID :: string
  ssc_ServiceNamespace :: string
  ssc_ServiceName :: string
  ssc_Service :: service
  ssc_ServicePortToIngressNames :: "(int \<times> string list) list"
  ssc_IngressAlbConfigMap :: smap
  ssc_IsServiceNotFound :: bool

fun policy_string :: "traffic_policy \<Rightarrow> string" where
  "policy_string LocalTrafficPolicy = ''Local''"
| "policy_string ClusterTrafficPolicy = ''Cluster''"
| "policy_string ENITrafficPolicy = ''ENI''"
| "policy_string (OtherTrafficPolicy p) = p"

definition port_server_groups ::
  "(int \<times> string list) list \<Rightarrow> (int \<times> backend_item list) list \<Rightarrow> (int \<times> string list \<times> backend_item list) list" where
  "port_server_groups portToIngress port2Backends =
     map (\<lambda>(port, ingressNames).
       (port, ingressNames, case map_of port2Backends port of Some bs \<Rightarrow> bs | None \<Rightarrow> [])) portToIngress"

definition service_Build ::
  "config \<Rightarrow> 'w resolver \<Rightarrow> 'w cloud \<Rightarrow> service_stack_context \<Rightarrow> ('w, service_manager) nlb_prog" where
  "service_Build cfg R C ctx =
     bindP (if ssc_IsServiceNotFound ctx then returnP ([], [], False)
            else bindP (liftP (GetServiceTrafficPolicy cfg (ssc_Service ctx))) (\<lambda>policy.
                 bindP (wrapP ''build servicePortToServerGroup error: ''
                          (BuildServicePortsToSDKBackends cfg R C (ssc_Service ctx))) (\<lambda>(backends, potential).
                 returnP (policy_string policy, backends, potential)))) (\<lambda>(policy, port2Backends, potential).
     returnP \<lparr>sm_ClusterID = ssc_ClusterID ctx, sm_Namespace = ssc_ServiceNamespace ctx, sm_Name = ssc_ServiceName ctx,
       sm_PortToServerGroup = port_server_groups (ssc_ServicePortToIngressNames ctx) port2Backends,
       sm_IngressAlbConfigMap = ssc_IngressAlbConfigMap ctx, sm_TrafficPolicy = policy,
       sm_ContainsPotentialReadyEndpoints = potential\<rparr>)"

subsection \<open>What the resolver returns\<close>

lemma mapP_reader:
  assumes "\<And>x s. f x s = (g (fx_world s) x, s)"
  shows "mapP f xs s = (map_res (g (fx_world s)) xs, s)"
proof (induction xs)
  case Nil
  then show ?case by (simp add: returnP_def)
next
  case (Cons x xs)
  then show ?case by (auto simp: assms prog_simps split: sum.splits)
qed

text \<open>The pod behind an address in a given state of the store.\<close>

definition pod_behind :: "'w resolver \<Rightarrow> 'w \<Rightarrow> pod_address \<Rightarrow> pod \<Rightarrow> bool" where
  "pod_behind R w a p \<longleftrightarrow> (\<exists>ref. pa_TargetRef a = Some ref \<and> tr_Kind ref = ''Pod'' \<and>
     er_GetPod R (tr_Namespace ref @ ''/'' @ tr_Name ref) w = Inr p)"

definition address_part ::
  "'w resolver \<Rightarrow> (pod_address \<Rightarrow> pod \<Rightarrow> pod_endpoint list \<times> bool) \<Rightarrow> 'w \<Rightarrow> pod_address \<Rightarrow> (pod_endpoint list \<times> bool) res" where
  "address_part R f w addr =
     (case pa_TargetRef addr of
        None \<Rightarrow> Inr ([], False)
      | Some ref \<Rightarrow>
          if tr_Kind ref \<noteq> ''Pod'' then Inr ([], False)
          else bind_res (er_GetPod R (tr_Namespace ref @ ''/'' @ tr_Name ref) w) (\<lambda>p. Inr (f addr p)))"

lemma with_pod_reads: "with_pod R f addr s = (address_part R f (fx_world s) addr, s)"
  by (auto simp: with_pod_def address_part_def findPodByReference_def storeP_def prog_simps
      split: option.splits sum.splits)

lemma with_pods_read: "mapP (with_pod R f) as s = (map_res (address_part R f (fx_world s)) as, s)"
  by (rule mapP_reader) (rule with_pod_reads)

lemma address_part_Inr:
  "address_part R f w a = Inr x \<Longrightarrow> x = ([], False) \<and> (\<nexists>p. pod_behind R w a p) \<or> (\<exists>p. pod_behind R w a p \<and> x = f a p)"
  by (auto simp: address_part_def pod_behind_def bind_res_Inr_iff split: option.splits if_splits)

lemma pod_behind_unique: "pod_behind R w a p \<Longrightarrow> pod_behind R w a q \<Longrightarrow> p = q"
  by (auto simp: pod_behind_def)

text \<open>All parts of the addresses of a list, collected.\<close>

lemma address_parts:
  assumes "map_res (address_part R f w) as = Inr xs"
  shows "(\<Union>x \<in> set xs. set (fst x)) = {e. \<exists>a \<in> set as. \<exists>p. pod_behind R w a p \<and> e \<in> set (fst (f a p))}" (is "?L = ?R")
    and "(\<exists>x \<in> set xs. snd x) \<longleftrightarrow> (\<exists>a \<in> set as. \<exists>p. pod_behind R w a p \<and> snd (f a p))" (is "?l \<longleftrightarrow> ?r")
proof -
  have l: "\<exists>a \<in> set as. \<exists>p. pod_behind R w a p \<and> x = f a p" if "x \<in> set xs" "x \<noteq> ([], False)" for x
    using map_res_set [OF assms that(1)] address_part_Inr that(2) by metis
  have r: "f a p \<in> set xs" if "a \<in> set as" "pod_behind R w a p" for a p
  proof -
    from that(1) obtain i where i: "i < length as" "as ! i = a" by (auto simp: in_set_conv_nth)
    then have "address_part R f w a = Inr (xs ! i)" using map_res_Inr_nth [OF assms i(1)] by simp
    then have "xs ! i = f a p" using address_part_Inr that(2) pod_behind_unique by metis
    then show ?thesis using i map_res_Inr_length [OF assms] by (metis nth_mem)
  qed
  show "?L = ?R"
  proof (intro set_eqI iffI)
    fix e assume "e \<in> ?L"
    then obtain x where "x \<in> set xs" "e \<in> set (fst x)" by blast
    with l [of x] show "e \<in> ?R" by fastforce
  qed (use r in fastforce)
  show "?l \<longleftrightarrow> ?r"
  proof
    assume ?l
    then obtain x where "x \<in> set xs" "snd x" by blast
    with l [of x] show ?r by fastforce
  qed (use r in fastforce)
qed

definition subset_parts :: "'w resolver \<Rightarrow> service_port \<Rightarrow> 'w \<Rightarrow> pod_subset \<Rightarrow> (pod_endpoint list \<times> bool) list res" where
  "subset_parts R sp w ss =
     (let port = port_by_name (ps_Ports ss) (sp_Name sp)
      in bind_res (map_res (address_part R (ready_address port) w) (ps_Addresses ss)) (\<lambda>xs.
         bind_res (map_res (address_part R (not_ready_address port) w) (ps_NotReadyAddresses ss)) (\<lambda>ys.
         Inr (xs @ ys))))"

lemma resolve_subset_reads: "resolve_subset R sp ss s = (subset_parts R sp (fx_world s) ss, s)"
  by (auto simp: resolve_subset_def subset_parts_def Let_def prog_simps with_pods_read bind_res_def
      split: sum.splits)

lemma resolve_subsets_read: "mapP (resolve_subset R sp) sss s = (map_res (subset_parts R sp (fx_world s)) sss, s)"
  by (rule mapP_reader) (rule resolve_subset_reads)

text \<open>The specification: which addresses serve, with which port, and which may serve later.\<close>

definition serving :: "'w resolver \<Rightarrow> 'w \<Rightarrow> pod_subset \<Rightarrow> pod_address \<Rightarrow> pod \<Rightarrow> bool" where
  "serving R w ss a p \<longleftrightarrow> pod_behind R w a p \<and>
     (a \<in> set (ps_Addresses ss) \<or>
      a \<in> set (ps_NotReadyAddresses ss) \<and> IsPodHasReadinessGate p \<and> IsPodContainersReady p)"

definition pending :: "'w resolver \<Rightarrow> 'w \<Rightarrow> pod_subset \<Rightarrow> pod_address \<Rightarrow> pod \<Rightarrow> bool" where
  "pending R w ss a p \<longleftrightarrow> pod_behind R w a p \<and> a \<in> set (ps_NotReadyAddresses ss) \<and>
     IsPodHasReadinessGate p \<and> \<not> IsPodContainersReady p"

lemma subset_parts_exact:
  assumes "subset_parts R sp w ss = Inr xs"
  shows "(\<Union>x \<in> set xs. set (fst x)) =
      {buildPodEndpoint a (port_by_name (ps_Ports ss) (sp_Name sp)) p |a p. serving R w ss a p}"
    and "(\<exists>x \<in> set xs. snd x) \<longleftrightarrow> (\<exists>a p. pending R w ss a p)"
proof -
  let ?port = "port_by_name (ps_Ports ss) (sp_Name sp)"
  from assms obtain ys zs where xs: "xs = ys @ zs"
    and y: "map_res (address_part R (ready_address ?port) w) (ps_Addresses ss) = Inr ys"
    and z: "map_res (address_part R (not_ready_address ?port) w) (ps_NotReadyAddresses ss) = Inr zs"
    by (auto simp: subset_parts_def Let_def bind_res_Inr_iff)
  show "(\<Union>x \<in> set xs. set (fst x)) = {buildPodEndpoint a ?port p |a p. serving R w ss a p}"
    unfolding xs set_append UN_Un address_parts(1) [OF y] address_parts(1) [OF z]
    by (auto simp: ready_address_def not_ready_address_def serving_def split: if_splits)
  show "(\<exists>x \<in> set xs. snd x) \<longleftrightarrow> (\<exists>a p. pending R w ss a p)"
    unfolding xs set_append bex_Un address_parts(2) [OF y] address_parts(2) [OF z]
    by (auto simp: ready_address_def not_ready_address_def pending_def split: if_splits)
qed

lemma map_res_complete: "map_res f xs = Inr ys \<Longrightarrow> x \<in> set xs \<Longrightarrow> \<exists>y \<in> set ys. f x = Inr y"
  by (induction xs arbitrary: ys) (auto split: sum.splits)

lemma subsets_parts_exact:
  assumes "map_res (subset_parts R sp w) subsets = Inr xss"
  shows "set (concat (map fst (concat xss))) = {buildPodEndpoint a (port_by_name (ps_Ports ss) (sp_Name sp)) p |ss a p.
      ss \<in> set subsets \<and> serving R w ss a p}" (is "?L = ?R")
    and "list_ex snd (concat xss) \<longleftrightarrow> (\<exists>ss \<in> set subsets. \<exists>a p. pending R w ss a p)" (is "?l \<longleftrightarrow> ?r")
proof -
  have "?L = (\<Union>xs \<in> set xss. \<Union>x \<in> set xs. set (fst x))" by auto
  also have "\<dots> = ?R"
  proof (intro set_eqI iffI)
    fix e assume "e \<in> (\<Union>xs \<in> set xss. \<Union>x \<in> set xs. set (fst x))"
    then obtain xs where xs: "xs \<in> set xss" and e: "e \<in> (\<Union>x \<in> set xs. set (fst x))" by blast
    from map_res_set [OF assms xs] obtain ss where "ss \<in> set subsets" and s: "subset_parts R sp w ss = Inr xs" by blast
    with e show "e \<in> ?R" unfolding subset_parts_exact(1) [OF s] by blast
  next
    fix e assume "e \<in> ?R"
    then obtain ss a p where e: "e = buildPodEndpoint a (port_by_name (ps_Ports ss) (sp_Name sp)) p"
      and ss: "ss \<in> set subsets" "serving R w ss a p" by blast
    from map_res_complete [OF assms ss(1)] obtain xs where xs: "xs \<in> set xss" and s: "subset_parts R sp w ss = Inr xs" by blast
    from e ss(2) have "e \<in> (\<Union>x \<in> set xs. set (fst x))" unfolding subset_parts_exact(1) [OF s] by blast
    with xs show "e \<in> (\<Union>xs \<in> set xss. \<Union>x \<in> set xs. set (fst x))" by blast
  qed
  finally show "?L = ?R" .
  have "?l \<longleftrightarrow> (\<exists>xs \<in> set xss. \<exists>x \<in> set xs. snd x)" by (auto simp: list_ex_iff)
  also have "\<dots> \<longleftrightarrow> ?r"
    using map_res_set [OF assms] map_res_complete [OF assms] subset_parts_exact(2) [of R sp w] by metis
  finally show "?l \<longleftrightarrow> ?r" .
qed

text \<open>A failed call whose error is passed on in some form cannot end in success.\<close>

lemma bind_try_throw_Inr_iff:
  "bindP (tryP m) (\<lambda>r. case r of Inl e \<Rightarrow> throwP (h e) | Inr x \<Rightarrow> f x) s = (Inr y, t) \<longleftrightarrow>
   (\<exists>x u. m s = (Inr x, u) \<and> f x u = (Inr y, t))"
  by (auto simp: bindP_def tryP_def throwP_def split: prod.splits sum.splits go_error.splits)

lemma resolvePodEndpoints_exact:
  assumes "resolvePodEndpoints R C svc sp s = (Inr (eps, potential), t)"
  obtains subsets w where "er_GetEndpoints R (svc_Namespace svc, svc_Name svc) (fx_world s) = (Inr subsets, w)"
    and "set eps = {buildPodEndpoint a (port_by_name (ps_Ports ss) (sp_Name sp)) p |ss a p.
      ss \<in> set subsets \<and> serving R w ss a p}"
    and "potential \<longleftrightarrow> (\<exists>ss \<in> set subsets. \<exists>a p. pending R w ss a p)"
proof -
  let ?k = "(svc_Namespace svc, svc_Name svc)"
  from assms obtain subsets u xss where g: "invoke (CGetEndpoints ?k) (er_GetEndpoints R ?k) s = (Inr subsets, u)"
    and m: "mapP (resolve_subset R sp) subsets u = (Inr xss, t)"
    and eps: "eps = concat (map fst (concat xss))" "potential = list_ex snd (concat xss)"
    unfolding resolvePodEndpoints_def Let_def bind_try_throw_Inr_iff by (auto simp: prog_Inr)
  obtain r w where rw: "er_GetEndpoints R ?k (fx_world s) = (r, w)" by fastforce
  with g have w: "r = Inr subsets" "fx_world u = w" by (auto simp: invoke_def)
  have m': "map_res (subset_parts R sp w) subsets = Inr xss"
    using m w(2) by (simp add: resolve_subsets_read)
  show ?thesis using that [of subsets w] rw w(1) subsets_parts_exact [OF m'] eps by simp
qed

lemma transPodEndpointsToEnis_Inr:
  assumes "transPodEndpointsToEnis C eps s = (Inr bs, t)"
  shows "list_all2 (\<lambda>e b. bi_ServerIp b = pe_IP e \<and> bi_Port b = pe_Port e \<and> bi_Pod b = Some (pe_Pod e) \<and>
    bi_Type b = ''eni'' \<and> bi_Weight b = DefaultServerWeight) eps bs"
proof -
  from assms obtain result where "map_res (eni_endpoint result) eps = Inr bs"
    by (auto simp: transPodEndpointsToEnis_def prog_Inr)
  then have "list_all2 (\<lambda>e b. eni_endpoint result e = Inr b) eps bs" by (simp add: map_res_Inr_iff)
  then show ?thesis
    by (rule list_all2_mono) (auto simp: eni_endpoint_def buildNodePortEndpoint_def split: option.splits)
qed

lemma findServiceAndServicePort_Inr:
  assumes "findServiceAndServicePort C key port s = (Inr (svc, sp), t)"
  shows "c_GetService C key (fx_world s) = (Inr svc, fx_world t)" and "LookupServicePort svc port = Inr sp"
proof -
  from assms obtain x u where "GetService C key s = (Inr x, u)"
    and "bindP (wrapP (ErrNotFound @ '': '') (liftP (LookupServicePort x port))) (\<lambda>svcPort. returnP (x, svcPort)) u = (Inr (svc, sp), t)"
    unfolding findServiceAndServicePort_def bind_try_throw_Inr_iff by blast
  then show "c_GetService C key (fx_world s) = (Inr svc, fx_world t)" and "LookupServicePort svc port = Inr sp"
    by (auto simp: GetService_def invoke_def prog_Inr wrapP_def split: prod.splits)
qed

lemma ResolveLocalEndpoints_distinct:
  assumes "ResolveLocalEndpoints R C key port s = (Inr (bs, potential), t)"
  shows "distinct (map bi_ServerId bs)"
proof -
  from assms obtain xs where "bs = RemoteDuplicatedBackends xs"
    by (auto simp: ResolveLocalEndpoints_def prog_Inr split: prod.splits)
  then show ?thesis using keep_first_distinct [of bi_ServerId "[]" xs] by (simp add: RemoteDuplicatedBackends_def)
qed

subsection \<open>Properties\<close>


definition demo_pod :: pod where
  "demo_pod = \<lparr>pod_Namespace = ''ns'', pod_Name = ''p'', pod_UID = ''u'', pod_ReadinessGates = [BuildReadinessGatePodConditionType],
     pod_Conditions = [\<lparr>pc_Type = ''ContainersReady'', pc_Status = ''True'', pc_Reason = [], pc_Message = []\<rparr>]\<rparr>"

definition demo_address :: pod_address where
  "demo_address = \<lparr>pa_IP = ''10.0.0.1'', pa_NodeName = Some ''n'',
     pa_TargetRef = Some \<lparr>tr_Kind = ''Pod'', tr_Namespace = ''ns'', tr_Name = ''p''\<rparr>\<rparr>"

definition demo_resolver :: "unit resolver" where
  "demo_resolver = \<lparr>er_GetEndpoints = \<lambda>_ w. (Inr [\<lparr>ps_Ports = [(''http'', 8080)], ps_Addresses = [],
       ps_NotReadyAddresses = [demo_address]\<rparr>], w),
     er_GetPod = \<lambda>_ _. Inr demo_pod\<rparr>"

definition demo_eni_cloud :: "unit cloud" where
  "demo_eni_cloud = (demo_cloud demo_service)\<lparr>c_DescribeNetworkInterfaces := \<lambda>_ _ _ w. (Inr [(''10.0.0.1'', ''eni-1'')], w)\<rparr>"


text \<open>
  The loop over the ports of a service means to pass over a port whose backends are not
  found, but the resolver wraps such an error so that it no longer counts as not found: when
  the Endpoints object of a service is missing, the backends of the whole service fail.
\<close>

theorem missing_endpoints_fail_service:
  assumes "spec_Ports (svc_Spec svc) = port # ports" and "IsENIBackendType cfg svc"
    and "\<And>k w. c_GetService C k w = (Inr svc, w)"
    and "\<And>k w. er_GetEndpoints R k w = (Inl (Errorf e), w)" and "c_IsNotFound C (Errorf e)"
    and "\<And>m. \<not> c_IsNotFound C (Errorf (ErrNotFound @ m))"
  shows "fst (BuildServicePortsToSDKBackends cfg R C svc s) = Inl (Errorf (ErrNotFound @ '': '' @ e))"
proof -
  have "LookupServicePort svc (IntPort (sp_Port port)) = Inr port" by (simp add: LookupServicePort_def assms(1))
  then show ?thesis
    using assms
    by (simp add: BuildServicePortsToSDKBackends_def service_port_backends_def BuildServicePortSDKBackends_def
        GetServiceTrafficPolicy_def ResolveENIEndpoints_def findServiceAndServicePort_def resolvePodEndpoints_def
        GetService_def invoke_def prog_simps)
qed

theorem missing_endpoints_fail_service_witness:
  "fst (BuildServicePortsToSDKBackends (demo_config\<lparr>cfg_ForceBackendENI := ''true''\<rparr>)
     (demo_resolver\<lparr>er_GetEndpoints := \<lambda>_ w. (Inl (Errorf ''404''), w)\<rparr>)
     ((demo_cloud demo_service)\<lparr>c_IsNotFound := \<lambda>e. e = Errorf ''404''\<rparr>) demo_service demo_state) =
   Inl (Errorf ''backend not found: 404'')"
  using missing_endpoints_fail_service [of demo_service _ "[]" "demo_config\<lparr>cfg_ForceBackendENI := ''true''\<rparr>"
      "(demo_cloud demo_service)\<lparr>c_IsNotFound := \<lambda>e. e = Errorf ''404''\<rparr>"
      "demo_resolver\<lparr>er_GetEndpoints := \<lambda>_ w. (Inl (Errorf ''404''), w)\<rparr>" "''404''" demo_state]
  by (simp add: demo_service_def demo_cloud_def ErrNotFound_def IsENIBackendType_def index_str_def demo_config_def)

end
