(* ===== verification/Alb_Sdk.thy ===== *)
theory Alb_Sdk
  imports Alb_Specs Backends
begin

text \<open>
  The boundary of the provider \<open>pkg/provider/alibaba/alb\<close>: the operations of the ALB client
  of the Alibaba Cloud SDK that it calls.  Each operation is a parameter, a field of the
  record \<open>albsdk\<close>, and each request is appended to the log, so that the theorems about
  requests hold for every behaviour of the cloud.  Go types of the SDK that have the same
  fields (the add and the replace form of a server, say) are one record here, and only the
  fields that the provider fills in or reads are kept.

  Five parameters stand for time, the scheduler and the order of ranging over a map
  (\<open>k_range\<close>).  \<open>k_pages\<close> bounds the loops that ask
  for page after page: a service that never ends its pages keeps the code busy for ever, and
  here the loop stops with a panic of its own once the fuel is used up.  \<open>k_polls\<close> is the
  number of attempts \<open>wait.PollImmediate\<close> makes before its timeout.  \<open>k_waits\<close> bounds in the same
  way as \<open>k_pages\<close> the wait for an access control list, which has no timeout.  \<open>k_late\<close> decides a race
  of two goroutines, see \<open>Provider_Servers\<close>.
\<close>

subsection \<open>Requests and answers\<close>

record sdk_server =
  ks_ServerIp :: string
  ks_ServerId :: string
  ks_Port :: string
  ks_ServerType :: string
  ks_Weight :: string

record async_job =
  job_Status :: string
  job_ErrorMessage :: string

record sdk_hc_request =
  hq_Codes :: "string list option"
  hq_Enabled :: string
  hq_Timeout :: string
  hq_Method :: string
  hq_Host :: string
  hq_Protocol :: string
  hq_UnhealthyThreshold :: string
  hq_HealthyThreshold :: string
  hq_TcpFastCloseEnabled :: string
  hq_Path :: string
  hq_Interval :: string
  hq_HttpCodes :: "string list option"
  hq_HttpVersion :: string
  hq_ConnectPort :: string

record sdk_sticky_request =
  sq_Enabled :: string
  sq_Cookie :: string
  sq_CookieTimeout :: string
  sq_Type :: string

text \<open>A zero value of an embedded struct is \<open>None\<close>: nothing of it is sent.\<close>

record sgp_request =
  gq_ServerGroupId :: string
  gq_ServerGroupName :: string
  gq_ServiceName :: string
  gq_VpcId :: string
  gq_Scheduler :: string
  gq_Protocol :: string
  gq_UpstreamKeepaliveEnabled :: "bool option"
  gq_HealthCheckConfig :: "sdk_hc_request option"
  gq_StickySessionConfig :: "sdk_sticky_request option"
  gq_UchConfig :: "(string \<times> string) option"
  gq_ServerGroupType :: string

record sdk_server_group =
  kg_ServerGroupId :: string
  kg_ServerGroupName :: string
  kg_ServiceName :: string
  kg_ServerGroupStatus :: string
  kg_Scheduler :: string
  kg_Protocol :: string
  kg_UpstreamKeepaliveEnabled :: bool
  kg_HealthCheckConfig :: alb_health_check_config
  kg_StickySessionConfig :: sticky_session_config
  kg_UchConfig :: "string \<times> string"
  kg_Tags :: "(string \<times> string) list"

record list_sgp_request =
  lq_ServerGroupIds :: "string list"
  lq_Tag :: "(string \<times> string) list"
  lq_NextToken :: string

text \<open>
  Rules: an action in a request, with its numbers printed, and an action the cloud reports.
  Unset structs are zero values, in Go as here.  A condition has the same shape in the model,
  in requests and in answers.  A slice that is nil and one that is empty are not
  distinguished: the cloud leaves out what is empty.  The session setting of a forward action
  is never set by the builder and left out.
\<close>

record tuple_request =
  tq_ServerGroupId :: string
  tq_Weight :: string

record sdk_tuple =
  kt_ServerGroupId :: string
  kt_Weight :: int

record header_request =
  hr_Key :: string
  hr_Value :: string
  hr_ValueType :: string

record action_request =
  aq_Type :: string
  aq_Order :: string
  aq_FixedResponseConfig :: fixed_response_config
  aq_RedirectConfig :: redirect_config
  aq_ForwardGroupConfig :: "tuple_request list"
  aq_RewriteConfig :: rewrite_config
  aq_InsertHeaderConfig :: header_request
  aq_RemoveHeaderConfig :: string
  aq_TrafficLimitConfig :: "string \<times> string"
  aq_TrafficMirrorConfig :: "string \<times> string list"
  aq_CorsConfig :: cors_config

record sdk_cors =
  kc_AllowCredentials :: string
  kc_MaxAge :: int
  kc_AllowOrigin :: "string list"
  kc_AllowMethods :: "string list"
  kc_AllowHeaders :: "string list"
  kc_ExposeHeaders :: "string list"

record sdk_action =
  ka_Type :: string
  ka_Order :: int
  ka_FixedResponseConfig :: fixed_response_config
  ka_RedirectConfig :: redirect_config
  ka_ForwardGroupConfig :: "sdk_tuple list"
  ka_RewriteConfig :: rewrite_config
  ka_InsertHeaderConfig :: insert_header_config
  ka_RemoveHeaderConfig :: string
  ka_TrafficLimitConfig :: traffic_limit_config
  ka_TrafficMirrorConfig :: "string \<times> sdk_tuple list"
  ka_CorsConfig :: sdk_cors

record rule_request =
  rq_RuleId :: string
  rq_RuleName :: string
  rq_Priority :: string
  rq_Direction :: string
  rq_RuleActions :: "action_request list"
  rq_RuleConditions :: "alb_condition list"

record sdk_rule_info =
  kr_RuleId :: string
  kr_RuleName :: string
  kr_Priority :: int
  kr_RuleActions :: "sdk_action list"
  kr_RuleConditions :: "alb_condition list"

text \<open>Listeners; the flags of \<open>XForwardedForConfig\<close> are strings in a request.\<close>

record 'b xff_config =
  xf_SubjectDNAlias :: string
  xf_IssuerDNEnabled :: 'b
  xf_FingerprintEnabled :: 'b
  xf_IssuerDNAlias :: string
  xf_ProtoEnabled :: 'b
  xf_FingerprintAlias :: string
  xf_ClientVerifyEnabled :: 'b
  xf_SLBPortEnabled :: 'b
  xf_SubjectDNEnabled :: 'b
  xf_ClientVerifyAlias :: string
  xf_ClientSrcPortEnabled :: 'b
  xf_Enabled :: 'b
  xf_SLBIdEnabled :: 'b

type_synonym default_action = "string \<times> string list"

record ls_request =
  nq_LoadBalancerId :: string
  nq_ListenerId :: string
  nq_ListenerProtocol :: string
  nq_ListenerPort :: "int option"
  nq_ListenerDescription :: string
  nq_RequestTimeout :: "int option"
  nq_IdleTimeout :: "int option"
  nq_GzipEnabled :: "bool option"
  nq_Http2Enabled :: "bool option"
  nq_QuicConfig :: "(string \<times> string) option"
  nq_DefaultActions :: "default_action list"
  nq_XForwardedForConfig :: "string xff_config option"
  nq_SecurityPolicyId :: string
  nq_CaCertificates :: "string list"
  nq_Certificates :: "string list"

record sdk_listener_info =
  kn_ListenerId :: string
  kn_ListenerProtocol :: string
  kn_ListenerDescription :: string
  kn_RequestTimeout :: int
  kn_IdleTimeout :: int
  kn_GzipEnabled :: bool
  kn_Http2Enabled :: bool
  kn_QuicConfig :: "bool \<times> string"
  kn_DefaultActions :: "default_action list"
  kn_XForwardedForConfig :: "bool xff_config"
  kn_SecurityPolicyId :: string

record listener_attribute =
  la_ListenerStatus :: string
  la_AclIds :: "string list"
  la_AclType :: string

text \<open>
  Load balancers: the request that creates one, the request that updates its attributes, and
  what the cloud reports.  Pairs are the reason and the status of the protection, the project
  and the store of the access log, pay type and bandwidth package, switch and zone.
\<close>

record lb_request =
  bq_VpcId :: string
  bq_AddressType :: string
  bq_AddressIpVersion :: string
  bq_LoadBalancerName :: string
  bq_DeletionProtectionEnabled :: bool
  bq_ModificationProtectionConfig :: "string \<times> string"
  bq_ZoneMappings :: "(string \<times> string) list"
  bq_AddressAllocatedMode :: string
  bq_ResourceGroupId :: string
  bq_LoadBalancerEdition :: string
  bq_BillingConfig :: "string \<times> string"

record lb_attr_request =
  bu_LoadBalancerId :: string
  bu_LoadBalancerName :: string
  bu_ModificationProtectionConfig :: "(string \<times> string) option"

record sdk_lb_info =
  kl_LoadBalancerId :: string
  kl_LoadBalancerName :: string
  kl_DNSName :: string
  kl_LoadBalancerStatus :: string
  kl_LoadBalancerEdition :: string
  kl_VpcId :: string
  kl_RegionId :: string
  kl_AddressType :: string
  kl_AddressIpVersion :: string
  kl_AddressAllocatedMode :: string
  kl_Ipv6AddressType :: string
  kl_BandwidthPackageId :: string
  kl_ResourceGroupId :: string
  kl_AccessLogConfig :: "string \<times> string"
  kl_DeletionProtection :: bool
  kl_ModificationProtection :: "string \<times> string"
  kl_Tags :: "(string \<times> string) list"

text \<open>Access control lists; of an entry only the address range is used.\<close>

record sdk_acl_info =
  kx_AclId :: string
  kx_AclStatus :: string

text \<open>A certificate of a listener: whether it is the default one, and its id.\<close>

type_synonym listener_cert = "bool \<times> string"

datatype sdk_call =
    KAddServersToServerGroup string "sdk_server list"
  | KRemoveServersFromServerGroup string "sdk_server list"
  | KReplaceServersInServerGroup string "sdk_server list" "sdk_server list"
  | KListServerGroupServers string string
  | KListAsynJobs string
  | KCreateServerGroup sgp_request
  | KUpdateServerGroupAttribute sgp_request
  | KDeleteServerGroup string
  | KListServerGroups list_sgp_request
  | KTagResources string string "(string \<times> string) list"
  | KCreateRule string rule_request
  | KUpdateRuleAttribute rule_request
  | KDeleteRule string
  | KListRules string string
  | KCreateRules string "rule_request list"
  | KUpdateRulesAttribute "rule_request list"
  | KDeleteRules "string list"
  | KCreateListener ls_request
  | KUpdateListenerAttribute ls_request
  | KDeleteListener string
  | KGetListenerAttribute string
  | KListListeners string string
  | KListListenerCertificates string string
  | KAssociateAdditionalCertificatesWithListener string "string list"
  | KDissociateAdditionalCertificatesFromListener string "string list"
  | KCreateLoadBalancer lb_request
  | KGetLoadBalancerAttribute string
  | KUpdateLoadBalancerAttribute lb_attr_request
  | KDeleteLoadBalancer string
  | KListLoadBalancers "(string \<times> string) list" string
  | KEnableDeletionProtection string
  | KDisableDeletionProtection string
  | KEnableLoadBalancerIpv6Internet string
  | KDisableLoadBalancerIpv6Internet string
  | KUpdateLoadBalancerEdition string string
  | KUpdateLoadBalancerAddressTypeConfig string string "alb_zone_mapping list option"
  | KAttachCommonBandwidthPackageToLoadBalancer string string string
  | KDetachCommonBandwidthPackageFromLoadBalancer string string string
  | KMoveResourceGroup string string string
  | KUnTagResources string string "(string \<times> string) list"
  | KRegion
  | KOpenProductDataCollection string string string string string
  | KCloseProductDataCollection string string string
  | KCreateAcl string
  | KDeleteAcl string
  | KListAcls "string list" string
  | KListAclEntries string string
  | KAddEntriesToAcl string "string list"
  | KRemoveEntriesFromAcl string "string list"
  | KListAclRelations string
  | KAssociateAclsWithListener string string "string list"
  | KDissociateAclsFromListener string "string list"

subsection \<open>The client\<close>

text \<open>A listing answers with its total count, the items of the page and the token of the next page.\<close>

record 'w albsdk =
  k_AddServersToServerGroup :: "string \<Rightarrow> sdk_server list \<Rightarrow> 'w \<Rightarrow> string res \<times> 'w"
  k_RemoveServersFromServerGroup :: "string \<Rightarrow> sdk_server list \<Rightarrow> 'w \<Rightarrow> string res \<times> 'w"
  k_ReplaceServersInServerGroup :: "string \<Rightarrow> sdk_server list \<Rightarrow> sdk_server list \<Rightarrow> 'w \<Rightarrow> unit res \<times> 'w"
  k_ListServerGroupServers :: "string \<Rightarrow> string \<Rightarrow> 'w \<Rightarrow> (backend_server list \<times> string) res \<times> 'w"
  k_ListAsynJobs :: "string \<Rightarrow> 'w \<Rightarrow> (int \<times> async_job list \<times> go_error option) \<times> 'w"
  k_CreateServerGroup :: "sgp_request \<Rightarrow> 'w \<Rightarrow> string res \<times> 'w"
  k_UpdateServerGroupAttribute :: "sgp_request \<Rightarrow> 'w \<Rightarrow> unit res \<times> 'w"
  k_DeleteServerGroup :: "string \<Rightarrow> 'w \<Rightarrow> unit res \<times> 'w"
  k_ListServerGroups :: "list_sgp_request \<Rightarrow> 'w \<Rightarrow> (int \<times> sdk_server_group list \<times> string) res \<times> 'w"
  k_TagResources :: "string \<Rightarrow> string \<Rightarrow> (string \<times> string) list \<Rightarrow> 'w \<Rightarrow> unit res \<times> 'w"
  k_CreateRule :: "string \<Rightarrow> rule_request \<Rightarrow> 'w \<Rightarrow> string res \<times> 'w"
  k_UpdateRuleAttribute :: "rule_request \<Rightarrow> 'w \<Rightarrow> unit res \<times> 'w"
  k_DeleteRule :: "string \<Rightarrow> 'w \<Rightarrow> unit res \<times> 'w"
  k_ListRules :: "string \<Rightarrow> string \<Rightarrow> 'w \<Rightarrow> (sdk_rule_info list \<times> string) res \<times> 'w"
  k_CreateRules :: "string \<Rightarrow> rule_request list \<Rightarrow> 'w \<Rightarrow> (int \<times> string) list res \<times> 'w"
  k_UpdateRulesAttribute :: "rule_request list \<Rightarrow> 'w \<Rightarrow> unit res \<times> 'w"
  k_DeleteRules :: "string list \<Rightarrow> 'w \<Rightarrow> unit res \<times> 'w"
  k_CreateListener :: "ls_request \<Rightarrow> 'w \<Rightarrow> string res \<times> 'w"
  k_UpdateListenerAttribute :: "ls_request \<Rightarrow> 'w \<Rightarrow> unit res \<times> 'w"
  k_DeleteListener :: "string \<Rightarrow> 'w \<Rightarrow> unit res \<times> 'w"
  k_GetListenerAttribute :: "string \<Rightarrow> 'w \<Rightarrow> listener_attribute res \<times> 'w"
  k_ListListeners :: "string \<Rightarrow> string \<Rightarrow> 'w \<Rightarrow> (sdk_listener_info list \<times> string) res \<times> 'w"
  k_ListListenerCertificates :: "string \<Rightarrow> string \<Rightarrow> 'w \<Rightarrow> (listener_cert list \<times> string) res \<times> 'w"
  k_AssociateAdditionalCertificatesWithListener :: "string \<Rightarrow> string list \<Rightarrow> 'w \<Rightarrow> unit res \<times> 'w"
  k_DissociateAdditionalCertificatesFromListener :: "string \<Rightarrow> string list \<Rightarrow> 'w \<Rightarrow> unit res \<times> 'w"
  k_CreateLoadBalancer :: "lb_request \<Rightarrow> 'w \<Rightarrow> string res \<times> 'w"
  k_GetLoadBalancerAttribute :: "string \<Rightarrow> 'w \<Rightarrow> sdk_lb_info res \<times> 'w"
  k_UpdateLoadBalancerAttribute :: "lb_attr_request \<Rightarrow> 'w \<Rightarrow> unit res \<times> 'w"
  k_DeleteLoadBalancer :: "string \<Rightarrow> 'w \<Rightarrow> unit res \<times> 'w"
  k_ListLoadBalancers :: "(string \<times> string) list \<Rightarrow> string \<Rightarrow> 'w \<Rightarrow> (sdk_lb_info list \<times> string) res \<times> 'w"
  k_EnableDeletionProtection :: "string \<Rightarrow> 'w \<Rightarrow> unit res \<times> 'w"
  k_DisableDeletionProtection :: "string \<Rightarrow> 'w \<Rightarrow> unit res \<times> 'w"
  k_EnableLoadBalancerIpv6Internet :: "string \<Rightarrow> 'w \<Rightarrow> unit res \<times> 'w"
  k_DisableLoadBalancerIpv6Internet :: "string \<Rightarrow> 'w \<Rightarrow> unit res \<times> 'w"
  k_UpdateLoadBalancerEdition :: "string \<Rightarrow> string \<Rightarrow> 'w \<Rightarrow> unit res \<times> 'w"
  k_UpdateLoadBalancerAddressTypeConfig :: "string \<Rightarrow> string \<Rightarrow> alb_zone_mapping list option \<Rightarrow> 'w \<Rightarrow> unit res \<times> 'w"
  k_AttachCommonBandwidthPackageToLoadBalancer :: "string \<Rightarrow> string \<Rightarrow> string \<Rightarrow> 'w \<Rightarrow> unit res \<times> 'w"
  k_DetachCommonBandwidthPackageFromLoadBalancer :: "string \<Rightarrow> string \<Rightarrow> string \<Rightarrow> 'w \<Rightarrow> unit res \<times> 'w"
  k_MoveResourceGroup :: "string \<Rightarrow> string \<Rightarrow> string \<Rightarrow> 'w \<Rightarrow> unit res \<times> 'w"
  k_UnTagResources :: "string \<Rightarrow> string \<Rightarrow> (string \<times> string) list \<Rightarrow> 'w \<Rightarrow> unit res \<times> 'w"
  k_Region :: "'w \<Rightarrow> string res \<times> 'w"
  k_OpenProductDataCollection :: "string \<Rightarrow> string \<Rightarrow> string \<Rightarrow> string \<Rightarrow> string \<Rightarrow> 'w \<Rightarrow> bool res \<times> 'w"
  k_CloseProductDataCollection :: "string \<Rightarrow> string \<Rightarrow> string \<Rightarrow> 'w \<Rightarrow> bool res \<times> 'w"
  k_CreateAcl :: "string \<Rightarrow> 'w \<Rightarrow> string res \<times> 'w"
  k_DeleteAcl :: "string \<Rightarrow> 'w \<Rightarrow> unit res \<times> 'w"
  k_ListAcls :: "string list \<Rightarrow> string \<Rightarrow> 'w \<Rightarrow> (sdk_acl_info list \<times> string) res \<times> 'w"
  k_ListAclEntries :: "string \<Rightarrow> string \<Rightarrow> 'w \<Rightarrow> (string list \<times> string) res \<times> 'w"
  k_AddEntriesToAcl :: "string \<Rightarrow> string list \<Rightarrow> 'w \<Rightarrow> unit res \<times> 'w"
  k_RemoveEntriesFromAcl :: "string \<Rightarrow> string list \<Rightarrow> 'w \<Rightarrow> unit res \<times> 'w"
  k_ListAclRelations :: "string \<Rightarrow> 'w \<Rightarrow> string list list res \<times> 'w"
  k_AssociateAclsWithListener :: "string \<Rightarrow> string \<Rightarrow> string list \<Rightarrow> 'w \<Rightarrow> unit res \<times> 'w"
  k_DissociateAclsFromListener :: "string \<Rightarrow> string list \<Rightarrow> 'w \<Rightarrow> unit res \<times> 'w"
  k_pages :: nat
  k_waits :: nat
  k_polls :: nat
  k_late :: "'w \<Rightarrow> bool"
  k_range :: "smap \<Rightarrow> smap"

text \<open>The provider keeps the certificates it read for each listener (\<open>listenerIdSdkCertsMap\<close>).\<close>

record 'w provider_state = "('w, sdk_call) effects" +
  pv_certs :: "(string \<times> listener_cert list) list"

type_synonym ('w, 'a) pv_prog = "('w provider_state, 'a) prog"

definition FormatBool :: "bool \<Rightarrow> string" where
  "FormatBool b = (if b then ''true'' else ''false'')"

subsection \<open>Paging\<close>

text \<open>The loop over the pages of a listing, which all the listings of the provider share.\<close>

fun pagesP :: "nat \<Rightarrow> (string \<Rightarrow> ('s, 'a list \<times> string) prog) \<Rightarrow> string \<Rightarrow> ('s, 'a list) prog" where
  "pagesP 0 f nextToken = throwP (Panic ''page limit of the model'')"
| "pagesP (Suc n) f nextToken =
     bindP (f nextToken) (\<lambda>(items, token).
       if token = [] then returnP items
       else bindP (pagesP n f token) (\<lambda>rest. returnP (items @ rest)))"

text \<open>
  The reference: \<open>paged f tok s pages t\<close> holds if from token \<open>tok\<close> and state \<open>s\<close> the listing
  answers with these pages and ends in state \<open>t\<close>.
\<close>

inductive paged :: "(string \<Rightarrow> ('s, 'a list \<times> string) prog) \<Rightarrow> string \<Rightarrow> 's \<Rightarrow> 'a list list \<Rightarrow> 's \<Rightarrow> bool" for f where
  last_page: "f tok s = (Inr (items, []), t) \<Longrightarrow> paged f tok s [items] t"
| more_pages: "f tok s = (Inr (items, tok'), u) \<Longrightarrow> tok' \<noteq> [] \<Longrightarrow> paged f tok' u pages t \<Longrightarrow>
     paged f tok s (items # pages) t"

lemma pagesP_complete:
  "paged f tok s pages t \<Longrightarrow> length pages \<le> n \<Longrightarrow> pagesP n f tok s = (Inr (concat pages), t)"
proof (induction arbitrary: n rule: paged.induct)
  case (last_page tok s items t)
  then show ?case by (cases n) (auto simp: bindP_def returnP_def)
next
  case (more_pages tok s items tok' u pages t)
  then show ?case by (cases n) (auto simp: bindP_def returnP_def)
qed

lemma pagesP_sound: "pagesP n f tok s = (Inr xs, t) \<Longrightarrow> \<exists>pages. paged f tok s pages t \<and> xs = concat pages \<and> length pages \<le> n"
proof (induction n arbitrary: tok s xs)
  case 0
  then show ?case by (simp add: throwP_def)
next
  case (Suc n)
  from Suc.prems obtain items tok' u where f: "f tok s = (Inr (items, tok'), u)"
    and rest: "(if tok' = [] then returnP items else bindP (pagesP n f tok') (\<lambda>rest. returnP (items @ rest))) u = (Inr xs, t)"
    by (auto simp: bindP_Inr_iff)
  show ?case
  proof (cases "tok' = []")
    case True
    with f rest show ?thesis by (intro exI [of _ "[items]"]) (auto simp: returnP_def intro: paged.last_page)
  next
    case False
    with rest obtain ys where "pagesP n f tok' u = (Inr ys, t)" "xs = items @ ys"
      by (auto simp: bindP_Inr_iff returnP_def)
    with Suc.IH obtain pages where "paged f tok' u pages t" "ys = concat pages" "length pages \<le> n" by blast
    with f False \<open>xs = _\<close> show ?thesis
      by (intro exI [of _ "items # pages"]) (auto intro: paged.more_pages)
  qed
qed

lemma only_pages [emits_intros]: "(\<And>tok. only_calls P (f tok)) \<Longrightarrow> only_calls P (pagesP n f tok)"
  by (induction n arbitrary: tok) (auto intro!: emits_intros)

subsection \<open>Waiting\<close>

text \<open>
  \<open>util.RetryImmediateOnError\<close>, which is \<open>wait.PollImmediate\<close>: the number of attempts is what
  interval and timeout amount to.  The answer that the function stores in a variable of its
  caller is the result.
\<close>

fun RetryImmediateOnError :: "nat \<Rightarrow> (go_error \<Rightarrow> bool) \<Rightarrow> ('s, 'a) prog \<Rightarrow> ('s, 'a) prog" where
  "RetryImmediateOnError 0 retryable fn = throwP (Errorf ''timed out waiting for the condition'')"
| "RetryImmediateOnError (Suc n) retryable fn =
     bindP (tryP fn) (\<lambda>r. case r of
       Inr x \<Rightarrow> returnP x
     | Inl e \<Rightarrow> if retryable e then RetryImmediateOnError n retryable fn else throwP e)"

text \<open>
  \<open>util.WaitUntilStop\<close>, which is \<open>wait.PollUntil\<close>, with a channel that is never closed: the
  loop ends only if the condition does, and the model stops it after \<open>n\<close> looks.
\<close>

fun WaitUntilStop :: "nat \<Rightarrow> ('s, bool) prog \<Rightarrow> ('s, unit) prog" where
  "WaitUntilStop 0 condition = throwP (Panic ''wait limit of the model'')"
| "WaitUntilStop (Suc n) condition = bindP condition (\<lambda>finished. if finished then returnP () else WaitUntilStop n condition)"

text \<open>A wait that ends within \<open>n\<close> looks ends in the same way with every larger bound.\<close>

lemma WaitUntilStop_enough:
  "WaitUntilStop n m s = (Inr (), t) \<Longrightarrow> n \<le> k \<Longrightarrow> WaitUntilStop k m s = (Inr (), t)"
proof (induction n arbitrary: k s)
  case 0
  then show ?case by (simp add: throwP_def)
next
  case (Suc n)
  then obtain j where "k = Suc j" "n \<le> j" by (cases k) auto
  with Suc show ?case by (auto simp: bindP_Inr_iff split: if_splits)
qed

lemma only_wait_until [emits_intros]: "only_calls P m \<Longrightarrow> only_calls P (WaitUntilStop n m)"
  by (induction n) (auto intro!: emits_intros)

text \<open>A loop that asks at most \<open>n\<close> times and stops at the first answer.\<close>

fun pollP :: "nat \<Rightarrow> ('s, 'a option) prog \<Rightarrow> ('s, 'a option) prog" where
  "pollP 0 m = returnP None"
| "pollP (Suc n) m = bindP m (\<lambda>r. case r of Some x \<Rightarrow> returnP (Some x) | None \<Rightarrow> pollP n m)"

lemma numeral_unfold [prog_simps]:
  "pollP (numeral k) m = bindP m (\<lambda>r. case r of Some x \<Rightarrow> returnP (Some x) | None \<Rightarrow> pollP (pred_numeral k) m)"
  "pagesP (numeral k) f tok = bindP (f tok) (\<lambda>(items, token).
     if token = [] then returnP items
     else bindP (pagesP (pred_numeral k) f token) (\<lambda>rest. returnP (items @ rest)))"
  by (simp_all add: numeral_eq_Suc)

lemma only_retry [emits_intros]: "only_calls P fn \<Longrightarrow> only_calls P (RetryImmediateOnError n retryable fn)"
  by (induction n) (auto intro!: emits_intros)

lemma only_poll [emits_intros]: "only_calls P m \<Longrightarrow> only_calls P (pollP n m)"
  by (induction n) (auto intro!: emits_intros)

lemma retry_calls:
  "RetryImmediateOnError n p (invoke c f) s = (r, t) \<Longrightarrow>
   \<exists>k. fx_calls t = fx_calls s @ replicate k c \<and> k \<le> n \<and> (0 < n \<longrightarrow> 0 < k)"
proof (induction n arbitrary: s)
  case 0
  then show ?case by (simp add: throwP_def)
next
  case (Suc n)
  obtain x u where x: "invoke c f s = (x, u)" by (cases "invoke c f s")
  then have u: "fx_calls u = fx_calls s @ [c]" by (auto simp: invoke_def split: prod.splits)
  show ?case
  proof (cases "\<exists>e. x = Inl (Errorf e) \<and> p (Errorf e)")
    case True
    with Suc.prems x have "RetryImmediateOnError n p (invoke c f) u = (r, t)" by (auto simp: prog_simps)
    from Suc.IH [OF this] u obtain k where "fx_calls t = fx_calls s @ [c] @ replicate k c" "k \<le> n" by auto
    then show ?thesis by (intro exI [of _ "Suc k"]) auto
  next
    case False
    with Suc.prems x have "t = u"
      by (auto simp: prog_simps split: sum.splits go_error.splits if_splits)
    with u show ?thesis by (intro exI [of _ 1]) auto
  qed
qed

text \<open>
  \<open>sends P n m cs\<close>: of the calls that satisfy \<open>P\<close>, a run of \<open>m\<close> makes those of \<open>cs\<close> in their
  order, each repeated at most \<open>n\<close> times; a run that fails makes an initial part of them.
\<close>

definition resent :: "nat \<Rightarrow> 'c list \<Rightarrow> 'c list \<Rightarrow> bool" where
  "resent n es ds \<longleftrightarrow> (\<exists>ks. length ks = length es \<and> (\<forall>k \<in> set ks. 0 < k \<and> k \<le> n) \<and> ds = concat (map2 replicate ks es))"

definition sends :: "('c \<Rightarrow> bool) \<Rightarrow> nat \<Rightarrow> (('w, 'c, 'z) effects_scheme, 'a) prog \<Rightarrow> 'c list \<Rightarrow> bool" where
  "sends P n m cs \<longleftrightarrow> (\<forall>s. \<exists>ds es. fx_calls (snd (m s)) = fx_calls s @ ds \<and> resent n es (filter P ds) \<and> prefix es cs \<and>
     (\<forall>x. fst (m s) = Inr x \<longrightarrow> es = cs))"

lemma resent_Nil [simp]: "resent n [] []"
  by (simp add: resent_def)

lemma resent_append: "resent n es ds \<Longrightarrow> resent n es' ds' \<Longrightarrow> resent n (es @ es') (ds @ ds')"
  unfolding resent_def by (elim exE conjE) (rule exI [of _ "_ @ _"], auto)

lemma sendsD:
  assumes "sends P n m cs" and "m s = (r, t)"
  obtains ds es where "fx_calls t = fx_calls s @ ds" and "resent n es (filter P ds)" and "prefix es cs"
    and "\<And>x. r = Inr x \<Longrightarrow> es = cs"
  using assms unfolding sends_def by (metis fst_conv snd_conv)

lemma sends_only: "only_calls (\<lambda>c. \<not> P c) m \<Longrightarrow> sends P n m []"
  unfolding emits_def sends_def by (metis filter_False prefix_order.refl resent_Nil)

lemma sends_return: "sends P n (returnP x) []"
  by (rule sends_only) (simp add: emits_return)

lemma sends_wrap: "sends P n m cs \<Longrightarrow> sends P n (wrapP p m) cs"
  by (auto simp: sends_def wrapP_def split: prod.splits) (metis fst_conv snd_conv)

lemma sends_bind:
  assumes m: "sends P n m cs" and f: "\<And>x. sends P n (f x) ds"
  shows "sends P n (bindP m f) (cs @ ds)"
  unfolding sends_def
proof
  fix s
  obtain r t where rt: "m s = (r, t)" by (cases "m s")
  obtain as es where es: "fx_calls t = fx_calls s @ as" "resent n es (filter P as)" "prefix es cs" "\<And>x. r = Inr x \<Longrightarrow> es = cs"
    using sendsD [OF m rt] by blast
  show "\<exists>bs fs. fx_calls (snd (bindP m f s)) = fx_calls s @ bs \<and> resent n fs (filter P bs) \<and> prefix fs (cs @ ds) \<and>
     (\<forall>x. fst (bindP m f s) = Inr x \<longrightarrow> fs = cs @ ds)"
  proof (cases r)
    case (Inl e)
    with rt es show ?thesis by (auto simp: bindP_def)
  next
    case (Inr x)
    obtain gs hs where "fx_calls (snd (f x t)) = fx_calls t @ gs" "resent n hs (filter P gs)" "prefix hs ds"
      "\<forall>y. fst (f x t) = Inr y \<longrightarrow> hs = ds"
      using f [of x] unfolding sends_def by blast
    with rt Inr es show ?thesis by (intro exI [of _ "as @ gs"] exI [of _ "es @ hs"]) (auto simp: bindP_def resent_append)
  qed
qed

lemma retry_fails: "fst (RetryImmediateOnError 0 p m s) \<noteq> Inr x"
  by (simp add: throwP_def)

lemma sends_retry:
  assumes "P c"
  shows "sends P n (RetryImmediateOnError n p (invoke c f)) [c]"
  unfolding sends_def
proof
  fix s
  obtain r t where rt: "RetryImmediateOnError n p (invoke c f) s = (r, t)" by fastforce
  obtain k where k: "fx_calls t = fx_calls s @ replicate k c" "k \<le> n" "0 < n \<longrightarrow> 0 < k"
    using retry_calls [OF rt] by (elim exE conjE)
  show "\<exists>ds es. fx_calls (snd (RetryImmediateOnError n p (invoke c f) s)) = fx_calls s @ ds \<and> resent n es (filter P ds) \<and>
      prefix es [c] \<and> (\<forall>x. fst (RetryImmediateOnError n p (invoke c f) s) = Inr x \<longrightarrow> es = [c])"
  proof (cases n)
    case 0
    with k show ?thesis
      unfolding rt using rt by (intro exI [of _ "[]"]) (auto simp: throwP_def)
  next
    case (Suc m)
    with k assms show ?thesis
      unfolding rt by (intro exI [of _ "replicate k c"] exI [of _ "[c]"]) (auto simp: resent_def intro!: exI [of _ "[k]"])
  qed
qed

lemma sends_for:
  "(\<And>x. x \<in> set xs \<Longrightarrow> sends P n (f x) (g x)) \<Longrightarrow> sends P n (forP f xs) (concat (map g xs))"
  by (induction xs) (auto intro: sends_return sends_bind)

subsection \<open>A cloud for the examples\<close>

text \<open>Listings are empty, every change succeeds, and jobs end with the given status.\<close>

definition demo_lb_info :: sdk_lb_info where
  "demo_lb_info = \<lparr>kl_LoadBalancerId = ''alb-1'', kl_LoadBalancerName = ''lb'', kl_DNSName = ''lb.example.com'', kl_LoadBalancerStatus = ''Active'',
     kl_LoadBalancerEdition = ''Standard'', kl_VpcId = ''vpc-1'', kl_RegionId = ''cn-hangzhou'', kl_AddressType = ''Internet'',
     kl_AddressIpVersion = ''IPv4'', kl_AddressAllocatedMode = ''Dynamic'', kl_Ipv6AddressType = [], kl_BandwidthPackageId = [],
     kl_ResourceGroupId = [], kl_AccessLogConfig = ([], []), kl_DeletionProtection = True,
     kl_ModificationProtection = ([], ''ConsoleProtection''), kl_Tags = [(''env'', ''test''), (''old'', ''x'')]\<rparr>"

definition demo_acl :: sdk_acl_info where
  "demo_acl = \<lparr>kx_AclId = ''acl-1'', kx_AclStatus = ''Available''\<rparr>"

definition demo_sdk :: "string \<Rightarrow> bool \<Rightarrow> unit albsdk" where
  "demo_sdk status late = \<lparr>k_AddServersToServerGroup = (\<lambda>_ _ w. (Inr ''job-1'', w)),
     k_RemoveServersFromServerGroup = (\<lambda>_ _ w. (Inr ''job-1'', w)),
     k_ReplaceServersInServerGroup = (\<lambda>_ _ _ w. (Inr (), w)),
     k_ListServerGroupServers = (\<lambda>_ token w. (Inr ([], if token = [] then ''next'' else []), w)),
     k_ListAsynJobs = (\<lambda>_ w. ((1, [\<lparr>job_Status = status, job_ErrorMessage = ''quota''\<rparr>], None), w)),
     k_CreateServerGroup = (\<lambda>_ w. (Inr ''sgp-1'', w)), k_UpdateServerGroupAttribute = (\<lambda>_ w. (Inr (), w)),
     k_DeleteServerGroup = (\<lambda>_ w. (Inr (), w)), k_ListServerGroups = (\<lambda>_ w. (Inr (0, [], []), w)),
     k_TagResources = (\<lambda>_ _ _ w. (Inr (), w)),
     k_CreateRule = (\<lambda>_ _ w. (Inr ''rule-1'', w)), k_UpdateRuleAttribute = (\<lambda>_ w. (Inr (), w)),
     k_DeleteRule = (\<lambda>_ w. (Inr (), w)), k_ListRules = (\<lambda>_ _ w. (Inr ([], []), w)),
     k_CreateRules = (\<lambda>_ rs w. (Inr (map (\<lambda>r. (Atoi_value (rq_Priority r), ''rule-1'')) rs), w)),
     k_UpdateRulesAttribute = (\<lambda>_ w. (Inr (), w)), k_DeleteRules = (\<lambda>_ w. (Inr (), w)),
     k_CreateListener = (\<lambda>_ w. (Inr ''lsn-1'', w)), k_UpdateListenerAttribute = (\<lambda>_ w. (Inr (), w)),
     k_DeleteListener = (\<lambda>_ w. (Inr (), w)),
     k_GetListenerAttribute = (\<lambda>_ w. (Inr \<lparr>la_ListenerStatus = ''Running'', la_AclIds = [], la_AclType = []\<rparr>, w)),
     k_ListListeners = (\<lambda>_ _ w. (Inr ([], []), w)), k_ListListenerCertificates = (\<lambda>_ _ w. (Inr ([(True, ''old'')], []), w)),
     k_AssociateAdditionalCertificatesWithListener = (\<lambda>_ _ w. (Inr (), w)),
     k_DissociateAdditionalCertificatesFromListener = (\<lambda>_ _ w. (Inr (), w)),
     k_CreateLoadBalancer = (\<lambda>_ w. (Inr ''id-1'', w)),
     k_GetLoadBalancerAttribute = (\<lambda>_ w. (Inr demo_lb_info, w)),
     k_UpdateLoadBalancerAttribute = (\<lambda>_ w. (Inr (), w)),
     k_DeleteLoadBalancer = (\<lambda>_ w. (Inr (), w)),
     k_ListLoadBalancers = (\<lambda>_ _ w. (Inr ([], []), w)),
     k_EnableDeletionProtection = (\<lambda>_ w. (Inr (), w)),
     k_DisableDeletionProtection = (\<lambda>_ w. (Inr (), w)),
     k_EnableLoadBalancerIpv6Internet = (\<lambda>_ w. (Inr (), w)),
     k_DisableLoadBalancerIpv6Internet = (\<lambda>_ w. (Inr (), w)),
     k_UpdateLoadBalancerEdition = (\<lambda>_ _ w. (Inr (), w)),
     k_UpdateLoadBalancerAddressTypeConfig = (\<lambda>_ _ _ w. (Inr (), w)),
     k_AttachCommonBandwidthPackageToLoadBalancer = (\<lambda>_ _ _ w. (Inr (), w)),
     k_DetachCommonBandwidthPackageFromLoadBalancer = (\<lambda>_ _ _ w. (Inr (), w)),
     k_MoveResourceGroup = (\<lambda>_ _ _ w. (Inr (), w)),
     k_UnTagResources = (\<lambda>_ _ _ w. (Inr (), w)),
     k_Region = (\<lambda>w. (Inr ''id-1'', w)),
     k_OpenProductDataCollection = (\<lambda>_ _ _ _ _ w. (Inr True, w)),
     k_CloseProductDataCollection = (\<lambda>_ _ _ w. (Inr True, w)),
     k_CreateAcl = (\<lambda>_ w. (Inr ''id-1'', w)),
     k_DeleteAcl = (\<lambda>_ w. (Inr (), w)),
     k_ListAcls = (\<lambda>_ _ w. (Inr ([demo_acl], []), w)),
     k_ListAclEntries = (\<lambda>_ _ w. (Inr ([''10.0.0.0/8'', ''10.1.0.0/16''], []), w)),
     k_AddEntriesToAcl = (\<lambda>_ _ w. (Inr (), w)),
     k_RemoveEntriesFromAcl = (\<lambda>_ _ w. (Inr (), w)),
     k_ListAclRelations = (\<lambda>_ w. (Inr [[''lsn-1'']], w)),
     k_AssociateAclsWithListener = (\<lambda>_ _ _ w. (Inr (), w)),
     k_DissociateAclsFromListener = (\<lambda>_ _ w. (Inr (), w)),
     k_pages = 10, k_waits = 10, k_polls = 3, k_late = (\<lambda>_. late), k_range = (\<lambda>m. m)\<rparr>"

lemma demo_sdk_simps [simp]:
  "k_AddServersToServerGroup (demo_sdk status late) = (\<lambda>_ _ w. (Inr ''job-1'', w))"
  "k_RemoveServersFromServerGroup (demo_sdk status late) = (\<lambda>_ _ w. (Inr ''job-1'', w))"
  "k_ReplaceServersInServerGroup (demo_sdk status late) = (\<lambda>_ _ _ w. (Inr (), w))"
  "k_ListServerGroupServers (demo_sdk status late) = (\<lambda>_ token w. (Inr ([], if token = [] then ''next'' else []), w))"
  "k_ListAsynJobs (demo_sdk status late) = (\<lambda>_ w. ((1, [\<lparr>job_Status = status, job_ErrorMessage = ''quota''\<rparr>], None), w))"
  "k_CreateServerGroup (demo_sdk status late) = (\<lambda>_ w. (Inr ''sgp-1'', w))"
  "k_UpdateServerGroupAttribute (demo_sdk status late) = (\<lambda>_ w. (Inr (), w))"
  "k_DeleteServerGroup (demo_sdk status late) = (\<lambda>_ w. (Inr (), w))"
  "k_ListServerGroups (demo_sdk status late) = (\<lambda>_ w. (Inr (0, [], []), w))"
  "k_TagResources (demo_sdk status late) = (\<lambda>_ _ _ w. (Inr (), w))"
  "k_CreateRule (demo_sdk status late) = (\<lambda>_ _ w. (Inr ''rule-1'', w))"
  "k_UpdateRuleAttribute (demo_sdk status late) = (\<lambda>_ w. (Inr (), w))"
  "k_DeleteRule (demo_sdk status late) = (\<lambda>_ w. (Inr (), w))"
  "k_ListRules (demo_sdk status late) = (\<lambda>_ _ w. (Inr ([], []), w))"
  "k_CreateRules (demo_sdk status late) = (\<lambda>_ rs w. (Inr (map (\<lambda>r. (Atoi_value (rq_Priority r), ''rule-1'')) rs), w))"
  "k_UpdateRulesAttribute (demo_sdk status late) = (\<lambda>_ w. (Inr (), w))"
  "k_DeleteRules (demo_sdk status late) = (\<lambda>_ w. (Inr (), w))"
  "k_CreateListener (demo_sdk status late) = (\<lambda>_ w. (Inr ''lsn-1'', w))"
  "k_UpdateListenerAttribute (demo_sdk status late) = (\<lambda>_ w. (Inr (), w))"
  "k_DeleteListener (demo_sdk status late) = (\<lambda>_ w. (Inr (), w))"
  "k_GetListenerAttribute (demo_sdk status late) = (\<lambda>_ w. (Inr \<lparr>la_ListenerStatus = ''Running'', la_AclIds = [], la_AclType = []\<rparr>, w))"
  "k_ListListeners (demo_sdk status late) = (\<lambda>_ _ w. (Inr ([], []), w))"
  "k_ListListenerCertificates (demo_sdk status late) = (\<lambda>_ _ w. (Inr ([(True, ''old'')], []), w))"
  "k_AssociateAdditionalCertificatesWithListener (demo_sdk status late) = (\<lambda>_ _ w. (Inr (), w))"
  "k_DissociateAdditionalCertificatesFromListener (demo_sdk status late) = (\<lambda>_ _ w. (Inr (), w))"
  "k_CreateLoadBalancer (demo_sdk status late) = (\<lambda>_ w. (Inr ''id-1'', w))"
  "k_GetLoadBalancerAttribute (demo_sdk status late) = (\<lambda>_ w. (Inr demo_lb_info, w))"
  "k_UpdateLoadBalancerAttribute (demo_sdk status late) = (\<lambda>_ w. (Inr (), w))"
  "k_DeleteLoadBalancer (demo_sdk status late) = (\<lambda>_ w. (Inr (), w))"
  "k_ListLoadBalancers (demo_sdk status late) = (\<lambda>_ _ w. (Inr ([], []), w))"
  "k_EnableDeletionProtection (demo_sdk status late) = (\<lambda>_ w. (Inr (), w))"
  "k_DisableDeletionProtection (demo_sdk status late) = (\<lambda>_ w. (Inr (), w))"
  "k_EnableLoadBalancerIpv6Internet (demo_sdk status late) = (\<lambda>_ w. (Inr (), w))"
  "k_DisableLoadBalancerIpv6Internet (demo_sdk status late) = (\<lambda>_ w. (Inr (), w))"
  "k_UpdateLoadBalancerEdition (demo_sdk status late) = (\<lambda>_ _ w. (Inr (), w))"
  "k_UpdateLoadBalancerAddressTypeConfig (demo_sdk status late) = (\<lambda>_ _ _ w. (Inr (), w))"
  "k_AttachCommonBandwidthPackageToLoadBalancer (demo_sdk status late) = (\<lambda>_ _ _ w. (Inr (), w))"
  "k_DetachCommonBandwidthPackageFromLoadBalancer (demo_sdk status late) = (\<lambda>_ _ _ w. (Inr (), w))"
  "k_MoveResourceGroup (demo_sdk status late) = (\<lambda>_ _ _ w. (Inr (), w))"
  "k_UnTagResources (demo_sdk status late) = (\<lambda>_ _ _ w. (Inr (), w))"
  "k_Region (demo_sdk status late) = (\<lambda>w. (Inr ''id-1'', w))"
  "k_OpenProductDataCollection (demo_sdk status late) = (\<lambda>_ _ _ _ _ w. (Inr True, w))"
  "k_CloseProductDataCollection (demo_sdk status late) = (\<lambda>_ _ _ w. (Inr True, w))"
  "k_CreateAcl (demo_sdk status late) = (\<lambda>_ w. (Inr ''id-1'', w))"
  "k_DeleteAcl (demo_sdk status late) = (\<lambda>_ w. (Inr (), w))"
  "k_ListAcls (demo_sdk status late) = (\<lambda>_ _ w. (Inr ([demo_acl], []), w))"
  "k_ListAclEntries (demo_sdk status late) = (\<lambda>_ _ w. (Inr ([''10.0.0.0/8'', ''10.1.0.0/16''], []), w))"
  "k_AddEntriesToAcl (demo_sdk status late) = (\<lambda>_ _ w. (Inr (), w))"
  "k_RemoveEntriesFromAcl (demo_sdk status late) = (\<lambda>_ _ w. (Inr (), w))"
  "k_ListAclRelations (demo_sdk status late) = (\<lambda>_ w. (Inr [[''lsn-1'']], w))"
  "k_AssociateAclsWithListener (demo_sdk status late) = (\<lambda>_ _ _ w. (Inr (), w))"
  "k_DissociateAclsFromListener (demo_sdk status late) = (\<lambda>_ _ w. (Inr (), w))"
  "k_pages (demo_sdk status late) = 10"
  "k_waits (demo_sdk status late) = 10"
  "k_polls (demo_sdk status late) = 3"
  "k_late (demo_sdk status late) = (\<lambda>_. late)"
  "k_range (demo_sdk status late) = (\<lambda>m. m)"
  by (simp_all add: demo_sdk_def)

definition demo_state :: "unit provider_state" where
  "demo_state = \<lparr>fx_world = (), fx_calls = [], pv_certs = []\<rparr>"

lemma demo_state_simps [simp]: "fx_calls demo_state = []" "fx_world demo_state = ()" "pv_certs demo_state = []"
  by (simp_all add: demo_state_def)

text \<open>The words of an error, for the predicates that search them.\<close>

fun err_text :: "go_error \<Rightarrow> string" where
  "err_text (Errorf e) = e"
| "err_text (Panic e) = e"

end
