(* ===== verification/Provider_Servers.thy ===== *)
theory Provider_Servers
  imports Alb_Sdk
begin

text \<open>
  Servers of a server group in the cloud (\<open>provider/alibaba/alb/server.go\<close>) and the futures
  that carry its requests (\<open>provider/alibaba/alb/future\<close>).

  A future runs its request, then a goroutine waits for the asynchronous job while
  \<open>Promise.Start\<close> waits for the channel \<open>Final\<close> of the future.  The goroutine closes the channel
  \<^emph>\<open>before\<close> it stores the outcome, so the caller may read the fields of the future too early:
  \<open>k_late\<close> says whether it does.  A successful job leaves an empty error either way.  The
  channel that admits twenty futures of a kind at a time only delays a request and is left
  out.
\<close>

subsection \<open>Constants and checks\<close>

definition BatchRegisterDeregisterServersMaxNum :: int where
  "BatchRegisterDeregisterServersMaxNum = 40"

definition BatchRegisterServersDefaultNum :: int where
  "BatchRegisterServersDefaultNum = 30"

definition BatchDeregisterServersDefaultNum :: int where
  "BatchDeregisterServersDefaultNum = 30"

definition RemoveALBServersFromServerGroupMaxRetryTimes :: nat where
  "RemoveALBServersFromServerGroupMaxRetryTimes = 60"

definition ReplaceALBServersInServerGroupMaxRetryTimes :: nat where
  "ReplaceALBServersInServerGroupMaxRetryTimes = 60"

definition isServerPortValid :: "int \<Rightarrow> bool" where
  "isServerPortValid port \<longleftrightarrow> \<not> (port < 1 \<or> port > 65535)"

definition isServerTypeValid :: "string \<Rightarrow> bool" where
  "isServerTypeValid serverType \<longleftrightarrow>
     \<not> (\<not> EqualFold serverType ''Ecs'' \<and> \<not> EqualFold serverType ''Eni'' \<and> \<not> EqualFold serverType ''Eci'')"

definition isServerWeightValid :: "int \<Rightarrow> bool" where
  "isServerWeightValid weight \<longleftrightarrow> \<not> (weight < 0 \<or> weight > 100)"

definition sdk_server_removing :: "string \<Rightarrow> bool" where
  "sdk_server_removing status \<longleftrightarrow> EqualFold status ''Removing''"

subsection \<open>Conversions\<close>

definition transSDKBackendServerToRemoveServersFromServerGroupServer :: "backend_server \<Rightarrow> sdk_server res" where
  "transSDKBackendServerToRemoveServersFromServerGroupServer server =
     (if length (bs_ServerId server) = 0 then Inl (Errorf ''invalid server id for server: '')
      else if \<not> isServerPortValid (bs_Port server) then Inl (Errorf ''invalid server port for server: '')
      else if \<not> isServerTypeValid (bs_ServerType server) then Inl (Errorf ''invalid server type for server: '')
      else Inr \<lparr>ks_ServerIp = bs_ServerIp server, ks_ServerId = bs_ServerId server, ks_Port = Itoa (bs_Port server),
                ks_ServerType = bs_ServerType server, ks_Weight = []\<rparr>)"

definition transSDKBackendServerToReplaceServersInServerGroupRemovedServer :: "backend_server \<Rightarrow> sdk_server res" where
  "transSDKBackendServerToReplaceServersInServerGroupRemovedServer server =
     (if length (bs_ServerId server) = 0 then Inl (Errorf ''invalid server id for server: '')
      else if \<not> isServerPortValid (bs_Port server) then Inl (Errorf ''invalid server port for server: '')
      else if \<not> isServerTypeValid (bs_ServerType server) then Inl (Errorf ''invalid server type for server: '')
      else Inr \<lparr>ks_ServerIp = bs_ServerIp server, ks_ServerId = bs_ServerId server, ks_Port = Itoa (bs_Port server),
                ks_ServerType = bs_ServerType server, ks_Weight = []\<rparr>)"

definition transModelBackendToSDKAddServersToServerGroupServer :: "backend_item \<Rightarrow> sdk_server res" where
  "transModelBackendToSDKAddServersToServerGroupServer server =
     (if length (bi_ServerId server) = 0 then Inl (Errorf ''invalid server id for server: '')
      else if \<not> isServerPortValid (bi_Port server) then Inl (Errorf ''invalid server port for server: '')
      else if \<not> isServerTypeValid (bi_Type server) then Inl (Errorf ''invalid server type for server: '')
      else if \<not> isServerWeightValid (bi_Weight server) then Inl (Errorf ''invalid server weight for server: '')
      else Inr \<lparr>ks_ServerIp = bi_ServerIp server, ks_ServerId = bi_ServerId server, ks_Port = Itoa (bi_Port server),
                ks_ServerType = bi_Type server, ks_Weight = Itoa (bi_Weight server)\<rparr>)"

definition transModelBackendToSDKReplaceServersInServerGroupAddedServer :: "backend_item \<Rightarrow> sdk_server res" where
  "transModelBackendToSDKReplaceServersInServerGroupAddedServer server =
     (if length (bi_ServerId server) = 0 then Inl (Errorf ''invalid server id for server: '')
      else if \<not> isServerPortValid (bi_Port server) then Inl (Errorf ''invalid server port for server: '')
      else if \<not> isServerTypeValid (bi_Type server) then Inl (Errorf ''invalid server type for server: '')
      else if \<not> isServerWeightValid (bi_Weight server) then Inl (Errorf ''invalid server weight for server: '')
      else Inr \<lparr>ks_ServerIp = bi_ServerIp server, ks_ServerId = bi_ServerId server, ks_Port = Itoa (bi_Port server),
                ks_ServerType = bi_Type server, ks_Weight = Itoa (bi_Weight server)\<rparr>)"

definition transModelBackendsToSDKAddServersToServerGroupServers :: "backend_item list \<Rightarrow> sdk_server list res" where
  "transModelBackendsToSDKAddServersToServerGroupServers servers =
     map_res transModelBackendToSDKAddServersToServerGroupServer servers"

definition transModelBackendsToSDKReplaceServersInServerGroupAddedServers :: "backend_item list \<Rightarrow> sdk_server list res" where
  "transModelBackendsToSDKReplaceServersInServerGroupAddedServers servers =
     map_res transModelBackendToSDKReplaceServersInServerGroupAddedServer servers"

text \<open>The loops that leave out the servers that are being removed already.\<close>

definition servers_to_remove :: "(backend_server \<Rightarrow> sdk_server res) \<Rightarrow> backend_server list \<Rightarrow> sdk_server list res" where
  "servers_to_remove convert sdkServers =
     mapopt_res (\<lambda>x. if sdk_server_removing (bs_Status x) then Inr None
                     else bind_res (convert x) (\<lambda>y. Inr (Some y))) sdkServers"

subsection \<open>Futures\<close>

text \<open>
  One look at the job: \<open>None\<close> to go on, otherwise whether it succeeded and its error.  The
  error of the request itself is only logged.
\<close>

definition look_at_job :: "'w albsdk \<Rightarrow> string \<Rightarrow> ('w, (bool \<times> go_error option) option) pv_prog" where
  "look_at_job K jobId =
     bindP (call2 (KListAsynJobs jobId) (k_ListAsynJobs K jobId)) (\<lambda>(totalCount, jobs, err).
       case jobs of
         [] \<Rightarrow> throwP (Panic ''index out of range [0] with length 0'')
       | job # _ \<Rightarrow>
           if job_Status job = ''Processing'' then returnP None
           else returnP (Some (job_Status job = ''Succeeded'',
                  if job_Status job = ''Failed'' then Some (Errorf (job_ErrorMessage job)) else None)))"

definition AddServersToServerGroupFuture_Run :: "'w albsdk \<Rightarrow> string \<Rightarrow> sdk_server list \<Rightarrow> ('w, string) pv_prog" where
  "AddServersToServerGroupFuture_Run K sgpID servers =
     invoke (KAddServersToServerGroup sgpID servers) (k_AddServersToServerGroup K sgpID servers)"

definition RemoveServersFromServerGroupFuture_Run :: "'w albsdk \<Rightarrow> string \<Rightarrow> sdk_server list \<Rightarrow> ('w, string) pv_prog" where
  "RemoveServersFromServerGroupFuture_Run K sgpID servers =
     invoke (KRemoveServersFromServerGroup sgpID servers) (k_RemoveServersFromServerGroup K sgpID servers)"

text \<open>What \<open>When\<close> stores in the future, the same for both: the error of the job, or none.\<close>

definition future_When :: "'w albsdk \<Rightarrow> string \<Rightarrow> ('w, go_error option) pv_prog" where
  "future_When K jobId =
     bindP (pollP RemoveALBServersFromServerGroupMaxRetryTimes (look_at_job K jobId)) (\<lambda>r.
       let success = (case r of Some (ok, _) \<Rightarrow> ok | None \<Rightarrow> False);
           jobErr = (case r of Some (_, e) \<Rightarrow> e | None \<Rightarrow> None)
       in returnP (if jobErr = None \<and> \<not> success then Some (Errorf ''wait asyncJob status timeout'') else jobErr))"

text \<open>
  \<open>Promise.Start\<close> and the check of the outcome after it.  If the request fails, \<open>When\<close> does
  nothing.
\<close>

definition start_future :: "'w albsdk \<Rightarrow> ('w, string) pv_prog \<Rightarrow> ('w, unit) pv_prog" where
  "start_future K run =
     bindP run (\<lambda>jobId.
     bindP (future_When K jobId) (\<lambda>err.
     bindP (getP (\<lambda>s. k_late K (fx_world s))) (\<lambda>late.
       case err of
         None \<Rightarrow> returnP ()
       | Some e \<Rightarrow> if late then returnP () else throwP e)))"

subsection \<open>Registering and removing servers\<close>

definition registerServersFunc :: "'w albsdk \<Rightarrow> string \<Rightarrow> sdk_server list \<Rightarrow> ('w, unit) pv_prog" where
  "registerServersFunc K sgpID servers =
     (if length servers = 0 then returnP ()
      else start_future K (AddServersToServerGroupFuture_Run K sgpID servers))"

definition deregisterServersFunc :: "'w albsdk \<Rightarrow> string \<Rightarrow> sdk_server list \<Rightarrow> ('w, unit) pv_prog" where
  "deregisterServersFunc K sgpID servers =
     (if length servers = 0 then returnP ()
      else start_future K (RemoveServersFromServerGroupFuture_Run K sgpID servers))"

text \<open>The loops of the two batch functions are that of \<open>Batch\<close> in the service controller.\<close>

definition BatchRegisterServers :: "sdk_server list \<Rightarrow> int \<Rightarrow> (sdk_server list \<Rightarrow> ('s, unit) prog) \<Rightarrow> ('s, unit) prog" where
  "BatchRegisterServers servers cnt batch =
     (let cnt = (if cnt \<le> 0 \<or> cnt \<ge> BatchRegisterDeregisterServersMaxNum then BatchRegisterServersDefaultNum else cnt)
      in Batch_loop (nat cnt) batch servers)"

definition BatchDeregisterServers :: "sdk_server list \<Rightarrow> int \<Rightarrow> (sdk_server list \<Rightarrow> ('s, unit) prog) \<Rightarrow> ('s, unit) prog" where
  "BatchDeregisterServers servers cnt batch =
     (let cnt = (if cnt \<le> 0 \<or> cnt \<ge> BatchRegisterDeregisterServersMaxNum then BatchRegisterServersDefaultNum else cnt)
      in Batch_loop (nat cnt) batch servers)"

definition provider_RegisterALBServers :: "'w albsdk \<Rightarrow> string \<Rightarrow> backend_item list \<Rightarrow> ('w, unit) pv_prog" where
  "provider_RegisterALBServers K serverGroupID resServers =
     (if length serverGroupID = 0 then throwP (Errorf ''empty server group id when register servers error'')
      else if length resServers = 0 then returnP ()
      else bindP (liftP (transModelBackendsToSDKAddServersToServerGroupServers resServers)) (\<lambda>serversToAdd.
           BatchRegisterServers serversToAdd BatchRegisterServersDefaultNum (registerServersFunc K serverGroupID)))"

definition provider_DeregisterALBServers :: "'w albsdk \<Rightarrow> string \<Rightarrow> backend_server list \<Rightarrow> ('w, unit) pv_prog" where
  "provider_DeregisterALBServers K serverGroupID sdkServers =
     (if length serverGroupID = 0 then throwP (Errorf ''empty server group id when deregister servers error'')
      else if length sdkServers = 0 then returnP ()
      else bindP (liftP (servers_to_remove transSDKBackendServerToRemoveServersFromServerGroupServer sdkServers)) (\<lambda>serversToRemove.
           if length serversToRemove = 0 then returnP ()
           else BatchDeregisterServers serversToRemove BatchDeregisterServersDefaultNum (deregisterServersFunc K serverGroupID)))"

subsection \<open>Listing and replacing\<close>

definition provider_ListALBServers :: "'w albsdk \<Rightarrow> string \<Rightarrow> ('w, backend_server list) pv_prog" where
  "provider_ListALBServers K serverGroupID =
     (if length serverGroupID = 0 then throwP (Errorf ''empty server group id when list servers error'')
      else pagesP (k_pages K)
             (\<lambda>token. invoke (KListServerGroupServers serverGroupID token) (k_ListServerGroupServers K serverGroupID token)) [])"

definition replace_server_uid :: "bool \<Rightarrow> string \<Rightarrow> string \<Rightarrow> string \<Rightarrow> string" where
  "replace_server_uid without_ip serverId serverIp port =
     (if without_ip then serverId @ '':'' @ port else serverId @ '':'' @ serverIp @ '':'' @ port)"

definition find_server :: "backend_server list \<Rightarrow> sdk_server \<Rightarrow> backend_server option" where
  "find_server sdkServers server =
     (let short = (length (ks_ServerIp server) = 0);
          serverUID = replace_server_uid short (ks_ServerId server) (ks_ServerIp server) (ks_Port server)
      in find (\<lambda>x. EqualFold serverUID (replace_server_uid short (bs_ServerId x) (bs_ServerIp x) (Itoa (bs_Port x)))) sdkServers)"

definition isRegisterServersForReplaceCompleted :: "backend_server list \<Rightarrow> sdk_server list \<Rightarrow> bool" where
  "isRegisterServersForReplaceCompleted sdkServers servers \<longleftrightarrow>
     list_all (\<lambda>server. case find_server sdkServers server of
                 Some b \<Rightarrow> EqualFold (bs_Status b) ''Available'' | None \<Rightarrow> False) servers"

definition isDeregisterServersForReplaceCompleted :: "backend_server list \<Rightarrow> sdk_server list \<Rightarrow> bool" where
  "isDeregisterServersForReplaceCompleted sdkServers servers \<longleftrightarrow>
     list_all (\<lambda>server. find_server sdkServers server = None) servers"

definition isReplaceServersCompleted :: "'w albsdk \<Rightarrow> string \<Rightarrow> sdk_server list \<Rightarrow> sdk_server list \<Rightarrow> ('w, bool) pv_prog" where
  "isReplaceServersCompleted K serverGroupID registerServers deregisterServers =
     bindP (provider_ListALBServers K serverGroupID) (\<lambda>sdkServers.
     returnP (isRegisterServersForReplaceCompleted sdkServers registerServers \<and>
              isDeregisterServersForReplaceCompleted sdkServers deregisterServers))"

definition provider_ReplaceALBServers ::
  "'w albsdk \<Rightarrow> string \<Rightarrow> backend_item list \<Rightarrow> backend_server list \<Rightarrow> ('w, unit) pv_prog" where
  "provider_ReplaceALBServers K serverGroupID resServers sdkServers =
     (if length serverGroupID = 0 then throwP (Errorf ''empty server group id when replace servers error'')
      else if length resServers = 0 \<and> length sdkServers = 0 then returnP ()
      else bindP (liftP (transModelBackendsToSDKReplaceServersInServerGroupAddedServers resServers)) (\<lambda>addedServers.
           bindP (liftP (servers_to_remove transSDKBackendServerToReplaceServersInServerGroupRemovedServer sdkServers)) (\<lambda>removedServers.
           bindP (invoke (KReplaceServersInServerGroup serverGroupID addedServers removedServers)
                    (k_ReplaceServersInServerGroup K serverGroupID addedServers removedServers)) (\<lambda>_.
           bindP (pollP ReplaceALBServersInServerGroupMaxRetryTimes
                    (bindP (isReplaceServersCompleted K serverGroupID addedServers removedServers) (\<lambda>isCompleted.
                     returnP (if isCompleted then Some () else None)))) (\<lambda>_.
           returnP ())))))"

subsection \<open>What is sent\<close>

definition is_server_write :: "sdk_call \<Rightarrow> bool" where
  "is_server_write c \<longleftrightarrow>
     (case c of KAddServersToServerGroup _ _ \<Rightarrow> True | KRemoveServersFromServerGroup _ _ \<Rightarrow> True
      | KReplaceServersInServerGroup _ _ _ \<Rightarrow> True | _ \<Rightarrow> False)"

lemma only_look_at_job: "only_calls (\<lambda>c. \<not> is_server_write c) (look_at_job K j)"
  unfolding look_at_job_def call2_def
  by (auto intro!: emits_intros simp: is_server_write_def split: list.split)

lemma only_reads_state: "only_calls P (getP f)"
  by (simp add: emits_def getP_def)

lemma only_When: "only_calls (\<lambda>c. \<not> is_server_write c) (future_When K j)"
  unfolding future_When_def Let_def by (intro emits_intros only_look_at_job) simp

lemma follows_on_future:
  assumes "is_server_write c"
  shows "follows_on is_server_write (start_future K (invoke c f)) [c]"
proof -
  have "follows_on is_server_write (start_future K (invoke c f)) ([c] @ [])"
    unfolding start_future_def
    by (rule follows_on_bind, rule follows_on_invoke, rule assms, rule follows_on_only)
      (intro emits_intros only_When only_reads_state TrueI)
  then show ?thesis by simp
qed

lemma follows_on_for:
  "(\<And>x. x \<in> set xs \<Longrightarrow> follows_on P (f x) (g x)) \<Longrightarrow> follows_on P (forP f xs) (concat (map g xs))"
  by (induction xs) (auto intro: follows_on_return follows_on_bind)

lemma follows_on_register:
  "c \<noteq> [] \<Longrightarrow> follows_on is_server_write (registerServersFunc K g c) [KAddServersToServerGroup g c]"
  unfolding registerServersFunc_def AddServersToServerGroupFuture_Run_def
  by (simp add: follows_on_future is_server_write_def)

lemma follows_on_deregister:
  "c \<noteq> [] \<Longrightarrow> follows_on is_server_write (deregisterServersFunc K g c) [KRemoveServersFromServerGroup g c]"
  unfolding deregisterServersFunc_def RemoveServersFromServerGroupFuture_Run_def
  by (simp add: follows_on_future is_server_write_def)

lemma follows_on_pieces:
  assumes "\<And>c. c \<noteq> [] \<Longrightarrow> follows_on P (batch c) [w c]"
  shows "follows_on P (forP batch (chunks 30 xs)) (map w (chunks 30 xs))"
proof -
  have "follows_on P (forP batch (chunks 30 xs)) (concat (map (\<lambda>c. [w c]) (chunks 30 xs)))"
  proof (rule follows_on_for)
    fix c assume "c \<in> set (chunks 30 xs)"
    then have "c \<noteq> []" using chunks_bounds [of 30 c xs] by auto
    then show "follows_on P (batch c) [w c]" by (rule assms)
  qed
  then show ?thesis by simp
qed

lemmas batch_sizes = BatchRegisterServers_def BatchDeregisterServers_def BatchRegisterServersDefaultNum_def
  BatchDeregisterServersDefaultNum_def BatchRegisterDeregisterServersMaxNum_def Batch_loop_chunks

text \<open>Removal and replacement leave out the servers that are being removed already.\<close>

lemma deregistered_servers_sent:
  assumes "servers_to_remove transSDKBackendServerToRemoveServersFromServerGroupServer servers = Inr xs" and "sgp \<noteq> []"
  shows "follows_on is_server_write (provider_DeregisterALBServers K sgp servers)
    (map (KRemoveServersFromServerGroup sgp) (chunks 30 xs))"
proof (cases "xs = []")
  case True
  with assms show ?thesis by (simp add: provider_DeregisterALBServers_def chunks.simps [of _ "[]"] follows_on_return)
next
  case False
  moreover from this have "servers \<noteq> []" using assms(1) by (auto simp: servers_to_remove_def)
  ultimately show ?thesis
    using assms follows_on_pieces [OF follows_on_deregister, where xs = xs]
    by (simp add: provider_DeregisterALBServers_def batch_sizes)
qed

lemma replaced_servers_sent:
  assumes "transModelBackendsToSDKReplaceServersInServerGroupAddedServers bs = Inr xs"
    and "servers_to_remove transSDKBackendServerToReplaceServersInServerGroupRemovedServer servers = Inr ys"
    and "sgp \<noteq> []" and "bs \<noteq> [] \<or> servers \<noteq> []"
  shows "follows_on is_server_write (provider_ReplaceALBServers K sgp bs servers) [KReplaceServersInServerGroup sgp xs ys]"
proof -
  let ?c = "KReplaceServersInServerGroup sgp xs ys"
  have list: "only_calls (\<lambda>c. \<not> is_server_write c) (isReplaceServersCompleted K sgp xs ys)"
    unfolding isReplaceServersCompleted_def provider_ListALBServers_def
    by (intro emits_intros) (simp_all add: is_server_write_def)
  have "provider_ReplaceALBServers K sgp bs servers =
      bindP (invoke ?c (k_ReplaceServersInServerGroup K sgp xs ys)) (\<lambda>_.
      bindP (pollP ReplaceALBServersInServerGroupMaxRetryTimes
               (bindP (isReplaceServersCompleted K sgp xs ys) (\<lambda>isCompleted.
                returnP (if isCompleted then Some () else None)))) (\<lambda>_. returnP ()))"
    using assms by (auto simp: provider_ReplaceALBServers_def)
  moreover have "follows_on is_server_write \<dots> ([?c] @ [])"
    by (intro follows_on_bind follows_on_invoke follows_on_only emits_intros list TrueI) (simp add: is_server_write_def)
  ultimately have "follows_on is_server_write (provider_ReplaceALBServers K sgp bs servers) ([?c] @ [])" by simp
  then show ?thesis by simp
qed

definition backend_valid :: "backend_item \<Rightarrow> bool" where
  "backend_valid b \<longleftrightarrow> bi_ServerId b \<noteq> [] \<and> 1 \<le> bi_Port b \<and> bi_Port b \<le> 65535 \<and> 0 \<le> bi_Weight b \<and>
     bi_Weight b \<le> 100 \<and> ToLower (bi_Type b) \<in> {''ecs'', ''eni'', ''eci''}"

definition as_sdk_server :: "backend_item \<Rightarrow> sdk_server" where
  "as_sdk_server b = \<lparr>ks_ServerIp = bi_ServerIp b, ks_ServerId = bi_ServerId b, ks_Port = Itoa (bi_Port b),
     ks_ServerType = bi_Type b, ks_Weight = Itoa (bi_Weight b)\<rparr>"

lemma server_type_valid: "isServerTypeValid t \<longleftrightarrow> ToLower t \<in> {''ecs'', ''eni'', ''eci''}"
proof -
  have "ToLower ''Ecs'' = ''ecs''" "ToLower ''Eni'' = ''eni''" "ToLower ''Eci'' = ''eci''" by code_simp+
  then show ?thesis unfolding isServerTypeValid_def EqualFold_def ToLower_def by auto
qed

lemma add_server_exact:
  "transModelBackendToSDKAddServersToServerGroupServer b = Inr x \<longleftrightarrow> backend_valid b \<and> x = as_sdk_server b"
  by (auto simp: transModelBackendToSDKAddServersToServerGroupServer_def backend_valid_def as_sdk_server_def
      server_type_valid isServerPortValid_def isServerWeightValid_def)

lemma add_servers_exact:
  "transModelBackendsToSDKAddServersToServerGroupServers bs = Inr xs \<longleftrightarrow>
     (\<forall>b \<in> set bs. backend_valid b) \<and> xs = map as_sdk_server bs"
  unfolding transModelBackendsToSDKAddServersToServerGroupServers_def map_res_Inr_iff add_server_exact
  by (induction bs arbitrary: xs) (auto simp: list_all2_Cons1)

lemma Inl_if_not_Inr: "(\<And>x. r \<noteq> Inr x) \<Longrightarrow> \<exists>e. r = Inl e"
  by (cases r) auto

text \<open>
  (C6) Whatever the cloud answers, registering backends sends them all, each with its port
  and weight, in their order and in pieces of at most thirty, one request per piece; a run
  that fails has sent an initial part of these requests.  If the group has no id, or one
  backend has no server id, a port outside 1 to 65535, a weight outside 0 to 100 or an unknown
  type, the registration fails before anything is sent.
\<close>

theorem registered_servers_sent:
  assumes "provider_RegisterALBServers K sgp bs s = (r, t)"
  shows "\<exists>cs. fx_calls t = fx_calls s @ cs \<and>
    (let pieces = chunks 30 (map as_sdk_server bs);
         plan = map (KAddServersToServerGroup sgp) pieces
     in concat pieces = map as_sdk_server bs \<and> (\<forall>p \<in> set pieces. length p \<le> 30) \<and>
        (if sgp \<noteq> [] \<and> (\<forall>b \<in> set bs. backend_valid b)
         then prefix (filter is_server_write cs) plan \<and> (r = Inr () \<longrightarrow> filter is_server_write cs = plan)
         else cs = [] \<and> (\<exists>e. r = Inl e)))"
proof -
  let ?xs = "map as_sdk_server bs"
  have bounds: "\<forall>p \<in> set (chunks 30 ?xs). length p \<le> 30" using chunks_bounds [of 30 _ ?xs] by simp
  show ?thesis
  proof (cases "sgp \<noteq> [] \<and> (\<forall>b \<in> set bs. backend_valid b)")
    case True
    then have "follows_on is_server_write (provider_RegisterALBServers K sgp bs)
        (map (KAddServersToServerGroup sgp) (chunks 30 ?xs))"
      using add_servers_exact [of bs ?xs] follows_on_pieces [OF follows_on_register, where xs = ?xs]
      by (cases "bs = []") (auto simp: provider_RegisterALBServers_def batch_sizes chunks.simps [of _ "[]"] follows_on_return)
    then obtain cs where "fx_calls t = fx_calls s @ cs"
      "prefix (filter is_server_write cs) (map (KAddServersToServerGroup sgp) (chunks 30 ?xs))"
      "r = Inr () \<Longrightarrow> filter is_server_write cs = map (KAddServersToServerGroup sgp) (chunks 30 ?xs)"
      using assms by (rule follows_onD) blast
    with True bounds show ?thesis by (auto simp: Let_def)
  next
    case False
    then have "\<exists>e. r = Inl e \<and> t = s"
    proof (cases "sgp = []")
      case True
      with assms show ?thesis by (auto simp: provider_RegisterALBServers_def throwP_def)
    next
      case nonempty: False
      with False have invalid: "\<not> (\<forall>b \<in> set bs. backend_valid b)" by blast
      then obtain e where "transModelBackendsToSDKAddServersToServerGroupServers bs = Inl e"
        using Inl_if_not_Inr add_servers_exact by metis
      moreover have "bs \<noteq> []" using invalid by auto
      ultimately show ?thesis using assms nonempty by (auto simp: provider_RegisterALBServers_def throwP_def)
    qed
    with False bounds show ?thesis by (auto simp: Let_def)
  qed
qed

definition demo_backend :: backend_item where
  "demo_backend = \<lparr>bi_Pod = None, bi_Description = [], bi_ServerId = ''i-1'', bi_ServerIp = ''10.0.0.1'',
     bi_Weight = 100, bi_Port = 8080, bi_Type = ''Ecs''\<rparr>"

lemma demo_backend_valid: "backend_valid demo_backend"
  by code_simp

text \<open>One server is one piece.\<close>

lemma register_single:
  assumes "sgp \<noteq> []" and "backend_valid b"
  shows "provider_RegisterALBServers K sgp [b] = bindP (registerServersFunc K sgp [as_sdk_server b]) (\<lambda>_. returnP ())"
proof -
  have "transModelBackendsToSDKAddServersToServerGroupServers [b] = Inr [as_sdk_server b]"
    using assms(2) by (simp add: add_servers_exact)
  with assms(1) show ?thesis
    by (simp add: provider_RegisterALBServers_def batch_sizes chunks.simps [of _ "[]"] chunks.simps [of _ "[_]"])
qed

lemmas register_run = registerServersFunc_def start_future_def AddServersToServerGroupFuture_Run_def future_When_def
  look_at_job_def RemoveALBServersFromServerGroupMaxRetryTimes_def prog_simps invoke_def call2_def

theorem registered_servers_sent_witness:
  "\<exists>t. provider_RegisterALBServers (demo_sdk ''Succeeded'' True) ''sgp-1'' [demo_backend] demo_state = (Inr (), t) \<and>
     filter is_server_write (fx_calls t) = [KAddServersToServerGroup ''sgp-1'' [as_sdk_server demo_backend]]"
proof -
  have run: "fst (provider_RegisterALBServers (demo_sdk ''Succeeded'' True) ''sgp-1'' [demo_backend] demo_state) = Inr ()"
    by (simp add: register_single demo_backend_valid demo_sdk_def register_run)
  obtain t where t: "provider_RegisterALBServers (demo_sdk ''Succeeded'' True) ''sgp-1'' [demo_backend] demo_state = (Inr (), t)"
    using run by (metis prod.collapse)
  from registered_servers_sent [OF t] t show ?thesis
    by (auto simp: demo_backend_valid Let_def chunks.simps [of _ "[]"] chunks.simps [of _ "[_]"])
qed



text \<open>
  (C27) Listing the servers of a group returns the servers of all pages the cloud has, in
  order, and it succeeds whenever the cloud answers every page and ends within the bound of
  the model.
\<close>

theorem listed_servers_complete:
  assumes "sgp \<noteq> []"
  shows "provider_ListALBServers K sgp s = (Inr servers, t) \<longleftrightarrow>
    (\<exists>pages. paged (\<lambda>token. invoke (KListServerGroupServers sgp token) (k_ListServerGroupServers K sgp token)) [] s pages t \<and>
       servers = concat pages \<and> length pages \<le> k_pages K)"
  using assms by (auto simp: provider_ListALBServers_def pagesP_complete dest: pagesP_sound)

theorem listed_servers_complete_witness:
  "\<exists>t pages. paged (\<lambda>token. invoke (KListServerGroupServers ''sgp-1'' token)
       (k_ListServerGroupServers (demo_sdk ''Succeeded'' True) ''sgp-1'' token)) [] demo_state pages t \<and> concat pages = []"
proof -
  have "provider_ListALBServers (demo_sdk ''Succeeded'' True) ''sgp-1'' demo_state =
      (Inr [], demo_state\<lparr>fx_calls := [KListServerGroupServers ''sgp-1'' [], KListServerGroupServers ''sgp-1'' ''next'']\<rparr>)"
    by (simp add: provider_ListALBServers_def demo_sdk_def demo_state_def prog_simps invoke_def)
  then show ?thesis
    by (subst (asm) listed_servers_complete) (simp, elim exE conjE, intro exI conjI, assumption, rule sym)
qed

end
