(* ===== verification/Provider_Server_Groups.thy ===== *)
theory Provider_Server_Groups
  imports Provider_Servers
begin

text \<open>
  Server groups in the cloud (\<open>provider/alibaba/alb/server_group.go\<close>) and their tags
  (\<open>tagging.go\<close>): checks of a specification, the create and the update request, waiting for
  the group, deletion with retries, and the listings by tag and by id.

  The specification has no resource group, since the builder never sets one, so the create
  request carries none.
\<close>

subsection \<open>Checks\<close>

definition CreateServerGroupWaitActiveMaxRetryTimes :: nat where
  "CreateServerGroupWaitActiveMaxRetryTimes = 10"

definition ServerGroupResourceType :: string where
  "ServerGroupResourceType = ''ServerGroup''"

definition isServerGroupActive :: "string \<Rightarrow> bool" where
  "isServerGroupActive status \<longleftrightarrow> EqualFold status ''Available''"

definition isServerGroupSchedulerValid :: "string \<Rightarrow> bool" where
  "isServerGroupSchedulerValid scheduler \<longleftrightarrow>
     EqualFold scheduler ''Wrr'' \<or> EqualFold scheduler ''Wlc'' \<or> EqualFold scheduler ''Sch'' \<or> EqualFold scheduler ''Uch''"

definition isServerGroupProtocolValid :: "string \<Rightarrow> bool" where
  "isServerGroupProtocolValid protocol \<longleftrightarrow>
     EqualFold protocol ''HTTP'' \<or> EqualFold protocol ''HTTPS'' \<or> EqualFold protocol ''GRPC''"

definition isServerGroupResourceInUseError :: "go_error \<Rightarrow> bool" where
  "isServerGroupResourceInUseError err \<longleftrightarrow>
     Contains (err_text err) ''ResourceInUse.ServerGroup'' \<or> Contains (err_text err) ''IncorrectStatus.ServerGroup''"

definition checkHealthCheckConfigValid :: "alb_health_check_config \<Rightarrow> unit res" where
  "checkHealthCheckConfigValid conf =
     (if \<not> hk_Enabled conf then Inr ()
      else if hk_ConnectPort conf < 0 \<or> hk_ConnectPort conf > 65535
        then Inl (Errorf ''invalid server group HealthCheckConnectPort: '')
      else if \<not> EqualFold (hk_HttpVersion conf) ''HTTP1.0'' \<and> \<not> EqualFold (hk_HttpVersion conf) ''HTTP1.1''
        then Inl (Errorf ''invalid server group HealthCheckHttpVersion: '')
      else if hk_Interval conf < 1 \<or> hk_Interval conf > 50
        then Inl (Errorf ''invalid server group HealthCheckInterval: '')
      else if \<not> EqualFold (hk_Method conf) ''GET'' \<and> \<not> EqualFold (hk_Method conf) ''HEAD''
        then Inl (Errorf ''invalid server group HealthCheckMethod: '')
      else if \<not> EqualFold (hk_Protocol conf) ''HTTP'' \<and> \<not> EqualFold (hk_Protocol conf) ''HTTPS'' \<and>
              \<not> EqualFold (hk_Protocol conf) ''TCP''
        then Inl (Errorf ''invalid server group HealthCheckProtocol: '')
      else if hk_Timeout conf < 1 \<or> hk_Timeout conf > 300
        then Inl (Errorf ''invalid server group HealthCheckTimeout: '')
      else if hk_HealthyThreshold conf < 2 \<or> hk_HealthyThreshold conf > 10
        then Inl (Errorf ''invalid server group HealthyThreshold: '')
      else if hk_UnhealthyThreshold conf < 2 \<or> hk_UnhealthyThreshold conf > 10
        then Inl (Errorf ''invalid server group UnhealthyThreshold: '')
      else Inr ())"

definition checkStickySessionConfigValid :: "sticky_session_config \<Rightarrow> unit res" where
  "checkStickySessionConfigValid conf =
     (if \<not> ss_Enabled conf then Inr ()
      else if \<not> EqualFold (ss_Type conf) ''Insert'' \<and> \<not> EqualFold (ss_Type conf) ''Server''
        then Inl (Errorf ''invalid server group StickySessionType: '')
      else if EqualFold (ss_Type conf) ''Insert'' \<and> (ss_CookieTimeout conf < 1 \<or> ss_CookieTimeout conf > 86400)
        then Inl (Errorf ''invalid server group CookieTimeout: '')
      else if EqualFold (ss_Type conf) ''Server'' \<and> length (ss_Cookie conf) = 0
        then Inl (Errorf ''invalid server group Cookie: '')
      else Inr ())"

definition checkUchConfigValid :: "string \<times> string \<Rightarrow> unit res" where
  "checkUchConfigValid conf =
     (if \<not> EqualFold (fst conf) ''QueryString'' then Inl (Errorf ''invalid server group UchConfigType: '')
      else if length (snd conf) = 0 then Inl (Errorf ''invalid server group UchConfigValue: '')
      else Inr ())"

subsection \<open>Requests\<close>

definition transSDKHealthCheckConfigToCreateSGP :: "alb_health_check_config \<Rightarrow> sdk_hc_request" where
  "transSDKHealthCheckConfigToCreateSGP conf =
     (if \<not> hk_Enabled conf then
        \<lparr>hq_Codes = None, hq_Enabled = FormatBool (hk_Enabled conf), hq_Timeout = [], hq_Method = [], hq_Host = [],
         hq_Protocol = [], hq_UnhealthyThreshold = [], hq_HealthyThreshold = [], hq_TcpFastCloseEnabled = [],
         hq_Path = [], hq_Interval = [], hq_HttpCodes = None, hq_HttpVersion = [], hq_ConnectPort = []\<rparr>
      else
        \<lparr>hq_Codes = Some (hk_HttpCodes conf), hq_Enabled = FormatBool (hk_Enabled conf), hq_Timeout = Itoa (hk_Timeout conf),
         hq_Method = hk_Method conf, hq_Host = hk_Host conf, hq_Protocol = hk_Protocol conf,
         hq_UnhealthyThreshold = Itoa (hk_UnhealthyThreshold conf), hq_HealthyThreshold = Itoa (hk_HealthyThreshold conf),
         hq_TcpFastCloseEnabled = FormatBool (hk_TcpFastCloseEnabled conf), hq_Path = hk_Path conf,
         hq_Interval = Itoa (hk_Interval conf), hq_HttpCodes = Some (hk_HttpCodes conf),
         hq_HttpVersion = hk_HttpVersion conf, hq_ConnectPort = Itoa (hk_ConnectPort conf)\<rparr>)"

definition transSDKStickySessionConfigToCreateSGP :: "sticky_session_config \<Rightarrow> sdk_sticky_request" where
  "transSDKStickySessionConfigToCreateSGP conf =
     (if \<not> ss_Enabled conf then
        \<lparr>sq_Enabled = FormatBool (ss_Enabled conf), sq_Cookie = [], sq_CookieTimeout = [], sq_Type = []\<rparr>
      else
        \<lparr>sq_Enabled = FormatBool (ss_Enabled conf), sq_Cookie = ss_Cookie conf,
         sq_CookieTimeout = Itoa (ss_CookieTimeout conf), sq_Type = ss_Type conf\<rparr>)"

definition transSDKUchConfigToCreateSGP :: "string \<times> string \<Rightarrow> string \<times> string" where
  "transSDKUchConfigToCreateSGP conf = (fst conf, snd conf)"

definition transSDKHealthCheckConfigToUpdateSGP :: "alb_health_check_config \<Rightarrow> sdk_hc_request" where
  "transSDKHealthCheckConfigToUpdateSGP conf =
     (if \<not> hk_Enabled conf then
        \<lparr>hq_Codes = None, hq_Enabled = FormatBool (hk_Enabled conf), hq_Timeout = [], hq_Method = [], hq_Host = [],
         hq_Protocol = [], hq_UnhealthyThreshold = [], hq_HealthyThreshold = [], hq_TcpFastCloseEnabled = [],
         hq_Path = [], hq_Interval = [], hq_HttpCodes = None, hq_HttpVersion = [], hq_ConnectPort = []\<rparr>
      else
        \<lparr>hq_Codes = Some (hk_HttpCodes conf), hq_Enabled = FormatBool (hk_Enabled conf), hq_Timeout = Itoa (hk_Timeout conf),
         hq_Method = hk_Method conf, hq_Host = hk_Host conf, hq_Protocol = hk_Protocol conf,
         hq_UnhealthyThreshold = Itoa (hk_UnhealthyThreshold conf), hq_HealthyThreshold = Itoa (hk_HealthyThreshold conf),
         hq_TcpFastCloseEnabled = FormatBool (hk_TcpFastCloseEnabled conf), hq_Path = hk_Path conf,
         hq_Interval = Itoa (hk_Interval conf), hq_HttpCodes = Some (hk_HttpCodes conf),
         hq_HttpVersion = hk_HttpVersion conf, hq_ConnectPort = Itoa (hk_ConnectPort conf)\<rparr>)"

definition transSDKStickySessionConfigToUpdateSGP :: "sticky_session_config \<Rightarrow> sdk_sticky_request" where
  "transSDKStickySessionConfigToUpdateSGP conf =
     (if \<not> ss_Enabled conf then
        \<lparr>sq_Enabled = FormatBool (ss_Enabled conf), sq_Cookie = [], sq_CookieTimeout = [], sq_Type = []\<rparr>
      else
        \<lparr>sq_Enabled = FormatBool (ss_Enabled conf), sq_Cookie = ss_Cookie conf,
         sq_CookieTimeout = Itoa (ss_CookieTimeout conf), sq_Type = ss_Type conf\<rparr>)"

definition transSDKUchConfigToUpdateSGP :: "string \<times> string \<Rightarrow> string \<times> string" where
  "transSDKUchConfigToUpdateSGP conf = (fst conf, snd conf)"

definition buildSDKServerGroupCreateRequest :: "sgp_spec \<Rightarrow> sgp_request res" where
  "buildSDKServerGroupCreateRequest sgpSpec =
     (if length (gs_VpcId sgpSpec) = 0 then Inl (Errorf ''invalid server group vpc id: '')
      else if \<not> isServerGroupSchedulerValid (gs_Scheduler sgpSpec) then Inl (Errorf ''invalid server group scheduler: '')
      else bind_res (if gs_Scheduler sgpSpec = ''Uch''
                     then bind_res (checkUchConfigValid (gs_UchConfig sgpSpec)) (\<lambda>_.
                            Inr (Some (transSDKUchConfigToCreateSGP (gs_UchConfig sgpSpec))))
                     else Inr None) (\<lambda>uch.
      if \<not> isServerGroupProtocolValid (gs_Protocol sgpSpec) then Inl (Errorf ''invalid server group protocol: '')
      else bind_res (checkHealthCheckConfigValid (gs_HealthCheckConfig sgpSpec)) (\<lambda>_.
           bind_res (checkStickySessionConfigValid (gs_StickySessionConfig sgpSpec)) (\<lambda>_.
      Inr \<lparr>gq_ServerGroupId = [], gq_ServerGroupName = gs_ServerGroupName sgpSpec, gq_ServiceName = gs_ServerGroupName sgpSpec,
           gq_VpcId = gs_VpcId sgpSpec, gq_Scheduler = gs_Scheduler sgpSpec, gq_Protocol = gs_Protocol sgpSpec,
           gq_UpstreamKeepaliveEnabled = (if gs_UpstreamKeepaliveEnabled sgpSpec then Some True else None),
           gq_HealthCheckConfig = Some (transSDKHealthCheckConfigToCreateSGP (gs_HealthCheckConfig sgpSpec)),
           gq_StickySessionConfig = Some (transSDKStickySessionConfigToCreateSGP (gs_StickySessionConfig sgpSpec)),
           gq_UchConfig = uch, gq_ServerGroupType = gs_ServerGroupType sgpSpec\<rparr>))))"

text \<open>
  \<open>reflect.DeepEqual\<close> on a value of the model and one of the SDK: the two Go types have the
  same fields but are different types, and values of different types are never deeply equal.
\<close>

definition DeepEqual_of_types :: "'a \<Rightarrow> 'b \<Rightarrow> bool" where
  "DeepEqual_of_types res sdk \<longleftrightarrow> False"

definition isUchConfigNeedUpdate :: "sgp_spec \<Rightarrow> sdk_server_group \<Rightarrow> bool res" where
  "isUchConfigNeedUpdate spec sdkSGP =
     (if gs_Scheduler spec = ''Uch''
      then bind_res (checkUchConfigValid (gs_UchConfig spec)) (\<lambda>_.
             Inr (\<not> DeepEqual_of_types (gs_UchConfig spec) (kg_UchConfig sdkSGP)))
      else Inr False)"

definition isHealthCheckConfigNeedUpdate :: "sgp_spec \<Rightarrow> sdk_server_group \<Rightarrow> bool res" where
  "isHealthCheckConfigNeedUpdate spec sdkSGP =
     bind_res (checkHealthCheckConfigValid (gs_HealthCheckConfig spec)) (\<lambda>_.
       Inr (if hk_Enabled (gs_HealthCheckConfig spec)
            then \<not> DeepEqual_of_types (gs_HealthCheckConfig spec) (kg_HealthCheckConfig sdkSGP)
            else hk_Enabled (kg_HealthCheckConfig sdkSGP)))"

definition isStickySessionConfigNeedUpdate :: "sgp_spec \<Rightarrow> sdk_server_group \<Rightarrow> bool res" where
  "isStickySessionConfigNeedUpdate spec sdkSGP =
     bind_res (checkStickySessionConfigValid (gs_StickySessionConfig spec)) (\<lambda>_.
       Inr (if ss_Enabled (gs_StickySessionConfig spec)
            then \<not> DeepEqual_of_types (gs_StickySessionConfig spec) (kg_StickySessionConfig sdkSGP)
            else ss_Enabled (kg_StickySessionConfig sdkSGP)))"

text \<open>The request an update calls for, \<open>None\<close> if nothing differs.\<close>

definition server_group_update :: "sgp_spec \<Rightarrow> sdk_server_group \<Rightarrow> sgp_request option res" where
  "server_group_update spec sdkSGP =
     (let nameUpd = gs_ServerGroupName spec \<noteq> kg_ServerGroupName sdkSGP;
          serviceUpd = gs_ServerGroupName spec \<noteq> kg_ServiceName sdkSGP;
          keepaliveUpd = gs_UpstreamKeepaliveEnabled spec \<noteq> kg_UpstreamKeepaliveEnabled sdkSGP;
          schedulerUpd = \<not> EqualFold (gs_Scheduler spec) (kg_Scheduler sdkSGP)
      in if \<not> isServerGroupSchedulerValid (gs_Scheduler spec) then Inl (Errorf ''invalid server group scheduler: '')
         else bind_res (isUchConfigNeedUpdate spec sdkSGP) (\<lambda>uchUpd.
              bind_res (isHealthCheckConfigNeedUpdate spec sdkSGP) (\<lambda>hcUpd.
              bind_res (isStickySessionConfigNeedUpdate spec sdkSGP) (\<lambda>stickyUpd.
      Inr (if \<not> nameUpd \<and> \<not> schedulerUpd \<and> \<not> uchUpd \<and> \<not> hcUpd \<and> \<not> stickyUpd \<and> \<not> keepaliveUpd \<and> \<not> serviceUpd then None
           else Some
             \<lparr>gq_ServerGroupId = kg_ServerGroupId sdkSGP,
              gq_ServerGroupName = (if nameUpd then gs_ServerGroupName spec else []),
              gq_ServiceName = (if serviceUpd then gs_ServerGroupName spec else []), gq_VpcId = [],
              gq_Scheduler = (if schedulerUpd \<or> uchUpd then gs_Scheduler spec else []), gq_Protocol = [],
              gq_UpstreamKeepaliveEnabled = (if keepaliveUpd then Some (gs_UpstreamKeepaliveEnabled spec) else None),
              gq_HealthCheckConfig =
                (if hcUpd then Some (transSDKHealthCheckConfigToUpdateSGP (gs_HealthCheckConfig spec)) else None),
              gq_StickySessionConfig =
                (if stickyUpd then Some (transSDKStickySessionConfigToUpdateSGP (gs_StickySessionConfig spec)) else None),
              gq_UchConfig = (if uchUpd then Some (transSDKUchConfigToUpdateSGP (gs_UchConfig spec)) else None),
              gq_ServerGroupType = []\<rparr>)))))"

subsection \<open>Operations\<close>

definition sdk_ListServerGroups :: "'w albsdk \<Rightarrow> list_sgp_request \<Rightarrow> ('w, int \<times> sdk_server_group list \<times> string) pv_prog" where
  "sdk_ListServerGroups K req = invoke (KListServerGroups req) (k_ListServerGroups K req)"

definition group_by_id_request :: "string \<Rightarrow> list_sgp_request" where
  "group_by_id_request serverGroupID = \<lparr>lq_ServerGroupIds = [serverGroupID], lq_Tag = [], lq_NextToken = []\<rparr>"

definition first_group :: "int \<Rightarrow> sdk_server_group list \<Rightarrow> sdk_server_group res" where
  "first_group totalCount groups =
     (if totalCount = 0 then Inl (Errorf ''ServerGroupID:  not exist'')
      else case groups of
             [] \<Rightarrow> Inl (Panic ''index out of range [0] with length 0'')
           | g # _ \<Rightarrow> Inr g)"

definition waitServerGroupStatus :: "'w albsdk \<Rightarrow> string \<Rightarrow> ('w, unit) pv_prog" where
  "waitServerGroupStatus K serverGroupID =
     (if serverGroupID = [] then throwP (Errorf ''serverGroupID is empty'')
      else bindP (pollP CreateServerGroupWaitActiveMaxRetryTimes
                   (bindP (sdk_ListServerGroups K (group_by_id_request serverGroupID)) (\<lambda>(totalCount, groups, _).
                    bindP (liftP (first_group totalCount groups)) (\<lambda>sgpResp.
                    returnP (if isServerGroupActive (kg_ServerGroupStatus sgpResp) then Some () else None))))) (\<lambda>r.
           case r of Some _ \<Rightarrow> returnP () | None \<Rightarrow> throwP (Errorf ''ServerGroupID:  not ready'')))"

definition DeleteALBServerGroup :: "'w albsdk \<Rightarrow> string \<Rightarrow> ('w, unit) pv_prog" where
  "DeleteALBServerGroup K serverGroupID =
     wrapP ''failed to delete serverGroup: ''
       (RetryImmediateOnError (k_polls K) isServerGroupResourceInUseError
          (invoke (KDeleteServerGroup serverGroupID) (k_DeleteServerGroup K serverGroupID)))"

definition transTagListToMap :: "(string \<times> string) list \<Rightarrow> smap" where
  "transTagListToMap tagList = fold (\<lambda>(k, v) m. map_set k v m) tagList []"

definition transSDKTagListToMap :: "(string \<times> string) list \<Rightarrow> smap" where
  "transSDKTagListToMap tagList = fold (\<lambda>(k, v) m. map_set k v m) tagList []"

definition transTagMapToSDKTagResourcesTagList :: "'w albsdk \<Rightarrow> smap \<Rightarrow> (string \<times> string) list" where
  "transTagMapToSDKTagResourcesTagList K tagMap = map (\<lambda>(k, v). (k, v)) (k_range K tagMap)"

definition CreateALBServerGroup :: "'w albsdk \<Rightarrow> 'x alb_env \<Rightarrow> string \<Rightarrow> sgp_spec \<Rightarrow> ('w, string) pv_prog" where
  "CreateALBServerGroup K E resID spec =
     bindP (liftP (buildSDKServerGroupCreateRequest spec)) (\<lambda>createSgpReq.
     bindP (invoke (KCreateServerGroup createSgpReq) (k_CreateServerGroup K createSgpReq)) (\<lambda>serverGroupId.
     bindP (waitServerGroupStatus K serverGroupId) (\<lambda>_.
     let tags = transTagMapToSDKTagResourcesTagList K (ResourceTags E resID (transTagListToMap (gs_Tags spec)))
     in bindP (tryP (invoke (KTagResources ServerGroupResourceType serverGroupId tags)
                      (k_TagResources K ServerGroupResourceType serverGroupId tags))) (\<lambda>r.
          case r of
            Inl err \<Rightarrow> bindP (tryP (DeleteALBServerGroup K serverGroupId)) (\<lambda>_. throwP err)
          | Inr _ \<Rightarrow> returnP serverGroupId))))"

definition updateServerGroupAttribute :: "'w albsdk \<Rightarrow> sgp_spec \<Rightarrow> sdk_server_group \<Rightarrow> ('w, unit) pv_prog" where
  "updateServerGroupAttribute K spec sdkSGP =
     bindP (liftP (server_group_update spec sdkSGP)) (\<lambda>req. case req of
       None \<Rightarrow> returnP ()
     | Some updateSgpReq \<Rightarrow>
         bindP (invoke (KUpdateServerGroupAttribute updateSgpReq) (k_UpdateServerGroupAttribute K updateSgpReq)) (\<lambda>_.
         waitServerGroupStatus K (gq_ServerGroupId updateSgpReq)))"

definition provider_UpdateALBServerGroup :: "'w albsdk \<Rightarrow> sgp_spec \<Rightarrow> sdk_server_group \<Rightarrow> ('w, string) pv_prog" where
  "provider_UpdateALBServerGroup K spec sdkSGP =
     bindP (updateServerGroupAttribute K spec sdkSGP) (\<lambda>_. returnP (kg_ServerGroupId sdkSGP))"

subsection \<open>Listings (\<open>tagging.go\<close>)\<close>

definition transTagFilterToListServerGroupTags :: "'w albsdk \<Rightarrow> smap \<Rightarrow> (string \<times> string) list" where
  "transTagFilterToListServerGroupTags K tagFilters = map (\<lambda>(k, v). (k, v)) (k_range K tagFilters)"

definition ListALBServerGroupsByTag :: "'w albsdk \<Rightarrow> smap \<Rightarrow> ('w, sdk_server_group list) pv_prog" where
  "ListALBServerGroupsByTag K tagFilters =
     (if length tagFilters = 0 then throwP (Errorf ''invalid tag filter:  for listing server groups'')
      else pagesP (k_pages K) (\<lambda>nextToken.
             bindP (sdk_ListServerGroups K \<lparr>lq_ServerGroupIds = [],
                      lq_Tag = transTagFilterToListServerGroupTags K tagFilters, lq_NextToken = nextToken\<rparr>) (\<lambda>(_, groups, token).
             returnP (groups, token))) [])"

definition ListALBServerGroupsWithTags :: "'w albsdk \<Rightarrow> smap \<Rightarrow> ('w, (sdk_server_group \<times> smap) list) pv_prog" where
  "ListALBServerGroupsWithTags K tagFilters =
     bindP (ListALBServerGroupsByTag K tagFilters) (\<lambda>serverGroups.
     returnP (map (\<lambda>g. (g, transSDKTagListToMap (kg_Tags g))) serverGroups))"

definition SelectALBServerGroupsByID :: "'w albsdk \<Rightarrow> string \<Rightarrow> ('w, sdk_server_group \<times> smap) pv_prog" where
  "SelectALBServerGroupsByID K serverGroupID =
     (if serverGroupID = [] then throwP (Errorf ''serverGroupID is empty'')
      else bindP (sdk_ListServerGroups K (group_by_id_request serverGroupID)) (\<lambda>(totalCount, groups, _).
           bindP (liftP (first_group totalCount groups)) (\<lambda>sdkSgp.
           returnP (sdkSgp, transSDKTagListToMap (kg_Tags sdkSgp)))))"

subsection \<open>Creating a group\<close>

definition is_group_write :: "sdk_call \<Rightarrow> bool" where
  "is_group_write c \<longleftrightarrow>
     (case c of KCreateServerGroup _ \<Rightarrow> True | KUpdateServerGroupAttribute _ \<Rightarrow> True | KDeleteServerGroup _ \<Rightarrow> True
      | KTagResources _ _ _ \<Rightarrow> True | _ \<Rightarrow> False)"

lemma only_wait: "only_calls (\<lambda>c. \<not> is_group_write c) (waitServerGroupStatus K g)"
  unfolding waitServerGroupStatus_def sdk_ListServerGroups_def
  by (intro emits_intros TrueI) (simp add: is_group_write_def)

lemma delete_group_calls:
  assumes "tryP (DeleteALBServerGroup K g) s = (r, t)"
  shows "\<exists>k. fx_calls t = fx_calls s @ replicate k (KDeleteServerGroup g) \<and> k \<le> k_polls K \<and> (0 < k_polls K \<longrightarrow> 0 < k)"
proof -
  obtain r' t' where run: "RetryImmediateOnError (k_polls K) isServerGroupResourceInUseError
      (invoke (KDeleteServerGroup g) (k_DeleteServerGroup K g)) s = (r', t')" by fastforce
  with assms have "t' = t"
    by (auto simp: DeleteALBServerGroup_def prog_simps split: sum.splits go_error.splits prod.splits)
  with retry_calls [OF run] show ?thesis by simp
qed

text \<open>The tags of a group that is created.\<close>

definition created_tags :: "'w albsdk \<Rightarrow> 'x alb_env \<Rightarrow> string \<Rightarrow> sgp_spec \<Rightarrow> (string \<times> string) list" where
  "created_tags K E resID spec =
     transTagMapToSDKTagResourcesTagList K (ResourceTags E resID (transTagListToMap (gs_Tags spec)))"

text \<open>The run after a group was created and is ready.\<close>

definition tag_or_roll_back :: "'w albsdk \<Rightarrow> (string \<times> string) list \<Rightarrow> string \<Rightarrow> ('w, string) pv_prog" where
  "tag_or_roll_back K tags g =
     bindP (tryP (invoke (KTagResources ServerGroupResourceType g tags) (k_TagResources K ServerGroupResourceType g tags))) (\<lambda>r.
       case r of Inl err \<Rightarrow> bindP (tryP (DeleteALBServerGroup K g)) (\<lambda>_. throwP err) | Inr _ \<Rightarrow> returnP g)"

lemma tag_or_roll_back_calls:
  assumes "tag_or_roll_back K tags g s = (r, t)"
    and no_panic: "\<And>w m w'. k_TagResources K ServerGroupResourceType g tags w \<noteq> (Inl (Panic m), w')"
  shows "\<exists>k. fx_calls t = fx_calls s @ KTagResources ServerGroupResourceType g tags # replicate k (KDeleteServerGroup g) \<and>
    k \<le> k_polls K \<and> (case r of Inr x \<Rightarrow> x = g \<and> k = 0 | Inl _ \<Rightarrow> 0 < k_polls K \<longrightarrow> 0 < k)"
proof -
  let ?c = "KTagResources ServerGroupResourceType g tags"
  obtain x u where x: "invoke ?c (k_TagResources K ServerGroupResourceType g tags) s = (x, u)" by fastforce
  then have u: "fx_calls u = fx_calls s @ [?c]" by (auto simp: invoke_def split: prod.splits)
  show ?thesis
  proof (cases x)
    case (Inr y)
    with assms(1) x u show ?thesis by (intro exI [of _ 0]) (auto simp: tag_or_roll_back_def prog_simps)
  next
    case (Inl e)
    with x no_panic obtain m where e: "e = Errorf m"
      by (cases e) (auto simp: invoke_def split: prod.splits)
    obtain d v where d: "tryP (DeleteALBServerGroup K g) u = (d, v)" by fastforce
    with assms(1) x Inl e have "t = v \<and> (\<exists>e'. r = Inl e')"
      by (auto simp: tag_or_roll_back_def bindP_def tryP_def throwP_def split: sum.splits prod.splits)
    with delete_group_calls [OF d] u show ?thesis by auto
  qed
qed

text \<open>
  (C12) Creating a server group sends the create request, waits, and tags the group with the
  tags of the stack and of the resource; it succeeds only if all of that succeeded, and then
  nothing else was written.  If the tags cannot be set the new group, which the controller
  would not recognise as its own, is deleted again, with at most as many attempts as the
  poller makes.  No other write is ever sent.
\<close>

theorem created_group_tagged_or_rolled_back:
  assumes req: "buildSDKServerGroupCreateRequest spec = Inr req"
    and run: "CreateALBServerGroup K E resID spec s = (r, t)"
    and no_panic: "\<And>g ts w m w'. k_TagResources K ServerGroupResourceType g ts w \<noteq> (Inl (Panic m), w')"
  shows "\<exists>cs. fx_calls t = fx_calls s @ cs \<and>
    (case r of
       Inr g \<Rightarrow> filter is_group_write cs =
         [KCreateServerGroup req, KTagResources ServerGroupResourceType g (created_tags K E resID spec)]
     | Inl e \<Rightarrow> filter is_group_write cs = [KCreateServerGroup req] \<or>
         (\<exists>g k. filter is_group_write cs =
            KCreateServerGroup req # KTagResources ServerGroupResourceType g (created_tags K E resID spec) #
            replicate k (KDeleteServerGroup g) \<and> k \<le> k_polls K \<and> (0 < k_polls K \<longrightarrow> 0 < k)))"
proof -
  let ?c = "KCreateServerGroup req" and ?tags = "created_tags K E resID spec"
  have eq: "CreateALBServerGroup K E resID spec = bindP (invoke ?c (k_CreateServerGroup K req)) (\<lambda>g.
      bindP (waitServerGroupStatus K g) (\<lambda>_. tag_or_roll_back K ?tags g))"
    by (simp add: CreateALBServerGroup_def req Let_def tag_or_roll_back_def created_tags_def)
  obtain x u where x: "invoke ?c (k_CreateServerGroup K req) s = (x, u)" by fastforce
  then have u: "fx_calls u = fx_calls s @ [?c]" by (auto simp: invoke_def split: prod.splits)
  show ?thesis
  proof (cases x)
    case (Inl e)
    with run x u show ?thesis by (auto simp: eq bindP_def is_group_write_def)
  next
    case (Inr g)
    obtain y v where y: "waitServerGroupStatus K g u = (y, v)" by fastforce
    obtain ws where ws: "fx_calls v = fx_calls u @ ws" "\<forall>c \<in> set ws. \<not> is_group_write c"
      using only_wait y by (rule emitsD)
    then have silent: "filter is_group_write ws = []" by (simp add: filter_empty_conv)
    show ?thesis
    proof (cases y)
      case Inl
      with run x Inr y u ws silent show ?thesis
        by (intro exI [of _ "?c # ws"]) (auto simp: eq bindP_def is_group_write_def)
    next
      case (Inr z)
      with run x \<open>x = Inr g\<close> y have last: "tag_or_roll_back K ?tags g v = (r, t)" by (simp add: eq bindP_def)
      obtain k where "fx_calls t = fx_calls v @ KTagResources ServerGroupResourceType g ?tags # replicate k (KDeleteServerGroup g)"
        "k \<le> k_polls K" "case r of Inr x \<Rightarrow> x = g \<and> k = 0 | Inl _ \<Rightarrow> 0 < k_polls K \<longrightarrow> 0 < k"
        using tag_or_roll_back_calls [OF last no_panic] by blast
      with u ws silent show ?thesis
        by (intro exI [of _ "?c # ws @ KTagResources ServerGroupResourceType g ?tags # replicate k (KDeleteServerGroup g)"])
          (auto simp: is_group_write_def filter_replicate split: sum.splits)
    qed
  qed
qed

definition demo_group_spec :: sgp_spec where
  "demo_group_spec = \<lparr>gs_Protocol = ''HTTP'', gs_Scheduler = ''Wrr'', gs_ServerGroupName = ''web'', gs_ServerGroupType = ''instance'',
     gs_VpcId = ''vpc-1'',
     gs_HealthCheckConfig = \<lparr>hk_ConnectPort = 0, hk_Enabled = True, hk_Host = [], hk_HttpVersion = ''HTTP1.1'', hk_Interval = 2,
       hk_Method = ''HEAD'', hk_Path = ''/'', hk_Protocol = ''HTTP'', hk_Timeout = 5, hk_HealthyThreshold = 3,
       hk_UnhealthyThreshold = 3, hk_TcpFastCloseEnabled = False, hk_HttpCodes = [''http_2xx''], hk_Codes = []\<rparr>,
     gs_StickySessionConfig = \<lparr>ss_Cookie = [], ss_CookieTimeout = 0, ss_Enabled = False, ss_Type = []\<rparr>,
     gs_Tags = [], gs_UpstreamKeepaliveEnabled = False, gs_UchConfig = ([], [])\<rparr>"

lemma demo_group_valid:
  "isServerGroupSchedulerValid (gs_Scheduler demo_group_spec)"
  "checkHealthCheckConfigValid (gs_HealthCheckConfig demo_group_spec) = Inr ()"
  "checkStickySessionConfigValid (gs_StickySessionConfig demo_group_spec) = Inr ()"
  "\<exists>req. buildSDKServerGroupCreateRequest demo_group_spec = Inr req"
proof -
  show "isServerGroupSchedulerValid (gs_Scheduler demo_group_spec)"
    and hc: "checkHealthCheckConfigValid (gs_HealthCheckConfig demo_group_spec) = Inr ()"
    and st: "checkStickySessionConfigValid (gs_StickySessionConfig demo_group_spec) = Inr ()"
    by code_simp+
  show "\<exists>req. buildSDKServerGroupCreateRequest demo_group_spec = Inr req"
    using hc st unfolding buildSDKServerGroupCreateRequest_def demo_group_spec_def
    by (simp add: isServerGroupSchedulerValid_def isServerGroupProtocolValid_def)
qed

text \<open>A cloud in which a new group is ready at once but cannot be tagged.\<close>

definition demo_group :: "string \<Rightarrow> sdk_server_group" where
  "demo_group i = \<lparr>kg_ServerGroupId = i, kg_ServerGroupName = ''web'', kg_ServiceName = ''web'', kg_ServerGroupStatus = ''Available'',
     kg_Scheduler = ''Wrr'', kg_Protocol = ''HTTP'', kg_UpstreamKeepaliveEnabled = False,
     kg_HealthCheckConfig = gs_HealthCheckConfig demo_group_spec, kg_StickySessionConfig = gs_StickySessionConfig demo_group_spec,
     kg_UchConfig = ([], []), kg_Tags = []\<rparr>"

definition demo_untaggable :: "unit albsdk" where
  "demo_untaggable = (demo_sdk ''Succeeded'' False)\<lparr>k_ListServerGroups := (\<lambda>_ w. (Inr (1, [demo_group ''sgp-1''], []), w)),
     k_TagResources := (\<lambda>_ _ _ w. (Inl (Errorf ''quota''), w))\<rparr>"

theorem created_group_tagged_or_rolled_back_witness:
  "\<exists>t req tags k. CreateALBServerGroup demo_untaggable demo_env ''r1'' demo_group_spec demo_state =
      (Inl (Errorf ''quota''), t) \<and> 0 < k \<and> k \<le> 3 \<and>
      filter is_group_write (fx_calls t) =
        KCreateServerGroup req # KTagResources ServerGroupResourceType ''sgp-1'' tags # replicate k (KDeleteServerGroup ''sgp-1'')"
proof -
  obtain req where req: "buildSDKServerGroupCreateRequest demo_group_spec = Inr req" using demo_group_valid(4) by blast
  obtain t where t: "CreateALBServerGroup demo_untaggable demo_env ''r1'' demo_group_spec demo_state =
      (Inl (Errorf ''quota''), t)" and d: "KDeleteServerGroup ''sgp-1'' \<in> set (filter is_group_write (fx_calls t))"
    by (simp add: CreateALBServerGroup_def req prog_simps invoke_def demo_untaggable_def demo_sdk_def waitServerGroupStatus_def
        CreateServerGroupWaitActiveMaxRetryTimes_def sdk_ListServerGroups_def first_group_def demo_group_def
        isServerGroupActive_def DeleteALBServerGroup_def numeral_eq_Suc is_group_write_def)
  have polls: "k_polls demo_untaggable = 3" by (simp add: demo_untaggable_def demo_sdk_def)
  have "k_TagResources demo_untaggable ServerGroupResourceType g ts w \<noteq> (Inl (Panic m), w')" for g ts w m w'
    by (simp add: demo_untaggable_def)
  from created_group_tagged_or_rolled_back [OF req t this] obtain g k where
    "filter is_group_write (fx_calls t) = KCreateServerGroup req # KTagResources ServerGroupResourceType g
       (created_tags demo_untaggable demo_env ''r1'' demo_group_spec) # replicate k (KDeleteServerGroup g)" "0 < k" "k \<le> 3"
    using d unfolding polls by (auto simp del: set_filter)
  moreover from this d have "g = ''sgp-1''" by (auto split: if_splits)
  ultimately show ?thesis using t by blast
qed

text \<open>A group of the cloud that has the settings of a specification already.\<close>

definition has_settings :: "sgp_spec \<Rightarrow> sdk_server_group \<Rightarrow> bool" where
  "has_settings spec g \<longleftrightarrow> kg_ServerGroupName g = gs_ServerGroupName spec \<and> kg_ServiceName g = gs_ServerGroupName spec \<and>
     kg_Scheduler g = gs_Scheduler spec \<and> kg_UpstreamKeepaliveEnabled g = gs_UpstreamKeepaliveEnabled spec \<and>
     kg_HealthCheckConfig g = gs_HealthCheckConfig spec \<and> kg_StickySessionConfig g = gs_StickySessionConfig spec \<and>
     kg_UchConfig g = gs_UchConfig spec"

text \<open>
  The comparison of health check, session and hash settings takes values of two
  different Go types and never finds them equal.  So a group with health checks whose settings
  in the cloud are all as wanted is updated in every round; without health checks, sessions
  and hashing the comparison does settle.
\<close>

theorem equal_group_updated_again:
  assumes "has_settings spec g" and "isServerGroupSchedulerValid (gs_Scheduler spec)"
    and "checkHealthCheckConfigValid (gs_HealthCheckConfig spec) = Inr ()"
    and "checkStickySessionConfigValid (gs_StickySessionConfig spec) = Inr ()"
    and "gs_Scheduler spec \<noteq> ''Uch''"
  shows "if hk_Enabled (gs_HealthCheckConfig spec) \<or> ss_Enabled (gs_StickySessionConfig spec)
    then \<exists>req rest. gq_ServerGroupId req = kg_ServerGroupId g \<and>
      fx_calls (snd (updateServerGroupAttribute K spec g s)) = fx_calls s @ KUpdateServerGroupAttribute req # rest
    else updateServerGroupAttribute K spec g s = (Inr (), s)"
proof -
  have *: "isUchConfigNeedUpdate spec g = Inr False"
    "isHealthCheckConfigNeedUpdate spec g = Inr (hk_Enabled (gs_HealthCheckConfig spec))"
    "isStickySessionConfigNeedUpdate spec g = Inr (ss_Enabled (gs_StickySessionConfig spec))"
    using assms by (simp_all add: isUchConfigNeedUpdate_def isHealthCheckConfigNeedUpdate_def
        isStickySessionConfigNeedUpdate_def DeepEqual_of_types_def has_settings_def)
  show ?thesis
  proof (cases "hk_Enabled (gs_HealthCheckConfig spec) \<or> ss_Enabled (gs_StickySessionConfig spec)")
    case True
    then obtain req where req: "server_group_update spec g = Inr (Some req)" "gq_ServerGroupId req = kg_ServerGroupId g"
      using assms(1,2) * by (auto simp: server_group_update_def Let_def has_settings_def)
    obtain x u where x: "invoke (KUpdateServerGroupAttribute req) (k_UpdateServerGroupAttribute K req) s = (x, u)" by fastforce
    then have u: "fx_calls u = fx_calls s @ [KUpdateServerGroupAttribute req]" by (auto simp: invoke_def split: prod.splits)
    have "updateServerGroupAttribute K spec g = bindP (invoke (KUpdateServerGroupAttribute req)
        (k_UpdateServerGroupAttribute K req)) (\<lambda>_. waitServerGroupStatus K (gq_ServerGroupId req))"
      by (simp add: updateServerGroupAttribute_def req(1))
    then have "\<exists>rest. fx_calls (snd (updateServerGroupAttribute K spec g s)) = fx_calls u @ rest"
      using only_wait [of K "gq_ServerGroupId req"] x by (auto simp: bindP_def emits_def split: sum.splits)
    with True req(2) u show ?thesis by auto
  next
    case False
    then have "server_group_update spec g = Inr None"
      using assms(1,2) * by (auto simp: server_group_update_def Let_def has_settings_def)
    with False show ?thesis by (simp add: updateServerGroupAttribute_def returnP_def)
  qed
qed

theorem equal_group_updated_again_witness:
  "\<exists>req rest. gq_ServerGroupId req = ''sgp-1'' \<and>
     fx_calls (snd (updateServerGroupAttribute demo_untaggable demo_group_spec (demo_group ''sgp-1'') demo_state)) =
     KUpdateServerGroupAttribute req # rest"
proof -
  have same: "has_settings demo_group_spec (demo_group ''sgp-1'')" "hk_Enabled (gs_HealthCheckConfig demo_group_spec)"
    "gs_Scheduler demo_group_spec \<noteq> ''Uch''" "kg_ServerGroupId (demo_group ''sgp-1'') = ''sgp-1''"
    by (simp_all add: has_settings_def demo_group_def demo_group_spec_def)
  show ?thesis
    using equal_group_updated_again [OF same(1) demo_group_valid(1,2,3) same(3), of demo_untaggable demo_state]
    by (simp add: same(2,4))
qed

end
