(* ===== verification/Provider_Listeners.thy ===== *)
theory Provider_Listeners
  imports Provider_Server_Groups
begin

text \<open>
  Listeners in the cloud (\<open>provider/alibaba/alb/listener.go\<close>): the create request and its
  checks, the comparison of attributes with the update request, the certificates of a
  listener, waiting, deletion and listings.

  The ids of other resources are resolved by a parameter \<open>R\<close>.  A certificate is seen through
  its methods \<open>GetIsDefault\<close> and \<open>GetCertificateId\<close>, the parameter \<open>V\<close>; an id that cannot be
  resolved is the empty string, since the code drops the error.  \<open>updateListenerAttribute\<close>
  also changes the default flags of the wanted certificates, and returns them.
\<close>

subsection \<open>Checks\<close>

definition CreateListenerWaitRunningMaxRetryTimes :: nat where
  "CreateListenerWaitRunningMaxRetryTimes = 15"

definition isListenerListenerStatusRunning :: "string \<Rightarrow> bool" where
  "isListenerListenerStatusRunning status \<longleftrightarrow> EqualFold status ''Running''"

definition isIncorrectStatusLoadBalancerError :: "go_error \<Rightarrow> bool" where
  "isIncorrectStatusLoadBalancerError err \<longleftrightarrow> Contains (err_text err) ''IncorrectStatus.LoadBalancer''"

definition isIncorrectStatusListenerError :: "go_error \<Rightarrow> bool" where
  "isIncorrectStatusListenerError err \<longleftrightarrow> Contains (err_text err) ''IncorrectStatus.Listener''"

definition provider_isHTTPSListenerProtocol :: "string \<Rightarrow> bool" where
  "provider_isHTTPSListenerProtocol protocol \<longleftrightarrow> EqualFold protocol ''HTTPS''"

definition provider_isQUICListenerProtocol :: "string \<Rightarrow> bool" where
  "provider_isQUICListenerProtocol protocol \<longleftrightarrow> EqualFold protocol ''QUIC''"

definition has_certs :: "string \<Rightarrow> bool" where
  "has_certs protocol \<longleftrightarrow> provider_isHTTPSListenerProtocol protocol \<or> provider_isQUICListenerProtocol protocol"

definition isListenerProtocolValid :: "string \<Rightarrow> bool" where
  "isListenerProtocolValid protocol \<longleftrightarrow>
     EqualFold protocol ''HTTP'' \<or> EqualFold protocol ''HTTPS'' \<or> EqualFold protocol ''QUIC''"

definition isListenerPortValid :: "int \<Rightarrow> bool" where
  "isListenerPortValid port \<longleftrightarrow> \<not> (port < 1 \<or> port > 65535)"

definition isListenerRequestTimeoutValid :: "int \<Rightarrow> bool" where
  "isListenerRequestTimeoutValid requestTimeout \<longleftrightarrow> requestTimeout \<ge> 1"

definition isListenerIdleTimeoutValid :: "int \<Rightarrow> bool" where
  "isListenerIdleTimeoutValid idleTimeout \<longleftrightarrow> idleTimeout \<ge> 1"

subsection \<open>Conversions\<close>

definition resolve_tuple :: "(id_token \<Rightarrow> string res) \<Rightarrow> server_group_tuple \<Rightarrow> string res" where
  "resolve_tuple R m = bind_res (deref (sgt_ServerGroupID m)) R"

definition transModelServerGroupTupleToSDKCreateLs :: "(id_token \<Rightarrow> string res) \<Rightarrow> server_group_tuple list \<Rightarrow> string list res" where
  "transModelServerGroupTupleToSDKCreateLs R serverGroupTuples = map_res (resolve_tuple R) serverGroupTuples"

definition transModelServerGroupTupleToSDKUpdateLs :: "(id_token \<Rightarrow> string res) \<Rightarrow> server_group_tuple list \<Rightarrow> string list res" where
  "transModelServerGroupTupleToSDKUpdateLs R serverGroupTuples = map_res (resolve_tuple R) serverGroupTuples"

definition transModelServerGroupTuplesToSDKLs :: "(id_token \<Rightarrow> string res) \<Rightarrow> server_group_tuple list \<Rightarrow> string list res" where
  "transModelServerGroupTuplesToSDKLs R ms = map_res (resolve_tuple R) ms"

definition transModelActionToSDKCreateLs :: "(id_token \<Rightarrow> string res) \<Rightarrow> alb_action list \<Rightarrow> default_action list res" where
  "transModelActionToSDKCreateLs R actions =
     map_res (\<lambda>action. bind_res (deref (act_ForwardConfig action)) (\<lambda>groups.
                       bind_res (transModelServerGroupTupleToSDKCreateLs R groups) (\<lambda>sgTuples.
                       Inr (act_Type action, sgTuples)))) actions"

definition transModelActionToSDKUpdateLs :: "(id_token \<Rightarrow> string res) \<Rightarrow> alb_action list \<Rightarrow> default_action list res" where
  "transModelActionToSDKUpdateLs R actions =
     map_res (\<lambda>action. bind_res (deref (act_ForwardConfig action)) (\<lambda>groups.
                       bind_res (transModelServerGroupTupleToSDKUpdateLs R groups) (\<lambda>sgTuples.
                       Inr (act_Type action, sgTuples)))) actions"

definition transModelActionsToSDKLs :: "(id_token \<Rightarrow> string res) \<Rightarrow> alb_action list \<Rightarrow> default_action list res" where
  "transModelActionsToSDKLs R actions =
     map_res (\<lambda>action. bind_res (deref (act_ForwardConfig action)) (\<lambda>groups.
                       bind_res (transModelServerGroupTuplesToSDKLs R groups) (\<lambda>sgTuples.
                       Inr (act_Type action, sgTuples)))) actions"

definition transSDKQuicConfigToCreateLs :: "bool \<times> string \<Rightarrow> string \<times> string" where
  "transSDKQuicConfigToCreateLs c = (FormatBool (fst c), snd c)"

definition transSDKQuicConfigToUpdateLs :: "bool \<times> string \<Rightarrow> string \<times> string" where
  "transSDKQuicConfigToUpdateLs c = (FormatBool (fst c), snd c)"

definition transQuicConfigToSDK :: "bool \<times> string \<Rightarrow> bool \<times> string" where
  "transQuicConfigToSDK c = (fst c, snd c)"

text \<open>All three conversions fill the subject alias from the issuer alias.\<close>

definition transSDKXForwardedForConfigToCreateLs :: "bool xff_config \<Rightarrow> string xff_config" where
  "transSDKXForwardedForConfigToCreateLs c =
     \<lparr>xf_SubjectDNAlias = xf_IssuerDNAlias c, xf_IssuerDNEnabled = FormatBool (xf_IssuerDNEnabled c),
      xf_FingerprintEnabled = FormatBool (xf_FingerprintEnabled c), xf_IssuerDNAlias = xf_IssuerDNAlias c,
      xf_ProtoEnabled = FormatBool (xf_ProtoEnabled c), xf_FingerprintAlias = xf_FingerprintAlias c,
      xf_ClientVerifyEnabled = FormatBool (xf_ClientVerifyEnabled c), xf_SLBPortEnabled = FormatBool (xf_SLBPortEnabled c),
      xf_SubjectDNEnabled = FormatBool (xf_SubjectDNEnabled c), xf_ClientVerifyAlias = xf_ClientVerifyAlias c,
      xf_ClientSrcPortEnabled = FormatBool (xf_ClientSrcPortEnabled c), xf_Enabled = FormatBool (xf_Enabled c),
      xf_SLBIdEnabled = FormatBool (xf_SLBIdEnabled c)\<rparr>"

definition transXForwardedForConfigToSDK :: "bool xff_config \<Rightarrow> bool xff_config" where
  "transXForwardedForConfigToSDK c =
     \<lparr>xf_SubjectDNAlias = xf_IssuerDNAlias c, xf_IssuerDNEnabled = xf_IssuerDNEnabled c,
      xf_FingerprintEnabled = xf_FingerprintEnabled c, xf_IssuerDNAlias = xf_IssuerDNAlias c,
      xf_ProtoEnabled = xf_ProtoEnabled c, xf_FingerprintAlias = xf_FingerprintAlias c,
      xf_ClientVerifyEnabled = xf_ClientVerifyEnabled c, xf_SLBPortEnabled = xf_SLBPortEnabled c,
      xf_SubjectDNEnabled = xf_SubjectDNEnabled c, xf_ClientVerifyAlias = xf_ClientVerifyAlias c,
      xf_ClientSrcPortEnabled = xf_ClientSrcPortEnabled c, xf_Enabled = xf_Enabled c,
      xf_SLBIdEnabled = xf_SLBIdEnabled c\<rparr>"

definition transSDKXForwardedForConfigToUpdateLs :: "bool xff_config \<Rightarrow> string xff_config" where
  "transSDKXForwardedForConfigToUpdateLs c =
     \<lparr>xf_SubjectDNAlias = xf_IssuerDNAlias c, xf_IssuerDNEnabled = FormatBool (xf_IssuerDNEnabled c),
      xf_FingerprintEnabled = FormatBool (xf_FingerprintEnabled c), xf_IssuerDNAlias = xf_IssuerDNAlias c,
      xf_ProtoEnabled = FormatBool (xf_ProtoEnabled c), xf_FingerprintAlias = xf_FingerprintAlias c,
      xf_ClientVerifyEnabled = FormatBool (xf_ClientVerifyEnabled c), xf_SLBPortEnabled = FormatBool (xf_SLBPortEnabled c),
      xf_SubjectDNEnabled = FormatBool (xf_SubjectDNEnabled c), xf_ClientVerifyAlias = xf_ClientVerifyAlias c,
      xf_ClientSrcPortEnabled = FormatBool (xf_ClientSrcPortEnabled c), xf_Enabled = FormatBool (xf_Enabled c),
      xf_SLBIdEnabled = FormatBool (xf_SLBIdEnabled c)\<rparr>"

text \<open>Certificates, split into the default ones and the others.\<close>

definition buildSDKCertificatesModel :: "listener_cert list \<Rightarrow> listener_cert list \<times> listener_cert list" where
  "buildSDKCertificatesModel modelCerts = (filter fst modelCerts, filter (\<lambda>c. \<not> fst c) modelCerts)"

definition buildSDKCertificates :: "listener_cert list \<Rightarrow> listener_cert list \<times> listener_cert list" where
  "buildSDKCertificates modelCerts = (filter fst modelCerts, filter (\<lambda>c. \<not> fst c) modelCerts)"

definition transSDKCertificatesToCreateLs :: "listener_cert list \<Rightarrow> string list" where
  "transSDKCertificatesToCreateLs certificates = map snd certificates"

definition transSDKCertificatesToUpdateLs :: "listener_cert list \<Rightarrow> string list" where
  "transSDKCertificatesToUpdateLs certificates = map snd certificates"

definition transSDKCaCertificatesToCreateLs :: "listener_cert list \<Rightarrow> string list" where
  "transSDKCaCertificatesToCreateLs certificates = map snd certificates"

type_synonym provider_listener = "bool xff_config ls_spec alb_listener"

definition buildSDKCreateListenerRequest ::
  "(id_token \<Rightarrow> string res) \<Rightarrow> (certificate \<Rightarrow> listener_cert) \<Rightarrow> provider_listener \<Rightarrow> ls_request res" where
  "buildSDKCreateListenerRequest R V ls =
     (let lsSpec = als_Spec ls; protocol = als_ListenerProtocol ls; certs = map V (lsp_Certificates lsSpec)
      in bind_res (R (als_LoadBalancerID ls)) (\<lambda>lbID.
         if \<not> isListenerProtocolValid protocol then Inl (Errorf ''invalid listener protocol: '')
         else if \<not> isListenerPortValid (als_ListenerPort ls) then Inl (Errorf ''invalid listener port: '')
         else if \<not> isListenerRequestTimeoutValid (lss_RequestTimeout lsSpec) then Inl (Errorf ''invalid listener RequestTimeout: '')
         else if \<not> isListenerIdleTimeoutValid (lss_IdleTimeout lsSpec) then Inl (Errorf ''invalid listener IdleTimeout: '')
         else if length (lsp_DefaultActions lsSpec) = 0 then Inl (Errorf ''empty listener default actions: '')
         else bind_res (transModelActionToSDKCreateLs R (lsp_DefaultActions lsSpec)) (\<lambda>defaultActions.
         if length defaultActions = 0 then Inl (Errorf ''empty listener default actions: '')
         else let req = \<lparr>nq_LoadBalancerId = lbID, nq_ListenerId = [], nq_ListenerProtocol = protocol,
                nq_ListenerPort = Some (als_ListenerPort ls), nq_ListenerDescription = lsp_ListenerDescription lsSpec,
                nq_RequestTimeout = Some (lss_RequestTimeout lsSpec), nq_IdleTimeout = Some (lss_IdleTimeout lsSpec),
                nq_GzipEnabled = Some (lsp_GzipEnabled lsSpec), nq_Http2Enabled = None,
                nq_QuicConfig = Some (transSDKQuicConfigToCreateLs (lss_QuicConfig lsSpec)), nq_DefaultActions = defaultActions,
                nq_XForwardedForConfig = Some (transSDKXForwardedForConfigToCreateLs (lss_XForwardedForConfig lsSpec)),
                nq_SecurityPolicyId = [], nq_CaCertificates = [], nq_Certificates = []\<rparr>
         in if has_certs protocol then
              if provider_isHTTPSListenerProtocol protocol \<and> length (lss_SecurityPolicyId lsSpec) = 0
                then Inl (Errorf ''invalid https listener SecurityPolicyId: '')
              else if length (lsp_Certificates lsSpec) = 0 then Inl (Errorf ''empty https listener default certs '')
              else let defaultCerts = fst (buildSDKCertificates certs)
                   in if length defaultCerts \<noteq> 1 then Inl (Errorf ''empty https listener default certs'')
                      else Inr (req\<lparr>nq_SecurityPolicyId :=
                                    (if provider_isHTTPSListenerProtocol protocol then lss_SecurityPolicyId lsSpec else []),
                                  nq_CaCertificates := transSDKCaCertificatesToCreateLs (map V (lsp_CaCertificates lsSpec)),
                                  nq_Certificates := transSDKCertificatesToCreateLs defaultCerts,
                                  nq_Http2Enabled :=
                                    (if provider_isHTTPSListenerProtocol protocol then Some (lsp_Http2Enabled lsSpec) else None)\<rparr>)
            else Inr req)))"

subsection \<open>Reading and waiting\<close>

definition getALBListenerAttributeFunc :: "'w albsdk \<Rightarrow> string \<Rightarrow> ('w, listener_attribute) pv_prog" where
  "getALBListenerAttributeFunc K lsID = invoke (KGetListenerAttribute lsID) (k_GetListenerAttribute K lsID)"

text \<open>The loop ends without an error also if the listener never runs.\<close>

definition waitListenerStatus :: "'w albsdk \<Rightarrow> string \<Rightarrow> ('w, unit) pv_prog" where
  "waitListenerStatus K listenerId =
     bindP (pollP CreateListenerWaitRunningMaxRetryTimes
              (bindP (getALBListenerAttributeFunc K listenerId) (\<lambda>getLsResp.
               returnP (if isListenerListenerStatusRunning (la_ListenerStatus getLsResp) then Some () else None)))) (\<lambda>_.
     returnP ())"

definition listListenerCerts :: "'w albsdk \<Rightarrow> string \<Rightarrow> ('w, listener_cert list) pv_prog" where
  "listListenerCerts K lsID =
     pagesP (k_pages K) (\<lambda>token. invoke (KListListenerCertificates lsID token) (k_ListListenerCertificates K lsID token)) []"

definition ListALBListeners :: "'w albsdk \<Rightarrow> string \<Rightarrow> ('w, sdk_listener_info list) pv_prog" where
  "ListALBListeners K lbID =
     (if length lbID = 0 then throwP (Errorf ''invalid load balancer id:  for listing listeners'')
      else pagesP (k_pages K) (\<lambda>token. invoke (KListListeners lbID token) (k_ListListeners K lbID token)) [])"

definition provider_DeleteALBListener :: "'w albsdk \<Rightarrow> string \<Rightarrow> ('w, unit) pv_prog" where
  "provider_DeleteALBListener K sdkLSId = invoke (KDeleteListener sdkLSId) (k_DeleteListener K sdkLSId)"

subsection \<open>Certificates\<close>

text \<open>\<open>sets.String\<close>: \<open>List\<close> returns the elements in order.\<close>

definition sets_List :: "string list \<Rightarrow> string list" where
  "sets_List xs = sort (remdups xs)"

text \<open>
  The ids that become and those that cease to be additional certificates.  The current default
  certificate cannot be an additional one; if it stays as one of the wanted certificates it
  also stays the default, and the wanted default becomes an additional one.
\<close>

definition desired_extra_ids :: "listener_cert list \<Rightarrow> listener_cert list \<Rightarrow> string list" where
  "desired_extra_ids desired current =
     (let (desiredDefaultCerts, desiredExtraCerts) = buildSDKCertificates desired;
          extraIDs = map snd desiredExtraCerts
      in case fst (buildSDKCertificatesModel current) of
           [] \<Rightarrow> extraIDs
         | (_, cur) # _ \<Rightarrow>
             let ids = (case desiredDefaultCerts of
                          [] \<Rightarrow> extraIDs
                        | (_, want) # _ \<Rightarrow> if want \<noteq> cur \<and> cur \<in> set extraIDs then extraIDs @ [want] else extraIDs)
             in removeAll cur ids)"

definition current_extra_ids :: "listener_cert list \<Rightarrow> string list" where
  "current_extra_ids current = map snd (snd (buildSDKCertificatesModel current))"

definition unmatchedResCerts :: "listener_cert list \<Rightarrow> listener_cert list \<Rightarrow> string list" where
  "unmatchedResCerts desired current =
     sets_List (filter (\<lambda>i. i \<notin> set (current_extra_ids current)) (desired_extra_ids desired current))"

definition unmatchedSDKCerts :: "listener_cert list \<Rightarrow> listener_cert list \<Rightarrow> string list" where
  "unmatchedSDKCerts desired current =
     sets_List (filter (\<lambda>i. i \<notin> set (desired_extra_ids desired current)) (current_extra_ids current))"

definition AssociateALBAdditionalCertificatesWithListener :: "'w albsdk \<Rightarrow> string \<Rightarrow> string list \<Rightarrow> ('w, unit) pv_prog" where
  "AssociateALBAdditionalCertificatesWithListener K lsID certs =
     invoke (KAssociateAdditionalCertificatesWithListener lsID certs) (k_AssociateAdditionalCertificatesWithListener K lsID certs)"

definition DissociateALBAdditionalCertificatesFromListener :: "'w albsdk \<Rightarrow> string \<Rightarrow> string list \<Rightarrow> ('w, unit) pv_prog" where
  "DissociateALBAdditionalCertificatesFromListener K lsID certs =
     invoke (KDissociateAdditionalCertificatesFromListener lsID certs) (k_DissociateAdditionalCertificatesFromListener K lsID certs)"

definition known_certs :: "string \<Rightarrow> ('w, listener_cert list) pv_prog" where
  "known_certs lsID = getP (\<lambda>s. case map_of (pv_certs s) lsID of Some cs \<Rightarrow> cs | None \<Rightarrow> [])"

definition updateListenerExtraCertificates :: "'w albsdk \<Rightarrow> string \<Rightarrow> listener_cert list \<Rightarrow> ('w, unit) pv_prog" where
  "updateListenerExtraCertificates K lsID desired =
     bindP (known_certs lsID) (\<lambda>current.
     bindP (if length (unmatchedResCerts desired current) \<noteq> 0
            then AssociateALBAdditionalCertificatesWithListener K lsID (unmatchedResCerts desired current)
            else returnP ()) (\<lambda>_.
     if length (unmatchedSDKCerts desired current) \<noteq> 0
     then DissociateALBAdditionalCertificatesFromListener K lsID (unmatchedSDKCerts desired current)
     else returnP ()))"

subsection \<open>Creating and updating\<close>

definition CreateALBListener ::
  "'w albsdk \<Rightarrow> (id_token \<Rightarrow> string res) \<Rightarrow> (certificate \<Rightarrow> listener_cert) \<Rightarrow> provider_listener \<Rightarrow> ('w, string) pv_prog" where
  "CreateALBListener K R V resLS =
     bindP (liftP (buildSDKCreateListenerRequest R V resLS)) (\<lambda>createLsReq.
     bindP (wrapP ''failed to create listener: ''
              (RetryImmediateOnError (k_polls K) isIncorrectStatusLoadBalancerError
                 (invoke (KCreateListener createLsReq) (k_CreateListener K createLsReq)))) (\<lambda>listenerId.
     bindP (waitListenerStatus K listenerId) (\<lambda>_.
     bindP (if has_certs (als_ListenerProtocol resLS)
            then wrapP ''failed to update listener extra certificates: ''
                   (RetryImmediateOnError (k_polls K) isIncorrectStatusListenerError
                      (updateListenerExtraCertificates K listenerId (map V (lsp_Certificates (als_Spec resLS)))))
            else returnP ()) (\<lambda>_.
     returnP listenerId))))"

text \<open>
  The default certificate: whether it is replaced, and the flags of the wanted certificates
  afterwards.  If the current default is among the wanted certificates, the first of these
  loses the flag and the current default gets it.
\<close>

definition default_cert_update :: "listener_cert list \<Rightarrow> string \<Rightarrow> bool \<times> listener_cert list" where
  "default_cert_update desired cur =
     (case fst (buildSDKCertificates desired) of
        [] \<Rightarrow> (False, desired)
      | (_, want) # _ \<Rightarrow>
          if want = cur then (False, desired)
          else if cur \<notin> set (map snd (snd (buildSDKCertificates desired))) then (True, desired)
          else (False, map (\<lambda>(d, i). if i = cur then (True, i) else (d, i))
                         (case desired of [] \<Rightarrow> [] | (_, i) # cs \<Rightarrow> (False, i) # cs)))"

definition listener_cert_update ::
  "provider_listener \<Rightarrow> listener_cert list \<Rightarrow> listener_cert list \<Rightarrow> sdk_listener_info \<Rightarrow> (bool \<times> listener_cert list) res" where
  "listener_cert_update resLS desired current sdkLs =
     (if \<not> has_certs (kn_ListenerProtocol sdkLs) then Inr (False, desired)
      else if provider_isHTTPSListenerProtocol (kn_ListenerProtocol sdkLs) \<and> length (lss_SecurityPolicyId (als_Spec resLS)) = 0
        then Inl (Errorf ''invalid https listener SecurityPolicyId: '')
      else case fst (buildSDKCertificatesModel current) of
             [(_, cur)] \<Rightarrow> Inr (default_cert_update desired cur)
           | _ \<Rightarrow> Inl (Errorf ''invalid sdk https listener default certs len: ''))"

text \<open>
  The update request with what differs, \<open>None\<close> if nothing does, given whether the default
  action and the default certificate change.
\<close>

definition update_ls_request ::
  "(id_token \<Rightarrow> string res) \<Rightarrow> bool xff_config ls_spec \<Rightarrow> listener_cert list \<Rightarrow> sdk_listener_info \<Rightarrow> bool \<Rightarrow> bool \<Rightarrow>
   ls_request option res" where
  "update_ls_request R spec desired sdkLs actionsUpd certsUpd =
     (let https = provider_isHTTPSListenerProtocol (kn_ListenerProtocol sdkLs);
          gzipUpd = lsp_GzipEnabled spec \<noteq> kn_GzipEnabled sdkLs;
          quicUpd = transQuicConfigToSDK (lss_QuicConfig spec) \<noteq> kn_QuicConfig sdkLs;
          requestUpd = lss_RequestTimeout spec \<noteq> kn_RequestTimeout sdkLs;
          xffUpd = transXForwardedForConfigToSDK (lss_XForwardedForConfig spec) \<noteq> kn_XForwardedForConfig sdkLs;
          idleUpd = lss_IdleTimeout spec \<noteq> kn_IdleTimeout sdkLs;
          descUpd = lsp_ListenerDescription spec \<noteq> kn_ListenerDescription sdkLs;
          policyUpd = https \<and> lss_SecurityPolicyId spec \<noteq> kn_SecurityPolicyId sdkLs;
          http2Upd = https \<and> lsp_Http2Enabled spec \<noteq> kn_Http2Enabled sdkLs
      in if \<not> gzipUpd \<and> \<not> quicUpd \<and> \<not> http2Upd \<and> \<not> actionsUpd \<and> \<not> requestUpd \<and> \<not> xffUpd \<and> \<not> policyUpd \<and> \<not> idleUpd \<and>
            \<not> descUpd \<and> \<not> certsUpd
         then Inr None
         else bind_res (if actionsUpd then transModelActionToSDKUpdateLs R (lsp_DefaultActions spec) else Inr []) (\<lambda>defaultAction.
         Inr (Some \<lparr>nq_LoadBalancerId = [], nq_ListenerId = kn_ListenerId sdkLs, nq_ListenerProtocol = [], nq_ListenerPort = None,
                nq_ListenerDescription = (if descUpd then lsp_ListenerDescription spec else []),
                nq_RequestTimeout = (if requestUpd then Some (lss_RequestTimeout spec) else None),
                nq_IdleTimeout = (if idleUpd then Some (lss_IdleTimeout spec) else None),
                nq_GzipEnabled = (if gzipUpd then Some (lsp_GzipEnabled spec) else None),
                nq_Http2Enabled = (if http2Upd then Some (lsp_Http2Enabled spec) else None),
                nq_QuicConfig = (if quicUpd then Some (transSDKQuicConfigToUpdateLs (lss_QuicConfig spec)) else None),
                nq_DefaultActions = defaultAction,
                nq_XForwardedForConfig =
                  (if xffUpd then Some (transSDKXForwardedForConfigToUpdateLs (lss_XForwardedForConfig spec)) else None),
                nq_SecurityPolicyId = (if policyUpd then lss_SecurityPolicyId spec else []), nq_CaCertificates = [],
                nq_Certificates =
                  (if certsUpd then transSDKCertificatesToUpdateLs (fst (buildSDKCertificates desired)) else [])\<rparr>)))"

text \<open>The checks in their order, then the request; with it the flags of the certificates.\<close>

definition listener_update ::
  "(id_token \<Rightarrow> string res) \<Rightarrow> provider_listener \<Rightarrow> listener_cert list \<Rightarrow> listener_cert list \<Rightarrow> sdk_listener_info \<Rightarrow>
   (ls_request option \<times> listener_cert list) res" where
  "listener_update R resLS desired current sdkLs =
     (let spec = als_Spec resLS
      in if length (lsp_DefaultActions spec) = 0 then Inl (Errorf ''empty listener default action: '')
         else bind_res (transModelActionsToSDKLs R (lsp_DefaultActions spec)) (\<lambda>resAction.
         if length resAction = 0 then Inl (Errorf ''empty listener default action: '')
         else case kn_DefaultActions sdkLs of
                [] \<Rightarrow> Inl (Panic ''index out of range [0] with length 0'')
              | sdkAction # _ \<Rightarrow>
         if \<not> isListenerRequestTimeoutValid (lss_RequestTimeout spec) then Inl (Errorf ''invalid listener RequestTimeout: '')
         else if \<not> isListenerIdleTimeoutValid (lss_IdleTimeout spec) then Inl (Errorf ''invalid listener IdleTimeout: '')
         else bind_res (listener_cert_update resLS desired current sdkLs) (\<lambda>(certsUpd, flags).
              bind_res (update_ls_request R spec desired sdkLs (hd resAction \<noteq> sdkAction) certsUpd) (\<lambda>req.
              Inr (req, flags)))))"

definition updateListenerAttribute ::
  "'w albsdk \<Rightarrow> (id_token \<Rightarrow> string res) \<Rightarrow> (certificate \<Rightarrow> listener_cert) \<Rightarrow> provider_listener \<Rightarrow> sdk_listener_info \<Rightarrow>
   ('w, listener_cert list) pv_prog" where
  "updateListenerAttribute K R V resLS sdkLs =
     bindP (known_certs (kn_ListenerId sdkLs)) (\<lambda>current.
     bindP (liftP (listener_update R resLS (map V (lsp_Certificates (als_Spec resLS))) current sdkLs)) (\<lambda>(req, flags).
       case req of
         None \<Rightarrow> returnP flags
       | Some updateLsReq \<Rightarrow>
           bindP (invoke (KUpdateListenerAttribute updateLsReq) (k_UpdateListenerAttribute K updateLsReq)) (\<lambda>_.
           returnP flags)))"

definition provider_UpdateALBListener ::
  "'w albsdk \<Rightarrow> (id_token \<Rightarrow> string res) \<Rightarrow> (certificate \<Rightarrow> listener_cert) \<Rightarrow> provider_listener \<Rightarrow> sdk_listener_info \<Rightarrow>
   ('w, string) pv_prog" where
  "provider_UpdateALBListener K R V resLS sdkLS =
     (let lsID = kn_ListenerId sdkLS
      in bindP (if has_certs (kn_ListenerProtocol sdkLS)
                then bindP (listListenerCerts K lsID) (\<lambda>certs. modifyP (pv_certs_update (map_set lsID certs)))
                else returnP ()) (\<lambda>_.
         bindP (if has_certs (kn_ListenerProtocol sdkLS)
                then bindP (updateListenerExtraCertificates K lsID (map V (lsp_Certificates (als_Spec resLS)))) (\<lambda>_.
                     waitListenerStatus K lsID)
                else returnP ()) (\<lambda>_.
         bindP (updateListenerAttribute K R V resLS sdkLS) (\<lambda>_.
         bindP (waitListenerStatus K lsID) (\<lambda>_.
         returnP lsID)))))"

subsection \<open>The certificates after an update\<close>

text \<open>
  The reference: a listener has one default certificate and a set of additional ones, and
  the requests change them.
\<close>

fun cert_effect :: "string \<Rightarrow> sdk_call \<Rightarrow> string \<times> string set \<Rightarrow> string \<times> string set" where
  "cert_effect ls (KAssociateAdditionalCertificatesWithListener i ids) (d, X) = (if i = ls then (d, X \<union> set ids) else (d, X))"
| "cert_effect ls (KDissociateAdditionalCertificatesFromListener i ids) (d, X) = (if i = ls then (d, X - set ids) else (d, X))"
| "cert_effect ls (KUpdateListenerAttribute req) (d, X) =
     (if nq_ListenerId req = ls then (case nq_Certificates req of [] \<Rightarrow> (d, X) | c # _ \<Rightarrow> (c, X - {c})) else (d, X))"
| "cert_effect ls _ p = p"

definition is_cert_call :: "sdk_call \<Rightarrow> bool" where
  "is_cert_call c \<longleftrightarrow>
     (case c of KAssociateAdditionalCertificatesWithListener _ _ \<Rightarrow> True | KDissociateAdditionalCertificatesFromListener _ _ \<Rightarrow> True
      | KUpdateListenerAttribute _ \<Rightarrow> True | _ \<Rightarrow> False)"

lemma cert_effect_other: "\<not> is_cert_call c \<Longrightarrow> cert_effect ls c p = p"
  by (cases p; cases c) (auto simp: is_cert_call_def)

lemma cert_effects_filter: "fold (cert_effect ls) (filter is_cert_call cs) p = fold (cert_effect ls) cs p"
  by (induction cs arbitrary: p) (auto simp: cert_effect_other)

lemma set_sets_List [simp]: "set (sets_List xs) = set xs" "sets_List xs = [] \<longleftrightarrow> xs = []"
  by (simp_all add: sets_List_def) (metis remdups_eq_nil_iff set_empty set_remdups set_sort)

definition optional_call :: "(string list \<Rightarrow> sdk_call) \<Rightarrow> string list \<Rightarrow> sdk_call list" where
  "optional_call c ids = (if ids \<noteq> [] then [c ids] else [])"

lemma follows_extra_certs:
  assumes "map_of (pv_certs s) ls = Some current" and "updateListenerExtraCertificates K ls desired s = (Inr (), t)"
  shows "fx_calls t = fx_calls s @
      optional_call (KAssociateAdditionalCertificatesWithListener ls) (unmatchedResCerts desired current) @
      optional_call (KDissociateAdditionalCertificatesFromListener ls) (unmatchedSDKCerts desired current)"
    and "pv_certs t = pv_certs s"
  using assms
  by (auto simp: updateListenerExtraCertificates_def known_certs_def bindP_Inr_iff getP_def optional_call_def returnP_def
      AssociateALBAdditionalCertificatesWithListener_def DissociateALBAdditionalCertificatesFromListener_def invoke_def
      split: if_splits prod.splits)

lemma only_wait_listener: "only_calls (\<lambda>c. \<not> is_cert_call c) (waitListenerStatus K ls)"
  unfolding waitListenerStatus_def getALBListenerAttributeFunc_def
  by (intro emits_intros TrueI) (simp add: is_cert_call_def)

lemma keeps_poll: "keeps I m \<Longrightarrow> keeps I (pollP n m)"
  by (induction n) (auto intro!: keeps_parts)

lemma keeps_wait_listener: "keeps (\<lambda>s. pv_certs s = m) (waitListenerStatus K ls)"
  unfolding waitListenerStatus_def getALBListenerAttributeFunc_def
  by (intro keeps_parts keeps_poll keeps_invoke) simp_all

lemma only_list_certs: "only_calls (\<lambda>c. \<not> is_cert_call c) (listListenerCerts K ls)"
  unfolding listListenerCerts_def by (intro emits_intros TrueI) (simp add: is_cert_call_def)

lemma wait_listener_silent:
  assumes "waitListenerStatus K ls s = (r, t)"
  shows "\<exists>cs. fx_calls t = fx_calls s @ cs \<and> filter is_cert_call cs = [] \<and> pv_certs t = pv_certs s"
proof -
  obtain cs where "fx_calls t = fx_calls s @ cs" "\<forall>c \<in> set cs. \<not> is_cert_call c"
    using only_wait_listener assms by (rule emitsD)
  moreover have "pv_certs t = pv_certs s" using keepsD [OF keeps_wait_listener assms] by blast
  ultimately show ?thesis by (auto simp: filter_empty_conv)
qed

lemma guarded_request:
  "(if c then Inr None else bind_res r (\<lambda>x. Inr (Some (f x)))) = Inr (Some q) \<Longrightarrow> \<exists>x. q = f x"
  "(if c then Inr None else bind_res r (\<lambda>x. Inr (Some (f x)))) = Inr None \<Longrightarrow> c"
  by (cases r; auto split: if_splits)+

lemma update_ls_request_certs:
  assumes "update_ls_request R spec desired sdk actionsUpd certsUpd = Inr (Some req)"
  shows "nq_ListenerId req = kn_ListenerId sdk"
    and "nq_Certificates req = (if certsUpd then map snd (filter fst desired) else [])"
  using guarded_request(1) [OF assms [unfolded update_ls_request_def Let_def]]
  by (elim exE, simp add: transSDKCertificatesToUpdateLs_def buildSDKCertificates_def)+

lemma update_ls_request_none:
  "update_ls_request R spec desired sdk actionsUpd certsUpd = Inr None \<Longrightarrow> \<not> certsUpd"
  unfolding update_ls_request_def Let_def by (drule guarded_request(2)) blast

lemma listener_update_request:
  assumes "listener_update R ls desired current sdk = Inr (req, flags)" and "has_certs (kn_ListenerProtocol sdk)"
    and "filter fst current = [(d, cur)]"
  shows "\<exists>a. update_ls_request R (als_Spec ls) desired sdk a (fst (default_cert_update desired cur)) = Inr req"
proof -
  have "\<exists>a f. listener_cert_update ls desired current sdk = Inr f \<and>
      update_ls_request R (als_Spec ls) desired sdk a (fst f) = Inr req"
    using assms(1) unfolding listener_update_def Let_def
    by (auto simp: bind_res_Inr_iff split: if_splits list.splits)
  then show ?thesis
    using assms(2,3) by (auto simp: listener_cert_update_def buildSDKCertificatesModel_def split: if_splits)
qed

lemma listener_update_certs:
  assumes "listener_update R ls desired current sdk = Inr (Some req, flags)" and "has_certs (kn_ListenerProtocol sdk)"
    and "filter fst current = [(d, cur)]"
  shows "nq_ListenerId req = kn_ListenerId sdk"
    and "nq_Certificates req = (if fst (default_cert_update desired cur) then map snd (filter fst desired) else [])"
  using listener_update_request [OF assms] update_ls_request_certs by blast+

lemma listener_update_none:
  assumes "listener_update R ls desired current sdk = Inr (None, flags)" and "has_certs (kn_ListenerProtocol sdk)"
    and "filter fst current = [(d, cur)]"
  shows "\<not> fst (default_cert_update desired cur)"
  using listener_update_request [OF assms] update_ls_request_none by blast

text \<open>The requests about certificates of a successful update.\<close>

definition cert_plan :: "string \<Rightarrow> listener_cert list \<Rightarrow> listener_cert list \<Rightarrow> sdk_call list" where
  "cert_plan ls desired current =
     optional_call (KAssociateAdditionalCertificatesWithListener ls) (unmatchedResCerts desired current) @
     optional_call (KDissociateAdditionalCertificatesFromListener ls) (unmatchedSDKCerts desired current)"

lemma update_attribute_certs:
  assumes "map_of (pv_certs s) (kn_ListenerId sdk) = Some current" and "has_certs (kn_ListenerProtocol sdk)"
    and "filter fst current = [(d, cur)]" and "desired = map V (lsp_Certificates (als_Spec ls))"
    and "updateListenerAttribute K R V ls sdk s = (Inr flags, t)"
  shows "\<exists>cs. fx_calls t = fx_calls s @ cs \<and>
    (\<forall>X. fold (cert_effect (kn_ListenerId sdk)) cs (cur, X) =
       (if fst (default_cert_update desired cur) then (snd (hd (filter fst desired)), X - {snd (hd (filter fst desired))})
        else (cur, X)))"
proof -
  have run: "bindP (liftP (listener_update R ls desired current sdk)) (\<lambda>(req, flags). case req of
       None \<Rightarrow> returnP flags
     | Some q \<Rightarrow> bindP (invoke (KUpdateListenerAttribute q) (k_UpdateListenerAttribute K q)) (\<lambda>_. returnP flags)) s = (Inr flags, t)"
    using assms by (simp add: updateListenerAttribute_def known_certs_def bindP_def getP_def)
  then obtain req fl where upd: "listener_update R ls desired current sdk = Inr (req, fl)"
    by (auto simp: bindP_Inr_iff liftP_def)
  show ?thesis
  proof (cases req)
    case None
    with run upd listener_update_none [OF _ assms(2,3)] show ?thesis
      by (intro exI [of _ "[]"]) (auto simp: returnP_def)
  next
    case (Some q)
    then have q: "nq_ListenerId q = kn_ListenerId sdk"
      "nq_Certificates q = (if fst (default_cert_update desired cur) then map snd (filter fst desired) else [])"
      using listener_update_certs [OF _ assms(2,3)] upd by blast+
    have "filter fst desired \<noteq> []" if "fst (default_cert_update desired cur)"
      using that by (auto simp: default_cert_update_def buildSDKCertificates_def)
    with run upd Some q show ?thesis
      by (intro exI [of _ "[KUpdateListenerAttribute q]"])
        (auto simp: prog_Inr invoke_def split: prod.splits list.splits if_splits)
  qed
qed

lemma certs_split:
  assumes "filter fst desired = [(d, want)]"
  shows "set (map snd desired) = insert want (set (map snd (filter (\<lambda>c. \<not> fst c) desired)))"
proof -
  have "set (map snd desired) = set (map snd (filter fst desired)) \<union> set (map snd (filter (\<lambda>c. \<not> fst c) desired))" by auto
  then show ?thesis unfolding assms by simp
qed

lemma desired_certs_reached:
  assumes "filter fst current = [(True, cur)]" and "filter fst desired = [(True, want)]"
    and "fold (cert_effect ls) (cert_plan ls desired current) (cur, set (current_extra_ids current)) = (cur, X)"
  shows "insert want (set (map snd desired)) = set (map snd desired)"
    and "(if fst (default_cert_update desired cur) then insert want (X - {want}) else insert cur X) = set (map snd desired)"
proof -
  let ?E = "set (map snd (filter (\<lambda>c. \<not> fst c) desired))"
  have split: "set (map snd desired) = insert want ?E" using certs_split [OF assms(2)] .
  then show "insert want (set (map snd desired)) = set (map snd desired)" by auto
  have X: "X = set (desired_extra_ids desired current)"
    using assms(3) by (auto simp: cert_plan_def optional_call_def unmatchedResCerts_def unmatchedSDKCerts_def filter_empty_conv split: if_splits)
  have extra: "set (desired_extra_ids desired current) =
      (if want \<noteq> cur \<and> cur \<in> ?E then insert want ?E else ?E) - {cur}"
    using assms(1,2) by (auto simp: desired_extra_ids_def buildSDKCertificates_def buildSDKCertificatesModel_def Let_def)
  have upd: "fst (default_cert_update desired cur) \<longleftrightarrow> want \<noteq> cur \<and> cur \<notin> ?E"
    using assms(2) by (simp add: default_cert_update_def buildSDKCertificates_def)
  show "(if fst (default_cert_update desired cur) then insert want (X - {want}) else insert cur X) = set (map snd desired)"
    unfolding X extra upd split by auto
qed


text \<open>A listener with certificates of its own, wanted instead of the one it has.\<close>

definition demo_ls :: provider_listener where
  "demo_ls = \<lparr>als_ID = ''443'', als_LoadBalancerID = LiteralToken ''alb-1'', als_ListenerPort = 443, als_ListenerProtocol = ''HTTPS'',
     als_Spec = \<lparr>lss_IdleTimeout = 15, lss_RequestTimeout = 60, lss_SecurityPolicyId = ''tls'', lss_CustomizedHeadersEnabled = False,
       lss_Tracing = \<lparr>tr_Sample = 0, tr_Type = [], tr_Enabled = False\<rparr>, lss_QuicConfig = (False, []),
       lss_XForwardedForConfig = \<lparr>xf_SubjectDNAlias = [], xf_IssuerDNEnabled = False, xf_FingerprintEnabled = False,
         xf_IssuerDNAlias = [], xf_ProtoEnabled = False, xf_FingerprintAlias = [], xf_ClientVerifyEnabled = False,
         xf_SLBPortEnabled = False, xf_SubjectDNEnabled = False, xf_ClientVerifyAlias = [], xf_ClientSrcPortEnabled = False,
         xf_Enabled = False, xf_SLBIdEnabled = False\<rparr>,
       lsp_DefaultActions = [zero_action\<lparr>act_Type := ''ForwardGroup'', act_ForwardConfig := Some []\<rparr>],
       lsp_Certificates = [FixedCert True ''new'', FixedCert False ''extra''], lsp_CaCertificates = [],
       lsp_GzipEnabled = True, lsp_Http2Enabled = True, lsp_ListenerDescription = ''web''\<rparr>, als_Status = None\<rparr>"

fun demo_view :: "certificate \<Rightarrow> listener_cert" where
  "demo_view (FixedCert d i) = (d, i)"
| "demo_view (SecretCert i) = (False, i)"

fun demo_resolve :: "id_token \<Rightarrow> string res" where
  "demo_resolve (LiteralToken i) = Inr i"
| "demo_resolve _ = Inl (Errorf ''status of the resource is not fulfilled yet'')"

definition demo_ls_info :: sdk_listener_info where
  "demo_ls_info = \<lparr>kn_ListenerId = ''lsn-1'', kn_ListenerProtocol = ''HTTPS'', kn_ListenerDescription = ''web'', kn_RequestTimeout = 60,
     kn_IdleTimeout = 15, kn_GzipEnabled = True, kn_Http2Enabled = True, kn_QuicConfig = (False, []),
     kn_DefaultActions = [(''ForwardGroup'', [])], kn_XForwardedForConfig = lss_XForwardedForConfig (als_Spec demo_ls),
     kn_SecurityPolicyId = ''tls''\<rparr>"

lemma demo_wait_listener:
  "waitListenerStatus (demo_sdk a b) ls s = (Inr (), s\<lparr>fx_world := (), fx_calls := fx_calls s @ [KGetListenerAttribute ls]\<rparr>)"
  by (simp add: waitListenerStatus_def CreateListenerWaitRunningMaxRetryTimes_def getALBListenerAttributeFunc_def
      isListenerListenerStatusRunning_def demo_sdk_def prog_simps invoke_def)


end
