(* ===== verification/Provider_Rules.thy ===== *)
theory Provider_Rules
  imports Provider_Listeners
begin

text \<open>
  Forwarding rules in the cloud (\<open>provider/alibaba/alb/rule.go\<close>).  The SDK has four sets of
  types for a rule, for creating and updating one rule or several, and a fifth for what it
  reports; the code converts actions and conditions to each of them by functions of their own,
  which are kept apart here under their names.  Then the comparison of a rule with the one in
  the cloud, and the requests, in batches, with retries while the listener is busy.
\<close>

definition zero_action_request :: action_request where
  "zero_action_request = \<lparr>aq_Type = [], aq_Order = [],
     aq_FixedResponseConfig = \<lparr>fr_Content = [], fr_ContentType = [], fr_HttpCode = []\<rparr>,
     aq_RedirectConfig = \<lparr>rd_Host = [], rd_HttpCode = [], rd_Path = [], rd_Port = [], rd_Protocol = [], rd_Query = []\<rparr>,
     aq_ForwardGroupConfig = [], aq_RewriteConfig = \<lparr>rw_Host = [], rw_Path = [], rw_Query = []\<rparr>,
     aq_InsertHeaderConfig = \<lparr>hr_Key = [], hr_Value = [], hr_ValueType = []\<rparr>, aq_RemoveHeaderConfig = [],
     aq_TrafficLimitConfig = ([], []), aq_TrafficMirrorConfig = ([], []),
     aq_CorsConfig = \<lparr>co_AllowCredentials = [], co_MaxAge = [], co_AllowOrigin = [], co_AllowMethods = [],
       co_AllowHeaders = [], co_ExposeHeaders = []\<rparr>\<rparr>"

definition zero_sdk_action :: sdk_action where
  "zero_sdk_action = \<lparr>ka_Type = [], ka_Order = 0,
     ka_FixedResponseConfig = \<lparr>fr_Content = [], fr_ContentType = [], fr_HttpCode = []\<rparr>,
     ka_RedirectConfig = \<lparr>rd_Host = [], rd_HttpCode = [], rd_Path = [], rd_Port = [], rd_Protocol = [], rd_Query = []\<rparr>,
     ka_ForwardGroupConfig = [], ka_RewriteConfig = \<lparr>rw_Host = [], rw_Path = [], rw_Query = []\<rparr>,
     ka_InsertHeaderConfig = \<lparr>ih_CoverEnabled = False, ih_Key = [], ih_Value = [], ih_ValueType = []\<rparr>,
     ka_RemoveHeaderConfig = [], ka_TrafficLimitConfig = \<lparr>tl_QPS = 0, tl_PerIpQps = 0\<rparr>, ka_TrafficMirrorConfig = ([], []),
     ka_CorsConfig = \<lparr>kc_AllowCredentials = [], kc_MaxAge = 0, kc_AllowOrigin = [], kc_AllowMethods = [],
       kc_AllowHeaders = [], kc_ExposeHeaders = []\<rparr>\<rparr>"

subsection \<open>Conversions\<close>

text \<open>Server groups of a forward action.\<close>

definition transModelServerGroupTuplesToSDKCreateRules :: "(id_token \<Rightarrow> string res) \<Rightarrow> server_group_tuple list \<Rightarrow> tuple_request list res" where
  "transModelServerGroupTuplesToSDKCreateRules R sgpTuples = 
     map_res (\<lambda>m. bind_res (resolve_tuple R m) (\<lambda>serverGroupID.
       Inr \<lparr>tq_ServerGroupId = serverGroupID, tq_Weight = Itoa (sgt_Weight m)\<rparr>)) sgpTuples"

definition transModelServerGroupTuplesToSDKUpdateRules :: "(id_token \<Rightarrow> string res) \<Rightarrow> server_group_tuple list \<Rightarrow> tuple_request list res" where
  "transModelServerGroupTuplesToSDKUpdateRules R sgpTuples = 
     map_res (\<lambda>m. bind_res (resolve_tuple R m) (\<lambda>serverGroupID.
       Inr \<lparr>tq_ServerGroupId = serverGroupID, tq_Weight = Itoa (sgt_Weight m)\<rparr>)) sgpTuples"

definition transModelServerGroupTuplesToSDKCreateRule :: "(id_token \<Rightarrow> string res) \<Rightarrow> server_group_tuple list \<Rightarrow> tuple_request list res" where
  "transModelServerGroupTuplesToSDKCreateRule R sgpTuples = 
     map_res (\<lambda>m. bind_res (resolve_tuple R m) (\<lambda>serverGroupID.
       Inr \<lparr>tq_ServerGroupId = serverGroupID, tq_Weight = Itoa (sgt_Weight m)\<rparr>)) sgpTuples"

definition transModelServerGroupTuplesToSDKUpdateRule :: "(id_token \<Rightarrow> string res) \<Rightarrow> server_group_tuple list \<Rightarrow> tuple_request list res" where
  "transModelServerGroupTuplesToSDKUpdateRule R sgpTuples = 
     map_res (\<lambda>m. bind_res (resolve_tuple R m) (\<lambda>serverGroupID.
       Inr \<lparr>tq_ServerGroupId = serverGroupID, tq_Weight = Itoa (sgt_Weight m)\<rparr>)) sgpTuples"

definition transModelServerGroupTuplesToSDKRule :: "(id_token \<Rightarrow> string res) \<Rightarrow> server_group_tuple list \<Rightarrow> sdk_tuple list res" where
  "transModelServerGroupTuplesToSDKRule R sgpTuples = 
     map_res (\<lambda>m. bind_res (resolve_tuple R m) (\<lambda>serverGroupID.
       Inr \<lparr>kt_ServerGroupId = serverGroupID, kt_Weight = sgt_Weight m\<rparr>)) sgpTuples"

definition transModelForwardActionConfigToSDKCreateRules :: "(id_token \<Rightarrow> string res) \<Rightarrow> server_group_tuple list \<Rightarrow> tuple_request list res" where
  "transModelForwardActionConfigToSDKCreateRules R forwardActionConf = transModelServerGroupTuplesToSDKCreateRules R forwardActionConf"

definition transModelForwardActionConfigToSDKUpdateRules :: "(id_token \<Rightarrow> string res) \<Rightarrow> server_group_tuple list \<Rightarrow> tuple_request list res" where
  "transModelForwardActionConfigToSDKUpdateRules R forwardActionConf = transModelServerGroupTuplesToSDKUpdateRules R forwardActionConf"

definition transModelForwardActionConfigToSDKCreateRule :: "(id_token \<Rightarrow> string res) \<Rightarrow> server_group_tuple list \<Rightarrow> tuple_request list res" where
  "transModelForwardActionConfigToSDKCreateRule R forwardActionConf = transModelServerGroupTuplesToSDKCreateRule R forwardActionConf"

definition transModelForwardActionConfigToSDKUpdateRule :: "(id_token \<Rightarrow> string res) \<Rightarrow> server_group_tuple list \<Rightarrow> tuple_request list res" where
  "transModelForwardActionConfigToSDKUpdateRule R forwardActionConf = transModelServerGroupTuplesToSDKUpdateRule R forwardActionConf"

definition transModelForwardActionConfigToSDKRule :: "(id_token \<Rightarrow> string res) \<Rightarrow> server_group_tuple list \<Rightarrow> sdk_tuple list res" where
  "transModelForwardActionConfigToSDKRule R forwardActionConf = transModelServerGroupTuplesToSDKRule R forwardActionConf"

text \<open>Settings of the other actions.\<close>

definition transSDKFixedResponseConfigToCreateRules :: "fixed_response_config \<Rightarrow> fixed_response_config" where
  "transSDKFixedResponseConfigToCreateRules c = 
     \<lparr>fr_Content = fr_Content c, fr_ContentType = fr_ContentType c, fr_HttpCode = fr_HttpCode c\<rparr>"

definition transSDKFixedResponseConfigToUpdateRules :: "fixed_response_config \<Rightarrow> fixed_response_config" where
  "transSDKFixedResponseConfigToUpdateRules c = 
     \<lparr>fr_Content = fr_Content c, fr_ContentType = fr_ContentType c, fr_HttpCode = fr_HttpCode c\<rparr>"

definition transSDKFixedResponseConfigToCreateRule :: "fixed_response_config \<Rightarrow> fixed_response_config" where
  "transSDKFixedResponseConfigToCreateRule c = 
     \<lparr>fr_Content = fr_Content c, fr_ContentType = fr_ContentType c, fr_HttpCode = fr_HttpCode c\<rparr>"

definition transSDKFixedResponseConfigToUpdateRule :: "fixed_response_config \<Rightarrow> fixed_response_config" where
  "transSDKFixedResponseConfigToUpdateRule c = 
     \<lparr>fr_Content = fr_Content c, fr_ContentType = fr_ContentType c, fr_HttpCode = fr_HttpCode c\<rparr>"

definition transSDKInsertHeaderConfigToCreateRules :: "insert_header_config \<Rightarrow> header_request" where
  "transSDKInsertHeaderConfigToCreateRules c = 
     \<lparr>hr_Key = ih_Key c, hr_Value = ih_Value c, hr_ValueType = ih_ValueType c\<rparr>"

definition transSDKInsertHeaderConfigToUpdateRules :: "insert_header_config \<Rightarrow> header_request" where
  "transSDKInsertHeaderConfigToUpdateRules c = 
     \<lparr>hr_Key = ih_Key c, hr_Value = ih_Value c, hr_ValueType = ih_ValueType c\<rparr>"

definition transSDKRemoveHeaderConfigToCreateRules :: "string \<Rightarrow> string" where
  "transSDKRemoveHeaderConfigToCreateRules key = key"

definition transSDKRemoveHeaderConfigToUpdateRules :: "string \<Rightarrow> string" where
  "transSDKRemoveHeaderConfigToUpdateRules key = key"

definition limitNumber2String :: "int \<Rightarrow> string" where
  "limitNumber2String limit = (if limit \<le> 0 then [] else Itoa limit)"

definition transSDKTrafficLimitConfigToCreateRules :: "traffic_limit_config \<Rightarrow> string \<times> string" where
  "transSDKTrafficLimitConfigToCreateRules c = 
     (limitNumber2String (tl_QPS c), limitNumber2String (tl_PerIpQps c))"

definition transSDKTrafficLimitConfigToUpdateRules :: "traffic_limit_config \<Rightarrow> string \<times> string" where
  "transSDKTrafficLimitConfigToUpdateRules c = 
     (limitNumber2String (tl_QPS c), limitNumber2String (tl_PerIpQps c))"

definition transSDKTrafficMirrorConfigMirrorGroupConfigServerGroupTuplesItemToCreateRules :: "mirror_tuple list \<Rightarrow> string list" where
  "transSDKTrafficMirrorConfigMirrorGroupConfigServerGroupTuplesItemToCreateRules sgpTuples = map mt_ServerGroupID sgpTuples"

definition transSDKTrafficMirrorConfigMirrorGroupConfigToCreateRules :: "mirror_tuple list \<Rightarrow> string list" where
  "transSDKTrafficMirrorConfigMirrorGroupConfigToCreateRules sgpTuples = transSDKTrafficMirrorConfigMirrorGroupConfigServerGroupTuplesItemToCreateRules sgpTuples"

definition transSDKTrafficMirrorConfigToCreateRules :: "traffic_mirror_config \<Rightarrow> string \<times> string list" where
  "transSDKTrafficMirrorConfigToCreateRules c = 
     (tm_TargetType c, transSDKTrafficMirrorConfigMirrorGroupConfigToCreateRules (tm_ServerGroupTuples c))"

definition transSDKTrafficMirrorConfigMirrorGroupConfigServerGroupTuplesItemToUpdateRules :: "mirror_tuple list \<Rightarrow> string list" where
  "transSDKTrafficMirrorConfigMirrorGroupConfigServerGroupTuplesItemToUpdateRules sgpTuples = map mt_ServerGroupID sgpTuples"

definition transSDKTrafficMirrorConfigMirrorGroupConfigToUpdateRules :: "mirror_tuple list \<Rightarrow> string list" where
  "transSDKTrafficMirrorConfigMirrorGroupConfigToUpdateRules sgpTuples = transSDKTrafficMirrorConfigMirrorGroupConfigServerGroupTuplesItemToUpdateRules sgpTuples"

definition transSDKTrafficMirrorConfigToUpdateRules :: "traffic_mirror_config \<Rightarrow> string \<times> string list" where
  "transSDKTrafficMirrorConfigToUpdateRules c = 
     (tm_TargetType c, transSDKTrafficMirrorConfigMirrorGroupConfigToUpdateRules (tm_ServerGroupTuples c))"

definition transSDKTrafficMirrorConfigMirrorGroupConfigServerGroupTuplesItemToCreateRule :: "mirror_tuple list \<Rightarrow> string list" where
  "transSDKTrafficMirrorConfigMirrorGroupConfigServerGroupTuplesItemToCreateRule sgpTuples = map mt_ServerGroupID sgpTuples"

definition transSDKTrafficMirrorConfigMirrorGroupConfigToCreateRule :: "mirror_tuple list \<Rightarrow> string list" where
  "transSDKTrafficMirrorConfigMirrorGroupConfigToCreateRule sgpTuples = transSDKTrafficMirrorConfigMirrorGroupConfigServerGroupTuplesItemToCreateRule sgpTuples"

definition transSDKTrafficMirrorConfigToCreateRule :: "traffic_mirror_config \<Rightarrow> string \<times> string list" where
  "transSDKTrafficMirrorConfigToCreateRule c = 
     (tm_TargetType c, transSDKTrafficMirrorConfigMirrorGroupConfigToCreateRule (tm_ServerGroupTuples c))"

definition transSDKTrafficMirrorConfigMirrorGroupConfigServerGroupTuplesItemToUpdateRule :: "mirror_tuple list \<Rightarrow> string list" where
  "transSDKTrafficMirrorConfigMirrorGroupConfigServerGroupTuplesItemToUpdateRule sgpTuples = map mt_ServerGroupID sgpTuples"

definition transSDKTrafficMirrorConfigMirrorGroupConfigToUpdateRule :: "mirror_tuple list \<Rightarrow> string list" where
  "transSDKTrafficMirrorConfigMirrorGroupConfigToUpdateRule sgpTuples = transSDKTrafficMirrorConfigMirrorGroupConfigServerGroupTuplesItemToUpdateRule sgpTuples"

definition transSDKTrafficMirrorConfigToUpdateRule :: "traffic_mirror_config \<Rightarrow> string \<times> string list" where
  "transSDKTrafficMirrorConfigToUpdateRule c = 
     (tm_TargetType c, transSDKTrafficMirrorConfigMirrorGroupConfigToUpdateRule (tm_ServerGroupTuples c))"

definition transModelTrafficMirrorConfigMirrorGroupConfigServerGroupTuplesToSDKRule :: "mirror_tuple list \<Rightarrow> sdk_tuple list" where
  "transModelTrafficMirrorConfigMirrorGroupConfigServerGroupTuplesToSDKRule sgpTuples = 
     map (\<lambda>m. \<lparr>kt_ServerGroupId = mt_ServerGroupID m, kt_Weight = 0\<rparr>) sgpTuples"

definition transModelTrafficMirrorConfigMirrorGroupConfigToSDKRule :: "mirror_tuple list \<Rightarrow> sdk_tuple list" where
  "transModelTrafficMirrorConfigMirrorGroupConfigToSDKRule sgpTuples = 
     transModelTrafficMirrorConfigMirrorGroupConfigServerGroupTuplesToSDKRule sgpTuples"

definition transModelTrafficMirrorActionConfigToSDKRule :: "traffic_mirror_config \<Rightarrow> string \<times> sdk_tuple list" where
  "transModelTrafficMirrorActionConfigToSDKRule c = 
     (tm_TargetType c, transModelTrafficMirrorConfigMirrorGroupConfigToSDKRule (tm_ServerGroupTuples c))"

definition transSDKRerwriteConfigToCreateRules :: "rewrite_config \<Rightarrow> rewrite_config" where
  "transSDKRerwriteConfigToCreateRules c = \<lparr>rw_Host = rw_Host c, rw_Path = rw_Path c, rw_Query = rw_Query c\<rparr>"

definition transSDKRerwriteConfigToUpdateRules :: "rewrite_config \<Rightarrow> rewrite_config" where
  "transSDKRerwriteConfigToUpdateRules c = \<lparr>rw_Host = rw_Host c, rw_Path = rw_Path c, rw_Query = rw_Query c\<rparr>"

definition transSDKCorsConfigToCreateRules :: "cors_config \<Rightarrow> cors_config" where
  "transSDKCorsConfigToCreateRules c = 
     \<lparr>co_AllowCredentials = co_AllowCredentials c, co_MaxAge = co_MaxAge c, co_AllowOrigin = co_AllowOrigin c,
      co_AllowMethods = co_AllowMethods c, co_AllowHeaders = co_AllowHeaders c, co_ExposeHeaders = co_ExposeHeaders c\<rparr>"

definition transSDKCorsConfigToUpdateRules :: "cors_config \<Rightarrow> cors_config" where
  "transSDKCorsConfigToUpdateRules c = 
     \<lparr>co_AllowCredentials = co_AllowCredentials c, co_MaxAge = co_MaxAge c, co_AllowOrigin = co_AllowOrigin c,
      co_AllowMethods = co_AllowMethods c, co_AllowHeaders = co_AllowHeaders c, co_ExposeHeaders = co_ExposeHeaders c\<rparr>"

definition transSDKRedirectConfigToCreateRules :: "redirect_config \<Rightarrow> redirect_config" where
  "transSDKRedirectConfigToCreateRules c = 
     \<lparr>rd_Host = rd_Host c, rd_HttpCode = rd_HttpCode c, rd_Path = rd_Path c, rd_Port = rd_Port c,
      rd_Protocol = rd_Protocol c, rd_Query = rd_Query c\<rparr>"

definition transSDKRedirectConfigToUpdateRules :: "redirect_config \<Rightarrow> redirect_config" where
  "transSDKRedirectConfigToUpdateRules c = 
     \<lparr>rd_Host = rd_Host c, rd_HttpCode = rd_HttpCode c, rd_Path = rd_Path c, rd_Port = rd_Port c,
      rd_Protocol = rd_Protocol c, rd_Query = rd_Query c\<rparr>"

definition transSDKRedirectConfigToCreateRule :: "redirect_config \<Rightarrow> redirect_config" where
  "transSDKRedirectConfigToCreateRule c = 
     \<lparr>rd_Host = rd_Host c, rd_HttpCode = rd_HttpCode c, rd_Path = rd_Path c, rd_Port = rd_Port c,
      rd_Protocol = rd_Protocol c, rd_Query = rd_Query c\<rparr>"

definition transSDKRedirectConfigToUpdateRule :: "redirect_config \<Rightarrow> redirect_config" where
  "transSDKRedirectConfigToUpdateRule c = 
     \<lparr>rd_Host = rd_Host c, rd_HttpCode = rd_HttpCode c, rd_Path = rd_Path c, rd_Port = rd_Port c,
      rd_Protocol = rd_Protocol c, rd_Query = rd_Query c\<rparr>"

text \<open>One action.  The order of an action is its place in the list, counted from one.  A type without its settings is a nil dereference; a type no case names keeps only type and order.\<close>

definition transModelActionToSDKCreateRules :: "(id_token \<Rightarrow> string res) \<Rightarrow> int \<Rightarrow> alb_action \<Rightarrow> action_request res" where
  "transModelActionToSDKCreateRules R order action = 
     (let sdkObj = zero_action_request\<lparr>aq_Type := act_Type action, aq_Order := Itoa order\<rparr>
      in if act_Type action = ''FixedResponse'' then bind_res (deref (act_FixedResponseConfig action)) (\<lambda>c. 
           Inr (sdkObj\<lparr>aq_FixedResponseConfig := transSDKFixedResponseConfigToCreateRules c\<rparr>))
         else if act_Type action = ''Redirect'' then bind_res (deref (act_RedirectConfig action)) (\<lambda>c. 
           Inr (sdkObj\<lparr>aq_RedirectConfig := transSDKRedirectConfigToCreateRules c\<rparr>))
         else if act_Type action = ''ForwardGroup'' then bind_res (deref (act_ForwardConfig action)) (\<lambda>c. bind_res (transModelForwardActionConfigToSDKCreateRules R c) (\<lambda>x.
           Inr (sdkObj\<lparr>aq_ForwardGroupConfig := x\<rparr>)))
         else if act_Type action = ''Rewrite'' then bind_res (deref (act_RewriteConfig action)) (\<lambda>c. 
           Inr (sdkObj\<lparr>aq_RewriteConfig := transSDKRerwriteConfigToCreateRules c\<rparr>))
         else if act_Type action = ''InsertHeader'' then bind_res (deref (act_InsertHeaderConfig action)) (\<lambda>c. 
           Inr (sdkObj\<lparr>aq_InsertHeaderConfig := transSDKInsertHeaderConfigToCreateRules c\<rparr>))
         else if act_Type action = ''RemoveHeader'' then bind_res (deref (act_RemoveHeaderConfig action)) (\<lambda>c. 
           Inr (sdkObj\<lparr>aq_RemoveHeaderConfig := transSDKRemoveHeaderConfigToCreateRules c\<rparr>))
         else if act_Type action = ''TrafficLimit'' then bind_res (deref (act_TrafficLimitConfig action)) (\<lambda>c. 
           Inr (sdkObj\<lparr>aq_TrafficLimitConfig := transSDKTrafficLimitConfigToCreateRules c\<rparr>))
         else if act_Type action = ''TrafficMirror'' then bind_res (deref (act_TrafficMirrorConfig action)) (\<lambda>c. 
           Inr (sdkObj\<lparr>aq_TrafficMirrorConfig := transSDKTrafficMirrorConfigToCreateRules c\<rparr>))
         else if act_Type action = ''Cors'' then bind_res (deref (act_CorsConfig action)) (\<lambda>c. 
           Inr (sdkObj\<lparr>aq_CorsConfig := transSDKCorsConfigToCreateRules c\<rparr>))
         else Inr sdkObj)"

definition transModelActionToSDKUpdateRules :: "(id_token \<Rightarrow> string res) \<Rightarrow> int \<Rightarrow> alb_action \<Rightarrow> action_request res" where
  "transModelActionToSDKUpdateRules R order action = 
     (let sdkObj = zero_action_request\<lparr>aq_Type := act_Type action, aq_Order := Itoa order\<rparr>
      in if act_Type action = ''FixedResponse'' then bind_res (deref (act_FixedResponseConfig action)) (\<lambda>c. 
           Inr (sdkObj\<lparr>aq_FixedResponseConfig := transSDKFixedResponseConfigToUpdateRules c\<rparr>))
         else if act_Type action = ''Redirect'' then bind_res (deref (act_RedirectConfig action)) (\<lambda>c. 
           Inr (sdkObj\<lparr>aq_RedirectConfig := transSDKRedirectConfigToUpdateRules c\<rparr>))
         else if act_Type action = ''ForwardGroup'' then bind_res (deref (act_ForwardConfig action)) (\<lambda>c. bind_res (transModelForwardActionConfigToSDKUpdateRules R c) (\<lambda>x.
           Inr (sdkObj\<lparr>aq_ForwardGroupConfig := x\<rparr>)))
         else if act_Type action = ''Rewrite'' then bind_res (deref (act_RewriteConfig action)) (\<lambda>c. 
           Inr (sdkObj\<lparr>aq_RewriteConfig := transSDKRerwriteConfigToUpdateRules c\<rparr>))
         else if act_Type action = ''InsertHeader'' then bind_res (deref (act_InsertHeaderConfig action)) (\<lambda>c. 
           Inr (sdkObj\<lparr>aq_InsertHeaderConfig := transSDKInsertHeaderConfigToUpdateRules c\<rparr>))
         else if act_Type action = ''RemoveHeader'' then bind_res (deref (act_RemoveHeaderConfig action)) (\<lambda>c. 
           Inr (sdkObj\<lparr>aq_RemoveHeaderConfig := transSDKRemoveHeaderConfigToUpdateRules c\<rparr>))
         else if act_Type action = ''TrafficLimit'' then bind_res (deref (act_TrafficLimitConfig action)) (\<lambda>c. 
           Inr (sdkObj\<lparr>aq_TrafficLimitConfig := transSDKTrafficLimitConfigToUpdateRules c\<rparr>))
         else if act_Type action = ''TrafficMirror'' then bind_res (deref (act_TrafficMirrorConfig action)) (\<lambda>c. 
           Inr (sdkObj\<lparr>aq_TrafficMirrorConfig := transSDKTrafficMirrorConfigToUpdateRules c\<rparr>))
         else if act_Type action = ''Cors'' then bind_res (deref (act_CorsConfig action)) (\<lambda>c. 
           Inr (sdkObj\<lparr>aq_CorsConfig := transSDKCorsConfigToUpdateRules c\<rparr>))
         else Inr sdkObj)"

definition transModelActionToSDKCreateRule :: "(id_token \<Rightarrow> string res) \<Rightarrow> int \<Rightarrow> alb_action \<Rightarrow> action_request res" where
  "transModelActionToSDKCreateRule R order action = 
     (let sdkObj = zero_action_request\<lparr>aq_Type := act_Type action, aq_Order := Itoa order\<rparr>
      in if act_Type action = ''FixedResponse'' then bind_res (deref (act_FixedResponseConfig action)) (\<lambda>c. 
           Inr (sdkObj\<lparr>aq_FixedResponseConfig := transSDKFixedResponseConfigToCreateRule c\<rparr>))
         else if act_Type action = ''Redirect'' then bind_res (deref (act_RedirectConfig action)) (\<lambda>c. 
           Inr (sdkObj\<lparr>aq_RedirectConfig := transSDKRedirectConfigToCreateRule c\<rparr>))
         else if act_Type action = ''ForwardGroup'' then bind_res (deref (act_ForwardConfig action)) (\<lambda>c. bind_res (transModelForwardActionConfigToSDKCreateRule R c) (\<lambda>x.
           Inr (sdkObj\<lparr>aq_ForwardGroupConfig := x\<rparr>)))
         else if act_Type action = ''TrafficMirror'' then bind_res (deref (act_TrafficMirrorConfig action)) (\<lambda>c. 
           Inr (sdkObj\<lparr>aq_TrafficMirrorConfig := transSDKTrafficMirrorConfigToCreateRule c\<rparr>))
         else Inr sdkObj)"

definition transModelActionToSDKUpdateRule :: "(id_token \<Rightarrow> string res) \<Rightarrow> int \<Rightarrow> alb_action \<Rightarrow> action_request res" where
  "transModelActionToSDKUpdateRule R order action = 
     (let sdkObj = zero_action_request\<lparr>aq_Type := act_Type action, aq_Order := Itoa order\<rparr>
      in if act_Type action = ''FixedResponse'' then bind_res (deref (act_FixedResponseConfig action)) (\<lambda>c. 
           Inr (sdkObj\<lparr>aq_FixedResponseConfig := transSDKFixedResponseConfigToUpdateRule c\<rparr>))
         else if act_Type action = ''Redirect'' then bind_res (deref (act_RedirectConfig action)) (\<lambda>c. 
           Inr (sdkObj\<lparr>aq_RedirectConfig := transSDKRedirectConfigToUpdateRule c\<rparr>))
         else if act_Type action = ''ForwardGroup'' then bind_res (deref (act_ForwardConfig action)) (\<lambda>c. bind_res (transModelForwardActionConfigToSDKUpdateRule R c) (\<lambda>x.
           Inr (sdkObj\<lparr>aq_ForwardGroupConfig := x\<rparr>)))
         else if act_Type action = ''TrafficMirror'' then bind_res (deref (act_TrafficMirrorConfig action)) (\<lambda>c. 
           Inr (sdkObj\<lparr>aq_TrafficMirrorConfig := transSDKTrafficMirrorConfigToUpdateRule c\<rparr>))
         else Inr sdkObj)"

definition transModelActionsToSDKCreateRules :: "(id_token \<Rightarrow> string res) \<Rightarrow> alb_action list \<Rightarrow> action_request list res" where
  "transModelActionsToSDKCreateRules R actions = 
     map_res (\<lambda>(index, m). transModelActionToSDKCreateRules R (int index + 1) m) (enumerate 0 actions)"

definition transModelActionsToSDKUpdateRules :: "(id_token \<Rightarrow> string res) \<Rightarrow> alb_action list \<Rightarrow> action_request list res" where
  "transModelActionsToSDKUpdateRules R actions = 
     map_res (\<lambda>(index, m). transModelActionToSDKUpdateRules R (int index + 1) m) (enumerate 0 actions)"

definition transModelActionsToSDKCreateRule :: "(id_token \<Rightarrow> string res) \<Rightarrow> alb_action list \<Rightarrow> action_request list res" where
  "transModelActionsToSDKCreateRule R actions = 
     map_res (\<lambda>(index, m). transModelActionToSDKCreateRule R (int index + 1) m) (enumerate 0 actions)"

definition transModelActionsToSDKUpdateRule :: "(id_token \<Rightarrow> string res) \<Rightarrow> alb_action list \<Rightarrow> action_request list res" where
  "transModelActionsToSDKUpdateRule R actions = 
     map_res (\<lambda>(index, m). transModelActionToSDKUpdateRule R (int index + 1) m) (enumerate 0 actions)"

text \<open>An action the way the cloud reports it, for the comparison.\<close>

definition transModelActionToSDK :: "(id_token \<Rightarrow> string res) \<Rightarrow> int \<Rightarrow> alb_action \<Rightarrow> sdk_action res" where
  "transModelActionToSDK R order action = 
     (let sdkObj = zero_sdk_action\<lparr>ka_Type := act_Type action, ka_Order := order\<rparr>
      in if act_Type action = ''FixedResponse'' then bind_res (deref (act_FixedResponseConfig action)) (\<lambda>c. 
           Inr (sdkObj\<lparr>ka_FixedResponseConfig := \<lparr>fr_Content = fr_Content c, fr_ContentType = fr_ContentType c, fr_HttpCode = fr_HttpCode c\<rparr>\<rparr>))
         else if act_Type action = ''Redirect'' then bind_res (deref (act_RedirectConfig action)) (\<lambda>c. 
           Inr (sdkObj\<lparr>ka_RedirectConfig := \<lparr>rd_Host = rd_Host c, rd_HttpCode = rd_HttpCode c, rd_Path = rd_Path c, rd_Port = rd_Port c,
             rd_Protocol = rd_Protocol c, rd_Query = rd_Query c\<rparr>\<rparr>))
         else if act_Type action = ''ForwardGroup'' then bind_res (deref (act_ForwardConfig action)) (\<lambda>c. bind_res (transModelForwardActionConfigToSDKRule R c) (\<lambda>x.
           Inr (sdkObj\<lparr>ka_ForwardGroupConfig := x\<rparr>)))
         else if act_Type action = ''Rewrite'' then bind_res (deref (act_RewriteConfig action)) (\<lambda>c. 
           Inr (sdkObj\<lparr>ka_RewriteConfig := \<lparr>rw_Host = rw_Host c, rw_Path = rw_Path c, rw_Query = rw_Query c\<rparr>\<rparr>))
         else if act_Type action = ''InsertHeader'' then bind_res (deref (act_InsertHeaderConfig action)) (\<lambda>c. 
           Inr (sdkObj\<lparr>ka_InsertHeaderConfig := \<lparr>ih_CoverEnabled = True, ih_Key = ih_Key c, ih_Value = ih_Value c, ih_ValueType = ih_ValueType c\<rparr>\<rparr>))
         else if act_Type action = ''RemoveHeader'' then bind_res (deref (act_RemoveHeaderConfig action)) (\<lambda>c. 
           Inr (sdkObj\<lparr>ka_RemoveHeaderConfig := c\<rparr>))
         else if act_Type action = ''TrafficLimit'' then bind_res (deref (act_TrafficLimitConfig action)) (\<lambda>c. 
           Inr (sdkObj\<lparr>ka_TrafficLimitConfig := \<lparr>tl_QPS = tl_QPS c, tl_PerIpQps = tl_PerIpQps c\<rparr>\<rparr>))
         else if act_Type action = ''TrafficMirror'' then bind_res (deref (act_TrafficMirrorConfig action)) (\<lambda>c. 
           Inr (sdkObj\<lparr>ka_TrafficMirrorConfig := transModelTrafficMirrorActionConfigToSDKRule c\<rparr>))
         else if act_Type action = ''Cors'' then bind_res (deref (act_CorsConfig action)) (\<lambda>c.
           bind_res (ParseInt64 (co_MaxAge c)) (\<lambda>maxAge.
           Inr (sdkObj\<lparr>ka_CorsConfig := \<lparr>kc_AllowCredentials = co_AllowCredentials c, kc_MaxAge = maxAge,
             kc_AllowOrigin = co_AllowOrigin c, kc_AllowMethods = co_AllowMethods c, kc_AllowHeaders = co_AllowHeaders c,
             kc_ExposeHeaders = co_ExposeHeaders c\<rparr>\<rparr>)))
         else Inr sdkObj)"

definition transModelActionsToSDK :: "(id_token \<Rightarrow> string res) \<Rightarrow> alb_action list \<Rightarrow> sdk_action list res" where
  "transModelActionsToSDK R actions = 
     map_res (\<lambda>(index, m). transModelActionToSDK R (int index + 1) m) (enumerate 0 actions)"

text \<open>Conditions.  Keys with values become keys with values, so the conversions differ only in the kinds of condition they know.\<close>

definition transSDKQueryStringConfigValueToCreateRules :: "string \<times> string \<Rightarrow> string \<times> string" where
  "transSDKQueryStringConfigValueToCreateRules value = (fst value, snd value)"

definition transSDKQueryStringConfigValuesToCreateRules :: "(string \<times> string) list \<Rightarrow> (string \<times> string) list" where
  "transSDKQueryStringConfigValuesToCreateRules values = map transSDKQueryStringConfigValueToCreateRules values"

definition transSDKQueryStringConfigToCreateRules :: "(string \<times> string) list \<Rightarrow> (string \<times> string) list" where
  "transSDKQueryStringConfigToCreateRules conf = transSDKQueryStringConfigValuesToCreateRules conf"

definition transSDKQueryStringConfigValueToUpdateRules :: "string \<times> string \<Rightarrow> string \<times> string" where
  "transSDKQueryStringConfigValueToUpdateRules value = (fst value, snd value)"

definition transSDKQueryStringConfigValuesToUpdateRules :: "(string \<times> string) list \<Rightarrow> (string \<times> string) list" where
  "transSDKQueryStringConfigValuesToUpdateRules values = map transSDKQueryStringConfigValueToUpdateRules values"

definition transSDKQueryStringConfigToUpdateRules :: "(string \<times> string) list \<Rightarrow> (string \<times> string) list" where
  "transSDKQueryStringConfigToUpdateRules conf = transSDKQueryStringConfigValuesToUpdateRules conf"

definition transSDKQueryStringConfigValueToCreateRule :: "string \<times> string \<Rightarrow> string \<times> string" where
  "transSDKQueryStringConfigValueToCreateRule value = (fst value, snd value)"

definition transSDKQueryStringConfigValuesToCreateRule :: "(string \<times> string) list \<Rightarrow> (string \<times> string) list" where
  "transSDKQueryStringConfigValuesToCreateRule values = map transSDKQueryStringConfigValueToCreateRule values"

definition transSDKQueryStringConfigToCreateRule :: "(string \<times> string) list \<Rightarrow> (string \<times> string) list" where
  "transSDKQueryStringConfigToCreateRule conf = transSDKQueryStringConfigValuesToCreateRule conf"

definition transSDKQueryStringConfigValueToUpdateRule :: "string \<times> string \<Rightarrow> string \<times> string" where
  "transSDKQueryStringConfigValueToUpdateRule value = (fst value, snd value)"

definition transSDKQueryStringConfigValuesToUpdateRule :: "(string \<times> string) list \<Rightarrow> (string \<times> string) list" where
  "transSDKQueryStringConfigValuesToUpdateRule values = map transSDKQueryStringConfigValueToUpdateRule values"

definition transSDKQueryStringConfigToUpdateRule :: "(string \<times> string) list \<Rightarrow> (string \<times> string) list" where
  "transSDKQueryStringConfigToUpdateRule conf = transSDKQueryStringConfigValuesToUpdateRule conf"

definition transSDKCookieConfigValueToCreateRules :: "string \<times> string \<Rightarrow> string \<times> string" where
  "transSDKCookieConfigValueToCreateRules value = (fst value, snd value)"

definition transSDKCookieConfigValuesToCreateRules :: "(string \<times> string) list \<Rightarrow> (string \<times> string) list" where
  "transSDKCookieConfigValuesToCreateRules values = map transSDKCookieConfigValueToCreateRules values"

definition transSDKCookieConfigToCreateRules :: "(string \<times> string) list \<Rightarrow> (string \<times> string) list" where
  "transSDKCookieConfigToCreateRules conf = transSDKCookieConfigValuesToCreateRules conf"

definition transSDKCookieConfigValueToUpdateRules :: "string \<times> string \<Rightarrow> string \<times> string" where
  "transSDKCookieConfigValueToUpdateRules value = (fst value, snd value)"

definition transSDKCookieConfigValuesToUpdateRules :: "(string \<times> string) list \<Rightarrow> (string \<times> string) list" where
  "transSDKCookieConfigValuesToUpdateRules values = map transSDKCookieConfigValueToUpdateRules values"

definition transSDKCookieConfigToUpdateRules :: "(string \<times> string) list \<Rightarrow> (string \<times> string) list" where
  "transSDKCookieConfigToUpdateRules conf = transSDKCookieConfigValuesToUpdateRules conf"

definition transSDKCookieConfigValueToCreateRule :: "string \<times> string \<Rightarrow> string \<times> string" where
  "transSDKCookieConfigValueToCreateRule value = (fst value, snd value)"

definition transSDKCookieConfigValuesToCreateRule :: "(string \<times> string) list \<Rightarrow> (string \<times> string) list" where
  "transSDKCookieConfigValuesToCreateRule values = map transSDKCookieConfigValueToCreateRule values"

definition transSDKCookieConfigToCreateRule :: "(string \<times> string) list \<Rightarrow> (string \<times> string) list" where
  "transSDKCookieConfigToCreateRule conf = transSDKCookieConfigValuesToCreateRule conf"

definition transSDKCookieConfigValueToUpdateRule :: "string \<times> string \<Rightarrow> string \<times> string" where
  "transSDKCookieConfigValueToUpdateRule value = (fst value, snd value)"

definition transSDKCookieConfigValuesToUpdateRule :: "(string \<times> string) list \<Rightarrow> (string \<times> string) list" where
  "transSDKCookieConfigValuesToUpdateRule values = map transSDKCookieConfigValueToUpdateRule values"

definition transSDKCookieConfigToUpdateRule :: "(string \<times> string) list \<Rightarrow> (string \<times> string) list" where
  "transSDKCookieConfigToUpdateRule conf = transSDKCookieConfigValuesToUpdateRule conf"

definition transSDKHostConfigToCreateRules :: "string list \<Rightarrow> string list" where
  "transSDKHostConfigToCreateRules values = values"

definition transSDKHostConfigToUpdateRules :: "string list \<Rightarrow> string list" where
  "transSDKHostConfigToUpdateRules values = values"

definition transSDKHostConfigToCreateRule :: "string list \<Rightarrow> string list" where
  "transSDKHostConfigToCreateRule values = values"

definition transSDKHostConfigToUpdateRule :: "string list \<Rightarrow> string list" where
  "transSDKHostConfigToUpdateRule values = values"

definition transSDKMethodConfigToCreateRules :: "string list \<Rightarrow> string list" where
  "transSDKMethodConfigToCreateRules values = values"

definition transSDKMethodConfigToUpdateRules :: "string list \<Rightarrow> string list" where
  "transSDKMethodConfigToUpdateRules values = values"

definition transSDKMethodConfigToCreateRule :: "string list \<Rightarrow> string list" where
  "transSDKMethodConfigToCreateRule values = values"

definition transSDKMethodConfigToUpdateRule :: "string list \<Rightarrow> string list" where
  "transSDKMethodConfigToUpdateRule values = values"

definition transSDKPathConfigToCreateRules :: "string list \<Rightarrow> string list" where
  "transSDKPathConfigToCreateRules values = values"

definition transSDKPathConfigToUpdateRules :: "string list \<Rightarrow> string list" where
  "transSDKPathConfigToUpdateRules values = values"

definition transSDKPathConfigToCreateRule :: "string list \<Rightarrow> string list" where
  "transSDKPathConfigToCreateRule values = values"

definition transSDKPathConfigToUpdateRule :: "string list \<Rightarrow> string list" where
  "transSDKPathConfigToUpdateRule values = values"

definition transSDKSourceIpConfigToCreateRules :: "string list \<Rightarrow> string list" where
  "transSDKSourceIpConfigToCreateRules values = values"

definition transSDKSourceIpConfigToUpdateRules :: "string list \<Rightarrow> string list" where
  "transSDKSourceIpConfigToUpdateRules values = values"

definition transSDKResponseStatusCodeConfigToCreateRules :: "string list \<Rightarrow> string list" where
  "transSDKResponseStatusCodeConfigToCreateRules values = values"

definition transSDKResponseStatusCodeConfigToUpdateRules :: "string list \<Rightarrow> string list" where
  "transSDKResponseStatusCodeConfigToUpdateRules values = values"

definition transSDKHeaderConfigToCreateRules :: "string \<times> string list \<Rightarrow> string \<times> string list" where
  "transSDKHeaderConfigToCreateRules conf = (fst conf, snd conf)"

definition transSDKHeaderConfigToUpdateRules :: "string \<times> string list \<Rightarrow> string \<times> string list" where
  "transSDKHeaderConfigToUpdateRules conf = (fst conf, snd conf)"

definition transSDKHeaderConfigToCreateRule :: "string \<times> string list \<Rightarrow> string \<times> string list" where
  "transSDKHeaderConfigToCreateRule conf = (fst conf, snd conf)"

definition transSDKHeaderConfigToUpdateRule :: "string \<times> string list \<Rightarrow> string \<times> string list" where
  "transSDKHeaderConfigToUpdateRule conf = (fst conf, snd conf)"

definition transSDKResponseHeaderConfigToCreateRules :: "string \<times> string list \<Rightarrow> string \<times> string list" where
  "transSDKResponseHeaderConfigToCreateRules conf = (fst conf, snd conf)"

definition transSDKResponseHeaderConfigToUpdateRules :: "string \<times> string list \<Rightarrow> string \<times> string list" where
  "transSDKResponseHeaderConfigToUpdateRules conf = (fst conf, snd conf)"

definition transSDKConditionToCreateRules :: "alb_condition \<Rightarrow> alb_condition" where
  "transSDKConditionToCreateRules condition = 
     (let resCondition = zero_condition\<lparr>cnd_Type := cnd_Type condition\<rparr>
      in if cnd_Type condition = ''Host''
           then resCondition\<lparr>cnd_Host := transSDKHostConfigToCreateRules (cnd_Host condition)\<rparr>
         else if cnd_Type condition = ''Header''
           then resCondition\<lparr>cnd_Header := transSDKHeaderConfigToCreateRules (cnd_Header condition)\<rparr>
         else if cnd_Type condition = ''Method''
           then resCondition\<lparr>cnd_Method := transSDKMethodConfigToCreateRules (cnd_Method condition)\<rparr>
         else if cnd_Type condition = ''Path''
           then resCondition\<lparr>cnd_Path := transSDKPathConfigToCreateRules (cnd_Path condition)\<rparr>
         else if cnd_Type condition = ''QueryString''
           then resCondition\<lparr>cnd_QueryString := transSDKQueryStringConfigToCreateRules (cnd_QueryString condition)\<rparr>
         else if cnd_Type condition = ''Cookie''
           then resCondition\<lparr>cnd_Cookie := transSDKCookieConfigToCreateRules (cnd_Cookie condition)\<rparr>
         else if cnd_Type condition = ''SourceIp''
           then resCondition\<lparr>cnd_SourceIp := transSDKSourceIpConfigToCreateRules (cnd_SourceIp condition)\<rparr>
         else if cnd_Type condition = ''ResponseHeader''
           then resCondition\<lparr>cnd_ResponseHeader := transSDKResponseHeaderConfigToCreateRules (cnd_ResponseHeader condition)\<rparr>
         else if cnd_Type condition = ''ResponseStatusCode''
           then resCondition\<lparr>cnd_ResponseStatusCode := transSDKResponseStatusCodeConfigToCreateRules (cnd_ResponseStatusCode condition)\<rparr>
         else resCondition)"

definition transSDKConditionToUpdateRules :: "alb_condition \<Rightarrow> alb_condition" where
  "transSDKConditionToUpdateRules condition = 
     (let resCondition = zero_condition\<lparr>cnd_Type := cnd_Type condition\<rparr>
      in if cnd_Type condition = ''Host''
           then resCondition\<lparr>cnd_Host := transSDKHostConfigToUpdateRules (cnd_Host condition)\<rparr>
         else if cnd_Type condition = ''Header''
           then resCondition\<lparr>cnd_Header := transSDKHeaderConfigToUpdateRules (cnd_Header condition)\<rparr>
         else if cnd_Type condition = ''Method''
           then resCondition\<lparr>cnd_Method := transSDKMethodConfigToUpdateRules (cnd_Method condition)\<rparr>
         else if cnd_Type condition = ''Path''
           then resCondition\<lparr>cnd_Path := transSDKPathConfigToUpdateRules (cnd_Path condition)\<rparr>
         else if cnd_Type condition = ''QueryString''
           then resCondition\<lparr>cnd_QueryString := transSDKQueryStringConfigToUpdateRules (cnd_QueryString condition)\<rparr>
         else if cnd_Type condition = ''Cookie''
           then resCondition\<lparr>cnd_Cookie := transSDKCookieConfigToUpdateRules (cnd_Cookie condition)\<rparr>
         else if cnd_Type condition = ''SourceIp''
           then resCondition\<lparr>cnd_SourceIp := transSDKSourceIpConfigToUpdateRules (cnd_SourceIp condition)\<rparr>
         else if cnd_Type condition = ''ResponseHeader''
           then resCondition\<lparr>cnd_ResponseHeader := transSDKResponseHeaderConfigToUpdateRules (cnd_ResponseHeader condition)\<rparr>
         else if cnd_Type condition = ''ResponseStatusCode''
           then resCondition\<lparr>cnd_ResponseStatusCode := transSDKResponseStatusCodeConfigToUpdateRules (cnd_ResponseStatusCode condition)\<rparr>
         else resCondition)"

definition transSDKConditionToCreateRule :: "alb_condition \<Rightarrow> alb_condition" where
  "transSDKConditionToCreateRule condition = 
     (let resCondition = zero_condition\<lparr>cnd_Type := cnd_Type condition\<rparr>
      in if cnd_Type condition = ''Host''
           then resCondition\<lparr>cnd_Host := transSDKHostConfigToCreateRule (cnd_Host condition)\<rparr>
         else if cnd_Type condition = ''Header''
           then resCondition\<lparr>cnd_Header := transSDKHeaderConfigToCreateRule (cnd_Header condition)\<rparr>
         else if cnd_Type condition = ''Method''
           then resCondition\<lparr>cnd_Method := transSDKMethodConfigToCreateRule (cnd_Method condition)\<rparr>
         else if cnd_Type condition = ''Path''
           then resCondition\<lparr>cnd_Path := transSDKPathConfigToCreateRule (cnd_Path condition)\<rparr>
         else if cnd_Type condition = ''QueryString''
           then resCondition\<lparr>cnd_QueryString := transSDKQueryStringConfigToCreateRule (cnd_QueryString condition)\<rparr>
         else if cnd_Type condition = ''Cookie''
           then resCondition\<lparr>cnd_Cookie := transSDKCookieConfigToCreateRule (cnd_Cookie condition)\<rparr>
         else resCondition)"

definition transSDKConditionToUpdateRule :: "alb_condition \<Rightarrow> alb_condition" where
  "transSDKConditionToUpdateRule condition = 
     (let resCondition = zero_condition\<lparr>cnd_Type := cnd_Type condition\<rparr>
      in if cnd_Type condition = ''Host''
           then resCondition\<lparr>cnd_Host := transSDKHostConfigToUpdateRule (cnd_Host condition)\<rparr>
         else if cnd_Type condition = ''Header''
           then resCondition\<lparr>cnd_Header := transSDKHeaderConfigToUpdateRule (cnd_Header condition)\<rparr>
         else if cnd_Type condition = ''Method''
           then resCondition\<lparr>cnd_Method := transSDKMethodConfigToUpdateRule (cnd_Method condition)\<rparr>
         else if cnd_Type condition = ''Path''
           then resCondition\<lparr>cnd_Path := transSDKPathConfigToUpdateRule (cnd_Path condition)\<rparr>
         else if cnd_Type condition = ''QueryString''
           then resCondition\<lparr>cnd_QueryString := transSDKQueryStringConfigToUpdateRule (cnd_QueryString condition)\<rparr>
         else if cnd_Type condition = ''Cookie''
           then resCondition\<lparr>cnd_Cookie := transSDKCookieConfigToUpdateRule (cnd_Cookie condition)\<rparr>
         else resCondition)"

definition transSDKConditionsToCreateRules :: "alb_condition list \<Rightarrow> alb_condition list" where
  "transSDKConditionsToCreateRules conditions = map transSDKConditionToCreateRules conditions"

definition transSDKConditionsToUpdateRules :: "alb_condition list \<Rightarrow> alb_condition list" where
  "transSDKConditionsToUpdateRules conditions = map transSDKConditionToUpdateRules conditions"

definition transSDKConditionsToCreateRule :: "alb_condition list \<Rightarrow> alb_condition list" where
  "transSDKConditionsToCreateRule conditions = map transSDKConditionToCreateRule conditions"

definition transSDKConditionsToUpdateRule :: "alb_condition list \<Rightarrow> alb_condition list" where
  "transSDKConditionsToUpdateRule conditions = map transSDKConditionToUpdateRule conditions"

text \<open>A condition for the comparison: a header is given the values of the host, and the kinds about responses are missing.\<close>

definition transModelValuesToSDK :: "(string \<times> string) list \<Rightarrow> (string \<times> string) list" where
  "transModelValuesToSDK values = map (\<lambda>m. (fst m, snd m)) values"

definition transModelConditionToSDK :: "alb_condition \<Rightarrow> alb_condition" where
  "transModelConditionToSDK condition = 
     (let sdkObj = zero_condition\<lparr>cnd_Type := cnd_Type condition\<rparr>
      in if cnd_Type condition = ''Path'' then sdkObj\<lparr>cnd_Path := cnd_Path condition\<rparr>
         else if cnd_Type condition = ''Host'' then sdkObj\<lparr>cnd_Host := cnd_Host condition\<rparr>
         else if cnd_Type condition = ''Header'' then sdkObj\<lparr>cnd_Header := (fst (cnd_Header condition), cnd_Host condition)\<rparr>
         else if cnd_Type condition = ''QueryString'' then sdkObj\<lparr>cnd_QueryString := transModelValuesToSDK (cnd_QueryString condition)\<rparr>
         else if cnd_Type condition = ''Method'' then sdkObj\<lparr>cnd_Method := cnd_Method condition\<rparr>
         else if cnd_Type condition = ''Cookie'' then sdkObj\<lparr>cnd_Cookie := transModelValuesToSDK (cnd_Cookie condition)\<rparr>
         else if cnd_Type condition = ''SourceIp'' then sdkObj\<lparr>cnd_SourceIp := cnd_SourceIp condition\<rparr>
         else sdkObj)"

definition transModelConditionsToSDk :: "alb_condition list \<Rightarrow> alb_condition list" where
  "transModelConditionsToSDk conditions = map transModelConditionToSDK conditions"

subsection \<open>Comparison\<close>

type_synonym provider_rule = "lr_spec alb_rule"

record rule_update_analyzer =
  ra_ruleNameNeedUpdate :: bool
  ra_ruleActionsNeedUpdate :: bool
  ra_ruleConditionsNeedUpdate :: bool
  ra_priorityNeedUpdate :: bool

definition rule_isNeedUpdate :: "rule_update_analyzer \<Rightarrow> bool" where
  "rule_isNeedUpdate r \<longleftrightarrow>
     \<not> (\<not> ra_ruleNameNeedUpdate r \<and> \<not> ra_ruleActionsNeedUpdate r \<and> \<not> ra_ruleConditionsNeedUpdate r \<and> \<not> ra_priorityNeedUpdate r)"

definition analysis :: "(id_token \<Rightarrow> string res) \<Rightarrow> provider_rule \<Rightarrow> sdk_rule_info \<Rightarrow> rule_update_analyzer res" where
  "analysis R resLR sdkLR =
     bind_res (transModelActionsToSDK R (lrs_RuleActions (alr_Spec resLR))) (\<lambda>resActions.
     Inr \<lparr>ra_ruleNameNeedUpdate = (lrs_RuleName (alr_Spec resLR) \<noteq> kr_RuleName sdkLR),
          ra_ruleActionsNeedUpdate = (resActions \<noteq> kr_RuleActions sdkLR),
          ra_ruleConditionsNeedUpdate =
            (transModelConditionsToSDk (lrs_RuleConditions (alr_Spec resLR)) \<noteq> kr_RuleConditions sdkLR),
          ra_priorityNeedUpdate = (alr_Priority resLR \<noteq> kr_Priority sdkLR)\<rparr>)"

definition isVipStatusNotSupportError :: "go_error \<Rightarrow> bool" where
  "isVipStatusNotSupportError err \<longleftrightarrow> Contains (err_text err) ''IncorrectStatus.Listener'' \<or>
     Contains (err_text err) ''VipStatusNotSupport'' \<or> Contains (err_text err) ''IncorrectStatus.Rule''"

subsection \<open>Single rules\<close>

definition buildSDKCreateListenerRuleRequest :: "(id_token \<Rightarrow> string res) \<Rightarrow> provider_rule \<Rightarrow> (string \<times> rule_request) res" where
  "buildSDKCreateListenerRuleRequest R lr =
     bind_res (R (alr_ListenerID lr)) (\<lambda>lsID.
     bind_res (transModelActionsToSDKCreateRule R (lrs_RuleActions (alr_Spec lr))) (\<lambda>actions.
     Inr (lsID, \<lparr>rq_RuleId = [], rq_RuleName = lrs_RuleName (alr_Spec lr), rq_Priority = Itoa (alr_Priority lr), rq_Direction = [],
       rq_RuleActions = actions, rq_RuleConditions = transSDKConditionsToCreateRule (lrs_RuleConditions (alr_Spec lr))\<rparr>)))"

definition CreateALBListenerRule :: "'w albsdk \<Rightarrow> (id_token \<Rightarrow> string res) \<Rightarrow> provider_rule \<Rightarrow> ('w, string) pv_prog" where
  "CreateALBListenerRule K R resLR =
     bindP (liftP (buildSDKCreateListenerRuleRequest R resLR)) (\<lambda>(lsID, createRuleReq).
     wrapP ''failed to create listener rule: ''
       (RetryImmediateOnError (k_polls K) isVipStatusNotSupportError
          (invoke (KCreateRule lsID createRuleReq) (k_CreateRule K lsID createRuleReq))))"

definition rule_update_request ::
  "(alb_action list \<Rightarrow> action_request list res) \<Rightarrow> (alb_condition list \<Rightarrow> alb_condition list) \<Rightarrow>
   provider_rule \<Rightarrow> sdk_rule_info \<Rightarrow> rule_update_analyzer \<Rightarrow> rule_request res" where
  "rule_update_request actionsTo conditionsTo resLR sdkLR judger =
     bind_res (if ra_ruleActionsNeedUpdate judger then actionsTo (lrs_RuleActions (alr_Spec resLR)) else Inr []) (\<lambda>actions.
     Inr \<lparr>rq_RuleId = kr_RuleId sdkLR,
          rq_RuleName = (if ra_ruleNameNeedUpdate judger then lrs_RuleName (alr_Spec resLR) else []),
          rq_Priority = (if ra_priorityNeedUpdate judger then Itoa (alr_Priority resLR) else []), rq_Direction = [],
          rq_RuleActions = actions,
          rq_RuleConditions =
            (if ra_ruleConditionsNeedUpdate judger then conditionsTo (lrs_RuleConditions (alr_Spec resLR)) else [])\<rparr>)"

definition updateALBRuleAttribute ::
  "'w albsdk \<Rightarrow> (id_token \<Rightarrow> string res) \<Rightarrow> provider_rule \<Rightarrow> sdk_rule_info \<Rightarrow> rule_update_analyzer \<Rightarrow> ('w, unit) pv_prog" where
  "updateALBRuleAttribute K R resLR sdkLR judger =
     bindP (liftP (rule_update_request (transModelActionsToSDKUpdateRule R) transSDKConditionsToUpdateRule resLR sdkLR judger)) (\<lambda>ruleReq.
     wrapP ''failed to update listener rule: ''
       (RetryImmediateOnError (k_polls K) isVipStatusNotSupportError
          (invoke (KUpdateRuleAttribute ruleReq) (k_UpdateRuleAttribute K ruleReq))))"

definition UpdateALBListenerRule ::
  "'w albsdk \<Rightarrow> (id_token \<Rightarrow> string res) \<Rightarrow> provider_rule \<Rightarrow> sdk_rule_info \<Rightarrow> ('w, string) pv_prog" where
  "UpdateALBListenerRule K R resLR sdkLR =
     bindP (liftP (analysis R resLR sdkLR)) (\<lambda>updateAnalyzer.
     if \<not> rule_isNeedUpdate updateAnalyzer then returnP (kr_RuleId sdkLR)
     else bindP (updateALBRuleAttribute K R resLR sdkLR updateAnalyzer) (\<lambda>_. returnP (kr_RuleId sdkLR)))"

definition DeleteALBListenerRule :: "'w albsdk \<Rightarrow> string \<Rightarrow> ('w, unit) pv_prog" where
  "DeleteALBListenerRule K sdkLRId =
     wrapP ''failed to delete listener rule: ''
       (RetryImmediateOnError (k_polls K) isVipStatusNotSupportError (invoke (KDeleteRule sdkLRId) (k_DeleteRule K sdkLRId)))"

definition ListALBListenerRules :: "'w albsdk \<Rightarrow> string \<Rightarrow> ('w, sdk_rule_info list) pv_prog" where
  "ListALBListenerRules K lsID =
     (if length lsID = 0 then throwP (Errorf ''invalid listener id:  for listing rules'')
      else pagesP (k_pages K) (\<lambda>token. invoke (KListRules lsID token) (k_ListRules K lsID token)) [])"

subsection \<open>Batches\<close>

definition BatchCreateDeleteUpdateRulesMaxNum :: int where "BatchCreateDeleteUpdateRulesMaxNum = 10"
definition BatchCreateRulesDefaultNum :: int where "BatchCreateRulesDefaultNum = 9"
definition BatchDeleteRulesDefaultNum :: int where "BatchDeleteRulesDefaultNum = 9"
definition BatchUpdateRulesDefaultNum :: int where "BatchUpdateRulesDefaultNum = 9"

definition createRulesFunc :: "'w albsdk \<Rightarrow> string \<Rightarrow> rule_request list \<Rightarrow> ('w, (int \<times> string) list) pv_prog" where
  "createRulesFunc K lsID rules =
     (if length rules = 0 then returnP []
      else wrapP ''failed to create listener rules: ''
             (RetryImmediateOnError (k_polls K) isVipStatusNotSupportError
                (invoke (KCreateRules lsID rules) (k_CreateRules K lsID rules))))"

function create_rules_loop ::
  "nat \<Rightarrow> (rule_request list \<Rightarrow> ('s, 'a list) prog) \<Rightarrow> 'a list \<Rightarrow> rule_request list \<Rightarrow> ('s, 'a list) prog" where
  "create_rules_loop cnt batch resRules rules =
     (if 0 < cnt \<and> cnt < length rules
      then bindP (batch (take cnt rules)) (\<lambda>resp. create_rules_loop cnt batch (resRules @ resp) (drop cnt rules))
      else if length rules \<le> 0 then returnP resRules
      else bindP (batch rules) (\<lambda>resp. returnP (resRules @ resp)))"
  by pat_completeness auto
termination create_rules_loop
  by (relation "measure (\<lambda>(cnt, batch, resRules, rules). length rules)") auto

declare create_rules_loop.simps [simp del]

definition BatchCreateRules ::
  "rule_request list \<Rightarrow> int \<Rightarrow> (rule_request list \<Rightarrow> ('s, (int \<times> string) list) prog) \<Rightarrow> ('s, (int \<times> string) list) prog" where
  "BatchCreateRules rules cnt batch =
     (let cnt = (if cnt \<le> 0 \<or> cnt \<ge> BatchCreateDeleteUpdateRulesMaxNum then BatchCreateRulesDefaultNum else cnt)
      in create_rules_loop (nat cnt) batch [] rules)"

definition transModelRulesToSDKCreateRules :: "(id_token \<Rightarrow> string res) \<Rightarrow> provider_rule list \<Rightarrow> rule_request list res" where
  "transModelRulesToSDKCreateRules R resLRs =
     map_res (\<lambda>lr. bind_res (transModelActionsToSDKCreateRules R (lrs_RuleActions (alr_Spec lr))) (\<lambda>actions.
       Inr \<lparr>rq_RuleId = [], rq_RuleName = lrs_RuleName (alr_Spec lr), rq_Priority = Itoa (alr_Priority lr),
            rq_Direction = alr_RuleDirection lr, rq_RuleActions = actions,
            rq_RuleConditions = transSDKConditionsToCreateRules (lrs_RuleConditions (alr_Spec lr))\<rparr>)) resLRs"

definition CreateALBListenerRules ::
  "'w albsdk \<Rightarrow> (id_token \<Rightarrow> string res) \<Rightarrow> provider_rule list \<Rightarrow> ('w, (int \<times> string) list) pv_prog" where
  "CreateALBListenerRules K R resLRs =
     (case resLRs of
        [] \<Rightarrow> returnP []
      | first # _ \<Rightarrow>
          bindP (liftP (R (alr_ListenerID first))) (\<lambda>lsID.
          bindP (liftP (transModelRulesToSDKCreateRules R resLRs)) (\<lambda>rules.
          bindP (BatchCreateRules rules BatchCreateRulesDefaultNum (createRulesFunc K lsID)) (\<lambda>createdRules.
          returnP (fold (\<lambda>(priority, ruleId) m. map_set priority ruleId m) createdRules [])))))"

definition updateRulesFunc :: "'w albsdk \<Rightarrow> rule_request list \<Rightarrow> ('w, unit) pv_prog" where
  "updateRulesFunc K rules =
     (if length rules = 0 then returnP ()
      else wrapP ''failed to update listener rules: ''
             (RetryImmediateOnError (k_polls K) isVipStatusNotSupportError
                (invoke (KUpdateRulesAttribute rules) (k_UpdateRulesAttribute K rules))))"

text \<open>The updates are sent from the end of the list, with a wait for the listener after each batch but the last.\<close>

function update_rules_loop ::
  "nat \<Rightarrow> (rule_request list \<Rightarrow> ('s, unit) prog) \<Rightarrow> ('s, unit) prog \<Rightarrow> rule_request list \<Rightarrow> ('s, unit) prog" where
  "update_rules_loop cnt batch await rules =
     (if 0 < cnt \<and> cnt < length rules
      then bindP (batch (drop (length rules - cnt) rules)) (\<lambda>_.
           bindP await (\<lambda>_. update_rules_loop cnt batch await (take (length rules - cnt) rules)))
      else if length rules \<le> 0 then returnP ()
      else batch rules)"
  by pat_completeness auto
termination update_rules_loop
  by (relation "measure (\<lambda>(cnt, batch, await, rules). length rules)") auto

declare update_rules_loop.simps [simp del]

definition BatchUpdateRules ::
  "'w albsdk \<Rightarrow> rule_request list \<Rightarrow> int \<Rightarrow> (rule_request list \<Rightarrow> ('w, unit) pv_prog) \<Rightarrow> string \<Rightarrow> ('w, unit) pv_prog" where
  "BatchUpdateRules K rules cnt batch lsID =
     (let cnt = (if cnt \<le> 0 \<or> cnt \<ge> BatchCreateDeleteUpdateRulesMaxNum then BatchUpdateRulesDefaultNum else cnt)
      in update_rules_loop (nat cnt) batch (waitListenerStatus K lsID) rules)"

definition transRulePairsToSDKUpdateRules ::
  "(id_token \<Rightarrow> string res) \<Rightarrow> (provider_rule \<times> sdk_rule_info) list \<Rightarrow> rule_request list res" where
  "transRulePairsToSDKUpdateRules R rulePairs =
     mapopt_res (\<lambda>(resLR, sdkLR).
       bind_res (analysis R resLR sdkLR) (\<lambda>updateAnalyzer.
       if \<not> rule_isNeedUpdate updateAnalyzer then Inr None
       else bind_res (rule_update_request (transModelActionsToSDKUpdateRules R) transSDKConditionsToUpdateRules
                        resLR sdkLR updateAnalyzer) (\<lambda>rule. Inr (Some rule)))) rulePairs"

definition UpdateALBListenerRules ::
  "'w albsdk \<Rightarrow> (id_token \<Rightarrow> string res) \<Rightarrow> (provider_rule \<times> sdk_rule_info) list \<Rightarrow> ('w, unit) pv_prog" where
  "UpdateALBListenerRules K R rulePairs =
     (case rulePairs of
        [] \<Rightarrow> returnP ()
      | (first, _) # _ \<Rightarrow>
          bindP (liftP (transRulePairsToSDKUpdateRules R rulePairs)) (\<lambda>updateRules.
          if length updateRules = 0 then returnP ()
          else bindP (liftP (R (alr_ListenerID first))) (\<lambda>lsID.
               BatchUpdateRules K updateRules BatchUpdateRulesDefaultNum (updateRulesFunc K) lsID)))"

definition deleteRulesFunc :: "'w albsdk \<Rightarrow> string list \<Rightarrow> ('w, unit) pv_prog" where
  "deleteRulesFunc K ruleIDs =
     (if length ruleIDs = 0 then returnP ()
      else wrapP ''failed to delete listener rules: ''
             (RetryImmediateOnError (k_polls K) isVipStatusNotSupportError
                (invoke (KDeleteRules ruleIDs) (k_DeleteRules K ruleIDs))))"

definition BatchDeleteRules :: "string list \<Rightarrow> int \<Rightarrow> (string list \<Rightarrow> ('s, unit) prog) \<Rightarrow> ('s, unit) prog" where
  "BatchDeleteRules ruleIDs cnt batch =
     (let cnt = (if cnt \<le> 0 \<or> cnt \<ge> BatchCreateDeleteUpdateRulesMaxNum then BatchDeleteRulesDefaultNum else cnt)
      in Batch_loop (nat cnt) batch ruleIDs)"

definition DeleteALBListenerRules :: "'w albsdk \<Rightarrow> string list \<Rightarrow> ('w, unit) pv_prog" where
  "DeleteALBListenerRules K sdkLRIds =
     (if length sdkLRIds = 0 then returnP ()
      else BatchDeleteRules sdkLRIds BatchDeleteRulesDefaultNum (deleteRulesFunc K))"

subsection \<open>Conversions compared\<close>

lemmas action_conversions =
  transModelActionToSDKCreateRules_def transModelActionToSDKUpdateRules_def transModelActionToSDKCreateRule_def
  transModelActionToSDKUpdateRule_def transSDKFixedResponseConfigToCreateRules_def transSDKFixedResponseConfigToUpdateRules_def
  transSDKFixedResponseConfigToCreateRule_def transSDKFixedResponseConfigToUpdateRule_def
  transSDKRedirectConfigToCreateRules_def transSDKRedirectConfigToUpdateRules_def transSDKRedirectConfigToCreateRule_def
  transSDKRedirectConfigToUpdateRule_def transModelForwardActionConfigToSDKCreateRules_def
  transModelForwardActionConfigToSDKUpdateRules_def transModelForwardActionConfigToSDKCreateRule_def
  transModelForwardActionConfigToSDKUpdateRule_def transModelServerGroupTuplesToSDKCreateRules_def
  transModelServerGroupTuplesToSDKUpdateRules_def transModelServerGroupTuplesToSDKCreateRule_def
  transModelServerGroupTuplesToSDKUpdateRule_def transSDKRerwriteConfigToCreateRules_def transSDKRerwriteConfigToUpdateRules_def
  transSDKInsertHeaderConfigToCreateRules_def transSDKInsertHeaderConfigToUpdateRules_def
  transSDKRemoveHeaderConfigToCreateRules_def transSDKRemoveHeaderConfigToUpdateRules_def
  transSDKTrafficLimitConfigToCreateRules_def transSDKTrafficLimitConfigToUpdateRules_def transSDKCorsConfigToCreateRules_def
  transSDKCorsConfigToUpdateRules_def transSDKTrafficMirrorConfigToCreateRules_def transSDKTrafficMirrorConfigToUpdateRules_def
  transSDKTrafficMirrorConfigToCreateRule_def transSDKTrafficMirrorConfigToUpdateRule_def
  transSDKTrafficMirrorConfigMirrorGroupConfigToCreateRules_def transSDKTrafficMirrorConfigMirrorGroupConfigToUpdateRules_def
  transSDKTrafficMirrorConfigMirrorGroupConfigToCreateRule_def transSDKTrafficMirrorConfigMirrorGroupConfigToUpdateRule_def
  transSDKTrafficMirrorConfigMirrorGroupConfigServerGroupTuplesItemToCreateRules_def
  transSDKTrafficMirrorConfigMirrorGroupConfigServerGroupTuplesItemToUpdateRules_def
  transSDKTrafficMirrorConfigMirrorGroupConfigServerGroupTuplesItemToCreateRule_def
  transSDKTrafficMirrorConfigMirrorGroupConfigServerGroupTuplesItemToUpdateRule_def

lemmas condition_conversions =
  transSDKConditionToCreateRules_def transSDKConditionToUpdateRules_def transSDKConditionToCreateRule_def transSDKConditionToUpdateRule_def
  transSDKHostConfigToCreateRules_def transSDKHostConfigToUpdateRules_def transSDKHostConfigToCreateRule_def transSDKHostConfigToUpdateRule_def
  transSDKMethodConfigToCreateRules_def transSDKMethodConfigToUpdateRules_def transSDKMethodConfigToCreateRule_def
  transSDKMethodConfigToUpdateRule_def transSDKPathConfigToCreateRules_def transSDKPathConfigToUpdateRules_def
  transSDKPathConfigToCreateRule_def transSDKPathConfigToUpdateRule_def transSDKHeaderConfigToCreateRules_def
  transSDKHeaderConfigToUpdateRules_def transSDKHeaderConfigToCreateRule_def transSDKHeaderConfigToUpdateRule_def
  transSDKSourceIpConfigToCreateRules_def transSDKSourceIpConfigToUpdateRules_def transSDKResponseStatusCodeConfigToCreateRules_def
  transSDKResponseStatusCodeConfigToUpdateRules_def transSDKResponseHeaderConfigToCreateRules_def
  transSDKResponseHeaderConfigToUpdateRules_def transSDKQueryStringConfigToCreateRules_def transSDKQueryStringConfigToUpdateRules_def
  transSDKQueryStringConfigToCreateRule_def transSDKQueryStringConfigToUpdateRule_def transSDKCookieConfigToCreateRules_def
  transSDKCookieConfigToUpdateRules_def transSDKCookieConfigToCreateRule_def transSDKCookieConfigToUpdateRule_def
  transSDKQueryStringConfigValuesToCreateRules_def transSDKQueryStringConfigValuesToUpdateRules_def
  transSDKQueryStringConfigValuesToCreateRule_def transSDKQueryStringConfigValuesToUpdateRule_def
  transSDKCookieConfigValuesToCreateRules_def transSDKCookieConfigValuesToUpdateRules_def transSDKCookieConfigValuesToCreateRule_def
  transSDKCookieConfigValuesToUpdateRule_def transSDKQueryStringConfigValueToCreateRules_def [abs_def]
  transSDKQueryStringConfigValueToUpdateRules_def [abs_def] transSDKQueryStringConfigValueToCreateRule_def [abs_def]
  transSDKQueryStringConfigValueToUpdateRule_def [abs_def] transSDKCookieConfigValueToCreateRules_def [abs_def]
  transSDKCookieConfigValueToUpdateRules_def [abs_def] transSDKCookieConfigValueToCreateRule_def [abs_def] transSDKCookieConfigValueToUpdateRule_def [abs_def]

text \<open>The actions and conditions whose settings the requests for a single rule keep.\<close>

definition single_action :: "alb_action \<Rightarrow> bool" where
  "single_action a \<longleftrightarrow>
     act_Type a \<notin> {''Rewrite'', ''InsertHeader'', ''RemoveHeader'', ''TrafficLimit'', ''Cors''}"

definition single_condition :: "alb_condition \<Rightarrow> bool" where
  "single_condition c \<longleftrightarrow> cnd_Type c \<notin> {''SourceIp'', ''ResponseHeader'', ''ResponseStatusCode''}"

lemma action_create_update: "transModelActionToSDKCreateRules = transModelActionToSDKUpdateRules"
  by (intro ext) (simp only: action_conversions)

lemma action_single:
  assumes "single_action a"
  shows "transModelActionToSDKCreateRule R i a = transModelActionToSDKCreateRules R i a"
    and "transModelActionToSDKUpdateRule R i a = transModelActionToSDKUpdateRules R i a"
proof -
  have "act_Type a \<noteq> ''Rewrite''" "act_Type a \<noteq> ''InsertHeader''" "act_Type a \<noteq> ''RemoveHeader''"
    "act_Type a \<noteq> ''TrafficLimit''" "act_Type a \<noteq> ''Cors''" using assms by (simp_all add: single_action_def)
  then show "transModelActionToSDKCreateRule R i a = transModelActionToSDKCreateRules R i a"
    and "transModelActionToSDKUpdateRule R i a = transModelActionToSDKUpdateRules R i a"
    by (simp_all only: action_conversions if_False)
qed

lemma condition_create_update: "transSDKConditionToCreateRules = transSDKConditionToUpdateRules"
  by (intro ext) (simp only: condition_conversions)

lemma condition_single:
  assumes "single_condition c"
  shows "transSDKConditionToCreateRule c = transSDKConditionToCreateRules c"
    and "transSDKConditionToUpdateRule c = transSDKConditionToUpdateRules c"
proof -
  have "cnd_Type c \<noteq> ''SourceIp''" "cnd_Type c \<noteq> ''ResponseHeader''" "cnd_Type c \<noteq> ''ResponseStatusCode''"
    using assms by (simp_all add: single_condition_def)
  then show "transSDKConditionToCreateRule c = transSDKConditionToCreateRules c"
    and "transSDKConditionToUpdateRule c = transSDKConditionToUpdateRules c"
    by (simp_all only: condition_conversions if_False)
qed

lemma map_res_cong: "(\<And>x. x \<in> set xs \<Longrightarrow> f x = g x) \<Longrightarrow> map_res f xs = map_res g xs"
  by (induction xs) (auto split: sum.splits)



subsection \<open>The comparison after an update\<close>

text \<open>A condition that the comparison does not recognise although the cloud has it as it was sent.\<close>

definition misread_condition :: "alb_condition \<Rightarrow> bool" where
  "misread_condition c \<longleftrightarrow>
     cnd_Type c = ''Header'' \<and> snd (cnd_Header c) \<noteq> cnd_Host c \<or>
     cnd_Type c = ''ResponseHeader'' \<and> cnd_ResponseHeader c \<noteq> ([], []) \<or>
     cnd_Type c = ''ResponseStatusCode'' \<and> cnd_ResponseStatusCode c \<noteq> []"

lemma condition_misread: "transModelConditionToSDK c = transSDKConditionToUpdateRules c \<longleftrightarrow> \<not> misread_condition c"
proof -
  have kinds: "cnd_Type c = ''Path'' \<or> cnd_Type c = ''Host'' \<or> cnd_Type c = ''Header'' \<or> cnd_Type c = ''QueryString'' \<or>
      cnd_Type c = ''Method'' \<or> cnd_Type c = ''Cookie'' \<or> cnd_Type c = ''SourceIp'' \<or> cnd_Type c = ''ResponseHeader'' \<or>
      cnd_Type c = ''ResponseStatusCode'' \<or>
      cnd_Type c \<notin> {''Path'', ''Host'', ''Header'', ''QueryString'', ''Method'', ''Cookie'', ''SourceIp'', ''ResponseHeader'', ''ResponseStatusCode''}"
    by blast
  show ?thesis
    unfolding transModelConditionToSDK_def condition_conversions misread_condition_def Let_def transModelValuesToSDK_def
    using kinds by (elim disjE) (simp_all add: zero_condition_def prod_eq_iff eq_commute [of "cnd_Host c"] eq_commute [of _ "[]"])
qed

text \<open>
  (C40) If the cloud reports the conditions of a rule exactly as the update sent them, the next
  comparison asks for another update of the conditions if and only if the rule has a header
  condition, whose values are compared with those of the host, or a condition on the
  response, which the comparison leaves empty: such rules are updated in every round.
\<close>

theorem conditions_settle_unless_misread:
  assumes "kr_RuleConditions sdkLR = transSDKConditionsToUpdateRules (lrs_RuleConditions (alr_Spec resLR))"
    and "analysis R resLR sdkLR = Inr a"
  shows "ra_ruleConditionsNeedUpdate a \<longleftrightarrow> (\<exists>c \<in> set (lrs_RuleConditions (alr_Spec resLR)). misread_condition c)"
  using assms
  by (auto simp: analysis_def bind_res_Inr_iff transModelConditionsToSDk_def transSDKConditionsToUpdateRules_def condition_misread)

definition demo_rule :: "alb_condition list \<Rightarrow> provider_rule" where
  "demo_rule cs = \<lparr>alr_ID = ''r1'', alr_ListenerID = LiteralToken ''lsn-1'', alr_Priority = 1, alr_RuleDirection = ''Request'',
     alr_Spec = \<lparr>lrs_RuleName = ''web'', lrs_RuleActions = [], lrs_RuleConditions = cs\<rparr>, alr_Status = None\<rparr>"

definition demo_rule_info :: "alb_condition list \<Rightarrow> sdk_rule_info" where
  "demo_rule_info cs = \<lparr>kr_RuleId = ''rule-1'', kr_RuleName = ''web'', kr_Priority = 1, kr_RuleActions = [],
     kr_RuleConditions = transSDKConditionsToUpdateRules cs\<rparr>"

theorem conditions_settle_unless_misread_witness:
  "\<exists>a. analysis demo_resolve (demo_rule [zero_condition\<lparr>cnd_Type := ''Header'', cnd_Header := (''k'', [''v''])\<rparr>])
        (demo_rule_info [zero_condition\<lparr>cnd_Type := ''Header'', cnd_Header := (''k'', [''v''])\<rparr>]) = Inr a \<and> ra_ruleConditionsNeedUpdate a"
proof -
  let ?cs = "[zero_condition\<lparr>cnd_Type := ''Header'', cnd_Header := (''k'', [''v''])\<rparr>]"
  obtain a where a: "analysis demo_resolve (demo_rule ?cs) (demo_rule_info ?cs) = Inr a"
    by (simp add: analysis_def transModelActionsToSDK_def demo_rule_def)
  have "kr_RuleConditions (demo_rule_info ?cs) = transSDKConditionsToUpdateRules (lrs_RuleConditions (alr_Spec (demo_rule ?cs)))"
    by (simp add: demo_rule_info_def demo_rule_def)
  from conditions_settle_unless_misread [OF this a] have "ra_ruleConditionsNeedUpdate a"
    by (simp add: demo_rule_def misread_condition_def zero_condition_def)
  with a show ?thesis by blast
qed

subsection \<open>Batches of updates\<close>

text \<open>The pieces of a list, cut from its end.\<close>

definition tail_chunks :: "nat \<Rightarrow> 'a list \<Rightarrow> 'a list list" where
  "tail_chunks n xs = map rev (chunks n (rev xs))"

lemma concat_tail_chunks: "concat (rev (tail_chunks n xs)) = xs"
proof -
  have "concat (rev (map rev yss)) = rev (concat yss)" for yss :: "'a list list" by (induction yss) auto
  then show ?thesis by (simp add: tail_chunks_def)
qed

lemma tail_chunks_bounds: "0 < n \<Longrightarrow> c \<in> set (tail_chunks n xs) \<Longrightarrow> 0 < length c \<and> length c \<le> n"
  using chunks_bounds [of n _ "rev xs"] by (auto simp: tail_chunks_def)

lemma tail_chunks_Cons:
  assumes "0 < n" "n < length xs"
  shows "tail_chunks n xs = drop (length xs - n) xs # tail_chunks n (take (length xs - n) xs)"
proof -
  have "xs \<noteq> []" using assms by auto
  with assms(1) show ?thesis
    unfolding tail_chunks_def chunks.simps [of n "rev xs"] by (simp add: take_rev drop_rev)
qed

lemma sends_bind_lift: "(\<And>x. sends P n (f x) cs) \<Longrightarrow> sends P n (bindP (liftP r) f) cs"
  using sends_bind [OF sends_only, of P "liftP r" n f cs] by (simp add: emits_lift)

lemma sends_update_loop:
  assumes "0 < cnt" and batch: "\<And>c. c \<noteq> [] \<Longrightarrow> sends P n (batch c) [w c]"
    and await: "only_calls (\<lambda>c. \<not> P c) await"
  shows "sends P n (update_rules_loop cnt batch await rules) (map w (tail_chunks cnt rules))"
proof (induction "length rules" arbitrary: rules rule: less_induct)
  case less
  have step: "sends P n (bindP (batch c) (\<lambda>_. bindP await (\<lambda>_. m))) (w c # ds)" if "c \<noteq> []" "sends P n m ds" for c m ds
    using sends_bind [OF batch [OF that(1)] sends_bind [OF sends_only [OF await] that(2)]] by simp
  show ?case
  proof (cases "cnt < length rules")
    case True
    have "sends P n (update_rules_loop cnt batch await (take (length rules - cnt) rules))
        (map w (tail_chunks cnt (take (length rules - cnt) rules)))"
      using True assms(1) by (intro less) auto
    with True assms(1) show ?thesis
      unfolding tail_chunks_Cons [OF assms(1) True] update_rules_loop.simps [of cnt batch await rules]
      by (auto intro!: step)
  next
    case False
    with assms(1) batch [of rules] show ?thesis
      by (cases "rules = []")
        (auto simp: update_rules_loop.simps [of cnt batch await rules] tail_chunks_def chunks.simps [of cnt "rev rules"]
          update_rules_loop.simps [of cnt batch await "[]"] chunks.simps [of cnt "[]"] sends_return)
  qed
qed

definition is_rules_update :: "sdk_call \<Rightarrow> bool" where
  "is_rules_update c = (case c of KUpdateRulesAttribute _ \<Rightarrow> True | _ \<Rightarrow> False)"

lemma wait_no_rules_update: "only_calls (\<lambda>c. \<not> is_rules_update c) (waitListenerStatus K lsID)"
  unfolding waitListenerStatus_def getALBListenerAttributeFunc_def
  by (auto intro!: emits_intros simp: is_rules_update_def)

lemma sends_updateRules: "rules \<noteq> [] \<Longrightarrow> sends is_rules_update (k_polls K) (updateRulesFunc K rules) [KUpdateRulesAttribute rules]"
  by (auto simp: updateRulesFunc_def is_rules_update_def intro!: sends_wrap sends_retry)

text \<open>
  (C7) Updating rules sends every rule of the request list once: the batches, of one to nine
  rules each, make up the list when read from the last one sent to the first.  A batch is
  sent again only while the cloud answers that the listener is busy, at most as often as the
  wait allows.  A run that fails has sent an initial part of the batches.
\<close>

theorem rule_updates_sent:
  assumes "transRulePairsToSDKUpdateRules R rulePairs = Inr rules"
    and "UpdateALBListenerRules K R rulePairs s = (r, t)"
  shows "\<exists>pieces cs es. concat (rev pieces) = rules \<and> (\<forall>p \<in> set pieces. 1 \<le> length p \<and> length p \<le> 9) \<and>
     fx_calls t = fx_calls s @ cs \<and> resent (k_polls K) es (filter is_rules_update cs) \<and>
     prefix es (map KUpdateRulesAttribute pieces) \<and> (r = Inr () \<longrightarrow> es = map KUpdateRulesAttribute pieces)"
proof -
  let ?p = "tail_chunks 9 rules"
  have "sends is_rules_update (k_polls K) (BatchUpdateRules K rules BatchUpdateRulesDefaultNum (updateRulesFunc K) lsID)
      (map KUpdateRulesAttribute ?p)" for lsID
    by (simp add: BatchUpdateRules_def BatchUpdateRulesDefaultNum_def BatchCreateDeleteUpdateRulesMaxNum_def
        sends_update_loop sends_updateRules wait_no_rules_update)
  then have "sends is_rules_update (k_polls K) (bindP (liftP (R tok)) (BatchUpdateRules K rules BatchUpdateRulesDefaultNum (updateRulesFunc K)))
      (map KUpdateRulesAttribute ?p)" for tok
    by (intro sends_bind_lift)
  moreover have "rulePairs = [] \<Longrightarrow> rules = []" using assms(1) by (auto simp: transRulePairsToSDKUpdateRules_def)
  moreover have "tail_chunks 9 [] = ([] :: rule_request list list)" by (simp add: tail_chunks_def chunks.simps [of 9 "[]"])
  ultimately have "sends is_rules_update (k_polls K) (UpdateALBListenerRules K R rulePairs) (map KUpdateRulesAttribute ?p)"
    using assms(1) by (auto simp: UpdateALBListenerRules_def sends_return split: list.splits)
  from sendsD [OF this assms(2)] obtain cs es where "fx_calls t = fx_calls s @ cs" "resent (k_polls K) es (filter is_rules_update cs)"
    "prefix es (map KUpdateRulesAttribute ?p)" "\<And>x. r = Inr x \<Longrightarrow> es = map KUpdateRulesAttribute ?p" by metis
  with tail_chunks_bounds [of 9 _ rules] concat_tail_chunks [of 9 rules] show ?thesis
    by (intro exI [of _ ?p] exI [of _ cs] exI [of _ es]) (auto simp: Suc_le_eq)
qed

definition demo_pairs :: "(provider_rule \<times> sdk_rule_info) list" where
  "demo_pairs = replicate 10 (demo_rule [], (demo_rule_info [])\<lparr>kr_RuleName := ''old''\<rparr>)"

definition demo_update :: rule_request where
  "demo_update = \<lparr>rq_RuleId = ''rule-1'', rq_RuleName = ''web'', rq_Priority = [], rq_Direction = [],
     rq_RuleActions = [], rq_RuleConditions = []\<rparr>"

theorem rule_updates_sent_witness:
  "\<exists>pieces. concat (rev pieces) = replicate 10 demo_update \<and> (\<forall>p \<in> set pieces. 1 \<le> length p \<and> length p \<le> 9) \<and>
     resent 3 (map KUpdateRulesAttribute pieces)
       (filter is_rules_update (fx_calls (snd (UpdateALBListenerRules (demo_sdk ''Succeeded'' False) demo_resolve demo_pairs demo_state))))"
proof -
  let ?K = "demo_sdk ''Succeeded'' False"
  let ?run = "UpdateALBListenerRules ?K demo_resolve demo_pairs demo_state"
  have rules: "transRulePairsToSDKUpdateRules demo_resolve demo_pairs = Inr (replicate 10 demo_update)" by code_simp
  have ok: "fst ?run = Inr ()" by code_simp
  from rule_updates_sent [OF rules prod.collapse [of ?run, symmetric]] show ?thesis by (simp add: ok)
qed

end
