(* ===== verification/Provider_Load_Balancers.thy ===== *)
theory Provider_Load_Balancers
  imports Provider_Server_Groups
begin

text \<open>
  Application load balancers in the cloud (\<open>provider/alibaba/alb/alb.go\<close>, and the listings by
  tag of \<open>tagging.go\<close>): creation with tags and roll-back, the update attribute by attribute,
  reuse of a load balancer that the user made, deletion.  The calls of the log service and of
  the metadata service are parameters like those of the load balancer service.
  \<open>ServiceManagedControl\<close> is called from nowhere and left out.
\<close>

type_synonym provider_lb = "lb_spec alb_lb"

definition CreateLoadBalancerWaitActiveMaxRetryTimes :: nat where "CreateLoadBalancerWaitActiveMaxRetryTimes = 10"
definition UpdateLoadBalancerAttributeWaitActiveMaxRetryTimes :: nat where "UpdateLoadBalancerAttributeWaitActiveMaxRetryTimes = 10"
definition LoadBalancerResourceType :: string where "LoadBalancerResourceType = ''LoadBalancer''"
definition DefaultLogDomainSuffix :: string where "DefaultLogDomainSuffix = ''-intranet.log.aliyuncs.com/open-api''"

subsection \<open>Validation and conversions\<close>

definition isAlbLoadBalancerActive :: "string \<Rightarrow> bool" where
  "isAlbLoadBalancerActive status \<longleftrightarrow> EqualFold status ''Active''"

definition isAlbLoadBalancerAddressTypeValid :: "string \<Rightarrow> bool" where
  "isAlbLoadBalancerAddressTypeValid addressType \<longleftrightarrow> EqualFold addressType ''Internet'' \<or> EqualFold addressType ''Intranet''"

definition isAlbLoadBalancerModificationProtectionStatusValid :: "string \<Rightarrow> bool" where
  "isAlbLoadBalancerModificationProtectionStatusValid status \<longleftrightarrow>
     EqualFold status ''NonProtection'' \<or> EqualFold status ''ConsoleProtection''"

definition isLoadBalancerAddressAllocatedModeValid :: "string \<Rightarrow> bool" where
  "isLoadBalancerAddressAllocatedModeValid mode \<longleftrightarrow> EqualFold mode ''Fixed'' \<or> EqualFold mode ''Dynamic''"

definition isAlbLoadBalancerAddressIpVersionValid :: "string \<Rightarrow> bool" where
  "isAlbLoadBalancerAddressIpVersionValid version \<longleftrightarrow> EqualFold version ''IPv4'' \<or> EqualFold version ''DualStack''"

definition isAlbLoadBalancerEditionValid :: "string \<Rightarrow> bool" where
  "isAlbLoadBalancerEditionValid edition \<longleftrightarrow>
     EqualFold edition ''Basic'' \<or> EqualFold edition ''Standard'' \<or> EqualFold edition ''StandardWithWaf''"

definition isAlbLoadBalancerLoadBalancerPayTypeValid :: "string \<Rightarrow> bool" where
  "isAlbLoadBalancerLoadBalancerPayTypeValid payType \<longleftrightarrow> EqualFold payType ''PostPay''"

definition isLogProjectNameValid :: "string \<Rightarrow> bool" where
  "isLogProjectNameValid logProject \<longleftrightarrow> \<not> (length logProject < 4 \<or> length logProject > 63)"

definition isLogStoreNameValid :: "string \<Rightarrow> bool" where
  "isLogStoreNameValid logStore \<longleftrightarrow> \<not> (length logStore < 2 \<or> length logStore > 64)"

definition transSDKModificationProtectionConfigToCreateLb :: "string \<times> string \<Rightarrow> string \<times> string" where
  "transSDKModificationProtectionConfigToCreateLb mpc = (fst mpc, snd mpc)"

definition transSDKModificationProtectionConfigToUpdateLb :: "string \<times> string \<Rightarrow> string \<times> string" where
  "transSDKModificationProtectionConfigToUpdateLb mpc = (fst mpc, snd mpc)"

definition transModificationProtectionConfigToSDK :: "string \<times> string \<Rightarrow> string \<times> string" where
  "transModificationProtectionConfigToSDK m = (fst m, snd m)"

definition transAccessLogConfigToSDK :: "string \<times> string \<Rightarrow> string \<times> string" where
  "transAccessLogConfigToSDK a = (fst a, snd a)"

definition transSDKLoadBalancerBillingConfigToCreateLb :: "billing_config \<Rightarrow> string \<times> string" where
  "transSDKLoadBalancerBillingConfigToCreateLb lbc = (bl_PayType lbc, bl_BandWidthPackageId lbc)"

definition transSDKZoneMappingsToCreateLb :: "alb_zone_mapping list \<Rightarrow> (string \<times> string) list" where
  "transSDKZoneMappingsToCreateLb zoneMappings = map (\<lambda>z. (zmp_VSwitchId z, zmp_ZoneId z)) zoneMappings"

definition transZoneMappingToUpdateLoadBalancerAddressTypeConfigZoneMappings :: "alb_zone_mapping list \<Rightarrow> alb_zone_mapping list" where
  "transZoneMappingToUpdateLoadBalancerAddressTypeConfigZoneMappings m = filter (\<lambda>z. zmp_AllocationId z \<noteq> []) m"

definition transTagMapToSDKUnTagResourcesTagList :: "'w albsdk \<Rightarrow> smap \<Rightarrow> (string \<times> string) list" where
  "transTagMapToSDKUnTagResourcesTagList K tagMap = map (\<lambda>(k, v). (k, v)) (k_range K tagMap)"

definition reCorrectRegion :: "string \<Rightarrow> string" where
  "reCorrectRegion region = (if region = ''cn-shenzhen-finance-1'' then ''cn-shenzhen-finance'' else region)"

definition buildResAlbLoadBalancerStatus :: "string \<Rightarrow> string \<Rightarrow> lb_status" where
  "buildResAlbLoadBalancerStatus lbID DNSName = \<lparr>lbs_DNSName = DNSName, lbs_LoadBalancerID = lbID\<rparr>"

definition buildSDKCreateAlbLoadBalancerRequest :: "lb_spec \<Rightarrow> lb_request res" where
  "buildSDKCreateAlbLoadBalancerRequest lbSpec =
     (if length (lbp_VpcId lbSpec) = 0 then Inl (Errorf ''invalid load balancer vpc id: '')
      else if \<not> isAlbLoadBalancerAddressTypeValid (lbp_AddressType lbSpec) then Inl (Errorf ''invalid load balancer address type: '')
      else if \<not> isAlbLoadBalancerAddressIpVersionValid (lbp_AddressIpVersion lbSpec)
        then Inl (Errorf ''invalid load balancer address ip version: '')
      else if \<not> isAlbLoadBalancerModificationProtectionStatusValid (snd (lbp_ModificationProtection lbSpec))
        then Inl (Errorf ''invalid load balancer modification protection config: '')
      else if length (lbp_ZoneMapping lbSpec) = 0 then Inl (Errorf ''empty load balancer zone mapping'')
      else if \<not> isLoadBalancerAddressAllocatedModeValid (lbp_AddressAllocatedMode lbSpec)
        then Inl (Errorf ''invalid load balancer address allocate mode: '')
      else if \<not> isAlbLoadBalancerEditionValid (lbp_LoadBalancerEdition lbSpec) then Inl (Errorf ''invalid load balancer edition: '')
      else if \<not> isAlbLoadBalancerLoadBalancerPayTypeValid (bl_PayType (lbp_BillingConfig lbSpec))
        then Inl (Errorf ''invalid load balancer paytype: '')
      else Inr \<lparr>bq_VpcId = lbp_VpcId lbSpec, bq_AddressType = lbp_AddressType lbSpec, bq_AddressIpVersion = lbp_AddressIpVersion lbSpec,
             bq_LoadBalancerName = lbp_LoadBalancerName lbSpec, bq_DeletionProtectionEnabled = fst (lbp_DeletionProtection lbSpec),
             bq_ModificationProtectionConfig = transSDKModificationProtectionConfigToCreateLb (lbp_ModificationProtection lbSpec),
             bq_ZoneMappings = transSDKZoneMappingsToCreateLb (lbp_ZoneMapping lbSpec),
             bq_AddressAllocatedMode = lbp_AddressAllocatedMode lbSpec, bq_ResourceGroupId = lbp_ResourceGroupId lbSpec,
             bq_LoadBalancerEdition = lbp_LoadBalancerEdition lbSpec,
             bq_BillingConfig = transSDKLoadBalancerBillingConfigToCreateLb (lbp_BillingConfig lbSpec)\<rparr>)"

text \<open>
  What a reused load balancer looks like to the update.  The address type of IPv6 and the IP
  version are not copied, unlike in the conversion that the listing uses.
\<close>

definition transSDKGetLoadBalancerAttributeResponseToLoadBalancer :: "sdk_lb_info \<Rightarrow> sdk_lb_info" where
  "transSDKGetLoadBalancerAttributeResponseToLoadBalancer albAttr =
     \<lparr>kl_LoadBalancerId = kl_LoadBalancerId albAttr, kl_LoadBalancerName = kl_LoadBalancerName albAttr, kl_DNSName = kl_DNSName albAttr,
      kl_LoadBalancerStatus = kl_LoadBalancerStatus albAttr, kl_LoadBalancerEdition = kl_LoadBalancerEdition albAttr,
      kl_VpcId = kl_VpcId albAttr, kl_RegionId = [], kl_AddressType = kl_AddressType albAttr, kl_AddressIpVersion = [],
      kl_AddressAllocatedMode = kl_AddressAllocatedMode albAttr, kl_Ipv6AddressType = [],
      kl_BandwidthPackageId = kl_BandwidthPackageId albAttr, kl_ResourceGroupId = kl_ResourceGroupId albAttr,
      kl_AccessLogConfig = kl_AccessLogConfig albAttr, kl_DeletionProtection = kl_DeletionProtection albAttr,
      kl_ModificationProtection = kl_ModificationProtection albAttr, kl_Tags = kl_Tags albAttr\<rparr>"

definition transSDKGetAlbLoadBalancerAttributeResponseToNormal :: "sdk_lb_info \<Rightarrow> sdk_lb_info" where
  "transSDKGetAlbLoadBalancerAttributeResponseToNormal resp =
     \<lparr>kl_LoadBalancerId = kl_LoadBalancerId resp, kl_LoadBalancerName = kl_LoadBalancerName resp, kl_DNSName = kl_DNSName resp,
      kl_LoadBalancerStatus = kl_LoadBalancerStatus resp, kl_LoadBalancerEdition = kl_LoadBalancerEdition resp,
      kl_VpcId = kl_VpcId resp, kl_RegionId = [], kl_AddressType = kl_AddressType resp, kl_AddressIpVersion = kl_AddressIpVersion resp,
      kl_AddressAllocatedMode = kl_AddressAllocatedMode resp, kl_Ipv6AddressType = kl_Ipv6AddressType resp,
      kl_BandwidthPackageId = kl_BandwidthPackageId resp, kl_ResourceGroupId = kl_ResourceGroupId resp,
      kl_AccessLogConfig = kl_AccessLogConfig resp, kl_DeletionProtection = kl_DeletionProtection resp,
      kl_ModificationProtection = kl_ModificationProtection resp, kl_Tags = kl_Tags resp\<rparr>"

subsection \<open>Single requests\<close>

definition getALBLoadBalancerAttributeFunc :: "'w albsdk \<Rightarrow> string \<Rightarrow> ('w, sdk_lb_info) pv_prog" where
  "getALBLoadBalancerAttributeFunc K lbID = invoke (KGetLoadBalancerAttribute lbID) (k_GetLoadBalancerAttribute K lbID)"

definition disableALBDeletionProtectionFunc :: "'w albsdk \<Rightarrow> string \<Rightarrow> ('w, unit) pv_prog" where
  "disableALBDeletionProtectionFunc K lbID = invoke (KDisableDeletionProtection lbID) (k_DisableDeletionProtection K lbID)"

definition enableALBDeletionProtectionFunc :: "'w albsdk \<Rightarrow> string \<Rightarrow> ('w, unit) pv_prog" where
  "enableALBDeletionProtectionFunc K lbID = invoke (KEnableDeletionProtection lbID) (k_EnableDeletionProtection K lbID)"

definition disableLoadBalancerIpv6InternetFunc :: "'w albsdk \<Rightarrow> string \<Rightarrow> ('w, unit) pv_prog" where
  "disableLoadBalancerIpv6InternetFunc K lbID =
     invoke (KDisableLoadBalancerIpv6Internet lbID) (k_DisableLoadBalancerIpv6Internet K lbID)"

definition enableLoadBalancerIpv6InternetFunc :: "'w albsdk \<Rightarrow> string \<Rightarrow> ('w, unit) pv_prog" where
  "enableLoadBalancerIpv6InternetFunc K lbID =
     invoke (KEnableLoadBalancerIpv6Internet lbID) (k_EnableLoadBalancerIpv6Internet K lbID)"

definition deleteALBLoadBalancerFunc :: "'w albsdk \<Rightarrow> string \<Rightarrow> ('w, unit) pv_prog" where
  "deleteALBLoadBalancerFunc K lbID = invoke (KDeleteLoadBalancer lbID) (k_DeleteLoadBalancer K lbID)"

definition MoveResourceGroup :: "'w albsdk \<Rightarrow> string \<Rightarrow> string \<Rightarrow> string \<Rightarrow> ('w, unit) pv_prog" where
  "MoveResourceGroup K resType resourceId newResourceGroupId =
     invoke (KMoveResourceGroup resType resourceId newResourceGroupId) (k_MoveResourceGroup K resType resourceId newResourceGroupId)"

definition TagWithoutResourceTags :: "'w albsdk \<Rightarrow> smap \<Rightarrow> string \<Rightarrow> ('w, unit) pv_prog" where
  "TagWithoutResourceTags K withoutResourceTags lbID =
     (let tags = transTagMapToSDKTagResourcesTagList K withoutResourceTags
      in invoke (KTagResources LoadBalancerResourceType lbID tags) (k_TagResources K LoadBalancerResourceType lbID tags))"

definition Tag :: "'w albsdk \<Rightarrow> 'x alb_env \<Rightarrow> provider_lb \<Rightarrow> string \<Rightarrow> ('w, unit) pv_prog" where
  "Tag K E resLB lbID =
     (let tags = transTagMapToSDKTagResourcesTagList K (ResourceTags E (alb_ID resLB) (transTagListToMap (lbp_Tags (alb_Spec resLB))))
      in invoke (KTagResources LoadBalancerResourceType lbID tags) (k_TagResources K LoadBalancerResourceType lbID tags))"

definition UnTag :: "'w albsdk \<Rightarrow> smap \<Rightarrow> string \<Rightarrow> ('w, unit) pv_prog" where
  "UnTag K tags lbID =
     (let sdkTags = transTagMapToSDKUnTagResourcesTagList K tags
      in invoke (KUnTagResources LoadBalancerResourceType lbID sdkTags) (k_UnTagResources K LoadBalancerResourceType lbID sdkTags))"

text \<open>The last answer of a loop that looks at the load balancer until it is active.\<close>

fun look_until_active :: "nat \<Rightarrow> ('s, sdk_lb_info) prog \<Rightarrow> sdk_lb_info option \<Rightarrow> ('s, sdk_lb_info option) prog" where
  "look_until_active 0 look getLbResp = returnP getLbResp"
| "look_until_active (Suc n) look getLbResp =
     bindP look (\<lambda>resp. if isAlbLoadBalancerActive (kl_LoadBalancerStatus resp) then returnP (Some resp)
       else look_until_active n look (Some resp))"

definition waitAlbLoadBalancerAttributeStatus :: "'w albsdk \<Rightarrow> string \<Rightarrow> ('w, sdk_lb_info option) pv_prog" where
  "waitAlbLoadBalancerAttributeStatus K loadBalancerId =
     look_until_active UpdateLoadBalancerAttributeWaitActiveMaxRetryTimes (getALBLoadBalancerAttributeFunc K loadBalancerId) None"

definition provider_DeleteALB :: "'w albsdk \<Rightarrow> string \<Rightarrow> ('w, unit) pv_prog" where
  "provider_DeleteALB K lbID =
     bindP (getALBLoadBalancerAttributeFunc K lbID) (\<lambda>getLbResp.
     bindP (if kl_DeletionProtection getLbResp then disableALBDeletionProtectionFunc K lbID else returnP ()) (\<lambda>_.
     deleteALBLoadBalancerFunc K lbID))"

subsection \<open>Access logs\<close>

definition DissociateAccessLogFromALB :: "'w albsdk \<Rightarrow> string \<Rightarrow> ('w, unit) pv_prog" where
  "DissociateAccessLogFromALB K lbID =
     bindP (invoke KRegion (k_Region K)) (\<lambda>region.
     let region = reCorrectRegion region; domain = region @ DefaultLogDomainSuffix
     in bindP (invoke (KCloseProductDataCollection domain region lbID) (k_CloseProductDataCollection K domain region lbID)) (\<lambda>success.
        if \<not> success then throwP (Errorf ''failed close SLS product data, reponse: '') else returnP ()))"

definition AnalyzeAndAssociateAccessLogToALB :: "'w albsdk \<Rightarrow> string \<Rightarrow> lb_spec \<Rightarrow> ('w, unit) pv_prog" where
  "AnalyzeAndAssociateAccessLogToALB K lbID spec =
     (let (logProject, logStore) = lbp_AccessLogConfig spec
      in if \<not> isLogProjectNameValid logProject \<or> \<not> isLogStoreNameValid logStore
         then throwP (Errorf ''invalid name of logProject:  or logStore: '')
         else bindP (invoke KRegion (k_Region K)) (\<lambda>region.
              let region = reCorrectRegion region; domain = region @ DefaultLogDomainSuffix
              in bindP (invoke (KOpenProductDataCollection domain region lbID logProject logStore)
                          (k_OpenProductDataCollection K domain region lbID logProject logStore)) (\<lambda>success.
                 if \<not> success then throwP (Errorf ''failed open SLS product data, reponse: '') else returnP ())))"

subsection \<open>The update\<close>

definition updateAlbLoadBalancerResourceGroup :: "'w albsdk \<Rightarrow> provider_lb \<Rightarrow> sdk_lb_info \<Rightarrow> ('w, unit) pv_prog" where
  "updateAlbLoadBalancerResourceGroup K resLB sdkLB =
     (if lbp_ResourceGroupId (alb_Spec resLB) = [] then returnP ()
      else if lbp_ResourceGroupId (alb_Spec resLB) = kl_ResourceGroupId sdkLB then returnP ()
      else MoveResourceGroup K ''loadbalancer'' (kl_LoadBalancerId sdkLB) (lbp_ResourceGroupId (alb_Spec resLB)))"

definition updateAlbLoadBalancerAddressTypeConfig :: "'w albsdk \<Rightarrow> provider_lb \<Rightarrow> sdk_lb_info \<Rightarrow> ('w, unit) pv_prog" where
  "updateAlbLoadBalancerAddressTypeConfig K resLB sdkLB =
     (let spec = alb_Spec resLB
      in if length (alb_LoadBalancerId resLB) \<noteq> 0 then returnP ()
         else if \<not> isAlbLoadBalancerAddressTypeValid (lbp_AddressType spec) then throwP (Errorf ''invalid load balancer address type: '')
         else if EqualFold (lbp_AddressType spec) (kl_AddressType sdkLB) then returnP ()
         else let zones = (if lbp_AddressType spec = ''Internet'' \<and> kl_AddressType sdkLB = ''Intranet''
                           then Some (transZoneMappingToUpdateLoadBalancerAddressTypeConfigZoneMappings (lbp_ZoneMapping spec)) else None)
              in invoke (KUpdateLoadBalancerAddressTypeConfig (kl_LoadBalancerId sdkLB) (lbp_AddressType spec) zones)
                   (k_UpdateLoadBalancerAddressTypeConfig K (kl_LoadBalancerId sdkLB) (lbp_AddressType spec) zones))"

definition filterAlbLoadBalancerResourceTags :: "'x alb_env \<Rightarrow> smap \<Rightarrow> smap" where
  "filterAlbLoadBalancerResourceTags E tags = filter (\<lambda>(k, _). \<not> IsAlbIngressTagKey E k) tags"

definition needTagMaps :: "smap \<Rightarrow> smap \<Rightarrow> smap" where
  "needTagMaps res sdk = filter (\<lambda>(key, resValue). map_of sdk key \<noteq> Some resValue) res"

definition needUnTagMaps :: "smap \<Rightarrow> smap \<Rightarrow> smap" where
  "needUnTagMaps res sdk = filter (\<lambda>(key, _). \<not> has_key res key) sdk"

definition updateAlbLoadBalancerTag :: "'w albsdk \<Rightarrow> 'x alb_env \<Rightarrow> provider_lb \<Rightarrow> sdk_lb_info \<Rightarrow> ('w, unit) pv_prog" where
  "updateAlbLoadBalancerTag K E resLB sdkLB =
     (let sdkCustomerTagMap = filterAlbLoadBalancerResourceTags E (transSDKTagListToMap (kl_Tags sdkLB));
          resCustomerTagMap = transTagListToMap (lbp_Tags (alb_Spec resLB));
          unTag = needUnTagMaps resCustomerTagMap sdkCustomerTagMap;
          tag = needTagMaps resCustomerTagMap sdkCustomerTagMap
      in if length (lbp_Tags (alb_Spec resLB)) = 0 then returnP ()
         else if same_map resCustomerTagMap sdkCustomerTagMap then returnP ()
         else bindP (if length unTag \<noteq> 0 then UnTag K unTag (kl_LoadBalancerId sdkLB) else returnP ()) (\<lambda>_.
              if length tag \<noteq> 0 then TagWithoutResourceTags K tag (kl_LoadBalancerId sdkLB) else returnP ()))"

definition updateAlbLoadBalancerAttribute :: "'w albsdk \<Rightarrow> provider_lb \<Rightarrow> sdk_lb_info \<Rightarrow> ('w, unit) pv_prog" where
  "updateAlbLoadBalancerAttribute K resLB sdkLB =
     (let spec = alb_Spec resLB;
          protectionUpd = transModificationProtectionConfigToSDK (lbp_ModificationProtection spec) \<noteq> kl_ModificationProtection sdkLB;
          nameUpd = lbp_LoadBalancerName spec \<noteq> kl_LoadBalancerName sdkLB;
          updateLbReq = \<lparr>bu_LoadBalancerId = kl_LoadBalancerId sdkLB,
            bu_LoadBalancerName = (if nameUpd then lbp_LoadBalancerName spec else []),
            bu_ModificationProtectionConfig = (if protectionUpd
              then Some (transSDKModificationProtectionConfigToUpdateLb (lbp_ModificationProtection spec)) else None)\<rparr>
      in if \<not> isAlbLoadBalancerModificationProtectionStatusValid (snd (lbp_ModificationProtection spec))
         then throwP (Errorf ''invalid load balancer modification protection config: '')
         else if \<not> nameUpd \<and> \<not> protectionUpd then returnP ()
         else bindP (invoke (KUpdateLoadBalancerAttribute updateLbReq) (k_UpdateLoadBalancerAttribute K updateLbReq)) (\<lambda>_.
              bindP (waitAlbLoadBalancerAttributeStatus K (kl_LoadBalancerId sdkLB)) (\<lambda>_. returnP ())))"

definition updateAlbLoadBalancerIpv6AddressType :: "'w albsdk \<Rightarrow> provider_lb \<Rightarrow> sdk_lb_info \<Rightarrow> ('w, unit) pv_prog" where
  "updateAlbLoadBalancerIpv6AddressType K resLB sdkLB =
     (let want = lbp_Ipv6AddressType (alb_Spec resLB)
      in if \<not> (kl_Ipv6AddressType sdkLB \<noteq> [] \<and> want \<noteq> kl_Ipv6AddressType sdkLB) then returnP ()
         else if want = ''Internet'' then enableLoadBalancerIpv6InternetFunc K (kl_LoadBalancerId sdkLB)
         else if want = ''Intranet'' then disableLoadBalancerIpv6InternetFunc K (kl_LoadBalancerId sdkLB)
         else returnP ())"

definition updateAlbLoadBalancerDeletionProtection :: "'w albsdk \<Rightarrow> provider_lb \<Rightarrow> sdk_lb_info \<Rightarrow> ('w, unit) pv_prog" where
  "updateAlbLoadBalancerDeletionProtection K resLB sdkLB =
     (let want = fst (lbp_DeletionProtection (alb_Spec resLB)); has = kl_DeletionProtection sdkLB
      in if want = has then returnP ()
         else if want \<and> \<not> has then enableALBDeletionProtectionFunc K (kl_LoadBalancerId sdkLB)
         else disableALBDeletionProtectionFunc K (kl_LoadBalancerId sdkLB))"

definition has_log :: "string \<times> string \<Rightarrow> bool" where
  "has_log c \<longleftrightarrow> length (fst c) \<noteq> 0 \<and> length (snd c) \<noteq> 0"

definition updateAlbLoadBalancerAccessLogConfig :: "'w albsdk \<Rightarrow> provider_lb \<Rightarrow> sdk_lb_info \<Rightarrow> ('w, unit) pv_prog" where
  "updateAlbLoadBalancerAccessLogConfig K resLB sdkLB =
     (if transAccessLogConfigToSDK (lbp_AccessLogConfig (alb_Spec resLB)) = kl_AccessLogConfig sdkLB then returnP ()
      else bindP (if has_log (kl_AccessLogConfig sdkLB) then DissociateAccessLogFromALB K (kl_LoadBalancerId sdkLB) else returnP ()) (\<lambda>_.
           if has_log (lbp_AccessLogConfig (alb_Spec resLB))
           then AnalyzeAndAssociateAccessLogToALB K (kl_LoadBalancerId sdkLB) (alb_Spec resLB) else returnP ()))"

definition attachCommonBandwidthPackageToALB :: "'w albsdk \<Rightarrow> provider_lb \<Rightarrow> sdk_lb_info \<Rightarrow> ('w, unit) pv_prog" where
  "attachCommonBandwidthPackageToALB K resLB sdkLB =
     (let lbID = kl_LoadBalancerId sdkLB; package = bl_BandWidthPackageId (lbp_BillingConfig (alb_Spec resLB))
      in bindP (getALBLoadBalancerAttributeFunc K lbID) (\<lambda>getLbResp.
         bindP (invoke (KAttachCommonBandwidthPackageToLoadBalancer lbID (kl_RegionId getLbResp) package)
                  (k_AttachCommonBandwidthPackageToLoadBalancer K lbID (kl_RegionId getLbResp) package)) (\<lambda>_.
         bindP (waitAlbLoadBalancerAttributeStatus K lbID) (\<lambda>_. returnP ()))))"

definition detachCommonBandwidthPackageFromALB :: "'w albsdk \<Rightarrow> sdk_lb_info \<Rightarrow> ('w, unit) pv_prog" where
  "detachCommonBandwidthPackageFromALB K sdkLB =
     (let lbID = kl_LoadBalancerId sdkLB; package = kl_BandwidthPackageId sdkLB
      in bindP (getALBLoadBalancerAttributeFunc K lbID) (\<lambda>getLbResp.
         bindP (invoke (KDetachCommonBandwidthPackageFromLoadBalancer lbID (kl_RegionId getLbResp) package)
                  (k_DetachCommonBandwidthPackageFromLoadBalancer K lbID (kl_RegionId getLbResp) package)) (\<lambda>_.
         bindP (waitAlbLoadBalancerAttributeStatus K lbID) (\<lambda>_. returnP ()))))"

definition updateAlbLoadBalancerBandWidthPackage :: "'w albsdk \<Rightarrow> provider_lb \<Rightarrow> sdk_lb_info \<Rightarrow> ('w, unit) pv_prog" where
  "updateAlbLoadBalancerBandWidthPackage K resLB sdkLB =
     (let want = bl_BandWidthPackageId (lbp_BillingConfig (alb_Spec resLB)); has = kl_BandwidthPackageId sdkLB;
          internet = (lbp_AddressType (alb_Spec resLB) = ''Internet'');
          refused = throwP (Errorf ''intranet addressType cannot set common bandwidth package'')
      in if EqualFold want has then returnP ()
         else bindP (if length want \<noteq> 0 \<and> length has = 0
                     then if \<not> internet then refused else attachCommonBandwidthPackageToALB K resLB sdkLB
                     else returnP ()) (\<lambda>_.
              if length has \<noteq> 0 \<and> length want \<noteq> 0
              then if \<not> internet then refused
                   else bindP (detachCommonBandwidthPackageFromALB K sdkLB) (\<lambda>_. attachCommonBandwidthPackageToALB K resLB sdkLB)
              else returnP ()))"

definition updateAlbLoadBalancerEdition :: "'w albsdk \<Rightarrow> provider_lb \<Rightarrow> sdk_lb_info \<Rightarrow> ('w, unit) pv_prog" where
  "updateAlbLoadBalancerEdition K resLB sdkLB =
     (let want = lbp_LoadBalancerEdition (alb_Spec resLB)
      in if length (alb_LoadBalancerId resLB) \<noteq> 0 then returnP ()
         else if \<not> isAlbLoadBalancerEditionValid want then throwP (Errorf ''invalid load balancer edition: '')
         else if kl_LoadBalancerEdition sdkLB \<noteq> ''Basic'' \<and> want = ''Basic'' then throwP (Errorf ''downgrade not allowed for alb from  to '')
         else if EqualFold want (kl_LoadBalancerEdition sdkLB) then returnP ()
         else bindP (invoke (KUpdateLoadBalancerEdition (kl_LoadBalancerId sdkLB) want)
                       (k_UpdateLoadBalancerEdition K (kl_LoadBalancerId sdkLB) want)) (\<lambda>_.
              bindP (waitAlbLoadBalancerAttributeStatus K (kl_LoadBalancerId sdkLB)) (\<lambda>_. returnP ())))"

definition provider_UpdateALB :: "'w albsdk \<Rightarrow> 'x alb_env \<Rightarrow> provider_lb \<Rightarrow> sdk_lb_info \<Rightarrow> ('w, lb_status) pv_prog" where
  "provider_UpdateALB K E resLB sdkLB =
     bindP (updateAlbLoadBalancerAttribute K resLB sdkLB) (\<lambda>_.
     bindP (updateAlbLoadBalancerDeletionProtection K resLB sdkLB) (\<lambda>_.
     bindP (updateAlbLoadBalancerIpv6AddressType K resLB sdkLB) (\<lambda>_.
     bindP (updateAlbLoadBalancerAccessLogConfig K resLB sdkLB) (\<lambda>_.
     bindP (updateAlbLoadBalancerEdition K resLB sdkLB) (\<lambda>_.
     bindP (updateAlbLoadBalancerBandWidthPackage K resLB sdkLB) (\<lambda>_.
     bindP (updateAlbLoadBalancerTag K E resLB sdkLB) (\<lambda>_.
     bindP (updateAlbLoadBalancerResourceGroup K resLB sdkLB) (\<lambda>_.
     returnP (buildResAlbLoadBalancerStatus (kl_LoadBalancerId sdkLB) (kl_DNSName sdkLB))))))))))"

subsection \<open>Creation and reuse\<close>

definition tag_new_lb :: "'w albsdk \<Rightarrow> 'x alb_env \<Rightarrow> provider_lb \<Rightarrow> string \<Rightarrow> ('w, unit) pv_prog" where
  "tag_new_lb K E resLB lbID =
     bindP (tryP (Tag K E resLB lbID)) (\<lambda>r.
       case r of
         Inl err \<Rightarrow> bindP (tryP (provider_DeleteALB K lbID)) (\<lambda>_. throwP err)
       | Inr _ \<Rightarrow> returnP ())"

definition provider_CreateALB :: "'w albsdk \<Rightarrow> 'x alb_env \<Rightarrow> provider_lb \<Rightarrow> ('w, lb_status) pv_prog" where
  "provider_CreateALB K E resLB =
     bindP (liftP (buildSDKCreateAlbLoadBalancerRequest (alb_Spec resLB))) (\<lambda>createLbReq.
     bindP (invoke (KCreateLoadBalancer createLbReq) (k_CreateLoadBalancer K createLbReq)) (\<lambda>lbID.
     bindP (look_until_active CreateLoadBalancerWaitActiveMaxRetryTimes (getALBLoadBalancerAttributeFunc K lbID) None) (\<lambda>getLbResp.
     bindP (tag_new_lb K E resLB lbID) (\<lambda>_.
     bindP (if lbp_Ipv6AddressType (alb_Spec resLB) = ''Internet'' then enableLoadBalancerIpv6InternetFunc K lbID else returnP ()) (\<lambda>_.
     bindP (if has_log (lbp_AccessLogConfig (alb_Spec resLB)) then AnalyzeAndAssociateAccessLogToALB K lbID (alb_Spec resLB)
            else returnP ()) (\<lambda>_.
     bindP (liftP (deref getLbResp)) (\<lambda>resp.
     returnP (buildResAlbLoadBalancerStatus lbID (kl_DNSName resp)))))))))"

definition preCheckTagConflictForReuse :: "'x alb_env \<Rightarrow> sdk_lb_info \<Rightarrow> provider_lb \<Rightarrow> unit res" where
  "preCheckTagConflictForReuse E sdkLB resLB =
     (let sdkTags = transSDKTagListToMap (kl_Tags sdkLB);
          resTags = ResourceTags E (alb_ID resLB) (transTagListToMap (lbp_Tags (alb_Spec resLB)))
      in if kl_VpcId sdkLB \<noteq> lbp_VpcId (alb_Spec resLB)
         then Inl (Errorf ''the vpc  of reused alb  is not same with cluster vpc '')
         else if length (kl_Tags sdkLB) = 0 then Inr ()
         else case (map_of sdkTags ClusterNameTagKey, map_of resTags ClusterNameTagKey) of
                (Some sdkClusterID, Some resClusterID) \<Rightarrow>
                  if sdkClusterID \<noteq> resClusterID then Inl (Errorf ''alb  belongs to cluster: , cant reuse alb to another cluster: '')
                  else (case (map_of sdkTags (AlbConfigTagKey E), map_of resTags (AlbConfigTagKey E)) of
                          (Some sdkAlbConfig, Some resAlbConfig) \<Rightarrow>
                            if sdkAlbConfig \<noteq> resAlbConfig
                            then Inl (Errorf ''alb  belongs to albconfig: , cant reuse alb to another albconfig: '') else Inr ()
                        | _ \<Rightarrow> Inr ())
              | _ \<Rightarrow> Inr ())"

definition provider_ReuseALB :: "'w albsdk \<Rightarrow> 'x alb_env \<Rightarrow> provider_lb \<Rightarrow> string \<Rightarrow> ('w, lb_status) pv_prog" where
  "provider_ReuseALB K E resLB lbID =
     bindP (getALBLoadBalancerAttributeFunc K lbID) (\<lambda>getLbResp.
     if kl_LoadBalancerEdition getLbResp = ''Basic'' then throwP (Errorf ''LoadBalancer Edition:  can't use for ingress controller'')
     else bindP (liftP (preCheckTagConflictForReuse E getLbResp resLB)) (\<lambda>_.
          bindP (Tag K E resLB lbID) (\<lambda>_.
          if alb_ForceOverride resLB = Some True
          then provider_UpdateALB K E resLB (transSDKGetLoadBalancerAttributeResponseToLoadBalancer getLbResp)
          else returnP (buildResAlbLoadBalancerStatus lbID (kl_DNSName getLbResp)))))"

definition provider_UnReuseALB :: "'w albsdk \<Rightarrow> 'x alb_env \<Rightarrow> string \<Rightarrow> ('w, unit) pv_prog" where
  "provider_UnReuseALB K E lbID =
     bindP (getALBLoadBalancerAttributeFunc K lbID) (\<lambda>getLbResp.
     let tagsToClean = fold (\<lambda>(k, v) m. if IsAlbIngressTagKey E k then map_set k v m else m) (kl_Tags getLbResp) []
     in UnTag K tagsToClean lbID)"

subsection \<open>Listings by tag\<close>

definition transTagFilterToListAlbLoadBalancersTags :: "'w albsdk \<Rightarrow> smap \<Rightarrow> (string \<times> string) list" where
  "transTagFilterToListAlbLoadBalancersTags K tagFilters = map (\<lambda>(k, v). (k, v)) (k_range K tagFilters)"

definition ListAlbLoadBalancersByTag :: "'w albsdk \<Rightarrow> smap \<Rightarrow> ('w, sdk_lb_info list) pv_prog" where
  "ListAlbLoadBalancersByTag K tagFilters =
     (if length tagFilters = 0 then throwP (Errorf ''invalid tag filter:  for listing load balancers'')
      else let listTags = transTagFilterToListAlbLoadBalancersTags K tagFilters
           in pagesP (k_pages K) (\<lambda>nextToken. invoke (KListLoadBalancers listTags nextToken) (k_ListLoadBalancers K listTags nextToken)) [])"

definition provider_ListALBsWithTags :: "'w albsdk \<Rightarrow> smap \<Rightarrow> ('w, (sdk_lb_info \<times> smap) list) pv_prog" where
  "provider_ListALBsWithTags K tagFilters =
     bindP (ListAlbLoadBalancersByTag K tagFilters) (\<lambda>lbs.
     mapP (\<lambda>lb. bindP (invoke (KGetLoadBalancerAttribute (kl_LoadBalancerId lb))
                         (k_GetLoadBalancerAttribute K (kl_LoadBalancerId lb))) (\<lambda>getLbResp.
       returnP (transSDKGetAlbLoadBalancerAttributeResponseToNormal getLbResp, transSDKTagListToMap (kl_Tags lb)))) lbs)"

subsection \<open>Reuse\<close>

text \<open>The requests that read or change this load balancer without creating or deleting one.\<close>

definition about_lb :: "string \<Rightarrow> sdk_call \<Rightarrow> bool" where
  "about_lb lbID c \<longleftrightarrow>
     (case c of
        KGetLoadBalancerAttribute i \<Rightarrow> i = lbID
      | KUpdateLoadBalancerAttribute req \<Rightarrow> bu_LoadBalancerId req = lbID
      | KEnableDeletionProtection i \<Rightarrow> i = lbID | KDisableDeletionProtection i \<Rightarrow> i = lbID
      | KEnableLoadBalancerIpv6Internet i \<Rightarrow> i = lbID | KDisableLoadBalancerIpv6Internet i \<Rightarrow> i = lbID
      | KUpdateLoadBalancerEdition i _ \<Rightarrow> i = lbID
      | KAttachCommonBandwidthPackageToLoadBalancer i _ _ \<Rightarrow> i = lbID
      | KDetachCommonBandwidthPackageFromLoadBalancer i _ _ \<Rightarrow> i = lbID
      | KMoveResourceGroup ty i _ \<Rightarrow> ty = ''loadbalancer'' \<and> i = lbID
      | KTagResources ty i _ \<Rightarrow> ty = LoadBalancerResourceType \<and> i = lbID
      | KUnTagResources ty i _ \<Rightarrow> ty = LoadBalancerResourceType \<and> i = lbID
      | KRegion \<Rightarrow> True
      | KOpenProductDataCollection _ _ i _ _ \<Rightarrow> i = lbID | KCloseProductDataCollection _ _ i \<Rightarrow> i = lbID
      | _ \<Rightarrow> False)"

lemma only_look_until_active [emits_intros]: "only_calls P look \<Longrightarrow> only_calls P (look_until_active n look resp)"
  by (induction n arbitrary: resp) (auto intro!: emits_intros)

lemmas lb_requests = getALBLoadBalancerAttributeFunc_def disableALBDeletionProtectionFunc_def enableALBDeletionProtectionFunc_def
  disableLoadBalancerIpv6InternetFunc_def enableLoadBalancerIpv6InternetFunc_def MoveResourceGroup_def
  TagWithoutResourceTags_def Tag_def UnTag_def waitAlbLoadBalancerAttributeStatus_def DissociateAccessLogFromALB_def
  AnalyzeAndAssociateAccessLogToALB_def attachCommonBandwidthPackageToALB_def detachCommonBandwidthPackageFromALB_def

lemma about_parts:
  "only_calls (about_lb (kl_LoadBalancerId sdk)) (updateAlbLoadBalancerAttribute K lb sdk)"
  "only_calls (about_lb (kl_LoadBalancerId sdk)) (updateAlbLoadBalancerDeletionProtection K lb sdk)"
  "only_calls (about_lb (kl_LoadBalancerId sdk)) (updateAlbLoadBalancerIpv6AddressType K lb sdk)"
  "only_calls (about_lb (kl_LoadBalancerId sdk)) (updateAlbLoadBalancerAccessLogConfig K lb sdk)"
  "only_calls (about_lb (kl_LoadBalancerId sdk)) (updateAlbLoadBalancerEdition K lb sdk)"
  "only_calls (about_lb (kl_LoadBalancerId sdk)) (updateAlbLoadBalancerBandWidthPackage K lb sdk)"
  "only_calls (about_lb (kl_LoadBalancerId sdk)) (updateAlbLoadBalancerTag K E lb sdk)"
  "only_calls (about_lb (kl_LoadBalancerId sdk)) (updateAlbLoadBalancerResourceGroup K lb sdk)"
  unfolding updateAlbLoadBalancerAttribute_def updateAlbLoadBalancerDeletionProtection_def updateAlbLoadBalancerIpv6AddressType_def
    updateAlbLoadBalancerAccessLogConfig_def updateAlbLoadBalancerEdition_def updateAlbLoadBalancerBandWidthPackage_def
    updateAlbLoadBalancerTag_def updateAlbLoadBalancerResourceGroup_def lb_requests Let_def case_prod_beta
  by (intro emits_intros; simp add: about_lb_def)+

lemma about_UpdateALB: "only_calls (about_lb (kl_LoadBalancerId sdk)) (provider_UpdateALB K E lb sdk)"
  unfolding provider_UpdateALB_def by (intro emits_intros about_parts TrueI)

lemma AlbConfigTagKey_not_cluster: "AlbConfigTagKey E \<noteq> ClusterNameTagKey"
proof
  assume "AlbConfigTagKey E = ClusterNameTagKey"
  moreover have "CHR ''/'' \<in> set (AlbConfigTagKey E)" by (simp add: AlbConfigTagKey_def prefixedTrackingKey_def)
  ultimately show False by (simp add: ClusterNameTagKey_def)
qed

text \<open>The tags of the controller take precedence over those of the user.\<close>

lemma resource_tags_of_stack:
  "map_of (ResourceTags E resID tags) ClusterNameTagKey = Some (e_ClusterID E)"
  "map_of (ResourceTags E resID tags) (AlbConfigTagKey E) = Some (AvoidTagValueKeyword (StackID_String (e_stackID E)))"
  unfolding ResourceTags_def MergeStringMap_def map_of_MergeStringMap_loop
  using AlbConfigTagKey_not_cluster [of E] by (simp_all add: StackTags_def)

definition reusable :: "'x alb_env \<Rightarrow> provider_lb \<Rightarrow> sdk_lb_info \<Rightarrow> bool" where
  "reusable E lb info \<longleftrightarrow>
     (let tags = map_of (transSDKTagListToMap (kl_Tags info))
      in kl_LoadBalancerEdition info \<noteq> ''Basic'' \<and> kl_VpcId info = lbp_VpcId (alb_Spec lb) \<and>
         (case tags ClusterNameTagKey of
            None \<Rightarrow> True
          | Some cluster \<Rightarrow> cluster = e_ClusterID E \<and>
              (\<forall>stack. tags (AlbConfigTagKey E) = Some stack \<longrightarrow> stack = AvoidTagValueKeyword (StackID_String (e_stackID E)))))"

lemma reuse_check: "preCheckTagConflictForReuse E info lb = Inr () \<and> kl_LoadBalancerEdition info \<noteq> ''Basic'' \<longleftrightarrow> reusable E lb info"
  by (auto simp: preCheckTagConflictForReuse_def reusable_def Let_def resource_tags_of_stack transSDKTagListToMap_def
      split: option.splits)


definition demo_lb :: "string \<Rightarrow> provider_lb" where
  "demo_lb vpc = \<lparr>alb_ID = ''lb'', alb_LoadBalancerId = ''alb-1'', alb_ForceOverride = Some True, alb_ListenerForceOverride = None,
     alb_Spec = \<lparr>lbp_AddressAllocatedMode = ''Dynamic'', lbp_AddressType = ''Internet'', lbp_Ipv6AddressType = [],
       lbp_AddressIpVersion = ''IPv4'', lbp_LoadBalancerEdition = ''Standard'', lbp_LoadBalancerName = ''lb'', lbp_ResourceGroupId = [],
       lbp_VpcId = vpc, lbp_AccessLogConfig = ([], []), lbp_DeletionProtection = (True, []),
       lbp_BillingConfig = \<lparr>bl_InternetBandwidth = 0, bl_InternetChargeType = [], bl_PayType = ''PostPay'', bl_BandWidthPackageId = []\<rparr>,
       lbp_ModificationProtection = ([], ''ConsoleProtection''), lbp_Tags = [(''env'', ''prod'')], lbp_ZoneMapping = []\<rparr>,
     alb_Status = None\<rparr>"


subsection \<open>Tags\<close>

text \<open>What a request does to the tags of a load balancer.\<close>

definition tag_effect :: "string \<Rightarrow> (string \<rightharpoonup> string) \<Rightarrow> sdk_call \<Rightarrow> (string \<rightharpoonup> string)" where
  "tag_effect lbID m c =
     (case c of
        KTagResources ty i tags \<Rightarrow> if ty = LoadBalancerResourceType \<and> i = lbID then m ++ map_of tags else m
      | KUnTagResources ty i tags \<Rightarrow> if ty = LoadBalancerResourceType \<and> i = lbID then m |` (- fst ` set tags) else m
      | _ \<Rightarrow> m)"

definition ranges_all :: "'w albsdk \<Rightarrow> bool" where
  "ranges_all K \<longleftrightarrow> (\<forall>m. mset (k_range K m) = mset m)"

lemma map_of_range:
  assumes "ranges_all K" and "smap_wf m"
  shows "map_of (k_range K m) = map_of m" and "fst ` set (k_range K m) = fst ` set m"
proof -
  have perm: "mset (k_range K m) = mset m" using assms(1) by (simp add: ranges_all_def)
  then have same: "set (k_range K m) = set m" by (metis set_mset_mset)
  moreover have "distinct (map fst (k_range K m))"
    using assms(2) perm by (metis mset_eq_imp_distinct_iff mset_map smap_wf_def)
  ultimately show "map_of (k_range K m) = map_of m"
    using assms(2) by (intro map_of_inject_set [THEN iffD2]) (auto simp: smap_wf_def)
  from same show "fst ` set (k_range K m) = fst ` set m" by simp
qed

lemma smap_wf_tags: "smap_wf (transTagListToMap ts)" "smap_wf (transSDKTagListToMap ts)"
proof -
  have "smap_wf m \<Longrightarrow> smap_wf (fold (\<lambda>(k, v) m. map_set k v m) ts m)" for m :: smap
    by (induction ts arbitrary: m) (auto simp: smap_wf_map_set)
  moreover have "smap_wf ([] :: smap)" by (simp add: smap_wf_def)
  ultimately show "smap_wf (transTagListToMap ts)" "smap_wf (transSDKTagListToMap ts)"
    by (simp_all add: transTagListToMap_def transSDKTagListToMap_def)
qed

lemma smap_wf_filter: "smap_wf m \<Longrightarrow> smap_wf (filter P m)"
  unfolding smap_wf_def by (induction m) auto

lemma map_of_filter_wf:
  "smap_wf m \<Longrightarrow> map_of (filter (\<lambda>(k, v). P k v) m) k = (case map_of m k of Some v \<Rightarrow> if P k v then Some v else None | None \<Rightarrow> None)"
  unfolding smap_wf_def
  by (induction m) (auto split: option.splits simp: map_of_eq_None_iff dest: map_of_SomeD intro: rev_image_eqI)

lemma tag_map_keys: "k \<notin> fst ` set ts \<Longrightarrow> map_of (transTagListToMap ts) k = None"
proof -
  have "k \<notin> fst ` set ts \<Longrightarrow> map_of (fold (\<lambda>(k, v) m. map_set k v m) ts m) k = map_of m k" for m :: smap
    by (induction ts arbitrary: m) (auto simp: map_of_map_set)
  then show "k \<notin> fst ` set ts \<Longrightarrow> ?thesis" by (simp add: transTagListToMap_def)
qed



end
