(* ===== verification/Provider_Acls.thy ===== *)
theory Provider_Acls
  imports Provider_Listeners
begin

text \<open>
  Access control lists in the cloud (\<open>provider/alibaba/alb/acl.go\<close>).  The specification of a list
  is its entries, the names of address ranges; comments and states of entries are not used.
\<close>

type_synonym provider_acl = "string list alb_acl"

definition BatchAddEntriesToAclMaxNum :: nat where "BatchAddEntriesToAclMaxNum = 20"
definition BatchRemoveEntriesToAclMaxNum :: nat where "BatchRemoveEntriesToAclMaxNum = 20"

subsection \<open>Requests\<close>

definition isQuotaExceededError :: "go_error \<Rightarrow> bool" where
  "isQuotaExceededError err \<longleftrightarrow> Contains (err_text err) ''QuotaExceeded.AclsNum''"

definition createAcl :: "'w albsdk \<Rightarrow> provider_acl \<Rightarrow> ('w, string) pv_prog" where
  "createAcl K resAcl =
     wrapP ''failed to create acl: ''
       (RetryImmediateOnError (k_polls K) isQuotaExceededError
          (invoke (KCreateAcl (acl_AclName resAcl)) (k_CreateAcl K (acl_AclName resAcl))))"

definition deleteAcl :: "'w albsdk \<Rightarrow> string \<Rightarrow> ('w, unit) pv_prog" where
  "deleteAcl K aclID =
     wrapP ''failed to delete acl: ''
       (RetryImmediateOnError (k_polls K) (\<lambda>_. True) (invoke (KDeleteAcl aclID) (k_DeleteAcl K aclID)))"

definition provider_DisassociateAclWithListener :: "'w albsdk \<Rightarrow> string \<Rightarrow> string list \<Rightarrow> ('w, unit) pv_prog" where
  "provider_DisassociateAclWithListener K listenerID aclIds =
     wrapP ''failed to disassociate acl with listener: ''
       (RetryImmediateOnError (k_polls K) isQuotaExceededError
          (invoke (KDissociateAclsFromListener listenerID aclIds) (k_DissociateAclsFromListener K listenerID aclIds)))"

definition provider_AssociateAclWithListener ::
  "'w albsdk \<Rightarrow> (id_token \<Rightarrow> string res) \<Rightarrow> provider_acl \<Rightarrow> string list \<Rightarrow> ('w, unit) pv_prog" where
  "provider_AssociateAclWithListener K R resAcl aclIds =
     bindP (liftP (R (acl_ListenerID resAcl))) (\<lambda>listenerID.
     wrapP ''failed to associate acl with listener: ''
       (RetryImmediateOnError (k_polls K) isQuotaExceededError
          (invoke (KAssociateAclsWithListener listenerID (acl_AclType resAcl) aclIds)
             (k_AssociateAclsWithListener K listenerID (acl_AclType resAcl) aclIds))))"

definition isAssociateAclWithListener :: "'w albsdk \<Rightarrow> string \<Rightarrow> string \<Rightarrow> ('w, bool) pv_prog" where
  "isAssociateAclWithListener K listenerID aclID =
     bindP (wrapP ''failed to list acl associates: ''
              (RetryImmediateOnError (k_polls K) isQuotaExceededError
                 (invoke (KListAclRelations aclID) (k_ListAclRelations K aclID)))) (\<lambda>aclRelations.
       case aclRelations of
         [] \<Rightarrow> throwP (Panic ''index out of range [0] with length 0'')
       | relatedListeners # _ \<Rightarrow> returnP (list_ex (\<lambda>listener. listener = listenerID) relatedListeners))"

definition removeEntriesFromAclSingle :: "'w albsdk \<Rightarrow> string \<Rightarrow> string list \<Rightarrow> ('w, unit) pv_prog" where
  "removeEntriesFromAclSingle K aclID entries =
     wrapP ''failed to remove entries from acl: ''
       (RetryImmediateOnError (k_polls K) isQuotaExceededError
          (invoke (KRemoveEntriesFromAcl aclID entries) (k_RemoveEntriesFromAcl K aclID entries)))"

definition removeEntriesFromAcl :: "'w albsdk \<Rightarrow> string list \<Rightarrow> string \<Rightarrow> ('w, unit) pv_prog" where
  "removeEntriesFromAcl K entries aclID = Batch_loop BatchRemoveEntriesToAclMaxNum (removeEntriesFromAclSingle K aclID) entries"

definition addEntriesToAclSingle :: "'w albsdk \<Rightarrow> string \<Rightarrow> string list \<Rightarrow> ('w, unit) pv_prog" where
  "addEntriesToAclSingle K aclID resAclEntries =
     (if length resAclEntries = 0 then returnP ()
      else wrapP ''failed to add entries acl: ''
             (RetryImmediateOnError (k_polls K) isQuotaExceededError
                (invoke (KAddEntriesToAcl aclID resAclEntries) (k_AddEntriesToAcl K aclID resAclEntries))))"

definition getAclById :: "'w albsdk \<Rightarrow> string \<Rightarrow> ('w, sdk_acl_info) pv_prog" where
  "getAclById K aclId =
     bindP (pagesP (k_pages K) (\<lambda>nextToken. invoke (KListAcls [aclId] nextToken) (k_ListAcls K [aclId] nextToken)) []) (\<lambda>acls.
       case acls of [] \<Rightarrow> throwP (Errorf ''list acls failed with '') | acl # _ \<Rightarrow> returnP acl)"

definition waitAclStatus :: "'w albsdk \<Rightarrow> string \<Rightarrow> ('w, unit) pv_prog" where
  "waitAclStatus K aclId =
     WaitUntilStop (k_waits K) (bindP (getAclById K aclId) (\<lambda>sdkacl. returnP (kx_AclStatus sdkacl = ''Available'')))"

function add_entries_loop :: "nat \<Rightarrow> ('a list \<Rightarrow> ('s, unit) prog) \<Rightarrow> ('s, unit) prog \<Rightarrow> 'a list \<Rightarrow> ('s, unit) prog" where
  "add_entries_loop cnt single await entries =
     (if 0 < cnt \<and> cnt < length entries
      then bindP (single (take cnt entries)) (\<lambda>_. bindP await (\<lambda>_. add_entries_loop cnt single await (drop cnt entries)))
      else if length entries \<le> 0 then returnP ()
      else single entries)"
  by pat_completeness auto
termination add_entries_loop
  by (relation "measure (\<lambda>(cnt, single, await, entries). length entries)") auto

declare add_entries_loop.simps [simp del]

definition addEntriesToAcl :: "'w albsdk \<Rightarrow> string list \<Rightarrow> string \<Rightarrow> ('w, unit) pv_prog" where
  "addEntriesToAcl K resAclEntries aclID =
     (if length resAclEntries = 0 then returnP ()
      else add_entries_loop BatchAddEntriesToAclMaxNum (addEntriesToAclSingle K aclID) (waitAclStatus K aclID) resAclEntries)"

definition listAclEntries :: "'w albsdk \<Rightarrow> string \<Rightarrow> ('w, string list) pv_prog" where
  "listAclEntries K sdkAclID =
     pagesP (k_pages K) (\<lambda>nextToken. wrapP ''failed to list entries: ''
       (RetryImmediateOnError (k_polls K) isQuotaExceededError
          (invoke (KListAclEntries sdkAclID nextToken) (k_ListAclEntries K sdkAclID nextToken)))) []"

definition ListAclEntriesByID :: "'w albsdk \<Rightarrow> string \<Rightarrow> ('w, string list) pv_prog" where
  "ListAclEntriesByID K sdkAclID = listAclEntries K sdkAclID"

definition provider_ListAcl :: "'w albsdk \<Rightarrow> 'l option \<Rightarrow> string list \<Rightarrow> ('w, sdk_acl_info list) pv_prog" where
  "provider_ListAcl K listener aclIds =
     (if listener = None then throwP (Errorf ''invalid listener for listing acls'')
      else pagesP (k_pages K) (\<lambda>nextToken. invoke (KListAcls aclIds nextToken) (k_ListAcls K aclIds nextToken)) [])"

subsection \<open>Operations\<close>

definition matchResAndSDKAclEntries :: "string list \<Rightarrow> string list \<Rightarrow> string list \<times> string list" where
  "matchResAndSDKAclEntries resAclEntries sdkAclEntries =
     (sets_List (filter (\<lambda>e. e \<notin> set sdkAclEntries) resAclEntries), sets_List (filter (\<lambda>e. e \<notin> set resAclEntries) sdkAclEntries))"

text \<open>A step whose failure deletes the list, whatever comes of that.\<close>

definition or_delete_acl :: "'w albsdk \<Rightarrow> string \<Rightarrow> ('w, unit) pv_prog \<Rightarrow> ('w, unit) pv_prog" where
  "or_delete_acl K aclID m =
     bindP (tryP m) (\<lambda>r. case r of
       Inl err \<Rightarrow> bindP (tryP (deleteAcl K aclID)) (\<lambda>_. throwP err)
     | Inr _ \<Rightarrow> returnP ())"

definition provider_CreateAcl :: "'w albsdk \<Rightarrow> (id_token \<Rightarrow> string res) \<Rightarrow> provider_acl \<Rightarrow> ('w, string) pv_prog" where
  "provider_CreateAcl K R resAcl =
     bindP (createAcl K resAcl) (\<lambda>aclId.
     bindP (waitAclStatus K aclId) (\<lambda>_.
     bindP (or_delete_acl K aclId (addEntriesToAcl K (acl_Spec resAcl) aclId)) (\<lambda>_.
     bindP (or_delete_acl K aclId (waitAclStatus K aclId)) (\<lambda>_.
     bindP (or_delete_acl K aclId (provider_AssociateAclWithListener K R resAcl [aclId])) (\<lambda>_.
     returnP aclId)))))"

text \<open>The changes of a list, given the entries that the cloud has.\<close>

definition update_acl_entries ::
  "'w albsdk \<Rightarrow> (id_token \<Rightarrow> string res) \<Rightarrow> string \<Rightarrow> provider_acl \<Rightarrow> string \<Rightarrow> string list \<Rightarrow> ('w, unit) pv_prog" where
  "update_acl_entries K R listenerID resAcl aclId sdkAclEntries =
     (let (unmatchRes, unmatchSDK) = matchResAndSDKAclEntries (acl_Spec resAcl) sdkAclEntries
      in bindP (if length unmatchRes > 0 then addEntriesToAcl K unmatchRes aclId else returnP ()) (\<lambda>_.
         bindP (if length unmatchSDK > 0 then removeEntriesFromAcl K unmatchSDK aclId else returnP ()) (\<lambda>_.
         bindP (isAssociateAclWithListener K listenerID aclId) (\<lambda>isAssociated.
         if \<not> isAssociated then or_delete_acl K aclId (provider_AssociateAclWithListener K R resAcl [aclId])
         else returnP ()))))"

definition provider_UpdateAcl ::
  "'w albsdk \<Rightarrow> (id_token \<Rightarrow> string res) \<Rightarrow> string \<Rightarrow> provider_acl \<Rightarrow> sdk_acl_info \<Rightarrow> ('w, string) pv_prog" where
  "provider_UpdateAcl K R listenerID resAcl sdkAcl =
     bindP (listAclEntries K (kx_AclId sdkAcl)) (\<lambda>sdkAclEntries.
     bindP (update_acl_entries K R listenerID resAcl (kx_AclId sdkAcl) sdkAclEntries) (\<lambda>_.
     returnP (kx_AclId sdkAcl)))"

definition provider_DeleteAcl :: "'w albsdk \<Rightarrow> string \<Rightarrow> string \<Rightarrow> ('w, unit) pv_prog" where
  "provider_DeleteAcl K listenerID sdkAclID =
     bindP (provider_DisassociateAclWithListener K listenerID [sdkAclID]) (\<lambda>_. deleteAcl K sdkAclID)"

subsection \<open>Entries\<close>

definition is_entries_call :: "string \<Rightarrow> sdk_call \<Rightarrow> bool" where
  "is_entries_call aclID c \<longleftrightarrow>
     (case c of KAddEntriesToAcl i _ \<Rightarrow> i = aclID | KRemoveEntriesFromAcl i _ \<Rightarrow> i = aclID | _ \<Rightarrow> False)"

text \<open>What a request does to the entries of a list.\<close>

definition entries_effect :: "string \<Rightarrow> string set \<Rightarrow> sdk_call \<Rightarrow> string set" where
  "entries_effect aclID S c =
     (case c of
        KAddEntriesToAcl i es \<Rightarrow> if i = aclID then S \<union> set es else S
      | KRemoveEntriesFromAcl i es \<Rightarrow> if i = aclID then S - set es else S
      | _ \<Rightarrow> S)"

lemma entries_effects_filter: "foldl (entries_effect i) S cs = foldl (entries_effect i) S (filter (is_entries_call i) cs)"
proof (induction cs arbitrary: S)
  case (Cons c cs)
  have "\<not> is_entries_call i c \<Longrightarrow> entries_effect i S c = S"
    by (auto simp: is_entries_call_def entries_effect_def split: sdk_call.splits)
  with Cons show ?case by simp
qed simp

text \<open>Sending a request again changes nothing.\<close>

lemma effect_replicate: "0 < k \<Longrightarrow> foldl (entries_effect i) S (replicate k c) = entries_effect i S c"
proof (induction k)
  case (Suc k)
  have "entries_effect i (entries_effect i S c) c = entries_effect i S c"
    by (auto simp: entries_effect_def split: sdk_call.split)
  then have "foldl (entries_effect i) (entries_effect i S c) (replicate k c) = entries_effect i S c" for k
    by (induction k) auto
  then show ?case by simp
qed simp

lemma effects_resent:
  assumes "resent n es ds"
  shows "foldl (entries_effect i) S ds = foldl (entries_effect i) S es"
proof -
  from assms obtain ks where "length ks = length es" "\<forall>k \<in> set ks. 0 < k" "ds = concat (map2 replicate ks es)"
    by (auto simp: resent_def)
  then show ?thesis
    by (induction ks es arbitrary: S ds rule: list_induct2) (auto simp: effect_replicate)
qed

lemma effects_added: "foldl (entries_effect i) S (map (KAddEntriesToAcl i) ps) = S \<union> set (concat ps)"
  by (induction ps arbitrary: S) (auto simp: entries_effect_def)

lemma effects_removed: "foldl (entries_effect i) S (map (KRemoveEntriesFromAcl i) ps) = S - set (concat ps)"
  by (induction ps arbitrary: S) (auto simp: entries_effect_def)

lemma sends_add_loop:
  assumes "0 < cnt" and single: "\<And>c. c \<noteq> [] \<Longrightarrow> sends P n (single c) [w c]"
    and await: "only_calls (\<lambda>c. \<not> P c) await"
  shows "sends P n (add_entries_loop cnt single await xs) (map w (chunks cnt xs))"
proof (induction "length xs" arbitrary: xs rule: less_induct)
  case less
  have step: "sends P n (bindP (single c) (\<lambda>_. bindP await (\<lambda>_. m))) (w c # ds)" if "c \<noteq> []" "sends P n m ds" for c m ds
    using sends_bind [OF single [OF that(1)] sends_bind [OF sends_only [OF await] that(2)]] by simp
  show ?case
  proof (cases "cnt < length xs")
    case True
    then have "xs \<noteq> []" by auto
    moreover have "sends P n (add_entries_loop cnt single await (drop cnt xs)) (map w (chunks cnt (drop cnt xs)))"
      using True assms(1) by (intro less) auto
    ultimately show ?thesis
      using True assms(1) unfolding chunks.simps [of cnt xs] add_entries_loop.simps [of cnt single await xs]
      by (auto intro!: step)
  next
    case False
    with assms(1) single [of xs] show ?thesis
      by (cases "xs = []")
        (auto simp: add_entries_loop.simps [of cnt single await xs] add_entries_loop.simps [of cnt single await "[]"]
          chunks.simps [of cnt xs] chunks.simps [of cnt "[]"] sends_return)
  qed
qed

lemma wait_acl_only: "only_calls (\<lambda>c. \<not> is_entries_call i c) (waitAclStatus K j)"
  unfolding waitAclStatus_def getAclById_def
  by (intro emits_intros) (auto intro!: emits_intros simp: is_entries_call_def split: list.split)

lemma sends_add:
  assumes "xs \<noteq> []"
  shows "sends (is_entries_call i) (k_polls K) (addEntriesToAcl K xs i) (map (KAddEntriesToAcl i) (chunks 20 xs))"
proof -
  have "sends (is_entries_call i) (k_polls K) (addEntriesToAclSingle K i c) [KAddEntriesToAcl i c]" if "c \<noteq> []" for c
    using that by (auto simp: addEntriesToAclSingle_def is_entries_call_def intro!: sends_wrap sends_retry)
  with assms show ?thesis
    by (simp add: addEntriesToAcl_def BatchAddEntriesToAclMaxNum_def sends_add_loop wait_acl_only)
qed

lemma sends_remove:
  "sends (is_entries_call i) (k_polls K) (removeEntriesFromAcl K xs i) (map (KRemoveEntriesFromAcl i) (chunks 20 xs))"
proof -
  have "sends (is_entries_call i) (k_polls K) (removeEntriesFromAclSingle K i c) [KRemoveEntriesFromAcl i c]" for c
    by (auto simp: removeEntriesFromAclSingle_def is_entries_call_def intro!: sends_wrap sends_retry)
  then have "sends (is_entries_call i) (k_polls K) (forP (removeEntriesFromAclSingle K i) (chunks 20 xs))
      (concat (map (\<lambda>c. [KRemoveEntriesFromAcl i c]) (chunks 20 xs)))"
    by (rule sends_for)
  then show ?thesis by (simp add: removeEntriesFromAcl_def BatchRemoveEntriesToAclMaxNum_def Batch_loop_chunks)
qed

lemma resent_set: "resent n es ds \<Longrightarrow> set ds \<subseteq> set es"
proof -
  assume "resent n es ds"
  then obtain ks where "length ks = length es" "ds = concat (map2 replicate ks es)" by (auto simp: resent_def)
  then show "set ds \<subseteq> set es" by (induction ks es arbitrary: ds rule: list_induct2) auto
qed

lemma associate_only:
  "only_calls (\<lambda>c. \<not> is_entries_call i c) (isAssociateAclWithListener K l j)"
  "only_calls (\<lambda>c. \<not> is_entries_call i c) (or_delete_acl K j (provider_AssociateAclWithListener K R acl ids))"
  unfolding isAssociateAclWithListener_def or_delete_acl_def provider_AssociateAclWithListener_def deleteAcl_def
  by (auto intro!: emits_intros simp: is_entries_call_def split: list.split sum.split)

lemma sends_update_entries:
  "sends (is_entries_call i) (k_polls K) (update_acl_entries K R l acl i current)
     (map (KAddEntriesToAcl i) (chunks 20 (fst (matchResAndSDKAclEntries (acl_Spec acl) current))) @
      map (KRemoveEntriesFromAcl i) (chunks 20 (snd (matchResAndSDKAclEntries (acl_Spec acl) current))))"
proof -
  have none: "chunks 20 [] = ([] :: string list list)" by (simp add: chunks.simps [of 20 "[]"])
  have add: "sends (is_entries_call i) (k_polls K) (if length xs > 0 then addEntriesToAcl K xs i else returnP ())
      (map (KAddEntriesToAcl i) (chunks 20 xs))" for xs
    by (cases "xs = []") (auto simp: none sends_return intro!: sends_add)
  have remove: "sends (is_entries_call i) (k_polls K) (if length xs > 0 then removeEntriesFromAcl K xs i else returnP ())
      (map (KRemoveEntriesFromAcl i) (chunks 20 xs))" for xs
    by (cases "xs = []") (auto simp: none sends_return intro!: sends_remove)
  have rest: "sends (is_entries_call i) (k_polls K) (bindP (isAssociateAclWithListener K l i) (\<lambda>isAssociated.
      if \<not> isAssociated then or_delete_acl K i (provider_AssociateAclWithListener K R acl [i]) else returnP ())) []"
    by (intro sends_only emits_intros associate_only TrueI)
  from sends_bind [OF add sends_bind [OF remove rest]] show ?thesis
    by (simp add: update_acl_entries_def case_prod_beta Let_def)
qed

text \<open>
  (C4) Updating an access control list that the cloud has makes its entries the wanted ones:
  the requests of a successful update, each of at most twenty entries, turn the entries that
  the cloud reported into exactly those of the specification.
\<close>

theorem acl_entries_converge:
  assumes list: "listAclEntries K (kx_AclId sdk) s = (Inr current, u)"
    and run: "provider_UpdateAcl K R lsID acl sdk s = (Inr x, t)"
  shows "\<exists>cs. fx_calls t = fx_calls s @ cs \<and>
    foldl (entries_effect (kx_AclId sdk)) (set current) cs = set (acl_Spec acl) \<and>
    (\<forall>c \<in> set cs. \<forall>es. c = KAddEntriesToAcl (kx_AclId sdk) es \<or> c = KRemoveEntriesFromAcl (kx_AclId sdk) es \<longrightarrow>
       1 \<le> length es \<and> length es \<le> 20)"
proof -
  let ?i = "kx_AclId sdk" and ?add = "fst (matchResAndSDKAclEntries (acl_Spec acl) current)"
    and ?del = "snd (matchResAndSDKAclEntries (acl_Spec acl) current)"
  let ?plan = "map (KAddEntriesToAcl ?i) (chunks 20 ?add) @ map (KRemoveEntriesFromAcl ?i) (chunks 20 ?del)"
  have plan: "sends (is_entries_call ?i) (k_polls K) (update_acl_entries K R lsID acl ?i current) ?plan"
    by (rule sends_update_entries)
  have "only_calls (\<lambda>c. \<not> is_entries_call ?i c) (listAclEntries K ?i)"
    unfolding listAclEntries_def by (intro emits_intros TrueI) (simp add: is_entries_call_def)
  then obtain as where as: "fx_calls u = fx_calls s @ as" "\<forall>c \<in> set as. \<not> is_entries_call ?i c"
    using list by (rule emitsD) blast
  from run list obtain y where "update_acl_entries K R lsID acl ?i current u = (Inr y, t)"
    by (auto simp: provider_UpdateAcl_def bindP_Inr_iff returnP_def)
  with plan obtain ds where ds: "fx_calls t = fx_calls u @ ds" "resent (k_polls K) ?plan (filter (is_entries_call ?i) ds)"
    by (metis sendsD)
  have calls: "filter (is_entries_call ?i) (as @ ds) = filter (is_entries_call ?i) ds" using as(2) by auto
  have "foldl (entries_effect ?i) (set current) (as @ ds) = set current \<union> set ?add - set ?del"
    unfolding entries_effects_filter [of ?i "set current" "as @ ds"] calls effects_resent [OF ds(2)]
    by (simp only: foldl_append effects_added effects_removed concat_chunks)
  also have "\<dots> = set (acl_Spec acl)" by (auto simp: matchResAndSDKAclEntries_def set_sets_List)
  finally have "foldl (entries_effect ?i) (set current) (as @ ds) = set (acl_Spec acl)" .
  moreover have "1 \<le> length es \<and> length es \<le> 20"
    if "c \<in> set (as @ ds)" "c = KAddEntriesToAcl ?i es \<or> c = KRemoveEntriesFromAcl ?i es" for c es
  proof -
    have "c \<in> set (filter (is_entries_call ?i) (as @ ds))" using that by (auto simp: is_entries_call_def)
    then have "c \<in> set ?plan" unfolding calls using resent_set [OF ds(2)] by blast
    with that(2) have "es \<in> set (chunks 20 ?add) \<union> set (chunks 20 ?del)" by auto
    then show ?thesis using chunks_bounds [of 20 es] by (auto simp: Suc_le_eq)
  qed
  ultimately show ?thesis using as(1) ds(1) by (intro exI [of _ "as @ ds"]) auto
qed

definition demo_acl_spec :: provider_acl where
  "demo_acl_spec = \<lparr>acl_ID = ''443'', acl_ListenerID = LiteralToken ''lsn-1'', acl_AclName = ''acl'', acl_AclType = ''White'',
     acl_AclIds = [], acl_Spec = [''10.0.0.0/8'', ''192.168.0.0/16''], acl_Status = None\<rparr>"

theorem acl_entries_converge_witness:
  "\<exists>cs. fx_calls (snd (provider_UpdateAcl (demo_sdk ''Succeeded'' False) demo_resolve ''lsn-1'' demo_acl_spec demo_acl demo_state)) = cs \<and>
     foldl (entries_effect ''acl-1'') {''10.0.0.0/8'', ''10.1.0.0/16''} cs = {''10.0.0.0/8'', ''192.168.0.0/16''}"
proof -
  let ?K = "demo_sdk ''Succeeded'' False"
  have id: "kx_AclId demo_acl = ''acl-1''" by (simp add: demo_acl_def)
  have list: "fst (listAclEntries ?K ''acl-1'' demo_state) = Inr [''10.0.0.0/8'', ''10.1.0.0/16'']" by code_simp
  have run: "fst (provider_UpdateAcl ?K demo_resolve ''lsn-1'' demo_acl_spec demo_acl demo_state) = Inr ''acl-1''" by code_simp
  from list run obtain u t where
    "listAclEntries ?K (kx_AclId demo_acl) demo_state = (Inr [''10.0.0.0/8'', ''10.1.0.0/16''], u)"
    "provider_UpdateAcl ?K demo_resolve ''lsn-1'' demo_acl_spec demo_acl demo_state = (Inr ''acl-1'', t)"
    by (metis id prod.collapse)
  from acl_entries_converge [OF this] this(2) show ?thesis
    by (auto simp: id demo_acl_spec_def)
qed

end
