(* ===== verification/Spec2Isabelle.thy ===== *)
theory Spec2Isabelle
  imports Event_Handlers Albconfig_Applier Group_Loader Endpoint_Resolver Provider_Rules
    Provider_Load_Balancers Provider_Acls
begin

text \<open>
  Verification of the Alibaba Cloud load balancer controller (\<open>src/pkg\<close>, written in Go).

  \<^bold>\<open>The program.\<close>  The controller runs in a Kubernetes cluster and keeps load balancers
  in the cloud in line with objects of the cluster.  It has two halves.  The service
  controller (\<open>pkg/controller/service\<close>) serves Services of class \<open>alibabacloud.com/nlb\<close>
  with network load balancers (NLB): event handlers put service names on a work queue,
  the reconciler takes a name, builds the model of the load balancer the service asks
  for from the service, its annotations, endpoints and nodes, reads what the cloud has,
  and sends the requests that remove the difference.  The ingress controller
  (\<open>pkg/controller/ingress\<close>) does the same for Ingresses with application load balancers
  (ALB): it loads the ingresses of a group, builds the wanted resources from them and their
  AlbConfig in a stack with a dependency graph (\<open>pkg/model/alb/core\<close>), and then applies
  them kind by kind.

  \<^bold>\<open>How code is modelled.\<close>  Pure Go functions are HOL functions with the source's names.
  A Go error is a value of the sum type \<open>res\<close>; a nil dereference or a division by zero
  is \<open>Panic\<close>, which no error check catches.  A method that talks to the cloud or to the
  API server is a \<open>prog\<close>: a function from a state to a result and a state.  The cloud
  (interface \<open>prvd.Provider\<close>) and the Kubernetes client are a record of operations over
  an arbitrary world (\<open>Nlb_Cloud.cloud\<close>); every operation is a parameter, every call is
  appended to a log, and a theorem about requests is a theorem about that log, for every
  behaviour of the cloud.  \<open>only_calls P m\<close> says which calls \<open>m\<close> can make, \<open>follows m cs\<close>
  that a successful run makes exactly the calls \<open>cs\<close> and a failing one a prefix of them.
  A method that changes an object through a pointer returns the object.  Go maps are
  association lists with one entry per key (\<open>smap\<close>), and where the order of ranging over
  a map can be observed it is a parameter (\<open>iter\<close>).  32-bit integers are integers with
  the wrap-around written out (\<open>to_int32\<close>).  Error messages keep the literal words and
  the wrapped message and leave out the printed values.

  \<^bold>\<open>Theories\<close>, in import order:

  \<^item> \<open>Prelude\<close>, \<open>Go_Base\<close>: results, programs, the call log and its logic; Go's \<open>strings\<close>,
    \<open>strconv\<close>, integers, maps and pointers to values.
  \<^item> \<open>K8s_Helper\<close>: objects of the cluster and \<open>pkg/controller/helper\<close> (\<open>service_utils.go\<close>,
    \<open>node_utils.go\<close>, part of \<open>finalizer.go\<close>) and \<open>pkg/util/utils.go\<close>.
  \<^item> \<open>Annotations\<close>: \<open>service/reconcile/annotation/annotations.go\<close>.
  \<^item> \<open>Nlb_Model\<close>: \<open>pkg/model/nlb/nlb.go\<close>; the locale \<open>named_key_codec\<close> and its extension
    \<open>exact_named_key_codec\<close> state what a key codec promises, interpreted for listener and
    server group keys.
  \<^item> \<open>Nlb_Cloud\<close>: the boundary to cloud and API server.
  \<^item> \<open>Backends\<close>: \<open>service/reconcile/backend/backend.go\<close>, with \<open>Batch\<close> proved equal to
    visiting the pieces of the list in order.
  \<^item> \<open>Server_Weights\<close>, \<open>Server_Groups\<close>, \<open>Server_Group_Sync\<close>: \<open>service/server_groups.go\<close>, that
    is, weights; building server groups; comparing them with the cloud and sending the
    difference.
  \<^item> \<open>Attribute_Merge\<close>: the update pattern the managers share (copy the remote object,
    overwrite what differs, remember whether something did) with its contract as the
    locale \<open>attribute_merge\<close>, interpreted for health checks, server groups and listeners.
  \<^item> \<open>Listeners\<close>, \<open>Load_Balancers\<close>: \<open>service/listeners.go\<close>, \<open>service/loadbalancer.go\<close>.
  \<^item> \<open>Model_Applier\<close>: \<open>service/model_builder.go\<close>, \<open>service/model_applier.go\<close>.
  \<^item> \<open>Nlb_Controller\<close>: \<open>service/nlb_controller.go\<close>, \<open>helper/finalizer.go\<close>.
  \<^item> \<open>Event_Handlers\<close>: \<open>service/event_handler.go\<close>.
  \<^item> \<open>Resource_Graph\<close>: \<open>model/alb/core/graph\<close>; the interface \<open>ResourceGraph\<close> is the locale
    \<open>graph_interface\<close>, interpreted for the default graph.
  \<^item> \<open>Resource_Stack\<close>: the rest of \<open>model/alb/core\<close>, with the stack invariant and the
    traversal of a stack.
  \<^item> \<open>Go_Pool\<close>: pools of goroutines bounded by a channel, under an arbitrary scheduler; what
    a pool calls, keeps, reaches, and that it ends.
  \<^item> \<open>Keyed_Match\<close>: matching wanted with existing resources by key; the locales \<open>keyed_match\<close>
    and \<open>grouped_match\<close> state the contract that all appliers rely on.
  \<^item> \<open>Alb_Model\<close>: resources (\<open>pkg/model/alb\<close>), objects of the SDK, provider interface, state
    of an applier, tags (\<open>ingress/reconcile/tracking\<close>).
  \<^item> \<open>Alb_Matching\<close>: the functions \<open>matchResAndSDK...\<close> of \<open>ingress/reconcile/applier\<close>, with the
    interpretations of the two locales.
  \<^item> \<open>Alb_Servers\<close> (\<open>server.go\<close>, \<open>console_service.go\<close>), \<open>Alb_Listeners\<close> (\<open>listener.go\<close>),
    \<open>Alb_Rules\<close> (\<open>rule.go\<close>), \<open>Alb_Load_Balancers\<close> (\<open>alb.go\<close>), \<open>Alb_Acls\<close> (\<open>acl.go\<close>, \<open>secret.go\<close>),
    \<open>Alb_Server_Groups\<close> (\<open>server_group.go\<close>): one applier each.
  \<^item> \<open>Albconfig_Applier\<close>: the appliers of a stack in their order (\<open>albconfig.go\<close>) and the
    servers of a service (\<open>service.go\<close>).
  \<^item> \<open>Ingress_Annotations\<close>: \<open>ingress/reconcile/annotations/annotations.go\<close>.
  \<^item> \<open>Alb_Specs\<close>: the specifications, actions and conditions of \<open>pkg/model/alb/alb.go\<close>, the
    action types of \<open>configcache\<close> and the part of the AlbConfig that the builder reads.
  \<^item> \<open>Build_Server_Groups\<close>, \<open>Build_Rule_Actions\<close>, \<open>Build_Rules\<close>, \<open>Build_Listeners\<close>,
    \<open>Model_Build\<close>: the model builder \<open>builder/albconfig_manager\<close>, file by file.  The judgement
    \<open>builds\<close> of \<open>Build_Server_Groups\<close> says that a step keeps the stack closed under references
    and its dependencies ranked by kind; every step of the builder is proved to satisfy it.
  \<^item> \<open>Group_Loader\<close>: ingress groups (\<open>group_loader.go\<close>) and their finalizers
    (\<open>finalizer.go\<close>).
  \<^item> \<open>Endpoint_Resolver\<close>: the backends of a service port in the three traffic modes
    (\<open>ingress/reconcile/backend\<close>) and the stack of a service (\<open>builder/service_manager\<close>).
  \<^item> \<open>Alb_Sdk\<close>: the operations of the cloud's SDK that the ALB provider calls, paging, retries and
    waiting; \<open>Provider_Servers\<close> (\<open>server.go\<close>, \<open>future\<close>), \<open>Provider_Server_Groups\<close>
    (\<open>server_group.go\<close>, \<open>tagging.go\<close>), \<open>Provider_Listeners\<close> (\<open>listener.go\<close>), \<open>Provider_Rules\<close>
    (\<open>rule.go\<close>), \<open>Provider_Load_Balancers\<close> (\<open>alb.go\<close>), \<open>Provider_Acls\<close> (\<open>acl.go\<close>): the implementation \<open>pkg/provider/alibaba/alb\<close> of the operations that the
    appliers take as parameters.

  \<^bold>\<open>Concurrency.\<close>  A goroutine of an applier is a sequence of atomic steps: a request to
  the provider with the check of its result, or an access to a variable that the
  goroutines share.  In \<open>acl.go\<close> the requests for one list of a listener, and everywhere the
  requests about the pods of one group, form one step; they touch no shared variable.  The
  scheduler picks the next step at every point, and the theorems about pools hold for
  every scheduler.

  \<^bold>\<open>What is shown.\<close>  For server groups and listeners: the comparison settles after one
  round and reports exactly the changes; the server difference converges; the requests
  are exactly the planned ones, in order and in bounded pieces; listeners and server
  groups of others are never deleted.  For the reconciler: a load balancer is deleted
  only for a service that gave it up and did not bring it; the finalizer is added before
  the first write and removed only after the resources are gone; an unchanged service
  leads to writes on server groups only; retries are bounded.  For the event handlers: no
  change of a service is dropped, and what the node comparisons see and miss.  For
  weights, names, keys, zone mappings and endpoint slices: totals, bounds and round
  trips.  For the resource graph: the traversal ends, visits dependencies first, and
  detects cycles.  For the ingress appliers: servers converge to the endpoints, listeners
  change in phases, rules in ordered batches, every certificate gets its id, the load
  balancer gets exactly the requests its state calls for, and server groups are deleted
  last.  For the builder: every stack it returns is well typed, closed under references and
  acyclic, so it can be applied in order; rules are numbered without gaps in the order of
  the paths; actions are in the order the load balancer wants; forward weights add up to
  100; listen ports are valid; discovered certificates match their hosts; groups are
  sorted.  For the provider: servers and rules are sent completely, in bounded batches and with
  bounded repetitions, or not at all if one is invalid; the certificates of a listener, the
  entries of an access control list and the tags of a load balancer converge; a load balancer
  of somebody else is not reused; a new server group is tagged or deleted again; the different conversions of a rule
  agree; listings return all pages.  A few theorems state where the code does not do what it means to;
  their texts say so.

  \<^bold>\<open>Bounds.\<close>  Every loop is structural recursion or has a termination proof, except the loops
  over the pages of a listing in the provider, which end only if the cloud ends its pages, and
  the wait for an access control list, which has no timeout.  The first take a fuel \<open>k_pages\<close>,
  any number; \<open>pagesP_complete\<close> shows that it is enough whenever it is at least the number of
  pages the cloud answers with.  The wait takes a fuel \<open>k_waits\<close>; \<open>WaitUntilStop_enough\<close> shows that
  a larger one gives the same result.  The retry loops take their number of
  attempts from the sources (three for the service status, four for \<open>retry.DefaultBackoff\<close>);
  polling with a timeout makes an arbitrary number \<open>k_polls\<close> of attempts.  Sorting node
  conditions is modelled as the insertion sort that \<open>sort.SliceStable\<close> performs on up to twenty
  elements.

  \<^bold>\<open>Not modelled.\<close>  The provider implementations for NLB and the other services of the cloud, the
  metadata service, the SDK, the object hash, JSON decoders, x509 and
  digests (parameters), logging, metrics, waiting times, controller construction, the JSON of
  patches and of schemas, and, of the ingress half, the store and the controller.
\<close>

end
